(* ===== verification/Prelude.thy ===== *)
theory Prelude
  imports Complex_Main "HOL-Library.Word" "HOL-Library.AList" "HOL-Library.Sublist"
    "HOL-Library.Signed_Division" "HOL-Library.List_Lexorder" "HOL-Library.Char_ord"
begin

text \<open>
  Shared material of the development: the C++ exceptions as values, the decimal printing and
  reading of integers (\<^verbatim>\<open>std::to_string\<close>, \<^verbatim>\<open>std::stoi\<close>), substring search, the maps the
  services keep (\<^verbatim>\<open>std::map\<close>, \<^verbatim>\<open>std::unordered_map\<close>) as association lists, and the JSON values
  the services build. What the code takes from outside the repository (the JSON library's
  accessors and printer, the SHA-256 of OpenSSL) is a record of functions, \<open>extern\<close>, that the
  definitions using it take as an argument.
\<close>

named_theorems cxx_simps \<open>unfolding rules of the operations of a component\<close>
named_theorems inv_intros \<open>preservation of a component's invariant, one rule per operation\<close>

section \<open>Exceptions, machine integers\<close>

text \<open>What the C++ code may throw; a fallible operation returns \<open>exn + 'a\<close>.\<close>

datatype exn = Invalid_argument | Out_of_range | Json_error

type_synonym 'a result = "exn + 'a"

text \<open>\<^verbatim>\<open>int\<close> has 32 bits and \<^verbatim>\<open>long\<close> 64 on the targets; signed overflow is undefined
  behaviour, so the models compute in \<open>int\<close> and bounds are theorems.\<close>

definition int32 :: "int \<Rightarrow> bool" where
  "int32 i \<longleftrightarrow> - (2 ^ 31) \<le> i \<and> i < 2 ^ 31"

definition int64 :: "int \<Rightarrow> bool" where
  "int64 i \<longleftrightarrow> - (2 ^ 63) \<le> i \<and> i < 2 ^ 63"

lemma sdiv_pos: "0 \<le> a \<Longrightarrow> 0 < b \<Longrightarrow> (a::int) sdiv b = a div b"
  by (cases "a = 0") (simp_all add: signed_divide_int_def)

text \<open>Sequencing: the first exception ends the computation.\<close>

definition bind_result :: "'a result \<Rightarrow> ('a \<Rightarrow> 'b result) \<Rightarrow> 'b result" where
  "bind_result r f = (case r of Inl e \<Rightarrow> Inl e | Inr x \<Rightarrow> f x)"

lemma bind_result_simps [simp]: "bind_result (Inl e) f = Inl e" "bind_result (Inr x) f = f x"
  by (simp_all add: bind_result_def)

section \<open>Strings\<close>

abbreviation dquote :: char where "dquote \<equiv> CHR 0x22"

definition quoted :: "string \<Rightarrow> string" where
  "quoted s = dquote # s @ [dquote]"

definition digit_char :: "nat \<Rightarrow> char" where
  "digit_char d = char_of (48 + d)"

definition is_digit :: "char \<Rightarrow> bool" where
  "is_digit c \<longleftrightarrow> 48 \<le> (of_char c :: nat) \<and> (of_char c :: nat) \<le> 57"

definition digit_val :: "char \<Rightarrow> nat" where
  "digit_val c = of_char c - 48"

fun dec_nat :: "nat \<Rightarrow> string" where
  "dec_nat n = (if n < 10 then [digit_char n] else dec_nat (n div 10) @ [digit_char (n mod 10)])"

declare dec_nat.simps [simp del]

text \<open>\<^verbatim>\<open>std::to_string\<close> and the stream insertion of an integer.\<close>

definition to_string :: "int \<Rightarrow> string" where
  "to_string i = (if i < 0 then CHR ''-'' # dec_nat (nat (- i)) else dec_nat (nat i))"

definition digits_value :: "string \<Rightarrow> nat" where
  "digits_value ds = foldl (\<lambda>n c. 10 * n + digit_val c) 0 ds"

definition is_space :: "char \<Rightarrow> bool" where
  "is_space c \<longleftrightarrow> c \<in> {CHR 0x20, CHR 0x09, CHR 0x0A, CHR 0x0B, CHR 0x0C, CHR 0x0D}"

text \<open>\<^verbatim>\<open>std::stoi\<close> and \<^verbatim>\<open>std::stol\<close>: leading white space, a sign, then the longest run of digits; no
  digit is \<open>Invalid_argument\<close>, a value that is not in the range of the type is \<open>Out_of_range\<close>.\<close>

definition sto :: "(int \<Rightarrow> bool) \<Rightarrow> string \<Rightarrow> int result" where
  "sto in_range s =
     (let r = dropWhile is_space s;
          neg = (r \<noteq> [] \<and> hd r = CHR ''-'');
          body = (if r \<noteq> [] \<and> hd r \<in> {CHR ''-'', CHR ''+''} then tl r else r);
          ds = takeWhile is_digit body;
          v = (if neg then - int (digits_value ds) else int (digits_value ds))
      in if ds = [] then Inl Invalid_argument else if in_range v then Inr v else Inl Out_of_range)"

definition stoi :: "string \<Rightarrow> int result" where "stoi = sto int32"

definition stol :: "string \<Rightarrow> int result" where "stol = sto int64"

text \<open>\<open>after p s\<close>: what follows the first occurrence of \<open>p\<close> in \<open>s\<close>, that is
  \<^verbatim>\<open>s.substr(s.find(p) + p.size())\<close>, and \<open>None\<close> for \<^verbatim>\<open>npos\<close>.\<close>

fun after :: "string \<Rightarrow> string \<Rightarrow> string option" where
  "after p [] = (if p = [] then Some [] else None)"
| "after p (c # cs) =
     (if prefix p (c # cs) then Some (drop (length p) (c # cs)) else after p cs)"

definition contains :: "string \<Rightarrow> string \<Rightarrow> bool" where
  "contains p s \<longleftrightarrow> after p s \<noteq> None"

text \<open>\<^verbatim>\<open>std::hex\<close> output, and two digits per byte of a digest.\<close>

definition hex_digit :: "nat \<Rightarrow> char" where
  "hex_digit d = (if d < 10 then char_of (48 + d) else char_of (87 + d))"

fun hex_nat :: "nat \<Rightarrow> string" where
  "hex_nat n = (if n < 16 then [hex_digit n] else hex_nat (n div 16) @ [hex_digit (n mod 16)])"

declare hex_nat.simps [simp del]

definition hex_byte :: "nat \<Rightarrow> string" where
  "hex_byte b = [hex_digit (b div 16), hex_digit (b mod 16)]"

text \<open>\<^verbatim>\<open>prefix + "-" + std::to_string(n + 1)\<close>, the id scheme of every service.\<close>

definition id_for :: "string \<Rightarrow> nat \<Rightarrow> string" where
  "id_for p n = p @ ''-'' @ to_string (int n + 1)"

lemma digit_val_char [simp]: "d < 10 \<Longrightarrow> digit_val (digit_char d) = d"
  by (simp add: digit_val_def digit_char_def)

lemma is_digit_char [simp]: "d < 10 \<Longrightarrow> is_digit (digit_char d)"
  by (simp add: is_digit_def digit_char_def)

lemma dec_nat_digits: "c \<in> set (dec_nat n) \<Longrightarrow> is_digit c"
proof (induction n rule: dec_nat.induct)
  case (1 n)
  then show ?case by (auto simp: dec_nat.simps [of n] split: if_splits)
qed

lemma dec_nat_nonempty [simp]: "dec_nat n \<noteq> []"
  by (subst dec_nat.simps) simp

lemma digits_value_dec_nat [simp]: "digits_value (dec_nat n) = n"
proof (induction n rule: dec_nat.induct)
  case (1 n)
  show ?case
  proof (cases "n < 10")
    case True
    then show ?thesis by (simp add: dec_nat.simps [of n] digits_value_def)
  next
    case False
    with 1 have "digits_value (dec_nat (n div 10)) = n div 10" by simp
    with False show ?thesis by (simp add: dec_nat.simps [of n] digits_value_def)
  qed
qed

lemma dec_nat_inj [simp]: "dec_nat m = dec_nat n \<longleftrightarrow> m = n"
  by (metis digits_value_dec_nat)

lemma digit_not_special: "is_digit c \<Longrightarrow> c \<notin> {dquote, CHR '','', CHR ''}'', CHR ''-'', CHR '' '', CHR ''+'', CHR 0x0A}"
  by (auto simp: is_digit_def)

lemma digit_not_space: "is_digit c \<Longrightarrow> \<not> is_space c"
  by (auto simp: is_digit_def is_space_def)

lemma set_to_string: "c \<in> set (to_string i) \<Longrightarrow> is_digit c \<or> c = CHR ''-''"
  by (auto simp: to_string_def dest: dec_nat_digits split: if_splits)

lemma to_string_plain:
  "dquote \<notin> set (to_string i)" "CHR '','' \<notin> set (to_string i)" "CHR ''}'' \<notin> set (to_string i)"
  "CHR 0x0A \<notin> set (to_string i)"
  using set_to_string [of _ i] digit_not_special by auto

lemma to_string_nonempty [simp]: "to_string i \<noteq> []"
  by (simp add: to_string_def)

lemma takeWhile_dec_nat [simp]: "takeWhile is_digit (dec_nat n) = dec_nat n"
  by (auto intro: takeWhile_eq_all_conv [THEN iffD2] dest: dec_nat_digits)

lemma hd_dec_nat: "is_digit (hd (dec_nat n))"
  using dec_nat_digits [of "hd (dec_nat n)" n] by simp

lemma dropWhile_space_dec_nat [simp]: "dropWhile is_space (dec_nat n) = dec_nat n"
  using hd_dec_nat [of n] digit_not_space by (cases "dec_nat n") auto

text \<open>Printing and reading an integer is the identity.\<close>

lemma sto_to_string: "in_range i \<Longrightarrow> sto in_range (to_string i) = Inr i"
proof (cases "i < 0")
  case True
  assume "in_range i"
  moreover have "dropWhile is_space (CHR ''-'' # dec_nat (nat (- i))) = CHR ''-'' # dec_nat (nat (- i))"
    by (simp add: is_space_def)
  ultimately show ?thesis using True by (simp add: sto_def to_string_def Let_def)
next
  case False
  assume "in_range i"
  moreover have "hd (dec_nat (nat i)) \<noteq> CHR ''-''" "hd (dec_nat (nat i)) \<noteq> CHR ''+''"
    using digit_not_special [OF hd_dec_nat [of "nat i"]] by auto
  ultimately show ?thesis using False by (simp add: sto_def to_string_def Let_def)
qed

lemma stoi_to_string: "int32 i \<Longrightarrow> stoi (to_string i) = Inr i"
  by (simp add: stoi_def sto_to_string)

lemma stol_to_string: "int64 i \<Longrightarrow> stol (to_string i) = Inr i"
  by (simp add: stol_def sto_to_string)

lemma to_string_inj [simp]: "to_string i = to_string j \<longleftrightarrow> i = j"
proof
  assume eq: "to_string i = to_string j"
  have "hd (to_string k) = CHR ''-'' \<longleftrightarrow> k < 0" for k
    using digit_not_special [OF hd_dec_nat [of "nat k"]] by (auto simp: to_string_def)
  with eq have "i < 0 \<longleftrightarrow> j < 0" by metis
  with eq show "i = j" by (auto simp: to_string_def split: if_splits)
qed simp

lemma id_for_inj [simp]: "id_for p m = id_for p n \<longleftrightarrow> m = n"
  by (simp add: id_for_def)

lemma id_for_nonempty [simp]: "id_for p n \<noteq> []"
  by (simp add: id_for_def)

section \<open>Maps as association lists\<close>

text \<open>A \<^verbatim>\<open>std::unordered_map\<close> is an association list with distinct keys; the list order is the
  iteration order, which the standard leaves open, and \<open>put\<close> adds a new key at the end.\<close>

type_synonym ('k, 'v) amap = "('k \<times> 'v) list"

definition get :: "('k, 'v) amap \<Rightarrow> 'k \<Rightarrow> 'v option" where
  "get m k = map_of m k"

definition put :: "'k \<Rightarrow> 'v \<Rightarrow> ('k, 'v) amap \<Rightarrow> ('k, 'v) amap" where
  "put k v m = AList.update k v m"

definition del :: "'k \<Rightarrow> ('k, 'v) amap \<Rightarrow> ('k, 'v) amap" where
  "del k m = AList.delete k m"

definition vals :: "('k, 'v) amap \<Rightarrow> 'v list" where
  "vals m = map snd m"

text \<open>The contract of a map: what every operation does to the lookup.\<close>

locale finite_map =
  fixes lookup :: "'m \<Rightarrow> 'k \<Rightarrow> 'v option"
    and insert_at :: "'k \<Rightarrow> 'v \<Rightarrow> 'm \<Rightarrow> 'm"
    and remove_at :: "'k \<Rightarrow> 'm \<Rightarrow> 'm"
  assumes lookup_insert: "lookup (insert_at k v m) k' = (if k' = k then Some v else lookup m k')"
    and lookup_remove: "lookup (remove_at k m) k' = (if k' = k then None else lookup m k')"
begin

lemma lookup_insert_same: "lookup (insert_at k v m) k = Some v"
  by (simp add: lookup_insert)

lemma lookup_insert_other: "k' \<noteq> k \<Longrightarrow> lookup (insert_at k v m) k' = lookup m k'"
  by (simp add: lookup_insert)

lemma keys_insert: "{k'. lookup (insert_at k v m) k' \<noteq> None} = insert k {k'. lookup m k' \<noteq> None}"
  by (auto simp: lookup_insert split: if_splits)

end

interpretation am: finite_map get put del
  by unfold_locales (simp_all add: get_def put_def del_def update_conv delete_conv)

lemmas amap_simps [simp] = am.lookup_insert am.lookup_remove

lemma get_Nil [simp]: "get [] k = None"
  by (simp add: get_def)

lemma get_Cons [simp]: "get ((k, v) # m) k' = (if k' = k then Some v else get m k')"
  by (simp add: get_def)

lemma distinct_put [simp]: "distinct (map fst m) \<Longrightarrow> distinct (map fst (put k v m))"
  by (simp add: put_def distinct_update)

lemma get_in_set: "get m k = Some v \<Longrightarrow> (k, v) \<in> set m"
  by (simp add: get_def map_of_SomeD)

lemma in_set_get: "distinct (map fst m) \<Longrightarrow> (k, v) \<in> set m \<Longrightarrow> get m k = Some v"
  by (simp add: get_def)

lemma get_map_vals: "get (map (\<lambda>(k, v). (k, f k v)) m) k' = map_option (f k') (get m k')"
  by (induction m) auto

text \<open>A \<^verbatim>\<open>std::map\<close> iterates in the order of its keys: \<open>sput\<close> inserts in place.\<close>

fun sput :: "'k::linorder \<Rightarrow> 'v \<Rightarrow> ('k, 'v) amap \<Rightarrow> ('k, 'v) amap" where
  "sput k v [] = [(k, v)]"
| "sput k v ((k', v') # m) =
     (if k < k' then (k, v) # (k', v') # m else if k = k' then (k, v) # m else (k', v') # sput k v m)"

interpretation sm: finite_map get "sput :: 'k::linorder \<Rightarrow> 'v \<Rightarrow> ('k, 'v) amap \<Rightarrow> ('k, 'v) amap" del
proof
  show "get (sput k v m) k' = (if k' = k then Some v else get m k')" for k v and m :: "('k::linorder, 'v) amap" and k'
    by (induction k v m rule: sput.induct) auto
qed (simp add: am.lookup_remove)

lemmas smap_simps [simp] = sm.lookup_insert

lemma keys_sput: "set (map fst (sput k v m)) = insert k (set (map fst m))"
  by (induction k v m rule: sput.induct) auto

lemma sorted_sput: "sorted (map fst m) \<Longrightarrow> sorted (map fst (sput k v m))"
proof (induction k v m rule: sput.induct)
  case (2 k v k' v' m)
  then show ?case using keys_sput [of k v m] by (fastforce simp: not_less)
qed simp

text \<open>\<^verbatim>\<open>++m[k]\<close> on a map of counters: a missing entry starts at 0.\<close>

definition count_at :: "('k, int) amap \<Rightarrow> 'k \<Rightarrow> int" where
  "count_at m k = (case get m k of Some n \<Rightarrow> n | None \<Rightarrow> 0)"

section \<open>JSON values, and what comes from outside the repository\<close>

text \<open>A value of \<^verbatim>\<open>nlohmann::json\<close> as the sources build it with initializer lists.\<close>

datatype json = JNull | JBool bool | JInt int | JReal real | JStr string
  | JArr "json list" | JObj "(string \<times> json) list"

text \<open>
  The parameters. \<open>dump\<close> and \<open>parse\<close> are \<^verbatim>\<open>nlohmann::json::dump\<close> and \<^verbatim>\<open>parse\<close>; \<open>at_key\<close> is
  \<^verbatim>\<open>json::at\<close>, \<open>idx\<close> the subscript operator, \<open>as_str\<close>, \<open>as_int\<close>, \<open>as_real\<close> and \<open>as_labels\<close> are
  \<^verbatim>\<open>get\<close> at the types the code uses; the \<open>value_*\<close> functions are \<^verbatim>\<open>json::value(key, default)\<close>,
  \<open>has_key\<close> is \<^verbatim>\<open>contains\<close>, \<open>set_member\<close> the assignment
  \<^verbatim>\<open>j[key] = value\<close>, \<open>value_items\<close> the pairs of \<^verbatim>\<open>value(key, object()).items()\<close>, \<open>as_arr\<close> the elements of an array,
  \<open>obj_items\<close> the pairs of an object and \<open>is_object\<close> the type test.
  \<open>Inl Json_error\<close> stands for an exception of the library. \<open>SHA256\<close> is
  OpenSSL's digest of a byte string, \<open>std_hash\<close> the library's \<^verbatim>\<open>std::hash<std::string>\<close>, whose values
  the standard leaves open.
\<close>

record extern =
  dump :: "json \<Rightarrow> string"
  parse :: "string \<Rightarrow> json result"
  at_key :: "json \<Rightarrow> string \<Rightarrow> json result"
  idx :: "json \<Rightarrow> string \<Rightarrow> json result"
  as_str :: "json \<Rightarrow> string result"
  as_int :: "json \<Rightarrow> int result"
  as_real :: "json \<Rightarrow> real result"
  as_labels :: "json \<Rightarrow> (string \<times> string) list result"
  is_string :: "json \<Rightarrow> bool"
  value_bool :: "json \<Rightarrow> string \<Rightarrow> bool \<Rightarrow> bool result"
  value_str :: "json \<Rightarrow> string \<Rightarrow> string \<Rightarrow> string result"
  value_int :: "json \<Rightarrow> string \<Rightarrow> int \<Rightarrow> int result"
  value_real :: "json \<Rightarrow> string \<Rightarrow> real \<Rightarrow> real result"
  value_counts :: "json \<Rightarrow> string \<Rightarrow> (string \<times> int) list \<Rightarrow> (string \<times> int) list result"
  value_labels :: "json \<Rightarrow> string \<Rightarrow> (string \<times> string) list \<Rightarrow> (string \<times> string) list result"
  value_json :: "json \<Rightarrow> string \<Rightarrow> json \<Rightarrow> json result"
  value_strs :: "json \<Rightarrow> string \<Rightarrow> string list \<Rightarrow> string list result"
  value_arr :: "json \<Rightarrow> string \<Rightarrow> json list \<Rightarrow> json list result"
  value_items :: "json \<Rightarrow> string \<Rightarrow> (string \<times> json) list result"
  as_arr :: "json \<Rightarrow> json list result"
  obj_items :: "json \<Rightarrow> (string \<times> json) list result"
  is_object :: "json \<Rightarrow> bool"
  set_member :: "json \<Rightarrow> string \<Rightarrow> json \<Rightarrow> json result"
  has_key :: "json \<Rightarrow> string \<Rightarrow> bool"
  SHA256 :: "string \<Rightarrow> nat list"
  std_hash :: "string \<Rightarrow> 64 word"

text \<open>A concrete instance, used by examples: the accessors on the values themselves, a printer of
  flat objects, and a parser that fails on everything.\<close>

definition obj_get :: "json \<Rightarrow> string \<Rightarrow> json result" where
  "obj_get j k = (case j of JObj kvs \<Rightarrow> (case map_of kvs k of Some v \<Rightarrow> Inr v | None \<Rightarrow> Inl Json_error) | _ \<Rightarrow> Inl Json_error)"

definition json_str :: "json \<Rightarrow> string result" where
  "json_str j = (case j of JStr s \<Rightarrow> Inr s | _ \<Rightarrow> Inl Json_error)"

definition json_int :: "json \<Rightarrow> int result" where
  "json_int j = (case j of JInt i \<Rightarrow> Inr i | _ \<Rightarrow> Inl Json_error)"

definition json_real :: "json \<Rightarrow> real result" where
  "json_real j = (case j of JReal i \<Rightarrow> Inr i | JInt i \<Rightarrow> Inr (of_int i) | _ \<Rightarrow> Inl Json_error)"

definition json_bool :: "json \<Rightarrow> bool result" where
  "json_bool j = (case j of JBool b \<Rightarrow> Inr b | _ \<Rightarrow> Inl Json_error)"

definition json_arr :: "json \<Rightarrow> json list result" where
  "json_arr j = (case j of JArr js \<Rightarrow> Inr js | _ \<Rightarrow> Inl Json_error)"

fun map_result :: "('a \<Rightarrow> 'b result) \<Rightarrow> 'a list \<Rightarrow> 'b list result" where
  "map_result f [] = Inr []"
| "map_result f (x # xs) = bind_result (f x) (\<lambda>y. bind_result (map_result f xs) (\<lambda>ys. Inr (y # ys)))"

definition json_strs :: "json \<Rightarrow> string list result" where
  "json_strs j = bind_result (json_arr j) (map_result json_str)"

definition json_map :: "(json \<Rightarrow> 'a result) \<Rightarrow> json \<Rightarrow> (string \<times> 'a) list result" where
  "json_map conv j = (case j of
     JObj kvs \<Rightarrow> map_result (\<lambda>(k, v). bind_result (conv v) (\<lambda>x. Inr (k, x))) kvs | _ \<Rightarrow> Inl Json_error)"

abbreviation json_labels :: "json \<Rightarrow> (string \<times> string) list result" where
  "json_labels \<equiv> json_map json_str"

definition json_value :: "(json \<Rightarrow> 'a result) \<Rightarrow> json \<Rightarrow> string \<Rightarrow> 'a \<Rightarrow> 'a result" where
  "json_value conv j k d =
     (case j of JObj kvs \<Rightarrow> (case map_of kvs k of Some v \<Rightarrow> conv v | None \<Rightarrow> Inr d) | _ \<Rightarrow> Inl Json_error)"

lemma map_result_map: "(\<And>x. x \<in> set xs \<Longrightarrow> f (g x) = Inr x) \<Longrightarrow> map_result f (map g xs) = Inr xs"
  by (induction xs) simp_all

lemma json_strs_JStr [simp]: "json_strs (JArr (map JStr xs)) = Inr xs"
  by (simp add: json_strs_def json_arr_def json_str_def map_result_map)

definition labels_json :: "(string \<times> string) list \<Rightarrow> json" where
  "labels_json m = JObj (map (\<lambda>(k, v). (k, JStr v)) m)"

definition counts_json :: "(string \<times> int) list \<Rightarrow> json" where
  "counts_json m = JObj (map (\<lambda>(k, v). (k, JInt v)) m)"

lemma json_map_back:
  "(\<And>x. conv (f x) = Inr x) \<Longrightarrow> json_map conv (JObj (map (\<lambda>(k, v). (k, f v)) m)) = Inr m"
  unfolding json_map_def json.case by (rule map_result_map) auto

lemma json_labels_back [simp]: "json_labels (labels_json m) = Inr m"
  unfolding labels_json_def by (rule json_map_back) (simp add: json_str_def)

lemma json_counts_back [simp]: "json_map json_int (counts_json m) = Inr m"
  unfolding counts_json_def by (rule json_map_back) (simp add: json_int_def)

definition json_has :: "json \<Rightarrow> string \<Rightarrow> bool" where
  "json_has j k = (case j of JObj kvs \<Rightarrow> map_of kvs k \<noteq> None | _ \<Rightarrow> False)"

definition json_items :: "json \<Rightarrow> string \<Rightarrow> (string \<times> json) list result" where
  "json_items j k = bind_result (json_value Inr j k (JObj [])) (json_map Inr)"

definition json_is_object :: "json \<Rightarrow> bool" where
  "json_is_object j = (case j of JObj _ \<Rightarrow> True | _ \<Rightarrow> False)"

definition json_set :: "json \<Rightarrow> string \<Rightarrow> json \<Rightarrow> json result" where
  "json_set j k v = (case j of JObj kvs \<Rightarrow> Inr (JObj (sput k v kvs)) | JNull \<Rightarrow> Inr (JObj [(k, v)]) | _ \<Rightarrow> Inl Json_error)"

text \<open>\<^verbatim>\<open>value(key, default)\<close> at a vector of a type with its own \<^verbatim>\<open>from_json\<close>.\<close>

definition value_with :: "extern \<Rightarrow> (json \<Rightarrow> 'a result) \<Rightarrow> json \<Rightarrow> string \<Rightarrow> 'a list \<Rightarrow> 'a list result" where
  "value_with ext conv j k d =
     bind_result (value_arr ext j k []) (\<lambda>js. if has_key ext j k then map_result conv js else Inr d)"

text \<open>What the documentation of \<^verbatim>\<open>json::value\<close> says of an object: the converted member, or the default
  when the key is absent; of \<^verbatim>\<open>contains\<close>, \<^verbatim>\<open>at\<close> and \<^verbatim>\<open>items\<close>; and of the subscript
  operator, which makes a null value an object and refuses any other type.\<close>

definition value_laws :: "extern \<Rightarrow> bool" where
  "value_laws ext \<longleftrightarrow> value_bool ext = json_value json_bool \<and> value_str ext = json_value json_str \<and>
     value_int ext = json_value json_int \<and> value_json ext = json_value Inr \<and>
     value_strs ext = json_value json_strs \<and> value_arr ext = json_value json_arr \<and>
     value_real ext = json_value json_real \<and> value_labels ext = json_value json_labels \<and>
     value_counts ext = json_value (json_map json_int) \<and> has_key ext = json_has \<and> set_member ext = json_set \<and>
     value_items ext = json_items \<and> as_arr ext = json_arr \<and> at_key ext = obj_get \<and> obj_items ext = json_map Inr \<and>
     is_object ext = json_is_object"

definition flat_dump :: "json \<Rightarrow> string" where
  "flat_dump j = (case j of JObj kvs \<Rightarrow>
     concat (map (\<lambda>(k, v). k @ '':'' @ (case v of JStr s \<Rightarrow> quoted s | JInt i \<Rightarrow> to_string i | _ \<Rightarrow> ''?'') @ '';'') kvs)
     | JStr s \<Rightarrow> quoted s | JInt i \<Rightarrow> to_string i | _ \<Rightarrow> ''?'')"

definition sample_extern :: extern where
  "sample_extern = \<lparr>dump = flat_dump, parse = (\<lambda>_. Inl Json_error), at_key = obj_get, idx = obj_get,
     as_str = json_str, as_int = json_int, as_real = json_real, as_labels = json_labels,
     is_string = (\<lambda>j. case j of JStr _ \<Rightarrow> True | _ \<Rightarrow> False),
     value_bool = json_value json_bool, value_str = json_value json_str, value_int = json_value json_int,
     value_real = json_value json_real, value_counts = json_value (json_map json_int), value_labels = json_value json_labels, value_json = json_value Inr,
     value_strs = json_value json_strs, value_arr = json_value json_arr,
     value_items = json_items, as_arr = json_arr, obj_items = json_map Inr, is_object = json_is_object, set_member = json_set, has_key = json_has,
     SHA256 = (\<lambda>s. [length s mod 256]), std_hash = (\<lambda>s. of_nat (length s))\<rparr>"

lemma sample_value_laws: "value_laws sample_extern"
  by (simp add: value_laws_def sample_extern_def)

text \<open>Reading a member back under these laws, one rule per accessor.\<close>

lemma value_back:
  assumes "value_laws ext" "map_of kvs k = Some v"
  shows "value_str ext (JObj kvs) k d1 = json_str v" "value_int ext (JObj kvs) k d2 = json_int v"
    "value_bool ext (JObj kvs) k d3 = json_bool v" "value_real ext (JObj kvs) k d4 = json_real v"
    "value_strs ext (JObj kvs) k d5 = json_strs v" "value_labels ext (JObj kvs) k d6 = json_labels v"
    "value_counts ext (JObj kvs) k d7 = json_map json_int v" "value_json ext (JObj kvs) k d8 = Inr v"
    "value_arr ext (JObj kvs) k d9 = json_arr v"
    "value_with ext conv (JObj kvs) k d10 = bind_result (json_arr v) (map_result conv)"
  using assms by (auto simp: value_laws_def json_value_def value_with_def json_has_def bind_result_def split: sum.splits)

lemma value_items_back:
  assumes "value_laws ext" "map_of kvs k = Some (JObj m)"
  shows "value_items ext (JObj kvs) k = Inr m"
proof -
  have "map_result (\<lambda>(k, v). bind_result (Inr v) (\<lambda>x. Inr (k, x))) m = Inr m" for m :: "(string \<times> json) list"
    by (induction m) auto
  then show ?thesis using assms by (simp add: value_laws_def json_items_def json_value_def json_map_def)
qed

lemma json_back [simp]:
  "json_str (JStr s) = Inr s" "json_int (JInt i) = Inr i" "json_bool (JBool b) = Inr b" "json_real (JReal x) = Inr x"
  "json_arr (JArr js) = Inr js"
  by (simp_all add: json_str_def json_int_def json_bool_def json_real_def json_arr_def)

lemma map_result_back: "(\<And>x. conv (f x) = Inr x) \<Longrightarrow> map_result conv (map f xs) = Inr xs"
  by (rule map_result_map) simp

end
