(* ===== verification/Journal.thy ===== *)
theory Journal
  imports Prelude
begin

text \<open>
  The transaction journal, \<^verbatim>\<open>src/util/journal.cpp\<close>: one JSON line per phase change, appended to
  \<^verbatim>\<open>data/txn.log\<close>, and the recovery read of the last line. The file is its bytes; \<open>None\<close> is a
  file that cannot be opened for reading. The outcome of the system calls of \<^verbatim>\<open>append\<close> is an
  input (\<open>io_outcome\<close>), a short write included. The main results are the round trip of a line
  and of \<^verbatim>\<open>append\<close> followed by \<^verbatim>\<open>load_last\<close>.
\<close>

record Txn =
  t_id :: string
  t_price :: int
  t_deposit :: int
  t_change :: int
  t_quarters :: int
  t_dispensed :: int
  t_phase :: string
  t_reason :: string

definition Txn_default :: Txn where
  "Txn_default = \<lparr>t_id = [], t_price = 0, t_deposit = 0, t_change = 0, t_quarters = 0,
     t_dispensed = 0, t_phase = [], t_reason = []\<rparr>"

definition str_field :: "string \<Rightarrow> string \<Rightarrow> string" where
  "str_field k v = quoted k @ '':'' @ quoted v"

definition int_field :: "string \<Rightarrow> int \<Rightarrow> string" where
  "int_field k i = quoted k @ '':'' @ to_string i"

text \<open>\<open>to_json\<close> takes the time stamp and the host name the code reads from the system.\<close>

definition to_json :: "string \<Rightarrow> string \<Rightarrow> Txn \<Rightarrow> string" where
  "to_json ts host t =
     ''{'' @ str_field ''ts'' ts @ '','' @ str_field ''id'' (t_id t) @ '','' @
     int_field ''price'' (t_price t) @ '','' @ int_field ''deposit'' (t_deposit t) @ '','' @
     int_field ''change'' (t_change t) @ '','' @ int_field ''quarters'' (t_quarters t) @ '','' @
     str_field ''phase'' (t_phase t) @ '','' @ int_field ''dispensed'' (t_dispensed t) @ '','' @
     str_field ''reason'' (t_reason t) @ '','' @ str_field ''host'' host @ ''}''"

text \<open>The lambdas \<^verbatim>\<open>get_int\<close> and \<^verbatim>\<open>get_str\<close> of \<^verbatim>\<open>parse_line\<close>: a missing key leaves the
  destination as it was.\<close>

definition get_int :: "string \<Rightarrow> string \<Rightarrow> int \<Rightarrow> int result" where
  "get_int line key dst =
     (case after (quoted key @ '':'') line of
        None \<Rightarrow> Inr dst
      | Some rest \<Rightarrow> stoi (takeWhile (\<lambda>c. c \<noteq> CHR '','' \<and> c \<noteq> CHR ''}'') rest))"

definition get_str :: "string \<Rightarrow> string \<Rightarrow> string \<Rightarrow> string" where
  "get_str line key dst =
     (case after (quoted key @ '':'' @ [dquote]) line of
        None \<Rightarrow> dst
      | Some rest \<Rightarrow> takeWhile (\<lambda>c. c \<noteq> dquote) rest)"

definition parse_line :: "string \<Rightarrow> Txn \<Rightarrow> Txn result" where
  "parse_line line out =
     bind_result (get_int line ''price'' (t_price out)) (\<lambda>p.
     bind_result (get_int line ''deposit'' (t_deposit out)) (\<lambda>d.
     bind_result (get_int line ''change'' (t_change out)) (\<lambda>c.
     bind_result (get_int line ''quarters'' (t_quarters out)) (\<lambda>q.
     bind_result (get_int line ''dispensed'' (t_dispensed out)) (\<lambda>n.
     Inr (out\<lparr>t_id := get_str line ''id'' (t_id out), t_price := p, t_deposit := d, t_change := c,
       t_quarters := q, t_dispensed := n, t_phase := get_str line ''phase'' (t_phase out),
       t_reason := get_str line ''reason'' (t_reason out)\<rparr>))))))"

text \<open>The lines \<^verbatim>\<open>std::getline\<close> reads.\<close>

fun lines_of :: "string \<Rightarrow> string list" where
  "lines_of [] = []"
| "lines_of (c # cs) =
     (if c = CHR 0x0A then [] # lines_of cs
      else case lines_of cs of [] \<Rightarrow> [[c]] | l # ls \<Rightarrow> (c # l) # ls)"

text \<open>\<open>load_last\<close> returns the C++ result and the \<^verbatim>\<open>Txn\<close> it leaves in \<^verbatim>\<open>out\<close>.\<close>

definition load_last :: "string option \<Rightarrow> Txn \<Rightarrow> (bool \<times> Txn) result" where
  "load_last file out =
     (case file of
        None \<Rightarrow> Inr (False, out)
      | Some bytes \<Rightarrow>
          (case rev (filter (\<lambda>l. l \<noteq> []) (lines_of bytes)) of
             [] \<Rightarrow> Inr (False, out)
           | l # _ \<Rightarrow> bind_result (parse_line l out) (\<lambda>t. Inr (True, t))))"

datatype io_outcome = Io_ok | Io_dir_failed | Io_open_failed | Io_short nat

record append_env =
  ae_ts :: string
  ae_host :: string
  ae_io :: io_outcome

definition bytes_of :: "string option \<Rightarrow> string" where
  "bytes_of file = (case file of None \<Rightarrow> [] | Some b \<Rightarrow> b)"

definition append_txn :: "append_env \<Rightarrow> Txn \<Rightarrow> string option \<Rightarrow> bool \<times> string option" where
  "append_txn e t file =
     (let line = to_json (ae_ts e) (ae_host e) t @ [CHR 0x0A] in
      case ae_io e of
        Io_dir_failed \<Rightarrow> (False, file)
      | Io_open_failed \<Rightarrow> (False, file)
      | Io_short n \<Rightarrow>
          (n \<ge> length line, Some (bytes_of file @ take n line))
      | Io_ok \<Rightarrow> (True, Some (bytes_of file @ line)))"

text \<open>
  The journal as the engine sees it: the file, the environment of the coming appends, and a
  history of the records handed to \<^verbatim>\<open>append\<close> (a history variable: no definition reads it
  but to number the appends).
\<close>

record journal =
  jn_file :: "string option"
  jn_env :: "nat \<Rightarrow> append_env"
  jn_hist :: "Txn list"

definition journal_append :: "Txn \<Rightarrow> journal \<Rightarrow> journal" where
  "journal_append t j =
     j\<lparr>jn_file := snd (append_txn (jn_env j (length (jn_hist j))) t (jn_file j)),
       jn_hist := jn_hist j @ [t]\<rparr>"

section \<open>Searching a field\<close>

definition plain :: "string \<Rightarrow> bool" where
  "plain s \<longleftrightarrow> dquote \<notin> set s \<and> CHR 0x0A \<notin> set s"

definition key_ok :: "string \<Rightarrow> bool" where
  "key_ok k \<longleftrightarrow> dquote \<notin> set k \<and> k \<noteq> [] \<and> hd k \<noteq> CHR '','' \<and> hd k \<noteq> CHR '':''"

lemma quote_prefix:
  "dquote \<notin> set key \<Longrightarrow> dquote \<notin> set k \<Longrightarrow>
   prefix (key @ dquote # r) (k @ dquote # s) \<longleftrightarrow> key = k \<and> prefix r s"
proof (induction key arbitrary: k)
  case Nil
  then show ?case by (cases k) auto
next
  case (Cons a key)
  then show ?case by (cases k) auto
qed

lemma after_skip_plain: "dquote \<notin> set u \<Longrightarrow> after (dquote # p) (u @ s) = after (dquote # p) s"
  by (induction u) auto

lemma key_not_after_quote:
  "key_ok key \<Longrightarrow> c = CHR '','' \<or> c = CHR '':'' \<Longrightarrow> \<not> prefix (key @ r) (c # s)"
  by (cases key) (auto simp: key_ok_def)

lemma after_skip_key:
  assumes "key_ok key" "key \<noteq> k" "dquote \<notin> set k"
  shows "after (dquote # key @ dquote # r) (quoted k @ '':'' @ s) =
         after (dquote # key @ dquote # r) s"
proof -
  let ?p = "dquote # key @ dquote # r"
  have "\<not> prefix ?p (dquote # k @ dquote # CHR '':'' # s)"
    using assms by (simp add: quote_prefix key_ok_def)
  then have "after ?p (quoted k @ '':'' @ s) = after ?p (k @ dquote # CHR '':'' # s)"
    by (simp add: quoted_def)
  also have "\<dots> = after ?p (dquote # CHR '':'' # s)"
    using assms(3) by (rule after_skip_plain)
  also have "\<dots> = after ?p s"
    using key_not_after_quote [OF assms(1)] by simp
  finally show ?thesis .
qed

lemma after_skip_str:
  assumes "key_ok key" "key \<noteq> k" "dquote \<notin> set k" "dquote \<notin> set v"
  shows "after (dquote # key @ dquote # CHR '':'' # r) (str_field k v @ CHR '','' # s) =
         after (dquote # key @ dquote # CHR '':'' # r) s"
proof -
  let ?p = "dquote # key @ dquote # CHR '':'' # r"
  have "\<not> prefix ?p (dquote # v @ dquote # CHR '','' # s)"
    using assms by (simp add: quote_prefix key_ok_def)
  then have "after ?p (quoted v @ CHR '','' # s) = after ?p (v @ dquote # CHR '','' # s)"
    by (simp add: quoted_def)
  also have "\<dots> = after ?p (dquote # CHR '','' # s)"
    using assms(4) by (rule after_skip_plain)
  also have "\<dots> = after ?p s"
    using key_not_after_quote [OF assms(1)] by simp
  finally show ?thesis
    using after_skip_key [OF assms(1-3), of "CHR '':'' # r" "quoted v @ CHR '','' # s"]
    by (simp add: str_field_def)
qed

lemma after_skip_int:
  assumes "key_ok key" "key \<noteq> k" "dquote \<notin> set k"
  shows "after (dquote # key @ dquote # CHR '':'' # r) (int_field k i @ CHR '','' # s) =
         after (dquote # key @ dquote # CHR '':'' # r) s"
  using after_skip_key [OF assms, of "CHR '':'' # r" "to_string i @ CHR '','' # s"]
    after_skip_plain [of "to_string i @ '',''" "key @ dquote # CHR '':'' # r" s]
  by (simp add: int_field_def to_string_plain)

lemma get_int_hit:
  assumes "int32 i" "dquote \<notin> set k"
  shows "get_int (int_field k i @ CHR '','' # s) k dst = Inr i"
proof -
  have "after (quoted k @ '':'') (int_field k i @ CHR '','' # s) = Some (to_string i @ CHR '','' # s)"
    by (simp add: int_field_def quoted_def)
  moreover have "takeWhile (\<lambda>c. c \<noteq> CHR '','' \<and> c \<noteq> CHR ''}'') (to_string i @ CHR '','' # s) = to_string i"
    by (subst takeWhile_append2) (use to_string_plain [of i] in auto)
  ultimately show ?thesis using assms by (simp add: get_int_def stoi_to_string)
qed

lemma get_str_hit:
  assumes "dquote \<notin> set v"
  shows "get_str (str_field k v @ s) k dst = v"
proof -
  have "after (quoted k @ '':'' @ [dquote]) (str_field k v @ s) = Some (v @ dquote # s)"
    by (simp add: str_field_def quoted_def)
  moreover have "takeWhile (\<lambda>c. c \<noteq> dquote) (v @ dquote # s) = v"
    using assms by (induction v) auto
  ultimately show ?thesis by (simp add: get_str_def)
qed

lemma get_int_skip:
  "key_ok key \<Longrightarrow> key \<noteq> k \<Longrightarrow> dquote \<notin> set k \<Longrightarrow>
     get_int (int_field k i @ CHR '','' # s) key dst = get_int s key dst"
  "key_ok key \<Longrightarrow> key \<noteq> k \<Longrightarrow> dquote \<notin> set k \<Longrightarrow> dquote \<notin> set v \<Longrightarrow>
     get_int (str_field k v @ CHR '','' # s) key dst = get_int s key dst"
  using after_skip_int [of key k "[]" i s] after_skip_str [of key k v "[]" s]
  by (simp_all add: get_int_def quoted_def)

lemma get_str_skip:
  "key_ok key \<Longrightarrow> key \<noteq> k \<Longrightarrow> dquote \<notin> set k \<Longrightarrow>
     get_str (int_field k i @ CHR '','' # s) key dst = get_str s key dst"
  "key_ok key \<Longrightarrow> key \<noteq> k \<Longrightarrow> dquote \<notin> set k \<Longrightarrow> dquote \<notin> set v \<Longrightarrow>
     get_str (str_field k v @ CHR '','' # s) key dst = get_str s key dst"
  using after_skip_int [of key k "[dquote]" i s] after_skip_str [of key k v "[dquote]" s]
  by (simp_all add: get_str_def quoted_def)

lemma get_brace_skip:
  "get_int (CHR ''{'' # s) key dst = get_int s key dst" "get_str (CHR ''{'' # s) key dst' = get_str s key dst'"
  by (simp_all add: get_int_def get_str_def quoted_def)

lemmas field_simps_journal = get_brace_skip get_int_skip get_str_skip get_int_hit get_str_hit

section \<open>Round trips\<close>

definition txn_wf :: "Txn \<Rightarrow> bool" where
  "txn_wf t \<longleftrightarrow> plain (t_id t) \<and> plain (t_phase t) \<and> plain (t_reason t) \<and> int32 (t_price t) \<and>
     int32 (t_deposit t) \<and> int32 (t_change t) \<and> int32 (t_quarters t) \<and> int32 (t_dispensed t)"

lemma parse_line_to_json:
  assumes "txn_wf t" "plain ts"
  shows "parse_line (to_json ts host t) out = Inr t"
proof -
  have q: "dquote \<notin> set ts" "dquote \<notin> set (t_id t)" "dquote \<notin> set (t_phase t)" "dquote \<notin> set (t_reason t)"
    using assms by (auto simp: txn_wf_def plain_def)
  have i: "int32 (t_price t)" "int32 (t_deposit t)" "int32 (t_change t)" "int32 (t_quarters t)" "int32 (t_dispensed t)"
    using assms by (auto simp: txn_wf_def)
  show ?thesis
    unfolding parse_line_def to_json_def
    by (simp add: key_ok_def field_simps_journal q i)
qed

lemma lines_of_line:
  "CHR 0x0A \<notin> set l \<Longrightarrow> lines_of (l @ CHR 0x0A # s) = l # lines_of s"
  by (induction l) auto

lemma lines_of_Nil_iff [simp]: "lines_of s = [] \<longleftrightarrow> s = []"
  by (cases s) (auto split: list.splits)

lemma lines_of_complete: "lines_of (b @ CHR 0x0A # s) = lines_of (b @ [CHR 0x0A]) @ lines_of s"
  by (induction b) (auto split: list.splits)

definition complete_file :: "string option \<Rightarrow> bool" where
  "complete_file file \<longleftrightarrow> bytes_of file = [] \<or> last (bytes_of file) = CHR 0x0A"

lemma lines_of_append:
  assumes "complete_file (Some b)"
  shows "lines_of (b @ s) = lines_of b @ lines_of s"
proof (cases "b = []")
  case False
  with assms have "b = butlast b @ [CHR 0x0A]"
    by (metis append_butlast_last_id bytes_of_def complete_file_def option.simps(5))
  then show ?thesis using lines_of_complete [of "butlast b" s] by (metis append.assoc append_Cons append_Nil)
qed simp

lemma to_json_no_newline:
  "txn_wf t \<Longrightarrow> plain ts \<Longrightarrow> CHR 0x0A \<notin> set host \<Longrightarrow> CHR 0x0A \<notin> set (to_json ts host t)"
  using to_string_plain(4) by (auto simp: to_json_def str_field_def int_field_def quoted_def txn_wf_def plain_def)

lemma append_ok_load:
  assumes "txn_wf t" "plain (ae_ts e)" "CHR 0x0A \<notin> set (ae_host e)" "ae_io e = Io_ok" "complete_file file"
  shows "append_txn e t file = (True, Some (bytes_of file @ to_json (ae_ts e) (ae_host e) t @ [CHR 0x0A]))"
    and "load_last (snd (append_txn e t file)) out = Inr (True, t)"
proof -
  let ?line = "to_json (ae_ts e) (ae_host e) t"
  have nl: "CHR 0x0A \<notin> set ?line" using assms to_json_no_newline by blast
  have cf: "complete_file (Some (bytes_of file))" using assms(5) by (simp add: complete_file_def bytes_of_def)
  have "lines_of (bytes_of file @ ?line @ [CHR 0x0A]) = lines_of (bytes_of file) @ [?line]"
    using lines_of_append [OF cf] lines_of_line [OF nl, of "[]"] by simp
  moreover have "?line \<noteq> []" by (simp add: to_json_def)
  moreover show eq: "append_txn e t file = (True, Some (bytes_of file @ ?line @ [CHR 0x0A]))"
    using assms(4) by (simp add: append_txn_def Let_def)
  ultimately show "load_last (snd (append_txn e t file)) out = Inr (True, t)"
    using parse_line_to_json [OF assms(1,2)] by (simp add: load_last_def)
qed

text \<open>
  C36. After a successful append of a transaction record to a journal whose last line is complete,
  the recovery read returns exactly that record, whatever the \<^verbatim>\<open>Txn\<close> it was given to fill.
\<close>

theorem append_load_last:
  assumes "txn_wf t" "plain (ae_ts e)" "CHR 0x0A \<notin> set (ae_host e)" "ae_io e = Io_ok"
    and "complete_file file"
  shows "fst (append_txn e t file) \<and> load_last (snd (append_txn e t file)) out = Inr (True, t)
    \<and> complete_file (snd (append_txn e t file))"
  using append_ok_load [OF assms] by (simp add: complete_file_def bytes_of_def)

theorem append_load_last_witness:
  "load_last (snd (append_txn \<lparr>ae_ts = ''2024'', ae_host = ''reg1'', ae_io = Io_ok\<rparr>
      (Txn_default\<lparr>t_id := ''txn-7'', t_price := 125, t_phase := ''PENDING''\<rparr>) None))
      Txn_default = Inr (True, Txn_default\<lparr>t_id := ''txn-7'', t_price := 125, t_phase := ''PENDING''\<rparr>)"
  using append_load_last [of "Txn_default\<lparr>t_id := ''txn-7'', t_price := 125, t_phase := ''PENDING''\<rparr>"
      "\<lparr>ae_ts = ''2024'', ae_host = ''reg1'', ae_io = Io_ok\<rparr>" None Txn_default]
  by (simp add: txn_wf_def plain_def Txn_default_def int32_def complete_file_def bytes_of_def)

end
