(* ===== verification/Devices.thy ===== *)
theory Devices
  imports Prelude
begin

text \<open>
  The two hardware interfaces the application logic is written against,
  \<^verbatim>\<open>src/app/idispenser.hpp\<close> and \<^verbatim>\<open>src/app/ishutter.hpp\<close>. An implementation acts on a world of
  type \<open>'w\<close>. A dispenser call may wait for the hardware for ever: \<open>None\<close>. A shutter call takes
  the string its \<^verbatim>\<open>reason\<close> pointer points to and returns what the string holds afterwards.
  The locales state what the callers rely on.
\<close>

record DispenseStats =
  ds_ok :: bool
  ds_requested :: int
  ds_dispensed :: int
  ds_pulses :: int
  ds_retries :: int
  ds_reason :: string
  ds_elapsed_ms :: int

type_synonym 'w IDispenser = "int \<Rightarrow> 'w \<Rightarrow> (DispenseStats \<times> 'w) option"

type_synonym 'w shutter_op = "int \<Rightarrow> string \<Rightarrow> 'w \<Rightarrow> bool \<times> string \<times> 'w"

record 'w IShutter =
  sh_home :: "'w shutter_op"
  sh_open_mm :: "'w shutter_op"
  sh_close_mm :: "'w shutter_op"

text \<open>
  The dispenser's contract: a request for at least one coin that returns reports between none
  and all of the coins asked for, and reports success exactly when it counted all of them.
\<close>

locale dispenser =
  fixes disp :: "'w IDispenser"
    and winv :: "'w \<Rightarrow> bool"
  assumes disp_inv: "winv w \<Longrightarrow> 1 \<le> n \<Longrightarrow> disp n w = Some (st, w') \<Longrightarrow> winv w'"
    and disp_range: "winv w \<Longrightarrow> 1 \<le> n \<Longrightarrow> disp n w = Some (st, w') \<Longrightarrow>
      0 \<le> ds_dispensed st \<and> ds_dispensed st \<le> n"
    and disp_ok: "winv w \<Longrightarrow> 1 \<le> n \<Longrightarrow> disp n w = Some (st, w') \<Longrightarrow>
      ds_ok st \<longleftrightarrow> ds_dispensed st = n"
begin

lemma not_ok_short: "winv w \<Longrightarrow> 1 \<le> n \<Longrightarrow> disp n w = Some (st, w') \<Longrightarrow> \<not> ds_ok st \<Longrightarrow> ds_dispensed st < n"
  using disp_range disp_ok by fastforce

end

text \<open>
  The shutter's contract: a call that reports success left the shutter in the position it was
  asked for, where \<open>is_open\<close> and \<open>is_closed\<close> also say that the motor is off.
\<close>

locale shutter =
  fixes sh :: "'w IShutter"
    and is_open :: "'w \<Rightarrow> bool"
    and is_closed :: "'w \<Rightarrow> bool"
  assumes home_closed: "sh_home sh mm r w = (True, r', w') \<Longrightarrow> is_closed w'"
    and open_open: "sh_open_mm sh mm r w = (True, r', w') \<Longrightarrow> is_open w'"
    and close_closed: "sh_close_mm sh mm r w = (True, r', w') \<Longrightarrow> is_closed w'"

end
