(* ===== verification/Coins.thy ===== *)
theory Coins
  imports Devices
begin

text \<open>
  Denominations, hopper stock, change making and the multi-hopper dispense:
  \<^verbatim>\<open>src/app/denom.hpp\<close>, \<^verbatim>\<open>inventory.cpp\<close>, \<^verbatim>\<open>change_maker.cpp\<close> and \<^verbatim>\<open>multi_dispenser.cpp\<close>. The
  results: the greedy plan conserves the amount, respects the stock and its low-stock reserve,
  and with stock enough for the canonical change it pays everything with the fewest coins;
  \<^verbatim>\<open>execute\<close> books exactly what the hoppers report.
\<close>

datatype Denom = PENNY | NICKEL | DIME | QUARTER

fun cents :: "Denom \<Rightarrow> int" where
  "cents PENNY = 1"
| "cents NICKEL = 5"
| "cents DIME = 10"
| "cents QUARTER = 25"

text \<open>Masses are \<^verbatim>\<open>double\<close> literals; no operation here computes with them.\<close>

record DenomSpec =
  dn_denom :: Denom
  dn_mass_g :: real
  dn_pulses_per_coin :: int
  dn_low_stock_threshold :: int
  dn_name :: string

definition us_quarter :: DenomSpec where
  "us_quarter = \<lparr>dn_denom = QUARTER, dn_mass_g = 5.670, dn_pulses_per_coin = 1,
     dn_low_stock_threshold = 20, dn_name = ''quarter''\<rparr>"

definition us_dime :: DenomSpec where
  "us_dime = \<lparr>dn_denom = DIME, dn_mass_g = 2.268, dn_pulses_per_coin = 1,
     dn_low_stock_threshold = 20, dn_name = ''dime''\<rparr>"

definition us_nickel :: DenomSpec where
  "us_nickel = \<lparr>dn_denom = NICKEL, dn_mass_g = 5.000, dn_pulses_per_coin = 1,
     dn_low_stock_threshold = 20, dn_name = ''nickel''\<rparr>"

definition us_penny :: DenomSpec where
  "us_penny = \<lparr>dn_denom = PENNY, dn_mass_g = 2.500, dn_pulses_per_coin = 1,
     dn_low_stock_threshold = 20, dn_name = ''penny''\<rparr>"

definition default_us_specs :: "bool \<Rightarrow> DenomSpec list" where
  "default_us_specs include_pennies =
     [us_quarter, us_dime, us_nickel] @ (if include_pennies then [us_penny] else [])"

record HopperStock =
  hs_spec :: DenomSpec
  hs_logical_count :: int
  hs_grams_per_raw :: "real option"
  hs_tare_raw :: "int option"
  hs_enabled :: bool

type_synonym Inventory = "(Denom, HopperStock) amap"

definition upsert :: "HopperStock \<Rightarrow> Inventory \<Rightarrow> Inventory" where
  "upsert hs m = put (dn_denom (hs_spec hs)) hs m"

definition has :: "Inventory \<Rightarrow> Denom \<Rightarrow> bool" where
  "has m d \<longleftrightarrow> get m d \<noteq> None"

definition at_denom :: "Inventory \<Rightarrow> Denom \<Rightarrow> HopperStock result" where
  "at_denom m d = (case get m d of None \<Rightarrow> Inl Out_of_range | Some hs \<Rightarrow> Inr hs)"

definition take_coins :: "Denom \<Rightarrow> int \<Rightarrow> Inventory \<Rightarrow> (int \<times> Inventory) result" where
  "take_coins d n m =
     (case at_denom m d of
        Inl e \<Rightarrow> Inl e
      | Inr hs \<Rightarrow>
          let dec = (if n > hs_logical_count hs then hs_logical_count hs else n) in
          Inr (dec, put d (hs\<lparr>hs_logical_count := hs_logical_count hs - dec\<rparr>) m))"

definition give_back :: "Denom \<Rightarrow> int \<Rightarrow> Inventory \<Rightarrow> Inventory result" where
  "give_back d n m =
     (case at_denom m d of
        Inl e \<Rightarrow> Inl e
      | Inr hs \<Rightarrow> Inr (put d (hs\<lparr>hs_logical_count := hs_logical_count hs + n\<rparr>) m))"

definition low :: "Inventory \<Rightarrow> Denom \<Rightarrow> bool" where
  "low m d = (case get m d of None \<Rightarrow> True
     | Some hs \<Rightarrow> hs_logical_count hs \<le> dn_low_stock_threshold (hs_spec hs))"

definition counts :: "Inventory \<Rightarrow> (Denom \<times> int) list" where
  "counts m = map (\<lambda>(d, hs). (d, hs_logical_count hs)) m"

record PlanItem =
  pi_denom :: Denom
  pi_count :: int

text \<open>One iteration of the loop of \<^verbatim>\<open>make_plan_cents\<close>, after its \<^verbatim>\<open>break\<close> test: the items it
  pushes (none for each \<^verbatim>\<open>continue\<close>) and the cents left. \<open>Signed_Division.sdiv\<close> is the C++
  division.\<close>

definition usable :: "Inventory \<Rightarrow> Denom \<Rightarrow> int" where
  "usable iv d =
     (case get iv d of
        None \<Rightarrow> 0
      | Some hs \<Rightarrow>
          let avail = hs_logical_count hs in
          if avail \<le> 0 then 0
          else if low iv d then max 0 (avail - dn_low_stock_threshold (hs_spec hs)) else avail)"

definition plan_step :: "Inventory \<Rightarrow> Denom \<Rightarrow> int \<Rightarrow> PlanItem list \<times> int" where
  "plan_step iv d leftover =
     (if usable iv d \<le> 0 then ([], leftover)
      else let need = leftover sdiv cents d in
        if need \<le> 0 then ([], leftover)
        else let use = min need (usable iv d) in
          ([\<lparr>pi_denom = d, pi_count = use\<rparr>], leftover - use * cents d))"

fun plan_loop :: "Inventory \<Rightarrow> Denom list \<Rightarrow> int \<Rightarrow> PlanItem list \<times> int" where
  "plan_loop iv [] leftover = ([], leftover)"
| "plan_loop iv (d # ds) leftover =
     (if leftover \<le> 0 then ([], leftover)
      else let (items, leftover') = plan_step iv d leftover;
               (rest, leftover'') = plan_loop iv ds leftover'
           in (items @ rest, leftover''))"

definition denom_order :: "Denom list" where
  "denom_order = [QUARTER, DIME, NICKEL, PENNY]"

definition make_plan_cents :: "Inventory \<Rightarrow> int \<Rightarrow> PlanItem list \<times> int" where
  "make_plan_cents iv change_cents = plan_loop iv denom_order change_cents"

section \<open>The multi-hopper dispense\<close>

record 'w HopperHandle =
  hh_spec :: DenomSpec
  hh_driver :: "'w IDispenser option"

record MultiDispenseStats =
  md_ok :: bool
  md_reason :: string
  md_pulses :: int
  md_coins :: int
  md_requested :: "PlanItem list"
  md_fulfilled :: "PlanItem list"

type_synonym 'w hoppers = "(Denom, 'w HopperHandle) amap"

definition attach :: "'w HopperHandle \<Rightarrow> 'w hoppers \<Rightarrow> 'w hoppers" where
  "attach h hs = put (dn_denom (hh_spec h)) h hs"

definition no_hopper :: "PlanItem \<Rightarrow> MultiDispenseStats \<Rightarrow> MultiDispenseStats" where
  "no_hopper item st = st\<lparr>md_ok := False, md_reason := ''NOHOP'',
     md_fulfilled := md_fulfilled st @ [\<lparr>pi_denom = pi_denom item, pi_count = 0\<rparr>]\<rparr>"

definition book :: "PlanItem \<Rightarrow> DispenseStats \<Rightarrow> MultiDispenseStats \<Rightarrow> MultiDispenseStats" where
  "book item res st =
     (let st1 = st\<lparr>md_pulses := md_pulses st + ds_pulses res, md_coins := md_coins st + ds_dispensed res,
            md_fulfilled := md_fulfilled st @ [\<lparr>pi_denom = pi_denom item, pi_count = ds_dispensed res\<rparr>]\<rparr>
      in if ds_dispensed res < pi_count item \<or> \<not> ds_ok res
         then st1\<lparr>md_ok := False,
                md_reason := (if ds_reason res \<noteq> [] then ds_reason res
                              else if ds_dispensed res < pi_count item then ''PARTIAL'' else [])\<rparr>
         else st1)"

text \<open>The loop of \<^verbatim>\<open>execute\<close>: \<open>None\<close> when a driver does not return, \<open>Inl\<close> when the
  bounds-checked \<^verbatim>\<open>inv_.take\<close> throws for a denomination without stock record.\<close>

fun execute_loop :: "'w hoppers \<Rightarrow> PlanItem list \<Rightarrow> MultiDispenseStats \<Rightarrow> Inventory \<Rightarrow> 'w \<Rightarrow>
    (MultiDispenseStats \<times> Inventory \<times> 'w) result option" where
  "execute_loop hs [] st iv w = Some (Inr (st, iv, w))"
| "execute_loop hs (item # plan) st iv w =
     (case get hs (pi_denom item) of
        None \<Rightarrow> execute_loop hs plan (no_hopper item st) iv w
      | Some h \<Rightarrow>
          (case hh_driver h of
             None \<Rightarrow> execute_loop hs plan (no_hopper item st) iv w
           | Some drv \<Rightarrow>
               (case drv (pi_count item) w of
                  None \<Rightarrow> None
                | Some (res, w') \<Rightarrow>
                    (case take_coins (pi_denom item) (ds_dispensed res) iv of
                       Inl e \<Rightarrow> Some (Inl e)
                     | Inr (dec, iv') \<Rightarrow> execute_loop hs plan (book item res st) iv' w'))))"

definition execute_start :: "PlanItem list \<Rightarrow> MultiDispenseStats" where
  "execute_start plan = \<lparr>md_ok = True, md_reason = ''OK'', md_pulses = 0, md_coins = 0,
     md_requested = plan, md_fulfilled = []\<rparr>"

definition execute_finish :: "MultiDispenseStats \<Rightarrow> MultiDispenseStats" where
  "execute_finish st = (if md_ok st then st\<lparr>md_reason := ''OK''\<rparr>
     else if md_reason st = [] then st\<lparr>md_reason := ''PARTIAL''\<rparr> else st)"

definition execute :: "'w hoppers \<Rightarrow> PlanItem list \<Rightarrow> Inventory \<Rightarrow> 'w \<Rightarrow>
    (MultiDispenseStats \<times> Inventory \<times> 'w) result option" where
  "execute hs plan iv w =
     map_option (map_sum id (\<lambda>(st, iv', w'). (execute_finish st, iv', w')))
       (execute_loop hs plan (execute_start plan) iv w)"

section \<open>The stock\<close>

definition stock :: "Inventory \<Rightarrow> Denom \<Rightarrow> int" where
  "stock iv d = (case get iv d of None \<Rightarrow> 0 | Some hs \<Rightarrow> hs_logical_count hs)"

definition stock_ok :: "Inventory \<Rightarrow> bool" where
  "stock_ok iv \<longleftrightarrow> (\<forall>d hs. get iv d = Some hs \<longrightarrow>
     0 \<le> hs_logical_count hs \<and> 0 \<le> dn_low_stock_threshold (hs_spec hs))"

lemma take_coins_cases:
  assumes "take_coins d n m = Inr (dec, m')"
  shows "has m d" "dec = min n (stock m d)" "stock m' d = stock m d - dec"
    "d' \<noteq> d \<Longrightarrow> stock m' d' = stock m d'" "has m' = has m"
  using assms
  by (auto simp: take_coins_def at_denom_def stock_def has_def Let_def fun_eq_iff split: option.splits if_splits)

lemma take_coins_stock_ok:
  assumes "stock_ok m" "take_coins d n m = Inr (dec, m')"
  shows "stock_ok m'"
  using assms
  by (auto simp: take_coins_def at_denom_def stock_ok_def Let_def split: option.splits if_splits)

lemma take_coins_defined: "has m d \<Longrightarrow> \<exists>r. take_coins d n m = Inr r"
  by (auto simp: take_coins_def at_denom_def has_def Let_def split: option.splits)

section \<open>The greedy plan\<close>

definition plan_value :: "PlanItem list \<Rightarrow> int" where
  "plan_value plan = (\<Sum>i\<leftarrow>plan. pi_count i * cents (pi_denom i))"

definition plan_coins :: "PlanItem list \<Rightarrow> int" where
  "plan_coins plan = (\<Sum>i\<leftarrow>plan. pi_count i)"

definition item_ok :: "Inventory \<Rightarrow> PlanItem \<Rightarrow> bool" where
  "item_ok iv i \<longleftrightarrow> 1 \<le> pi_count i \<and> pi_count i \<le> stock iv (pi_denom i) \<and>
     has iv (pi_denom i) \<and> \<not> low iv (pi_denom i)"

lemma plan_sums [simp]:
  "plan_value [] = 0" "plan_value (i # is) = pi_count i * cents (pi_denom i) + plan_value is"
  "plan_value (xs @ ys) = plan_value xs + plan_value ys"
  "plan_coins [] = 0" "plan_coins (i # is) = pi_count i + plan_coins is"
  "plan_coins (xs @ ys) = plan_coins xs + plan_coins ys"
  by (simp_all add: plan_value_def plan_coins_def)

lemma cents_pos [simp]: "0 < cents d" "1 \<le> cents d"
  by (cases d; simp)+

lemma usable_pos: "0 < usable iv d \<Longrightarrow> has iv d \<and> \<not> low iv d \<and> usable iv d = stock iv d"
  by (auto simp: usable_def has_def low_def stock_def Let_def split: option.splits if_splits)

lemma mult_le_of_le_div: "u \<le> (a::int) div b \<Longrightarrow> 0 < b \<Longrightarrow> u * b \<le> a"
  by (metis add.commute le_add_same_cancel1 minus_mod_eq_div_mult mult_right_mono order.trans
      order_less_imp_le pos_mod_sign diff_add_cancel)

lemma plan_step_cases:
  assumes "plan_step iv d left = (items, left')" "0 < left"
  obtains (none) "items = []" "left' = left"
    | (coins) u where "items = [\<lparr>pi_denom = d, pi_count = u\<rparr>]" "left' = left - u * cents d"
      "item_ok iv \<lparr>pi_denom = d, pi_count = u\<rparr>" "0 \<le> u * cents d" "u * cents d \<le> left"
proof (cases "0 < usable iv d \<and> 0 < left div cents d")
  case True
  let ?u = "min (left div cents d) (usable iv d)"
  from True assms have "items = [\<lparr>pi_denom = d, pi_count = ?u\<rparr>]" "left' = left - ?u * cents d"
    by (auto simp: plan_step_def Let_def sdiv_pos)
  moreover have "item_ok iv \<lparr>pi_denom = d, pi_count = ?u\<rparr>"
    using True usable_pos [of iv d] by (auto simp: item_ok_def)
  moreover have "0 \<le> ?u * cents d"
    using True less_imp_le [OF cents_pos(1) [of d]] by simp
  moreover have "?u * cents d \<le> left" by (rule mult_le_of_le_div) auto
  ultimately show ?thesis by (rule coins)
next
  case False
  with assms show ?thesis by (intro none) (auto simp: plan_step_def Let_def sdiv_pos split: if_splits)
qed

lemma plan_loop_value:
  "plan_loop iv ds left = (plan, left') \<Longrightarrow> plan_value plan + left' = left"
proof (induction ds arbitrary: left plan left')
  case (Cons d ds)
  show ?case
  proof (cases "0 < left")
    case True
    obtain items l1 rest where step: "plan_step iv d left = (items, l1)"
      and rec: "plan_loop iv ds l1 = (rest, left')" "plan = items @ rest"
      using Cons.prems True by (auto split: prod.splits)
    from step True show ?thesis
      by (cases rule: plan_step_cases) (use Cons.IH [OF rec(1)] rec(2) in auto)
  qed (use Cons.prems in auto)
qed simp

lemma plan_loop_leftover:
  "plan_loop iv ds left = (plan, left') \<Longrightarrow> 0 \<le> left \<Longrightarrow> 0 \<le> left' \<and> left' \<le> left"
proof (induction ds arbitrary: left plan left')
  case (Cons d ds)
  show ?case
  proof (cases "0 < left")
    case True
    obtain items l1 rest where step: "plan_step iv d left = (items, l1)"
      and rec: "plan_loop iv ds l1 = (rest, left')"
      using Cons.prems True by (auto split: prod.splits)
    from step True have "0 \<le> l1" "l1 \<le> left" by (cases rule: plan_step_cases; simp)+
    with Cons.IH [OF rec] show ?thesis by auto
  qed (use Cons.prems in auto)
qed simp

lemma plan_loop_items:
  "plan_loop iv ds left = (plan, left') \<Longrightarrow> i \<in> set plan \<Longrightarrow> item_ok iv i"
proof (induction ds arbitrary: left plan left')
  case (Cons d ds)
  from Cons.prems have "0 < left" by (auto split: if_splits)
  obtain items l1 rest where step: "plan_step iv d left = (items, l1)"
    and rec: "plan_loop iv ds l1 = (rest, left')" "plan = items @ rest"
    using Cons.prems \<open>0 < left\<close> by (auto split: prod.splits)
  from step \<open>0 < left\<close> show ?case
    by (cases rule: plan_step_cases) (use Cons.IH [OF rec(1)] Cons.prems(2) rec(2) in auto)
qed simp

lemma plan_loop_order:
  "plan_loop iv ds left = (plan, left') \<Longrightarrow> subseq (map pi_denom plan) ds"
proof (induction ds arbitrary: left plan left')
  case (Cons d ds)
  show ?case
  proof (cases "0 < left")
    case True
    obtain items l1 rest where step: "plan_step iv d left = (items, l1)"
      and rec: "plan_loop iv ds l1 = (rest, left')" "plan = items @ rest"
      using Cons.prems True by (auto split: prod.splits)
    from step True show ?thesis
      by (cases rule: plan_step_cases) (use Cons.IH [OF rec(1)] rec(2) in auto)
  qed (use Cons.prems in auto)
qed simp

lemma subseq_distinct_list: "subseq xs ys \<Longrightarrow> distinct ys \<Longrightarrow> distinct xs"
  by (induction rule: list_emb.induct) (auto dest: list_emb_set)

text \<open>
  C8. The plan of the change maker conserves the amount: what the planned coins are worth plus the
  reported leftover is the change asked for; for a non-negative amount the leftover lies between
  nothing and the whole amount; every planned item asks for at least one coin and no more than the
  hopper holds, from a hopper that is not low on stock; denominations appear once, high to low.
\<close>

theorem make_plan_sound:
  assumes "make_plan_cents iv c = (plan, left)"
  shows "plan_value plan + left = c \<and> (0 \<le> c \<longrightarrow> 0 \<le> left \<and> left \<le> c) \<and>
    (\<forall>i\<in>set plan. item_ok iv i) \<and> subseq (map pi_denom plan) [QUARTER, DIME, NICKEL, PENNY]"
proof -
  have loop: "plan_loop iv [QUARTER, DIME, NICKEL, PENNY] c = (plan, left)"
    using assms by (simp add: make_plan_cents_def denom_order_def)
  show ?thesis
    using plan_loop_value [OF loop] plan_loop_leftover [OF loop] plan_loop_items [OF loop]
      plan_loop_order [OF loop] by simp
qed

definition sample_stock :: Inventory where
  "sample_stock = [(QUARTER, \<lparr>hs_spec = us_quarter, hs_logical_count = 50, hs_grams_per_raw = None,
       hs_tare_raw = None, hs_enabled = True\<rparr>),
     (DIME, \<lparr>hs_spec = us_dime, hs_logical_count = 10, hs_grams_per_raw = None,
       hs_tare_raw = None, hs_enabled = True\<rparr>),
     (NICKEL, \<lparr>hs_spec = us_nickel, hs_logical_count = 40, hs_grams_per_raw = None,
       hs_tare_raw = None, hs_enabled = True\<rparr>)]"

lemma make_plan_sample:
  "make_plan_cents sample_stock 67 =
     ([\<lparr>pi_denom = QUARTER, pi_count = 2\<rparr>, \<lparr>pi_denom = NICKEL, pi_count = 3\<rparr>], 2)"
  by (simp add: make_plan_cents_def denom_order_def plan_step_def usable_def low_def sample_stock_def
      us_quarter_def us_dime_def us_nickel_def sdiv_pos)

theorem make_plan_sound_witness:
  "plan_value [\<lparr>pi_denom = QUARTER, pi_count = 2\<rparr>, \<lparr>pi_denom = NICKEL, pi_count = 3\<rparr>] + 2 = 67 \<and>
   item_ok sample_stock \<lparr>pi_denom = QUARTER, pi_count = 2\<rparr> \<and> item_ok sample_stock \<lparr>pi_denom = NICKEL, pi_count = 3\<rparr>"
  using make_plan_sound [OF make_plan_sample] by simp

section \<open>Fewest coins\<close>

text \<open>The canonical change: as many coins of each denomination as fit, high to low.\<close>

fun canonical_coins :: "int \<Rightarrow> Denom list \<Rightarrow> int" where
  "canonical_coins c [] = 0"
| "canonical_coins c (d # ds) = c div cents d + canonical_coins (c mod cents d) ds"

lemma plan_step_ample:
  assumes "0 < left" "left div cents d \<le> usable iv d" "plan_step iv d left = (items, left')"
  shows "plan_coins items = left div cents d \<and> left' = left mod cents d"
proof (cases "0 < left div cents d")
  case True
  then show ?thesis
    using assms by (auto simp: plan_step_def Let_def sdiv_pos minus_div_mult_eq_mod)
next
  case False
  moreover have "0 \<le> left div cents d" using assms(1) by (simp add: pos_imp_zdiv_nonneg_iff)
  ultimately have "left div cents d = 0" by simp
  moreover from this have "left mod cents d = left"
    by (metis minus_div_mult_eq_mod diff_zero mult_zero_left)
  ultimately show ?thesis
    using assms by (auto simp: plan_step_def Let_def sdiv_pos split: if_splits)
qed

fun ample :: "Inventory \<Rightarrow> int \<Rightarrow> Denom list \<Rightarrow> bool" where
  "ample iv c [] = True"
| "ample iv c (d # ds) = (c div cents d \<le> usable iv d \<and> ample iv (c mod cents d) ds)"

lemma canonical_coins_0 [simp]: "canonical_coins 0 ds = 0"
  by (induction ds) auto

lemma plan_loop_ample:
  "plan_loop iv ds left = (plan, left') \<Longrightarrow> 0 \<le> left \<Longrightarrow> ample iv left ds \<Longrightarrow>
   plan_coins plan = canonical_coins left ds"
proof (induction ds arbitrary: left plan left')
  case (Cons d ds)
  show ?case
  proof (cases "0 < left")
    case True
    obtain items l1 rest where step: "plan_step iv d left = (items, l1)"
      and rec: "plan_loop iv ds l1 = (rest, left')" "plan = items @ rest"
      using Cons.prems True by (auto split: prod.splits)
    from plan_step_ample [OF True _ step] Cons.prems(3)
    have "plan_coins items = left div cents d" "l1 = left mod cents d" by auto
    with Cons.IH [OF rec(1)] Cons.prems(3) rec(2) show ?thesis by simp
  next
    case False
    with Cons.prems have "left = 0" "plan = []" by auto
    then show ?thesis by simp
  qed
qed simp

lemma plan_loop_ample_left:
  "plan_loop iv ds left = (plan, left') \<Longrightarrow> 0 \<le> left \<Longrightarrow> ample iv left ds \<Longrightarrow> PENNY \<in> set ds \<Longrightarrow> left' = 0"
proof (induction ds arbitrary: left plan left')
  case (Cons d ds)
  show ?case
  proof (cases "0 < left")
    case True
    obtain items l1 rest where step: "plan_step iv d left = (items, l1)"
      and rec: "plan_loop iv ds l1 = (rest, left')"
      using Cons.prems True by (auto split: prod.splits)
    from plan_step_ample [OF True _ step] Cons.prems(3) have l1: "l1 = left mod cents d" by auto
    show ?thesis
    proof (cases "d = PENNY")
      case True
      then show ?thesis using l1 plan_loop_leftover [OF rec] by simp
    next
      case False
      then show ?thesis using Cons.IH [OF rec] Cons.prems l1 by simp
    qed
  qed (use Cons.prems in auto)
qed simp

lemma pennies_nickels: "0 \<le> n \<Longrightarrow> 0 \<le> p \<Longrightarrow> (5 * n + p) div 5 + (5 * n + p) mod 5 \<le> n + (p::int)"
proof -
  assume "0 \<le> n" "0 \<le> p"
  then have "0 \<le> p div 5" by simp
  moreover have "5 * (p div 5) + p mod 5 = p" by simp
  moreover have "(5 * n + p) div 5 = n + p div 5" "(5 * n + p) mod 5 = p mod 5" by simp_all
  ultimately show ?thesis by linarith
qed

definition coins3 :: "int \<Rightarrow> int" where
  "coins3 r = r div 10 + (r mod 10) div 5 + (r mod 5)"

lemma coins3_eq: "0 \<le> m \<Longrightarrow> m < 10 \<Longrightarrow> coins3 (10 * k + m) = k + m div 5 + m mod 5"
proof -
  assume m: "0 \<le> m" "m < 10"
  then have "(10 * k + m) div 10 = k" "(10 * k + m) mod 10 = m" by simp_all
  moreover have "(10 * k + m) mod 5 = m mod 5"
    using mod_mult_self4 [of 5 "2 * k" m] by (simp add: mult.assoc [symmetric])
  ultimately show ?thesis by (simp add: coins3_def)
qed

lemma by_tens:
  obtains k m :: int where "r = 10 * k + m" "0 \<le> m" "m < 10"
  by (metis mult_div_mod_eq pos_mod_bound pos_mod_sign zero_less_numeral)

lemma coins3_dime: "coins3 (10 + r) = 1 + coins3 r"
proof -
  obtain k m where r: "r = 10 * k + m" "0 \<le> m" "m < 10" by (rule by_tens)
  have "10 + r = 10 * (k + 1) + m" using r by simp
  then have "coins3 (10 + r) = k + 1 + m div 5 + m mod 5" using coins3_eq [of m "k + 1"] r by metis
  then show ?thesis using coins3_eq [of m k] r by simp
qed

lemma coins3_le:
  assumes "0 \<le> r" shows "coins3 r \<le> r div 5 + r mod 5"
proof -
  obtain k m where r: "r = 10 * k + m" "0 \<le> m" "m < 10" by (rule by_tens)
  have "(10 * k + m) mod 5 = m mod 5" "(10 * k + m) div 5 = 2 * k + m div 5"
    using mod_mult_self4 [of 5 "2 * k" m] div_mult_self4 [of 5 "2 * k" m]
    by (simp_all add: mult.assoc [symmetric])
  moreover have "0 \<le> k" using assms r by simp
  ultimately show ?thesis using coins3_eq r by simp
qed

lemma coins3_add_dimes: "0 \<le> r \<Longrightarrow> coins3 (10 * int d + r) = int d + coins3 r"
proof (induction d)
  case (Suc d)
  then show ?case using coins3_dime [of "10 * int d + r"] by (simp add: algebra_simps)
qed simp

lemma coins3_min: "0 \<le> d \<Longrightarrow> 0 \<le> n \<Longrightarrow> 0 \<le> p \<Longrightarrow> coins3 (10 * d + 5 * n + p) \<le> d + n + p"
  using coins3_add_dimes [of "5 * n + p" "nat d"] coins3_le [of "5 * n + p"] pennies_nickels [of n p]
  by (simp add: add.assoc)

lemma coins3_quarter: "1 + coins3 r \<le> coins3 (25 + r)"
proof -
  obtain k m where r: "r = 10 * k + m" "0 \<le> m" "m < 10" by (rule by_tens)
  show ?thesis
  proof (cases "m < 5")
    case True
    then have "25 + r = 10 * (k + 2) + (m + 5)" using r by simp
    then show ?thesis using coins3_eq [of "m + 5" "k + 2"] coins3_eq [of m k] r True by simp
  next
    case False
    then have "25 + r = 10 * (k + 3) + (m - 5)" using r by simp
    moreover from False have "m div 5 = 1" "m mod 5 = m - 5"
      using r by (simp_all add: int_div_pos_eq int_mod_pos_eq [of m 5 1])
    ultimately show ?thesis
      using coins3_eq [of "m - 5" "k + 3"] coins3_eq [of m k] r False by simp
  qed
qed

lemma coins3_add_quarters: "0 \<le> r \<Longrightarrow> int q + coins3 r \<le> coins3 (25 * int q + r)"
proof (induction q)
  case (Suc q)
  then show ?case using coins3_quarter [of "25 * int q + r"] by (simp add: algebra_simps)
qed simp

lemma canonical_coins_eq: "canonical_coins c [QUARTER, DIME, NICKEL, PENNY] = c div 25 + coins3 (c mod 25)"
  by (simp add: coins3_def mod_mod_cancel)

lemma canonical_coins_min:
  assumes "0 \<le> q" "0 \<le> d" "0 \<le> n" "0 \<le> p" "25 * q + 10 * d + 5 * n + p = c"
  shows "canonical_coins c [QUARTER, DIME, NICKEL, PENNY] \<le> q + d + n + p"
proof -
  let ?r = "10 * d + 5 * n + p"
  have c: "c = 25 * q + ?r" using assms(5) by simp
  have r: "0 \<le> ?r" using assms by simp
  have "c div 25 = q + ?r div 25" "c mod 25 = ?r mod 25"
    using div_mult_self4 [of 25 q ?r] mod_mult_self4 [of 25 q ?r] c by simp_all
  moreover have "int (nat (?r div 25)) + coins3 (?r mod 25) \<le> coins3 (25 * int (nat (?r div 25)) + ?r mod 25)"
    by (rule coins3_add_quarters) simp
  then have "?r div 25 + coins3 (?r mod 25) \<le> coins3 ?r"
    using r by (simp add: pos_imp_zdiv_nonneg_iff)
  moreover have "coins3 ?r \<le> d + n + p" using assms coins3_min by simp
  ultimately have "c div 25 + coins3 (c mod 25) \<le> q + d + n + p" by simp
  then show ?thesis by (simp only: canonical_coins_eq)
qed

text \<open>
  C9. When every hopper can serve the canonical change, the plan pays the whole amount and uses
  no more coins than any other way of making that amount with the four denominations.
\<close>

theorem make_plan_fewest_coins:
  assumes "make_plan_cents iv c = (plan, left)" "0 \<le> c" "ample iv c [QUARTER, DIME, NICKEL, PENNY]"
    and "0 \<le> q" "0 \<le> d" "0 \<le> n" "0 \<le> p" "25 * q + 10 * d + 5 * n + p = c"
  shows "left = 0 \<and> plan_value plan = c \<and> plan_coins plan \<le> q + d + n + p"
proof -
  have loop: "plan_loop iv [QUARTER, DIME, NICKEL, PENNY] c = (plan, left)"
    using assms(1) by (simp add: make_plan_cents_def denom_order_def)
  have "left = 0" by (rule plan_loop_ample_left [OF loop assms(2,3)]) simp
  moreover have "plan_value plan + left = c" by (rule plan_loop_value [OF loop])
  moreover have "plan_coins plan = canonical_coins c [QUARTER, DIME, NICKEL, PENNY]"
    by (rule plan_loop_ample [OF loop assms(2,3)])
  ultimately show ?thesis using canonical_coins_min [OF assms(4-8)] by (simp del: canonical_coins.simps)
qed

theorem make_plan_fewest_coins_witness:
  "\<exists>plan. make_plan_cents sample_stock 55 = (plan, 0) \<and> plan_value plan = 55 \<and>
    plan_coins plan \<le> 1 + 2 + 2 + 0"
proof -
  have m: "make_plan_cents sample_stock 55 =
     ([\<lparr>pi_denom = QUARTER, pi_count = 2\<rparr>, \<lparr>pi_denom = NICKEL, pi_count = 1\<rparr>], 0)"
    by (simp add: make_plan_cents_def denom_order_def plan_step_def usable_def low_def sample_stock_def
        us_quarter_def us_dime_def us_nickel_def sdiv_pos)
  show ?thesis
    using make_plan_fewest_coins [OF m, of 1 2 2 0] m
    by (simp add: usable_def low_def sample_stock_def us_quarter_def us_dime_def us_nickel_def)
qed

section \<open>Executing a plan\<close>

lemma execute_SomeD:
  assumes "execute hs plan iv w = Some (Inr (st, iv', w'))"
  obtains s0 where "execute_loop hs plan (execute_start plan) iv w = Some (Inr (s0, iv', w'))"
    "st = execute_finish s0"
proof -
  obtain r where r: "execute_loop hs plan (execute_start plan) iv w = Some r"
    "map_sum id (\<lambda>(st, iv', w'). (execute_finish st, iv', w')) r = Inr (st, iv', w')"
    using assms unfolding execute_def by blast
  then show ?thesis using that by (cases r) (auto simp: id_def)
qed

text \<open>The hoppers a multi-dispenser is given: every attached driver keeps the dispenser contract
  on the common world.\<close>

locale hopper_bank =
  fixes hs :: "'w hoppers"
    and winv :: "'w \<Rightarrow> bool"
  assumes driver_contract: "get hs d = Some h \<Longrightarrow> hh_driver h = Some drv \<Longrightarrow> dispenser drv winv"
begin

definition fulfils :: "PlanItem \<Rightarrow> PlanItem \<Rightarrow> bool" where
  "fulfils i j \<longleftrightarrow> pi_denom j = pi_denom i \<and> 0 \<le> pi_count j \<and> pi_count j \<le> pi_count i"

lemma book_fields:
  assumes "winv w" "get hs d = Some h" "hh_driver h = Some drv" "drv (pi_count i) w = Some (res, w')"
    and "1 \<le> pi_count i"
  shows "winv w'" "fulfils i \<lparr>pi_denom = pi_denom i, pi_count = ds_dispensed res\<rparr>"
    "md_ok (book i res st) \<longleftrightarrow> md_ok st \<and> ds_dispensed res = pi_count i"
    "md_coins (book i res st) = md_coins st + ds_dispensed res"
    "md_fulfilled (book i res st) = md_fulfilled st @ [\<lparr>pi_denom = pi_denom i, pi_count = ds_dispensed res\<rparr>]"
    "md_requested (book i res st) = md_requested st"
proof -
  have c: "dispenser drv winv" using assms(2,3) driver_contract by blast
  show "winv w'" using dispenser.disp_inv [OF c assms(1,5,4)] .
  show "fulfils i \<lparr>pi_denom = pi_denom i, pi_count = ds_dispensed res\<rparr>"
    using dispenser.disp_range [OF c assms(1,5,4)] by (simp add: fulfils_def)
  show "md_ok (book i res st) \<longleftrightarrow> md_ok st \<and> ds_dispensed res = pi_count i"
    using dispenser.disp_ok [OF c assms(1,5,4)] by (auto simp: book_def Let_def)
qed (simp_all add: book_def Let_def)

lemma execute_loop_effect:
  assumes "execute_loop hs plan st iv w = Some (Inr (st', iv', w'))" "winv w"
    and "\<forall>i\<in>set plan. 1 \<le> pi_count i"
  shows "\<exists>f. md_fulfilled st' = md_fulfilled st @ f \<and> list_all2 fulfils plan f \<and>
    md_coins st' = md_coins st + plan_coins f \<and> (md_ok st' \<longleftrightarrow> md_ok st \<and> f = plan) \<and>
    md_requested st' = md_requested st \<and> winv w'"
  using assms
proof (induction plan arbitrary: st iv w)
  case (Cons i plan)
  consider (nohop) "execute_loop hs plan (no_hopper i st) iv w = Some (Inr (st', iv', w'))"
    | (run) h drv res w1 iv1 where "get hs (pi_denom i) = Some h" "hh_driver h = Some drv"
        "drv (pi_count i) w = Some (res, w1)"
        "execute_loop hs plan (book i res st) iv1 w1 = Some (Inr (st', iv', w'))"
    using Cons.prems(1) by (auto split: option.splits sum.splits)
  then show ?case
  proof cases
    case nohop
    from Cons.IH [OF nohop] Cons.prems obtain f where f: "list_all2 fulfils plan f"
      "md_fulfilled st' = md_fulfilled st @ \<lparr>pi_denom = pi_denom i, pi_count = 0\<rparr> # f"
      "md_coins st' = md_coins st + plan_coins f" "\<not> md_ok st'" "md_requested st' = md_requested st" "winv w'"
      by (auto simp: no_hopper_def)
    have "fulfils i \<lparr>pi_denom = pi_denom i, pi_count = 0\<rparr>"
      using Cons.prems(3) by (simp add: fulfils_def)
    moreover have "\<lparr>pi_denom = pi_denom i, pi_count = 0\<rparr> \<noteq> i"
      using Cons.prems(3) by (metis PlanItem.select_convs(2) list.set_intros(1) not_one_le_zero)
    ultimately show ?thesis
      using f by (intro exI [of _ "\<lparr>pi_denom = pi_denom i, pi_count = 0\<rparr> # f"]) auto
  next
    case run
    have i1: "1 \<le> pi_count i" using Cons.prems(3) by simp
    note b = book_fields [OF Cons.prems(2) run(1-3) i1]
    let ?j = "\<lparr>pi_denom = pi_denom i, pi_count = ds_dispensed res\<rparr>"
    from Cons.IH [OF run(4) b(1)] Cons.prems(3) have "\<exists>f. list_all2 fulfils plan f \<and>
      md_fulfilled st' = md_fulfilled st @ ?j # f \<and> md_coins st' = md_coins st + (ds_dispensed res + plan_coins f) \<and>
      (md_ok st' \<longleftrightarrow> md_ok st \<and> ds_dispensed res = pi_count i \<and> f = plan) \<and>
      md_requested st' = md_requested st \<and> winv w'"
      by (simp add: b add.assoc) blast
    then obtain f where f: "list_all2 fulfils plan f"
      "md_fulfilled st' = md_fulfilled st @ ?j # f" "md_coins st' = md_coins st + (ds_dispensed res + plan_coins f)"
      "md_ok st' \<longleftrightarrow> md_ok st \<and> ds_dispensed res = pi_count i \<and> f = plan"
      "md_requested st' = md_requested st" "winv w'"
      by blast
    moreover have "ds_dispensed res = pi_count i \<longleftrightarrow> ?j = i" by (cases i) auto
    ultimately show ?thesis using b(2) by (intro exI [of _ "?j # f"]) auto
  qed
qed simp

lemma execute_effect:
  assumes "execute hs plan iv w = Some (Inr (st, iv', w'))" "winv w" "\<forall>i\<in>set plan. 1 \<le> pi_count i"
  shows "list_all2 fulfils plan (md_fulfilled st)" "md_coins st = plan_coins (md_fulfilled st)"
    "md_ok st \<longleftrightarrow> md_fulfilled st = plan" "md_requested st = plan" "winv w'"
    "md_reason st = ''OK'' \<or> \<not> md_ok st"
proof -
  obtain s0 where s0: "execute_loop hs plan (execute_start plan) iv w = Some (Inr (s0, iv', w'))"
    "st = execute_finish s0"
    using execute_SomeD [OF assms(1)] .
  obtain f where "md_fulfilled s0 = f \<and> list_all2 fulfils plan f \<and> md_coins s0 = plan_coins f \<and>
      (md_ok s0 \<longleftrightarrow> f = plan) \<and> md_requested s0 = plan \<and> winv w'"
    using execute_loop_effect [OF s0(1) assms(2,3)] by (auto simp: execute_start_def)
  then show "list_all2 fulfils plan (md_fulfilled st)" "md_coins st = plan_coins (md_fulfilled st)"
    "md_ok st \<longleftrightarrow> md_fulfilled st = plan" "md_requested st = plan" "winv w'"
    "md_reason st = ''OK'' \<or> \<not> md_ok st"
    using s0(2) by (auto simp: execute_finish_def)
qed

end

text \<open>Which coins a list of items takes from one denomination.\<close>

definition coins_of :: "PlanItem list \<Rightarrow> Denom \<Rightarrow> int" where
  "coins_of items d = (\<Sum>i\<leftarrow>items. if pi_denom i = d then pi_count i else 0)"

lemma coins_of_simps [simp]:
  "coins_of [] d = 0" "coins_of (i # is) d = (if pi_denom i = d then pi_count i else 0) + coins_of is d"
  by (simp_all add: coins_of_def)

context hopper_bank
begin

lemma execute_loop_stock:
  assumes "execute_loop hs plan st iv w = Some (Inr (st', iv', w'))" "winv w"
    and "\<forall>i\<in>set plan. 1 \<le> pi_count i \<and> pi_count i \<le> stock iv (pi_denom i)"
    and "distinct (map pi_denom plan)"
  shows "\<exists>f. md_fulfilled st' = md_fulfilled st @ f \<and> (\<forall>d. stock iv' d = stock iv d - coins_of f d)"
  using assms
proof (induction plan arbitrary: st iv w)
  case (Cons i plan)
  consider (nohop) "execute_loop hs plan (no_hopper i st) iv w = Some (Inr (st', iv', w'))"
    | (run) h drv res w1 dec iv1 where "get hs (pi_denom i) = Some h" "hh_driver h = Some drv"
        "drv (pi_count i) w = Some (res, w1)" "take_coins (pi_denom i) (ds_dispensed res) iv = Inr (dec, iv1)"
        "execute_loop hs plan (book i res st) iv1 w1 = Some (Inr (st', iv', w'))"
    using Cons.prems(1) by (auto split: option.splits sum.splits)
  then show ?case
  proof cases
    case nohop
    from Cons.IH [OF nohop Cons.prems(2)] Cons.prems(3,4) obtain f where
      "md_fulfilled st' = md_fulfilled st @ \<lparr>pi_denom = pi_denom i, pi_count = 0\<rparr> # f"
      "\<forall>d. stock iv' d = stock iv d - coins_of f d"
      by (auto simp: no_hopper_def)
    then show ?thesis by (intro exI [of _ "\<lparr>pi_denom = pi_denom i, pi_count = 0\<rparr> # f"]) auto
  next
    case run
    have i1: "1 \<le> pi_count i" using Cons.prems(3) by simp
    note b = book_fields [OF Cons.prems(2) run(1-3) i1]
    let ?j = "\<lparr>pi_denom = pi_denom i, pi_count = ds_dispensed res\<rparr>"
    have "dec = ds_dispensed res"
      using take_coins_cases(2) [OF run(4)] b(2) Cons.prems(3) by (simp add: fulfils_def)
    then have stk: "stock iv1 d = stock iv d - coins_of [?j] d" for d
      using take_coins_cases(3,4) [OF run(4)] by (cases "d = pi_denom i") auto
    have "\<forall>k\<in>set plan. 1 \<le> pi_count k \<and> pi_count k \<le> stock iv1 (pi_denom k)"
    proof
      fix k assume "k \<in> set plan"
      moreover from this Cons.prems(4) have "pi_denom k \<noteq> pi_denom i"
        by (metis distinct.simps(2) image_eqI list.set_map list.simps(9))
      ultimately show "1 \<le> pi_count k \<and> pi_count k \<le> stock iv1 (pi_denom k)"
        using Cons.prems(3) stk by simp
    qed
    with Cons.IH [OF run(5) b(1)] Cons.prems(4) obtain f where
      "md_fulfilled st' = md_fulfilled st @ ?j # f" "\<forall>d. stock iv' d = stock iv1 d - coins_of f d"
      by (auto simp: b)
    then show ?thesis using stk by (intro exI [of _ "?j # f"]) auto
  qed
qed simp

end

text \<open>
  A plan of the change maker run on hoppers that keep the dispenser contract: whatever the
  hoppers deliver, the stock of every denomination drops by exactly the fulfilled coins, no item
  delivers more than was planned, and the run reports success exactly when the whole plan was
  delivered, in which case the coins out plus the leftover are the change asked for.
\<close>

theorem plan_execute_conserves:
  assumes "hopper_bank hs winv" "winv w" "make_plan_cents iv c = (plan, left)"
    and "execute hs plan iv w = Some (Inr (st, iv', w'))"
  shows "(\<forall>d. stock iv' d = stock iv d - coins_of (md_fulfilled st) d) \<and>
    list_all2 (\<lambda>i j. pi_denom j = pi_denom i \<and> 0 \<le> pi_count j \<and> pi_count j \<le> pi_count i) plan (md_fulfilled st) \<and>
    (md_ok st \<longleftrightarrow> md_fulfilled st = plan) \<and> (md_ok st \<longrightarrow> plan_value (md_fulfilled st) + left = c)"
proof -
  have loop: "plan_loop iv [QUARTER, DIME, NICKEL, PENNY] c = (plan, left)"
    using assms(3) by (simp add: make_plan_cents_def denom_order_def)
  have items: "\<forall>i\<in>set plan. 1 \<le> pi_count i \<and> pi_count i \<le> stock iv (pi_denom i)"
    using plan_loop_items [OF loop] by (simp add: item_ok_def)
  have "distinct (map pi_denom plan)"
    by (rule subseq_distinct_list [OF plan_loop_order [OF loop]]) simp
  moreover obtain s0 where s0: "execute_loop hs plan (execute_start plan) iv w = Some (Inr (s0, iv', w'))"
    "st = execute_finish s0"
    using execute_SomeD [OF assms(4)] .
  ultimately have "\<forall>d. stock iv' d = stock iv d - coins_of (md_fulfilled s0) d"
    using hopper_bank.execute_loop_stock [OF assms(1) s0(1) assms(2) items]
    by (auto simp: execute_start_def)
  moreover have "md_fulfilled s0 = md_fulfilled st" by (simp add: s0(2) execute_finish_def)
  ultimately show ?thesis
    using hopper_bank.execute_effect(1,3) [OF assms(1,4,2)] items plan_loop_value [OF loop]
    by (auto simp: hopper_bank.fulfils_def [OF assms(1), abs_def])
qed

text \<open>A driver that delivers at most \<open>k\<close> coins per call, for the witness: the nickel hopper
  runs short.\<close>

definition short_driver :: "int \<Rightarrow> nat IDispenser" where
  "short_driver k n w = Some (\<lparr>ds_ok = (min n k = n), ds_requested = n, ds_dispensed = min n k, ds_pulses = min n k,
     ds_retries = 0, ds_reason = (if min n k = n then ''OK'' else ''JAM''), ds_elapsed_ms = 10\<rparr>, Suc w)"

definition sample_hoppers :: "nat hoppers" where
  "sample_hoppers = [(QUARTER, \<lparr>hh_spec = us_quarter, hh_driver = Some (short_driver 10)\<rparr>),
     (NICKEL, \<lparr>hh_spec = us_nickel, hh_driver = Some (short_driver 1)\<rparr>)]"

lemma short_driver_contract: "0 \<le> k \<Longrightarrow> dispenser (short_driver k) (\<lambda>_. True)"
proof unfold_locales
  fix n st w w'
  assume k: "0 \<le> k" "1 \<le> n" "short_driver k n w = Some (st, w')"
  then have "ds_dispensed st = min n k" "ds_ok st \<longleftrightarrow> min n k = n" by (auto simp: short_driver_def)
  with k show "0 \<le> ds_dispensed st \<and> ds_dispensed st \<le> n" "ds_ok st \<longleftrightarrow> ds_dispensed st = n" by auto
qed simp

lemma sample_hoppers_bank: "hopper_bank sample_hoppers (\<lambda>_. True)"
  by (rule hopper_bank.intro) (auto simp: sample_hoppers_def short_driver_contract split: if_splits)

lemma sample_execute:
  "\<exists>st iv' w'. execute sample_hoppers [\<lparr>pi_denom = QUARTER, pi_count = 2\<rparr>, \<lparr>pi_denom = NICKEL, pi_count = 3\<rparr>]
     sample_stock 0 = Some (Inr (st, iv', w'))"
  by (simp add: execute_def sample_hoppers_def short_driver_def take_coins_def at_denom_def sample_stock_def Let_def)

theorem plan_execute_conserves_witness:
  "\<exists>st iv' w'. execute sample_hoppers [\<lparr>pi_denom = QUARTER, pi_count = 2\<rparr>, \<lparr>pi_denom = NICKEL, pi_count = 3\<rparr>]
     sample_stock 0 = Some (Inr (st, iv', w')) \<and>
     stock iv' NICKEL = stock sample_stock NICKEL - coins_of (md_fulfilled st) NICKEL"
proof -
  obtain st iv' w' where e: "execute sample_hoppers [\<lparr>pi_denom = QUARTER, pi_count = 2\<rparr>, \<lparr>pi_denom = NICKEL, pi_count = 3\<rparr>]
     sample_stock 0 = Some (Inr (st, iv', w'))"
    using sample_execute by blast
  show ?thesis
    using plan_execute_conserves [OF sample_hoppers_bank TrueI make_plan_sample e] e by blast
qed

end
