(* ===== verification/Persist.thy ===== *)
theory Persist
  imports Prelude
begin

text \<open>
  The key-value files of \<^verbatim>\<open>src/util/persist.cpp\<close>, used for calibration data. A file is its bytes,
  \<open>None\<close> when it cannot be opened. The result is the round trip of \<^verbatim>\<open>save_kv\<close> and \<^verbatim>\<open>load_kv\<close> for
  keys and values that fit on a line.
\<close>

type_synonym kv = "(string, string) amap"

text \<open>\<^verbatim>\<open>std::getline\<close> on \<^verbatim>\<open>key=value\<close> lines: the part before the first \<^verbatim>\<open>=\<close> and the rest.\<close>

fun file_lines :: "string \<Rightarrow> string \<Rightarrow> string list" where
  "file_lines acc [] = (if acc = [] then [] else [rev acc])"
| "file_lines acc (c # cs) = (if c = CHR 0x0A then rev acc # file_lines [] cs else file_lines (c # acc) cs)"

definition kv_line :: "string \<Rightarrow> (string \<times> string) option" where
  "kv_line l = (case dropWhile (\<lambda>c. c \<noteq> CHR ''='') l of
     [] \<Rightarrow> None | _ # v \<Rightarrow> Some (takeWhile (\<lambda>c. c \<noteq> CHR ''='') l, v))"

fun load_lines :: "string list \<Rightarrow> kv \<Rightarrow> kv" where
  "load_lines [] out = out"
| "load_lines (l # ls) out =
     (case kv_line l of None \<Rightarrow> load_lines ls out | Some (k, v) \<Rightarrow> load_lines ls (put k v out))"

definition load_kv :: "string option \<Rightarrow> kv \<Rightarrow> bool \<times> kv" where
  "load_kv file out = (case file of None \<Rightarrow> (False, out) | Some b \<Rightarrow> (True, load_lines (file_lines [] b) out))"

text \<open>\<open>openable\<close> is whether \<^verbatim>\<open>std::ofstream\<close> could open the file; an opened file is truncated.\<close>

definition kv_text :: "kv \<Rightarrow> string" where
  "kv_text m = concat (map (\<lambda>(k, v). k @ ''='' @ v @ [CHR 0x0A]) m)"

definition save_kv :: "bool \<Rightarrow> string option \<Rightarrow> kv \<Rightarrow> bool \<times> string option" where
  "save_kv openable file m = (if openable then (True, Some (kv_text m)) else (False, file))"

definition kv_ok :: "kv \<Rightarrow> bool" where
  "kv_ok m \<longleftrightarrow> (\<forall>(k, v)\<in>set m. CHR ''='' \<notin> set k \<and> CHR 0x0A \<notin> set k \<and> CHR 0x0A \<notin> set v) \<and>
     distinct (map fst m)"

lemma file_lines_line:
  "CHR 0x0A \<notin> set l \<Longrightarrow> file_lines acc (l @ CHR 0x0A # s) = (rev acc @ l) # file_lines [] s"
  by (induction l arbitrary: acc) auto

lemma kv_line_pair: "CHR ''='' \<notin> set k \<Longrightarrow> kv_line (k @ CHR ''='' # v) = Some (k, v)"
proof -
  assume "CHR ''='' \<notin> set k"
  then have "dropWhile (\<lambda>c. c \<noteq> CHR ''='') (k @ CHR ''='' # v) = CHR ''='' # v"
    "takeWhile (\<lambda>c. c \<noteq> CHR ''='') (k @ CHR ''='' # v) = k"
    by (induction k) auto
  then show ?thesis by (simp add: kv_line_def)
qed

lemma load_lines_kv_text:
  assumes "\<forall>(k, v)\<in>set m. CHR ''='' \<notin> set k \<and> CHR 0x0A \<notin> set k \<and> CHR 0x0A \<notin> set v"
  shows "load_lines (file_lines [] (kv_text m)) out = foldl (\<lambda>o' (k, v). put k v o') out m"
  using assms
proof (induction m arbitrary: out)
  case (Cons kv m)
  obtain k v where kv: "kv = (k, v)" by (cases kv)
  have "file_lines [] (kv_text (kv # m)) = (k @ CHR ''='' # v) # file_lines [] (kv_text m)"
    using Cons.prems file_lines_line [of "k @ CHR ''='' # v" "[]" "kv_text m"]
    by (simp add: kv kv_text_def)
  then show ?case using Cons by (simp add: kv kv_line_pair)
qed (simp add: kv_text_def)

lemma get_foldl_put:
  "distinct (map fst m) \<Longrightarrow>
   get (foldl (\<lambda>o' (k, v). put k v o') out m) k = (case get m k of None \<Rightarrow> get out k | Some v \<Rightarrow> Some v)"
proof (induction m arbitrary: out)
  case (Cons kv m)
  obtain k' v where kv: "kv = (k', v)" by (cases kv)
  have "get m k' = None" using Cons.prems by (simp add: kv get_def map_of_eq_None_iff)
  then show ?case using Cons by (auto simp: kv split: option.splits)
qed simp

text \<open>
  Saving a key-value map whose keys hold no equals sign and whose entries hold no line break,
  and loading the file back, gives for every key the saved value, and leaves keys that were not
  saved as they were in the map the load was given.
\<close>

theorem save_load_kv:
  assumes "kv_ok m"
  shows "fst (load_kv (snd (save_kv True file m)) out) \<and>
    get (snd (load_kv (snd (save_kv True file m)) out)) k =
      (case get m k of None \<Rightarrow> get out k | Some v \<Rightarrow> Some v)"
  using assms load_lines_kv_text [of m out] get_foldl_put [of m out k]
  by (simp add: kv_ok_def save_kv_def load_kv_def)

theorem save_load_kv_witness:
  "get (snd (load_kv (snd (save_kv True None [(''tare_raw'', ''17''), (''pulses_per_coin'', ''2'')])) []))
     ''pulses_per_coin'' = Some ''2''"
  using save_load_kv [of "[(''tare_raw'', ''17''), (''pulses_per_coin'', ''2'')]" None "[]" "''pulses_per_coin''"]
  by (simp add: kv_ok_def)

end
