(* ===== verification/Hopper.thy ===== *)
theory Hopper
  imports Persist Coins
begin

text \<open>
  The coin hopper and its controller: \<^verbatim>\<open>src/drivers/hopper_parallel.cpp\<close>,
  \<^verbatim>\<open>src/app/dispense_ctrl.cpp\<close> and \<^verbatim>\<open>dispense_adapter.cpp\<close>. The hardware is the sequence of
  levels the sensor line will read and the sequence of clock readings (nanoseconds) to come;
  when a sequence is used up the code is still waiting, which is the result \<open>None\<close>. The field
  \<open>hp_emitted\<close> is a history variable: all pulses counted since construction, which no operation
  reads. The results: the controller keeps the dispenser contract, it returns once the clock has
  passed its budget, a first attempt reports every coin that left, and a retried one need not.
\<close>

record hopper =
  hp_motor :: bool
  hp_motor_active_high :: bool
  hp_pulses_per_coin :: int
  hp_min_interval_us :: int
  hp_pulses :: int
  hp_last_edge_ns :: "64 word"
  hp_last_level :: bool
  hp_inputs :: "bool list"
  hp_clock :: "int list"
  hp_emitted :: int

definition read_pulse :: "hopper \<Rightarrow> (bool \<times> hopper) option" where
  "read_pulse h = (case hp_inputs h of [] \<Rightarrow> None | b # bs \<Rightarrow> Some (b, h\<lparr>hp_inputs := bs\<rparr>))"

definition read_clock :: "hopper \<Rightarrow> (int \<times> hopper) option" where
  "read_clock h = (case hp_clock h of [] \<Rightarrow> None | t # ts \<Rightarrow> Some (t, h\<lparr>hp_clock := ts\<rparr>))"

definition hopper_start :: "hopper \<Rightarrow> hopper" where
  "hopper_start h = h\<lparr>hp_motor := hp_motor_active_high h\<rparr>"

definition hopper_stop :: "hopper \<Rightarrow> hopper" where
  "hopper_stop h = h\<lparr>hp_motor := \<not> hp_motor_active_high h\<rparr>"

definition resetCounters :: "hopper \<Rightarrow> hopper option" where
  "resetCounters h =
     (case read_pulse h of None \<Rightarrow> None
      | Some (level, h') \<Rightarrow> Some (h'\<lparr>hp_pulses := 0, hp_last_edge_ns := 0, hp_last_level := level\<rparr>))"

definition setPulsesPerCoin :: "int \<Rightarrow> hopper \<Rightarrow> hopper" where
  "setPulsesPerCoin p h = h\<lparr>hp_pulses_per_coin := p\<rparr>"

definition coinCount :: "hopper \<Rightarrow> int" where
  "coinCount h = (if hp_pulses_per_coin h > 0 then hp_pulses h sdiv hp_pulses_per_coin h else 0)"

text \<open>The time arithmetic of \<^verbatim>\<open>pollOnce\<close> is on \<^verbatim>\<open>uint64_t\<close> and wraps.\<close>

definition pollOnce :: "hopper \<Rightarrow> hopper option" where
  "pollOnce h =
     (case read_pulse h of None \<Rightarrow> None
      | Some (level, h1) \<Rightarrow>
          (case read_clock h1 of None \<Rightarrow> None
           | Some (t, h2) \<Rightarrow>
               let now = (word_of_int t :: 64 word);
                   h3 = (if level \<and> \<not> hp_last_level h2 \<and>
                           word_of_int (hp_min_interval_us h2) * 1000 \<le> now - hp_last_edge_ns h2
                         then h2\<lparr>hp_pulses := hp_pulses h2 + 1, hp_last_edge_ns := now,
                                 hp_emitted := hp_emitted h2 + 1\<rparr>
                         else h2)
               in Some (h3\<lparr>hp_last_level := level\<rparr>)))"

section \<open>The controller\<close>

record DispenseConfig =
  dc_max_retries :: int
  dc_jam_ms :: int
  dc_settle_ms :: int
  dc_max_ms_per_coin :: int
  dc_hard_timeout_ms :: int
  dc_poll_us :: int

definition DispenseConfig_default :: DispenseConfig where
  "DispenseConfig_default = \<lparr>dc_max_retries = 2, dc_jam_ms = 600, dc_settle_ms = 120,
     dc_max_ms_per_coin = 300, dc_hard_timeout_ms = 5000, dc_poll_us = 200\<rparr>"

record DispenseResult =
  dr_ok :: bool
  dr_requested :: int
  dr_dispensed :: int
  dr_pulses :: int
  dr_retries :: int
  dr_reason :: string
  dr_elapsed_ms :: int

record DispenseController =
  ctl_hopper :: hopper
  ctl_cfg :: DispenseConfig
  ctl_file :: "string option"

text \<open>\<^verbatim>\<open>loadCalibration\<close> may throw from \<^verbatim>\<open>std::stoi\<close>.\<close>

definition loadCalibration :: "DispenseController \<Rightarrow> DispenseController result" where
  "loadCalibration c =
     (case load_kv (ctl_file c) [] of
        (False, _) \<Rightarrow> Inr c
      | (True, m) \<Rightarrow>
          (case get m ''pulses_per_coin'' of
             None \<Rightarrow> Inr c
           | Some s \<Rightarrow> map_sum id (\<lambda>p. c\<lparr>ctl_hopper := setPulsesPerCoin p (ctl_hopper c)\<rparr>) (stoi s)))"

definition saveCalibration :: "bool \<Rightarrow> int \<Rightarrow> DispenseController \<Rightarrow> DispenseController" where
  "saveCalibration openable p c =
     c\<lparr>ctl_file := snd (save_kv openable (ctl_file c) [(''pulses_per_coin'', to_string p)])\<rparr>"

definition ms_between :: "int \<Rightarrow> int \<Rightarrow> int" where
  "ms_between t0 t1 = (t1 - t0) sdiv 1000000"

datatype attempt_exit = Exit_ok | Exit_jam | Exit_budget string

text \<open>The \<^verbatim>\<open>while (true)\<close> loop of one attempt. Every iteration takes one level from the sensor,
  so the recursion ends when the sequence does.\<close>

function poll_loop :: "DispenseConfig \<Rightarrow> int \<Rightarrow> int \<Rightarrow> int \<Rightarrow> hopper \<Rightarrow> int \<Rightarrow> int \<Rightarrow> (attempt_exit \<times> hopper) option" where
  "poll_loop cfg coins start budget h last_pulses last_time =
     (case pollOnce h of None \<Rightarrow> None
      | Some h1 \<Rightarrow>
          (case read_clock h1 of None \<Rightarrow> None
           | Some (now, h2) \<Rightarrow>
               let pc = hp_pulses h2; lt = (if pc \<noteq> last_pulses then now else last_time) in
               if coinCount h2 \<ge> coins then Some (Exit_ok, hopper_stop h2)
               else if ms_between lt now \<ge> dc_jam_ms cfg then Some (Exit_jam, hopper_stop h2)
               else if ms_between start now \<ge> budget
               then Some (Exit_budget (if coinCount h2 > 0 then ''PARTIAL'' else ''TIMEOUT''), hopper_stop h2)
               else poll_loop cfg coins start budget h2 pc lt))"
  by pat_completeness auto
termination
  by (relation "measure (\<lambda>(cfg, coins, start, budget, h, lp, lt). length (hp_inputs h))")
    (auto simp: pollOnce_def read_pulse_def read_clock_def Let_def split: option.splits list.splits)

declare poll_loop.simps [simp del]

text \<open>The \<^verbatim>\<open>for\<close> loop over the attempts: the outcome, the value of \<^verbatim>\<open>attempt\<close> and the hopper
  when the code reaches the label \<^verbatim>\<open>done\<close>. With no attempt at all the reason is still \<^verbatim>\<open>ABORT\<close>.\<close>

function attempt_loop :: "DispenseConfig \<Rightarrow> int \<Rightarrow> int \<Rightarrow> int \<Rightarrow> int \<Rightarrow> hopper \<Rightarrow> (bool \<times> string \<times> int \<times> hopper) option" where
  "attempt_loop cfg coins start budget attempt h =
     (if attempt > dc_max_retries cfg then Some (False, ''ABORT'', attempt, h)
      else
        (case resetCounters h of None \<Rightarrow> None
         | Some h1 \<Rightarrow>
             let h2 = hopper_start h1 in
             (case read_clock h2 of None \<Rightarrow> None
              | Some (t, h3) \<Rightarrow>
                  (case poll_loop cfg coins start budget h3 (hp_pulses h2) t of None \<Rightarrow> None
                   | Some (Exit_ok, h4) \<Rightarrow> Some (True, ''OK'', attempt, h4)
                   | Some (Exit_budget r, h4) \<Rightarrow> Some (False, r, attempt, h4)
                   | Some (Exit_jam, h4) \<Rightarrow>
                       if attempt < dc_max_retries cfg
                       then attempt_loop cfg coins start budget (attempt + 1) h4
                       else Some (False, ''JAM'', attempt, h4)))))"
  by pat_completeness auto
termination
  by (relation "measure (\<lambda>(cfg, coins, start, budget, attempt, h). nat (dc_max_retries cfg + 1 - attempt))") auto

declare attempt_loop.simps [simp del]

definition budget_ms :: "DispenseConfig \<Rightarrow> int \<Rightarrow> int" where
  "budget_ms cfg coins = max (dc_hard_timeout_ms cfg) (coins * dc_max_ms_per_coin cfg + 500)"

definition dispense_coins :: "int \<Rightarrow> DispenseController \<Rightarrow> (DispenseResult \<times> DispenseController) option" where
  "dispense_coins coins c =
     (case read_clock (ctl_hopper c) of None \<Rightarrow> None
      | Some (start, h0) \<Rightarrow>
          (case attempt_loop (ctl_cfg c) coins start (budget_ms (ctl_cfg c) coins) 0 h0 of None \<Rightarrow> None
           | Some (ok, reason, attempt, h1) \<Rightarrow>
               (case read_clock h1 of None \<Rightarrow> None
                | Some (t, h2) \<Rightarrow>
                    let dispensed = coinCount h2 in
                    Some (\<lparr>dr_ok = ok, dr_requested = coins, dr_dispensed = dispensed,
                        dr_pulses = hp_pulses h2, dr_retries = attempt,
                        dr_reason = (if \<not> ok \<and> reason = ''JAM'' \<and> dispensed > 0 \<and> dispensed < coins
                                     then ''PARTIAL'' else reason),
                        dr_elapsed_ms = ms_between start t\<rparr>,
                      c\<lparr>ctl_hopper := h2\<rparr>))))"

definition adapter_dispenseCoins :: "DispenseController IDispenser" where
  "adapter_dispenseCoins coins c =
     map_option (\<lambda>(r, c'). (\<lparr>ds_ok = dr_ok r, ds_requested = dr_requested r, ds_dispensed = dr_dispensed r,
       ds_pulses = dr_pulses r, ds_retries = dr_retries r, ds_reason = dr_reason r,
       ds_elapsed_ms = dr_elapsed_ms r\<rparr>, c')) (dispense_coins coins c)"

section \<open>One attempt\<close>

lemma read_clock_fields:
  assumes "read_clock h = Some (t, h')"
  shows "hp_pulses h' = hp_pulses h" "hp_emitted h' = hp_emitted h" "hp_pulses_per_coin h' = hp_pulses_per_coin h"
    "hp_motor h' = hp_motor h" "hp_motor_active_high h' = hp_motor_active_high h" "coinCount h' = coinCount h"
    "hp_inputs h' = hp_inputs h" "hp_clock h = t # hp_clock h'"
  using assms by (auto simp: read_clock_def coinCount_def split: list.splits)

lemma pollOnce_fields:
  assumes "pollOnce h = Some h'"
  shows "hp_pulses_per_coin h' = hp_pulses_per_coin h" "hp_motor_active_high h' = hp_motor_active_high h"
    "hp_emitted h' - hp_pulses h' = hp_emitted h - hp_pulses h"
    "hp_pulses h \<le> hp_pulses h'" "hp_pulses h' \<le> hp_pulses h + 1" "hp_motor h' = hp_motor h"
    "hp_inputs h' = tl (hp_inputs h)" "hp_inputs h \<noteq> []" "hp_clock h' = tl (hp_clock h)" "hp_clock h \<noteq> []"
  using assms by (auto simp: pollOnce_def read_pulse_def read_clock_def Let_def split: option.splits list.splits if_splits)

lemma resetCounters_fields:
  assumes "resetCounters h = Some h'"
  shows "hp_pulses h' = 0" "hp_emitted h' = hp_emitted h" "hp_pulses_per_coin h' = hp_pulses_per_coin h"
    "hp_motor_active_high h' = hp_motor_active_high h" "hp_inputs h' = tl (hp_inputs h)" "hp_inputs h \<noteq> []"
    "hp_clock h' = hp_clock h"
  using assms by (auto simp: resetCounters_def read_pulse_def split: option.splits list.splits)

lemma start_stop_fields [simp]:
  "hp_pulses (hopper_start h) = hp_pulses h" "hp_pulses (hopper_stop h) = hp_pulses h"
  "hp_emitted (hopper_start h) = hp_emitted h" "hp_emitted (hopper_stop h) = hp_emitted h"
  "hp_pulses_per_coin (hopper_start h) = hp_pulses_per_coin h" "hp_pulses_per_coin (hopper_stop h) = hp_pulses_per_coin h"
  "hp_motor_active_high (hopper_start h) = hp_motor_active_high h" "hp_motor_active_high (hopper_stop h) = hp_motor_active_high h"
  "hp_inputs (hopper_start h) = hp_inputs h" "hp_inputs (hopper_stop h) = hp_inputs h"
  "hp_clock (hopper_start h) = hp_clock h" "hp_clock (hopper_stop h) = hp_clock h"
  "coinCount (hopper_start h) = coinCount h" "coinCount (hopper_stop h) = coinCount h"
  "hp_motor (hopper_stop h) \<longleftrightarrow> \<not> hp_motor_active_high h"
  by (simp_all add: hopper_start_def hopper_stop_def coinCount_def)

lemma coinCount_step:
  assumes "hp_pulses_per_coin h' = hp_pulses_per_coin h" "hp_pulses h \<le> hp_pulses h'" "hp_pulses h' \<le> hp_pulses h + 1"
    "0 \<le> hp_pulses h"
  shows "coinCount h' \<le> coinCount h + 1" "0 \<le> coinCount h'"
proof -
  let ?k = "hp_pulses_per_coin h"
  have "hp_pulses h' div ?k \<le> hp_pulses h div ?k + 1" if "0 < ?k"
  proof -
    have "hp_pulses h' div ?k \<le> (hp_pulses h + ?k) div ?k"
      using that assms(3) by (intro zdiv_mono1) auto
    also have "\<dots> = hp_pulses h div ?k + 1" using that by simp
    finally show ?thesis .
  qed
  then show "coinCount h' \<le> coinCount h + 1" "0 \<le> coinCount h'"
    using assms by (auto simp: coinCount_def sdiv_pos pos_imp_zdiv_nonneg_iff)
qed

definition attempt_inv :: "int \<Rightarrow> hopper \<Rightarrow> bool" where
  "attempt_inv coins h \<longleftrightarrow> 0 \<le> hp_pulses h \<and> coinCount h < coins"

text \<open>The loop exits with at most the coins asked for, with success exactly at that number, with
  the motor off and with every counted pulse in the counters.\<close>

lemma poll_loop_effect:
  assumes "poll_loop cfg coins start budget h lp lt = Some (e, h')" "attempt_inv coins h"
  shows "0 \<le> coinCount h' \<and> coinCount h' \<le> coins \<and> (e = Exit_ok \<longleftrightarrow> coinCount h' = coins) \<and>
    hp_emitted h' - hp_pulses h' = hp_emitted h - hp_pulses h \<and>
    hp_pulses_per_coin h' = hp_pulses_per_coin h \<and> hp_motor_active_high h' = hp_motor_active_high h \<and>
    (hp_motor h' \<longleftrightarrow> \<not> hp_motor_active_high h') \<and> 0 \<le> hp_pulses h' \<and>
    (e = Exit_budget r \<longrightarrow> r \<noteq> ''JAM'' \<and> r \<noteq> [])"
  using assms
proof (induction cfg coins start budget h lp lt rule: poll_loop.induct)
  case (1 cfg coins start budget h lp lt)
  obtain h1 where p: "pollOnce h = Some h1"
    using "1.prems"(1) by (cases "pollOnce h") (auto simp: poll_loop.simps [of cfg coins start budget h])
  obtain now h2 where c: "read_clock h1 = Some (now, h2)"
    using "1.prems"(1) p by (cases "read_clock h1") (auto simp: poll_loop.simps [of cfg coins start budget h])
  note pf = pollOnce_fields [OF p] and cf = read_clock_fields [OF c]
  let ?lt = "if hp_pulses h2 \<noteq> lp then now else lt"
  have cc: "coinCount h2 \<le> coinCount h + 1" "0 \<le> coinCount h2"
    using coinCount_step [of h2 h] pf cf "1.prems"(2) by (auto simp: attempt_inv_def)
  show ?case
  proof (cases "coinCount h2 \<ge> coins \<or> ms_between ?lt now \<ge> dc_jam_ms cfg \<or> ms_between start now \<ge> budget")
    case True
    have "(if coinCount h2 \<ge> coins then Some (Exit_ok, hopper_stop h2)
        else if ms_between ?lt now \<ge> dc_jam_ms cfg then Some (Exit_jam, hopper_stop h2)
        else Some (Exit_budget (if coinCount h2 > 0 then ''PARTIAL'' else ''TIMEOUT''), hopper_stop h2)) = Some (e, h')"
      using "1.prems"(1) p c True
      by (auto simp: poll_loop.simps [of cfg coins start budget h] Let_def split: if_splits)
    then show ?thesis using cc pf cf "1.prems"(2) by (auto simp: attempt_inv_def split: if_splits)
  next
    case False
    then have rec: "poll_loop cfg coins start budget h2 (hp_pulses h2) ?lt = Some (e, h')"
      using "1.prems"(1) p c by (auto simp: poll_loop.simps [of cfg coins start budget h] Let_def split: if_splits)
    have "attempt_inv coins h2" using False pf cf "1.prems"(2) by (auto simp: attempt_inv_def)
    moreover note "1.IH" [OF p c refl refl refl _ _ _ rec]
    ultimately show ?thesis using False pf cf by auto
  qed
qed

lemma poll_loop_motor:
  assumes "poll_loop cfg coins start budget h lp lt = Some (e, h')"
  shows "hp_motor h' \<longleftrightarrow> \<not> hp_motor_active_high h'"
  using assms
proof (induction cfg coins start budget h lp lt rule: poll_loop.induct)
  case (1 cfg coins start budget h lp lt)
  obtain h1 where p: "pollOnce h = Some h1"
    using "1.prems" by (cases "pollOnce h") (auto simp: poll_loop.simps [of cfg coins start budget h])
  obtain now h2 where c: "read_clock h1 = Some (now, h2)"
    using "1.prems" p by (cases "read_clock h1") (auto simp: poll_loop.simps [of cfg coins start budget h])
  note IH = "1.IH" [OF p c refl refl refl]
  show ?case using "1.prems" p c IH
    by (auto simp: poll_loop.simps [of cfg coins start budget h lp lt] Let_def split: if_splits)
qed

section \<open>All attempts\<close>

lemma attempt_loop_cases:
  assumes "attempt_loop cfg coins start budget a h = Some (ok, reason, a', h')" "a \<le> dc_max_retries cfg"
  obtains h1 t h3 e h4 where "resetCounters h = Some h1" "read_clock (hopper_start h1) = Some (t, h3)"
    "poll_loop cfg coins start budget h3 0 t = Some (e, h4)"
    "(e = Exit_ok \<and> ok \<and> reason = ''OK'' \<and> a' = a \<and> h' = h4) \<or>
     (\<exists>r. e = Exit_budget r \<and> \<not> ok \<and> reason = r \<and> a' = a \<and> h' = h4) \<or>
     (e = Exit_jam \<and> a = dc_max_retries cfg \<and> \<not> ok \<and> reason = ''JAM'' \<and> a' = a \<and> h' = h4) \<or>
     (e = Exit_jam \<and> a < dc_max_retries cfg \<and>
      attempt_loop cfg coins start budget (a + 1) h4 = Some (ok, reason, a', h'))"
proof -
  obtain h1 where r: "resetCounters h = Some h1"
    using assms by (cases "resetCounters h") (auto simp: attempt_loop.simps [of cfg coins start budget a h])
  obtain t h3 where c: "read_clock (hopper_start h1) = Some (t, h3)"
    using assms r by (cases "read_clock (hopper_start h1)")
      (auto simp: attempt_loop.simps [of cfg coins start budget a h] Let_def)
  have z: "hp_pulses (hopper_start h1) = 0" using resetCounters_fields(1) [OF r] by simp
  obtain e h4 where p: "poll_loop cfg coins start budget h3 0 t = Some (e, h4)"
    using assms r c z by (cases "poll_loop cfg coins start budget h3 0 t")
      (auto simp: attempt_loop.simps [of cfg coins start budget a h] Let_def)
  show ?thesis
  proof (rule that [OF r c p])
    show "(e = Exit_ok \<and> ok \<and> reason = ''OK'' \<and> a' = a \<and> h' = h4) \<or>
     (\<exists>r. e = Exit_budget r \<and> \<not> ok \<and> reason = r \<and> a' = a \<and> h' = h4) \<or>
     (e = Exit_jam \<and> a = dc_max_retries cfg \<and> \<not> ok \<and> reason = ''JAM'' \<and> a' = a \<and> h' = h4) \<or>
     (e = Exit_jam \<and> a < dc_max_retries cfg \<and>
      attempt_loop cfg coins start budget (a + 1) h4 = Some (ok, reason, a', h'))"
      using assms r c p z
      by (cases e) (auto simp: attempt_loop.simps [of cfg coins start budget a h] Let_def split: if_splits)
  qed
qed

lemma attempt_start:
  assumes "resetCounters h = Some h1" "read_clock (hopper_start h1) = Some (t, h3)" "1 \<le> coins"
  shows "attempt_inv coins h3" "hp_pulses h3 = 0" "hp_emitted h3 = hp_emitted h"
    "hp_pulses_per_coin h3 = hp_pulses_per_coin h" "hp_motor_active_high h3 = hp_motor_active_high h"
  using resetCounters_fields [OF assms(1)] read_clock_fields [OF assms(2)] assms(3)
  by (auto simp: attempt_inv_def coinCount_def)

lemma attempt_loop_effect:
  assumes "attempt_loop cfg coins start budget a h = Some (ok, reason, a', h')"
    "a \<le> dc_max_retries cfg" "1 \<le> coins"
  shows "0 \<le> coinCount h' \<and> coinCount h' \<le> coins \<and> (ok \<longleftrightarrow> coinCount h' = coins) \<and> a \<le> a' \<and>
    a' \<le> dc_max_retries cfg \<and> hp_emitted h + hp_pulses h' \<le> hp_emitted h' \<and>
    (a' = a \<longrightarrow> hp_emitted h' = hp_emitted h + hp_pulses h') \<and> reason \<noteq> []"
  using assms
proof (induction cfg coins start budget a h rule: attempt_loop.induct)
  case (1 cfg coins start budget a h)
  from "1.prems"(1,2) show ?case
  proof (cases rule: attempt_loop_cases)
    case (1 h1 t h3 e h4)
    note s = attempt_start [OF 1(1,2) \<open>1 \<le> coins\<close>]
    have eff: "0 \<le> coinCount h4" "coinCount h4 \<le> coins" "e = Exit_ok \<longleftrightarrow> coinCount h4 = coins"
      "hp_emitted h4 = hp_emitted h + hp_pulses h4" "0 \<le> hp_pulses h4"
      using poll_loop_effect [OF 1(3) s(1), of "[]"] s by auto
    have reason: "e = Exit_budget r \<Longrightarrow> r \<noteq> []" for r
      using poll_loop_effect [OF 1(3) s(1), of r] by blast
    from 1(4) consider (stop) "h' = h4" "a' = a" "ok \<longleftrightarrow> e = Exit_ok" "reason \<noteq> []"
      | (retry) "e = Exit_jam" "a < dc_max_retries cfg"
        "attempt_loop cfg coins start budget (a + 1) h4 = Some (ok, reason, a', h')"
      using reason by auto
    then show ?thesis
    proof cases
      case stop
      then show ?thesis using eff \<open>a \<le> dc_max_retries cfg\<close> by auto
    next
      case retry
      have "\<not> a > dc_max_retries cfg" using retry(2) by simp
      moreover have "poll_loop cfg coins start budget h3 (hp_pulses (hopper_start h1)) t = Some (Exit_jam, h4)"
        using 1(3) retry(1) resetCounters_fields(1) [OF 1(1)] by simp
      ultimately have "0 \<le> coinCount h' \<and> coinCount h' \<le> coins \<and> (ok \<longleftrightarrow> coinCount h' = coins) \<and> a + 1 \<le> a' \<and>
        a' \<le> dc_max_retries cfg \<and> hp_emitted h4 + hp_pulses h' \<le> hp_emitted h' \<and> reason \<noteq> []"
        using "1.IH" [OF _ 1(1) refl 1(2) refl _ refl refl retry(2,3)] retry(2) \<open>1 \<le> coins\<close> by simp
      then show ?thesis using eff by auto
    qed
  qed
qed

lemma attempt_loop_motor:
  assumes "attempt_loop cfg coins start budget a h = Some (ok, reason, a', h')" "a \<le> dc_max_retries cfg"
  shows "hp_motor h' \<longleftrightarrow> \<not> hp_motor_active_high h'"
  using assms
proof (induction "nat (dc_max_retries cfg - a)" arbitrary: a h)
  case 0
  from 0(2,3) show ?case
    by (cases rule: attempt_loop_cases) (use 0(1) poll_loop_motor in auto)
next
  case (Suc n)
  have n: "n = nat (dc_max_retries cfg - (a + 1))" "a + 1 \<le> dc_max_retries cfg" using Suc(2) by auto
  from Suc(3,4) show ?case
    by (cases rule: attempt_loop_cases) (use Suc(1) [OF n(1) _ n(2)] poll_loop_motor in auto)
qed

lemma dispense_coins_cases:
  assumes "dispense_coins coins c = Some (r, c')"
  obtains start h0 reason h1 t h2 where "read_clock (ctl_hopper c) = Some (start, h0)"
    "attempt_loop (ctl_cfg c) coins start (budget_ms (ctl_cfg c) coins) 0 h0 = Some (dr_ok r, reason, dr_retries r, h1)"
    "read_clock h1 = Some (t, h2)" "c' = c\<lparr>ctl_hopper := h2\<rparr>" "dr_dispensed r = coinCount h1"
    "dr_pulses r = hp_pulses h1" "dr_requested r = coins"
    "dr_reason r = (if \<not> dr_ok r \<and> reason = ''JAM'' \<and> dr_dispensed r > 0 \<and> dr_dispensed r < coins then ''PARTIAL'' else reason)"
  using assms read_clock_fields
  by (auto simp: dispense_coins_def Let_def split: option.splits)

text \<open>
  C10. The controller's answer to a request for at least one coin: between none and all of them
  reported, success exactly when all were counted, at most the configured retries, a reason that
  is never empty; never fewer pulses left the hopper than it reports, and exactly that many when
  the first attempt was the last.
\<close>

theorem dispense_coins_contract:
  assumes "dispense_coins n c = Some (r, c')" "1 \<le> n" "0 \<le> dc_max_retries (ctl_cfg c)"
  shows "dr_requested r = n \<and> 0 \<le> dr_dispensed r \<and> dr_dispensed r \<le> n \<and>
    (dr_ok r \<longleftrightarrow> dr_dispensed r = n) \<and> 0 \<le> dr_retries r \<and> dr_retries r \<le> dc_max_retries (ctl_cfg c) \<and>
    dr_reason r \<noteq> [] \<and>
    hp_emitted (ctl_hopper c) + dr_pulses r \<le> hp_emitted (ctl_hopper c') \<and>
    (dr_retries r = 0 \<longrightarrow> hp_emitted (ctl_hopper c') = hp_emitted (ctl_hopper c) + dr_pulses r)"
  using assms(1)
proof (cases rule: dispense_coins_cases)
  case (1 start h0 reason h1 t h2)
  show ?thesis
    using attempt_loop_effect [OF 1(2)] assms(2,3) 1(4-8) read_clock_fields [OF 1(1)] read_clock_fields [OF 1(3)]
    by auto
qed

text \<open>
  Whatever the request and whatever the sensor does, the hopper motor is off when the
  dispense call returns.
\<close>

theorem dispense_motor_off:
  assumes "dispense_coins n c = Some (r, c')" "0 \<le> dc_max_retries (ctl_cfg c)"
  shows "hp_motor (ctl_hopper c') \<longleftrightarrow> \<not> hp_motor_active_high (ctl_hopper c')"
  using assms(1)
proof (cases rule: dispense_coins_cases)
  case (1 start h0 reason h1 t h2)
  then show ?thesis
    using attempt_loop_motor [OF 1(2)] assms(2) read_clock_fields [OF 1(3)] by simp
qed

definition retrying :: "DispenseController \<Rightarrow> bool" where
  "retrying c \<longleftrightarrow> 0 \<le> dc_max_retries (ctl_cfg c)"

lemma dispense_coins_cfg: "dispense_coins n c = Some (r, c') \<Longrightarrow> ctl_cfg c' = ctl_cfg c"
  by (erule dispense_coins_cases) simp

interpretation ctl: dispenser adapter_dispenseCoins retrying
proof unfold_locales
  fix w n st w'
  assume a: "retrying w" "1 \<le> n" "adapter_dispenseCoins n w = Some (st, w')"
  then obtain r where r: "dispense_coins n w = Some (r, w')" "ds_dispensed st = dr_dispensed r" "ds_ok st = dr_ok r"
    by (auto simp: adapter_dispenseCoins_def)
  show "retrying w'" using dispense_coins_cfg [OF r(1)] a(1) by (simp add: retrying_def)
  show "0 \<le> ds_dispensed st \<and> ds_dispensed st \<le> n" "ds_ok st \<longleftrightarrow> ds_dispensed st = n"
    using dispense_coins_cases [OF r(1)] attempt_loop_effect a(1,2) r(2,3)
    by (metis retrying_def)+
qed

section \<open>The call returns\<close>

text \<open>Clock readings before a deadline; the clock of the model is monotone, as
  \<^verbatim>\<open>std::chrono::steady_clock\<close> is.\<close>

definition early :: "int \<Rightarrow> int list \<Rightarrow> nat" where
  "early dl ts = length (filter (\<lambda>t. t < dl) ts)"

lemma early_Cons [simp]: "early dl (t # ts) = (if t < dl then Suc (early dl ts) else early dl ts)"
  by (simp add: early_def)

definition supplied :: "int \<Rightarrow> nat \<Rightarrow> nat \<Rightarrow> hopper \<Rightarrow> bool" where
  "supplied dl i c h \<longleftrightarrow> sorted (hp_clock h) \<and> early dl (hp_clock h) + i \<le> length (hp_inputs h) \<and>
     early dl (hp_clock h) + c \<le> length (hp_clock h)"

lemma ms_between_late: "0 \<le> b \<Longrightarrow> t0 + b * 1000000 \<le> t1 \<Longrightarrow> b \<le> ms_between t0 t1"
  by (simp add: ms_between_def sdiv_pos)

lemma pollOnce_defined:
  "hp_inputs h \<noteq> [] \<Longrightarrow> hp_clock h \<noteq> [] \<Longrightarrow> \<exists>h1. pollOnce h = Some h1"
  by (cases "hp_inputs h"; cases "hp_clock h") (simp_all add: pollOnce_def read_pulse_def read_clock_def Let_def)

lemma poll_loop_returns:
  assumes "supplied (start + budget * 1000000) (Suc i) (Suc (Suc c)) h" "0 \<le> budget"
  shows "\<exists>e h'. poll_loop cfg coins start budget h lp lt = Some (e, h') \<and>
    supplied (start + budget * 1000000) i c h'"
  using assms
proof (induction cfg coins start budget h lp lt rule: poll_loop.induct)
  case (1 cfg coins start budget h lp lt)
  let ?dl = "start + budget * 1000000"
  obtain t1 now ts where clk: "hp_clock h = t1 # now # ts"
    using "1.prems"(1) by (cases "hp_clock h"; cases "tl (hp_clock h)") (auto simp: supplied_def)
  have inp: "hp_inputs h \<noteq> []" using "1.prems"(1) by (auto simp: supplied_def)
  from inp clk obtain h1 where p: "pollOnce h = Some h1" using pollOnce_defined [of h] by auto
  have "hp_clock h1 = now # ts" using pollOnce_fields(9) [OF p] clk by simp
  then obtain h2 where c: "read_clock h1 = Some (now, h2)" by (simp add: read_clock_def)
  have h2: "hp_clock h2 = ts" "hp_inputs h2 = tl (hp_inputs h)"
    using read_clock_fields [OF c] pollOnce_fields [OF p] clk by auto
  let ?lt = "if hp_pulses h2 \<noteq> lp then now else lt"
  show ?case
  proof (cases "coinCount h2 \<ge> coins \<or> ms_between ?lt now \<ge> dc_jam_ms cfg \<or> ms_between start now \<ge> budget")
    case True
    then have "\<exists>e. poll_loop cfg coins start budget h lp lt = Some (e, hopper_stop h2)"
      using p c by (auto simp: poll_loop.simps [of cfg coins start budget h lp lt] Let_def)
    moreover have "supplied ?dl i c (hopper_stop h2)"
      using "1.prems"(1) clk h2 inp by (auto simp: supplied_def split: if_splits)
    ultimately show ?thesis by blast
  next
    case False
    then have "now < ?dl" using ms_between_late [of budget start now] "1.prems"(2) by linarith
    moreover have "t1 \<le> now" using "1.prems"(1) clk by (simp add: supplied_def)
    ultimately have "supplied ?dl (Suc i) (Suc (Suc c)) h2"
      using "1.prems"(1) clk h2 inp by (auto simp: supplied_def)
    moreover have "poll_loop cfg coins start budget h lp lt = poll_loop cfg coins start budget h2 (hp_pulses h2) ?lt"
      using False p c by (auto simp: poll_loop.simps [of cfg coins start budget h lp lt] Let_def)
    ultimately show ?thesis
      using "1.IH" [OF p c refl refl refl] False "1.prems"(2) by auto
  qed
qed

lemma attempt_loop_returns:
  assumes "supplied (start + budget * 1000000) (2 * Suc n) (3 * Suc n + 1) h" "0 \<le> budget"
    "n = nat (dc_max_retries cfg - a)" "a \<le> dc_max_retries cfg"
  shows "\<exists>ok reason a' h'. attempt_loop cfg coins start budget a h = Some (ok, reason, a', h') \<and> hp_clock h' \<noteq> []"
  using assms
proof (induction n arbitrary: a h)
  case (0 a h)
  let ?dl = "start + budget * 1000000"
  obtain b bs t ts where io: "hp_inputs h = b # bs" "hp_clock h = t # ts"
    using 0(1) by (cases "hp_inputs h"; cases "hp_clock h") (auto simp: supplied_def)
  obtain h1 where r: "resetCounters h = Some h1" using io by (simp add: resetCounters_def read_pulse_def)
  obtain h3 where c: "read_clock (hopper_start h1) = Some (t, h3)"
    using resetCounters_fields(7) [OF r] io by (simp add: read_clock_def)
  have "supplied ?dl (Suc 0) (Suc (Suc 1)) h3"
    using 0(1) io resetCounters_fields [OF r] read_clock_fields [OF c] by (auto simp: supplied_def split: if_splits)
  from poll_loop_returns [OF this 0(2)] obtain e h4 where
    p: "poll_loop cfg coins start budget h3 (hp_pulses (hopper_start h1)) t = Some (e, h4)" "hp_clock h4 \<noteq> []"
    by (fastforce simp: supplied_def)
  then show ?case
    using 0 r c by (cases e) (auto simp: attempt_loop.simps [of cfg coins start budget a h] Let_def)
next
  case (Suc n a h)
  let ?dl = "start + budget * 1000000"
  obtain b bs t ts where io: "hp_inputs h = b # bs" "hp_clock h = t # ts"
    using Suc(2) by (cases "hp_inputs h"; cases "hp_clock h") (auto simp: supplied_def)
  obtain h1 where r: "resetCounters h = Some h1" using io by (simp add: resetCounters_def read_pulse_def)
  obtain h3 where c: "read_clock (hopper_start h1) = Some (t, h3)"
    using resetCounters_fields(7) [OF r] io by (simp add: read_clock_def)
  have "supplied ?dl (Suc (2 * Suc n)) (Suc (Suc (3 * Suc n + 1))) h3"
    using Suc(2) io resetCounters_fields [OF r] read_clock_fields [OF c] by (auto simp: supplied_def split: if_splits)
  from poll_loop_returns [OF this Suc(3)] obtain e h4 where
    p: "poll_loop cfg coins start budget h3 (hp_pulses (hopper_start h1)) t = Some (e, h4)"
    and s: "supplied ?dl (2 * Suc n) (3 * Suc n + 1) h4"
    by blast
  have "n = nat (dc_max_retries cfg - (a + 1))" "a + 1 \<le> dc_max_retries cfg" using Suc(4,5) by auto
  with Suc(1) [OF s Suc(3)] have "\<exists>ok reason a' h'. attempt_loop cfg coins start budget (a + 1) h4 = Some (ok, reason, a', h') \<and> hp_clock h' \<noteq> []"
    by blast
  moreover have "hp_clock h4 \<noteq> []" using s by (auto simp: supplied_def)
  ultimately show ?case
    using Suc(5) r c p by (cases e) (auto simp: attempt_loop.simps [of cfg coins start budget a h] Let_def)
qed


section \<open>A jam in the middle, concretely\<close>

text \<open>One coin passes the sensor, then nothing for 700 ms, then, in the second attempt, two coins.\<close>

definition jam_run :: DispenseController where
  "jam_run = \<lparr>ctl_hopper = \<lparr>hp_motor = False, hp_motor_active_high = True, hp_pulses_per_coin = 1,
       hp_min_interval_us = 2000, hp_pulses = 0, hp_last_edge_ns = 0, hp_last_level = False,
       hp_inputs = [False, True, False, False, True, False, True],
       hp_clock = map (\<lambda>t. t * 100000000) [10, 11, 12, 12, 19, 19, 20, 21, 21, 22, 22, 23, 23, 23],
       hp_emitted = 0\<rparr>,
     ctl_cfg = DispenseConfig_default, ctl_file = None\<rparr>"

lemmas dispense_eval = dispense_coins_def attempt_loop.simps poll_loop.simps resetCounters_def read_pulse_def
  read_clock_def pollOnce_def hopper_start_def hopper_stop_def coinCount_def budget_ms_def
  DispenseConfig_default_def ms_between_def signed_divide_int_def

lemma jam_run_result:
  "\<exists>r c'. dispense_coins 2 jam_run = Some (r, c') \<and> dr_ok r \<and> dr_dispensed r = 2 \<and> dr_retries r = 1 \<and>
     dr_pulses r = 2 \<and> hp_emitted (ctl_hopper c') = 3"
  by (simp add: jam_run_def dispense_eval)

text \<open>
  A retry starts its counters afresh and asks for the full number again: there is a run of
  the default configuration, one pulse per coin, in which the controller reports success with
  exactly the two coins asked for while three coins passed the sensor.
\<close>

theorem retry_overdispense:
  "\<exists>c r c'. ctl_cfg c = DispenseConfig_default \<and> hp_pulses_per_coin (ctl_hopper c) = 1 \<and>
     dispense_coins 2 c = Some (r, c') \<and> dr_ok r \<and> dr_dispensed r = 2 \<and>
     hp_emitted (ctl_hopper c') - hp_emitted (ctl_hopper c) = 3"
  using jam_run_result by (intro exI [of _ jam_run]) (auto simp: jam_run_def)

theorem dispense_coins_contract_witness:
  "\<exists>r c'. dispense_coins 2 jam_run = Some (r, c') \<and> dr_dispensed r \<le> 2 \<and>
     (dr_ok r \<longleftrightarrow> dr_dispensed r = 2) \<and> dr_retries r \<le> 2"
proof -
  obtain r c' where r: "dispense_coins 2 jam_run = Some (r, c')" using jam_run_result by blast
  show ?thesis
    using dispense_coins_contract [OF r] r by (auto simp: jam_run_def DispenseConfig_default_def)
qed

theorem dispense_motor_off_witness:
  "\<exists>r c'. dispense_coins 2 jam_run = Some (r, c') \<and>
     (hp_motor (ctl_hopper c') \<longleftrightarrow> \<not> hp_motor_active_high (ctl_hopper c'))"
proof -
  obtain r c' where r: "dispense_coins 2 jam_run = Some (r, c')" using jam_run_result by blast
  show ?thesis using dispense_motor_off [OF r] r by (auto simp: jam_run_def DispenseConfig_default_def)
qed

text \<open>A hopper whose sensor never moves, with a clock that passes the five-second budget.\<close>

definition silent_run :: DispenseController where
  "silent_run = jam_run\<lparr>ctl_hopper := (ctl_hopper jam_run)\<lparr>hp_inputs := replicate 10 False,
     hp_clock := 0 # replicate 20 6000000000\<rparr>\<rparr>"


section \<open>Banks of hoppers driven by the controller\<close>

definition controller_bank :: "DenomSpec list \<Rightarrow> DispenseController hoppers" where
  "controller_bank specs = foldl (\<lambda>hs sp. attach \<lparr>hh_spec = sp, hh_driver = Some adapter_dispenseCoins\<rparr> hs) [] specs"

lemma controller_bank_driver:
  "get (foldl (\<lambda>hs sp. attach \<lparr>hh_spec = sp, hh_driver = Some adapter_dispenseCoins\<rparr> hs) hs0 specs) d = Some h \<Longrightarrow>
   (\<And>d h. get hs0 d = Some h \<Longrightarrow> hh_driver h = Some adapter_dispenseCoins) \<Longrightarrow> hh_driver h = Some adapter_dispenseCoins"
proof (induction specs arbitrary: hs0)
  case (Cons sp specs)
  show ?case
    by (rule Cons.IH [of "attach \<lparr>hh_spec = sp, hh_driver = Some adapter_dispenseCoins\<rparr> hs0"])
      (use Cons.prems in \<open>auto simp: attach_def split: if_splits\<close>)
qed auto

interpretation bank: hopper_bank "controller_bank specs" retrying for specs
proof (rule hopper_bank.intro)
  fix d h drv
  assume "get (controller_bank specs) d = Some h" "hh_driver h = Some drv"
  then have "drv = adapter_dispenseCoins"
    using controller_bank_driver [of "[]" specs d h] by (simp add: controller_bank_def)
  then show "dispenser drv retrying" using ctl.dispenser_axioms by simp
qed

end
