(* ===== verification/Shutter.thy ===== *)
theory Shutter
  imports Devices
begin

text \<open>
  The shutter: the stepper driver \<^verbatim>\<open>src/drivers/stepper.cpp\<close>, the state machine
  \<^verbatim>\<open>src/app/shutter_fsm.cpp\<close> and the blocking adapter \<^verbatim>\<open>src/app/shutter_adapter.cpp\<close>. A limit
  switch is the function from the number of a reading to its level; the stepper counts the
  readings it made of each switch. The step line is a history: \<open>sp_moved\<close> is the net number of
  steps in the opening direction. The results are the invariant of the state machine over all
  interleavings of commands and ticks, the soft limit, and what each blocking call guarantees.
\<close>

datatype ShutterState = INIT | HOMING | CLOSED | OPENING | OPEN | CLOSING | FAULT

record stepper =
  sp_steps_per_mm :: int
  sp_enabled :: bool
  sp_dir_open :: bool
  sp_moved :: int
  sp_open_switch :: "nat \<Rightarrow> bool"
  sp_closed_switch :: "nat \<Rightarrow> bool"
  sp_open_reads :: nat
  sp_closed_reads :: nat

text \<open>\<^verbatim>\<open>enable\<close> drives an active-low pin; \<open>sp_enabled\<close> is the state of the motor.\<close>

definition st_enable :: "bool \<Rightarrow> stepper \<Rightarrow> stepper" where
  "st_enable en s = s\<lparr>sp_enabled := en\<rparr>"

definition st_setDir :: "bool \<Rightarrow> stepper \<Rightarrow> stepper" where
  "st_setDir open_dir s = s\<lparr>sp_dir_open := open_dir\<rparr>"

definition one_step :: "stepper \<Rightarrow> stepper" where
  "one_step s = s\<lparr>sp_moved := sp_moved s + (if sp_dir_open s then 1 else - 1)\<rparr>"

definition st_step :: "int \<Rightarrow> stepper \<Rightarrow> stepper" where
  "st_step microsteps s = (one_step ^^ nat microsteps) s"

definition atOpen :: "stepper \<Rightarrow> bool \<times> stepper" where
  "atOpen s = (sp_open_switch s (sp_open_reads s), s\<lparr>sp_open_reads := Suc (sp_open_reads s)\<rparr>)"

definition atClosed :: "stepper \<Rightarrow> bool \<times> stepper" where
  "atClosed s = (sp_closed_switch s (sp_closed_reads s), s\<lparr>sp_closed_reads := Suc (sp_closed_reads s)\<rparr>)"

text \<open>\<^verbatim>\<open>homeClosed\<close>: the loop over \<open>i < max_steps\<close>, by the steps that remain.\<close>

fun home_loop :: "nat \<Rightarrow> stepper \<Rightarrow> bool \<times> stepper" where
  "home_loop 0 s = (False, st_enable False s)"
| "home_loop (Suc n) s =
     (case atClosed s of (True, s1) \<Rightarrow> (True, st_enable False s1)
      | (False, s1) \<Rightarrow> home_loop n (st_step 1 s1))"

definition homeClosed :: "int \<Rightarrow> stepper \<Rightarrow> bool \<times> stepper" where
  "homeClosed max_mm s =
     home_loop (nat (max_mm * sp_steps_per_mm s)) (st_enable True (st_setDir False s))"

definition moveOpenMm :: "int \<Rightarrow> stepper \<Rightarrow> bool \<times> stepper" where
  "moveOpenMm mm s =
     (True, st_enable False ((st_step 1 ^^ nat (mm * sp_steps_per_mm s)) (st_enable True (st_setDir True s))))"

definition moveCloseMm :: "int \<Rightarrow> stepper \<Rightarrow> bool \<times> stepper" where
  "moveCloseMm mm s =
     (True, st_enable False ((st_step 1 ^^ nat (mm * sp_steps_per_mm s)) (st_enable True (st_setDir False s))))"

section \<open>The state machine\<close>

record ShutterFSM =
  fs_stepper :: stepper
  fs_state :: ShutterState
  fs_debounce_reads :: int
  fs_max_mm :: int
  fs_target_steps :: int
  fs_steps_done :: int
  fs_deb_open :: int
  fs_deb_closed :: int

text \<open>The constructor; the debounce interval only sets how long a tick sleeps.\<close>

definition fsm_init :: "stepper \<Rightarrow> int \<Rightarrow> ShutterFSM" where
  "fsm_init s max_mm = \<lparr>fs_stepper = s, fs_state = INIT, fs_debounce_reads = 3, fs_max_mm = max_mm,
     fs_target_steps = 0, fs_steps_done = 0, fs_deb_open = 0, fs_deb_closed = 0\<rparr>"

definition setState :: "ShutterState \<Rightarrow> ShutterFSM \<Rightarrow> ShutterFSM" where
  "setState to f = (if fs_state f \<noteq> to then f\<lparr>fs_state := to\<rparr> else f)"

definition stateName :: "ShutterState \<Rightarrow> string" where
  "stateName s = (case s of INIT \<Rightarrow> ''INIT'' | HOMING \<Rightarrow> ''HOMING'' | CLOSED \<Rightarrow> ''CLOSED''
     | OPENING \<Rightarrow> ''OPENING'' | OPEN \<Rightarrow> ''OPEN'' | CLOSING \<Rightarrow> ''CLOSING'' | FAULT \<Rightarrow> ''FAULT'')"

text \<open>\<^verbatim>\<open>debounce\<close> returns its result and the new value of the counter it is given.\<close>

definition debounce :: "ShutterFSM \<Rightarrow> bool \<Rightarrow> int \<Rightarrow> bool \<times> int" where
  "debounce f level counter =
     (if level then (counter + 1 \<ge> fs_debounce_reads f, counter + 1) else (False, 0))"

definition cmdHome :: "ShutterFSM \<Rightarrow> ShutterFSM" where
  "cmdHome f = setState HOMING
     (f\<lparr>fs_steps_done := 0, fs_target_steps := fs_max_mm f * sp_steps_per_mm (fs_stepper f),
        fs_deb_closed := 0, fs_stepper := st_setDir False (st_enable True (fs_stepper f))\<rparr>)"

definition cmdOpenMm :: "int \<Rightarrow> ShutterFSM \<Rightarrow> ShutterFSM" where
  "cmdOpenMm mm f =
     (if mm > fs_max_mm f then setState FAULT f
      else setState OPENING
        (f\<lparr>fs_steps_done := 0, fs_target_steps := mm * sp_steps_per_mm (fs_stepper f),
           fs_deb_open := 0, fs_stepper := st_setDir True (st_enable True (fs_stepper f))\<rparr>))"

definition cmdCloseMm :: "int \<Rightarrow> ShutterFSM \<Rightarrow> ShutterFSM" where
  "cmdCloseMm mm f =
     (if mm > fs_max_mm f then setState FAULT f
      else setState CLOSING
        (f\<lparr>fs_steps_done := 0, fs_target_steps := mm * sp_steps_per_mm (fs_stepper f),
           fs_deb_closed := 0, fs_stepper := st_setDir False (st_enable True (fs_stepper f))\<rparr>))"

definition take_step :: "ShutterFSM \<Rightarrow> ShutterFSM" where
  "take_step f = f\<lparr>fs_stepper := st_step 1 (fs_stepper f), fs_steps_done := fs_steps_done f + 1\<rparr>"

definition halt :: "ShutterState \<Rightarrow> ShutterFSM \<Rightarrow> ShutterFSM" where
  "halt to f = setState to (f\<lparr>fs_stepper := st_enable False (fs_stepper f)\<rparr>)"

text \<open>The debounced switch readings of a tick, with their counter and the reading stored.\<close>

definition sense_closed :: "ShutterFSM \<Rightarrow> bool \<times> ShutterFSM" where
  "sense_closed f =
     (let (level, s) = atClosed (fs_stepper f); (hit, n) = debounce f level (fs_deb_closed f)
      in (hit, f\<lparr>fs_stepper := s, fs_deb_closed := n\<rparr>))"

definition sense_open :: "ShutterFSM \<Rightarrow> bool \<times> ShutterFSM" where
  "sense_open f =
     (let (level, s) = atOpen (fs_stepper f); (hit, n) = debounce f level (fs_deb_open f)
      in (hit, f\<lparr>fs_stepper := s, fs_deb_open := n\<rparr>))"

definition at_limit :: "ShutterFSM \<Rightarrow> bool" where
  "at_limit f \<longleftrightarrow> fs_steps_done f \<ge> fs_max_mm f * sp_steps_per_mm (fs_stepper f)"

definition tick :: "ShutterFSM \<Rightarrow> ShutterFSM" where
  "tick f =
     (case fs_state f of
        HOMING \<Rightarrow>
          (case sense_closed (take_step f) of (hit, g) \<Rightarrow>
             if hit then halt CLOSED g
             else if fs_steps_done g \<ge> fs_target_steps g then halt FAULT g else g)
      | OPENING \<Rightarrow>
          (case sense_open (take_step f) of (hit, g) \<Rightarrow>
             if hit then halt OPEN g
             else if fs_steps_done g \<ge> fs_target_steps g then halt OPEN g
             else if at_limit g then halt FAULT g else g)
      | CLOSING \<Rightarrow>
          (case sense_closed (take_step f) of (hit, g) \<Rightarrow>
             if hit then halt CLOSED g
             else if fs_steps_done g \<ge> fs_target_steps g then halt CLOSED g
             else if at_limit g then halt FAULT g else g)
      | _ \<Rightarrow> f)"

section \<open>The blocking adapter\<close>

text \<open>\<^verbatim>\<open>waitFor\<close>: at most 10000 ticks; the argument is the number of ticks left.\<close>

fun waitFor :: "nat \<Rightarrow> ShutterState \<Rightarrow> string \<Rightarrow> ShutterFSM \<Rightarrow> bool \<times> string \<times> ShutterFSM" where
  "waitFor 0 target reason f = (False, ''TIMEOUT'', f)"
| "waitFor (Suc n) target reason f =
     (let g = tick f in
      if fs_state g = target then (True, reason, g)
      else if fs_state g = FAULT then (False, ''FAULT'', g)
      else waitFor n target reason g)"

definition wait_ticks :: nat where "wait_ticks = 10000"

definition adapter_home :: "ShutterFSM shutter_op" where
  "adapter_home max_mm reason f = waitFor wait_ticks CLOSED reason (cmdHome f)"

definition adapter_open_mm :: "ShutterFSM shutter_op" where
  "adapter_open_mm mm reason f = waitFor wait_ticks OPEN reason (cmdOpenMm mm f)"

definition adapter_close_mm :: "ShutterFSM shutter_op" where
  "adapter_close_mm mm reason f = waitFor wait_ticks CLOSED reason (cmdCloseMm mm f)"

definition ShutterAdapter :: "ShutterFSM IShutter" where
  "ShutterAdapter = \<lparr>sh_home = adapter_home, sh_open_mm = adapter_open_mm, sh_close_mm = adapter_close_mm\<rparr>"

section \<open>Invariant over all interleavings\<close>

datatype shutter_event = Home_cmd | Open_cmd int | Close_cmd int | Tick

fun fsm_event :: "shutter_event \<Rightarrow> ShutterFSM \<Rightarrow> ShutterFSM" where
  "fsm_event Home_cmd f = cmdHome f"
| "fsm_event (Open_cmd mm) f = cmdOpenMm mm f"
| "fsm_event (Close_cmd mm) f = cmdCloseMm mm f"
| "fsm_event Tick f = tick f"

inductive fsm_reach :: "ShutterFSM \<Rightarrow> ShutterFSM \<Rightarrow> bool" for f0 where
  fsm_start: "fsm_reach f0 f0"
| fsm_next: "fsm_reach f0 f \<Longrightarrow> fsm_reach f0 (fsm_event e f)"

definition moving :: "ShutterState \<Rightarrow> bool" where
  "moving s \<longleftrightarrow> s = HOMING \<or> s = OPENING \<or> s = CLOSING"

definition limit_steps :: "ShutterFSM \<Rightarrow> int" where
  "limit_steps f = fs_max_mm f * sp_steps_per_mm (fs_stepper f)"

definition fsm_inv :: "ShutterFSM \<Rightarrow> bool" where
  "fsm_inv f \<longleftrightarrow> 0 \<le> sp_steps_per_mm (fs_stepper f) \<and>
     (fs_state f \<in> {INIT, CLOSED, OPEN} \<longrightarrow> \<not> sp_enabled (fs_stepper f)) \<and>
     (moving (fs_state f) \<longrightarrow> sp_enabled (fs_stepper f) \<and>
        sp_dir_open (fs_stepper f) = (fs_state f = OPENING) \<and> 0 \<le> fs_steps_done f \<and>
        (fs_steps_done f = 0 \<or> fs_steps_done f < fs_target_steps f) \<and> fs_target_steps f \<le> limit_steps f)"

lemma st_step_one [simp]: "st_step 1 s = one_step s"
  by (simp add: st_step_def)

lemma setState_fields [simp]:
  "fs_state (setState to f) = to" "fs_stepper (setState to f) = fs_stepper f"
  "fs_max_mm (setState to f) = fs_max_mm f" "fs_target_steps (setState to f) = fs_target_steps f"
  "fs_steps_done (setState to f) = fs_steps_done f" "fs_deb_open (setState to f) = fs_deb_open f"
  "fs_deb_closed (setState to f) = fs_deb_closed f"
  by (simp_all add: setState_def)

lemma halt_fields [simp]:
  "fs_state (halt to f) = to" "sp_enabled (fs_stepper (halt to f)) = False"
  "sp_moved (fs_stepper (halt to f)) = sp_moved (fs_stepper f)"
  "sp_steps_per_mm (fs_stepper (halt to f)) = sp_steps_per_mm (fs_stepper f)"
  "fs_steps_done (halt to f) = fs_steps_done f" "fs_max_mm (halt to f) = fs_max_mm f"
  by (simp_all add: halt_def st_enable_def)

text \<open>What a step and its debounced reading leave alone.\<close>

lemma sensed_fields:
  assumes "sense_closed (take_step f) = (hit, g) \<or> sense_open (take_step f) = (hit, g)"
  shows "fs_state g = fs_state f" "fs_max_mm g = fs_max_mm f" "fs_target_steps g = fs_target_steps f"
    "fs_steps_done g = fs_steps_done f + 1" "sp_steps_per_mm (fs_stepper g) = sp_steps_per_mm (fs_stepper f)"
    "sp_enabled (fs_stepper g) = sp_enabled (fs_stepper f)" "sp_dir_open (fs_stepper g) = sp_dir_open (fs_stepper f)"
    "sp_moved (fs_stepper g) = sp_moved (fs_stepper f) + (if sp_dir_open (fs_stepper f) then 1 else - 1)"
    "limit_steps g = limit_steps f"
  using assms
  by (auto simp: sense_closed_def sense_open_def take_step_def atClosed_def atOpen_def one_step_def
      limit_steps_def split: prod.splits)

text \<open>In a state of the invariant the soft-limit branches of \<^verbatim>\<open>tick\<close> are dead.\<close>

lemma tick_moving:
  assumes "fsm_inv f" "moving (fs_state f)"
  obtains (stop) g to where "tick f = halt to g" "fs_steps_done g = fs_steps_done f + 1"
      "fs_steps_done g \<le> max 1 (fs_target_steps f)"
      "sp_steps_per_mm (fs_stepper g) = sp_steps_per_mm (fs_stepper f)"
      "sp_moved (fs_stepper g) = sp_moved (fs_stepper f) + (if fs_state f = OPENING then 1 else - 1)"
      "to = (if fs_state f = OPENING then OPEN else CLOSED) \<or>
       (fs_state f = HOMING \<and> to = FAULT \<and> fs_steps_done g \<ge> fs_target_steps f)"
    | (run) "fs_state (tick f) = fs_state f" "fs_steps_done (tick f) = fs_steps_done f + 1"
      "fs_steps_done (tick f) < fs_target_steps f" "fs_target_steps (tick f) = fs_target_steps f"
      "sp_enabled (fs_stepper (tick f))" "sp_dir_open (fs_stepper (tick f)) = (fs_state f = OPENING)"
      "sp_moved (fs_stepper (tick f)) = sp_moved (fs_stepper f) + (if fs_state f = OPENING then 1 else - 1)"
      "sp_steps_per_mm (fs_stepper (tick f)) = sp_steps_per_mm (fs_stepper f)"
      "limit_steps (tick f) = limit_steps f"
proof -
  have i: "sp_enabled (fs_stepper f)" "sp_dir_open (fs_stepper f) = (fs_state f = OPENING)" "0 \<le> fs_steps_done f"
    "fs_steps_done f = 0 \<or> fs_steps_done f < fs_target_steps f" "fs_target_steps f \<le> limit_steps f"
    using assms by (auto simp: fsm_inv_def)
  obtain hit g where g: "(if fs_state f = OPENING then sense_open (take_step f) else sense_closed (take_step f)) = (hit, g)"
    by (cases "if fs_state f = OPENING then sense_open (take_step f) else sense_closed (take_step f)")
  then have "sense_closed (take_step f) = (hit, g) \<or> sense_open (take_step f) = (hit, g)"
    by (auto split: if_splits)
  note s = sensed_fields [OF this]
  have lim: "\<not> at_limit g" if "fs_steps_done g < fs_target_steps g"
    using that i(5) s by (simp add: at_limit_def limit_steps_def)
  show ?thesis
  proof (cases "hit \<or> fs_steps_done g \<ge> fs_target_steps g")
    case True
    let ?to = "if hit \<or> fs_state f \<noteq> HOMING then (if fs_state f = OPENING then OPEN else CLOSED) else FAULT"
    have "tick f = halt ?to g"
      using assms(2) g True by (auto simp: tick_def moving_def)
    then show ?thesis by (rule stop) (use s i True in auto)
  next
    case False
    then have "tick f = g" using assms(2) g lim by (auto simp: tick_def moving_def)
    then show ?thesis by (intro run) (use s i False in auto)
  qed
qed

lemma tick_inv: "fsm_inv f \<Longrightarrow> fsm_inv (tick f)"
proof (cases "moving (fs_state f)")
  case True
  assume i: "fsm_inv f"
  from i True show ?thesis
  proof (cases rule: tick_moving)
    case (stop g to)
    then show ?thesis using i by (auto simp: fsm_inv_def moving_def split: if_splits)
  next
    case run
    then show ?thesis using i True by (simp add: fsm_inv_def) (auto simp: moving_def)
  qed
next
  case False
  assume "fsm_inv f"
  moreover from False have "tick f = f" by (auto simp: tick_def moving_def split: ShutterState.splits)
  ultimately show ?thesis by simp
qed

lemma cmd_inv:
  assumes "fsm_inv f"
  shows "fsm_inv (cmdHome f)" "fsm_inv (cmdOpenMm mm f)" "fsm_inv (cmdCloseMm mm f)"
  using assms mult_right_mono [of mm "fs_max_mm f" "sp_steps_per_mm (fs_stepper f)"]
  by (auto simp: fsm_inv_def cmdHome_def cmdOpenMm_def cmdCloseMm_def st_enable_def st_setDir_def
      moving_def limit_steps_def)

lemmas fsm_inv_rules [inv_intros] = tick_inv cmd_inv

lemma fsm_event_inv: "fsm_inv f \<Longrightarrow> fsm_inv (fsm_event e f)"
  by (cases e) (auto intro: inv_intros)

lemma fsm_reach_inv: "fsm_reach f0 f \<Longrightarrow> fsm_inv f0 \<Longrightarrow> fsm_inv f"
  by (induction rule: fsm_reach.induct) (auto intro: fsm_event_inv)

lemma fsm_init_inv: "0 \<le> sp_steps_per_mm s \<Longrightarrow> \<not> sp_enabled s \<Longrightarrow> fsm_inv (fsm_init s max_mm)"
  by (simp add: fsm_inv_def fsm_init_def moving_def)


text \<open>
  From every such state a tick raises a fault only while homing, when the closed switch was
  not found within the whole travel: the soft-limit faults of the opening and closing branches
  cannot happen, because a command beyond the limit is refused when it is given.
\<close>

theorem tick_fault_only_homing:
  assumes "fsm_reach (fsm_init s max_mm) f" "0 \<le> sp_steps_per_mm s" "\<not> sp_enabled s"
    and "fs_state f \<noteq> FAULT" "fs_state (tick f) = FAULT"
  shows "fs_state f = HOMING \<and> fs_steps_done (tick f) \<ge> fs_target_steps f \<and> \<not> sp_enabled (fs_stepper (tick f))"
proof -
  have i: "fsm_inv f" using fsm_reach_inv [OF assms(1) fsm_init_inv [OF assms(2,3)]] .
  have m: "moving (fs_state f)"
    using assms(4,5) by (auto simp: moving_def tick_def split: ShutterState.splits)
  from i m show ?thesis
    by (cases rule: tick_moving) (use assms(4,5) in \<open>auto split: if_splits\<close>)
qed

section \<open>The blocking calls\<close>

definition rests :: "ShutterState \<Rightarrow> ShutterFSM \<Rightarrow> bool" where
  "rests st f \<longleftrightarrow> fs_state f = st \<and> \<not> sp_enabled (fs_stepper f)"

lemma sensed_state:
  "sense_closed (take_step f) = (hit, g) \<Longrightarrow> fs_state g = fs_state f"
  "sense_open (take_step f) = (hit, g) \<Longrightarrow> fs_state g = fs_state f"
  using sensed_fields(1) by blast+

lemma tick_rests:
  "fs_state f = OPENING \<Longrightarrow> fs_state (tick f) \<noteq> OPENING \<Longrightarrow> rests OPEN (tick f) \<or> rests FAULT (tick f)"
  "fs_state f = CLOSING \<Longrightarrow> fs_state (tick f) \<noteq> CLOSING \<Longrightarrow> rests CLOSED (tick f) \<or> rests FAULT (tick f)"
  "fs_state f = HOMING \<Longrightarrow> fs_state (tick f) \<noteq> HOMING \<Longrightarrow> rests CLOSED (tick f) \<or> rests FAULT (tick f)"
  by (auto simp: tick_def rests_def dest: sensed_state split: prod.splits if_splits)

lemma tick_fault: "fs_state f = FAULT \<Longrightarrow> tick f = f"
  by (simp add: tick_def)

lemma waitFor_fault:
  "fs_state f = FAULT \<Longrightarrow> target \<noteq> FAULT \<Longrightarrow> 0 < n \<Longrightarrow> waitFor n target r f = (False, ''FAULT'', f)"
  by (cases n) (auto simp: Let_def tick_fault)

lemma waitFor_success:
  assumes "waitFor n target r f = (True, r', g)"
    and "fs_state f = OPENING \<and> target = OPEN \<or> fs_state f = CLOSING \<and> target = CLOSED \<or>
      fs_state f = HOMING \<and> target = CLOSED \<or> fs_state f = FAULT \<and> target \<noteq> FAULT"
  shows "rests target g \<and> r' = r"
  using assms
proof (induction n arbitrary: f)
  case (Suc n)
  show ?case
  proof (cases "fs_state (tick f) = fs_state f")
    case True
    then show ?thesis using Suc by (auto simp: Let_def split: if_splits)
  next
    case False
    then have "rests target (tick f) \<or> rests FAULT (tick f)"
      using Suc.prems(2) tick_rests [of f] tick_fault [of f] by fastforce
    then show ?thesis using Suc.prems by (auto simp: Let_def rests_def split: if_splits)
  qed
qed simp

lemma cmd_states:
  "fs_state (cmdHome f) = HOMING"
  "fs_state (cmdOpenMm mm f) = (if mm > fs_max_mm f then FAULT else OPENING)"
  "fs_state (cmdCloseMm mm f) = (if mm > fs_max_mm f then FAULT else CLOSING)"
  by (simp_all add: cmdHome_def cmdOpenMm_def cmdCloseMm_def)

interpretation sha: shutter ShutterAdapter "rests OPEN" "rests CLOSED"
proof unfold_locales
  fix mm r w r' w'
  show "sh_home ShutterAdapter mm r w = (True, r', w') \<Longrightarrow> rests CLOSED w'"
    using waitFor_success [of wait_ticks CLOSED r "cmdHome w" r' w']
    by (simp add: ShutterAdapter_def adapter_home_def cmd_states)
  show "sh_open_mm ShutterAdapter mm r w = (True, r', w') \<Longrightarrow> rests OPEN w'"
    using waitFor_success [of wait_ticks OPEN r "cmdOpenMm mm w" r' w']
    by (simp add: ShutterAdapter_def adapter_open_mm_def cmd_states split: if_splits)
  show "sh_close_mm ShutterAdapter mm r w = (True, r', w') \<Longrightarrow> rests CLOSED w'"
    using waitFor_success [of wait_ticks CLOSED r "cmdCloseMm mm w" r' w']
    by (simp add: ShutterAdapter_def adapter_close_mm_def cmd_states split: if_splits)
qed

text \<open>Enough ticks for the target always end an opening or a closing move.\<close>

lemma waitFor_move:
  assumes "fsm_inv f" "fs_state f = (if target = OPEN then OPENING else CLOSING)" "target \<in> {OPEN, CLOSED}"
    "max 1 (fs_target_steps f) - fs_steps_done f \<le> int n"
  shows "\<exists>g. waitFor n target r f = (True, r, g) \<and> rests target g \<and>
    sp_moved (fs_stepper f) \<noteq> sp_moved (fs_stepper g) \<and>
    (let d = (sp_moved (fs_stepper g) - sp_moved (fs_stepper f)) * (if target = OPEN then 1 else - 1)
     in 0 < d \<and> d \<le> max 1 (fs_target_steps f) - fs_steps_done f)"
  using assms
proof (induction n arbitrary: f)
  case 0
  then show ?case by (auto simp: fsm_inv_def moving_def split: if_splits)
next
  case (Suc n)
  have m: "moving (fs_state f)" using Suc.prems(2) by (simp add: moving_def)
  from Suc.prems(1) m show ?case
  proof (cases rule: tick_moving)
    case (stop g to)
    then have "to = target" using Suc.prems(2,3) by (auto split: if_splits)
    then show ?thesis using stop Suc.prems(2,3) by (auto simp: Let_def rests_def)
  next
    case run
    have "max 1 (fs_target_steps (tick f)) - fs_steps_done (tick f) \<le> int n"
      using run Suc.prems(4) by auto
    from Suc.IH [OF tick_inv [OF Suc.prems(1)] _ Suc.prems(3) this] run Suc.prems(2) obtain g where
      "waitFor n target r (tick f) = (True, r, g)" "rests target g"
      "let d = (sp_moved (fs_stepper g) - sp_moved (fs_stepper (tick f))) * (if target = OPEN then 1 else - 1)
       in 0 < d \<and> d \<le> max 1 (fs_target_steps (tick f)) - fs_steps_done (tick f)"
      by auto
    then show ?thesis using run Suc.prems(2,3) by (auto simp: Let_def split: if_splits)
  qed
qed

lemma tick_const: "fs_max_mm (tick f) = fs_max_mm f \<and> sp_steps_per_mm (fs_stepper (tick f)) = sp_steps_per_mm (fs_stepper f)"
proof -
  obtain hc gc ho go where g: "sense_closed (take_step f) = (hc, gc)" "sense_open (take_step f) = (ho, go)"
    by (cases "sense_closed (take_step f)"; cases "sense_open (take_step f)")
  then show ?thesis
    using sensed_fields(2,5) [OF disjI1, of f hc gc] sensed_fields(2,5) [OF disjI2, of f ho go]
    by (cases "fs_state f") (simp_all add: tick_def)
qed

lemma waitFor_const:
  "waitFor n target r f = (ok, r', g) \<Longrightarrow> fsm_inv f \<Longrightarrow>
   fsm_inv g \<and> fs_max_mm g = fs_max_mm f \<and> sp_steps_per_mm (fs_stepper g) = sp_steps_per_mm (fs_stepper f)"
proof (induction n arbitrary: f)
  case (Suc n)
  then show ?case using tick_const [of f] tick_inv [of f] by (auto simp: Let_def split: if_splits)
qed simp

lemma cmd_const [simp]:
  "fs_max_mm (cmdOpenMm mm f) = fs_max_mm f" "fs_max_mm (cmdCloseMm mm f) = fs_max_mm f"
  "sp_steps_per_mm (fs_stepper (cmdOpenMm mm f)) = sp_steps_per_mm (fs_stepper f)"
  "sp_steps_per_mm (fs_stepper (cmdCloseMm mm f)) = sp_steps_per_mm (fs_stepper f)"
  by (simp_all add: cmdOpenMm_def cmdCloseMm_def setState_def st_setDir_def st_enable_def)

text \<open>A distance the mechanics allow and that the adapter has time for.\<close>

definition travel_ok :: "int \<Rightarrow> ShutterFSM \<Rightarrow> bool" where
  "travel_ok mm f \<longleftrightarrow> fsm_inv f \<and> mm \<le> fs_max_mm f \<and> mm * sp_steps_per_mm (fs_stepper f) \<le> 10000"

lemma travel_ok_op:
  "travel_ok mm f \<Longrightarrow> adapter_open_mm mm r f = (ok, r', g) \<Longrightarrow> travel_ok mm g"
  "travel_ok mm f \<Longrightarrow> adapter_close_mm mm r f = (ok, r', g) \<Longrightarrow> travel_ok mm g"
  by (auto simp: travel_ok_def adapter_open_mm_def adapter_close_mm_def
      dest!: waitFor_const [OF _ cmd_inv(2)] waitFor_const [OF _ cmd_inv(3)])

lemma open_mm_success:
  assumes "travel_ok mm f"
  shows "\<exists>g. adapter_open_mm mm r f = (True, r, g) \<and> rests OPEN g \<and> sp_moved (fs_stepper f) < sp_moved (fs_stepper g) \<and>
        sp_moved (fs_stepper g) - sp_moved (fs_stepper f) \<le> max 1 (mm * sp_steps_per_mm (fs_stepper f))"
proof -
  let ?c = "cmdOpenMm mm f"
  have c: "fs_state ?c = OPENING" "fs_steps_done ?c = 0" "fs_target_steps ?c = mm * sp_steps_per_mm (fs_stepper f)"
    "sp_moved (fs_stepper ?c) = sp_moved (fs_stepper f)"
    using assms by (simp_all add: cmdOpenMm_def st_setDir_def st_enable_def travel_ok_def)
  then show ?thesis
    using waitFor_move [OF cmd_inv(2), of f mm OPEN wait_ticks r] assms
    by (auto simp: adapter_open_mm_def travel_ok_def wait_ticks_def Let_def)
qed

lemma close_mm_success:
  assumes "travel_ok mm f"
  shows "\<exists>g. adapter_close_mm mm r f = (True, r, g) \<and> rests CLOSED g \<and> sp_moved (fs_stepper g) < sp_moved (fs_stepper f) \<and>
        sp_moved (fs_stepper f) - sp_moved (fs_stepper g) \<le> max 1 (mm * sp_steps_per_mm (fs_stepper f))"
proof -
  let ?c = "cmdCloseMm mm f"
  have c: "fs_state ?c = CLOSING" "fs_steps_done ?c = 0" "fs_target_steps ?c = mm * sp_steps_per_mm (fs_stepper f)"
    "sp_moved (fs_stepper ?c) = sp_moved (fs_stepper f)"
    using assms by (simp_all add: cmdCloseMm_def st_setDir_def st_enable_def travel_ok_def)
  then show ?thesis
    using waitFor_move [OF cmd_inv(3), of f mm CLOSED wait_ticks r] assms
    by (auto simp: adapter_close_mm_def travel_ok_def wait_ticks_def Let_def)
qed

text \<open>
  The blocking open call from any state of the invariant: a distance beyond the limit is
  refused with \<^verbatim>\<open>FAULT\<close>; a distance within the limit that takes at most the 10000 ticks the
  adapter waits ends open with the motor off, after at least one step and no more steps than the
  distance asks for (one, for an empty distance).
\<close>

theorem open_mm_total:
  assumes "fsm_inv f"
  shows "(fs_max_mm f < mm \<longrightarrow> fst (adapter_open_mm mm r f) = False \<and> fst (snd (adapter_open_mm mm r f)) = ''FAULT'') \<and>
    (mm \<le> fs_max_mm f \<and> mm * sp_steps_per_mm (fs_stepper f) \<le> 10000 \<longrightarrow>
      (\<exists>g. adapter_open_mm mm r f = (True, r, g) \<and> rests OPEN g \<and>
        sp_moved (fs_stepper f) < sp_moved (fs_stepper g) \<and>
        sp_moved (fs_stepper g) - sp_moved (fs_stepper f) \<le> max 1 (mm * sp_steps_per_mm (fs_stepper f))))"
proof (intro conjI impI)
  assume a: "fs_max_mm f < mm"
  then have "adapter_open_mm mm r f = (False, ''FAULT'', cmdOpenMm mm f)"
    unfolding adapter_open_mm_def by (intro waitFor_fault) (simp_all add: cmd_states wait_ticks_def)
  then show "fst (adapter_open_mm mm r f) = False" "fst (snd (adapter_open_mm mm r f)) = ''FAULT''" by simp_all
next
  assume "mm \<le> fs_max_mm f \<and> mm * sp_steps_per_mm (fs_stepper f) \<le> 10000"
  then show "\<exists>g. adapter_open_mm mm r f = (True, r, g) \<and> rests OPEN g \<and>
        sp_moved (fs_stepper f) < sp_moved (fs_stepper g) \<and>
        sp_moved (fs_stepper g) - sp_moved (fs_stepper f) \<le> max 1 (mm * sp_steps_per_mm (fs_stepper f))"
    using open_mm_success [of mm f r] assms by (simp add: travel_ok_def)
qed

section \<open>A motor left on\<close>

text \<open>
  A command beyond the limit given while the shutter moves leaves the motor enabled in the
  fault state, and no tick turns it off: from any such state all later ticks keep it.
\<close>

theorem overtravel_command_keeps_motor_on:
  assumes "fsm_inv f" "moving (fs_state f)" "fs_max_mm f < mm"
  shows "fs_state (cmdOpenMm mm f) = FAULT \<and> fs_state (cmdCloseMm mm f) = FAULT \<and>
    sp_enabled (fs_stepper ((tick ^^ n) (cmdOpenMm mm f))) \<and>
    sp_enabled (fs_stepper ((tick ^^ n) (cmdCloseMm mm f)))"
proof -
  have fault: "(tick ^^ n) g = g" if "fs_state g = FAULT" for g
    using that by (induction n) (simp_all add: tick_fault)
  show ?thesis
    using assms fault by (auto simp: cmd_states fsm_inv_def) (simp_all add: cmdOpenMm_def cmdCloseMm_def)
qed

definition sample_stepper :: stepper where
  "sample_stepper = \<lparr>sp_steps_per_mm = 40, sp_enabled = False, sp_dir_open = False, sp_moved = 0,
     sp_open_switch = (\<lambda>_. False), sp_closed_switch = (\<lambda>_. False), sp_open_reads = 0, sp_closed_reads = 0\<rparr>"

abbreviation sample_fsm :: ShutterFSM where
  "sample_fsm \<equiv> fsm_init sample_stepper 80"

lemma sample_fsm_inv: "fsm_inv sample_fsm"
  by (rule fsm_init_inv) (simp_all add: sample_stepper_def)

lemma sample_opening:
  "fsm_reach sample_fsm (cmdOpenMm 40 sample_fsm)" "fs_state (cmdOpenMm 40 sample_fsm) = OPENING"
  using fsm_next [OF fsm_start, of sample_fsm "Open_cmd 40"] by (simp_all add: cmd_states fsm_init_def)


theorem tick_fault_only_homing_witness:
  "fs_state (cmdHome (fsm_init sample_stepper 0)) = HOMING \<and>
   \<not> sp_enabled (fs_stepper (tick (cmdHome (fsm_init sample_stepper 0))))"
proof -
  have r: "fsm_reach (fsm_init sample_stepper 0) (cmdHome (fsm_init sample_stepper 0))"
    using fsm_next [OF fsm_start, of "fsm_init sample_stepper 0" Home_cmd] by simp
  have "fs_state (tick (cmdHome (fsm_init sample_stepper 0))) = FAULT"
    by (simp add: tick_def cmdHome_def fsm_init_def sample_stepper_def setState_def sense_closed_def take_step_def
        atClosed_def debounce_def halt_def one_step_def st_enable_def st_setDir_def)
  then show ?thesis
    using tick_fault_only_homing [OF r] by (simp add: sample_stepper_def cmd_states)
qed

theorem open_mm_total_witness:
  "\<exists>g. adapter_open_mm 40 [] sample_fsm = (True, [], g) \<and> rests OPEN g \<and> sp_moved (fs_stepper g) \<le> 1600"
  using open_mm_total [OF sample_fsm_inv, of 40 "[]"] by (auto simp: fsm_init_def sample_stepper_def)

theorem overtravel_command_keeps_motor_on_witness:
  "sp_enabled (fs_stepper ((tick ^^ 5) (cmdOpenMm 100 (cmdOpenMm 40 sample_fsm))))"
  using overtravel_command_keeps_motor_on [OF cmd_inv(2) [OF sample_fsm_inv, of 40], of 100 5] sample_opening(2)
  by (simp add: moving_def) (simp add: cmdOpenMm_def fsm_init_def)

end
