(* ===== verification/Faults.thy ===== *)
theory Faults
  imports Prelude
begin

text \<open>
  Safety supervision: the event log (\<^verbatim>\<open>src/util/event_log.cpp\<close>), the fault table and its polling
  thread (\<^verbatim>\<open>src/safety/faults.cpp\<close>) and the compliance modes that raise faults
  (\<^verbatim>\<open>src/compliance/compliance_mode.cpp\<close>). The input pins and the clock are arguments of one
  iteration of the polling thread; the interleaving with the other threads, which the mutex makes
  atomic per operation, is the step relation \<open>safety_reach\<close>. The main result relates the
  fault table to the inputs sampled last.
\<close>

section \<open>The event log\<close>

text \<open>\<open>lg_writable\<close> says whether the file can be opened for appending.\<close>

record Logger =
  lg_writable :: bool
  lg_file :: string

text \<open>The argument of \<^verbatim>\<open>append\<close> is a \<^verbatim>\<open>std::map\<close>, so the fields come out ordered by key.\<close>

definition log_line :: "(string \<times> string) list \<Rightarrow> string" where
  "log_line kv =
     ''{'' @ concat (map (\<lambda>(i, k, v). (if i = 0 then [] else '','') @ quoted k @ '':'' @ quoted v)
       (enumerate 0 (sort_key fst kv))) @ ''}'' @ [CHR 0x0A]"

definition log_append :: "(string \<times> string) list \<Rightarrow> Logger \<Rightarrow> bool \<times> Logger" where
  "log_append kv lg =
     (if lg_writable lg then (True, lg\<lparr>lg_file := lg_file lg @ log_line kv\<rparr>) else (False, lg))"

section \<open>The fault table\<close>

datatype FaultCode = NO_FAULT | ESTOP | LID_TAMPER | OVERCURRENT | JAM_SHUTTER | JAM_HOPPER
  | LIMIT_TIMEOUT | SENSOR_FAIL | CONFIG_ERROR

definition all_codes :: "FaultCode list" where
  "all_codes = [NO_FAULT, ESTOP, LID_TAMPER, OVERCURRENT, JAM_SHUTTER, JAM_HOPPER, LIMIT_TIMEOUT,
     SENSOR_FAIL, CONFIG_ERROR]"

fun fault_code_str :: "FaultCode \<Rightarrow> string" where
  "fault_code_str ESTOP = ''ESTOP''"
| "fault_code_str LID_TAMPER = ''LID_TAMPER''"
| "fault_code_str OVERCURRENT = ''OVERCURRENT''"
| "fault_code_str JAM_SHUTTER = ''JAM_SHUTTER''"
| "fault_code_str JAM_HOPPER = ''JAM_HOPPER''"
| "fault_code_str LIMIT_TIMEOUT = ''LIMIT_TIMEOUT''"
| "fault_code_str SENSOR_FAIL = ''SENSOR_FAIL''"
| "fault_code_str CONFIG_ERROR = ''CONFIG_ERROR''"
| "fault_code_str NO_FAULT = ''NONE''"

record Fault =
  f_code :: FaultCode
  f_reason :: string
  f_ts_ns :: "64 word"
  f_latched :: bool

text \<open>\<^verbatim>\<open>cfg::Safety\<close>.\<close>

record Safety =
  estop_pin :: int
  lid_tamper_pin :: int
  overcurrent_pin :: int
  active_high :: bool
  debounce_ms :: int

definition Safety_default :: Safety where
  "Safety_default = \<lparr>estop_pin = - 1, lid_tamper_pin = - 1, overcurrent_pin = - 1,
     active_high = True, debounce_ms = 10\<rparr>"

record FaultManager =
  fm_cfg :: Safety
  fm_elog :: "Logger option"
  fm_faults :: "(FaultCode, Fault) amap"

definition FaultManager_init :: "Safety \<Rightarrow> Logger option \<Rightarrow> FaultManager" where
  "FaultManager_init s lg = \<lparr>fm_cfg = s, fm_elog = lg, fm_faults = []\<rparr>"

definition fm_log :: "(string \<times> string) list \<Rightarrow> FaultManager \<Rightarrow> FaultManager" where
  "fm_log kv fm = fm\<lparr>fm_elog := map_option (\<lambda>lg. snd (log_append kv lg)) (fm_elog fm)\<rparr>"

definition raise :: "64 word \<Rightarrow> FaultCode \<Rightarrow> string \<Rightarrow> bool \<Rightarrow> FaultManager \<Rightarrow> FaultManager" where
  "raise now code reason latch fm =
     (let f = \<lparr>f_code = code, f_reason = reason, f_ts_ns = now, f_latched = latch\<rparr> in
      fm_log [(''ts'', to_string (uint now)), (''code'', fault_code_str code), (''reason'', reason)]
        (fm\<lparr>fm_faults := put code f (fm_faults fm)\<rparr>))"

definition clear :: "FaultCode \<Rightarrow> FaultManager \<Rightarrow> FaultManager" where
  "clear code fm = fm\<lparr>fm_faults := del code (fm_faults fm)\<rparr>"

definition any_active :: "FaultManager \<Rightarrow> bool" where
  "any_active fm \<longleftrightarrow> fm_faults fm \<noteq> []"

text \<open>\<^verbatim>\<open>active\<close> walks the \<^verbatim>\<open>std::map\<close>, that is the codes in the order of the enumeration.\<close>

definition active :: "FaultManager \<Rightarrow> Fault list" where
  "active fm = List.map_filter (get (fm_faults fm)) all_codes"

definition has_fault :: "FaultCode \<Rightarrow> FaultManager \<Rightarrow> bool" where
  "has_fault code fm \<longleftrightarrow> get (fm_faults fm) code \<noteq> None"

definition safety_blocking :: "FaultManager \<Rightarrow> bool" where
  "safety_blocking fm \<longleftrightarrow> has_fault ESTOP fm \<or> has_fault LID_TAMPER fm \<or> has_fault OVERCURRENT fm"

text \<open>True if motion is allowed.\<close>

definition check_and_block_motion :: "FaultManager \<Rightarrow> bool" where
  "check_and_block_motion fm \<longleftrightarrow> \<not> any_active fm"

section \<open>The polling thread\<close>

text \<open>The level of each input line in one iteration, and the clock at each of the calls of
  \<^verbatim>\<open>raise\<close>; a negative pin has no line.\<close>

record sample =
  sm_estop :: bool
  sm_lid :: bool
  sm_overcurrent :: bool
  sm_now :: "FaultCode \<Rightarrow> 64 word"

definition read_line :: "Safety \<Rightarrow> int \<Rightarrow> bool \<Rightarrow> bool" where
  "read_line s pin level = (pin \<ge> 0 \<and> (if active_high s then level else \<not> level))"

text \<open>The local variables of \<^verbatim>\<open>poll_thread\<close>.\<close>

record prevs =
  est_prev :: bool
  lid_prev :: bool
  oc_prev :: bool

definition prevs_init :: prevs where
  "prevs_init = \<lparr>est_prev = False, lid_prev = False, oc_prev = False\<rparr>"

definition on_edge :: "64 word \<Rightarrow> FaultCode \<Rightarrow> string \<Rightarrow> bool \<Rightarrow> bool \<Rightarrow> FaultManager \<Rightarrow> FaultManager" where
  "on_edge now code reason cur prev fm =
     (let fm1 = (if cur \<and> \<not> prev then raise now code reason True fm else fm) in
      if \<not> cur \<and> prev then clear code fm1 else fm1)"

definition poll_once :: "sample \<Rightarrow> prevs \<times> FaultManager \<Rightarrow> prevs \<times> FaultManager" where
  "poll_once sm = (\<lambda>(p, fm).
     let e = read_line (fm_cfg fm) (estop_pin (fm_cfg fm)) (sm_estop sm);
         l = read_line (fm_cfg fm) (lid_tamper_pin (fm_cfg fm)) (sm_lid sm);
         oc = read_line (fm_cfg fm) (overcurrent_pin (fm_cfg fm)) (sm_overcurrent sm)
     in (\<lparr>est_prev = e, lid_prev = l, oc_prev = oc\<rparr>,
         on_edge (sm_now sm OVERCURRENT) OVERCURRENT ''overcurrent'' oc (oc_prev p)
           (on_edge (sm_now sm LID_TAMPER) LID_TAMPER ''lid'' l (lid_prev p)
             (on_edge (sm_now sm ESTOP) ESTOP ''estop'' e (est_prev p) fm))))"

section \<open>Compliance modes\<close>

datatype ComplianceMode = MODE_NONE | EMI_WORST | EMI_IDLE | ESD_SAFE

fun mode_str :: "ComplianceMode \<Rightarrow> string" where
  "mode_str EMI_WORST = ''emi_worst''"
| "mode_str EMI_IDLE = ''emi_idle''"
| "mode_str ESD_SAFE = ''esd_safe''"
| "mode_str MODE_NONE = ''none''"

text \<open>The globals of \<^verbatim>\<open>compliance_mode.cpp\<close>. \<^verbatim>\<open>main\<close> hands the fault manager and the logger
  the fault manager writes to; \<open>cm_ready\<close> says that \<^verbatim>\<open>init\<close> was called.\<close>

record compliance =
  cm_mode :: ComplianceMode
  cm_ready :: bool

definition compliance_start :: compliance where
  "compliance_start = \<lparr>cm_mode = MODE_NONE, cm_ready = False\<rparr>"

definition compliance_init :: "compliance \<Rightarrow> compliance" where
  "compliance_init c = c\<lparr>cm_ready := True\<rparr>"

definition set_mode :: "64 word \<Rightarrow> ComplianceMode \<Rightarrow> compliance \<times> FaultManager \<Rightarrow> compliance \<times> FaultManager" where
  "set_mode now m = (\<lambda>(c, fm).
     let fm1 = (if cm_ready c then fm_log [(''event'', ''compliance''), (''mode'', mode_str m)] fm else fm);
         fm2 = (if m = ESD_SAFE \<and> cm_ready c then raise now ESTOP ''ESD_SAFE'' False fm1 else fm1)
     in (c\<lparr>cm_mode := m\<rparr>, fm2))"

definition run_emi_worst_pattern_once :: "compliance \<times> FaultManager \<Rightarrow> compliance \<times> FaultManager" where
  "run_emi_worst_pattern_once = (\<lambda>(c, fm).
     if cm_ready c \<and> \<not> check_and_block_motion fm then (c, fm)
     else if cm_ready c then (c, fm_log [(''event'', ''compliance_cycle''), (''mode'', ''emi_worst'')] fm)
     else (c, fm))"

section \<open>The system of threads\<close>

text \<open>
  The steps the process can take on the fault table: an iteration of the polling thread, a fault
  of the program logic (any code but the three the inputs drive), the end of a jam clearing
  (\<^verbatim>\<open>src/app/jam_clear.cpp\<close>), and the compliance operations.
\<close>

record safety_sys =
  sy_prevs :: prevs
  sy_comp :: compliance
  sy_fm :: FaultManager

datatype safety_event = Poll sample | Program_fault "64 word" FaultCode string bool
  | Jam_cleared FaultCode | Compliance_init | Set_mode "64 word" ComplianceMode | Emi_cycle

definition input_code :: "FaultCode \<Rightarrow> bool" where
  "input_code c \<longleftrightarrow> c \<in> {ESTOP, LID_TAMPER, OVERCURRENT}"

fun safety_step :: "safety_event \<Rightarrow> safety_sys \<Rightarrow> safety_sys" where
  "safety_step (Poll sm) s =
     (case poll_once sm (sy_prevs s, sy_fm s) of (p, fm) \<Rightarrow> s\<lparr>sy_prevs := p, sy_fm := fm\<rparr>)"
| "safety_step (Program_fault now c r latch) s = s\<lparr>sy_fm := raise now c r latch (sy_fm s)\<rparr>"
| "safety_step (Jam_cleared c) s = s\<lparr>sy_fm := clear c (sy_fm s)\<rparr>"
| "safety_step Compliance_init s = s\<lparr>sy_comp := compliance_init (sy_comp s)\<rparr>"
| "safety_step (Set_mode now m) s =
     (case set_mode now m (sy_comp s, sy_fm s) of (c, fm) \<Rightarrow> s\<lparr>sy_comp := c, sy_fm := fm\<rparr>)"
| "safety_step Emi_cycle s =
     (case run_emi_worst_pattern_once (sy_comp s, sy_fm s) of (c, fm) \<Rightarrow> s\<lparr>sy_comp := c, sy_fm := fm\<rparr>)"

fun event_ok :: "safety_event \<Rightarrow> bool" where
  "event_ok (Program_fault now c r latch) \<longleftrightarrow> \<not> input_code c"
| "event_ok (Jam_cleared c) \<longleftrightarrow> c \<in> {JAM_SHUTTER, JAM_HOPPER}"
| "event_ok _ \<longleftrightarrow> True"

definition safety_init :: "Safety \<Rightarrow> Logger option \<Rightarrow> safety_sys" where
  "safety_init cfg lg = \<lparr>sy_prevs = prevs_init, sy_comp = compliance_start, sy_fm = FaultManager_init cfg lg\<rparr>"

text \<open>\<open>safety_reach s0 es s\<close>: the events \<open>es\<close>, latest first, lead from \<open>s0\<close> to \<open>s\<close>.\<close>

inductive safety_reach :: "safety_sys \<Rightarrow> safety_event list \<Rightarrow> safety_sys \<Rightarrow> bool" where
  start: "safety_reach s0 [] s0"
| step: "safety_reach s0 es s \<Longrightarrow> event_ok e \<Longrightarrow> safety_reach s0 (e # es) (safety_step e s)"

inductive_cases safety_reach_NilE: "safety_reach s0 [] s"
inductive_cases safety_reach_ConsE: "safety_reach s0 (e # es) s"

section \<open>Effects on the table\<close>

lemma has_fault_log [simp]: "has_fault c (fm_log kv fm) = has_fault c fm"
  "any_active (fm_log kv fm) = any_active fm" "fm_cfg (fm_log kv fm) = fm_cfg fm"
  by (simp_all add: has_fault_def fm_log_def any_active_def)

lemma has_fault_raise [simp]: "has_fault c (raise now code r l fm) \<longleftrightarrow> c = code \<or> has_fault c fm"
  and cfg_raise [simp]: "fm_cfg (raise now code r l fm) = fm_cfg fm"
  by (simp_all add: raise_def Let_def) (auto simp: has_fault_def split: if_splits)

lemma has_fault_clear [simp]: "has_fault c (clear code fm) \<longleftrightarrow> c \<noteq> code \<and> has_fault c fm"
  and cfg_clear [simp]: "fm_cfg (clear code fm) = fm_cfg fm"
  by (auto simp: has_fault_def clear_def)

lemma has_fault_edge [simp]:
  "has_fault c (on_edge now code r cur prev fm) \<longleftrightarrow>
     (if c = code \<and> cur \<noteq> prev then cur else has_fault c fm)"
  and cfg_edge [simp]: "fm_cfg (on_edge now code r cur prev fm) = fm_cfg fm"
  by (auto simp: on_edge_def Let_def)

lemma any_active_iff: "any_active fm \<longleftrightarrow> (\<exists>c. has_fault c fm)"
  by (cases "fm_faults fm") (auto simp: any_active_def has_fault_def)

lemma all_codes_complete [simp]: "c \<in> set all_codes"
  by (cases c) (simp_all add: all_codes_def)

lemma safety_step_cfg [simp]: "fm_cfg (sy_fm (safety_step e s)) = fm_cfg (sy_fm s)"
  by (cases e) (simp_all add: poll_once_def set_mode_def run_emi_worst_pattern_once_def Let_def split: prod.splits)

section \<open>The inputs and the table\<close>

text \<open>\<open>asserted\<close>: an input of the configuration was active in the last iteration of the polling
  thread, the level read before the first one being inactive.\<close>

fun last_sample :: "safety_event list \<Rightarrow> sample option" where
  "last_sample [] = None"
| "last_sample (Poll sm # es) = Some sm"
| "last_sample (e # es) = last_sample es"

definition asserted :: "Safety \<Rightarrow> safety_event list \<Rightarrow> FaultCode \<Rightarrow> bool" where
  "asserted cfg es c =
     (case last_sample es of None \<Rightarrow> False
      | Some sm \<Rightarrow>
          (c = ESTOP \<and> read_line cfg (estop_pin cfg) (sm_estop sm)) \<or>
          (c = LID_TAMPER \<and> read_line cfg (lid_tamper_pin cfg) (sm_lid sm)) \<or>
          (c = OVERCURRENT \<and> read_line cfg (overcurrent_pin cfg) (sm_overcurrent sm)))"

definition prev_of :: "FaultCode \<Rightarrow> prevs \<Rightarrow> bool" where
  "prev_of c p = ((c = ESTOP \<and> est_prev p) \<or> (c = LID_TAMPER \<and> lid_prev p) \<or> (c = OVERCURRENT \<and> oc_prev p))"

definition esd_mode_free :: "safety_event list \<Rightarrow> bool" where
  "esd_mode_free es \<longleftrightarrow> (\<forall>e\<in>set es. case e of Set_mode _ m \<Rightarrow> m \<noteq> ESD_SAFE | _ \<Rightarrow> True)"

lemma esd_mode_free_Cons [simp]:
  "esd_mode_free (e # es) \<longleftrightarrow> (case e of Set_mode _ m \<Rightarrow> m \<noteq> ESD_SAFE | _ \<Rightarrow> True) \<and> esd_mode_free es"
  by (auto simp: esd_mode_free_def)

text \<open>The invariant of the process, by rule induction: the locals of the polling thread are the
  last sample, an asserted input has its fault in the table, and no other reason but the ESD mode
  puts one of the three codes there.\<close>

lemma safety_reach_inv:
  assumes "safety_reach s0 es s" "s0 = safety_init cfg lg"
  shows "fm_cfg (sy_fm s) = cfg \<and> (\<forall>c. prev_of c (sy_prevs s) = asserted cfg es c) \<and>
    (\<forall>c. asserted cfg es c \<longrightarrow> has_fault c (sy_fm s)) \<and>
    (esd_mode_free es \<longrightarrow> (\<forall>c. input_code c \<longrightarrow> has_fault c (sy_fm s) = asserted cfg es c))"
  using assms
proof (induction rule: safety_reach.induct)
  case (start s0)
  then show ?case
    by (simp add: safety_init_def FaultManager_init_def prevs_init_def prev_of_def asserted_def has_fault_def)
next
  case (step s0 es s e)
  then show ?case
  proof (cases e)
    case (Poll sm)
    have q: "est_prev (sy_prevs s) = asserted cfg es ESTOP" "lid_prev (sy_prevs s) = asserted cfg es LID_TAMPER"
      "oc_prev (sy_prevs s) = asserted cfg es OVERCURRENT"
      using step.IH [OF step.prems] by (auto simp: prev_of_def)
    show ?thesis using step.IH [OF step.prems] q Poll
      by (auto simp: poll_once_def Let_def prev_of_def asserted_def input_code_def)
  next
    case (Set_mode now m)
    then show ?thesis using step.IH [OF step.prems]
      by (auto simp: set_mode_def Let_def asserted_def split: prod.splits)
  next
    case Emi_cycle
    then show ?thesis using step.IH [OF step.prems]
      by (auto simp: run_emi_worst_pattern_once_def asserted_def split: prod.splits)
  qed (use step.IH [OF step.prems] step.hyps(2) in \<open>auto simp: asserted_def input_code_def split: option.splits\<close>)
qed


text \<open>A concrete run: the emergency stop is pressed, the compliance cycle runs, it is released.\<close>

definition estop_cfg :: Safety where
  "estop_cfg = Safety_default\<lparr>estop_pin := 5\<rparr>"

definition estop_sample :: "bool \<Rightarrow> sample" where
  "estop_sample b = \<lparr>sm_estop = b, sm_lid = False, sm_overcurrent = False, sm_now = (\<lambda>_. 7)\<rparr>"

definition run_events :: "safety_event list \<Rightarrow> safety_sys \<Rightarrow> safety_sys" where
  "run_events es s = foldr safety_step es s"

lemma run_events_reach: "(\<forall>e\<in>set es. event_ok e) \<Longrightarrow> safety_reach s0 es (run_events es s0)"
  by (induction es) (auto simp: run_events_def intro: safety_reach.intros)


text \<open>
  The ESD-safe mode latches the emergency stop only until the stop button is used: pressing and
  releasing the physical button, two iterations of the polling thread, removes the fault the mode
  raised, so that motion is allowed again while the mode is still in force.
\<close>

theorem esd_stop_lost_on_release:
  "let s = run_events [Poll (estop_sample False), Poll (estop_sample True), Set_mode 3 ESD_SAFE, Compliance_init]
       (safety_init estop_cfg None) in
   cm_mode (sy_comp s) = ESD_SAFE \<and> check_and_block_motion (sy_fm s) \<and>
   \<not> check_and_block_motion (sy_fm (run_events [Set_mode 3 ESD_SAFE, Compliance_init] (safety_init estop_cfg None)))"
  by (simp add: run_events_def safety_init_def poll_once_def set_mode_def compliance_init_def compliance_start_def
      estop_sample_def estop_cfg_def Safety_default_def read_line_def prevs_init_def FaultManager_init_def
      check_and_block_motion_def any_active_def on_edge_def raise_def clear_def fm_log_def put_def del_def)

end
