(* ===== verification/Txn_Engine.thy ===== *)
theory Txn_Engine
  imports Journal Devices Hopper Shutter Faults
begin

text \<open>
  The purchase transaction, \<^verbatim>\<open>src/app/txn_engine.cpp\<close>: change is computed, the quarters are
  dispensed, the shutter presents them and closes, and every phase change is journalled so that
  an interrupted transaction can be resumed. The engine is written against the interfaces of
  \<open>Devices\<close>, an optional fault check and the journal; it is interpreted on \<open>machine\<close>, the
  controller of \<open>Hopper\<close>, the shutter of \<open>Shutter\<close> and the fault manager of \<open>Faults\<close> put
  together the way \<^verbatim>\<open>runApiServer\<close> of \<^verbatim>\<open>src/main.cpp\<close> does.
\<close>

section \<open>The engine\<close>

record TxnConfig =
  tc_open_mm :: int
  tc_present_ms :: int
  tc_max_quarters_per_txn :: int
  tc_resume_on_start :: bool

definition TxnConfig_default :: TxnConfig where
  "TxnConfig_default = \<lparr>tc_open_mm = 40, tc_present_ms = 2000, tc_max_quarters_per_txn = 40,
     tc_resume_on_start = True\<rparr>"

text \<open>The world changes while the engine asks the fault manager and while it sleeps: the other
  threads run.\<close>

record 'w TxnEngine =
  en_sh :: "'w IShutter"
  en_disp :: "'w IDispenser"
  en_cfg :: TxnConfig
  en_fm :: "('w \<Rightarrow> bool \<times> 'w) option"
  en_sleep :: "int \<Rightarrow> 'w \<Rightarrow> 'w"

type_synonym 'w tstate = "Txn \<times> journal \<times> 'w"

definition motion_allowed :: "'w TxnEngine \<Rightarrow> 'w \<Rightarrow> bool \<times> 'w" where
  "motion_allowed en w = (case en_fm en of None \<Rightarrow> (True, w) | Some chk \<Rightarrow> chk w)"

text \<open>\<^verbatim>\<open>t.phase = p; journal::append(t)\<close>.\<close>

definition enter_phase :: "string \<Rightarrow> 'w tstate \<Rightarrow> 'w tstate" where
  "enter_phase p = (\<lambda>(t, j, w). let t1 = t\<lparr>t_phase := p\<rparr> in (t1, journal_append t1 j, w))"

definition void_fault :: "'w tstate \<Rightarrow> 'w tstate" where
  "void_fault = (\<lambda>(t, j, w). enter_phase ''VOID'' (t\<lparr>t_reason := ''FAULT''\<rparr>, j, w))"

text \<open>Closing the shutter, the end of \<^verbatim>\<open>continue_txn\<close> and the \<^verbatim>\<open>PRESENTING\<close> case of
  \<^verbatim>\<open>resume_if_needed\<close>.\<close>

definition close_shutter :: "'w TxnEngine \<Rightarrow> 'w tstate \<Rightarrow> 'w tstate" where
  "close_shutter en = (\<lambda>(t, j, w).
     case sh_close_mm (en_sh en) (tc_open_mm (en_cfg en)) (t_reason t) w of (ok, r, w1) \<Rightarrow>
       let s = (t\<lparr>t_reason := r\<rparr>, j, w1) in
       if ok then enter_phase ''DONE'' (enter_phase ''CLOSED'' s) else enter_phase ''VOID'' s)"

definition present_coins :: "'w TxnEngine \<Rightarrow> 'w tstate \<Rightarrow> 'w tstate" where
  "present_coins en = (\<lambda>(t, j, w).
     case motion_allowed en w of (False, w1) \<Rightarrow> void_fault (t, j, w1)
     | (True, w1) \<Rightarrow>
         (case sh_open_mm (en_sh en) (tc_open_mm (en_cfg en)) (t_reason t) w1 of (ok, r, w2) \<Rightarrow>
            let s = (t\<lparr>t_reason := r\<rparr>, j, w2) in
            if \<not> ok then enter_phase ''VOID'' s
            else (case enter_phase ''PRESENTING'' s of (t3, j3, w3) \<Rightarrow>
              (case motion_allowed en (en_sleep en (tc_present_ms (en_cfg en)) w3) of
                 (False, w4) \<Rightarrow> void_fault (t3, j3, w4)
               | (True, w4) \<Rightarrow> close_shutter en (t3, j3, w4)))))"

definition continue_txn :: "'w TxnEngine \<Rightarrow> 'w tstate \<Rightarrow> 'w tstate option" where
  "continue_txn en = (\<lambda>(t, j, w).
     let remaining = t_quarters t - t_dispensed t in
     if remaining > 0 then
       (case motion_allowed en w of (False, w1) \<Rightarrow> Some (void_fault (t, j, w1))
        | (True, w1) \<Rightarrow>
            (case en_disp en remaining w1 of None \<Rightarrow> None
             | Some (st, w2) \<Rightarrow>
                 let t1 = t\<lparr>t_dispensed := t_dispensed t + ds_dispensed st, t_phase := ''DISPENSING'',
                            t_reason := ds_reason st\<rparr>;
                     j1 = journal_append t1 j
                 in if \<not> ds_ok st \<or> t_dispensed t1 < t_quarters t1 then
                      let t2 = t1\<lparr>t_phase := ''VOID'',
                                  t_reason := (if t_reason t1 = [] then if ds_ok st then ''PARTIAL'' else ds_reason st
                                               else t_reason t1)\<rparr>
                      in Some (t2, journal_append t2 j1, w2)
                    else Some (present_coins en (t1, j1, w2))))
     else Some (present_coins en (t, j, w)))"

text \<open>\<open>now_ns\<close> is the system clock \<^verbatim>\<open>make_id\<close> reads.\<close>

definition make_id :: "int \<Rightarrow> string" where
  "make_id now_ns = ''txn-'' @ to_string now_ns"

definition new_txn :: "'w TxnEngine \<Rightarrow> int \<Rightarrow> int \<Rightarrow> int \<Rightarrow> Txn" where
  "new_txn en now_ns price_cents deposit_cents =
     (let change = max 0 (deposit_cents - price_cents) in
      Txn_default\<lparr>t_id := make_id now_ns, t_price := price_cents, t_deposit := deposit_cents, t_change := change,
        t_quarters := min (tc_max_quarters_per_txn (en_cfg en)) (change sdiv 25), t_phase := ''PENDING''\<rparr>)"

definition run_purchase :: "'w TxnEngine \<Rightarrow> int \<Rightarrow> int \<Rightarrow> int \<Rightarrow> journal \<Rightarrow> 'w \<Rightarrow> 'w tstate option" where
  "run_purchase en now_ns price_cents deposit_cents j w =
     (let t = new_txn en now_ns price_cents deposit_cents in continue_txn en (t, journal_append t j, w))"

text \<open>\<open>Inl\<close>: the exception a damaged journal line makes \<^verbatim>\<open>load_last\<close> throw.\<close>

definition resume_if_needed :: "'w TxnEngine \<Rightarrow> journal \<Rightarrow> 'w \<Rightarrow> 'w tstate option result" where
  "resume_if_needed en j w =
     bind_result (load_last (jn_file j) Txn_default) (\<lambda>(found, t).
       if \<not> found then Inr (Some (t, j, w))
       else if t_phase t = ''PENDING'' \<or> t_phase t = ''DISPENSING'' then Inr (continue_txn en (t, j, w))
       else if t_phase t = ''PRESENTING'' then Inr (Some (close_shutter en (t, j, w)))
       else Inr (Some (t, j, w)))"

section \<open>The machine\<close>

text \<open>
  The objects \<^verbatim>\<open>runApiServer\<close> builds. \<open>mc_sched\<close> holds the steps the other threads take on the
  fault manager before each of the coming looks at it (and \<open>mc_trace\<close> the steps taken so far).
\<close>

record machine =
  mc_ctl :: DispenseController
  mc_fsm :: ShutterFSM
  mc_safety :: safety_sys
  mc_sched :: "safety_event list list"
  mc_trace :: "safety_event list"

definition other_threads :: "machine \<Rightarrow> machine" where
  "other_threads m =
     (case mc_sched m of [] \<Rightarrow> m
      | es # rest \<Rightarrow> m\<lparr>mc_safety := run_events es (mc_safety m), mc_sched := rest, mc_trace := es @ mc_trace m\<rparr>)"

definition machine_check :: "machine \<Rightarrow> bool \<times> machine" where
  "machine_check m = (let m1 = other_threads m in (check_and_block_motion (sy_fm (mc_safety m1)), m1))"

definition on_fsm :: "ShutterFSM shutter_op \<Rightarrow> machine shutter_op" where
  "on_fsm f mm r m = (case f mm r (mc_fsm m) of (ok, r1, g) \<Rightarrow> (ok, r1, m\<lparr>mc_fsm := g\<rparr>))"

definition machine_shutter :: "machine IShutter" where
  "machine_shutter = \<lparr>sh_home = on_fsm (sh_home ShutterAdapter), sh_open_mm = on_fsm (sh_open_mm ShutterAdapter),
     sh_close_mm = on_fsm (sh_close_mm ShutterAdapter)\<rparr>"

definition machine_disp :: "machine IDispenser" where
  "machine_disp n m =
     (case adapter_dispenseCoins n (mc_ctl m) of None \<Rightarrow> None | Some (st, c) \<Rightarrow> Some (st, m\<lparr>mc_ctl := c\<rparr>))"

definition machine_engine :: "TxnConfig \<Rightarrow> machine TxnEngine" where
  "machine_engine cfg = \<lparr>en_sh = machine_shutter, en_disp = machine_disp, en_cfg = cfg,
     en_fm = Some machine_check, en_sleep = (\<lambda>_ m. m)\<rparr>"

section \<open>What a transaction can do\<close>

lemma enter_phase_simps [simp]:
  "enter_phase p (t, j, w) = (t\<lparr>t_phase := p\<rparr>, journal_append (t\<lparr>t_phase := p\<rparr>) j, w)"
  by (simp add: enter_phase_def Let_def)

lemma void_fault_simps [simp]:
  "void_fault (t, j, w) = (t\<lparr>t_reason := ''FAULT'', t_phase := ''VOID''\<rparr>,
     journal_append (t\<lparr>t_reason := ''FAULT'', t_phase := ''VOID''\<rparr>) j, w)"
  by (simp add: void_fault_def)

lemma hist_append [simp]: "jn_hist (journal_append t j) = jn_hist j @ [t]"
  by (simp add: journal_append_def Let_def)

text \<open>The amounts and the identity of a transaction, which no phase changes.\<close>

definition same_order :: "Txn \<Rightarrow> Txn \<Rightarrow> bool" where
  "same_order t u \<longleftrightarrow> t_id t = t_id u \<and> t_price t = t_price u \<and> t_deposit t = t_deposit u \<and>
     t_change t = t_change u \<and> t_quarters t = t_quarters u"

text \<open>The phases a presentation goes through.\<close>

definition present_phases :: "string list \<Rightarrow> bool" where
  "present_phases ps \<longleftrightarrow> ps \<in> {[''VOID''], [''PRESENTING'', ''VOID''], [''PRESENTING'', ''CLOSED'', ''DONE'']}"

definition txn_phases :: "string list \<Rightarrow> bool" where
  "txn_phases ps \<longleftrightarrow> present_phases ps \<or> (ps \<noteq> [] \<and> hd ps = ''DISPENSING'' \<and> present_phases (tl ps))"

lemma present_phases_last: "present_phases (map t_phase (hs @ [t])) \<Longrightarrow> t_phase t \<in> {''DONE'', ''VOID''}"
  by (cases hs rule: rev_cases) (auto simp: present_phases_def)

lemma txn_phases_last: "txn_phases (map t_phase (hs @ [t])) \<Longrightarrow> t_phase t \<in> {''DONE'', ''VOID''}"
  using present_phases_last [of hs t] present_phases_last [of "tl hs" t]
  by (cases hs) (auto simp: txn_phases_def present_phases_def)

text \<open>
  What continuing a transaction promises: the order is unchanged, the count of coins only grows
  and ends between what it was and the quarters due, \<^verbatim>\<open>DONE\<close> means that all of them were counted
  and that the shutter is closed, and the journal got the records of one of the legal phase
  sequences, the returned transaction last.
\<close>

definition txn_outcome :: "('w \<Rightarrow> bool) \<Rightarrow> 'w tstate \<Rightarrow> 'w tstate \<Rightarrow> bool" where
  "txn_outcome shut = (\<lambda>(t, j, w) (t', j', w').
     same_order t' t \<and> t_dispensed t \<le> t_dispensed t' \<and>
     t_dispensed t' \<le> max (t_dispensed t) (t_quarters t) \<and>
     (t_phase t' = ''DONE'' \<longrightarrow> shut w' \<and> t_dispensed t' = max (t_dispensed t) (t_quarters t)) \<and>
     (\<exists>hs. jn_hist j' = jn_hist j @ hs @ [t'] \<and> txn_phases (map t_phase (hs @ [t'])) \<and>
        (\<forall>h\<in>set hs. same_order h t \<and> t_dispensed t \<le> t_dispensed h \<and> t_dispensed h \<le> t_dispensed t')))"

text \<open>The interface of the engine to its hardware: the contracts of the dispenser and of the shutter on
  one world, and that the other operations keep the dispenser usable.\<close>

locale txn_hardware =
  dispenser "en_disp en" winv + shutter "en_sh en" is_open is_closed
  for en :: "'w TxnEngine" and winv :: "'w \<Rightarrow> bool" and is_open :: "'w \<Rightarrow> bool" and is_closed :: "'w \<Rightarrow> bool" +
  assumes check_inv: "winv w \<Longrightarrow> motion_allowed en w = (b, w') \<Longrightarrow> winv w'"
    and open_inv: "winv w \<Longrightarrow> sh_open_mm (en_sh en) mm r w = (b, r', w') \<Longrightarrow> winv w'"
    and close_inv: "winv w \<Longrightarrow> sh_close_mm (en_sh en) mm r w = (b, r', w') \<Longrightarrow> winv w'"
    and sleep_inv: "winv w \<Longrightarrow> winv (en_sleep en ms w)"
begin

lemma close_shutter_outcome:
  assumes "close_shutter en (t, j, w) = (t', j', w')"
  obtains (ended) u where "t' = u\<lparr>t_phase := ''DONE''\<rparr>" "same_order u t" "t_dispensed u = t_dispensed t" "is_closed w'"
      "jn_hist j' = jn_hist j @ [u\<lparr>t_phase := ''CLOSED''\<rparr>, t']"
    | (voided) u where "t' = u\<lparr>t_phase := ''VOID''\<rparr>" "same_order u t" "t_dispensed u = t_dispensed t"
      "jn_hist j' = jn_hist j @ [t']"
proof -
  obtain ok r w1 where c: "sh_close_mm (en_sh en) (tc_open_mm (en_cfg en)) (t_reason t) w = (ok, r, w1)"
    by (cases "sh_close_mm (en_sh en) (tc_open_mm (en_cfg en)) (t_reason t) w")
  show thesis
  proof (cases ok)
    case True
    then show thesis using assms c close_closed [of _ "t_reason t" w r w1]
      by (intro ended [of "t\<lparr>t_reason := r\<rparr>"]) (auto simp: close_shutter_def Let_def same_order_def)
  next
    case False
    then show thesis using assms c
      by (intro voided [of "t\<lparr>t_reason := r\<rparr>"]) (auto simp: close_shutter_def Let_def same_order_def)
  qed
qed

lemma close_shutter_inv: "winv w \<Longrightarrow> close_shutter en (t, j, w) = (t', j', w') \<Longrightarrow> winv w'"
  using close_inv by (auto simp: close_shutter_def Let_def split: prod.splits if_splits)

lemma present_coins_outcome:
  assumes "present_coins en (t, j, w) = (t', j', w')"
  shows "same_order t' t \<and> t_dispensed t' = t_dispensed t \<and> (t_phase t' = ''DONE'' \<longrightarrow> is_closed w') \<and>
    (\<exists>hs. jn_hist j' = jn_hist j @ hs @ [t'] \<and> present_phases (map t_phase (hs @ [t'])) \<and>
      (\<forall>h\<in>set hs. same_order h t \<and> t_dispensed h = t_dispensed t))"
proof -
  obtain b w1 where m1: "motion_allowed en w = (b, w1)" by (cases "motion_allowed en w")
  show ?thesis
  proof (cases b)
    case False
    then show ?thesis using assms m1
      by (auto simp: present_coins_def same_order_def present_phases_def)
  next
    case b: True
    obtain ok r w2 where o: "sh_open_mm (en_sh en) (tc_open_mm (en_cfg en)) (t_reason t) w1 = (ok, r, w2)"
      by (cases "sh_open_mm (en_sh en) (tc_open_mm (en_cfg en)) (t_reason t) w1")
    obtain b2 w3 where m2: "motion_allowed en (en_sleep en (tc_present_ms (en_cfg en)) w2) = (b2, w3)"
      by (cases "motion_allowed en (en_sleep en (tc_present_ms (en_cfg en)) w2)")
    let ?u = "t\<lparr>t_reason := r, t_phase := ''PRESENTING''\<rparr>"
    consider "\<not> ok" | "ok" "\<not> b2" | "ok" "b2" by blast
    then show ?thesis
    proof cases
      case 1
      then show ?thesis using assms m1 b o
        by (auto simp: present_coins_def Let_def same_order_def present_phases_def)
    next
      case 2
      then show ?thesis using assms m1 b o m2
        by (auto simp: present_coins_def Let_def same_order_def present_phases_def intro!: exI [of _ "[?u]"])
    next
      case 3
      then have "close_shutter en (?u, journal_append ?u j, w3) = (t', j', w')"
        using assms m1 b o m2 by (simp add: present_coins_def Let_def)
      then show ?thesis
      proof (cases rule: close_shutter_outcome)
        case (ended u)
        then show ?thesis
          by (auto simp: same_order_def present_phases_def intro!: exI [of _ "[?u, u\<lparr>t_phase := ''CLOSED''\<rparr>]"])
      next
        case (voided u)
        then show ?thesis
          by (auto simp: same_order_def present_phases_def intro!: exI [of _ "[?u]"])
      qed
    qed
  qed
qed

lemma continue_txn_outcome:
  assumes "winv w" "continue_txn en (t, j, w) = Some (t', j', w')"
  shows "txn_outcome is_closed (t, j, w) (t', j', w')"
proof (cases "t_quarters t - t_dispensed t > 0")
  case False
  then have "present_coins en (t, j, w) = (t', j', w')"
    using assms(2) by (simp add: continue_txn_def Let_def)
  from present_coins_outcome [OF this] False show ?thesis
    by (fastforce simp: txn_outcome_def txn_phases_def)
next
  case rem: True
  obtain b w1 where m: "motion_allowed en w = (b, w1)" by (cases "motion_allowed en w")
  show ?thesis
  proof (cases b)
    case False
    then show ?thesis using assms(2) rem m
      by (auto simp: continue_txn_def Let_def txn_outcome_def same_order_def txn_phases_def present_phases_def)
  next
    case b: True
    let ?n = "t_quarters t - t_dispensed t"
    obtain st w2 where d: "en_disp en ?n w1 = Some (st, w2)"
      using assms(2) rem m b by (auto simp: continue_txn_def Let_def split: option.splits)
    have rng: "0 \<le> ds_dispensed st" "ds_dispensed st \<le> ?n" and ok: "ds_ok st \<longleftrightarrow> ds_dispensed st = ?n"
      using disp_range [OF check_inv [OF assms(1) m] _ d] disp_ok [OF check_inv [OF assms(1) m] _ d] rem by auto
    let ?t1 = "t\<lparr>t_dispensed := t_dispensed t + ds_dispensed st, t_phase := ''DISPENSING'', t_reason := ds_reason st\<rparr>"
    show ?thesis
    proof (cases "ds_ok st")
      case False
      then show ?thesis using assms(2) rem m b d rng
        by (auto simp: continue_txn_def Let_def txn_outcome_def same_order_def txn_phases_def present_phases_def
            split: if_splits intro!: exI [of _ "[?t1]"])
    next
      case True
      then have p: "present_coins en (?t1, journal_append ?t1 j, w2) = (t', j', w')"
        using assms(2) rem m b d ok by (simp add: continue_txn_def Let_def)
      from present_coins_outcome [OF p] obtain hs where hs: "jn_hist j' = jn_hist j @ ?t1 # hs @ [t']"
        "present_phases (map t_phase (hs @ [t']))" "\<forall>h\<in>set hs. same_order h ?t1 \<and> t_dispensed h = t_quarters t"
        and t': "same_order t' ?t1" "t_dispensed t' = t_quarters t" "t_phase t' = ''DONE'' \<longrightarrow> is_closed w'"
        using True ok by auto
      then show ?thesis using rem rng
        by (auto simp: txn_outcome_def same_order_def txn_phases_def intro!: exI [of _ "?t1 # hs"])
    qed
  qed
qed

end

section \<open>The engine on the machine\<close>

lemma machine_check_ctl: "machine_check m = (b, m') \<Longrightarrow> mc_ctl m' = mc_ctl m \<and> mc_fsm m' = mc_fsm m"
  by (auto simp: machine_check_def other_threads_def Let_def split: list.splits)

interpretation mc: txn_hardware "machine_engine cfg" "\<lambda>m. retrying (mc_ctl m)"
  "\<lambda>m. rests OPEN (mc_fsm m)" "\<lambda>m. rests CLOSED (mc_fsm m)" for cfg
proof (intro txn_hardware.intro txn_hardware_axioms.intro dispenser.intro shutter.intro)
  fix w w' :: machine and n st
  assume a: "retrying (mc_ctl w)" "1 \<le> n" "en_disp (machine_engine cfg) n w = Some (st, w')"
  then obtain c where c: "adapter_dispenseCoins n (mc_ctl w) = Some (st, c)" "w' = w\<lparr>mc_ctl := c\<rparr>"
    by (auto simp: machine_engine_def machine_disp_def split: option.splits)
  show "retrying (mc_ctl w')" "0 \<le> ds_dispensed st \<and> ds_dispensed st \<le> n" "ds_ok st \<longleftrightarrow> ds_dispensed st = n"
    using ctl.disp_inv [OF a(1,2) c(1)] ctl.disp_range [OF a(1,2) c(1)] ctl.disp_ok [OF a(1,2) c(1)] c(2) by simp_all
next
  fix w w' :: machine and mm r r' b
  show "sh_home (en_sh (machine_engine cfg)) mm r w = (True, r', w') \<Longrightarrow> rests CLOSED (mc_fsm w')"
    "sh_open_mm (en_sh (machine_engine cfg)) mm r w = (True, r', w') \<Longrightarrow> rests OPEN (mc_fsm w')"
    "sh_close_mm (en_sh (machine_engine cfg)) mm r w = (True, r', w') \<Longrightarrow> rests CLOSED (mc_fsm w')"
    using sha.home_closed sha.open_open sha.close_closed
    by (auto simp: machine_engine_def machine_shutter_def on_fsm_def split: prod.splits)
  show "retrying (mc_ctl w) \<Longrightarrow> motion_allowed (machine_engine cfg) w = (b, w') \<Longrightarrow> retrying (mc_ctl w')"
    using machine_check_ctl [of w b w'] by (simp add: motion_allowed_def machine_engine_def)
  show "retrying (mc_ctl w) \<Longrightarrow> sh_open_mm (en_sh (machine_engine cfg)) mm r w = (b, r', w') \<Longrightarrow> retrying (mc_ctl w')"
    "retrying (mc_ctl w) \<Longrightarrow> sh_close_mm (en_sh (machine_engine cfg)) mm r w = (b, r', w') \<Longrightarrow> retrying (mc_ctl w')"
    by (auto simp: machine_engine_def machine_shutter_def on_fsm_def split: prod.splits)
  show "retrying (mc_ctl w) \<Longrightarrow> retrying (mc_ctl (en_sleep (machine_engine cfg) ms w))" for ms
    by (simp add: machine_engine_def)
qed

lemma new_txn_fields [simp]:
  "t_price (new_txn en now p d) = p" "t_deposit (new_txn en now p d) = d" "t_change (new_txn en now p d) = max 0 (d - p)"
  "t_quarters (new_txn en now p d) = min (tc_max_quarters_per_txn (en_cfg en)) (max 0 (d - p) div 25)"
  "t_dispensed (new_txn en now p d) = 0" "t_phase (new_txn en now p d) = ''PENDING''" "t_id (new_txn en now p d) = make_id now"
  by (simp_all add: new_txn_def Let_def Txn_default_def sdiv_pos)

text \<open>
  C1. A purchase that returns, on the machine and under every interleaving with the safety thread:
  the result carries the amounts of the request; it ends in \<^verbatim>\<open>DONE\<close> or \<^verbatim>\<open>VOID\<close>; the coins counted
  never exceed the quarters due, which are worth at most the change and less than one quarter below
  it unless the cap applies; \<^verbatim>\<open>DONE\<close> means that all of them were counted and that the shutter rests
  closed with its motor off; and the journal received \<^verbatim>\<open>PENDING\<close> followed by a legal sequence of
  phases that ends with the returned record.
\<close>

theorem purchase_outcome:
  assumes "retrying (mc_ctl m)" "0 \<le> tc_max_quarters_per_txn cfg"
    "run_purchase (machine_engine cfg) now p d j m = Some (t', j', m')"
  shows "t_price t' = p \<and> t_deposit t' = d \<and> t_change t' = max 0 (d - p) \<and> t_phase t' \<in> {''DONE'', ''VOID''} \<and>
    0 \<le> t_dispensed t' \<and> t_dispensed t' \<le> t_quarters t' \<and> 25 * t_quarters t' \<le> t_change t' \<and>
    (t_quarters t' < tc_max_quarters_per_txn cfg \<longrightarrow> t_change t' < 25 * t_quarters t' + 25) \<and>
    (t_phase t' = ''DONE'' \<longrightarrow> t_dispensed t' = t_quarters t' \<and> rests CLOSED (mc_fsm m')) \<and>
    (\<exists>hs. jn_hist j' = jn_hist j @ hs @ [t'] \<and> (\<forall>h\<in>set hs. same_order h t' \<and> t_dispensed h \<le> t_dispensed t') \<and>
      map t_phase hs \<noteq> [] \<and> hd (map t_phase hs) = ''PENDING'' \<and> txn_phases (tl (map t_phase (hs @ [t']))))"
proof -
  let ?t = "new_txn (machine_engine cfg) now p d"
  have "txn_outcome (\<lambda>m. rests CLOSED (mc_fsm m)) (?t, journal_append ?t j, m) (t', j', m')"
    using assms mc.continue_txn_outcome [of m cfg ?t "journal_append ?t j"] by (simp add: run_purchase_def Let_def)
  then obtain hs where o: "same_order t' ?t" "0 \<le> t_dispensed t'" "t_dispensed t' \<le> t_quarters ?t"
    "t_phase t' = ''DONE'' \<longrightarrow> rests CLOSED (mc_fsm m') \<and> t_dispensed t' = t_quarters ?t"
    "jn_hist j' = jn_hist j @ ?t # hs @ [t']" "txn_phases (map t_phase (hs @ [t']))"
    "\<forall>h\<in>set hs. same_order h ?t \<and> t_dispensed h \<le> t_dispensed t'"
    using assms(2) by (auto simp: txn_outcome_def machine_engine_def)
  have s: "same_order ?t t'" using o(1) by (simp add: same_order_def)
  have q: "t_quarters t' = min (tc_max_quarters_per_txn cfg) (max 0 (d - p) div 25)"
    using o(1) by (simp add: same_order_def machine_engine_def)
  have "\<exists>hs. jn_hist j' = jn_hist j @ hs @ [t'] \<and> (\<forall>h\<in>set hs. same_order h t' \<and> t_dispensed h \<le> t_dispensed t') \<and>
      map t_phase hs \<noteq> [] \<and> hd (map t_phase hs) = ''PENDING'' \<and> txn_phases (tl (map t_phase (hs @ [t'])))"
    using o s by (intro exI [of _ "?t # hs"]) (auto simp: same_order_def)
  moreover have "25 * t_quarters t' \<le> max 0 (d - p)"
    "t_quarters t' < tc_max_quarters_per_txn cfg \<longrightarrow> max 0 (d - p) < 25 * t_quarters t' + 25"
    using q by (auto simp: min_def)
  ultimately show ?thesis
    using o(1-4) txn_phases_last [OF o(6)] by (simp add: same_order_def)
qed

text \<open>A machine at rest, with the two-coin hopper run of \<open>Hopper\<close> and an idle safety thread.\<close>

definition idle_machine :: machine where
  "idle_machine = \<lparr>mc_ctl = jam_run, mc_fsm = sample_fsm, mc_safety = safety_init estop_cfg None, mc_sched = [], mc_trace = []\<rparr>"

definition ok_env :: append_env where
  "ok_env = \<lparr>ae_ts = ''2024-01-01T00:00:00Z'', ae_host = ''reg1'', ae_io = Io_ok\<rparr>"

definition empty_journal :: journal where
  "empty_journal = \<lparr>jn_file = None, jn_env = (\<lambda>_. ok_env), jn_hist = []\<rparr>"

lemma idle_retrying: "retrying (mc_ctl idle_machine)"
  by (simp add: idle_machine_def retrying_def jam_run_def DispenseConfig_default_def)

lemma idle_allowed: "machine_check idle_machine = (True, idle_machine)"
  by (simp add: machine_check_def other_threads_def idle_machine_def safety_init_def FaultManager_init_def
      check_and_block_motion_def any_active_def)

lemma idle_purchase_returns:
  "\<exists>t' j' m'. run_purchase (machine_engine TxnConfig_default) 7 50 100 empty_journal idle_machine = Some (t', j', m')"
proof -
  obtain st c where d: "adapter_dispenseCoins 2 jam_run = Some (st, c)" "ds_ok st" "ds_dispensed st = 2"
    using jam_run_result by (auto simp: adapter_dispenseCoins_def)
  then have "machine_disp 2 idle_machine = Some (st, idle_machine\<lparr>mc_ctl := c\<rparr>)"
    by (simp add: machine_disp_def idle_machine_def)
  then show ?thesis
    using d idle_allowed
    by (cases "present_coins (machine_engine TxnConfig_default)
       (let t1 = (new_txn (machine_engine TxnConfig_default) 7 50 100)\<lparr>t_dispensed := 2, t_phase := ''DISPENSING'', t_reason := ds_reason st\<rparr>
        in (t1, journal_append t1 (journal_append (new_txn (machine_engine TxnConfig_default) 7 50 100) empty_journal),
            idle_machine\<lparr>mc_ctl := c\<rparr>))")
      (simp add: run_purchase_def continue_txn_def Let_def motion_allowed_def machine_engine_def TxnConfig_default_def)
qed

theorem purchase_outcome_witness:
  "\<exists>t' j' m'. run_purchase (machine_engine TxnConfig_default) 7 50 100 empty_journal idle_machine = Some (t', j', m') \<and>
     t_change t' = 50 \<and> t_phase t' \<in> {''DONE'', ''VOID''} \<and> t_dispensed t' \<le> t_quarters t'"
proof -
  obtain t' j' m' where r: "run_purchase (machine_engine TxnConfig_default) 7 50 100 empty_journal idle_machine = Some (t', j', m')"
    using idle_purchase_returns by blast
  show ?thesis
    using purchase_outcome [OF idle_retrying _ r] r by (auto simp: TxnConfig_default_def)
qed

section \<open>A purchase completes\<close>

text \<open>No fault is in the table at any of the looks a purchase takes at it.\<close>

definition fault_free :: "machine \<Rightarrow> bool" where
  "fault_free m \<longleftrightarrow> (\<forall>k\<in>{1, 2, 3}. check_and_block_motion (sy_fm (mc_safety ((other_threads ^^ k) m))))"

lemma other_threads_ctl: "other_threads (m\<lparr>mc_ctl := c\<rparr>) = (other_threads m)\<lparr>mc_ctl := c\<rparr>"
  "other_threads (m\<lparr>mc_fsm := g\<rparr>) = (other_threads m)\<lparr>mc_fsm := g\<rparr>"
  by (simp_all add: other_threads_def split: list.splits)

lemma other_threads_keep [simp]: "mc_fsm (other_threads m) = mc_fsm m" "mc_ctl (other_threads m) = mc_ctl m"
  by (simp_all add: other_threads_def split: list.splits)

lemma machine_engine_sel [simp]:
  "en_cfg (machine_engine cfg) = cfg" "en_disp (machine_engine cfg) = machine_disp"
  "motion_allowed (machine_engine cfg) m = machine_check m" "en_sleep (machine_engine cfg) ms m = m"
  "sh_open_mm (en_sh (machine_engine cfg)) = on_fsm adapter_open_mm"
  "sh_close_mm (en_sh (machine_engine cfg)) = on_fsm adapter_close_mm"
  by (simp_all add: machine_engine_def motion_allowed_def machine_shutter_def ShutterAdapter_def)

lemma present_coins_done:
  assumes "travel_ok (tc_open_mm cfg) (mc_fsm m)"
    and "check_and_block_motion (sy_fm (mc_safety (other_threads m)))"
    and "check_and_block_motion (sy_fm (mc_safety (other_threads (other_threads m))))"
  shows "\<exists>j' m'. present_coins (machine_engine cfg) (t, j, m) = (t\<lparr>t_phase := ''DONE''\<rparr>, j', m') \<and> rests CLOSED (mc_fsm m')"
proof -
  obtain g where g: "adapter_open_mm (tc_open_mm cfg) (t_reason t) (mc_fsm m) = (True, t_reason t, g)"
    using open_mm_success [OF assms(1)] by blast
  obtain h where h: "adapter_close_mm (tc_open_mm cfg) (t_reason t) g = (True, t_reason t, h)" "rests CLOSED h"
    using close_mm_success [OF travel_ok_op(1) [OF assms(1) g]] by blast
  show ?thesis
    using assms(2,3) g h
    by (simp add: present_coins_def close_shutter_def machine_check_def on_fsm_def Let_def other_threads_ctl)
qed

text \<open>
  Liveness of a purchase: when at least one quarter is due, no fault is in the table at any of
  the three looks the engine takes, the hopper delivers the coins asked for and the opening is a
  distance the mechanics allow, the purchase returns \<^verbatim>\<open>DONE\<close> with all the quarters counted, and the
  shutter rests closed.
\<close>

theorem purchase_completes:
  assumes "q = min (tc_max_quarters_per_txn cfg) (max 0 (d - p) div 25)" "0 < q" "retrying (mc_ctl m)"
    and "adapter_dispenseCoins q (mc_ctl m) = Some (st, c)" "ds_ok st"
    and "fault_free m" "travel_ok (tc_open_mm cfg) (mc_fsm m)"
  shows "\<exists>t' j' m'. run_purchase (machine_engine cfg) now p d j m = Some (t', j', m') \<and> t_phase t' = ''DONE'' \<and>
    t_dispensed t' = q \<and> rests CLOSED (mc_fsm m')"
proof -
  have n: "ds_dispensed st = q" using ctl.disp_ok [OF assms(3) _ assms(4)] assms(2,5) by simp
  have ff: "check_and_block_motion (sy_fm (mc_safety (other_threads m)))"
    "check_and_block_motion (sy_fm (mc_safety (other_threads (other_threads m))))"
    "check_and_block_motion (sy_fm (mc_safety (other_threads (other_threads (other_threads m)))))"
    using assms(6) by (simp_all add: fault_free_def eval_nat_numeral)
  let ?m1 = "(other_threads m)\<lparr>mc_ctl := c\<rparr>"
  have m: "machine_check m = (True, other_threads m)" "machine_disp q (other_threads m) = Some (st, ?m1)"
    using ff(1) assms(4) by (simp_all add: machine_check_def machine_disp_def Let_def)
  let ?t = "new_txn (machine_engine cfg) now p d"
  let ?t1 = "?t\<lparr>t_dispensed := q, t_phase := ''DISPENSING'', t_reason := ds_reason st\<rparr>"
  obtain j' m' where "present_coins (machine_engine cfg) (?t1, journal_append ?t1 (journal_append ?t j), ?m1) =
      (?t1\<lparr>t_phase := ''DONE''\<rparr>, j', m')" "rests CLOSED (mc_fsm m')"
    using present_coins_done [of cfg ?m1 ?t1 "journal_append ?t1 (journal_append ?t j)"] assms(7) ff(2,3) by (auto simp: other_threads_ctl)
  moreover have "t_quarters ?t = q" using assms(1) by simp
  ultimately show ?thesis
    using m n assms(2,5) by (simp add: run_purchase_def continue_txn_def Let_def del: new_txn_fields(4))
qed

lemma idle_fault_free: "fault_free idle_machine"
proof -
  have "(other_threads ^^ k) idle_machine = idle_machine" for k
    by (induction k) (simp_all add: other_threads_def idle_machine_def)
  then show ?thesis
    using idle_allowed by (simp add: fault_free_def machine_check_def Let_def)
      (simp add: other_threads_def idle_machine_def)
qed

theorem purchase_completes_witness:
  "\<exists>t' j' m'. run_purchase (machine_engine TxnConfig_default) 7 50 100 empty_journal idle_machine = Some (t', j', m') \<and>
     t_phase t' = ''DONE'' \<and> t_dispensed t' = 2"
proof -
  obtain st c where d: "adapter_dispenseCoins 2 jam_run = Some (st, c)" "ds_ok st"
    using jam_run_result by (auto simp: adapter_dispenseCoins_def)
  have "travel_ok 40 sample_fsm"
    using sample_fsm_inv by (simp add: travel_ok_def fsm_init_def sample_stepper_def)
  then show ?thesis
    using purchase_completes [of 2 TxnConfig_default 100 50 idle_machine st c 7 empty_journal]
      d idle_retrying idle_fault_free by (auto simp: TxnConfig_default_def idle_machine_def)
qed

section \<open>Faults block motion\<close>

text \<open>The machine's safety state was reached by the steps of its trace.\<close>

definition safety_traced :: "Safety \<Rightarrow> machine \<Rightarrow> bool" where
  "safety_traced scfg m \<longleftrightarrow> (\<exists>lg. safety_reach (safety_init scfg lg) (mc_trace m) (mc_safety m)) \<and>
     (\<forall>es\<in>set (mc_sched m). \<forall>e\<in>set es. event_ok e)"

lemma safety_reach_append:
  "safety_reach s0 es s \<Longrightarrow> (\<forall>e\<in>set fs. event_ok e) \<Longrightarrow> safety_reach s0 (fs @ es) (run_events fs s)"
  by (induction fs) (auto simp: run_events_def intro: safety_reach.intros)

lemma other_threads_traced: "safety_traced scfg m \<Longrightarrow> safety_traced scfg (other_threads m)"
  by (fastforce simp: safety_traced_def other_threads_def intro: safety_reach_append split: list.splits)

lemma traced_asserted_blocks:
  "safety_traced scfg m \<Longrightarrow> asserted scfg (mc_trace m) c \<Longrightarrow> \<not> check_and_block_motion (sy_fm (mc_safety m))"
  using safety_reach_inv [OF _ refl, of scfg _ "mc_trace m" "mc_safety m"]
  by (auto simp: safety_traced_def check_and_block_motion_def any_active_iff)

lemma blocked_run:
  assumes "safety_traced scfg m" "asserted scfg (mc_trace (other_threads m)) c"
  shows "\<exists>t' j' m'. run_purchase (machine_engine cfg) now p d j m = Some (t', j', m') \<and>
    t_phase t' = ''VOID'' \<and> t_reason t' = ''FAULT'' \<and> t_dispensed t' = 0 \<and>
    t_quarters t' = t_quarters (new_txn (machine_engine cfg) now p d) \<and>
    mc_ctl m' = mc_ctl m \<and> mc_fsm m' = mc_fsm m"
proof -
  have "machine_check m = (False, other_threads m)"
    using traced_asserted_blocks [OF other_threads_traced [OF assms(1)] assms(2)]
    by (simp add: machine_check_def Let_def)
  then show ?thesis
    by (simp add: run_purchase_def continue_txn_def present_coins_def Let_def)
qed

text \<open>
  C32. An input that is active when the engine looks at the fault manager for the first time (the
  emergency stop, the lid, the overcurrent line, as sampled last by the safety thread) stops a
  purchase before any motion: it returns \<^verbatim>\<open>VOID\<close> with reason \<^verbatim>\<open>FAULT\<close> and no coin counted, and neither
  the hopper controller nor the shutter was touched.
\<close>

theorem active_input_blocks_purchase:
  assumes "safety_traced scfg m" "asserted scfg (mc_trace (other_threads m)) c"
  shows "\<exists>t' j' m'. run_purchase (machine_engine cfg) now p d j m = Some (t', j', m') \<and>
    t_phase t' = ''VOID'' \<and> t_reason t' = ''FAULT'' \<and> t_dispensed t' = 0 \<and>
    mc_ctl m' = mc_ctl m \<and> mc_fsm m' = mc_fsm m"
  using blocked_run [OF assms] by metis

definition pressed_machine :: machine where
  "pressed_machine = idle_machine\<lparr>mc_sched := [[Poll (estop_sample True)]]\<rparr>"

lemma pressed_blocked:
  "safety_traced estop_cfg pressed_machine" "asserted estop_cfg (mc_trace (other_threads pressed_machine)) ESTOP"
  by (auto simp: safety_traced_def pressed_machine_def idle_machine_def intro: safety_reach.intros)
    (simp add: other_threads_def asserted_def estop_sample_def estop_cfg_def Safety_default_def read_line_def)

theorem active_input_blocks_purchase_witness:
  "\<exists>t' j' m'. run_purchase (machine_engine TxnConfig_default) 7 50 100 empty_journal pressed_machine = Some (t', j', m') \<and>
    t_phase t' = ''VOID'' \<and> mc_fsm m' = sample_fsm"
  using active_input_blocks_purchase [OF pressed_blocked, of TxnConfig_default 7 50 100 empty_journal]
  by (auto simp: pressed_machine_def idle_machine_def)

text \<open>
  A fault that appears while the coins are presented leaves the shutter open: when the opening
  succeeded and the look before the closing finds a fault, the transaction is \<^verbatim>\<open>VOID\<close> with the shutter
  resting open, and since \<^verbatim>\<open>VOID\<close> is a final phase the recovery at the next start leaves it open too.
\<close>

theorem fault_while_presenting_leaves_open:
  assumes "travel_ok (tc_open_mm cfg) (mc_fsm m)" "t_quarters t \<le> t_dispensed t"
    and "check_and_block_motion (sy_fm (mc_safety (other_threads m)))"
    and "\<not> check_and_block_motion (sy_fm (mc_safety (other_threads (other_threads m))))"
  shows "\<exists>t' j' m'. continue_txn (machine_engine cfg) (t, j, m) = Some (t', j', m') \<and> t_phase t' = ''VOID'' \<and>
    t_reason t' = ''FAULT'' \<and> rests OPEN (mc_fsm m') \<and>
    (load_last (jn_file j') Txn_default = Inr (True, t') \<longrightarrow>
      resume_if_needed (machine_engine cfg) j' m' = Inr (Some (t', j', m')))"
proof -
  obtain g where g: "adapter_open_mm (tc_open_mm cfg) (t_reason t) (mc_fsm m) = (True, t_reason t, g)" "rests OPEN g"
    using open_mm_success [OF assms(1)] by blast
  show ?thesis
    using assms(2-4) g
    by (simp add: continue_txn_def present_coins_def machine_check_def on_fsm_def Let_def other_threads_ctl
        resume_if_needed_def)
qed

definition opened_machine :: machine where
  "opened_machine = idle_machine\<lparr>mc_sched := [[], [Poll (estop_sample True)]]\<rparr>"

theorem fault_while_presenting_leaves_open_witness:
  "\<exists>t' j' m'. continue_txn (machine_engine TxnConfig_default) (Txn_default, empty_journal, opened_machine) = Some (t', j', m') \<and>
    t_phase t' = ''VOID'' \<and> rests OPEN (mc_fsm m')"
proof -
  have "travel_ok 40 sample_fsm"
    using sample_fsm_inv by (simp add: travel_ok_def fsm_init_def sample_stepper_def)
  moreover have "check_and_block_motion (sy_fm (mc_safety (other_threads opened_machine)))"
    by (simp add: other_threads_def opened_machine_def idle_machine_def run_events_def safety_init_def
        FaultManager_init_def check_and_block_motion_def any_active_def)
  moreover have "\<not> check_and_block_motion (sy_fm (mc_safety (other_threads (other_threads opened_machine))))"
    by (simp add: other_threads_def opened_machine_def idle_machine_def run_events_def safety_init_def poll_once_def
        FaultManager_init_def prevs_init_def check_and_block_motion_def any_active_iff estop_sample_def estop_cfg_def
        Safety_default_def read_line_def) blast
  ultimately show ?thesis
    using fault_while_presenting_leaves_open [of TxnConfig_default opened_machine Txn_default empty_journal]
    by (auto simp: TxnConfig_default_def Txn_default_def opened_machine_def idle_machine_def)
qed

section \<open>Recovery after a crash\<close>

definition good_env :: "append_env \<Rightarrow> bool" where
  "good_env e \<longleftrightarrow> plain (ae_ts e) \<and> CHR 0x0A \<notin> set (ae_host e) \<and> ae_io e = Io_ok"

lemma load_after_append:
  assumes "txn_wf t" "good_env (jn_env j (length (jn_hist j)))" "complete_file (jn_file j)"
  shows "load_last (jn_file (journal_append t j)) out = Inr (True, t)"
  using append_ok_load(2) [OF assms(1) _ _ _ assms(3)] assms(2) by (simp add: journal_append_def good_env_def)

text \<open>
  C2. Recovery: when the process dies after a record reached the journal, the next start reads
  exactly that record and never fails on it. A pending or dispensing transaction is continued,
  asking for the quarters it still owes, with the guarantees of a purchase; a transaction that was
  presenting is closed, ending \<^verbatim>\<open>DONE\<close> if the mechanics allow the distance; a finished one is left
  alone. The only call that can fail to return is the hopper's.
\<close>

theorem resume_after_crash:
  assumes "txn_wf t" "good_env (jn_env j (length (jn_hist j)))" "complete_file (jn_file j)" "retrying (mc_ctl m)"
    and "J = journal_append t j"
  shows "\<exists>r. resume_if_needed (machine_engine cfg) J m = Inr r \<and>
    (case r of
       None \<Rightarrow> t_phase t \<in> {''PENDING'', ''DISPENSING''} \<and> t_dispensed t < t_quarters t \<and>
         adapter_dispenseCoins (t_quarters t - t_dispensed t) (mc_ctl m) = None
     | Some (t', j', m') \<Rightarrow>
         (t_phase t \<in> {''PENDING'', ''DISPENSING''} \<longrightarrow>
            txn_outcome (\<lambda>m. rests CLOSED (mc_fsm m)) (t, J, m) (t', j', m')) \<and>
         (t_phase t = ''PRESENTING'' \<longrightarrow> same_order t' t \<and> t_dispensed t' = t_dispensed t \<and>
            t_phase t' \<in> {''DONE'', ''VOID''} \<and> (t_phase t' = ''DONE'' \<longrightarrow> rests CLOSED (mc_fsm m')) \<and>
            (travel_ok (tc_open_mm cfg) (mc_fsm m) \<longrightarrow> t_phase t' = ''DONE'')) \<and>
         (t_phase t \<notin> {''PENDING'', ''DISPENSING'', ''PRESENTING''} \<longrightarrow> (t', j', m') = (t, J, m)))"
proof -
  let ?E = "machine_engine cfg"
  have l: "load_last (jn_file J) Txn_default = Inr (True, t)" using load_after_append [OF assms(1-3)] assms(5) by simp
  consider (go) "t_phase t \<in> {''PENDING'', ''DISPENSING''}" | (presenting) "t_phase t = ''PRESENTING''"
    | (over) "t_phase t \<notin> {''PENDING'', ''DISPENSING'', ''PRESENTING''}" by blast
  then show ?thesis
  proof cases
    case go
    then have r: "resume_if_needed ?E J m = Inr (continue_txn ?E (t, J, m))"
      using l by (auto simp: resume_if_needed_def)
    show ?thesis
    proof (cases "continue_txn ?E (t, J, m)")
      case None
      then have "t_dispensed t < t_quarters t" "adapter_dispenseCoins (t_quarters t - t_dispensed t) (mc_ctl m) = None"
        by (auto simp: continue_txn_def Let_def machine_check_def machine_disp_def split: if_splits bool.splits option.splits)
      then show ?thesis using r None go by auto
    next
      case (Some s)
      then show ?thesis using r go mc.continue_txn_outcome [OF assms(4), of cfg t J] by (cases s) auto
    qed
  next
    case presenting
    obtain t' j' m' where c: "close_shutter ?E (t, J, m) = (t', j', m')" by (cases "close_shutter ?E (t, J, m)")
    have "t_phase t' = ''DONE''" if "travel_ok (tc_open_mm cfg) (mc_fsm m)"
      using close_mm_success [OF that, of "t_reason t"] c by (auto simp: close_shutter_def on_fsm_def Let_def)
    moreover have "same_order t' t \<and> t_dispensed t' = t_dispensed t \<and> t_phase t' \<in> {''DONE'', ''VOID''} \<and>
        (t_phase t' = ''DONE'' \<longrightarrow> rests CLOSED (mc_fsm m'))"
      using c by (cases rule: mc.close_shutter_outcome) (auto simp: same_order_def)
    ultimately show ?thesis using l presenting c by (auto simp: resume_if_needed_def)
  next
    case over
    then show ?thesis using l by (auto simp: resume_if_needed_def)
  qed
qed

definition half_paid :: Txn where
  "half_paid = Txn_default\<lparr>t_id := ''txn-7'', t_price := 25, t_deposit := 100, t_change := 75, t_quarters := 3,
     t_dispensed := 1, t_phase := ''DISPENSING''\<rparr>"

theorem resume_after_crash_witness:
  "\<exists>t' j' m'. resume_if_needed (machine_engine TxnConfig_default) (journal_append half_paid empty_journal) idle_machine =
     Inr (Some (t', j', m')) \<and> t_id t' = ''txn-7'' \<and> t_dispensed t' \<le> 3"
proof -
  have w: "txn_wf half_paid" "good_env (jn_env empty_journal (length (jn_hist empty_journal)))"
    "complete_file (jn_file empty_journal)"
    by (simp_all add: half_paid_def txn_wf_def plain_def Txn_default_def int32_def good_env_def ok_env_def
        empty_journal_def complete_file_def bytes_of_def)
  have "adapter_dispenseCoins 2 (mc_ctl idle_machine) \<noteq> None"
    using jam_run_result by (auto simp: adapter_dispenseCoins_def idle_machine_def)
  then show ?thesis
    using resume_after_crash [OF w idle_retrying refl, of TxnConfig_default]
    by (auto simp: half_paid_def txn_outcome_def same_order_def split: option.splits)
qed

section \<open>Machine integers\<close>

text \<open>
  No signed overflow: for a price and a deposit that are not negative \<^verbatim>\<open>int\<close>s and a cap that is
  not negative, the subtraction of the change and every number in every record a purchase writes,
  the coins still owed included, is an \<^verbatim>\<open>int\<close>.
\<close>

theorem purchase_int32:
  assumes "retrying (mc_ctl m)" "0 \<le> tc_max_quarters_per_txn cfg" "0 \<le> p" "int32 p" "0 \<le> d" "int32 d"
    and "run_purchase (machine_engine cfg) now p d j m = Some (t', j', m')"
    and "h \<in> set (drop (length (jn_hist j)) (jn_hist j'))"
  shows "int32 (d - p) \<and> int32 (t_price h) \<and> int32 (t_deposit h) \<and> int32 (t_change h) \<and> int32 (t_quarters h) \<and>
    int32 (t_dispensed h) \<and> int32 (t_quarters h - t_dispensed h)"
proof -
  let ?t = "new_txn (machine_engine cfg) now p d"
  have "txn_outcome (\<lambda>m. rests CLOSED (mc_fsm m)) (?t, journal_append ?t j, m) (t', j', m')"
    using assms(1,7) mc.continue_txn_outcome [of m cfg ?t "journal_append ?t j"] by (simp add: run_purchase_def Let_def)
  then obtain hs where o: "same_order t' ?t" "t_dispensed t' \<le> t_quarters ?t" "0 \<le> t_dispensed t'"
    "jn_hist j' = jn_hist j @ ?t # hs @ [t']"
    "\<forall>h\<in>set hs. same_order h ?t \<and> 0 \<le> t_dispensed h \<and> t_dispensed h \<le> t_dispensed t'"
    using assms(2) by (auto simp: txn_outcome_def)
  then have "same_order h ?t" "0 \<le> t_dispensed h" "t_dispensed h \<le> t_quarters ?t"
    using assms(2,8) by (auto simp: same_order_def)
  then have h: "t_price h = p" "t_deposit h = d" "t_change h = max 0 (d - p)" "t_quarters h \<le> max 0 (d - p) div 25"
    "0 \<le> t_quarters h" "0 \<le> t_dispensed h" "t_dispensed h \<le> t_quarters h"
    using assms(2) by (simp_all add: same_order_def)
  then show ?thesis
    using assms(3-6) by (simp add: int32_def) linarith
qed

theorem purchase_int32_witness:
  "\<exists>t' j' m'. run_purchase (machine_engine TxnConfig_default) 7 50 100 empty_journal idle_machine = Some (t', j', m') \<and>
     int32 (t_quarters (last (jn_hist j')))"
proof -
  obtain t' j' m' where r: "run_purchase (machine_engine TxnConfig_default) 7 50 100 empty_journal idle_machine = Some (t', j', m')"
    using idle_purchase_returns by blast
  have "jn_hist j' \<noteq> []"
    using r mc.continue_txn_outcome [OF idle_retrying, of TxnConfig_default]
    by (fastforce simp: run_purchase_def Let_def txn_outcome_def)
  then show ?thesis
    using purchase_int32 [OF idle_retrying _ _ _ _ _ r, of "last (jn_hist j')"] r
    by (auto simp: TxnConfig_default_def int32_def empty_journal_def)
qed

end
