(* ===== verification/Idempotency.thy ===== *)
theory Idempotency
  imports Prelude
begin

text \<open>
  The store that makes purchase requests idempotent, \<^verbatim>\<open>src/pos/idempotency_store.cpp\<close>: a map of
  records in memory and a file of JSON lines that is read back at start. The file is the list of its
  lines (\<^verbatim>\<open>dump\<close> without an indent writes one line); the JSON library is the parameter \<open>extern\<close>,
  the system clock an argument. The results: what each operation does to the answer of \<^verbatim>\<open>check\<close>, as an
  interface for the router, and that reopening the file restores the map.
\<close>

record IdemRec =
  ir_key :: string
  ir_payload_hash :: string
  ir_result_json :: string
  ir_status :: string
  ir_first_ns :: "64 word"
  ir_last_ns :: "64 word"

definition IdemRec_default :: IdemRec where
  "IdemRec_default = \<lparr>ir_key = [], ir_payload_hash = [], ir_result_json = [], ir_status = [],
     ir_first_ns = 0, ir_last_ns = 0\<rparr>"

datatype Check = NEW | PENDING | MATCH_DONE | MISMATCH

record IdempotencyStore =
  is_ttl_ns :: int
  is_map :: "(string, IdemRec) amap"
  is_lines :: "string list"

text \<open>\<^verbatim>\<open>hours(ttl_hours).count()\<close> is the number of hours itself.\<close>

definition ttl_of :: "int \<Rightarrow> int" where
  "ttl_of ttl_hours = ttl_hours * 1000000000"

definition store_init :: "int \<Rightarrow> string list \<Rightarrow> IdempotencyStore" where
  "store_init ttl_hours file = \<lparr>is_ttl_ns = ttl_of ttl_hours, is_map = [], is_lines = file\<rparr>"

definition expired :: "IdempotencyStore \<Rightarrow> int \<Rightarrow> IdemRec \<Rightarrow> bool" where
  "expired s now r \<longleftrightarrow> now - sint (ir_last_ns r) > is_ttl_ns s"

definition sweep_expired :: "int \<Rightarrow> IdempotencyStore \<Rightarrow> IdempotencyStore" where
  "sweep_expired now s =
     (if is_ttl_ns s \<le> 0 then s else s\<lparr>is_map := filter (\<lambda>(k, r). \<not> expired s now r) (is_map s)\<rparr>)"

text \<open>One line of the file: \<open>Inl\<close> is an exception, which the loop swallows.\<close>

definition read_rec :: "extern \<Rightarrow> string \<Rightarrow> IdemRec result" where
  "read_rec ext line =
     bind_result (parse ext line) (\<lambda>j.
     bind_result (bind_result (idx ext j ''key'') (as_str ext)) (\<lambda>key.
     bind_result (bind_result (idx ext j ''payload_hash'') (as_str ext)) (\<lambda>ph.
     bind_result (value_str ext j ''result'' []) (\<lambda>res.
     bind_result (bind_result (idx ext j ''status'') (as_str ext)) (\<lambda>st.
     bind_result (value_int ext j ''first_ns'' 0) (\<lambda>f.
     bind_result (value_int ext j ''last_ns'' 0) (\<lambda>l.
     Inr \<lparr>ir_key = key, ir_payload_hash = ph, ir_result_json = res, ir_status = st,
       ir_first_ns = word_of_int f, ir_last_ns = word_of_int l\<rparr>)))))))"

definition load_line :: "extern \<Rightarrow> int \<Rightarrow> IdempotencyStore \<Rightarrow> string \<Rightarrow> IdempotencyStore" where
  "load_line ext now s line =
     (if line = [] then s
      else case read_rec ext line of
        Inl _ \<Rightarrow> s
      | Inr r \<Rightarrow> if is_ttl_ns s > 0 \<and> expired s now r then s else s\<lparr>is_map := put (ir_key r) r (is_map s)\<rparr>)"

text \<open>\<open>readable\<close>: the file can be opened; the two clock readings are of the loop and of the sweep.\<close>

definition open_store :: "extern \<Rightarrow> bool \<Rightarrow> int \<Rightarrow> int \<Rightarrow> IdempotencyStore \<Rightarrow> IdempotencyStore" where
  "open_store ext readable now now2 s =
     sweep_expired now2 (if readable then foldl (load_line ext now) s (is_lines s) else s)"

text \<open>The answer, and the record the out-parameter holds when the key is known.\<close>

definition check :: "IdempotencyStore \<Rightarrow> string \<Rightarrow> string \<Rightarrow> Check \<times> IdemRec option" where
  "check s key payload_hash =
     (case get (is_map s) key of
        None \<Rightarrow> (NEW, None)
      | Some r \<Rightarrow>
          (if ir_payload_hash r \<noteq> payload_hash then MISMATCH
           else if ir_status r = ''PENDING'' then PENDING
           else if ir_status r = ''DONE'' then MATCH_DONE else NEW, Some r))"

definition pending_json_line :: "IdemRec \<Rightarrow> json" where
  "pending_json_line r = JObj [(''key'', JStr (ir_key r)), (''payload_hash'', JStr (ir_payload_hash r)),
     (''status'', JStr ''PENDING''), (''first_ns'', JInt (uint (ir_first_ns r))), (''last_ns'', JInt (uint (ir_last_ns r)))]"

definition put_pending :: "extern \<Rightarrow> int \<Rightarrow> string \<Rightarrow> string \<Rightarrow> IdempotencyStore \<Rightarrow> IdempotencyStore" where
  "put_pending ext now key ph s =
     (let r = \<lparr>ir_key = key, ir_payload_hash = ph, ir_result_json = [], ir_status = ''PENDING'',
               ir_first_ns = word_of_int now, ir_last_ns = word_of_int now\<rparr>
      in s\<lparr>is_map := put key r (is_map s), is_lines := is_lines s @ [dump ext (pending_json_line r)]\<rparr>)"

definition done_json_line :: "IdemRec \<Rightarrow> json" where
  "done_json_line r = JObj [(''key'', JStr (ir_key r)), (''payload_hash'', JStr (ir_payload_hash r)),
     (''status'', JStr ''DONE''), (''result'', JStr (ir_result_json r)), (''first_ns'', JInt (uint (ir_first_ns r))),
     (''last_ns'', JInt (uint (ir_last_ns r)))]"

definition done_rec :: "int \<Rightarrow> string \<Rightarrow> string \<Rightarrow> string \<Rightarrow> IdempotencyStore \<Rightarrow> IdemRec" where
  "done_rec now key ph res s =
     (let first = (case get (is_map s) key of None \<Rightarrow> 0 | Some slot \<Rightarrow> ir_first_ns slot) in
      \<lparr>ir_key = key, ir_payload_hash = ph, ir_result_json = res, ir_status = ''DONE'',
       ir_first_ns = (if first \<noteq> 0 then first else word_of_int now), ir_last_ns = word_of_int now\<rparr>)"

definition put_done :: "extern \<Rightarrow> int \<Rightarrow> string \<Rightarrow> string \<Rightarrow> string \<Rightarrow> IdempotencyStore \<Rightarrow> IdempotencyStore" where
  "put_done ext now key ph res s =
     (let r = done_rec now key ph res s
      in s\<lparr>is_map := put key r (is_map s), is_lines := is_lines s @ [dump ext (done_json_line r)]\<rparr>)"

section \<open>The interface of the router\<close>

text \<open>What a request handler needs of a store: each key is unseen, in progress with a payload, or
  finished with a payload and a result, and an operation on a key touches no other.\<close>

datatype key_state = Unseen | Started string | Finished string string

locale once_store =
  fixes state_of :: "'s \<Rightarrow> string \<Rightarrow> key_state"
    and begin_key :: "string \<Rightarrow> string \<Rightarrow> 's \<Rightarrow> 's"
    and finish_key :: "string \<Rightarrow> string \<Rightarrow> string \<Rightarrow> 's \<Rightarrow> 's"
  assumes begin_state: "state_of (begin_key k h s) k' = (if k' = k then Started h else state_of s k')"
    and finish_state: "state_of (finish_key k h r s) k' = (if k' = k then Finished h r else state_of s k')"
begin

lemma begin_finish: "state_of (finish_key k h r (begin_key k h s)) k' = (if k' = k then Finished h r else state_of s k')"
  by (simp add: begin_state finish_state)

text \<open>A finished key stays finished as long as only other keys are worked on.\<close>

lemma finished_stable:
  "state_of s k = Finished h r \<Longrightarrow> k' \<noteq> k \<Longrightarrow>
   state_of (finish_key k' h' r' (begin_key k' h' s)) k = Finished h r"
  by (simp add: begin_finish)

end

definition key_state_of :: "IdempotencyStore \<Rightarrow> string \<Rightarrow> key_state" where
  "key_state_of s k =
     (case get (is_map s) k of None \<Rightarrow> Unseen
      | Some r \<Rightarrow> if ir_status r = ''PENDING'' then Started (ir_payload_hash r)
                  else if ir_status r = ''DONE'' then Finished (ir_payload_hash r) (ir_result_json r) else Unseen)"

interpretation idem: once_store key_state_of "put_pending ext now" "put_done ext now'" for ext now now'
  by unfold_locales (simp_all add: key_state_of_def put_pending_def put_done_def done_rec_def Let_def)

text \<open>The answer of \<^verbatim>\<open>check\<close> from the state of the key, for the records the operations write.\<close>

lemma check_started: "key_state_of s k = Started h \<Longrightarrow> fst (check s k h') = (if h' = h then PENDING else MISMATCH)"
  by (auto simp: key_state_of_def check_def split: option.splits if_splits)

lemma check_finished:
  "key_state_of s k = Finished h r \<Longrightarrow>
   fst (check s k h') = (if h' = h then MATCH_DONE else MISMATCH) \<and>
   map_option ir_result_json (snd (check s k h')) = Some r"
  by (auto simp: key_state_of_def check_def split: option.splits if_splits)

lemma check_new: "fst (check s k h) = NEW \<Longrightarrow> key_state_of s k = Unseen"
  by (auto simp: key_state_of_def check_def split: option.splits if_splits)

section \<open>Reopening\<close>

text \<open>
  The records written so far, oldest first: \<open>written\<close> says that the lines of the file are theirs, and
  \<open>replay\<close> that the map is what writing them in order gives. The library's part is \<open>line_law\<close>:
  a line that was dumped reads back as its record, \<^verbatim>\<open>parse\<close> being the inverse of \<^verbatim>\<open>dump\<close>.
\<close>

definition rec_line :: "IdemRec \<Rightarrow> json" where
  "rec_line r = (if ir_status r = ''DONE'' then done_json_line r else pending_json_line r)"

definition line_law :: "extern \<Rightarrow> IdemRec \<Rightarrow> bool" where
  "line_law ext r \<longleftrightarrow> dump ext (rec_line r) \<noteq> [] \<and> read_rec ext (dump ext (rec_line r)) = Inr r"

definition replay :: "IdemRec list \<Rightarrow> (string, IdemRec) amap" where
  "replay rs = foldl (\<lambda>m r. put (ir_key r) r m) [] rs"

definition written :: "extern \<Rightarrow> IdemRec list \<Rightarrow> IdempotencyStore \<Rightarrow> bool" where
  "written ext rs s \<longleftrightarrow> is_lines s = map (\<lambda>r. dump ext (rec_line r)) rs \<and> is_map s = replay rs"

lemma replay_snoc: "replay (rs @ [r]) = put (ir_key r) r (replay rs)"
  by (simp add: replay_def)

lemma written_init: "written ext [] (store_init ttl [])"
  by (simp add: written_def store_init_def replay_def)

lemma written_pending:
  assumes "written ext rs s"
  shows "\<exists>r. written ext (rs @ [r]) (put_pending ext now k h s) \<and> ir_last_ns r = word_of_int now \<and> ir_key r = k"
  using assms by (intro exI [of _ "\<lparr>ir_key = k, ir_payload_hash = h, ir_result_json = [], ir_status = ''PENDING'',
      ir_first_ns = word_of_int now, ir_last_ns = word_of_int now\<rparr>"])
    (simp add: written_def put_pending_def Let_def replay_snoc rec_line_def)

lemma written_done:
  assumes "written ext rs s"
  shows "written ext (rs @ [done_rec now k h res s]) (put_done ext now k h res s)"
  using assms by (simp add: written_def put_done_def Let_def replay_snoc rec_line_def done_rec_def)

lemma get_filter_distinct:
  assumes "distinct (map fst m)"
  shows "get (filter P m) k = (case get m k of Some v \<Rightarrow> if P (k, v) then Some v else None | None \<Rightarrow> None)"
  using assms
proof (induction m)
  case (Cons kv m)
  obtain a b where kv: "kv = (a, b)" by (cases kv)
  have "get (filter P m) a = None"
    using Cons.prems kv by (auto simp: get_def map_of_eq_None_iff)
  with Cons kv show ?case by auto
qed simp

lemma distinct_replay: "distinct (map fst (replay rs))"
  by (induction rs rule: rev_induct) (simp_all add: replay_snoc, simp add: replay_def)

lemma replay_mem: "get (replay rs) k = Some r \<Longrightarrow> r \<in> set rs"
  by (induction rs rule: rev_induct) (auto simp: replay_snoc split: if_splits, simp add: replay_def)

lemma load_lines_ttl: "is_ttl_ns (foldl (load_line ext now) s ls) = is_ttl_ns s"
  by (induction ls rule: rev_induct) (auto simp: load_line_def split: sum.splits)

lemma load_lines_lines: "is_lines (foldl (load_line ext now) s ls) = is_lines s"
  by (induction ls rule: rev_induct) (auto simp: load_line_def split: sum.splits)

text \<open>Loading skips what has expired, which is what sweeping the full map removes, because a record
  that overrides another is not older.\<close>

lemma load_lines_get:
  assumes "\<forall>r\<in>set rs. line_law ext r" "sorted (map (\<lambda>r. sint (ir_last_ns r)) rs)" "is_map s0 = []"
  shows "get (is_map (foldl (load_line ext now) s0 (map (\<lambda>r. dump ext (rec_line r)) rs))) k =
    (case get (replay rs) k of Some r \<Rightarrow> if 0 < is_ttl_ns s0 \<and> expired s0 now r then None else Some r
     | None \<Rightarrow> None)"
  using assms
proof (induction rs rule: rev_induct)
  case Nil
  then show ?case by (simp add: replay_def)
next
  case (snoc r rs)
  let ?s = "foldl (load_line ext now) s0 (map (\<lambda>r. dump ext (rec_line r)) rs)"
  have IH: "get (is_map ?s) k = (case get (replay rs) k of
      Some r \<Rightarrow> if 0 < is_ttl_ns s0 \<and> expired s0 now r then None else Some r | None \<Rightarrow> None)"
    using snoc.IH snoc.prems by (simp add: sorted_append)
  have load: "load_line ext now ?s (dump ext (rec_line r)) =
      (if 0 < is_ttl_ns s0 \<and> expired s0 now r then ?s else ?s\<lparr>is_map := put (ir_key r) r (is_map ?s)\<rparr>)"
    using snoc.prems(1) by (simp add: load_line_def line_law_def load_lines_ttl expired_def)
  have older: "expired s0 now r'" if "get (replay rs) k = Some r'" "expired s0 now r" for r'
    using that replay_mem [OF that(1)] snoc.prems(2) by (auto simp: sorted_append expired_def)
  show ?case
    using IH older by (auto simp: load replay_snoc split: option.splits)
qed

text \<open>
  Restarting the service keeps the store: when the file holds the lines of the records written
  so far, in the order of a clock that did not run backwards, and the JSON library reads back what it
  wrote, opening the file gives for every key the record it had in memory, except that records
  older than the time to live are gone; so a finished request is still answered from its record.
\<close>

theorem reopen_store:
  assumes "written ext rs s" "\<forall>r\<in>set rs. line_law ext r" "sorted (map (\<lambda>r. sint (ir_last_ns r)) rs)"
    and "now \<le> now2" "0 < ttl_of ttl"
  shows "get (is_map (open_store ext True now now2 (store_init ttl (is_lines s)))) k =
    (case get (is_map s) k of
       Some r \<Rightarrow> if now2 - sint (ir_last_ns r) > ttl_of ttl then None else Some r
     | None \<Rightarrow> None)"
proof -
  let ?s0 = "store_init ttl (is_lines s)"
  let ?s1 = "foldl (load_line ext now) ?s0 (map (\<lambda>r. dump ext (rec_line r)) rs)"
  have ttl: "is_ttl_ns ?s1 = ttl_of ttl" by (simp add: load_lines_ttl store_init_def)
  have d: "distinct (map fst (is_map ?s1))"
  proof -
    have "distinct (map fst (is_map (foldl (load_line ext now) ?s0 ls)))" for ls
      by (induction ls rule: rev_induct) (auto simp: load_line_def store_init_def split: sum.splits)
    then show ?thesis by blast
  qed
  have "open_store ext True now now2 ?s0 = sweep_expired now2 ?s1"
    using assms(1) by (simp add: open_store_def written_def store_init_def)
  then have "get (is_map (open_store ext True now now2 ?s0)) k =
      (case get (is_map ?s1) k of Some r \<Rightarrow> if \<not> expired ?s1 now2 r then Some r else None | None \<Rightarrow> None)"
    using assms(5) ttl d by (simp add: sweep_expired_def get_filter_distinct split: option.splits)
  also have "\<dots> = (case get (is_map s) k of Some r \<Rightarrow> if now2 - sint (ir_last_ns r) > ttl_of ttl then None else Some r
     | None \<Rightarrow> None)"
    using load_lines_get [OF assms(2,3), of ?s0 now k] assms(1,4,5) ttl
    by (auto simp: written_def expired_def store_init_def split: option.splits)
  finally show ?thesis .
qed

text \<open>A library that reads back the one line of an example.\<close>

definition sample_rec :: IdemRec where
  "sample_rec = \<lparr>ir_key = ''k1'', ir_payload_hash = ''50:100'', ir_result_json = [], ir_status = ''PENDING'',
     ir_first_ns = 1000, ir_last_ns = 1000\<rparr>"

definition one_line_extern :: extern where
  "one_line_extern = sample_extern\<lparr>parse := (\<lambda>l. if l = flat_dump (rec_line sample_rec) then Inr (rec_line sample_rec)
     else Inl Json_error)\<rparr>"

theorem reopen_store_witness:
  "get (is_map (open_store one_line_extern True 2000 3000
     (store_init 24 (is_lines (put_pending one_line_extern 1000 ''k1'' ''50:100'' (store_init 24 [])))))) ''k1'' =
   Some sample_rec"
proof -
  let ?s = "put_pending one_line_extern 1000 ''k1'' ''50:100'' (store_init 24 [])"
  have w: "written one_line_extern [sample_rec] ?s"
    by (simp add: written_def put_pending_def store_init_def replay_def sample_rec_def rec_line_def put_def Let_def)
  have l: "line_law one_line_extern sample_rec"
    by (simp add: line_law_def one_line_extern_def sample_extern_def read_rec_def rec_line_def sample_rec_def
        pending_json_line_def obj_get_def json_str_def json_value_def json_int_def)
      (simp add: flat_dump_def)
  have g: "get (is_map ?s) ''k1'' = Some sample_rec"
    by (simp add: put_pending_def store_init_def sample_rec_def Let_def)
  have n: "sint (1000 :: 64 word) = 1000" by simp
  show ?thesis
    using reopen_store [OF w, of 2000 3000 24 "''k1''"] l g n
    by (simp add: sample_rec_def ttl_of_def)
qed

text \<open>
  The parameter of the time to live counts hours, the code takes it for seconds: with the default of 24 a record is
  dropped by the sweep 24 seconds after its last change, so that a retry a minute later counts as new.
\<close>

theorem ttl_is_seconds:
  "ttl_of 24 = 24 * 1000000000 \<and>
   fst (check (sweep_expired 25000000000 (put_done sample_extern 1 ''k1'' ''50:100'' ''{}'' (store_init 24 []))) ''k1'' ''50:100'') = NEW \<and>
   fst (check (sweep_expired 24000000000 (put_done sample_extern 1 ''k1'' ''50:100'' ''{}'' (store_init 24 []))) ''k1'' ''50:100'') = MATCH_DONE"
proof -
  have n: "sint (1 :: 64 word) = 1" by simp
  show ?thesis
    by (simp add: ttl_of_def check_def sweep_expired_def put_done_def done_rec_def store_init_def expired_def put_def n Let_def)
qed

end
