(* ===== verification/Pos.thy ===== *)
theory Pos
  imports Idempotency Txn_Engine
begin

text \<open>
  The point-of-sale front ends (\<^verbatim>\<open>src/pos\<close>): the purchase request and its validation by the two
  vendor adapters and the serial line, and the router that runs each request at most once. A handler
  is split where the C++ one leaves its lock: \<open>handle_check\<close> is the look at the store,
  \<open>handle_commit\<close> the rest from the busy flag on, so that interleavings of two requests can be
  stated; \<open>handle\<close> is one request without interference. The publication of a purchase to the quant
  engine is best effort and has no effect on this state.
\<close>

section \<open>Requests and answers\<close>

record PurchaseRequest =
  pr_price_cents :: int
  pr_deposit_cents :: int
  pr_idem_key :: string

definition PurchaseRequest_default :: PurchaseRequest where
  "PurchaseRequest_default = \<lparr>pr_price_cents = 0, pr_deposit_cents = 0, pr_idem_key = []\<rparr>"

definition payload_hash :: "int \<Rightarrow> int \<Rightarrow> string" where
  "payload_hash price_cents deposit_cents = to_string price_cents @ '':'' @ to_string deposit_cents"

definition success_json :: "Txn \<Rightarrow> string" where
  "success_json t =
     ''{'' @ str_field ''status'' ''OK'' @ '','' @ str_field ''txn_id'' (t_id t) @ '','' @
     int_field ''change_cents'' (t_change t) @ '','' @ quoted ''coins'' @ '':{'' @
     int_field ''quarter'' (t_quarters t) @ '','' @ int_field ''dime'' 0 @ '','' @ int_field ''nickel'' 0 @ '','' @
     int_field ''penny'' 0 @ ''}}''"

definition busy_json :: string where "busy_json = ''{'' @ str_field ''error'' ''busy'' @ ''}''"
definition bad_request_json :: string where "bad_request_json = ''{'' @ str_field ''error'' ''bad_request'' @ ''}''"
definition mismatch_json :: string where "mismatch_json = ''{'' @ str_field ''error'' ''idempotency_mismatch'' @ ''}''"
definition pending_json :: string where "pending_json = ''{'' @ str_field ''status'' ''processing'' @ ''}''"
definition unauthorized_json :: string where "unauthorized_json = ''{'' @ str_field ''error'' ''unauthorized'' @ ''}''"

section \<open>The router\<close>

record 'w router =
  rt_store :: IdempotencyStore
  rt_busy :: bool
  rt_journal :: journal
  rt_world :: 'w

text \<open>The clock readings of one request.\<close>

record req_clock =
  rc_pending :: int
  rc_txn :: int
  rc_done :: int

definition req_hash :: "PurchaseRequest \<Rightarrow> string" where
  "req_hash req = payload_hash (pr_price_cents req) (pr_deposit_cents req)"

text \<open>\<open>None\<close>: the request is new and the handler goes on.\<close>

definition handle_check :: "PurchaseRequest \<Rightarrow> 'w router \<Rightarrow> (int \<times> string) option" where
  "handle_check req s =
     (case check (rt_store s) (pr_idem_key req) (req_hash req) of
        (MISMATCH, _) \<Rightarrow> Some (409, mismatch_json)
      | (PENDING, _) \<Rightarrow> Some (202, pending_json)
      | (MATCH_DONE, r) \<Rightarrow> Some (200, case r of None \<Rightarrow> [] | Some rec \<Rightarrow> ir_result_json rec)
      | (NEW, _) \<Rightarrow> None)"

definition handle_commit ::
  "extern \<Rightarrow> 'w TxnEngine \<Rightarrow> req_clock \<Rightarrow> PurchaseRequest \<Rightarrow> 'w router \<Rightarrow> ((int \<times> string) \<times> 'w router) option" where
  "handle_commit ext en clk req s =
     (if rt_busy s then Some ((409, busy_json), s)
      else
        let s1 = s\<lparr>rt_busy := True, rt_store := put_pending ext (rc_pending clk) (pr_idem_key req) (req_hash req) (rt_store s)\<rparr>
        in case run_purchase en (rc_txn clk) (pr_price_cents req) (pr_deposit_cents req) (rt_journal s1) (rt_world s1) of
             None \<Rightarrow> None
           | Some (txn, j, w) \<Rightarrow>
               let json = success_json txn
               in Some ((200, json),
                    s1\<lparr>rt_busy := False, rt_journal := j, rt_world := w,
                       rt_store := put_done ext (rc_done clk) (pr_idem_key req) (req_hash req) json (rt_store s1)\<rparr>))"

definition handle ::
  "extern \<Rightarrow> 'w TxnEngine \<Rightarrow> req_clock \<Rightarrow> PurchaseRequest \<Rightarrow> 'w router \<Rightarrow> ((int \<times> string) \<times> 'w router) option" where
  "handle ext en clk req s =
     (case handle_check req s of Some out \<Rightarrow> Some (out, s) | None \<Rightarrow> handle_commit ext en clk req s)"

text \<open>A sequence of requests, one after the other.\<close>

fun handles :: "extern \<Rightarrow> 'w TxnEngine \<Rightarrow> (req_clock \<times> PurchaseRequest) list \<Rightarrow> 'w router \<Rightarrow> 'w router option" where
  "handles ext en [] s = Some s"
| "handles ext en ((clk, req) # rest) s =
     (case handle ext en clk req s of None \<Rightarrow> None | Some (out, s1) \<Rightarrow> handles ext en rest s1)"

section \<open>Vendor adapters and HTTP\<close>

definition derive_key :: "extern \<Rightarrow> string \<Rightarrow> int \<Rightarrow> int \<Rightarrow> string" where
  "derive_key ext seed price deposit =
     ''idem-'' @ hex_nat (unat (std_hash ext (seed @ ''|'' @ to_string price @ ''|'' @ to_string deposit)))"

definition amounts_ok :: "int \<Rightarrow> int \<Rightarrow> bool" where
  "amounts_ok price deposit \<longleftrightarrow> \<not> (price < 0 \<or> deposit < 0 \<or> price > 100000 \<or> deposit > 100000 \<or> deposit < price)"

text \<open>The adapters return \<open>None\<close> for \<^verbatim>\<open>false\<close>; \<open>Inl\<close> inside is the exception that
  \<^verbatim>\<open>catch (...)\<close> turns into \<^verbatim>\<open>false\<close>.\<close>

definition parse_a :: "extern \<Rightarrow> string \<Rightarrow> string \<Rightarrow> PurchaseRequest option result" where
  "parse_a ext body idem_hdr =
     bind_result (parse ext body) (\<lambda>j.
     bind_result (bind_result (at_key ext j ''price_cents'') (as_int ext)) (\<lambda>price.
     bind_result (bind_result (at_key ext j ''deposit_cents'') (as_int ext)) (\<lambda>deposit.
       if \<not> amounts_ok price deposit then Inr None
       else if idem_hdr \<noteq> [] then
         Inr (Some \<lparr>pr_price_cents = price, pr_deposit_cents = deposit, pr_idem_key = idem_hdr\<rparr>)
       else bind_result (value_str ext j ''order_id'' []) (\<lambda>seed.
         Inr (Some \<lparr>pr_price_cents = price, pr_deposit_cents = deposit, pr_idem_key = derive_key ext seed price deposit\<rparr>)))))"

definition caught :: "'a option result \<Rightarrow> 'a option" where
  "caught r = (case r of Inl _ \<Rightarrow> None | Inr x \<Rightarrow> x)"

definition parse_vendor_a :: "extern \<Rightarrow> string \<Rightarrow> string \<Rightarrow> PurchaseRequest option" where
  "parse_vendor_a ext body idem_hdr = caught (parse_a ext body idem_hdr)"

definition to_int_field :: "extern \<Rightarrow> json \<Rightarrow> int result" where
  "to_int_field ext j = (if is_string ext j then bind_result (as_str ext j) stoi else as_int ext j)"

definition parse_b :: "extern \<Rightarrow> string \<Rightarrow> string \<Rightarrow> PurchaseRequest option result" where
  "parse_b ext body idem_hdr =
     bind_result (parse ext body) (\<lambda>j.
     bind_result (at_key ext j ''amount'') (\<lambda>amount.
     bind_result (bind_result (at_key ext amount ''price'') (to_int_field ext)) (\<lambda>price.
     bind_result (bind_result (at_key ext amount ''deposit'') (to_int_field ext)) (\<lambda>deposit.
       if \<not> amounts_ok price deposit then Inr None
       else if idem_hdr \<noteq> [] then
         Inr (Some \<lparr>pr_price_cents = price, pr_deposit_cents = deposit, pr_idem_key = idem_hdr\<rparr>)
       else bind_result (bind_result (idx ext j ''meta'') (\<lambda>m. value_str ext m ''ticket'' [])) (\<lambda>seed.
         Inr (Some \<lparr>pr_price_cents = price, pr_deposit_cents = deposit, pr_idem_key = derive_key ext seed price deposit\<rparr>))))))"

definition parse_vendor_b :: "extern \<Rightarrow> string \<Rightarrow> string \<Rightarrow> PurchaseRequest option" where
  "parse_vendor_b ext body idem_hdr = caught (parse_b ext body idem_hdr)"

record Options =
  op_shared_key :: string
  op_vendor_mode :: string

text \<open>The handler of \<^verbatim>\<open>POST /pos/purchase\<close>: the two headers it reads and the body.\<close>

definition http_request :: "extern \<Rightarrow> Options \<Rightarrow> string \<Rightarrow> string \<Rightarrow> PurchaseRequest option" where
  "http_request ext opt idem_hdr body =
     (if op_vendor_mode opt = ''B'' then parse_vendor_b ext body idem_hdr else parse_vendor_a ext body idem_hdr)"

definition http_purchase ::
  "extern \<Rightarrow> 'w TxnEngine \<Rightarrow> Options \<Rightarrow> req_clock \<Rightarrow> string \<Rightarrow> string \<Rightarrow> string \<Rightarrow> 'w router \<Rightarrow>
     ((int \<times> string) \<times> 'w router) option" where
  "http_purchase ext en opt clk key_hdr idem_hdr body s =
     (if op_shared_key opt \<noteq> [] \<and> key_hdr \<noteq> op_shared_key opt then Some ((401, unauthorized_json), s)
      else case http_request ext opt idem_hdr body of
        None \<Rightarrow> Some ((400, bad_request_json), s)
      | Some preq \<Rightarrow>
          if pr_idem_key preq = [] then Some ((400, bad_request_json), s) else handle ext en clk preq s)"

section \<open>The serial line\<close>

text \<open>The tokens \<^verbatim>\<open>operator>>\<close> reads.\<close>

function tokens :: "string \<Rightarrow> string list" where
  "tokens s =
     (let r = dropWhile is_space s in
      if r = [] then [] else takeWhile (\<lambda>c. \<not> is_space c) r # tokens (dropWhile (\<lambda>c. \<not> is_space c) r))"
  by pat_completeness auto
termination
proof (relation "measure length")
  fix s r :: string
  assume def_r: "r = dropWhile is_space s" and "r \<noteq> []"
  then have "\<not> is_space (hd r)" using hd_dropWhile [of is_space s] by simp
  with \<open>r \<noteq> []\<close> obtain c cs where r: "r = c # cs" "\<not> is_space c" by (cases r) simp_all
  have "length (dropWhile (\<lambda>c. \<not> is_space c) r) < length r"
    using r length_dropWhile_le [of "\<lambda>c. \<not> is_space c" cs] by simp
  also have "\<dots> \<le> length s" using def_r length_dropWhile_le [of is_space s] by simp
  finally show "(dropWhile (\<lambda>c. \<not> is_space c) r, s) \<in> measure length" by simp
qed simp

declare tokens.simps [simp del]

definition serial_token :: "string \<Rightarrow> bool \<times> PurchaseRequest \<Rightarrow> (bool \<times> PurchaseRequest) result" where
  "serial_token token = (\<lambda>(seen, req).
     if CHR ''='' \<notin> set token then Inr (seen, req)
     else
       let k = takeWhile (\<lambda>c. c \<noteq> CHR ''='') token; v = tl (dropWhile (\<lambda>c. c \<noteq> CHR ''='') token) in
       if k = ''id'' then Inr (True, req\<lparr>pr_idem_key := v\<rparr>)
       else if k = ''price'' then bind_result (stoi v) (\<lambda>i. Inr (True, req\<lparr>pr_price_cents := i\<rparr>))
       else if k = ''deposit'' then bind_result (stoi v) (\<lambda>i. Inr (True, req\<lparr>pr_deposit_cents := i\<rparr>))
       else Inr (True, req))"

fun serial_tokens :: "string list \<Rightarrow> bool \<times> PurchaseRequest \<Rightarrow> (bool \<times> PurchaseRequest) result" where
  "serial_tokens [] st = Inr st"
| "serial_tokens (t # ts) st = bind_result (serial_token t st) (serial_tokens ts)"

text \<open>\<^verbatim>\<open>parse_req\<close>: its result and the request it filled.\<close>

definition parse_req :: "string \<Rightarrow> (bool \<times> PurchaseRequest) result" where
  "parse_req line =
     bind_result (serial_tokens (tokens line) (False, PurchaseRequest_default)) (\<lambda>(seen, req).
       if \<not> seen then Inr (False, req)
       else if pr_idem_key req = [] \<or> \<not> amounts_ok (pr_price_cents req) (pr_deposit_cents req) then Inr (False, req)
       else Inr (True, req))"

definition coin_field :: "extern \<Rightarrow> json \<Rightarrow> string \<Rightarrow> int result" where
  "coin_field ext j k = bind_result (idx ext j ''coins'') (\<lambda>c. bind_result (idx ext c k) (as_int ext))"

definition ok_line :: "extern \<Rightarrow> PurchaseRequest \<Rightarrow> string \<Rightarrow> string result" where
  "ok_line ext req body =
     bind_result (parse ext body) (\<lambda>j.
     bind_result (bind_result (idx ext j ''change_cents'') (as_int ext)) (\<lambda>change.
     bind_result (coin_field ext j ''quarter'') (\<lambda>q.
     bind_result (coin_field ext j ''dime'') (\<lambda>d.
     bind_result (coin_field ext j ''nickel'') (\<lambda>n.
     bind_result (coin_field ext j ''penny'') (\<lambda>p.
     Inr (''OK id='' @ pr_idem_key req @ '' change='' @ to_string change @ '' q='' @ to_string q @
       '' d='' @ to_string d @ '' n='' @ to_string n @ '' p='' @ to_string p)))))))"

definition handle_line ::
  "extern \<Rightarrow> 'w TxnEngine \<Rightarrow> req_clock \<Rightarrow> string \<Rightarrow> 'w router \<Rightarrow> (string result \<times> 'w router) option" where
  "handle_line ext en clk line s =
     (case parse_req line of
        Inl e \<Rightarrow> Some (Inl e, s)
      | Inr (False, req) \<Rightarrow> Some (Inr (''BAD id='' @ pr_idem_key req), s)
      | Inr (True, req) \<Rightarrow>
          (case handle ext en clk req s of
             None \<Rightarrow> None
           | Some ((code, body), s1) \<Rightarrow>
               Some (if code = 200 then ok_line ext req body
                     else if code = 409 then
                       Inr ((if contains ''busy'' body then ''BUSY id='' else ''CONFLICT id='') @ pr_idem_key req)
                     else if code = 202 then Inr (''PENDING id='' @ pr_idem_key req)
                     else Inr (''BAD id='' @ pr_idem_key req), s1)))"

section \<open>At most once\<close>

lemma payload_hash_inj: "payload_hash p d = payload_hash p' d' \<longleftrightarrow> p = p' \<and> d = d'"
proof
  assume eq: "payload_hash p d = payload_hash p' d'"
  have colon: "takeWhile (\<lambda>c. c \<noteq> CHR '':'') (payload_hash p d) = to_string p" for p d
  proof -
    have "c \<noteq> CHR '':''" if "c \<in> set (to_string p)" for c
      using set_to_string [OF that] by (auto simp: is_digit_def)
    then show ?thesis by (simp add: payload_hash_def)
  qed
  have "to_string p = to_string p'" using eq colon [of p d] colon [of p' d'] by simp
  with eq show "p = p' \<and> d = d'" by (simp add: payload_hash_def)
qed simp

lemma handle_check_finished:
  assumes "key_state_of (rt_store s) (pr_idem_key req) = Finished h r"
  shows "handle_check req s = Some (if h = req_hash req then (200, r) else (409, mismatch_json))"
  using check_finished [OF assms, of "req_hash req"]
  by (cases "check (rt_store s) (pr_idem_key req) (req_hash req)") (auto simp: handle_check_def split: if_splits)

lemma handle_check_new: "handle_check req s = None \<Longrightarrow> key_state_of (rt_store s) (pr_idem_key req) = Unseen"
  by (rule check_new [of _ _ "req_hash req"]) (auto simp: handle_check_def split: prod.splits Check.splits)

lemma handle_commit_cases:
  assumes "handle_commit ext en clk req s = Some (out, s1)"
  obtains (busy) "rt_busy s" "out = (409, busy_json)" "s1 = s"
    | (ran) txn j w where "\<not> rt_busy s"
      "run_purchase en (rc_txn clk) (pr_price_cents req) (pr_deposit_cents req) (rt_journal s) (rt_world s) = Some (txn, j, w)"
      "out = (200, success_json txn)" "rt_busy s1 = False" "rt_journal s1 = j" "rt_world s1 = w"
      "rt_store s1 = put_done ext (rc_done clk) (pr_idem_key req) (req_hash req) (success_json txn)
         (put_pending ext (rc_pending clk) (pr_idem_key req) (req_hash req) (rt_store s))"
  using assms by (auto simp: handle_commit_def Let_def split: if_splits option.splits prod.splits)

lemma handle_200:
  assumes "handle ext en clk req s = Some ((200, body), s1)"
  shows "key_state_of (rt_store s1) (pr_idem_key req) = Finished (req_hash req) body"
proof (cases "handle_check req s")
  case None
  then have "handle_commit ext en clk req s = Some ((200, body), s1)" using assms by (simp add: handle_def)
  then show ?thesis by (cases rule: handle_commit_cases) (simp_all add: idem.begin_finish)
next
  case (Some out)
  then have "s1 = s" "handle_check req s = Some (200, body)" using assms by (auto simp: handle_def)
  then show ?thesis
    by (auto simp: handle_check_def check_def key_state_of_def split: option.splits if_splits Check.splits prod.splits)
qed

lemma handle_keeps_finished:
  assumes "handle ext en clk req s = Some (out, s1)" "key_state_of (rt_store s) k = Finished h r"
  shows "key_state_of (rt_store s1) k = Finished h r"
proof (cases "handle_check req s")
  case None
  then have ne: "pr_idem_key req \<noteq> k" using handle_check_new [OF None] assms(2) by auto
  from None have "handle_commit ext en clk req s = Some (out, s1)" using assms(1) by (simp add: handle_def)
  then show ?thesis
    by (cases rule: handle_commit_cases) (use assms(2) ne in \<open>simp_all add: idem.finished_stable\<close>)
qed (use assms in \<open>simp add: handle_def\<close>)

lemma handles_keep_finished:
  "handles ext en crs s = Some s1 \<Longrightarrow> key_state_of (rt_store s) k = Finished h r \<Longrightarrow> key_state_of (rt_store s1) k = Finished h r"
proof (induction crs arbitrary: s)
  case (Cons cr crs)
  then show ?case using handle_keeps_finished by (cases cr) (fastforce split: option.splits)
qed simp

text \<open>
  C11. A purchase request is idempotent: after a request was answered with success, and after any
  number of other requests, sending it again is answered with the same body and changes nothing, no
  journal record, no motion of the machine; sending its key with other amounts is refused.
\<close>

theorem retry_is_idempotent:
  assumes "handle ext en clk req s = Some ((200, body), s1)" "handles ext en crs s1 = Some s2"
    and "pr_idem_key req' = pr_idem_key req"
  shows "handle ext en clk' req' s2 =
    Some (if pr_price_cents req' = pr_price_cents req \<and> pr_deposit_cents req' = pr_deposit_cents req
          then (200, body) else (409, mismatch_json), s2)"
proof -
  have "key_state_of (rt_store s2) (pr_idem_key req') = Finished (req_hash req) body"
    using handles_keep_finished [OF assms(2)] handle_200 [OF assms(1)] assms(3) by simp
  from handle_check_finished [OF this] show ?thesis
    by (auto simp: handle_def req_hash_def payload_hash_inj)
qed

definition start_router :: "machine router" where
  "start_router = \<lparr>rt_store = store_init 24 [], rt_busy = False, rt_journal = empty_journal, rt_world = idle_machine\<rparr>"

definition sample_clock :: req_clock where
  "sample_clock = \<lparr>rc_pending = 1, rc_txn = 7, rc_done = 2\<rparr>"

definition sample_req :: PurchaseRequest where
  "sample_req = \<lparr>pr_price_cents = 50, pr_deposit_cents = 100, pr_idem_key = ''k1''\<rparr>"

lemma start_router_new: "handle_check sample_req start_router = None"
  by (simp add: handle_check_def check_def start_router_def store_init_def)

lemma start_router_runs:
  "\<exists>body s1. handle sample_extern (machine_engine TxnConfig_default) sample_clock sample_req start_router = Some ((200, body), s1)"
  using idle_purchase_returns start_router_new
  by (auto simp: handle_def handle_commit_def start_router_def sample_clock_def sample_req_def Let_def split: option.splits)

theorem retry_is_idempotent_witness:
  "\<exists>body s1. handle sample_extern (machine_engine TxnConfig_default) sample_clock sample_req start_router = Some ((200, body), s1) \<and>
     handle sample_extern (machine_engine TxnConfig_default) sample_clock sample_req s1 = Some ((200, body), s1) \<and>
     handle sample_extern (machine_engine TxnConfig_default) sample_clock (sample_req\<lparr>pr_price_cents := 75\<rparr>) s1 =
       Some ((409, mismatch_json), s1)"
proof -
  obtain body s1 where h: "handle sample_extern (machine_engine TxnConfig_default) sample_clock sample_req start_router = Some ((200, body), s1)"
    using start_router_runs by blast
  show ?thesis
    using retry_is_idempotent [OF h, of "[]" s1 sample_req] retry_is_idempotent [OF h, of "[]" s1 "sample_req\<lparr>pr_price_cents := 75\<rparr>"] h
    by (auto simp: sample_req_def)
qed

text \<open>
  Two requests with one key that race are not covered: the store is consulted before the busy
  flag is taken. When the second thread has found the key new, and the first one then runs its
  request to the end, the second goes on to run a second purchase, on the machine the first left,
  although the store already holds the finished record.
\<close>

theorem concurrent_retry_pays_twice:
  assumes "handle_check req s = None" "handle ext en clk req s = Some ((200, body), s1)"
  shows "handle_check req s1 = Some (200, body) \<and>
    map_option (\<lambda>(out, s2). (rt_journal s2, rt_world s2)) (handle_commit ext en clk2 req s1) =
      map_option snd (run_purchase en (rc_txn clk2) (pr_price_cents req) (pr_deposit_cents req) (rt_journal s1) (rt_world s1))"
proof -
  have "handle_commit ext en clk req s = Some ((200, body), s1)" using assms by (simp add: handle_def)
  then have "\<not> rt_busy s1" by (cases rule: handle_commit_cases) simp_all
  then have "map_option (\<lambda>(out, s2). (rt_journal s2, rt_world s2)) (handle_commit ext en clk2 req s1) =
      map_option snd (run_purchase en (rc_txn clk2) (pr_price_cents req) (pr_deposit_cents req) (rt_journal s1) (rt_world s1))"
    by (auto simp: handle_commit_def Let_def split: option.splits)
  then show ?thesis using handle_check_finished [OF handle_200 [OF assms(2)]] by simp
qed

theorem concurrent_retry_pays_twice_witness:
  "\<exists>body s1. handle sample_extern (machine_engine TxnConfig_default) sample_clock sample_req start_router = Some ((200, body), s1) \<and>
     handle_check sample_req s1 = Some (200, body)"
  using start_router_runs concurrent_retry_pays_twice [OF start_router_new, of sample_extern "machine_engine TxnConfig_default" sample_clock]
  by blast

section \<open>Validation\<close>

lemma parse_amounts:
  "parse_vendor_a ext body hdr = Some req \<Longrightarrow> amounts_ok (pr_price_cents req) (pr_deposit_cents req)"
  "parse_vendor_b ext body hdr = Some req \<Longrightarrow> amounts_ok (pr_price_cents req) (pr_deposit_cents req)"
  by (auto simp: parse_vendor_a_def parse_vendor_b_def parse_a_def parse_b_def caught_def bind_result_def
      split: sum.splits if_splits option.splits)

lemma amounts_bounds:
  assumes "amounts_ok p d"
  shows "0 \<le> p \<and> p \<le> d \<and> d \<le> 100000 \<and> t_quarters (new_txn en now p d) \<le> 4000"
proof -
  have "max 0 (d - p) div 25 \<le> 100000 div 25"
    using assms by (intro zdiv_mono1) (auto simp: amounts_ok_def)
  then show ?thesis using assms by (simp add: amounts_ok_def min.coboundedI2)
qed


text \<open>A library that reads one body, that of the request of the example.\<close>

definition sample_body :: json where
  "sample_body = JObj [(''price_cents'', JInt 50), (''deposit_cents'', JInt 100)]"

definition body_extern :: extern where
  "body_extern = sample_extern\<lparr>parse := (\<lambda>_. Inr sample_body)\<rparr>"


text \<open>
  Without an idempotency header and an order id, two customers who pay the same price with the
  same deposit get one key: the adapter derives the key from the amounts alone, so the second
  purchase is taken for a retry of the first; it is answered with the first customer's result and
  no coin is paid.
\<close>

theorem anonymous_orders_share_key:
  assumes "parse ext body1 = Inr j1" "parse ext body2 = Inr j2"
    and "parse_vendor_a ext body1 [] = Some r1" "parse_vendor_a ext body2 [] = Some r2"
    and "value_str ext j1 ''order_id'' [] = Inr []" "value_str ext j2 ''order_id'' [] = Inr []"
    and "pr_price_cents r2 = pr_price_cents r1" "pr_deposit_cents r2 = pr_deposit_cents r1"
    and "handle ext en clk r1 s = Some ((200, answer), s1)"
  shows "handle ext en clk2 r2 s1 = Some ((200, answer), s1)"
proof -
  have k: "pr_idem_key r = derive_key ext [] (pr_price_cents r) (pr_deposit_cents r)"
    if "parse ext body = Inr j" "parse_vendor_a ext body [] = Some r" "value_str ext j ''order_id'' [] = Inr []" for body j r
    using that by (auto simp: parse_vendor_a_def parse_a_def caught_def bind_result_def split: sum.splits if_splits)
  have eq: "pr_idem_key r2 = pr_idem_key r1"
    using k [OF assms(1,3,5)] k [OF assms(2,4,6)] assms(7,8) by simp
  have "req_hash r2 = req_hash r1" using assms(7,8) by (simp add: req_hash_def)
  then show ?thesis
    using handle_check_finished [of s1 r2 "req_hash r1" answer] handle_200 [OF assms(9)] eq by (simp add: handle_def)
qed

theorem anonymous_orders_share_key_witness:
  "\<exists>r answer s1. parse_vendor_a body_extern ''first'' [] = Some r \<and>
     handle body_extern (machine_engine TxnConfig_default) sample_clock r start_router = Some ((200, answer), s1) \<and>
     handle body_extern (machine_engine TxnConfig_default) sample_clock r s1 = Some ((200, answer), s1)"
proof -
  obtain r where r: "parse_vendor_a body_extern ''first'' [] = Some r" "parse_vendor_a body_extern ''second'' [] = Some r"
    "pr_price_cents r = 50" "pr_deposit_cents r = 100"
    by (simp add: parse_vendor_a_def parse_a_def caught_def body_extern_def sample_body_def sample_extern_def obj_get_def
        json_int_def json_value_def amounts_ok_def)
  have v: "value_str body_extern sample_body ''order_id'' [] = Inr []"
    by (simp add: body_extern_def sample_body_def sample_extern_def json_value_def)
  have n: "handle_check r start_router = None"
    by (simp add: handle_check_def check_def start_router_def store_init_def)
  obtain answer s1 where h: "handle body_extern (machine_engine TxnConfig_default) sample_clock r start_router = Some ((200, answer), s1)"
    using idle_purchase_returns n r(3,4)
    by (auto simp: handle_def handle_commit_def start_router_def sample_clock_def Let_def split: option.splits)
  show ?thesis
    using anonymous_orders_share_key [of body_extern "''first''" sample_body "''second''" sample_body r r, OF _ _ r(1,2) v v refl refl h] r h
    by (auto simp: body_extern_def)
qed

section \<open>What the answer says\<close>

text \<open>
  The answer does not look at the outcome: with a safety input active, the purchase ends \<^verbatim>\<open>VOID\<close>
  with no coin paid, yet the router answers 200 with status OK and the quarters that were due, and
  stores that answer, so that every retry of the request gets it too and the customer is never paid.
\<close>

theorem void_reported_as_success:
  assumes "safety_traced scfg (rt_world s)" "asserted scfg (mc_trace (other_threads (rt_world s))) c"
    and "handle_check req s = None" "\<not> rt_busy s"
  shows "\<exists>t s1. handle ext (machine_engine cfg) clk req s = Some ((200, success_json t), s1) \<and>
    t_phase t = ''VOID'' \<and> t_dispensed t = 0 \<and>
    t_quarters t = min (tc_max_quarters_per_txn cfg) (max 0 (pr_deposit_cents req - pr_price_cents req) div 25) \<and>
    handle ext (machine_engine cfg) clk2 req s1 = Some ((200, success_json t), s1)"
proof -
  obtain t j w where r: "run_purchase (machine_engine cfg) (rc_txn clk) (pr_price_cents req) (pr_deposit_cents req)
      (rt_journal s) (rt_world s) = Some (t, j, w)" "t_phase t = ''VOID''" "t_dispensed t = 0"
    "t_quarters t = min (tc_max_quarters_per_txn cfg) (max 0 (pr_deposit_cents req - pr_price_cents req) div 25)"
    using blocked_run [OF assms(1,2)] by fastforce
  obtain s1 where h: "handle ext (machine_engine cfg) clk req s = Some ((200, success_json t), s1)"
    using r(1) assms(3,4) by (simp add: handle_def handle_commit_def Let_def)
  have "handle ext (machine_engine cfg) clk2 req s1 = Some ((200, success_json t), s1)"
    using handle_check_finished [OF handle_200 [OF h]] by (simp add: handle_def)
  with h r show ?thesis by blast
qed

theorem void_reported_as_success_witness:
  "\<exists>t s1. handle sample_extern (machine_engine TxnConfig_default) sample_clock sample_req
       (start_router\<lparr>rt_world := pressed_machine\<rparr>) = Some ((200, success_json t), s1) \<and>
     t_phase t = ''VOID'' \<and> t_dispensed t = 0 \<and> t_quarters t = 2"
proof -
  have "handle_check sample_req (start_router\<lparr>rt_world := pressed_machine\<rparr>) = None"
    by (simp add: handle_check_def check_def start_router_def store_init_def)
  then show ?thesis
    using void_reported_as_success [of estop_cfg "start_router\<lparr>rt_world := pressed_machine\<rparr>" ESTOP sample_req sample_extern
        TxnConfig_default sample_clock sample_clock] pressed_blocked
    by (auto simp: start_router_def sample_req_def TxnConfig_default_def)
qed

end
