(* ===== verification/Service_Mode.thy ===== *)
theory Service_Mode
  imports Txn_Engine
begin

text \<open>
  The technician's commands (\<^verbatim>\<open>src/app/service_mode.cpp\<close>, \<^verbatim>\<open>src/app/jam_clear.cpp\<close>) and the
  self-test (\<^verbatim>\<open>src/app/selftest.cpp\<close>). The commands act on a world of devices through the interfaces
  of \<open>Devices\<close>; as in \<^verbatim>\<open>main\<close>, service mode and fault manager write to one log. The results say
  what has to hold before a command moves anything, and which faults do not stop it.
\<close>

section \<open>Service mode\<close>

text \<open>\<^verbatim>\<open>cfg::Service\<close>.\<close>

record Service =
  sc_enable :: bool
  sc_pin_code :: string
  sc_jam_clear_shutter_mm :: int
  sc_jam_clear_cycles :: int
  sc_hopper_nudge_ms :: int
  sc_hopper_max_retries :: int

definition Service_default :: Service where
  "Service_default = \<lparr>sc_enable = True, sc_pin_code = ''1234'', sc_jam_clear_shutter_mm = 3,
     sc_jam_clear_cycles = 3, sc_hopper_nudge_ms = 150, sc_hopper_max_retries = 2\<rparr>"

record 'w ServiceMode =
  sv_cfg :: Service
  sv_fm :: FaultManager
  sv_active :: bool
  sv_user :: string
  sv_world :: 'w

definition bool_str :: "bool \<Rightarrow> string" where
  "bool_str b = (if b then ''true'' else ''false'')"

text \<open>The log call of a command; \<open>now\<close> is the steady clock.\<close>

definition sv_log :: "int \<Rightarrow> string \<Rightarrow> (string \<times> string) list \<Rightarrow> bool \<Rightarrow> 'w ServiceMode \<Rightarrow> 'w ServiceMode" where
  "sv_log now action extra ok s =
     s\<lparr>sv_fm := fm_log ([(''ts'', to_string now), (''user'', sv_user s), (''action'', action)] @ extra @
       [(''ok'', bool_str ok)]) (sv_fm s)\<rparr>"

definition enter :: "int \<Rightarrow> string \<Rightarrow> string \<Rightarrow> 'w ServiceMode \<Rightarrow> bool \<times> 'w ServiceMode" where
  "enter now pin user s =
     (if \<not> sc_enable (sv_cfg s) then (False, s)
      else if pin \<noteq> sc_pin_code (sv_cfg s) then (False, s)
      else (True, sv_log now ''enter'' [] True (s\<lparr>sv_active := True, sv_user := user\<rparr>)))"

definition exit_service :: "int \<Rightarrow> 'w ServiceMode \<Rightarrow> 'w ServiceMode" where
  "exit_service now s =
     (if sv_active s then sv_log now ''exit'' [] True s else s)\<lparr>sv_active := False, sv_user := []\<rparr>"

definition guard :: "'w ServiceMode \<Rightarrow> bool" where
  "guard s \<longleftrightarrow> sv_active s \<and> \<not> safety_blocking (sv_fm s)"

text \<open>\<^verbatim>\<open>nullptr\<close> for the reason: the string the operation may write to is dropped.\<close>

definition cmd_open_shutter :: "'w IShutter \<Rightarrow> int \<Rightarrow> int \<Rightarrow> 'w ServiceMode \<Rightarrow> bool \<times> 'w ServiceMode" where
  "cmd_open_shutter sh now mm s =
     (if \<not> guard s then (False, s)
      else case sh_open_mm sh mm [] (sv_world s) of (ok, _, w) \<Rightarrow>
        (ok, sv_log now ''open'' [(''mm'', to_string mm)] ok (s\<lparr>sv_world := w\<rparr>)))"

definition cmd_close_shutter :: "'w IShutter \<Rightarrow> int \<Rightarrow> int \<Rightarrow> 'w ServiceMode \<Rightarrow> bool \<times> 'w ServiceMode" where
  "cmd_close_shutter sh now mm s =
     (if \<not> guard s then (False, s)
      else case sh_close_mm sh mm [] (sv_world s) of (ok, _, w) \<Rightarrow>
        (ok, sv_log now ''close'' [(''mm'', to_string mm)] ok (s\<lparr>sv_world := w\<rparr>)))"

definition cmd_dispense :: "'w IDispenser \<Rightarrow> int \<Rightarrow> int \<Rightarrow> 'w ServiceMode \<Rightarrow> (bool \<times> 'w ServiceMode) option" where
  "cmd_dispense d now coins s =
     (if \<not> guard s then Some (False, s)
      else case d coins (sv_world s) of None \<Rightarrow> None
      | Some (st, w) \<Rightarrow>
          Some (ds_ok st, sv_log now ''dispense'' [(''coins'', to_string coins)] (ds_ok st) (s\<lparr>sv_world := w\<rparr>)))"

text \<open>\<^verbatim>\<open>jam_clear::shutter\<close> moves nothing; \<^verbatim>\<open>jam_clear::hopper\<close> asks the dispenser for no coin and
  ignores its answer.\<close>

definition jam_clear_shutter :: "FaultManager \<Rightarrow> bool \<times> FaultManager" where
  "jam_clear_shutter fm = (True, clear JAM_SHUTTER fm)"

definition jam_clear_hopper :: "'w IDispenser \<Rightarrow> FaultManager \<times> 'w \<Rightarrow> (bool \<times> FaultManager \<times> 'w) option" where
  "jam_clear_hopper d = (\<lambda>(fm, w).
     case d 0 w of None \<Rightarrow> None | Some (st, w1) \<Rightarrow> Some (True, clear JAM_HOPPER fm, w1))"

definition run_jam_clear_shutter :: "int \<Rightarrow> 'w ServiceMode \<Rightarrow> bool \<times> 'w ServiceMode" where
  "run_jam_clear_shutter now s =
     (if \<not> guard s then (False, s)
      else case jam_clear_shutter (sv_fm s) of (ok, fm) \<Rightarrow>
        (ok, sv_log now ''jam_clear_shutter'' [] ok (s\<lparr>sv_fm := fm\<rparr>)))"

definition run_jam_clear_hopper :: "'w IDispenser \<Rightarrow> int \<Rightarrow> 'w ServiceMode \<Rightarrow> (bool \<times> 'w ServiceMode) option" where
  "run_jam_clear_hopper d now s =
     (if \<not> guard s then Some (False, s)
      else case jam_clear_hopper d (sv_fm s, sv_world s) of None \<Rightarrow> None
      | Some (ok, fm, w) \<Rightarrow> Some (ok, sv_log now ''jam_clear_hopper'' [] ok (s\<lparr>sv_fm := fm, sv_world := w\<rparr>)))"

section \<open>Commands as events\<close>

datatype sv_event = Enter int string string | Exit int | Open_shutter int int | Close_shutter int int
  | Dispense int int | Jam_shutter int | Jam_hopper int

definition with_ok :: "bool \<times> 'w ServiceMode \<Rightarrow> 'w ServiceMode option" where
  "with_ok r = Some (snd r)"

fun sv_step :: "'w IShutter \<Rightarrow> 'w IDispenser \<Rightarrow> sv_event \<Rightarrow> 'w ServiceMode \<Rightarrow> 'w ServiceMode option" where
  "sv_step sh d (Enter now pin user) s = with_ok (enter now pin user s)"
| "sv_step sh d (Exit now) s = Some (exit_service now s)"
| "sv_step sh d (Open_shutter now mm) s = with_ok (cmd_open_shutter sh now mm s)"
| "sv_step sh d (Close_shutter now mm) s = with_ok (cmd_close_shutter sh now mm s)"
| "sv_step sh d (Dispense now n) s = map_option snd (cmd_dispense d now n s)"
| "sv_step sh d (Jam_shutter now) s = with_ok (run_jam_clear_shutter now s)"
| "sv_step sh d (Jam_hopper now) s = map_option snd (run_jam_clear_hopper d now s)"

fun sv_steps :: "'w IShutter \<Rightarrow> 'w IDispenser \<Rightarrow> sv_event list \<Rightarrow> 'w ServiceMode \<Rightarrow> 'w ServiceMode option" where
  "sv_steps sh d [] s = Some s"
| "sv_steps sh d (e # es) s = (case sv_step sh d e s of None \<Rightarrow> None | Some s1 \<Rightarrow> sv_steps sh d es s1)"

lemmas service_defs = enter_def exit_service_def cmd_open_shutter_def cmd_close_shutter_def cmd_dispense_def
  run_jam_clear_shutter_def run_jam_clear_hopper_def jam_clear_shutter_def jam_clear_hopper_def with_ok_def

lemma sv_log_fields [simp]:
  "sv_world (sv_log now a x ok s) = sv_world s" "sv_active (sv_log now a x ok s) = sv_active s"
  "sv_cfg (sv_log now a x ok s) = sv_cfg s" "sv_user (sv_log now a x ok s) = sv_user s"
  "has_fault c (sv_fm (sv_log now a x ok s)) = has_fault c (sv_fm s)"
  by (simp_all add: sv_log_def)

lemma sv_step_guarded:
  "sv_step sh d e s = Some s1 \<Longrightarrow> sv_world s1 \<noteq> sv_world s \<Longrightarrow> guard s"
  by (cases e) (auto simp: service_defs split: if_splits option.splits prod.splits)

lemma sv_step_active:
  "sv_step sh d e s = Some s1 \<Longrightarrow> sv_active s1 \<Longrightarrow>
   sv_active s \<or> (sc_enable (sv_cfg s) \<and> (\<exists>now user. e = Enter now (sc_pin_code (sv_cfg s)) user))"
  by (cases e) (auto simp: service_defs split: if_splits option.splits prod.splits)

lemma sv_step_cfg: "sv_step sh d e s = Some s1 \<Longrightarrow> sv_cfg s1 = sv_cfg s"
  by (cases e) (auto simp: service_defs split: if_splits option.splits prod.splits)

lemma sv_step_faults:
  "sv_step sh d e s = Some s1 \<Longrightarrow> c \<notin> {JAM_SHUTTER, JAM_HOPPER} \<Longrightarrow> has_fault c (sv_fm s1) = has_fault c (sv_fm s)"
  by (cases e) (auto simp: service_defs split: if_splits option.splits prod.splits)

text \<open>
  No service command moves anything without authority: over any sequence of commands from a
  closed session, if the state of the machine changed then service mode is enabled, the configured PIN
  was entered in the sequence, and none of the emergency stop, lid and overcurrent faults was in the
  table; no command clears one of these faults.
\<close>

theorem service_commands_guarded:
  assumes "sv_steps sh d es s = Some s1" "\<not> sv_active s" "sv_world s1 \<noteq> sv_world s"
  shows "sc_enable (sv_cfg s) \<and> (\<exists>now user. Enter now (sc_pin_code (sv_cfg s)) user \<in> set es) \<and>
    \<not> safety_blocking (sv_fm s) \<and> \<not> safety_blocking (sv_fm s1)"
proof -
  have "(sv_active s1 \<longrightarrow> sv_active s \<or> (sc_enable (sv_cfg s) \<and> (\<exists>now user. Enter now (sc_pin_code (sv_cfg s)) user \<in> set es))) \<and>
    (sv_world s1 \<noteq> sv_world s \<longrightarrow>
      (sv_active s \<or> (sc_enable (sv_cfg s) \<and> (\<exists>now user. Enter now (sc_pin_code (sv_cfg s)) user \<in> set es))) \<and>
      \<not> safety_blocking (sv_fm s)) \<and> (safety_blocking (sv_fm s1) = safety_blocking (sv_fm s))"
    using assms(1)
  proof (induction es arbitrary: s)
    case (Cons e es)
    then obtain s2 where s2: "sv_step sh d e s = Some s2" "sv_steps sh d es s2 = Some s1"
      by (auto split: option.splits)
    have b: "safety_blocking (sv_fm s2) = safety_blocking (sv_fm s)"
      using sv_step_faults [OF s2(1)] by (simp add: safety_blocking_def)
    show ?case
      using Cons.IH [OF s2(2)] sv_step_guarded [OF s2(1)] sv_step_active [OF s2(1)] sv_step_cfg [OF s2(1)] b
      by (auto simp: guard_def)
  qed simp
  then show ?thesis using assms(2,3) by blast
qed

definition service_start :: "int ServiceMode" where
  "service_start = \<lparr>sv_cfg = Service_default, sv_fm = FaultManager_init Safety_default None, sv_active = False,
     sv_user = [], sv_world = 0\<rparr>"

text \<open>A dispenser that always delivers, counting the coins.\<close>

definition counting_disp :: "int IDispenser" where
  "counting_disp n w = Some (\<lparr>ds_ok = True, ds_requested = n, ds_dispensed = n, ds_pulses = n, ds_retries = 0,
     ds_reason = ''OK'', ds_elapsed_ms = 0\<rparr>, w + n)"

definition idle_shutter :: "int IShutter" where
  "idle_shutter = \<lparr>sh_home = (\<lambda>_ r w. (True, r, w)), sh_open_mm = (\<lambda>_ r w. (True, r, w)), sh_close_mm = (\<lambda>_ r w. (True, r, w))\<rparr>"

theorem service_commands_guarded_witness:
  "\<exists>s1. sv_steps idle_shutter counting_disp [Enter 1 ''1234'' ''tech'', Dispense 2 3] service_start = Some s1 \<and>
     sv_world s1 = 3 \<and> \<not> safety_blocking (sv_fm s1)"
proof -
  let ?r = "sv_steps idle_shutter counting_disp [Enter 1 ''1234'' ''tech'', Dispense 2 3] service_start"
  obtain s1 where s1: "?r = Some s1" "sv_world s1 = 3"
    by (simp add: service_defs service_start_def Service_default_def guard_def counting_disp_def safety_blocking_def
        has_fault_def FaultManager_init_def sv_log_def fm_log_def)
  then show ?thesis
    using service_commands_guarded [OF s1(1)] by (auto simp: service_start_def)
qed

text \<open>
  A failed sensor or a configuration error does not block the technician's commands, against the
  fault matrix: with only such faults in the table and a session open, the dispense command goes
  through to the dispenser and returns its answer.
\<close>

theorem sensor_fault_does_not_block_service:
  assumes "sv_active s" "\<forall>c. has_fault c (sv_fm s) \<longrightarrow> c \<in> {SENSOR_FAIL, CONFIG_ERROR}"
    and "d n (sv_world s) = Some (st, w)"
  shows "\<exists>s1. cmd_dispense d now n s = Some (ds_ok st, s1) \<and> sv_world s1 = w"
proof -
  have "guard s" using assms(1,2) by (auto simp: guard_def safety_blocking_def)
  then show ?thesis using assms(3) by (simp add: cmd_dispense_def)
qed

theorem sensor_fault_does_not_block_service_witness:
  "\<exists>s1. cmd_dispense counting_disp 5 3
     (service_start\<lparr>sv_active := True, sv_fm := raise 4 SENSOR_FAIL ''hx711'' True (FaultManager_init Safety_default None)\<rparr>) =
       Some (True, s1) \<and> sv_world s1 = 3"
proof -
  have "\<forall>c. has_fault c (raise 4 SENSOR_FAIL ''hx711'' True (FaultManager_init Safety_default None)) \<longrightarrow>
      c \<in> {SENSOR_FAIL, CONFIG_ERROR}"
    by simp (simp add: has_fault_def FaultManager_init_def)
  then show ?thesis
    using sensor_fault_does_not_block_service [of "service_start\<lparr>sv_active := True,
        sv_fm := raise 4 SENSOR_FAIL ''hx711'' True (FaultManager_init Safety_default None)\<rparr>" counting_disp 3
        "\<lparr>ds_ok = True, ds_requested = 3, ds_dispensed = 3, ds_pulses = 3, ds_retries = 0, ds_reason = ''OK'', ds_elapsed_ms = 0\<rparr>" 3 5]
    by (auto simp: counting_disp_def service_start_def)
qed

section \<open>The self-test\<close>

text \<open>The fields of \<^verbatim>\<open>cfg::Config\<close> the self-test reads.\<close>

record st_config =
  st_max_mm :: int
  st_enable_coin_test :: bool
  st_samples_pre :: int
  st_source_path :: string
  st_warnings :: "string list"
  st_pulses_per_coin :: int

record Comp =
  co_ok :: bool
  co_reason :: string

text \<open>A scale (\<^verbatim>\<open>IScale\<close>): \<open>Inl\<close> carries the message of the exception it throws.\<close>

type_synonym 'w scale = "int \<Rightarrow> 'w \<Rightarrow> (string + int) \<times> 'w"

definition comp_json :: "string \<Rightarrow> Comp \<Rightarrow> string \<Rightarrow> string" where
  "comp_json name c extra =
     quoted name @ '':{'' @ quoted ''ok'' @ '':'' @ bool_str (co_ok c) @ '','' @ str_field ''reason'' (co_reason c) @ extra @ ''}''"

fun warnings_json :: "string list \<Rightarrow> string" where
  "warnings_json [] = []"
| "warnings_json [w] = quoted w"
| "warnings_json (w # ws) = quoted w @ '','' @ warnings_json ws"

definition health_json :: "string \<Rightarrow> string \<Rightarrow> st_config \<Rightarrow> bool \<Rightarrow> Comp \<Rightarrow> Comp \<Rightarrow> Comp \<Rightarrow> int \<Rightarrow> string" where
  "health_json ts host c ok sht hop scl baseline =
     ''{'' @ str_field ''ts'' ts @ '','' @ quoted ''ok'' @ '':'' @ bool_str ok @ '','' @ str_field ''host'' host @
     '','' @ quoted ''config'' @ '':{'' @ str_field ''source'' (st_source_path c) @ '','' @ quoted ''warnings'' @ '':['' @
     warnings_json (st_warnings c) @ '']}'' @ '','' @ quoted ''components'' @ '':{'' @
     comp_json ''shutter'' sht [] @ '','' @
     comp_json ''hopper'' hop ('','' @ int_field ''pulses_per_coin'' (st_pulses_per_coin c)) @ '','' @
     comp_json ''scale'' scl ('','' @ int_field ''baseline_raw'' baseline) @ ''}}''"

definition test_shutter :: "'w IShutter \<Rightarrow> st_config \<Rightarrow> 'w \<Rightarrow> Comp \<times> 'w" where
  "test_shutter sh c w =
     (case sh_home sh (st_max_mm c) [] w of (ok, r, w1) \<Rightarrow> (\<lparr>co_ok = ok, co_reason = (if ok then [] else r)\<rparr>, w1))"

definition test_hopper :: "'w IDispenser \<Rightarrow> st_config \<Rightarrow> 'w \<Rightarrow> (Comp \<times> 'w) option" where
  "test_hopper d c w =
     (if st_enable_coin_test c then
        (case d 1 w of None \<Rightarrow> None
         | Some (st, w1) \<Rightarrow>
             Some (if \<not> ds_ok st \<or> ds_dispensed st \<noteq> 1 then \<lparr>co_ok = False, co_reason = ds_reason st\<rparr>
                   else \<lparr>co_ok = True, co_reason = []\<rparr>, w1))
      else Some (\<lparr>co_ok = True, co_reason = ''coin test disabled''\<rparr>, w))"

text \<open>Result: the component and the baseline reading.\<close>

definition test_scale :: "'w scale option \<Rightarrow> st_config \<Rightarrow> 'w \<Rightarrow> Comp \<times> int \<times> 'w" where
  "test_scale scale c w =
     (case scale of
        None \<Rightarrow> (\<lparr>co_ok = False, co_reason = ''missing or not ready''\<rparr>, 0, w)
      | Some rd \<Rightarrow>
          (case rd (st_samples_pre c) w of
             (Inr v, w1) \<Rightarrow> (\<lparr>co_ok = True, co_reason = []\<rparr>, v, w1)
           | (Inl e, w1) \<Rightarrow> (\<lparr>co_ok = False, co_reason = e\<rparr>, 0, w1)))"

definition selftest_run ::
  "string \<Rightarrow> string \<Rightarrow> 'w IShutter \<Rightarrow> 'w IDispenser \<Rightarrow> 'w scale option \<Rightarrow> st_config \<Rightarrow> 'w \<Rightarrow> ((bool \<times> string) \<times> 'w) option" where
  "selftest_run ts host sh d scale c w =
     (case test_shutter sh c w of (sht, w1) \<Rightarrow>
      (case test_hopper d c w1 of None \<Rightarrow> None
       | Some (hop, w2) \<Rightarrow>
          (case test_scale scale c w2 of (scl, baseline, w3) \<Rightarrow>
             let ok = (co_ok sht \<and> co_ok hop \<and> (scale = None \<or> co_ok scl))
             in Some ((ok, health_json ts host c ok sht hop scl baseline), w3))))"

text \<open>
  The verdict of the self-test on the machine: when it passes, homing left the shutter resting
  closed, and with the coin test enabled the hopper counted exactly one coin; a failing scale fails
  the test, a missing one does not.
\<close>

theorem selftest_verdict:
  assumes "selftest_run ts host machine_shutter machine_disp scale c m = Some ((True, json), m')"
  shows "\<exists>m1. rests CLOSED (mc_fsm m1) \<and> fst (sh_home machine_shutter (st_max_mm c) [] m) \<and>
    m1 = snd (snd (sh_home machine_shutter (st_max_mm c) [] m)) \<and>
    (st_enable_coin_test c \<longrightarrow> (\<exists>st m2. machine_disp 1 m1 = Some (st, m2) \<and> ds_ok st \<and> ds_dispensed st = 1)) \<and>
    (scale \<noteq> None \<longrightarrow> (\<exists>m2 v m3. the scale (st_samples_pre c) m2 = (Inr v, m3)))"
proof -
  obtain ok r m1 where h: "sh_home machine_shutter (st_max_mm c) [] m = (ok, r, m1)"
    by (cases "sh_home machine_shutter (st_max_mm c) [] m")
  have ok: ok using assms h by (auto simp: selftest_run_def test_shutter_def Let_def split: prod.splits option.splits)
  then have "rests CLOSED (mc_fsm m1)" using mc.home_closed [of TxnConfig_default] h
    by (simp add: machine_engine_def)
  moreover have "st_enable_coin_test c \<longrightarrow> (\<exists>st m2. machine_disp 1 m1 = Some (st, m2) \<and> ds_ok st \<and> ds_dispensed st = 1)"
    using assms h by (auto simp: selftest_run_def test_shutter_def test_hopper_def Let_def split: prod.splits option.splits if_splits)
  moreover have "scale \<noteq> None \<longrightarrow> (\<exists>m2 v m3. the scale (st_samples_pre c) m2 = (Inr v, m3))"
    using assms by (fastforce simp: selftest_run_def test_scale_def Let_def split: prod.splits option.splits sum.splits)
  ultimately show ?thesis using ok h by auto
qed

text \<open>The machine of the examples with a closed switch that reports closed.\<close>

definition closed_machine :: machine where
  "closed_machine = idle_machine\<lparr>mc_fsm := fsm_init (sample_stepper\<lparr>sp_closed_switch := (\<lambda>_. True)\<rparr>) 80\<rparr>"

definition no_coin_config :: st_config where
  "no_coin_config = \<lparr>st_max_mm = 80, st_enable_coin_test = False, st_samples_pre = 8, st_source_path = ''cfg'',
     st_warnings = [], st_pulses_per_coin = 1\<rparr>"

theorem selftest_verdict_witness:
  "\<exists>json m'. selftest_run ''2024'' ''reg1'' machine_shutter machine_disp None no_coin_config closed_machine =
       Some ((True, json), m') \<and> rests CLOSED (mc_fsm (snd (snd (sh_home machine_shutter 80 [] closed_machine))))"
proof -
  have "fst (waitFor (Suc (Suc (Suc n))) CLOSED [] (cmdHome (mc_fsm closed_machine)))" for n
    by (simp add: closed_machine_def idle_machine_def fsm_init_def sample_stepper_def cmdHome_def
        setState_def tick_def sense_closed_def take_step_def atClosed_def debounce_def halt_def st_setDir_def
        st_enable_def one_step_def Let_def)
  from this [of 9997] have "fst (adapter_home 80 [] (mc_fsm closed_machine))"
    by (simp add: adapter_home_def wait_ticks_def)
  then obtain r m' where "sh_home machine_shutter 80 [] closed_machine = (True, r, m')"
    by (cases "adapter_home 80 [] (mc_fsm closed_machine)") (auto simp: machine_shutter_def ShutterAdapter_def on_fsm_def)
  then obtain json where "selftest_run ''2024'' ''reg1'' machine_shutter machine_disp None no_coin_config closed_machine =
       Some ((True, json), m')"
    by (simp add: selftest_run_def test_shutter_def test_hopper_def test_scale_def no_coin_config_def Let_def)
  from selftest_verdict [OF this] this show ?thesis by (auto simp: no_coin_config_def)
qed

end
