(* ===== verification/Scale_Audit.thy ===== *)
theory Scale_Audit
  imports Prelude
begin

text \<open>
  The load cell and the weight audit: the HX711 converter read bit by bit
  (\<^verbatim>\<open>src/drivers/hx711.cpp\<close>, with the 64-bit \<^verbatim>\<open>long\<close> of the targets) and the comparison of the weight
  change with the coins dispensed (\<^verbatim>\<open>src/app/audit.cpp\<close>, in exact real arithmetic where the code
  computes in \<^verbatim>\<open>double\<close>). The results: the value read is the two's complement reading of the 24 bits,
  and the verdict of the audit is exactly a bound on the deviation.
\<close>

unbundle bit_operations_syntax

section \<open>The converter\<close>

text \<open>The data line as the list of the levels of the coming reads; \<open>None\<close>: \<^verbatim>\<open>runtime_error\<close>, the data
  was not ready within 500000 polls. The argument of \<open>wait_ready\<close> counts the polls left.\<close>

fun wait_ready :: "nat \<Rightarrow> bool list \<Rightarrow> bool list option" where
  "wait_ready n [] = None"
| "wait_ready n (b # bs) = (if \<not> b then Some bs else case n of 0 \<Rightarrow> None | Suc m \<Rightarrow> wait_ready m bs)"

definition shift_in :: "64 word \<Rightarrow> bool \<Rightarrow> 64 word" where
  "shift_in val b = push_bit 1 val OR (if b then 1 else 0)"

definition sign_extend24 :: "64 word \<Rightarrow> 64 word" where
  "sign_extend24 val = (if val AND 0x800000 \<noteq> 0 then val OR NOT 0xFFFFFF else val)"

definition read_raw :: "bool list \<Rightarrow> (int \<times> bool list) option" where
  "read_raw inputs =
     (case wait_ready 500000 inputs of None \<Rightarrow> None
      | Some bs \<Rightarrow>
          if length bs < 24 then None
          else Some (sint (sign_extend24 (foldl shift_in 0 (take 24 bs))), drop 24 bs))"

text \<open>\<^verbatim>\<open>read_average\<close>, a sum of raw readings divided with truncation.\<close>

fun sum_raw :: "nat \<Rightarrow> bool list \<Rightarrow> (int \<times> bool list) option" where
  "sum_raw 0 inputs = Some (0, inputs)"
| "sum_raw (Suc n) inputs =
     (case read_raw inputs of None \<Rightarrow> None
      | Some (v, r1) \<Rightarrow> (case sum_raw n r1 of None \<Rightarrow> None | Some (s, r2) \<Rightarrow> Some (v + s, r2)))"

definition read_average :: "int \<Rightarrow> bool list \<Rightarrow> (int \<times> bool list) option" where
  "read_average samples inputs =
     (case sum_raw (nat samples) inputs of None \<Rightarrow> None | Some (s, r) \<Rightarrow> Some (s sdiv samples, r))"

section \<open>The audit\<close>

record CoinSpec =
  cs_mass_g :: real
  cs_tol_per_coin_g :: real

record audit_config =
  ac_coin :: CoinSpec
  ac_grams_per_raw :: real
  ac_samples_pre :: int
  ac_samples_post :: int
  ac_stuck_epsilon_raw :: int

record audit_result =
  au_ok :: bool
  au_skipped :: bool
  au_expected_g :: real
  au_measured_g :: real
  au_delta_g :: real
  au_flags :: "string list"

definition audit_default :: audit_result where
  "audit_default = \<lparr>au_ok = False, au_skipped = False, au_expected_g = 0, au_measured_g = 0, au_delta_g = 0, au_flags = []\<rparr>"

text \<open>\<open>n\<close> readings of the scale through \<open>rd\<close>, oldest first; \<open>None\<close> is the exception of the scale.\<close>

fun take_samples :: "('w \<Rightarrow> (int \<times> 'w) option) \<Rightarrow> nat \<Rightarrow> 'w \<Rightarrow> (int list \<times> 'w) option" where
  "take_samples rd 0 w = Some ([], w)"
| "take_samples rd (Suc n) w =
     (case rd w of None \<Rightarrow> None
      | Some (v, w1) \<Rightarrow> (case take_samples rd n w1 of None \<Rightarrow> None | Some (vs, w2) \<Rightarrow> Some (v # vs, w2)))"

definition audit_flags :: "audit_config \<Rightarrow> int list \<Rightarrow> real \<Rightarrow> real \<Rightarrow> real \<Rightarrow> string list" where
  "audit_flags cfg samples measured expected tol =
     (if length samples > 1 \<and> Max (set samples) - Min (set samples) < ac_stuck_epsilon_raw cfg then [''SENSOR_STUCK''] else []) @
     (if measured < expected - tol then [''UNDERPAY''] else []) @
     (if measured > expected + tol then [''OVERPAY''] else [])"

definition audit_verdict :: "audit_config \<Rightarrow> int \<Rightarrow> int list \<Rightarrow> int list \<Rightarrow> audit_result" where
  "audit_verdict cfg coins pre post =
     (let baseline = sum_list pre sdiv max 1 (ac_samples_pre cfg);
          post_raw = sum_list post sdiv max 1 (ac_samples_post cfg);
          measured = of_int (post_raw - baseline) * ac_grams_per_raw cfg;
          expected = of_int coins * cs_mass_g (ac_coin cfg);
          flags = audit_flags cfg (pre @ post) measured expected (of_int coins * cs_tol_per_coin_g (ac_coin cfg))
      in \<lparr>au_ok = (flags = []), au_skipped = False, au_expected_g = expected, au_measured_g = measured,
          au_delta_g = measured - expected, au_flags = flags\<rparr>)"

text \<open>\<open>scale\<close> is \<open>None\<close> for \<^verbatim>\<open>nullptr\<close>. An exception after the loop is impossible, one in a loop leaves
  only \<^verbatim>\<open>skipped\<close>.\<close>

definition audit_run :: "('w \<Rightarrow> (int \<times> 'w) option) option \<Rightarrow> audit_config \<Rightarrow> int \<Rightarrow> 'w \<Rightarrow> audit_result" where
  "audit_run scale cfg coins w =
     (case scale of None \<Rightarrow> audit_default\<lparr>au_skipped := True\<rparr>
      | Some rd \<Rightarrow>
          (case take_samples rd (nat (ac_samples_pre cfg)) w of None \<Rightarrow> audit_default\<lparr>au_skipped := True\<rparr>
           | Some (pre, w1) \<Rightarrow>
               (case take_samples rd (nat (ac_samples_post cfg)) w1 of None \<Rightarrow> audit_default\<lparr>au_skipped := True\<rparr>
                | Some (post, w2) \<Rightarrow> audit_verdict cfg coins pre post)))"

section \<open>Two's complement\<close>

text \<open>The number a list of bits stands for, most significant bit first.\<close>

definition bits_value :: "bool list \<Rightarrow> int" where
  "bits_value bs = foldl (\<lambda>v b. 2 * v + of_bool b) 0 bs"

lemma bits_value_snoc: "bits_value (bs @ [b]) = 2 * bits_value bs + of_bool b"
  by (simp add: bits_value_def)

lemma bits_value_bound: "0 \<le> bits_value bs \<and> bits_value bs < 2 ^ length bs"
proof (induction bs rule: rev_induct)
  case Nil
  then show ?case by (simp add: bits_value_def)
next
  case (snoc b bs)
  then show ?case by (auto simp: bits_value_snoc)
qed

lemma shift_in_eq: "shift_in val b = 2 * val + of_bool b"
proof -
  have "even (push_bit 1 val)" by (simp add: even_push_bit_iff)
  then have "push_bit 1 val AND 1 = 0" by (simp only: and_one_eq even_iff_mod_2_eq_zero)
  then have "push_bit 1 val OR 1 = push_bit 1 val + 1" by (rule disjunctive_add_eq_or [symmetric])
  then show ?thesis by (simp add: shift_in_def push_bit_eq_mult mult.commute)
qed

lemma shift_all: "foldl shift_in 0 bs = word_of_int (bits_value bs)"
  by (induction bs rule: rev_induct) (simp_all add: shift_in_eq bits_value_snoc, simp add: bits_value_def)

lemma sint_small:
  assumes "- (2 ^ 63) \<le> i" "i < 2 ^ 63"
  shows "sint (word_of_int i :: 64 word) = i"
  using assms by (simp add: signed_of_int signed_take_bit_int_eq_self)

lemma sign_extend24_value:
  assumes "0 \<le> v" "v < 2 ^ 24"
  shows "sint (sign_extend24 (word_of_int v)) = (if v < 2 ^ 23 then v else v - 2 ^ 24)"
proof -
  have t: "take_bit 24 v = v" using assms by (simp add: take_bit_int_eq_self)
  have top: "(word_of_int v :: 64 word) AND 0x800000 \<noteq> 0 \<longleftrightarrow> bit v 23"
  proof -
    have e: "(0x800000 :: 64 word) = 2 ^ 23" by simp
    have "bit (word_of_int v :: 64 word) 23 \<longleftrightarrow> bit v 23" by (simp add: bit_simps)
    then show ?thesis unfolding e and_exp_eq_0_iff_not_bit by simp
  qed
  have b23: "bit v 23 \<longleftrightarrow> \<not> v < 2 ^ 23"
  proof (cases "v < 2 ^ 23")
    case True
    then have "v div 2 ^ 23 = 0" using assms(1) by (rule div_pos_pos_trivial [rotated])
    with True show ?thesis by (simp add: bit_iff_odd)
  next
    case False
    have "v div 2 ^ 23 = 1"
      by (rule int_div_pos_eq [where r = "v - 2 ^ 23"]) (use assms False in simp_all)
    with False show ?thesis by (simp add: bit_iff_odd)
  qed
  show ?thesis
  proof (cases "v < 2 ^ 23")
    case True
    then show ?thesis using assms top b23 by (simp add: sign_extend24_def sint_small)
  next
    case False
    have "v AND NOT (mask 24) = take_bit 24 v AND NOT (mask 24)" using t by simp
    also have "\<dots> = 0" by (auto simp: bit_eq_iff bit_simps)
    finally have "v OR NOT (mask 24) = v + NOT (mask 24)" by (rule disjunctive_add_eq_or [symmetric])
    then have "v OR NOT 0xFFFFFF = v - 2 ^ 24" by (simp add: mask_eq_exp_minus_1 not_int_def)
    moreover have "(word_of_int v :: 64 word) OR NOT 0xFFFFFF = word_of_int (v OR NOT 0xFFFFFF)"
      by (simp add: of_int_or_eq of_int_not_eq)
    ultimately have "sign_extend24 (word_of_int v) = word_of_int (v - 2 ^ 24)"
      using top b23 False by (simp add: sign_extend24_def)
    then show ?thesis using assms False sint_small [of "v - 2 ^ 24"] by simp
  qed
qed

text \<open>
  A raw reading of the converter is the two's complement value of the 24 bits that follow the
  ready signal, most significant first: the sign extension to 64 bits is right, and a reading lies in
  the range of a 24-bit integer, so that sums of up to 2 \<open>^\<close> 40 readings fit a \<^verbatim>\<open>long\<close>.
\<close>

theorem read_raw_twos_complement:
  assumes "read_raw inputs = Some (v, rest)"
  shows "\<exists>skip bits. inputs = skip @ [False] @ bits @ rest \<and> length bits = 24 \<and> skip = replicate (length skip) True \<and>
    v = (if bits_value bits < 2 ^ 23 then bits_value bits else bits_value bits - 2 ^ 24) \<and>
    - (2 ^ 23) \<le> v \<and> v < 2 ^ 23"
proof -
  have wait: "wait_ready n xs = Some ys \<Longrightarrow> \<exists>skip. xs = skip @ [False] @ ys \<and> skip = replicate (length skip) True" for n xs ys
  proof (induction xs arbitrary: n)
    case (Cons b xs)
    show ?case
    proof (cases b)
      case True
      then obtain m where "wait_ready m xs = Some ys" using Cons.prems by (auto split: nat.splits)
      from Cons.IH [OF this] obtain skip where "xs = skip @ [False] @ ys" "skip = replicate (length skip) True" by blast
      then show ?thesis using True by (intro exI [of _ "True # skip"]) simp
    next
      case False
      then show ?thesis using Cons.prems by (intro exI [of _ "[]"]) simp
    qed
  qed simp
  obtain bs where bs: "wait_ready 500000 inputs = Some bs" "24 \<le> length bs" "rest = drop 24 bs"
    "v = sint (sign_extend24 (foldl shift_in 0 (take 24 bs)))"
    using assms by (auto simp: read_raw_def split: option.splits if_splits)
  from wait [OF bs(1)] obtain skip where s: "inputs = skip @ [False] @ bs" "skip = replicate (length skip) True" by blast
  have l: "length (take 24 bs) = 24" using bs(2) by simp
  have "0 \<le> bits_value (take 24 bs)" "bits_value (take 24 bs) < 2 ^ 24"
    using bits_value_bound [of "take 24 bs"] l by simp_all
  note v = sign_extend24_value [OF this] this
  show ?thesis
    using s bs(3,4) l v by (intro exI [of _ skip] exI [of _ "take 24 bs"]) (simp add: shift_all)
qed

theorem read_raw_twos_complement_witness:
  "read_raw ([True, False] @ replicate 24 True) = Some (- 1, []) \<and> bits_value (replicate 24 True) = 2 ^ 24 - 1"
proof -
  have b: "bits_value (replicate 24 True) = 16777215" by (simp add: bits_value_def eval_nat_numeral)
  obtain v rest where r: "read_raw ([True, False] @ replicate 24 True) = Some (v, rest)" "rest = []"
    by (simp add: read_raw_def split: nat.splits)
  from read_raw_twos_complement [OF r(1)] obtain skip bits where s:
    "[True, False] @ replicate 24 True = skip @ [False] @ bits @ rest" "length bits = 24"
    "v = (if bits_value bits < 2 ^ 23 then bits_value bits else bits_value bits - 2 ^ 24)" by blast
  have "bits = drop 2 ([True, False] @ replicate 24 True)"
  proof -
    have "length skip = 1" using arg_cong [OF s(1), of length] s(2) r(2) by simp
    then have "drop 2 (skip @ [False] @ bits @ rest) = bits" using r(2) by (cases skip) auto
    then show ?thesis using s(1) by metis
  qed
  then show ?thesis using r s(3) b by simp
qed

section \<open>The verdict\<close>

text \<open>
  The audit passes exactly when the measured weight change is within the tolerance per coin of
  the expected one and the sensor was not stuck; a missing or failing scale skips the audit without a
  flag; underpayment and overpayment are not flagged together for a tolerance that is not negative.
\<close>

theorem audit_verdict_iff:
  assumes "r = audit_run (Some rd) cfg coins w" "\<not> au_skipped r" "0 \<le> of_int coins * cs_tol_per_coin_g (ac_coin cfg)"
  shows "(au_ok r \<longleftrightarrow> \<bar>au_delta_g r\<bar> \<le> of_int coins * cs_tol_per_coin_g (ac_coin cfg) \<and> ''SENSOR_STUCK'' \<notin> set (au_flags r)) \<and>
    au_expected_g r = of_int coins * cs_mass_g (ac_coin cfg) \<and> au_delta_g r = au_measured_g r - au_expected_g r \<and>
    \<not> (''UNDERPAY'' \<in> set (au_flags r) \<and> ''OVERPAY'' \<in> set (au_flags r)) \<and>
    au_skipped (audit_run None cfg coins w) \<and> au_flags (audit_run None cfg coins w) = []"
proof -
  obtain pre post where "r = audit_verdict cfg coins pre post"
    using assms(1,2) by (auto simp: audit_run_def audit_default_def split: option.splits)
  then show ?thesis using assms(3)
    by (auto simp: audit_verdict_def Let_def audit_flags_def audit_run_def audit_default_def)
qed

definition quarter_audit :: audit_config where
  "quarter_audit = \<lparr>ac_coin = \<lparr>cs_mass_g = 567 / 100, cs_tol_per_coin_g = 35 / 100\<rparr>, ac_grams_per_raw = 1 / 1000,
     ac_samples_pre = 1, ac_samples_post = 1, ac_stuck_epsilon_raw = 3\<rparr>"

definition list_scale :: "int list \<Rightarrow> (int \<times> int list) option" where
  "list_scale vs = (case vs of [] \<Rightarrow> None | v # r \<Rightarrow> Some (v, r))"

theorem audit_verdict_iff_witness:
  "au_ok (audit_run (Some list_scale) quarter_audit 1 [1000, 6700]) \<and>
   \<not> au_ok (audit_run (Some list_scale) quarter_audit 1 [1000, 6000])"
proof -
  have a: "audit_run (Some list_scale) quarter_audit 1 [1000, x] = audit_verdict quarter_audit 1 [1000] [x]" for x
    by (simp add: audit_run_def quarter_audit_def list_scale_def)
  show ?thesis
    unfolding a
    using audit_verdict_iff [OF a [of 6700, symmetric]] audit_verdict_iff [OF a [of 6000, symmetric]]
    by (simp add: audit_verdict_def Let_def quarter_audit_def audit_flags_def)
qed

end
