(* ===== verification/Veil.thy ===== *)
theory Veil
  imports Prelude
begin

text \<open>
  The VEIL trust service (\<^verbatim>\<open>src/integrations/veil\<close>): evidence records linked by hashes, chain
  verification, evidence bundles, policy decisions with their fail-closed rule, trust scores, and the
  store file. The JSON printer and SHA-256 are the parameters \<open>extern\<close>; the file is the JSON value
  written to it; the policy client is the repository's \<^verbatim>\<open>LocalVeilClient\<close>. The fleet and cash services a
  trust score looks at are arguments of it. Metrics are not modelled.
\<close>

section \<open>Data\<close>

record TrustEvidenceRecord =
  te_evidence_id :: string
  te_tenant_id :: string
  te_device_id :: string
  te_merchant_id :: string
  te_branch_id :: string
  te_region :: string
  te_event_type :: string
  te_source_module :: string
  te_timestamp :: int
  te_payload_hash :: string
  te_previous_hash :: string
  te_local_signature :: string
  te_policy_context :: json
  te_classification_labels :: "string list"
  te_sensitivity_labels :: "string list"
  te_audit_event_id :: string
  te_correlation_id :: string
  te_payload :: json

definition TrustEvidenceRecord_default :: TrustEvidenceRecord where
  "TrustEvidenceRecord_default = \<lparr>te_evidence_id = [], te_tenant_id = [], te_device_id = [], te_merchant_id = [],
     te_branch_id = [], te_region = [], te_event_type = [], te_source_module = [], te_timestamp = 0, te_payload_hash = [],
     te_previous_hash = [], te_local_signature = [], te_policy_context = JObj [], te_classification_labels = [],
     te_sensitivity_labels = [], te_audit_event_id = [], te_correlation_id = [], te_payload = JObj []\<rparr>"

record PolicyDecision =
  pd_decision_id :: string
  pd_tenant_id :: string
  pd_device_id :: string
  pd_action :: string
  pd_allowed :: bool
  pd_unavailable :: bool
  pd_reason :: string
  pd_context :: json
  pd_decided_at :: int

definition PolicyDecision_default :: PolicyDecision where
  "PolicyDecision_default = \<lparr>pd_decision_id = [], pd_tenant_id = [], pd_device_id = [], pd_action = [], pd_allowed = False,
     pd_unavailable = False, pd_reason = [], pd_context = JObj [], pd_decided_at = 0\<rparr>"

record ChainVerificationResult =
  cv_valid :: bool
  cv_errors :: "string list"
  cv_records_checked :: int
  cv_tenant_id :: string
  cv_device_id :: string
  cv_hash_summary :: string

record EvidenceBundle =
  eb_bundle_id :: string
  eb_scope_type :: string
  eb_scope_id :: string
  eb_start_time :: int
  eb_end_time :: int
  eb_records :: "TrustEvidenceRecord list"
  eb_verification :: ChainVerificationResult
  eb_hash_summary :: string
  eb_policy_decisions :: "PolicyDecision list"
  eb_related_audit_events :: "string list"

record TrustScoreSummary =
  ts_tenant_id :: string
  ts_device_id :: string
  ts_merchant_id :: string
  ts_branch_id :: string
  ts_region :: string
  ts_score :: int
  ts_factors :: "(string \<times> string) list"
  ts_explanations :: "string list"
  ts_updated_at :: int

record EvidenceFilter =
  ef_tenant_id :: string
  ef_device_id :: string
  ef_merchant_id :: string
  ef_branch_id :: string
  ef_region :: string
  ef_event_type :: string
  ef_start_time :: int
  ef_end_time :: int

definition EvidenceFilter_default :: EvidenceFilter where
  "EvidenceFilter_default = \<lparr>ef_tenant_id = [], ef_device_id = [], ef_merchant_id = [], ef_branch_id = [], ef_region = [],
     ef_event_type = [], ef_start_time = 0, ef_end_time = 0\<rparr>"

section \<open>JSON\<close>

definition evidence_to_json :: "TrustEvidenceRecord \<Rightarrow> json" where
  "evidence_to_json v = JObj [(''evidence_id'', JStr (te_evidence_id v)), (''tenant_id'', JStr (te_tenant_id v)),
     (''device_id'', JStr (te_device_id v)), (''merchant_id'', JStr (te_merchant_id v)), (''branch_id'', JStr (te_branch_id v)),
     (''region'', JStr (te_region v)), (''event_type'', JStr (te_event_type v)), (''source_module'', JStr (te_source_module v)),
     (''timestamp'', JInt (te_timestamp v)), (''payload_hash'', JStr (te_payload_hash v)),
     (''previous_hash'', JStr (te_previous_hash v)), (''local_signature'', JStr (te_local_signature v)),
     (''policy_context'', te_policy_context v), (''classification_labels'', JArr (map JStr (te_classification_labels v))),
     (''sensitivity_labels'', JArr (map JStr (te_sensitivity_labels v))), (''audit_event_id'', JStr (te_audit_event_id v)),
     (''correlation_id'', JStr (te_correlation_id v)), (''payload'', te_payload v)]"

definition evidence_from_json :: "extern \<Rightarrow> json \<Rightarrow> TrustEvidenceRecord \<Rightarrow> TrustEvidenceRecord result" where
  "evidence_from_json ext j v =
     bind_result (value_str ext j ''evidence_id'' (te_evidence_id v)) (\<lambda>a1.
     bind_result (value_str ext j ''tenant_id'' (te_tenant_id v)) (\<lambda>a2.
     bind_result (value_str ext j ''device_id'' (te_device_id v)) (\<lambda>a3.
     bind_result (value_str ext j ''merchant_id'' (te_merchant_id v)) (\<lambda>a4.
     bind_result (value_str ext j ''branch_id'' (te_branch_id v)) (\<lambda>a5.
     bind_result (value_str ext j ''region'' (te_region v)) (\<lambda>a6.
     bind_result (value_str ext j ''event_type'' (te_event_type v)) (\<lambda>a7.
     bind_result (value_str ext j ''source_module'' (te_source_module v)) (\<lambda>a8.
     bind_result (value_int ext j ''timestamp'' (te_timestamp v)) (\<lambda>a9.
     bind_result (value_str ext j ''payload_hash'' (te_payload_hash v)) (\<lambda>b1.
     bind_result (value_str ext j ''previous_hash'' (te_previous_hash v)) (\<lambda>b2.
     bind_result (value_str ext j ''local_signature'' (te_local_signature v)) (\<lambda>b3.
     bind_result (value_json ext j ''policy_context'' (JObj [])) (\<lambda>b4.
     bind_result (value_strs ext j ''classification_labels'' (te_classification_labels v)) (\<lambda>b5.
     bind_result (value_strs ext j ''sensitivity_labels'' (te_sensitivity_labels v)) (\<lambda>b6.
     bind_result (value_str ext j ''audit_event_id'' (te_audit_event_id v)) (\<lambda>b7.
     bind_result (value_str ext j ''correlation_id'' (te_correlation_id v)) (\<lambda>b8.
     bind_result (value_json ext j ''payload'' (JObj [])) (\<lambda>b9.
     Inr \<lparr>te_evidence_id = a1, te_tenant_id = a2, te_device_id = a3, te_merchant_id = a4, te_branch_id = a5, te_region = a6,
       te_event_type = a7, te_source_module = a8, te_timestamp = a9, te_payload_hash = b1, te_previous_hash = b2,
       te_local_signature = b3, te_policy_context = b4, te_classification_labels = b5, te_sensitivity_labels = b6,
       te_audit_event_id = b7, te_correlation_id = b8, te_payload = b9\<rparr>))))))))))))))))))"

definition decision_to_json :: "PolicyDecision \<Rightarrow> json" where
  "decision_to_json v = JObj [(''decision_id'', JStr (pd_decision_id v)), (''tenant_id'', JStr (pd_tenant_id v)),
     (''device_id'', JStr (pd_device_id v)), (''action'', JStr (pd_action v)), (''allowed'', JBool (pd_allowed v)),
     (''unavailable'', JBool (pd_unavailable v)), (''reason'', JStr (pd_reason v)), (''context'', pd_context v),
     (''decided_at'', JInt (pd_decided_at v))]"

definition decision_from_json :: "extern \<Rightarrow> json \<Rightarrow> PolicyDecision \<Rightarrow> PolicyDecision result" where
  "decision_from_json ext j v =
     bind_result (value_str ext j ''decision_id'' (pd_decision_id v)) (\<lambda>a1.
     bind_result (value_str ext j ''tenant_id'' (pd_tenant_id v)) (\<lambda>a2.
     bind_result (value_str ext j ''device_id'' (pd_device_id v)) (\<lambda>a3.
     bind_result (value_str ext j ''action'' (pd_action v)) (\<lambda>a4.
     bind_result (value_bool ext j ''allowed'' (pd_allowed v)) (\<lambda>a5.
     bind_result (value_bool ext j ''unavailable'' (pd_unavailable v)) (\<lambda>a6.
     bind_result (value_str ext j ''reason'' (pd_reason v)) (\<lambda>a7.
     bind_result (value_json ext j ''context'' (JObj [])) (\<lambda>a8.
     bind_result (value_int ext j ''decided_at'' (pd_decided_at v)) (\<lambda>a9.
     Inr \<lparr>pd_decision_id = a1, pd_tenant_id = a2, pd_device_id = a3, pd_action = a4, pd_allowed = a5, pd_unavailable = a6,
       pd_reason = a7, pd_context = a8, pd_decided_at = a9\<rparr>)))))))))"

section \<open>The local policy client\<close>

record LocalVeilClient =
  vc_available :: bool
  vc_denied_actions :: "string list"
  vc_submitted_events :: "TrustEvidenceRecord list"
  vc_submitted_bundles :: "EvidenceBundle list"

definition LocalVeilClient_default :: LocalVeilClient where
  "LocalVeilClient_default = \<lparr>vc_available = True, vc_denied_actions = [], vc_submitted_events = [], vc_submitted_bundles = []\<rparr>"

definition deny_action :: "string \<Rightarrow> LocalVeilClient \<Rightarrow> LocalVeilClient" where
  "deny_action a c = c\<lparr>vc_denied_actions := List.insert a (vc_denied_actions c)\<rparr>"

definition client_submit_trust_event :: "TrustEvidenceRecord \<Rightarrow> LocalVeilClient \<Rightarrow> bool \<times> LocalVeilClient" where
  "client_submit_trust_event e c =
     (if \<not> vc_available c then (False, c) else (True, c\<lparr>vc_submitted_events := vc_submitted_events c @ [e]\<rparr>))"

definition client_submit_bundle :: "EvidenceBundle \<Rightarrow> LocalVeilClient \<Rightarrow> bool \<times> LocalVeilClient" where
  "client_submit_bundle b c =
     (if \<not> vc_available c then (False, c) else (True, c\<lparr>vc_submitted_bundles := vc_submitted_bundles c @ [b]\<rparr>))"

definition client_verify_policy :: "LocalVeilClient \<Rightarrow> string \<Rightarrow> string \<Rightarrow> string \<Rightarrow> json \<Rightarrow> PolicyDecision" where
  "client_verify_policy c tenant_id device_id action ctx =
     (let d = PolicyDecision_default\<lparr>pd_tenant_id := tenant_id, pd_device_id := device_id, pd_action := action, pd_context := ctx\<rparr>
      in if \<not> vc_available c then d\<lparr>pd_unavailable := True, pd_allowed := False, pd_reason := ''veil_unavailable''\<rparr>
         else let ok = action \<notin> set (vc_denied_actions c)
              in d\<lparr>pd_allowed := ok, pd_reason := (if ok then ''local_policy_allow'' else ''local_policy_deny'')\<rparr>)"

definition request_restore_authorization :: "LocalVeilClient \<Rightarrow> string \<Rightarrow> string \<Rightarrow> json \<Rightarrow> PolicyDecision" where
  "request_restore_authorization c tenant_id device_id ctx =
     (let d = client_verify_policy c tenant_id device_id ''request_restore_authorization'' ctx
      in if pd_allowed d then d\<lparr>pd_reason := ''restore_authorization_placeholder''\<rparr> else d)"

definition fetch_trust_score :: "LocalVeilClient \<Rightarrow> string \<Rightarrow> string \<Rightarrow> TrustScoreSummary option" where
  "fetch_trust_score c tenant_id device_id =
     (if \<not> vc_available c then None
      else Some \<lparr>ts_tenant_id = tenant_id, ts_device_id = device_id, ts_merchant_id = [], ts_branch_id = [], ts_region = [],
        ts_score = 100, ts_factors = [(''source'', ''local_placeholder'')],
        ts_explanations = [''local VEIL client placeholder score''], ts_updated_at = 0\<rparr>)"

section \<open>The service\<close>

record PolicyConfig =
  pc_production_mode :: bool
  pc_fail_closed :: bool
  pc_local_allow_when_unavailable :: bool
  pc_high_risk_actions :: "string list"

definition high_risk_default :: "string list" where
  "high_risk_default = [''disable_device'', ''enable_device'', ''pause_transactions'', ''resume_transactions'',
     ''ota_promotion'', ''ota_install_eligibility'', ''certificate_revocation'', ''reconciliation_override'',
     ''manual_adjustment'', ''command_execution'', ''lock'', ''unlock'', ''open'', ''dispense_cash'', ''accept_cash'',
     ''rotate_keys'', ''export_evidence'', ''enter_maintenance_mode'', ''device_recovery'']"

definition PolicyConfig_default :: PolicyConfig where
  "PolicyConfig_default = \<lparr>pc_production_mode = False, pc_fail_closed = True, pc_local_allow_when_unavailable = True,
     pc_high_risk_actions = high_risk_default\<rparr>"

record VeilTrustService =
  vs_store_path :: string
  vs_file :: "json option"
  vs_client :: LocalVeilClient
  vs_policy :: PolicyConfig
  vs_evidence :: "TrustEvidenceRecord list"
  vs_decisions :: "PolicyDecision list"
  vs_audit_events :: "json list"

definition sha256_hex :: "extern \<Rightarrow> string \<Rightarrow> string" where
  "sha256_hex ext input = concat (map hex_byte (SHA256 ext input))"

definition chain_key :: "string \<Rightarrow> string \<Rightarrow> string" where
  "chain_key kind v = kind @ '':'' @ v"

definition canonical_payload_hash :: "extern \<Rightarrow> TrustEvidenceRecord \<Rightarrow> string" where
  "canonical_payload_hash ext e = sha256_hex ext (dump ext (JObj [(''tenant_id'', JStr (te_tenant_id e)),
     (''device_id'', JStr (te_device_id e)), (''merchant_id'', JStr (te_merchant_id e)), (''branch_id'', JStr (te_branch_id e)),
     (''region'', JStr (te_region e)), (''event_type'', JStr (te_event_type e)), (''source_module'', JStr (te_source_module e)),
     (''timestamp'', JInt (te_timestamp e)), (''policy_context'', te_policy_context e), (''payload'', te_payload e),
     (''audit_event_id'', JStr (te_audit_event_id e)), (''correlation_id'', JStr (te_correlation_id e))]))"

definition record_chain_hash :: "extern \<Rightarrow> TrustEvidenceRecord \<Rightarrow> string" where
  "record_chain_hash ext e =
     sha256_hex ext (te_evidence_id e @ te_payload_hash e @ te_previous_hash e @ te_local_signature e)"

definition on_chain :: "string \<Rightarrow> TrustEvidenceRecord \<Rightarrow> bool" where
  "on_chain key e \<longleftrightarrow> key = chain_key ''device'' (te_device_id e) \<or> key = chain_key ''tenant'' (te_tenant_id e)"

definition last_hash_for :: "extern \<Rightarrow> string \<Rightarrow> TrustEvidenceRecord list \<Rightarrow> string" where
  "last_hash_for ext key es = (case find (on_chain key) (rev es) of None \<Rightarrow> [] | Some e \<Rightarrow> record_chain_hash ext e)"

definition audit_locked :: "string \<Rightarrow> string \<Rightarrow> string \<Rightarrow> int \<Rightarrow> json \<Rightarrow> VeilTrustService \<Rightarrow> VeilTrustService" where
  "audit_locked tenant_id device_id event_type timestamp metadata s =
     s\<lparr>vs_audit_events := vs_audit_events s @ [JObj [(''event_id'', JStr (id_for ''trust-event'' (length (vs_audit_events s)))),
       (''tenant_id'', JStr tenant_id), (''device_id'', JStr device_id), (''event_type'', JStr event_type),
       (''timestamp'', JInt timestamp), (''metadata'', metadata)]]\<rparr>"

definition store_json :: "VeilTrustService \<Rightarrow> json" where
  "store_json s = JObj [(''schema'', JInt 1), (''evidence'', JArr (map evidence_to_json (vs_evidence s))),
     (''policy_decisions'', JArr (map decision_to_json (vs_decisions s))), (''audit_events'', JArr (vs_audit_events s))]"

definition save_locked :: "VeilTrustService \<Rightarrow> VeilTrustService" where
  "save_locked s = (if vs_store_path s = [] then s else s\<lparr>vs_file := Some (store_json s)\<rparr>)"

text \<open>\<^verbatim>\<open>load\<close>: a missing file leaves the state, an ill-typed member is an exception.\<close>

definition load_store :: "extern \<Rightarrow> VeilTrustService \<Rightarrow> VeilTrustService result" where
  "load_store ext s =
     (if vs_store_path s = [] then Inr s
      else case vs_file s of None \<Rightarrow> Inr s
      | Some j \<Rightarrow>
          bind_result (value_arr ext j ''evidence'' (map evidence_to_json (vs_evidence s))) (\<lambda>es.
          bind_result (map_result (\<lambda>x. evidence_from_json ext x TrustEvidenceRecord_default) es) (\<lambda>evidence.
          bind_result (value_arr ext j ''policy_decisions'' (map decision_to_json (vs_decisions s))) (\<lambda>ds.
          bind_result (map_result (\<lambda>x. decision_from_json ext x PolicyDecision_default) ds) (\<lambda>decisions.
          bind_result (value_arr ext j ''audit_events'' (vs_audit_events s)) (\<lambda>audits.
          Inr (s\<lparr>vs_evidence := evidence, vs_decisions := decisions, vs_audit_events := audits\<rparr>)))))))"

definition complete_evidence :: "extern \<Rightarrow> TrustEvidenceRecord \<Rightarrow> VeilTrustService \<Rightarrow> TrustEvidenceRecord" where
  "complete_evidence ext e s =
     (let e1 = e\<lparr>te_evidence_id := (if te_evidence_id e = [] then id_for ''evidence'' (length (vs_evidence s)) else te_evidence_id e),
                te_audit_event_id := (if te_audit_event_id e = [] then id_for ''trust-audit'' (length (vs_audit_events s)) else te_audit_event_id e),
                te_classification_labels := (if te_classification_labels e = [] then [''operational''] else te_classification_labels e),
                te_sensitivity_labels := (if te_sensitivity_labels e = [] then [''internal''] else te_sensitivity_labels e)\<rparr>;
          ph = canonical_payload_hash ext e1;
          device_prev = (if te_device_id e = [] then [] else last_hash_for ext (chain_key ''device'' (te_device_id e)) (vs_evidence s));
          tenant_prev = (if te_tenant_id e = [] then [] else last_hash_for ext (chain_key ''tenant'' (te_tenant_id e)) (vs_evidence s));
          prev = (if device_prev \<noteq> [] then device_prev else tenant_prev)
      in e1\<lparr>te_payload_hash := ph, te_previous_hash := prev,
            te_local_signature := ''local-test-signature:'' @ sha256_hex ext (ph @ prev)\<rparr>)"

definition create_evidence :: "extern \<Rightarrow> TrustEvidenceRecord \<Rightarrow> VeilTrustService \<Rightarrow> TrustEvidenceRecord \<times> VeilTrustService" where
  "create_evidence ext e s =
     (let e1 = complete_evidence ext e s in
      (e1, save_locked (audit_locked (te_tenant_id e1) (te_device_id e1) ''trust_evidence_created'' (te_timestamp e1) JNull
             (s\<lparr>vs_evidence := vs_evidence s @ [e1]\<rparr>))))"

definition submitted_event :: "bool \<Rightarrow> string" where
  "submitted_event ok = (if ok then ''trust_evidence_submitted'' else ''trust_evidence_submission_failed'')"

definition submit_evidence :: "string \<Rightarrow> VeilTrustService \<Rightarrow> bool \<times> VeilTrustService" where
  "submit_evidence evidence_id s =
     (case find (\<lambda>e. te_evidence_id e = evidence_id) (vs_evidence s) of
        None \<Rightarrow> (False, s)
      | Some e \<Rightarrow>
          (case client_submit_trust_event e (vs_client s) of (ok, c) \<Rightarrow>
             (ok, save_locked (audit_locked (te_tenant_id e) (te_device_id e) (submitted_event ok) (te_timestamp e) JNull
               (s\<lparr>vs_client := c\<rparr>)))))"

definition front_tenant :: "TrustEvidenceRecord list \<Rightarrow> string" where
  "front_tenant rs = (case rs of [] \<Rightarrow> [] | r # _ \<Rightarrow> te_tenant_id r)"

definition front_device :: "TrustEvidenceRecord list \<Rightarrow> string" where
  "front_device rs = (case rs of [] \<Rightarrow> [] | r # _ \<Rightarrow> te_device_id r)"

definition submit_bundle :: "EvidenceBundle \<Rightarrow> VeilTrustService \<Rightarrow> bool \<times> VeilTrustService" where
  "submit_bundle b s =
     (case client_submit_bundle b (vs_client s) of (ok, c) \<Rightarrow>
        (ok, save_locked (audit_locked (front_tenant (eb_records b)) (front_device (eb_records b)) (submitted_event ok)
           (eb_end_time b) (JObj [(''bundle_id'', JStr (eb_bundle_id b))]) (s\<lparr>vs_client := c\<rparr>))))"

definition filter_matches :: "EvidenceFilter \<Rightarrow> TrustEvidenceRecord \<Rightarrow> bool" where
  "filter_matches f e \<longleftrightarrow>
     (ef_tenant_id f = [] \<or> te_tenant_id e = ef_tenant_id f) \<and> (ef_device_id f = [] \<or> te_device_id e = ef_device_id f) \<and>
     (ef_merchant_id f = [] \<or> te_merchant_id e = ef_merchant_id f) \<and> (ef_branch_id f = [] \<or> te_branch_id e = ef_branch_id f) \<and>
     (ef_region f = [] \<or> te_region e = ef_region f) \<and> (ef_event_type f = [] \<or> te_event_type e = ef_event_type f) \<and>
     \<not> (ef_start_time f > 0 \<and> te_timestamp e < ef_start_time f) \<and> \<not> (ef_end_time f > 0 \<and> te_timestamp e > ef_end_time f)"

text \<open>\<^verbatim>\<open>std::sort\<close> by time stamp, then by id.\<close>

definition sort_evidence :: "TrustEvidenceRecord list \<Rightarrow> TrustEvidenceRecord list" where
  "sort_evidence es = sort_key te_timestamp (sort_key te_evidence_id es)"

definition list_evidence :: "EvidenceFilter \<Rightarrow> VeilTrustService \<Rightarrow> TrustEvidenceRecord list" where
  "list_evidence f s = sort_evidence (filter (filter_matches f) (vs_evidence s))"

section \<open>Chain verification\<close>

record verify_state =
  vf_errors :: "string list"
  vf_ids :: "string list"
  vf_last_hash :: "(string, string) amap"
  vf_last_time :: "(string, int) amap"

definition chain_keys :: "TrustEvidenceRecord \<Rightarrow> string list" where
  "chain_keys e = (if te_device_id e \<noteq> [] then [chain_key ''device'' (te_device_id e)] else []) @
     (if te_tenant_id e \<noteq> [] then [chain_key ''tenant'' (te_tenant_id e)] else [])"

definition verify_key :: "extern \<Rightarrow> TrustEvidenceRecord \<Rightarrow> verify_state \<Rightarrow> string \<Rightarrow> verify_state" where
  "verify_key ext e v key =
     (let prev = (case get (vf_last_hash v) key of None \<Rightarrow> [] | Some h \<Rightarrow> h);
          link = (if prev \<noteq> [] \<and> te_previous_hash e \<noteq> prev then [''missing_link:'' @ te_evidence_id e] else []);
          order = (case get (vf_last_time v) key of None \<Rightarrow> []
                   | Some t \<Rightarrow> if te_timestamp e < t then [''out_of_order:'' @ te_evidence_id e] else [])
      in v\<lparr>vf_errors := vf_errors v @ link @ order, vf_last_hash := put key (record_chain_hash ext e) (vf_last_hash v),
           vf_last_time := put key (te_timestamp e) (vf_last_time v)\<rparr>)"

definition verify_record :: "extern \<Rightarrow> verify_state \<Rightarrow> TrustEvidenceRecord \<Rightarrow> verify_state" where
  "verify_record ext v e =
     (let dup = (if te_evidence_id e \<in> set (vf_ids v) then [''duplicate_evidence_id:'' @ te_evidence_id e] else []);
          tamper = (if canonical_payload_hash ext e \<noteq> te_payload_hash e then [''payload_tamper:'' @ te_evidence_id e] else [])
      in foldl (verify_key ext e) (v\<lparr>vf_errors := vf_errors v @ dup @ tamper, vf_ids := te_evidence_id e # vf_ids v\<rparr>) (chain_keys e))"

definition verify_start :: verify_state where
  "verify_start = \<lparr>vf_errors = [], vf_ids = [], vf_last_hash = [], vf_last_time = []\<rparr>"

definition verify_chain_locked :: "extern \<Rightarrow> EvidenceFilter \<Rightarrow> VeilTrustService \<Rightarrow> ChainVerificationResult" where
  "verify_chain_locked ext f s =
     (let records = filter (filter_matches f) (vs_evidence s);
          v = foldl (verify_record ext) verify_start records
      in \<lparr>cv_valid = (vf_errors v = []), cv_errors = vf_errors v, cv_records_checked = int (length records),
          cv_tenant_id = ef_tenant_id f, cv_device_id = ef_device_id f,
          cv_hash_summary = sha256_hex ext (dump ext (JArr (map (\<lambda>e. JStr (record_chain_hash ext e)) records)))\<rparr>)"

definition verify_chain :: "extern \<Rightarrow> EvidenceFilter \<Rightarrow> VeilTrustService \<Rightarrow> ChainVerificationResult \<times> VeilTrustService" where
  "verify_chain ext f s =
     (let r = verify_chain_locked ext f s in
      (r, save_locked (audit_locked (ef_tenant_id f) (ef_device_id f)
             (if cv_valid r then ''trust_chain_verified'' else ''trust_chain_verification_failed'') 0
             (JObj [(''records_checked'', JInt (cv_records_checked r)), (''errors'', JArr (map JStr (cv_errors r)))]) s)))"

section \<open>Bundles, policy, scores\<close>

definition scope_matches :: "string \<Rightarrow> string \<Rightarrow> TrustEvidenceRecord \<Rightarrow> bool" where
  "scope_matches scope_type scope_id e =
     (if scope_type = ''device'' then te_device_id e = scope_id
      else if scope_type = ''merchant'' \<or> scope_type = ''reconciliation'' then te_merchant_id e = scope_id
      else if scope_type = ''branch'' then te_branch_id e = scope_id
      else if scope_type = ''region'' then te_region e = scope_id
      else if scope_type = ''anomaly'' then te_correlation_id e = scope_id \<or> te_event_type e = ''anomaly_detected''
      else if scope_type = ''ota'' then prefix ''ota_'' (te_event_type e) \<and> (scope_id = [] \<or> te_device_id e = scope_id)
      else False)"

definition export_bundle ::
  "extern \<Rightarrow> string \<Rightarrow> string \<Rightarrow> int \<Rightarrow> int \<Rightarrow> VeilTrustService \<Rightarrow> EvidenceBundle \<times> VeilTrustService" where
  "export_bundle ext scope_type scope_id start_time end_time s =
     (let picked = filter (\<lambda>e. scope_matches scope_type scope_id e \<and> \<not> (start_time > 0 \<and> te_timestamp e < start_time) \<and>
            \<not> (end_time > 0 \<and> te_timestamp e > end_time)) (vs_evidence s);
          records = sort_evidence picked;
          f = EvidenceFilter_default\<lparr>ef_device_id := (if scope_type = ''device'' then scope_id else []),
                ef_tenant_id := front_tenant records, ef_start_time := start_time, ef_end_time := end_time\<rparr>;
          b = \<lparr>eb_bundle_id = ''bundle-'' @ take 16 (sha256_hex ext (scope_type @ '':'' @ scope_id @ '':'' @
                 to_string start_time @ '':'' @ to_string end_time)),
               eb_scope_type = scope_type, eb_scope_id = scope_id, eb_start_time = start_time, eb_end_time = end_time,
               eb_records = records, eb_verification = verify_chain_locked ext f s,
               eb_hash_summary = sha256_hex ext (dump ext (JArr (map (\<lambda>e. JStr (record_chain_hash ext e)) records))),
               eb_policy_decisions = filter (\<lambda>d. records \<noteq> [] \<and> pd_tenant_id d = front_tenant records) (vs_decisions s),
               eb_related_audit_events = filter (\<lambda>a. a \<noteq> []) (map te_audit_event_id picked)\<rparr>
      in (b, save_locked (audit_locked (front_tenant records) (front_device records) ''trust_bundle_exported'' end_time
             (JObj [(''bundle_id'', JStr (eb_bundle_id b))]) s)))"

definition decide :: "PolicyConfig \<Rightarrow> PolicyDecision \<Rightarrow> PolicyDecision" where
  "decide pc d =
     (if pd_unavailable d \<and> pd_action d \<in> set (pc_high_risk_actions pc) then
        if pc_production_mode pc \<and> pc_fail_closed pc then
          d\<lparr>pd_allowed := False, pd_reason := ''policy_unavailable_fail_closed''\<rparr>
        else if \<not> pc_production_mode pc \<and> pc_local_allow_when_unavailable pc then
          d\<lparr>pd_allowed := True, pd_reason := ''policy_unavailable_local_allow''\<rparr>
        else d
      else d)"

definition verify_policy ::
  "string \<Rightarrow> string \<Rightarrow> string \<Rightarrow> json \<Rightarrow> int \<Rightarrow> VeilTrustService \<Rightarrow> PolicyDecision \<times> VeilTrustService" where
  "verify_policy tenant_id device_id action ctx now s =
     (let d0 = (client_verify_policy (vs_client s) tenant_id device_id action ctx)
            \<lparr>pd_decision_id := id_for ''veil-policy'' (length (vs_decisions s)), pd_tenant_id := tenant_id,
             pd_device_id := device_id, pd_action := action, pd_context := ctx, pd_decided_at := now\<rparr>;
          d = decide (vs_policy s) d0
      in (d, save_locked (audit_locked tenant_id device_id
             (if pd_unavailable d then ''veil_policy_unavailable'' else if pd_allowed d then ''veil_policy_allowed'' else ''veil_policy_denied'')
             now (JObj [(''action'', JStr action), (''reason'', JStr (pd_reason d))])
             (s\<lparr>vs_decisions := vs_decisions s @ [d]\<rparr>))))"

definition policy_allows_or_fail_closed ::
  "string \<Rightarrow> string \<Rightarrow> string \<Rightarrow> json \<Rightarrow> int \<Rightarrow> VeilTrustService \<Rightarrow> bool \<times> VeilTrustService" where
  "policy_allows_or_fail_closed tenant_id device_id action ctx now s =
     (case verify_policy tenant_id device_id action ctx now s of (d, s1) \<Rightarrow> (pd_allowed d, s1))"

definition policy_decisions :: "string \<Rightarrow> VeilTrustService \<Rightarrow> PolicyDecision list" where
  "policy_decisions tenant_id s = filter (\<lambda>d. tenant_id = [] \<or> pd_tenant_id d = tenant_id) (vs_decisions s)"

text \<open>What the trust score reads of the fleet's record of a device.\<close>

record fleet_view =
  fv_merchant_id :: string
  fv_branch_id :: string
  fv_region :: string
  fv_health_score :: int
  fv_connectivity_status :: string
  fv_certificate_identity_status :: string
  fv_ota_failures :: int

definition fleet_penalty :: "fleet_view \<Rightarrow> int" where
  "fleet_penalty d = max 0 (100 - fv_health_score d) + (if fv_connectivity_status d = ''offline'' then 15 else 0) +
     (if fv_certificate_identity_status d \<noteq> ''active'' then 20 else 0) +
     (if fv_ota_failures d > 0 then fv_ota_failures d * 10 else 0)"

definition event_penalty :: "string \<Rightarrow> int \<Rightarrow> string \<Rightarrow> string \<Rightarrow> TrustEvidenceRecord list \<Rightarrow> int" where
  "event_penalty event_type weight tenant_id device_id es =
     weight * int (length (filter (\<lambda>e. te_tenant_id e = tenant_id \<and> te_device_id e = device_id \<and> te_event_type e = event_type) es))"

text \<open>\<open>fleet\<close> is the device as the fleet knows it (\<open>None\<close>: no fleet or unknown), \<open>cash\<close> the cash health
  score of the device.\<close>

definition trust_score ::
  "fleet_view option \<Rightarrow> int option \<Rightarrow> string \<Rightarrow> string \<Rightarrow> int \<Rightarrow> VeilTrustService \<Rightarrow> TrustScoreSummary \<times> VeilTrustService" where
  "trust_score fleet cash tenant_id device_id now s =
     (let fp = (case fleet of None \<Rightarrow> 0 | Some d \<Rightarrow> fleet_penalty d);
          cp = (case cash of None \<Rightarrow> 0 | Some c \<Rightarrow> max 0 (100 - c));
          ap = event_penalty ''anomaly_detected'' 10 tenant_id device_id (vs_evidence s);
          vp = event_penalty ''reconciliation_variance_detected'' 15 tenant_id device_id (vs_evidence s);
          sc = max 0 (100 - fp - cp - (ap + vp));
          summary = \<lparr>ts_tenant_id = tenant_id, ts_device_id = device_id,
            ts_merchant_id = (case fleet of None \<Rightarrow> [] | Some d \<Rightarrow> fv_merchant_id d),
            ts_branch_id = (case fleet of None \<Rightarrow> [] | Some d \<Rightarrow> fv_branch_id d),
            ts_region = (case fleet of None \<Rightarrow> [] | Some d \<Rightarrow> fv_region d), ts_score = sc,
            ts_factors = sort_key fst ((case fleet of None \<Rightarrow> [] | Some d \<Rightarrow> [(''fleet_health'', to_string (max 0 (100 - fp)))]) @
              (case cash of None \<Rightarrow> [] | Some c \<Rightarrow> [(''cash_health'', to_string c)]) @
              [(''anomaly_severity'', to_string (max 0 (100 - ap))), (''reconciliation_variance'', to_string (max 0 (100 - vp)))]),
            ts_explanations = (if fp > 0 then [''fleet health, certificate, OTA, or offline state reduced score''] else []) @
              (if cp > 0 then [''cash health reduced trust score''] else []) @
              (if ap > 0 then [''cash anomalies reduced trust score''] else []) @
              (if vp > 0 then [''reconciliation variance reduced trust score''] else []),
            ts_updated_at = now\<rparr>
      in (summary, save_locked (audit_locked tenant_id device_id ''trust_score_updated'' now (JObj [(''score'', JInt sc)]) s)))"

section \<open>Policy decisions\<close>

text \<open>The operations as events, for statements about whole histories.\<close>

datatype veil_op = Create TrustEvidenceRecord | Submit string | Submit_bundle EvidenceBundle | Verify EvidenceFilter
  | Export string string int int | Policy string string string json int
  | Score "fleet_view option" "int option" string string int

fun veil_step :: "extern \<Rightarrow> veil_op \<Rightarrow> VeilTrustService \<Rightarrow> VeilTrustService" where
  "veil_step ext (Create e) s = snd (create_evidence ext e s)"
| "veil_step ext (Submit i) s = snd (submit_evidence i s)"
| "veil_step ext (Submit_bundle b) s = snd (submit_bundle b s)"
| "veil_step ext (Verify f) s = snd (verify_chain ext f s)"
| "veil_step ext (Export st si t0 t1) s = snd (export_bundle ext st si t0 t1 s)"
| "veil_step ext (Policy t d a ctx now) s = snd (verify_policy t d a ctx now s)"
| "veil_step ext (Score fl ca t d now) s = snd (trust_score fl ca t d now s)"

inductive veil_reach :: "extern \<Rightarrow> VeilTrustService \<Rightarrow> VeilTrustService \<Rightarrow> bool" for ext s0 where
  veil_start: "veil_reach ext s0 s0"
| veil_next: "veil_reach ext s0 s \<Longrightarrow> veil_reach ext s0 (veil_step ext p s)"

lemma save_fields [simp]:
  "vs_evidence (save_locked s) = vs_evidence s" "vs_decisions (save_locked s) = vs_decisions s"
  "vs_audit_events (save_locked s) = vs_audit_events s" "vs_client (save_locked s) = vs_client s"
  "vs_policy (save_locked s) = vs_policy s" "vs_store_path (save_locked s) = vs_store_path s"
  by (simp_all add: save_locked_def)

lemma audit_fields [simp]:
  "vs_evidence (audit_locked t d e n m s) = vs_evidence s" "vs_decisions (audit_locked t d e n m s) = vs_decisions s"
  "vs_client (audit_locked t d e n m s) = vs_client s" "vs_policy (audit_locked t d e n m s) = vs_policy s"
  "vs_store_path (audit_locked t d e n m s) = vs_store_path s"
  "length (vs_audit_events (audit_locked t d e n m s)) = Suc (length (vs_audit_events s))"
  by (simp_all add: audit_locked_def)

lemma verify_policy_fields:
  "vs_evidence (snd (verify_policy t d a ctx now s)) = vs_evidence s"
  "vs_client (snd (verify_policy t d a ctx now s)) = vs_client s"
  "vs_policy (snd (verify_policy t d a ctx now s)) = vs_policy s"
  "vs_decisions (snd (verify_policy t d a ctx now s)) = vs_decisions s @ [fst (verify_policy t d a ctx now s)]"
  by (simp_all add: verify_policy_def Let_def)

definition policy_permits :: "VeilTrustService \<Rightarrow> string \<Rightarrow> bool" where
  "policy_permits s a \<longleftrightarrow>
     (if vc_available (vs_client s) then a \<notin> set (vc_denied_actions (vs_client s))
      else a \<in> set (pc_high_risk_actions (vs_policy s)) \<and> \<not> pc_production_mode (vs_policy s) \<and>
           pc_local_allow_when_unavailable (vs_policy s))"

lemma verify_policy_allowed: "pd_allowed (fst (verify_policy t d a ctx now s)) = policy_permits s a"
  by (simp add: verify_policy_def decide_def client_verify_policy_def Let_def PolicyDecision_default_def policy_permits_def)

text \<open>
  A policy check allows an action exactly when the client is reachable and does not deny it, or
  when it is not reachable, the action is one of the high-risk ones, the service does not run in
  production mode and local operation is allowed; in production nothing is allowed without the client.
  Every check is recorded with a fresh decision number and one audit event, and touches no evidence.
\<close>

theorem policy_check_decides:
  "(let (d, s1) = verify_policy t dev a ctx now s in
    (pd_allowed d \<longleftrightarrow>
       (if vc_available (vs_client s) then a \<notin> set (vc_denied_actions (vs_client s))
        else a \<in> set (pc_high_risk_actions (vs_policy s)) \<and> \<not> pc_production_mode (vs_policy s) \<and>
             pc_local_allow_when_unavailable (vs_policy s))) \<and>
    (pd_unavailable d \<longleftrightarrow> \<not> vc_available (vs_client s)) \<and>
    vs_decisions s1 = vs_decisions s @ [d] \<and> pd_decision_id d = id_for ''veil-policy'' (length (vs_decisions s)) \<and>
    pd_action d = a \<and> pd_tenant_id d = t \<and> pd_device_id d = dev \<and>
    length (vs_audit_events s1) = length (vs_audit_events s) + 1 \<and> vs_evidence s1 = vs_evidence s \<and>
    policy_allows_or_fail_closed t dev a ctx now s = (pd_allowed d, s1))"
  by (simp add: verify_policy_def decide_def client_verify_policy_def Let_def PolicyDecision_default_def
      policy_allows_or_fail_closed_def)

section \<open>The evidence chain\<close>

definition prev_hash :: "extern \<Rightarrow> TrustEvidenceRecord list \<Rightarrow> TrustEvidenceRecord \<Rightarrow> string" where
  "prev_hash ext es e =
     (let device_prev = (if te_device_id e = [] then [] else last_hash_for ext (chain_key ''device'' (te_device_id e)) es);
          tenant_prev = (if te_tenant_id e = [] then [] else last_hash_for ext (chain_key ''tenant'' (te_tenant_id e)) es)
      in if device_prev \<noteq> [] then device_prev else tenant_prev)"

inductive linked :: "extern \<Rightarrow> TrustEvidenceRecord list \<Rightarrow> bool" for ext where
  linked_Nil: "linked ext []"
| linked_snoc: "linked ext es \<Longrightarrow> te_payload_hash e = canonical_payload_hash ext e \<Longrightarrow>
    te_previous_hash e = prev_hash ext es e \<Longrightarrow> linked ext (es @ [e])"

lemma complete_evidence_fields:
  "te_tenant_id (complete_evidence ext e s) = te_tenant_id e" "te_device_id (complete_evidence ext e s) = te_device_id e"
  "te_timestamp (complete_evidence ext e s) = te_timestamp e"
  "te_payload_hash (complete_evidence ext e s) = canonical_payload_hash ext (complete_evidence ext e s)"
  "te_previous_hash (complete_evidence ext e s) = prev_hash ext (vs_evidence s) (complete_evidence ext e s)"
  "te_evidence_id (complete_evidence ext e s) \<noteq> []"
  by (simp_all add: complete_evidence_def Let_def prev_hash_def canonical_payload_hash_def)

lemma create_evidence_list: "vs_evidence (snd (create_evidence ext e s)) = vs_evidence s @ [complete_evidence ext e s]"
  by (simp add: create_evidence_def Let_def)

lemma veil_reach_linked:
  assumes "veil_reach ext s0 s" "vs_evidence s0 = []"
  shows "linked ext (vs_evidence s)"
  using assms
proof (induction rule: veil_reach.induct)
  case veil_start
  then show ?case by (simp add: linked_Nil)
next
  case (veil_next s p)
  show ?case
  proof (cases p)
    case (Create e)
    then show ?thesis
      using linked_snoc [OF veil_next.IH [OF veil_next.prems] complete_evidence_fields(4,5)]
      by (simp add: create_evidence_list)
  qed (use veil_next in \<open>auto simp: submit_evidence_def submit_bundle_def verify_chain_def export_bundle_def trust_score_def
      verify_policy_fields Let_def split: option.splits prod.splits\<close>)
qed

lemma chain_key_inj [simp]: "chain_key k v = chain_key k v' \<longleftrightarrow> v = v'"
  and chain_key_kinds [simp]: "chain_key ''device'' v \<noteq> chain_key ''tenant'' v'" "chain_key ''tenant'' v' \<noteq> chain_key ''device'' v"
  by (simp_all add: chain_key_def)

lemma sha_nonempty: "SHA256 ext x \<noteq> [] \<Longrightarrow> sha256_hex ext x \<noteq> []"
  by (cases "SHA256 ext x") (simp_all add: sha256_hex_def hex_byte_def)

lemma find_SomeD: "find P xs = Some x \<Longrightarrow> x \<in> set xs \<and> P x"
  by (induction xs) (auto split: if_splits)

lemma verify_record_fields:
  assumes "te_device_id e = d" "te_tenant_id e = t" "d \<noteq> []" "t \<noteq> []"
    and "te_evidence_id e \<notin> set (vf_ids v)" "te_payload_hash e = canonical_payload_hash ext e"
    and "\<forall>k\<in>{chain_key ''device'' d, chain_key ''tenant'' t}. get (vf_last_hash v) k = map_option (record_chain_hash ext) p \<and>
      get (vf_last_time v) k = map_option te_timestamp p"
    and "\<forall>p'. p = Some p' \<longrightarrow> te_previous_hash e = record_chain_hash ext p' \<and> te_timestamp p' \<le> te_timestamp e"
  shows "vf_errors (verify_record ext v e) = vf_errors v \<and> vf_ids (verify_record ext v e) = te_evidence_id e # vf_ids v \<and>
    (\<forall>k\<in>{chain_key ''device'' d, chain_key ''tenant'' t}.
       get (vf_last_hash (verify_record ext v e)) k = Some (record_chain_hash ext e) \<and>
       get (vf_last_time (verify_record ext v e)) k = Some (te_timestamp e))"
  using assms by (cases p) (auto simp: verify_record_def chain_keys_def verify_key_def Let_def)

text \<open>The verifier on the records of one device of one tenant, by induction along the links.\<close>

lemma verify_device_records:
  assumes "linked ext es" "\<forall>x. SHA256 ext x \<noteq> []" "d \<noteq> []" "t \<noteq> []"
    and "\<forall>e\<in>set es. te_device_id e = d \<longrightarrow> te_tenant_id e = t"
    and "distinct (map te_evidence_id (filter (\<lambda>e. te_device_id e = d) es))"
    and "sorted (map te_timestamp (filter (\<lambda>e. te_device_id e = d) es))"
  shows "(let v = foldl (verify_record ext) verify_start (filter (\<lambda>e. te_device_id e = d) es); p = find (\<lambda>e. te_device_id e = d) (rev es) in
    vf_errors v = [] \<and> set (vf_ids v) = te_evidence_id ` set (filter (\<lambda>e. te_device_id e = d) es) \<and>
    (\<forall>k\<in>{chain_key ''device'' d, chain_key ''tenant'' t}. get (vf_last_hash v) k = map_option (record_chain_hash ext) p \<and>
      get (vf_last_time v) k = map_option te_timestamp p))"
  using assms
proof (induction rule: linked.induct)
  case linked_Nil
  then show ?case by (simp add: verify_start_def)
next
  case (linked_snoc es e)
  let ?P = "\<lambda>e. te_device_id e = d"
  have IH: "let v = foldl (verify_record ext) verify_start (filter ?P es); p = find ?P (rev es) in
    vf_errors v = [] \<and> set (vf_ids v) = te_evidence_id ` set (filter ?P es) \<and>
    (\<forall>k\<in>{chain_key ''device'' d, chain_key ''tenant'' t}. get (vf_last_hash v) k = map_option (record_chain_hash ext) p \<and>
      get (vf_last_time v) k = map_option te_timestamp p)"
    using linked_snoc.IH linked_snoc.prems by (simp add: sorted_append split: if_splits)
  show ?case
  proof (cases "?P e")
    case False
    then show ?thesis using IH by simp
  next
    case True
    have t: "te_tenant_id e = t" using linked_snoc.prems(4) True by simp
    have link: "te_previous_hash e = record_chain_hash ext p' \<and> te_timestamp p' \<le> te_timestamp e"
      if p: "find ?P (rev es) = Some p'" for p'
    proof -
      have "on_chain (chain_key ''device'' d) = ?P" by (auto simp: on_chain_def fun_eq_iff)
      then have "last_hash_for ext (chain_key ''device'' d) es = record_chain_hash ext p'"
        using p by (simp add: last_hash_for_def)
      moreover have "record_chain_hash ext p' \<noteq> []"
        using linked_snoc.prems(1) by (simp add: record_chain_hash_def sha_nonempty)
      moreover have "p' \<in> set (filter ?P es)" using find_SomeD [OF p] by simp
      ultimately show ?thesis
        using linked_snoc.hyps(3) True linked_snoc.prems(2,6) by (auto simp: prev_hash_def sorted_append)
    qed
    have "te_evidence_id e \<notin> te_evidence_id ` set (filter ?P es)"
      using linked_snoc.prems(5) True by auto
    with verify_record_fields [OF True t linked_snoc.prems(2,3), of _ ext "find ?P (rev es)"] IH link linked_snoc.hyps(2)
    show ?thesis using True by (auto simp: Let_def)
  qed
qed

definition device_filter :: "string \<Rightarrow> string \<Rightarrow> EvidenceFilter" where
  "device_filter t d = EvidenceFilter_default\<lparr>ef_tenant_id := t, ef_device_id := d\<rparr>"


definition empty_veil :: VeilTrustService where
  "empty_veil = \<lparr>vs_store_path = [], vs_file = None, vs_client = LocalVeilClient_default, vs_policy = PolicyConfig_default,
     vs_evidence = [], vs_decisions = [], vs_audit_events = []\<rparr>"

definition device_event :: "string \<Rightarrow> int \<Rightarrow> TrustEvidenceRecord" where
  "device_event d ts = TrustEvidenceRecord_default\<lparr>te_tenant_id := ''t1'', te_device_id := d, te_event_type := ''cash_accepted'',
     te_timestamp := ts\<rparr>"

lemma device_event_fields [simp]:
  "te_device_id (device_event d ts) = d" "te_tenant_id (device_event d ts) = ''t1''" "te_timestamp (device_event d ts) = ts"
  "te_evidence_id (device_event d ts) = []"
  by (simp_all add: device_event_def TrustEvidenceRecord_default_def)

lemma complete_evidence_id:
  "te_evidence_id e = [] \<Longrightarrow> te_evidence_id (complete_evidence ext e s) = id_for ''evidence'' (length (vs_evidence s))"
  by (simp add: complete_evidence_def Let_def)

lemma sample_sha: "\<forall>x. SHA256 sample_extern x \<noteq> []"
  by (simp add: sample_extern_def)


text \<open>
  Verifying a whole tenant raises a false alarm: the service links a record to the last record
  of its device, but the verifier also wants it linked to the last record of its tenant. After three
  untampered records of one tenant, from a first device, a second and the first again, the
  tenant's chain is reported broken at the third, whenever the digests of the first two differ.
\<close>

theorem tenant_chain_false_alarm:
  assumes "vs_evidence s0 = []" "\<forall>x. SHA256 ext x \<noteq> []" "t \<noteq> []" "d1 \<noteq> []" "d2 \<noteq> []" "d1 \<noteq> d2"
    and "te_tenant_id e1 = t" "te_tenant_id e2 = t" "te_tenant_id e3 = t"
    and "te_device_id e1 = d1" "te_device_id e2 = d2" "te_device_id e3 = d1"
    and "(r1, s1) = create_evidence ext e1 s0" "(r2, s2) = create_evidence ext e2 s1" "(r3, s3) = create_evidence ext e3 s2"
    and "record_chain_hash ext r1 \<noteq> record_chain_hash ext r2"
  shows "''missing_link:'' @ te_evidence_id r3 \<in> set (cv_errors (fst (verify_chain ext (device_filter t []) s3))) \<and>
    \<not> cv_valid (fst (verify_chain ext (device_filter t []) s3))"
proof -
  have s: "s1 = snd (create_evidence ext e1 s0)" "s2 = snd (create_evidence ext e2 s1)" "s3 = snd (create_evidence ext e3 s2)"
    using assms(13-15) by (metis snd_conv)+
  have r: "r1 = complete_evidence ext e1 s0" "r2 = complete_evidence ext e2 s1" "r3 = complete_evidence ext e3 s2"
    using assms(13-15) by (simp_all add: create_evidence_def Let_def)
  have ids: "te_device_id r1 = d1" "te_device_id r2 = d2" "te_device_id r3 = d1"
    "te_tenant_id r1 = t" "te_tenant_id r2 = t" "te_tenant_id r3 = t"
    using assms(7-12) by (simp_all add: r complete_evidence_fields)
  have l2: "vs_evidence s2 = [r1, r2]" and l3: "vs_evidence s3 = [r1, r2, r3]"
    using assms(1) by (simp_all add: s create_evidence_list r)
  have ne: "record_chain_hash ext x \<noteq> []" for x
    using assms(2) by (simp add: record_chain_hash_def sha_nonempty)
  have p3: "te_previous_hash r3 = record_chain_hash ext r1"
    using complete_evidence_fields(5) [of ext e3 s2] assms(4,6) ids ne
    by (simp add: r(3) [symmetric] l2 prev_hash_def last_hash_for_def on_chain_def Let_def)
  let ?v2 = "foldl (verify_record ext) verify_start [r1, r2]"
  have last: "get (vf_last_hash ?v2) (chain_key ''tenant'' t) = Some (record_chain_hash ext r2)"
    using assms(3-5) ids by (simp add: verify_record_def chain_keys_def verify_key_def Let_def)
  have "''missing_link:'' @ te_evidence_id r3 \<in> set (vf_errors (verify_record ext ?v2 r3))"
    using last assms(3,4,16) ids p3 ne by (simp add: verify_record_def chain_keys_def verify_key_def Let_def)
  moreover have "filter (filter_matches (device_filter t [])) (vs_evidence s3) = [r1, r2, r3]"
    using ids by (simp add: l3 filter_matches_def device_filter_def EvidenceFilter_default_def)
  ultimately show ?thesis
    by (auto simp: verify_chain_def verify_chain_locked_def Let_def)
qed

theorem tenant_chain_false_alarm_witness:
  "\<exists>s1 s2 s3. s1 = snd (create_evidence sample_extern (device_event ''d1'' 1) empty_veil) \<and>
     s2 = snd (create_evidence sample_extern (device_event ''d2'' 2) s1) \<and>
     s3 = snd (create_evidence sample_extern (device_event ''d1'' 3) s2) \<and>
     \<not> cv_valid (fst (verify_chain sample_extern (device_filter ''t1'' []) s3))"
proof -
  obtain r1 s1 where c1: "(r1, s1) = create_evidence sample_extern (device_event ''d1'' 1) empty_veil" by (metis surj_pair)
  obtain r2 s2 where c2: "(r2, s2) = create_evidence sample_extern (device_event ''d2'' 2) s1" by (metis surj_pair)
  obtain r3 s3 where c3: "(r3, s3) = create_evidence sample_extern (device_event ''d1'' 3) s2" by (metis surj_pair)
  have len: "length (sha256_hex sample_extern x) = 2" for x
    by (simp add: sha256_hex_def sample_extern_def hex_byte_def)
  have sig: "length (te_local_signature (complete_evidence sample_extern e s)) = 23" for e s
    using len by (simp add: complete_evidence_def Let_def)
  have ph: "length (te_payload_hash (complete_evidence sample_extern e s)) = 2" for e s
    using len by (simp add: complete_evidence_def Let_def canonical_payload_hash_def)
  have r: "r1 = complete_evidence sample_extern (device_event ''d1'' 1) empty_veil"
    "r2 = complete_evidence sample_extern (device_event ''d2'' 2) s1"
    using c1 c2 by (simp_all add: create_evidence_def Let_def)
  have s1: "vs_evidence s1 = [r1]" using c1 by (simp add: create_evidence_def Let_def empty_veil_def)
  have p: "te_previous_hash r1 = []" "length (te_previous_hash r2) = 2"
    using complete_evidence_fields(1,2,5) [of sample_extern "device_event ''d1'' 1" empty_veil]
      complete_evidence_fields(1,2,5) [of sample_extern "device_event ''d2'' 2" s1] len
    by (simp_all add: r(1) [symmetric] r(2) [symmetric] s1 prev_hash_def last_hash_for_def on_chain_def Let_def
        record_chain_hash_def) (simp add: empty_veil_def)
  have "length (id_for ''evidence'' 0) = 10" "length (id_for ''evidence'' (Suc 0)) = 10"
    by (simp_all add: id_for_def to_string_def dec_nat.simps)
  moreover have "vs_evidence empty_veil = []" by (simp add: empty_veil_def)
  ultimately have i: "length (te_evidence_id r1) = 10" "length (te_evidence_id r2) = 10"
    by (simp_all add: r(1) r(2) complete_evidence_id s1)
  have sha: "sha256_hex sample_extern x = hex_byte (length x mod 256)" for x
    by (simp add: sha256_hex_def sample_extern_def)
  have "length (te_local_signature r1) = 23" "length (te_local_signature r2) = 23"
    "length (te_payload_hash r1) = 2" "length (te_payload_hash r2) = 2"
    using sig ph r by simp_all
  then have "record_chain_hash sample_extern r1 \<noteq> record_chain_hash sample_extern r2"
    using p i by (simp add: record_chain_hash_def sha hex_byte_def hex_digit_def)
  then have "\<not> cv_valid (fst (verify_chain sample_extern (device_filter ''t1'' []) s3))"
    by (intro conjunct2 [OF tenant_chain_false_alarm [where t = "''t1''" and ?d1.0 = "''d1''" and ?d2.0 = "''d2''",
        OF _ sample_sha _ _ _ _ _ _ _ _ _ _ c1 c2 c3]]) (simp_all add: empty_veil_def)
  moreover have "s1 = snd (create_evidence sample_extern (device_event ''d1'' 1) empty_veil)"
    "s2 = snd (create_evidence sample_extern (device_event ''d2'' 2) s1)"
    "s3 = snd (create_evidence sample_extern (device_event ''d1'' 3) s2)"
    by (simp_all add: c1 [symmetric] c2 [symmetric] c3 [symmetric])
  ultimately show ?thesis by blast
qed

section \<open>The store file\<close>

lemma evidence_json_roundtrip: "value_laws ext \<Longrightarrow> evidence_from_json ext (evidence_to_json e) v = Inr e"
  by (simp add: evidence_from_json_def evidence_to_json_def value_laws_def json_value_def json_str_def json_int_def)

lemma decision_json_roundtrip: "value_laws ext \<Longrightarrow> decision_from_json ext (decision_to_json d) v = Inr d"
  by (simp add: decision_from_json_def decision_to_json_def value_laws_def json_value_def json_str_def json_int_def json_bool_def)

text \<open>
  A restart loses nothing: with a store path, loading the file that was saved gives back all
  evidence, decisions and audit events, when the JSON accessors behave as documented.
\<close>

theorem veil_save_load:
  assumes "vs_store_path s \<noteq> []" "value_laws ext" "vs_store_path fresh = vs_store_path s" "vs_file fresh = vs_file (save_locked s)"
  shows "\<exists>s1. load_store ext fresh = Inr s1 \<and> vs_evidence s1 = vs_evidence s \<and> vs_decisions s1 = vs_decisions s \<and>
    vs_audit_events s1 = vs_audit_events s"
  using assms evidence_json_roundtrip [OF assms(2)] decision_json_roundtrip [OF assms(2)]
  by (simp add: load_store_def save_locked_def store_json_def value_laws_def json_value_def json_arr_def map_result_map)

definition stored_veil :: VeilTrustService where
  "stored_veil = empty_veil\<lparr>vs_store_path := ''f'', vs_evidence := [device_event ''d1'' 1]\<rparr>"

theorem veil_save_load_witness:
  "\<exists>s1. load_store sample_extern ((save_locked stored_veil)\<lparr>vs_evidence := []\<rparr>) = Inr s1 \<and>
     vs_evidence s1 = [device_event ''d1'' 1]"
proof -
  have p: "vs_store_path stored_veil \<noteq> []" "vs_evidence stored_veil = [device_event ''d1'' 1]"
    by (simp_all add: stored_veil_def)
  show ?thesis
    using veil_save_load [OF p(1) sample_value_laws, of "(save_locked stored_veil)\<lparr>vs_evidence := []\<rparr>"] p(2) by auto
qed

end
