(* ===== verification/Fleet_Models.thy ===== *)
theory Fleet_Models
  imports Prelude
begin

text \<open>
  The data of the fleet control plane (\<^verbatim>\<open>src/cloud/fleet_control/models.hpp\<close>) with their JSON
  (\<^verbatim>\<open>models.cpp\<close>), and what every service with a store does: a map is written as the array of its
  values and read back by entering each value under its own id. The round trips hold for JSON
  accessors that behave as documented (\<open>value_laws\<close>).
\<close>

section \<open>Data\<close>

record Organization =
  og_organization_id :: string
  og_name :: string
  og_tags :: "string list"
  og_labels :: "(string \<times> string) list"

definition Organization_default :: Organization where
  "Organization_default = \<lparr>og_organization_id = [], og_name = [], og_tags = [], og_labels = []\<rparr>"

record Region =
  rg_region_id :: string
  rg_organization_id :: string
  rg_name :: string
  rg_tags :: "string list"
  rg_labels :: "(string \<times> string) list"

definition Region_default :: Region where
  "Region_default = \<lparr>rg_region_id = [], rg_organization_id = [], rg_name = [], rg_tags = [],
     rg_labels = []\<rparr>"

record Merchant =
  mt_merchant_id :: string
  mt_organization_id :: string
  mt_name :: string
  mt_tags :: "string list"
  mt_labels :: "(string \<times> string) list"

definition Merchant_default :: Merchant where
  "Merchant_default = \<lparr>mt_merchant_id = [], mt_organization_id = [], mt_name = [], mt_tags = [],
     mt_labels = []\<rparr>"

record Branch =
  br_branch_id :: string
  br_merchant_id :: string
  br_organization_id :: string
  br_region_id :: string
  br_name :: string
  br_tags :: "string list"
  br_labels :: "(string \<times> string) list"

definition Branch_default :: Branch where
  "Branch_default = \<lparr>br_branch_id = [], br_merchant_id = [], br_organization_id = [], br_region_id = [],
     br_name = [], br_tags = [], br_labels = []\<rparr>"

record DeviceRegistryRecord =
  dr_device_id :: string
  dr_device_type :: string
  dr_organization_id :: string
  dr_merchant_id :: string
  dr_branch_id :: string
  dr_region :: string
  dr_environment :: string
  dr_deployment_channel :: string
  dr_firmware_version :: string
  dr_enrollment_status :: string
  dr_certificate_identity_status :: string
  dr_last_heartbeat_at :: string
  dr_last_seen_at :: string
  dr_connectivity_status :: string
  dr_health_status :: string
  dr_health_score :: int
  dr_transaction_failures :: int
  dr_ota_failures :: int
  dr_sync_failures :: int
  dr_capabilities :: "string list"
  dr_tags :: "string list"
  dr_labels :: "(string \<times> string) list"

definition DeviceRegistryRecord_default :: DeviceRegistryRecord where
  "DeviceRegistryRecord_default = \<lparr>dr_device_id = [], dr_device_type = ''cash_drawer'',
     dr_organization_id = [], dr_merchant_id = [], dr_branch_id = [], dr_region = [], dr_environment = [],
     dr_deployment_channel = [], dr_firmware_version = [], dr_enrollment_status = ''unenrolled'',
     dr_certificate_identity_status = ''unknown'', dr_last_heartbeat_at = [], dr_last_seen_at = [],
     dr_connectivity_status = ''offline'', dr_health_status = ''unknown'', dr_health_score = 100,
     dr_transaction_failures = 0, dr_ota_failures = 0, dr_sync_failures = 0, dr_capabilities = [], dr_tags = [],
     dr_labels = []\<rparr>"

record HeartbeatMessage =
  hb_device_id :: string
  hb_sent_at_epoch :: int
  hb_received_at_epoch :: int
  hb_latency_ms :: real

definition HeartbeatMessage_default :: HeartbeatMessage where
  "HeartbeatMessage_default = \<lparr>hb_device_id = [], hb_sent_at_epoch = 0, hb_received_at_epoch = 0,
     hb_latency_ms = 0\<rparr>"

record RemoteCommand =
  rc_command_id :: string
  rc_organization_id :: string
  rc_device_id :: string
  rc_type :: string
  rc_status :: string
  rc_created_at :: string
  rc_delivered_at :: string
  rc_acknowledged_at :: string
  rc_failed_at :: string
  rc_expires_at_epoch :: int
  rc_retry_count :: int
  rc_max_retries :: int
  rc_failure_reason :: string

definition RemoteCommand_default :: RemoteCommand where
  "RemoteCommand_default = \<lparr>rc_command_id = [], rc_organization_id = [], rc_device_id = [], rc_type = [],
     rc_status = ''pending'', rc_created_at = [], rc_delivered_at = [], rc_acknowledged_at = [], rc_failed_at = [],
     rc_expires_at_epoch = 0, rc_retry_count = 0, rc_max_retries = 3, rc_failure_reason = []\<rparr>"

record FleetAlert =
  fa_alert_id :: string
  fa_organization_id :: string
  fa_device_id :: string
  fa_type :: string
  fa_severity :: string
  fa_message :: string
  fa_created_at :: string
  fa_acknowledged :: bool
  fa_acknowledged_at :: string

definition FleetAlert_default :: FleetAlert where
  "FleetAlert_default = \<lparr>fa_alert_id = [], fa_organization_id = [], fa_device_id = [], fa_type = [],
     fa_severity = ''warning'', fa_message = [], fa_created_at = [], fa_acknowledged = False,
     fa_acknowledged_at = []\<rparr>"

record FleetEvent =
  fe_event_id :: string
  fe_organization_id :: string
  fe_device_id :: string
  fe_type :: string
  fe_occurred_at :: string
  fe_metadata :: json

definition FleetEvent_default :: FleetEvent where
  "FleetEvent_default = \<lparr>fe_event_id = [], fe_organization_id = [], fe_device_id = [], fe_type = [],
     fe_occurred_at = [], fe_metadata = JObj []\<rparr>"

record FleetHealthSummary =
  fh_device_health_score :: int
  fh_communication_health_score :: int
  fh_sync_health_score :: int
  fh_ota_health_score :: int
  fh_certificate_health_score :: int
  fh_aggregate_score :: int

definition FleetHealthSummary_default :: FleetHealthSummary where
  "FleetHealthSummary_default = \<lparr>fh_device_health_score = 100, fh_communication_health_score = 100,
     fh_sync_health_score = 100, fh_ota_health_score = 100, fh_certificate_health_score = 100,
     fh_aggregate_score = 100\<rparr>"

record FleetMetrics =
  fm_online_devices :: int
  fm_offline_devices :: int
  fm_command_success_rate :: real
  fm_command_failure_rate :: real
  fm_average_heartbeat_latency_ms :: real
  fm_fleet_availability :: real
  fm_alert_counts :: "(string \<times> int) list"
  fm_sync_success_count :: int
  fm_sync_failure_count :: int

definition FleetMetrics_default :: FleetMetrics where
  "FleetMetrics_default = \<lparr>fm_online_devices = 0, fm_offline_devices = 0, fm_command_success_rate = 0,
     fm_command_failure_rate = 0, fm_average_heartbeat_latency_ms = 0, fm_fleet_availability = 0,
     fm_alert_counts = [], fm_sync_success_count = 0, fm_sync_failure_count = 0\<rparr>"

record DashboardView =
  dv_scope_type :: string
  dv_scope_id :: string
  dv_device_count :: int
  dv_online_devices :: int
  dv_offline_devices :: int
  dv_firmware_distribution :: "(string \<times> int) list"
  dv_health :: FleetHealthSummary
  dv_alert_summary :: "(string \<times> int) list"

record DeviceFilter =
  df_organization_id :: string
  df_merchant_id :: string
  df_branch_id :: string
  df_region :: string
  df_environment :: string
  df_deployment_channel :: string
  df_health_status :: string
  df_connectivity_status :: string
  df_tag :: string
  df_label_key :: string
  df_label_value :: string
  df_text :: string

definition DeviceFilter_default :: DeviceFilter where
  "DeviceFilter_default = \<lparr>df_organization_id = [], df_merchant_id = [], df_branch_id = [], df_region = [],
     df_environment = [], df_deployment_channel = [], df_health_status = [], df_connectivity_status = [], df_tag = [],
     df_label_key = [], df_label_value = [], df_text = []\<rparr>"

section \<open>JSON\<close>

definition organization_to_json :: "Organization \<Rightarrow> json" where
  "organization_to_json v = JObj [(''organization_id'', JStr (og_organization_id v)), (''name'', JStr (og_name v)),
     (''tags'', JArr (map JStr (og_tags v))), (''labels'', labels_json (og_labels v))]"

definition organization_from_json :: "extern \<Rightarrow> json \<Rightarrow> Organization \<Rightarrow> Organization result" where
  "organization_from_json ext j v =
     bind_result (value_str ext j ''organization_id'' (og_organization_id v)) (\<lambda>a1.
     bind_result (value_str ext j ''name'' (og_name v)) (\<lambda>a2.
     bind_result (value_strs ext j ''tags'' (og_tags v)) (\<lambda>a3.
     bind_result (value_labels ext j ''labels'' (og_labels v)) (\<lambda>a4.
     Inr \<lparr>og_organization_id = a1, og_name = a2, og_tags = a3, og_labels = a4\<rparr>))))"

definition region_to_json :: "Region \<Rightarrow> json" where
  "region_to_json v = JObj [(''region_id'', JStr (rg_region_id v)),
     (''organization_id'', JStr (rg_organization_id v)), (''name'', JStr (rg_name v)),
     (''tags'', JArr (map JStr (rg_tags v))), (''labels'', labels_json (rg_labels v))]"

definition region_from_json :: "extern \<Rightarrow> json \<Rightarrow> Region \<Rightarrow> Region result" where
  "region_from_json ext j v =
     bind_result (value_str ext j ''region_id'' (rg_region_id v)) (\<lambda>a1.
     bind_result (value_str ext j ''organization_id'' (rg_organization_id v)) (\<lambda>a2.
     bind_result (value_str ext j ''name'' (rg_name v)) (\<lambda>a3.
     bind_result (value_strs ext j ''tags'' (rg_tags v)) (\<lambda>a4.
     bind_result (value_labels ext j ''labels'' (rg_labels v)) (\<lambda>a5.
     Inr \<lparr>rg_region_id = a1, rg_organization_id = a2, rg_name = a3, rg_tags = a4, rg_labels = a5\<rparr>)))))"

definition merchant_to_json :: "Merchant \<Rightarrow> json" where
  "merchant_to_json v = JObj [(''merchant_id'', JStr (mt_merchant_id v)),
     (''organization_id'', JStr (mt_organization_id v)), (''name'', JStr (mt_name v)),
     (''tags'', JArr (map JStr (mt_tags v))), (''labels'', labels_json (mt_labels v))]"

definition merchant_from_json :: "extern \<Rightarrow> json \<Rightarrow> Merchant \<Rightarrow> Merchant result" where
  "merchant_from_json ext j v =
     bind_result (value_str ext j ''merchant_id'' (mt_merchant_id v)) (\<lambda>a1.
     bind_result (value_str ext j ''organization_id'' (mt_organization_id v)) (\<lambda>a2.
     bind_result (value_str ext j ''name'' (mt_name v)) (\<lambda>a3.
     bind_result (value_strs ext j ''tags'' (mt_tags v)) (\<lambda>a4.
     bind_result (value_labels ext j ''labels'' (mt_labels v)) (\<lambda>a5.
     Inr \<lparr>mt_merchant_id = a1, mt_organization_id = a2, mt_name = a3, mt_tags = a4,
       mt_labels = a5\<rparr>)))))"

definition branch_to_json :: "Branch \<Rightarrow> json" where
  "branch_to_json v = JObj [(''branch_id'', JStr (br_branch_id v)), (''merchant_id'', JStr (br_merchant_id v)),
     (''organization_id'', JStr (br_organization_id v)), (''region_id'', JStr (br_region_id v)),
     (''name'', JStr (br_name v)), (''tags'', JArr (map JStr (br_tags v))), (''labels'', labels_json (br_labels v))]"

definition branch_from_json :: "extern \<Rightarrow> json \<Rightarrow> Branch \<Rightarrow> Branch result" where
  "branch_from_json ext j v =
     bind_result (value_str ext j ''branch_id'' (br_branch_id v)) (\<lambda>a1.
     bind_result (value_str ext j ''merchant_id'' (br_merchant_id v)) (\<lambda>a2.
     bind_result (value_str ext j ''organization_id'' (br_organization_id v)) (\<lambda>a3.
     bind_result (value_str ext j ''region_id'' (br_region_id v)) (\<lambda>a4.
     bind_result (value_str ext j ''name'' (br_name v)) (\<lambda>a5.
     bind_result (value_strs ext j ''tags'' (br_tags v)) (\<lambda>a6.
     bind_result (value_labels ext j ''labels'' (br_labels v)) (\<lambda>a7.
     Inr \<lparr>br_branch_id = a1, br_merchant_id = a2, br_organization_id = a3, br_region_id = a4, br_name = a5,
       br_tags = a6, br_labels = a7\<rparr>)))))))"

definition registry_to_json :: "DeviceRegistryRecord \<Rightarrow> json" where
  "registry_to_json v = JObj [(''device_id'', JStr (dr_device_id v)), (''device_type'', JStr (dr_device_type v)),
     (''organization_id'', JStr (dr_organization_id v)), (''merchant_id'', JStr (dr_merchant_id v)),
     (''branch_id'', JStr (dr_branch_id v)), (''region'', JStr (dr_region v)),
     (''environment'', JStr (dr_environment v)), (''deployment_channel'', JStr (dr_deployment_channel v)),
     (''firmware_version'', JStr (dr_firmware_version v)), (''enrollment_status'', JStr (dr_enrollment_status v)),
     (''certificate_identity_status'', JStr (dr_certificate_identity_status v)),
     (''last_heartbeat_at'', JStr (dr_last_heartbeat_at v)), (''last_seen_at'', JStr (dr_last_seen_at v)),
     (''connectivity_status'', JStr (dr_connectivity_status v)), (''health_status'', JStr (dr_health_status v)),
     (''health_score'', JInt (dr_health_score v)), (''transaction_failures'', JInt (dr_transaction_failures v)),
     (''ota_failures'', JInt (dr_ota_failures v)), (''sync_failures'', JInt (dr_sync_failures v)),
     (''capabilities'', JArr (map JStr (dr_capabilities v))), (''tags'', JArr (map JStr (dr_tags v))),
     (''labels'', labels_json (dr_labels v))]"

definition registry_from_json :: "extern \<Rightarrow> json \<Rightarrow> DeviceRegistryRecord \<Rightarrow> DeviceRegistryRecord result" where
  "registry_from_json ext j v =
     bind_result (value_str ext j ''device_id'' (dr_device_id v)) (\<lambda>a1.
     bind_result (value_str ext j ''device_type'' (dr_device_type v)) (\<lambda>a2.
     bind_result (value_str ext j ''organization_id'' (dr_organization_id v)) (\<lambda>a3.
     bind_result (value_str ext j ''merchant_id'' (dr_merchant_id v)) (\<lambda>a4.
     bind_result (value_str ext j ''branch_id'' (dr_branch_id v)) (\<lambda>a5.
     bind_result (value_str ext j ''region'' (dr_region v)) (\<lambda>a6.
     bind_result (value_str ext j ''environment'' (dr_environment v)) (\<lambda>a7.
     bind_result (value_str ext j ''deployment_channel'' (dr_deployment_channel v)) (\<lambda>a8.
     bind_result (value_str ext j ''firmware_version'' (dr_firmware_version v)) (\<lambda>a9.
     bind_result (value_str ext j ''enrollment_status'' (dr_enrollment_status v)) (\<lambda>b1.
     bind_result (value_str ext j ''certificate_identity_status'' (dr_certificate_identity_status v)) (\<lambda>b2.
     bind_result (value_str ext j ''last_heartbeat_at'' (dr_last_heartbeat_at v)) (\<lambda>b3.
     bind_result (value_str ext j ''last_seen_at'' (dr_last_seen_at v)) (\<lambda>b4.
     bind_result (value_str ext j ''connectivity_status'' (dr_connectivity_status v)) (\<lambda>b5.
     bind_result (value_str ext j ''health_status'' (dr_health_status v)) (\<lambda>b6.
     bind_result (value_int ext j ''health_score'' (dr_health_score v)) (\<lambda>b7.
     bind_result (value_int ext j ''transaction_failures'' (dr_transaction_failures v)) (\<lambda>b8.
     bind_result (value_int ext j ''ota_failures'' (dr_ota_failures v)) (\<lambda>b9.
     bind_result (value_int ext j ''sync_failures'' (dr_sync_failures v)) (\<lambda>c1.
     bind_result (value_strs ext j ''capabilities'' (dr_capabilities v)) (\<lambda>c2.
     bind_result (value_strs ext j ''tags'' (dr_tags v)) (\<lambda>c3.
     bind_result (value_labels ext j ''labels'' (dr_labels v)) (\<lambda>c4.
     Inr \<lparr>dr_device_id = a1, dr_device_type = a2, dr_organization_id = a3, dr_merchant_id = a4,
       dr_branch_id = a5, dr_region = a6, dr_environment = a7, dr_deployment_channel = a8, dr_firmware_version = a9,
       dr_enrollment_status = b1, dr_certificate_identity_status = b2, dr_last_heartbeat_at = b3,
       dr_last_seen_at = b4, dr_connectivity_status = b5, dr_health_status = b6, dr_health_score = b7,
       dr_transaction_failures = b8, dr_ota_failures = b9, dr_sync_failures = c1, dr_capabilities = c2, dr_tags = c3,
       dr_labels = c4\<rparr>))))))))))))))))))))))"

definition heartbeat_msg_to_json :: "HeartbeatMessage \<Rightarrow> json" where
  "heartbeat_msg_to_json v = JObj [(''device_id'', JStr (hb_device_id v)),
     (''sent_at_epoch'', JInt (hb_sent_at_epoch v)), (''received_at_epoch'', JInt (hb_received_at_epoch v)),
     (''latency_ms'', JReal (hb_latency_ms v))]"

definition heartbeat_msg_from_json :: "extern \<Rightarrow> json \<Rightarrow> HeartbeatMessage \<Rightarrow> HeartbeatMessage result" where
  "heartbeat_msg_from_json ext j v =
     bind_result (value_str ext j ''device_id'' (hb_device_id v)) (\<lambda>a1.
     bind_result (value_int ext j ''sent_at_epoch'' (hb_sent_at_epoch v)) (\<lambda>a2.
     bind_result (value_int ext j ''received_at_epoch'' (hb_received_at_epoch v)) (\<lambda>a3.
     bind_result (value_real ext j ''latency_ms'' (hb_latency_ms v)) (\<lambda>a4.
     Inr \<lparr>hb_device_id = a1, hb_sent_at_epoch = a2, hb_received_at_epoch = a3, hb_latency_ms = a4\<rparr>))))"

definition command_to_json :: "RemoteCommand \<Rightarrow> json" where
  "command_to_json v = JObj [(''command_id'', JStr (rc_command_id v)),
     (''organization_id'', JStr (rc_organization_id v)), (''device_id'', JStr (rc_device_id v)),
     (''type'', JStr (rc_type v)), (''status'', JStr (rc_status v)), (''created_at'', JStr (rc_created_at v)),
     (''delivered_at'', JStr (rc_delivered_at v)), (''acknowledged_at'', JStr (rc_acknowledged_at v)),
     (''failed_at'', JStr (rc_failed_at v)), (''expires_at_epoch'', JInt (rc_expires_at_epoch v)),
     (''retry_count'', JInt (rc_retry_count v)), (''max_retries'', JInt (rc_max_retries v)),
     (''failure_reason'', JStr (rc_failure_reason v))]"

definition command_from_json :: "extern \<Rightarrow> json \<Rightarrow> RemoteCommand \<Rightarrow> RemoteCommand result" where
  "command_from_json ext j v =
     bind_result (value_str ext j ''command_id'' (rc_command_id v)) (\<lambda>a1.
     bind_result (value_str ext j ''organization_id'' (rc_organization_id v)) (\<lambda>a2.
     bind_result (value_str ext j ''device_id'' (rc_device_id v)) (\<lambda>a3.
     bind_result (value_str ext j ''type'' (rc_type v)) (\<lambda>a4.
     bind_result (value_str ext j ''status'' (rc_status v)) (\<lambda>a5.
     bind_result (value_str ext j ''created_at'' (rc_created_at v)) (\<lambda>a6.
     bind_result (value_str ext j ''delivered_at'' (rc_delivered_at v)) (\<lambda>a7.
     bind_result (value_str ext j ''acknowledged_at'' (rc_acknowledged_at v)) (\<lambda>a8.
     bind_result (value_str ext j ''failed_at'' (rc_failed_at v)) (\<lambda>a9.
     bind_result (value_int ext j ''expires_at_epoch'' (rc_expires_at_epoch v)) (\<lambda>b1.
     bind_result (value_int ext j ''retry_count'' (rc_retry_count v)) (\<lambda>b2.
     bind_result (value_int ext j ''max_retries'' (rc_max_retries v)) (\<lambda>b3.
     bind_result (value_str ext j ''failure_reason'' (rc_failure_reason v)) (\<lambda>b4.
     Inr \<lparr>rc_command_id = a1, rc_organization_id = a2, rc_device_id = a3, rc_type = a4, rc_status = a5,
       rc_created_at = a6, rc_delivered_at = a7, rc_acknowledged_at = a8, rc_failed_at = a9, rc_expires_at_epoch = b1,
       rc_retry_count = b2, rc_max_retries = b3, rc_failure_reason = b4\<rparr>)))))))))))))"

definition alert_to_json :: "FleetAlert \<Rightarrow> json" where
  "alert_to_json v = JObj [(''alert_id'', JStr (fa_alert_id v)), (''organization_id'', JStr (fa_organization_id v)),
     (''device_id'', JStr (fa_device_id v)), (''type'', JStr (fa_type v)), (''severity'', JStr (fa_severity v)),
     (''message'', JStr (fa_message v)), (''created_at'', JStr (fa_created_at v)),
     (''acknowledged'', JBool (fa_acknowledged v)), (''acknowledged_at'', JStr (fa_acknowledged_at v))]"

definition alert_from_json :: "extern \<Rightarrow> json \<Rightarrow> FleetAlert \<Rightarrow> FleetAlert result" where
  "alert_from_json ext j v =
     bind_result (value_str ext j ''alert_id'' (fa_alert_id v)) (\<lambda>a1.
     bind_result (value_str ext j ''organization_id'' (fa_organization_id v)) (\<lambda>a2.
     bind_result (value_str ext j ''device_id'' (fa_device_id v)) (\<lambda>a3.
     bind_result (value_str ext j ''type'' (fa_type v)) (\<lambda>a4.
     bind_result (value_str ext j ''severity'' (fa_severity v)) (\<lambda>a5.
     bind_result (value_str ext j ''message'' (fa_message v)) (\<lambda>a6.
     bind_result (value_str ext j ''created_at'' (fa_created_at v)) (\<lambda>a7.
     bind_result (value_bool ext j ''acknowledged'' (fa_acknowledged v)) (\<lambda>a8.
     bind_result (value_str ext j ''acknowledged_at'' (fa_acknowledged_at v)) (\<lambda>a9.
     Inr \<lparr>fa_alert_id = a1, fa_organization_id = a2, fa_device_id = a3, fa_type = a4, fa_severity = a5,
       fa_message = a6, fa_created_at = a7, fa_acknowledged = a8, fa_acknowledged_at = a9\<rparr>)))))))))"

definition fleet_event_to_json :: "FleetEvent \<Rightarrow> json" where
  "fleet_event_to_json v = JObj [(''event_id'', JStr (fe_event_id v)),
     (''organization_id'', JStr (fe_organization_id v)), (''device_id'', JStr (fe_device_id v)),
     (''type'', JStr (fe_type v)), (''occurred_at'', JStr (fe_occurred_at v)), (''metadata'', fe_metadata v)]"

definition fleet_event_from_json :: "extern \<Rightarrow> json \<Rightarrow> FleetEvent \<Rightarrow> FleetEvent result" where
  "fleet_event_from_json ext j v =
     bind_result (value_str ext j ''event_id'' (fe_event_id v)) (\<lambda>a1.
     bind_result (value_str ext j ''organization_id'' (fe_organization_id v)) (\<lambda>a2.
     bind_result (value_str ext j ''device_id'' (fe_device_id v)) (\<lambda>a3.
     bind_result (value_str ext j ''type'' (fe_type v)) (\<lambda>a4.
     bind_result (value_str ext j ''occurred_at'' (fe_occurred_at v)) (\<lambda>a5.
     bind_result (value_json ext j ''metadata'' (JObj [])) (\<lambda>a6.
     Inr \<lparr>fe_event_id = a1, fe_organization_id = a2, fe_device_id = a3, fe_type = a4, fe_occurred_at = a5,
       fe_metadata = a6\<rparr>))))))"

definition fleet_health_to_json :: "FleetHealthSummary \<Rightarrow> json" where
  "fleet_health_to_json v = JObj [(''device_health_score'', JInt (fh_device_health_score v)),
     (''communication_health_score'', JInt (fh_communication_health_score v)),
     (''sync_health_score'', JInt (fh_sync_health_score v)), (''ota_health_score'', JInt (fh_ota_health_score v)),
     (''certificate_health_score'', JInt (fh_certificate_health_score v)),
     (''aggregate_score'', JInt (fh_aggregate_score v))]"

definition fleet_metrics_to_json :: "FleetMetrics \<Rightarrow> json" where
  "fleet_metrics_to_json v = JObj [(''online_devices'', JInt (fm_online_devices v)),
     (''offline_devices'', JInt (fm_offline_devices v)),
     (''command_success_rate'', JReal (fm_command_success_rate v)),
     (''command_failure_rate'', JReal (fm_command_failure_rate v)),
     (''average_heartbeat_latency_ms'', JReal (fm_average_heartbeat_latency_ms v)),
     (''fleet_availability'', JReal (fm_fleet_availability v)), (''alert_counts'', counts_json (fm_alert_counts v)),
     (''sync_success_count'', JInt (fm_sync_success_count v)),
     (''sync_failure_count'', JInt (fm_sync_failure_count v))]"

definition dashboard_to_json :: "DashboardView \<Rightarrow> json" where
  "dashboard_to_json v = JObj [(''scope_type'', JStr (dv_scope_type v)), (''scope_id'', JStr (dv_scope_id v)),
     (''device_count'', JInt (dv_device_count v)), (''online_devices'', JInt (dv_online_devices v)),
     (''offline_devices'', JInt (dv_offline_devices v)), (''firmware_distribution'', counts_json (dv_firmware_distribution v)),
     (''health'', fleet_health_to_json (dv_health v)), (''alert_summary'', counts_json (dv_alert_summary v))]"

section \<open>Round trips\<close>

lemma organization_json_roundtrip: "value_laws ext \<Longrightarrow> organization_from_json ext (organization_to_json x) v = Inr x"
  by (simp add: organization_from_json_def organization_to_json_def value_back)

lemma region_json_roundtrip: "value_laws ext \<Longrightarrow> region_from_json ext (region_to_json x) v = Inr x"
  by (simp add: region_from_json_def region_to_json_def value_back)

lemma merchant_json_roundtrip: "value_laws ext \<Longrightarrow> merchant_from_json ext (merchant_to_json x) v = Inr x"
  by (simp add: merchant_from_json_def merchant_to_json_def value_back)

lemma branch_json_roundtrip: "value_laws ext \<Longrightarrow> branch_from_json ext (branch_to_json x) v = Inr x"
  by (simp add: branch_from_json_def branch_to_json_def value_back)

lemma registry_json_roundtrip: "value_laws ext \<Longrightarrow> registry_from_json ext (registry_to_json x) v = Inr x"
  by (simp add: registry_from_json_def registry_to_json_def value_back)

lemma heartbeat_msg_json_roundtrip: "value_laws ext \<Longrightarrow> heartbeat_msg_from_json ext (heartbeat_msg_to_json x) v = Inr x"
  by (simp add: heartbeat_msg_from_json_def heartbeat_msg_to_json_def value_back)

lemma command_json_roundtrip: "value_laws ext \<Longrightarrow> command_from_json ext (command_to_json x) v = Inr x"
  by (simp add: command_from_json_def command_to_json_def value_back)

lemma alert_json_roundtrip: "value_laws ext \<Longrightarrow> alert_from_json ext (alert_to_json x) v = Inr x"
  by (simp add: alert_from_json_def alert_to_json_def value_back)

lemma fleet_event_json_roundtrip: "value_laws ext \<Longrightarrow> fleet_event_from_json ext (fleet_event_to_json x) v = Inr x"
  by (simp add: fleet_event_from_json_def fleet_event_to_json_def value_back)

section \<open>Maps in a store file\<close>

definition values_json :: "('v \<Rightarrow> json) \<Rightarrow> (string, 'v) amap \<Rightarrow> json" where
  "values_json f m = JArr (map f (vals m))"

definition load_map :: "(json \<Rightarrow> 'v result) \<Rightarrow> ('v \<Rightarrow> string) \<Rightarrow> json list \<Rightarrow> (string, 'v) amap \<Rightarrow> (string, 'v) amap result" where
  "load_map conv key js m = bind_result (map_result conv js) (\<lambda>vs. Inr (foldl (\<lambda>m v. put (key v) v m) m vs))"

text \<open>A map whose entries stand under their own ids.\<close>

definition keyed :: "('v \<Rightarrow> 'k) \<Rightarrow> ('k, 'v) amap \<Rightarrow> bool" where
  "keyed key m \<longleftrightarrow> distinct (map fst m) \<and> (\<forall>(k, v)\<in>set m. key v = k)"

lemma keyed_Nil [simp]: "keyed key []"
  by (simp add: keyed_def)

lemma set_put: "set (put k v m) \<subseteq> insert (k, v) (set m)"
  unfolding put_def by (induction m) auto

lemma keyed_put [intro]: "keyed key m \<Longrightarrow> key v = k \<Longrightarrow> keyed key (put k v m)"
  using set_put [of k v m] by (fastforce simp: keyed_def)

lemma keyed_get: "keyed key m \<Longrightarrow> get m k = Some v \<Longrightarrow> key v = k"
  using get_in_set [of m k v] by (auto simp: keyed_def)

lemma put_new: "k \<notin> set (map fst m) \<Longrightarrow> put k v m = m @ [(k, v)]"
  unfolding put_def by (induction m) auto

lemma put_vals: "keyed key (m1 @ m2) \<Longrightarrow> foldl (\<lambda>m v. put (key v) v m) m1 (vals m2) = m1 @ m2"
proof (induction m2 arbitrary: m1)
  case Nil
  then show ?case by (simp add: vals_def)
next
  case (Cons kv m2)
  obtain k v where kv: "kv = (k, v)" by (cases kv)
  have "key v = k" "k \<notin> set (map fst m1)" using Cons.prems by (auto simp: keyed_def kv)
  then have "foldl (\<lambda>m v. put (key v) v m) m1 (vals (kv # m2)) = foldl (\<lambda>m v. put (key v) v m) (m1 @ [(k, v)]) (vals m2)"
    by (simp add: vals_def kv put_new)
  also have "\<dots> = m1 @ kv # m2" using Cons.IH [of "m1 @ [(k, v)]"] Cons.prems by (simp add: kv)
  finally show ?case .
qed

lemma load_map_back:
  "keyed key m \<Longrightarrow> (\<And>x. conv (f x) = Inr x) \<Longrightarrow> load_map conv key (map f (vals m)) [] = Inr m"
  using put_vals [of key "[]" m] by (simp add: load_map_def map_result_back)

end
