(* ===== verification/Fleet_Control.thy ===== *)
theory Fleet_Control
  imports Fleet_Models
begin

text \<open>
  The fleet control plane (\<^verbatim>\<open>src/cloud/fleet_control/control_plane.cpp\<close>): the registry of organizations
  and devices, heartbeats and stale devices, remote commands with delivery, retries, expiry and
  acknowledgement, alerts, health scores, metrics, dashboards, and the store file. Every operation holds the
  one lock, so a history is a sequence of operations. Doubles are real numbers; publishing gauges is not
  modelled. An operation that throws in the middle returns the state it had reached.
\<close>

section \<open>State\<close>

record FleetControlPlane =
  cp_store_path :: string
  cp_file :: "json option"
  cp_heartbeat_timeout_seconds :: int
  cp_organizations :: "(string, Organization) amap"
  cp_regions :: "(string, Region) amap"
  cp_merchants :: "(string, Merchant) amap"
  cp_branches :: "(string, Branch) amap"
  cp_devices :: "(string, DeviceRegistryRecord) amap"
  cp_commands :: "(string, RemoteCommand) amap"
  cp_acknowledged_commands :: "string list"
  cp_alerts :: "FleetAlert list"
  cp_events :: "FleetEvent list"
  cp_heartbeat_latency_sum :: real
  cp_heartbeat_count :: int

definition epoch_string :: "int \<Rightarrow> string" where
  "epoch_string epoch = to_string epoch"

section \<open>The store file\<close>

definition cp_store_json :: "FleetControlPlane \<Rightarrow> json" where
  "cp_store_json s = JObj [(''schema'', JInt 1), (''organizations'', values_json organization_to_json (cp_organizations s)),
     (''regions'', values_json region_to_json (cp_regions s)), (''merchants'', values_json merchant_to_json (cp_merchants s)),
     (''branches'', values_json branch_to_json (cp_branches s)), (''devices'', values_json registry_to_json (cp_devices s)),
     (''commands'', values_json command_to_json (cp_commands s)), (''alerts'', JArr (map alert_to_json (cp_alerts s))),
     (''events'', JArr (map fleet_event_to_json (cp_events s))),
     (''heartbeat_latency_sum'', JReal (cp_heartbeat_latency_sum s)), (''heartbeat_count'', JInt (cp_heartbeat_count s))]"

definition cp_save_locked :: "FleetControlPlane \<Rightarrow> FleetControlPlane" where
  "cp_save_locked s = (if cp_store_path s = [] then s else s\<lparr>cp_file := Some (cp_store_json s)\<rparr>)"

definition cp_load :: "extern \<Rightarrow> FleetControlPlane \<Rightarrow> FleetControlPlane result" where
  "cp_load ext s = (if cp_store_path s = [] then Inr s else case cp_file s of None \<Rightarrow> Inr s | Some j \<Rightarrow>
     bind_result (value_arr ext j ''organizations'' []) (\<lambda>js.
     bind_result (load_map (\<lambda>j. organization_from_json ext j Organization_default) og_organization_id js (cp_organizations s)) (\<lambda>orgs.
     bind_result (value_arr ext j ''regions'' []) (\<lambda>js.
     bind_result (load_map (\<lambda>j. region_from_json ext j Region_default) rg_region_id js (cp_regions s)) (\<lambda>regs.
     bind_result (value_arr ext j ''merchants'' []) (\<lambda>js.
     bind_result (load_map (\<lambda>j. merchant_from_json ext j Merchant_default) mt_merchant_id js (cp_merchants s)) (\<lambda>mers.
     bind_result (value_arr ext j ''branches'' []) (\<lambda>js.
     bind_result (load_map (\<lambda>j. branch_from_json ext j Branch_default) br_branch_id js (cp_branches s)) (\<lambda>brs.
     bind_result (value_arr ext j ''devices'' []) (\<lambda>js.
     bind_result (load_map (\<lambda>j. registry_from_json ext j DeviceRegistryRecord_default) dr_device_id js (cp_devices s)) (\<lambda>devs.
     bind_result (value_arr ext j ''commands'' []) (\<lambda>js.
     bind_result (map_result (\<lambda>j. command_from_json ext j RemoteCommand_default) js) (\<lambda>cmds.
     bind_result (value_with ext (\<lambda>j. alert_from_json ext j FleetAlert_default) j ''alerts'' (cp_alerts s)) (\<lambda>als.
     bind_result (value_with ext (\<lambda>j. fleet_event_from_json ext j FleetEvent_default) j ''events'' (cp_events s)) (\<lambda>evs.
     bind_result (value_real ext j ''heartbeat_latency_sum'' (cp_heartbeat_latency_sum s)) (\<lambda>lat.
     bind_result (value_int ext j ''heartbeat_count'' (cp_heartbeat_count s)) (\<lambda>n.
     Inr (s\<lparr>cp_organizations := orgs, cp_regions := regs, cp_merchants := mers, cp_branches := brs, cp_devices := devs,
       cp_commands := foldl (\<lambda>m v. put (rc_command_id v) v m) (cp_commands s) cmds,
       cp_acknowledged_commands := foldl (\<lambda>a v. if rc_status v = ''acknowledged'' then List.insert (rc_command_id v) a else a)
         (cp_acknowledged_commands s) cmds,
       cp_alerts := als, cp_events := evs, cp_heartbeat_latency_sum := lat, cp_heartbeat_count := n\<rparr>))))))))))))))))))"

text \<open>The constructor.\<close>

definition FleetControlPlane_blank :: "string \<Rightarrow> int \<Rightarrow> json option \<Rightarrow> FleetControlPlane" where
  "FleetControlPlane_blank store_path timeout file = \<lparr>cp_store_path = store_path, cp_file = file,
     cp_heartbeat_timeout_seconds = timeout, cp_organizations = [], cp_regions = [], cp_merchants = [], cp_branches = [],
     cp_devices = [], cp_commands = [], cp_acknowledged_commands = [], cp_alerts = [], cp_events = [],
     cp_heartbeat_latency_sum = 0, cp_heartbeat_count = 0\<rparr>"

definition FleetControlPlane_new :: "extern \<Rightarrow> string \<Rightarrow> int \<Rightarrow> json option \<Rightarrow> FleetControlPlane result" where
  "FleetControlPlane_new ext store_path timeout file = cp_load ext (FleetControlPlane_blank store_path timeout file)"

definition cp_event_locked :: "string \<Rightarrow> string \<Rightarrow> string \<Rightarrow> int \<Rightarrow> json \<Rightarrow> FleetControlPlane \<Rightarrow> FleetControlPlane" where
  "cp_event_locked organization_id device_id type now metadata s =
     s\<lparr>cp_events := cp_events s @ [\<lparr>fe_event_id = id_for ''evt'' (length (cp_events s)), fe_organization_id = organization_id,
       fe_device_id = device_id, fe_type = type, fe_occurred_at = epoch_string now, fe_metadata = metadata\<rparr>]\<rparr>"

section \<open>Hierarchy and registry\<close>

definition upsert_organization :: "Organization \<Rightarrow> FleetControlPlane \<Rightarrow> FleetControlPlane" where
  "upsert_organization org s = cp_save_locked (s\<lparr>cp_organizations := put (og_organization_id org) org (cp_organizations s)\<rparr>)"

definition upsert_region :: "Region \<Rightarrow> FleetControlPlane \<Rightarrow> FleetControlPlane" where
  "upsert_region r s = cp_save_locked (s\<lparr>cp_regions := put (rg_region_id r) r (cp_regions s)\<rparr>)"

definition upsert_merchant :: "Merchant \<Rightarrow> FleetControlPlane \<Rightarrow> FleetControlPlane" where
  "upsert_merchant m s = cp_save_locked (s\<lparr>cp_merchants := put (mt_merchant_id m) m (cp_merchants s)\<rparr>)"

definition upsert_branch :: "Branch \<Rightarrow> FleetControlPlane \<Rightarrow> FleetControlPlane" where
  "upsert_branch b s = cp_save_locked (s\<lparr>cp_branches := put (br_branch_id b) b (cp_branches s)\<rparr>)"

definition organizations :: "string \<Rightarrow> FleetControlPlane \<Rightarrow> Organization list" where
  "organizations tenant_org s = filter (\<lambda>v. tenant_org = [] \<or> og_organization_id v = tenant_org) (vals (cp_organizations s))"

definition merchants :: "string \<Rightarrow> FleetControlPlane \<Rightarrow> Merchant list" where
  "merchants tenant_org s = filter (\<lambda>v. tenant_org = [] \<or> mt_organization_id v = tenant_org) (vals (cp_merchants s))"

definition branches :: "string \<Rightarrow> FleetControlPlane \<Rightarrow> Branch list" where
  "branches tenant_org s = filter (\<lambda>v. tenant_org = [] \<or> br_organization_id v = tenant_org) (vals (cp_branches s))"

definition regions :: "string \<Rightarrow> FleetControlPlane \<Rightarrow> Region list" where
  "regions tenant_org s = filter (\<lambda>v. tenant_org = [] \<or> rg_organization_id v = tenant_org) (vals (cp_regions s))"

definition cp_register_device :: "DeviceRegistryRecord \<Rightarrow> FleetControlPlane \<Rightarrow> bool \<times> FleetControlPlane" where
  "cp_register_device d s =
     (if dr_device_id d = [] \<or> dr_organization_id d = [] then (False, s)
      else (True, cp_save_locked (cp_event_locked (dr_organization_id d) (dr_device_id d) ''device_registered'' 0 JNull
        (s\<lparr>cp_devices := put (dr_device_id d) d (cp_devices s)\<rparr>))))"

definition cp_device :: "string \<Rightarrow> FleetControlPlane \<Rightarrow> DeviceRegistryRecord option" where
  "cp_device device_id s = get (cp_devices s) device_id"

definition has_tag :: "string list \<Rightarrow> string \<Rightarrow> bool" where
  "has_tag tags tag \<longleftrightarrow> tag = [] \<or> tag \<in> set tags"

definition label_matches :: "(string \<times> string) list \<Rightarrow> string \<Rightarrow> string \<Rightarrow> bool" where
  "label_matches labels key v =
     (if key = [] then True else case get labels key of None \<Rightarrow> False | Some x \<Rightarrow> v = [] \<or> x = v)"

definition contains_text :: "DeviceRegistryRecord \<Rightarrow> string \<Rightarrow> bool" where
  "contains_text d txt \<longleftrightarrow> txt = [] \<or> contains txt (dr_device_id d) \<or> contains txt (dr_merchant_id d) \<or>
     contains txt (dr_branch_id d) \<or> contains txt (dr_region d)"

definition tenant_matches :: "DeviceRegistryRecord \<Rightarrow> DeviceFilter \<Rightarrow> bool" where
  "tenant_matches d f \<longleftrightarrow> (df_organization_id f = [] \<or> dr_organization_id d = df_organization_id f) \<and>
     (df_merchant_id f = [] \<or> dr_merchant_id d = df_merchant_id f) \<and>
     (df_branch_id f = [] \<or> dr_branch_id d = df_branch_id f) \<and> (df_region f = [] \<or> dr_region d = df_region f) \<and>
     (df_environment f = [] \<or> dr_environment d = df_environment f) \<and>
     (df_deployment_channel f = [] \<or> dr_deployment_channel d = df_deployment_channel f) \<and>
     (df_health_status f = [] \<or> dr_health_status d = df_health_status f) \<and>
     (df_connectivity_status f = [] \<or> dr_connectivity_status d = df_connectivity_status f) \<and>
     has_tag (dr_tags d) (df_tag f) \<and> label_matches (dr_labels d) (df_label_key f) (df_label_value f) \<and>
     contains_text d (df_text f)"

definition search_devices :: "DeviceFilter \<Rightarrow> FleetControlPlane \<Rightarrow> DeviceRegistryRecord list" where
  "search_devices f s = filter (\<lambda>d. tenant_matches d f) (vals (cp_devices s))"

section \<open>Heartbeats\<close>

definition cp_receive_heartbeat :: "HeartbeatMessage \<Rightarrow> FleetControlPlane \<Rightarrow> bool \<times> FleetControlPlane" where
  "cp_receive_heartbeat h s = (case get (cp_devices s) (hb_device_id h) of None \<Rightarrow> (False, s)
     | Some d0 \<Rightarrow>
       let was_online = dr_connectivity_status d0 = ''online'';
           at_time = epoch_string (hb_received_at_epoch h);
           d = d0\<lparr>dr_connectivity_status := ''online'', dr_last_heartbeat_at := at_time, dr_last_seen_at := at_time\<rparr>;
           s1 = s\<lparr>cp_devices := put (hb_device_id h) d (cp_devices s),
             cp_heartbeat_latency_sum := cp_heartbeat_latency_sum s + hb_latency_ms h,
             cp_heartbeat_count := cp_heartbeat_count s + 1\<rparr>;
           s2 = cp_event_locked (dr_organization_id d) (dr_device_id d) ''heartbeat_received'' (hb_received_at_epoch h)
             (JObj [(''latency_ms'', JReal (hb_latency_ms h))]) s1;
           s3 = (if was_online then s2 else
             cp_event_locked (dr_organization_id d) (dr_device_id d) ''device_online'' (hb_received_at_epoch h) JNull s2)
       in (True, cp_save_locked s3))"

definition last_seen :: "DeviceRegistryRecord \<Rightarrow> int result" where
  "last_seen d = (if dr_last_seen_at d = [] then Inr 0 else stol (dr_last_seen_at d))"

definition offline_alert :: "int \<Rightarrow> DeviceRegistryRecord \<Rightarrow> nat \<Rightarrow> FleetAlert" where
  "offline_alert now d n = \<lparr>fa_alert_id = id_for ''alert'' n, fa_organization_id = dr_organization_id d,
     fa_device_id = dr_device_id d, fa_type = ''offline_device'', fa_severity = ''critical'',
     fa_message = ''device heartbeat is stale'', fa_created_at = epoch_string now, fa_acknowledged = False,
     fa_acknowledged_at = []\<rparr>"

definition mark_stale :: "int \<Rightarrow> string \<Rightarrow> DeviceRegistryRecord \<Rightarrow> FleetControlPlane \<Rightarrow> FleetControlPlane" where
  "mark_stale now k d s =
     (let s1 = cp_event_locked (dr_organization_id d) (dr_device_id d) ''device_offline'' now JNull
            (s\<lparr>cp_devices := put k (d\<lparr>dr_connectivity_status := ''offline''\<rparr>) (cp_devices s)\<rparr>);
          s2 = s1\<lparr>cp_alerts := cp_alerts s1 @ [offline_alert now d (length (cp_alerts s1))]\<rparr>
      in cp_event_locked (dr_organization_id d) (dr_device_id d) ''alert_created'' now
           (JObj [(''type'', JStr ''offline_device'')]) s2)"

fun stale_loop :: "int \<Rightarrow> (string \<times> DeviceRegistryRecord) list \<Rightarrow> int \<Rightarrow> FleetControlPlane \<Rightarrow> int result \<times> FleetControlPlane" where
  "stale_loop now [] n s = (Inr n, s)"
| "stale_loop now ((k, d) # ds) n s = (case last_seen d of Inl e \<Rightarrow> (Inl e, s)
     | Inr last_at \<Rightarrow>
       if dr_connectivity_status d = ''online'' \<and> now - last_at > cp_heartbeat_timeout_seconds s
       then stale_loop now ds (n + 1) (mark_stale now k d s)
       else stale_loop now ds n s)"

definition detect_stale_devices :: "int \<Rightarrow> FleetControlPlane \<Rightarrow> int result \<times> FleetControlPlane" where
  "detect_stale_devices now s = (case stale_loop now (cp_devices s) 0 s of
     (Inl e, s1) \<Rightarrow> (Inl e, s1) | (Inr n, s1) \<Rightarrow> (Inr n, cp_save_locked s1))"

section \<open>Commands\<close>

definition known_command_type :: "string \<Rightarrow> bool" where
  "known_command_type type \<longleftrightarrow> type \<in> {''restart'', ''refresh_config'', ''sync_inventory'', ''pause_transactions'',
     ''resume_transactions'', ''disable_device'', ''enable_device''}"

definition new_command :: "string \<Rightarrow> string \<Rightarrow> string \<Rightarrow> int \<Rightarrow> int \<Rightarrow> int \<Rightarrow> FleetControlPlane \<Rightarrow> RemoteCommand" where
  "new_command organization_id device_id type now ttl max_retries s =
     (let cmd = RemoteCommand_default\<lparr>rc_command_id := id_for ''cmd'' (length (cp_commands s)), rc_organization_id := organization_id,
        rc_device_id := device_id, rc_type := type, rc_created_at := epoch_string now, rc_expires_at_epoch := now + ttl,
        rc_max_retries := max_retries\<rparr>
      in if \<not> known_command_type type \<or> get (cp_devices s) device_id = None
         then cmd\<lparr>rc_status := ''failed'', rc_failure_reason := ''invalid_command''\<rparr> else cmd)"

definition cp_create_command :: "string \<Rightarrow> string \<Rightarrow> string \<Rightarrow> int \<Rightarrow> int \<Rightarrow> int \<Rightarrow> FleetControlPlane \<Rightarrow> RemoteCommand \<times> FleetControlPlane" where
  "cp_create_command organization_id device_id type now ttl max_retries s =
     (let cmd = new_command organization_id device_id type now ttl max_retries s
      in (cmd, cp_save_locked (cp_event_locked organization_id device_id ''command_created'' now
        (JObj [(''command_id'', JStr (rc_command_id cmd))])
        (s\<lparr>cp_commands := put (rc_command_id cmd) cmd (cp_commands s)\<rparr>))))"

definition fail_command :: "string \<Rightarrow> string \<Rightarrow> int \<Rightarrow> string \<Rightarrow> string \<Rightarrow> RemoteCommand \<Rightarrow> FleetControlPlane \<Rightarrow> FleetControlPlane" where
  "fail_command status reason now device_id k cmd s =
     cp_event_locked (rc_organization_id cmd) device_id ''command_failed'' now
       (JObj [(''command_id'', JStr (rc_command_id cmd)), (''reason'', JStr reason)])
       (s\<lparr>cp_commands := put k (cmd\<lparr>rc_status := status, rc_failed_at := epoch_string now, rc_failure_reason := reason\<rparr>)
         (cp_commands s)\<rparr>)"

definition delivered_command :: "int \<Rightarrow> RemoteCommand \<Rightarrow> RemoteCommand" where
  "delivered_command now cmd = cmd\<lparr>rc_retry_count := (if rc_status cmd = ''delivered'' then rc_retry_count cmd + 1 else rc_retry_count cmd),
     rc_status := ''delivered'', rc_delivered_at := epoch_string now\<rparr>"

definition mark_delivered :: "string \<Rightarrow> int \<Rightarrow> string \<Rightarrow> RemoteCommand \<Rightarrow> FleetControlPlane \<Rightarrow> FleetControlPlane" where
  "mark_delivered device_id now k cmd s =
     (let c = delivered_command now cmd
      in cp_event_locked (rc_organization_id c) device_id ''command_delivered'' now
           (JObj [(''command_id'', JStr (rc_command_id c)), (''retry_count'', JInt (rc_retry_count c))])
           (s\<lparr>cp_commands := put k c (cp_commands s)\<rparr>))"

fun deliver_loop :: "string \<Rightarrow> int \<Rightarrow> (string \<times> RemoteCommand) list \<Rightarrow> FleetControlPlane \<Rightarrow> RemoteCommand option \<times> FleetControlPlane" where
  "deliver_loop device_id now [] s = (None, cp_save_locked s)"
| "deliver_loop device_id now ((k, cmd) # cs) s =
     (if rc_device_id cmd \<noteq> device_id \<or> rc_status cmd \<noteq> ''pending'' \<and> rc_status cmd \<noteq> ''delivered''
      then deliver_loop device_id now cs s
      else if rc_command_id cmd \<in> set (cp_acknowledged_commands s) then deliver_loop device_id now cs s
      else if now > rc_expires_at_epoch cmd
      then deliver_loop device_id now cs (fail_command ''expired'' ''expired'' now device_id k cmd s)
      else if rc_status cmd = ''delivered'' \<and> rc_retry_count cmd \<ge> rc_max_retries cmd
      then deliver_loop device_id now cs (fail_command ''failed'' ''max_retries'' now device_id k cmd s)
      else (Some (delivered_command now cmd), cp_save_locked (mark_delivered device_id now k cmd s)))"

definition deliver_next_command :: "string \<Rightarrow> int \<Rightarrow> FleetControlPlane \<Rightarrow> RemoteCommand option \<times> FleetControlPlane" where
  "deliver_next_command device_id now s = deliver_loop device_id now (cp_commands s) s"

definition acknowledge_command :: "string \<Rightarrow> string \<Rightarrow> int \<Rightarrow> FleetControlPlane \<Rightarrow> bool \<times> FleetControlPlane" where
  "acknowledge_command device_id command_id now s = (case get (cp_commands s) command_id of None \<Rightarrow> (False, s)
     | Some c \<Rightarrow>
       if rc_device_id c \<noteq> device_id then (False, s)
       else if command_id \<in> set (cp_acknowledged_commands s) then (False, s)
       else (True, cp_save_locked (cp_event_locked (rc_organization_id c) device_id ''command_acknowledged'' now
         (JObj [(''command_id'', JStr command_id)])
         (s\<lparr>cp_commands := put command_id (c\<lparr>rc_status := ''acknowledged'', rc_acknowledged_at := epoch_string now\<rparr>) (cp_commands s),
           cp_acknowledged_commands := List.insert command_id (cp_acknowledged_commands s)\<rparr>))))"

fun expire_loop :: "int \<Rightarrow> (string \<times> RemoteCommand) list \<Rightarrow> int \<Rightarrow> FleetControlPlane \<Rightarrow> int \<times> FleetControlPlane" where
  "expire_loop now [] n s = (n, s)"
| "expire_loop now ((k, cmd) # cs) n s =
     (if (rc_status cmd = ''pending'' \<or> rc_status cmd = ''delivered'') \<and> now > rc_expires_at_epoch cmd
      then expire_loop now cs (n + 1) (fail_command ''expired'' ''expired'' now (rc_device_id cmd) k cmd s)
      else expire_loop now cs n s)"

definition expire_commands :: "int \<Rightarrow> FleetControlPlane \<Rightarrow> int \<times> FleetControlPlane" where
  "expire_commands now s = (let (n, s1) = expire_loop now (cp_commands s) 0 s in (n, cp_save_locked s1))"

definition cp_command_list :: "string \<Rightarrow> string \<Rightarrow> FleetControlPlane \<Rightarrow> RemoteCommand list" where
  "cp_command_list organization_id device_id s =
     filter (\<lambda>c. (organization_id = [] \<or> rc_organization_id c = organization_id) \<and> (device_id = [] \<or> rc_device_id c = device_id))
       (vals (cp_commands s))"

section \<open>Alerts\<close>

definition create_alert :: "string \<Rightarrow> string \<Rightarrow> string \<Rightarrow> string \<Rightarrow> string \<Rightarrow> int \<Rightarrow> FleetControlPlane \<Rightarrow> FleetAlert \<times> FleetControlPlane" where
  "create_alert organization_id device_id type severity message now s =
     (let a = \<lparr>fa_alert_id = id_for ''alert'' (length (cp_alerts s)), fa_organization_id = organization_id, fa_device_id = device_id,
        fa_type = type, fa_severity = severity, fa_message = message, fa_created_at = epoch_string now, fa_acknowledged = False,
        fa_acknowledged_at = []\<rparr>
      in (a, cp_save_locked (cp_event_locked organization_id device_id ''alert_created'' now (JObj [(''type'', JStr type)])
        (s\<lparr>cp_alerts := cp_alerts s @ [a]\<rparr>))))"

fun ack_first :: "string \<Rightarrow> string \<Rightarrow> int \<Rightarrow> FleetAlert list \<Rightarrow> (FleetAlert \<times> FleetAlert list) option" where
  "ack_first organization_id alert_id now [] = None"
| "ack_first organization_id alert_id now (a # as) =
     (if fa_alert_id a = alert_id \<and> fa_organization_id a = organization_id \<and> \<not> fa_acknowledged a
      then Some (a, a\<lparr>fa_acknowledged := True, fa_acknowledged_at := epoch_string now\<rparr> # as)
      else map_option (\<lambda>(x, as'). (x, a # as')) (ack_first organization_id alert_id now as))"

definition acknowledge_alert :: "string \<Rightarrow> string \<Rightarrow> int \<Rightarrow> FleetControlPlane \<Rightarrow> bool \<times> FleetControlPlane" where
  "acknowledge_alert organization_id alert_id now s = (case ack_first organization_id alert_id now (cp_alerts s) of
     None \<Rightarrow> (False, s)
   | Some (a, as) \<Rightarrow> (True, cp_save_locked (cp_event_locked organization_id (fa_device_id a) ''alert_acknowledged'' now
       (JObj [(''alert_id'', JStr alert_id)]) (s\<lparr>cp_alerts := as\<rparr>))))"

definition cp_alert_list :: "string \<Rightarrow> bool \<Rightarrow> FleetControlPlane \<Rightarrow> FleetAlert list" where
  "cp_alert_list organization_id include_acknowledged s =
     filter (\<lambda>a. (organization_id = [] \<or> fa_organization_id a = organization_id) \<and> (include_acknowledged \<or> \<not> fa_acknowledged a))
       (cp_alerts s)"

section \<open>Health, metrics, dashboards\<close>

definition certificate_score :: "string \<Rightarrow> int" where
  "certificate_score st = (if st = ''active'' then 100 else if st = ''pending'' then 80 else 0)"

definition cp_health :: "string \<Rightarrow> FleetControlPlane \<Rightarrow> FleetHealthSummary" where
  "cp_health organization_id s =
     (let ds = filter (\<lambda>d. organization_id = [] \<or> dr_organization_id d = organization_id) (vals (cp_devices s));
          n = int (length ds);
          device_score = sum_list (map dr_health_score ds) sdiv n;
          comm_score = sum_list (map (\<lambda>d. if dr_connectivity_status d = ''online'' then 100 else 0) ds) sdiv n;
          sync_score = sum_list (map (\<lambda>d. max 0 (100 - dr_sync_failures d * 20)) ds) sdiv n;
          ota_score = sum_list (map (\<lambda>d. max 0 (100 - dr_ota_failures d * 25)) ds) sdiv n;
          cert_score = sum_list (map (\<lambda>d. certificate_score (dr_certificate_identity_status d)) ds) sdiv n
      in if n > 0 then \<lparr>fh_device_health_score = device_score, fh_communication_health_score = comm_score,
           fh_sync_health_score = sync_score, fh_ota_health_score = ota_score, fh_certificate_health_score = cert_score,
           fh_aggregate_score = (device_score + comm_score + sync_score + ota_score + cert_score) sdiv 5\<rparr>
         else FleetHealthSummary_default)"

definition tally :: "string list \<Rightarrow> (string \<times> int) list" where
  "tally ks = foldl (\<lambda>m k. sput k (count_at m k + 1) m) [] ks"

definition ratio :: "nat \<Rightarrow> nat \<Rightarrow> real" where
  "ratio a b = (if b = 0 then 0 else real a / real b)"

definition cp_metrics :: "string \<Rightarrow> FleetControlPlane \<Rightarrow> FleetMetrics" where
  "cp_metrics organization_id s =
     (let ds = filter (\<lambda>d. organization_id = [] \<or> dr_organization_id d = organization_id) (vals (cp_devices s));
          cs = filter (\<lambda>c. organization_id = [] \<or> rc_organization_id c = organization_id) (vals (cp_commands s));
          as = filter (\<lambda>a. organization_id = [] \<or> fa_organization_id a = organization_id) (cp_alerts s);
          online = length (filter (\<lambda>d. dr_connectivity_status d = ''online'') ds)
      in \<lparr>fm_online_devices = int online,
           fm_offline_devices = int (length (filter (\<lambda>d. dr_connectivity_status d = ''offline'') ds)),
           fm_command_success_rate = ratio (length (filter (\<lambda>c. rc_status c = ''acknowledged'') cs)) (length cs),
           fm_command_failure_rate = ratio (length (filter (\<lambda>c. rc_status c = ''failed'' \<or> rc_status c = ''expired'') cs)) (length cs),
           fm_average_heartbeat_latency_ms =
             (if cp_heartbeat_count s = 0 then 0 else cp_heartbeat_latency_sum s / of_int (cp_heartbeat_count s)),
           fm_fleet_availability = ratio online (length ds),
           fm_alert_counts = tally (map fa_severity (filter (\<lambda>a. \<not> fa_acknowledged a) as)),
           fm_sync_success_count = int (length (filter (\<lambda>d. dr_sync_failures d = 0) ds)),
           fm_sync_failure_count = sum_list (map dr_sync_failures ds)\<rparr>)"

definition scope_filter :: "string \<Rightarrow> string \<Rightarrow> DeviceFilter" where
  "scope_filter scope_type scope_id =
     (if scope_type = ''organization'' then DeviceFilter_default\<lparr>df_organization_id := scope_id\<rparr>
      else if scope_type = ''merchant'' then DeviceFilter_default\<lparr>df_merchant_id := scope_id\<rparr>
      else if scope_type = ''branch'' then DeviceFilter_default\<lparr>df_branch_id := scope_id\<rparr>
      else if scope_type = ''region'' then DeviceFilter_default\<lparr>df_region := scope_id\<rparr>
      else DeviceFilter_default)"

definition dashboard :: "string \<Rightarrow> string \<Rightarrow> FleetControlPlane \<Rightarrow> DashboardView" where
  "dashboard scope_type scope_id s =
     (let ds = search_devices (scope_filter scope_type scope_id) s;
          org = (if scope_type = ''organization'' then scope_id else [])
      in \<lparr>dv_scope_type = scope_type, dv_scope_id = scope_id, dv_device_count = int (length ds),
           dv_online_devices = int (length (filter (\<lambda>d. dr_connectivity_status d = ''online'') ds)),
           dv_offline_devices = int (length (filter (\<lambda>d. dr_connectivity_status d = ''offline'') ds)),
           dv_firmware_distribution = tally (map dr_firmware_version ds),
           dv_health = cp_health org s, dv_alert_summary = tally (map fa_severity (cp_alert_list org False s))\<rparr>)"

definition cp_event_list :: "string \<Rightarrow> FleetControlPlane \<Rightarrow> FleetEvent list" where
  "cp_event_list organization_id s = filter (\<lambda>e. organization_id = [] \<or> fe_organization_id e = organization_id) (cp_events s)"

section \<open>Histories\<close>

datatype fc_op = Upsert_organization Organization | Upsert_region Region | Upsert_merchant Merchant | Upsert_branch Branch
  | Register_device DeviceRegistryRecord | Heartbeat HeartbeatMessage | Detect_stale int
  | Create_command string string string int int int | Deliver_next string int | Acknowledge string string int | Expire int
  | Create_alert string string string string string int | Acknowledge_alert string string int

fun fc_step :: "fc_op \<Rightarrow> FleetControlPlane \<Rightarrow> FleetControlPlane" where
  "fc_step (Upsert_organization v) s = upsert_organization v s"
| "fc_step (Upsert_region v) s = upsert_region v s"
| "fc_step (Upsert_merchant v) s = upsert_merchant v s"
| "fc_step (Upsert_branch v) s = upsert_branch v s"
| "fc_step (Register_device d) s = snd (cp_register_device d s)"
| "fc_step (Heartbeat h) s = snd (cp_receive_heartbeat h s)"
| "fc_step (Detect_stale now) s = snd (detect_stale_devices now s)"
| "fc_step (Create_command org dev type now ttl retries) s = snd (cp_create_command org dev type now ttl retries s)"
| "fc_step (Deliver_next dev now) s = snd (deliver_next_command dev now s)"
| "fc_step (Acknowledge dev cid now) s = snd (acknowledge_command dev cid now s)"
| "fc_step (Expire now) s = snd (expire_commands now s)"
| "fc_step (Create_alert org dev type sev msg now) s = snd (create_alert org dev type sev msg now s)"
| "fc_step (Acknowledge_alert org aid now) s = snd (acknowledge_alert org aid now s)"

inductive fc_reach :: "FleetControlPlane \<Rightarrow> FleetControlPlane \<Rightarrow> bool" for s0 where
  start: "fc_reach s0 s0"
| step: "fc_reach s0 s \<Longrightarrow> fc_reach s0 (fc_step x s)"

text \<open>How often a command was handed to its device, read off the event log.\<close>

definition is_delivery :: "string \<Rightarrow> FleetEvent \<Rightarrow> bool" where
  "is_delivery cid e \<longleftrightarrow> fe_type e = ''command_delivered'' \<and>
     (case fe_metadata e of JObj ((k, JStr i) # _) \<Rightarrow> k = ''command_id'' \<and> i = cid | _ \<Rightarrow> False)"

definition deliveries :: "string \<Rightarrow> FleetControlPlane \<Rightarrow> nat" where
  "deliveries cid s = length (filter (is_delivery cid) (cp_events s))"

lemma cp_save_fields [simp]:
  "cp_organizations (cp_save_locked s) = cp_organizations s" "cp_regions (cp_save_locked s) = cp_regions s"
  "cp_merchants (cp_save_locked s) = cp_merchants s" "cp_branches (cp_save_locked s) = cp_branches s"
  "cp_devices (cp_save_locked s) = cp_devices s" "cp_commands (cp_save_locked s) = cp_commands s"
  "cp_acknowledged_commands (cp_save_locked s) = cp_acknowledged_commands s" "cp_alerts (cp_save_locked s) = cp_alerts s"
  "cp_events (cp_save_locked s) = cp_events s" "cp_heartbeat_latency_sum (cp_save_locked s) = cp_heartbeat_latency_sum s"
  "cp_heartbeat_count (cp_save_locked s) = cp_heartbeat_count s" "cp_store_path (cp_save_locked s) = cp_store_path s"
  "cp_heartbeat_timeout_seconds (cp_save_locked s) = cp_heartbeat_timeout_seconds s" "deliveries cid (cp_save_locked s) = deliveries cid s"
  by (simp_all add: cp_save_locked_def deliveries_def)

lemma cp_event_fields [simp]:
  "cp_organizations (cp_event_locked org dev t now m s) = cp_organizations s" "cp_regions (cp_event_locked org dev t now m s) = cp_regions s"
  "cp_merchants (cp_event_locked org dev t now m s) = cp_merchants s" "cp_branches (cp_event_locked org dev t now m s) = cp_branches s"
  "cp_devices (cp_event_locked org dev t now m s) = cp_devices s" "cp_commands (cp_event_locked org dev t now m s) = cp_commands s"
  "cp_acknowledged_commands (cp_event_locked org dev t now m s) = cp_acknowledged_commands s"
  "cp_alerts (cp_event_locked org dev t now m s) = cp_alerts s"
  "cp_heartbeat_timeout_seconds (cp_event_locked org dev t now m s) = cp_heartbeat_timeout_seconds s"
  "t \<noteq> ''command_delivered'' \<Longrightarrow> deliveries cid (cp_event_locked org dev t now m s) = deliveries cid s"
  by (simp_all add: cp_event_locked_def deliveries_def is_delivery_def)

lemma deliveries_event:
  "deliveries cid (cp_event_locked org dev ''command_delivered'' now (JObj ((''command_id'', JStr i) # m)) s) =
     deliveries cid s + (if i = cid then 1 else 0)"
  by (simp add: cp_event_locked_def deliveries_def is_delivery_def)

lemma deliveries_update [simp]:
  "deliveries cid (s\<lparr>cp_organizations := a1\<rparr>) = deliveries cid s" "deliveries cid (s\<lparr>cp_regions := a2\<rparr>) = deliveries cid s"
  "deliveries cid (s\<lparr>cp_merchants := a3\<rparr>) = deliveries cid s" "deliveries cid (s\<lparr>cp_branches := a4\<rparr>) = deliveries cid s"
  "deliveries cid (s\<lparr>cp_devices := a5\<rparr>) = deliveries cid s" "deliveries cid (s\<lparr>cp_commands := a6\<rparr>) = deliveries cid s"
  "deliveries cid (s\<lparr>cp_acknowledged_commands := a7\<rparr>) = deliveries cid s" "deliveries cid (s\<lparr>cp_alerts := a8\<rparr>) = deliveries cid s"
  "deliveries cid (s\<lparr>cp_heartbeat_latency_sum := a9\<rparr>) = deliveries cid s" "deliveries cid (s\<lparr>cp_heartbeat_count := b1\<rparr>) = deliveries cid s"
  by (simp_all add: deliveries_def)

section \<open>The invariant of the command table\<close>

text \<open>What the retry counter says of a command that was handed out \<open>n\<close> times.\<close>

definition cmd_ok :: "nat \<Rightarrow> RemoteCommand \<Rightarrow> bool" where
  "cmd_ok n c \<longleftrightarrow> (rc_delivered_at c = [] \<longleftrightarrow> n = 0) \<and> rc_retry_count c = int (n - 1) \<and>
     rc_retry_count c \<le> max 0 (rc_max_retries c) \<and> (rc_status c = ''pending'' \<longrightarrow> n = 0) \<and> (rc_status c = ''delivered'' \<longrightarrow> 0 < n)"

definition commands_inv :: "FleetControlPlane \<Rightarrow> bool" where
  "commands_inv s \<longleftrightarrow> map fst (cp_commands s) = map (id_for ''cmd'') [0..<length (cp_commands s)] \<and>
     (\<forall>k c. get (cp_commands s) k = Some c \<longrightarrow> rc_command_id c = k \<and> cmd_ok (deliveries k s) c) \<and>
     (\<forall>k. get (cp_commands s) k = None \<longrightarrow> deliveries k s = 0) \<and>
     (\<forall>k. k \<in> set (cp_acknowledged_commands s) \<longleftrightarrow> (\<exists>c. get (cp_commands s) k = Some c \<and> rc_status c = ''acknowledged''))"

lemma keys_put: "map fst (put k v m) = (if k \<in> set (map fst m) then map fst m else map fst m @ [k])"
  by (simp add: put_def update_keys)

lemma get_keys: "get m k = None \<longleftrightarrow> k \<notin> set (map fst m)"
  by (simp add: get_def map_of_eq_None_iff)

lemma get_absent: "k \<notin> fst ` set m \<Longrightarrow> get m k = None"
  by (simp add: get_keys)

lemma length_put: "length (put k v m) = (if k \<in> set (map fst m) then length m else Suc (length m))"
  using arg_cong [OF keys_put [of k v m], of length] by (simp split: if_splits)

lemma command_keys_distinct: "commands_inv s \<Longrightarrow> distinct (map fst (cp_commands s))"
  by (simp add: commands_inv_def distinct_map inj_on_def)

lemma commands_inv_get: "commands_inv s \<Longrightarrow> get (cp_commands s) k = Some c \<Longrightarrow> rc_command_id c = k \<and> cmd_ok (deliveries k s) c"
  by (simp add: commands_inv_def)

lemma commands_inv_cong:
  "commands_inv s \<Longrightarrow> cp_commands s1 = cp_commands s \<Longrightarrow> cp_acknowledged_commands s1 = cp_acknowledged_commands s \<Longrightarrow>
     (\<And>k. deliveries k s1 = deliveries k s) \<Longrightarrow> commands_inv s1"
  by (simp add: commands_inv_def)

text \<open>Replacing one entry, with the event that goes with it.\<close>

lemma commands_inv_touch:
  assumes "commands_inv s" "get (cp_commands s) k = Some c" "cp_commands s1 = put k c1 (cp_commands s)"
    and "rc_command_id c1 = k" "cmd_ok (deliveries k s1) c1" "\<And>k'. k' \<noteq> k \<Longrightarrow> deliveries k' s1 = deliveries k' s"
    and "\<And>k'. k' \<in> set (cp_acknowledged_commands s1) \<longleftrightarrow>
      (if k' = k then rc_status c1 = ''acknowledged'' else k' \<in> set (cp_acknowledged_commands s))"
  shows "commands_inv s1"
proof -
  have "k \<in> set (map fst (cp_commands s))" using assms(2) get_keys [of "cp_commands s" k] by auto
  then have "map fst (cp_commands s1) = map fst (cp_commands s)" "length (cp_commands s1) = length (cp_commands s)"
    by (auto simp: assms(3) keys_put length_put)
  then show ?thesis using assms(1,4-7) by (auto simp: commands_inv_def assms(3) split: if_splits)
qed

lemma fail_inv:
  assumes "commands_inv s" "get (cp_commands s) k = Some c" "rc_status c = ''pending'' \<or> rc_status c = ''delivered''"
    and "st = ''expired'' \<or> st = ''failed''"
  shows "commands_inv (fail_command st reason now dev k c s)"
proof (rule commands_inv_touch [OF assms(1,2)])
  show "cp_commands (fail_command st reason now dev k c s) =
      put k (c\<lparr>rc_status := st, rc_failed_at := epoch_string now, rc_failure_reason := reason\<rparr>) (cp_commands s)"
    by (simp add: fail_command_def)
  have "rc_command_id c = k \<and> cmd_ok (deliveries k s) c" using commands_inv_get [OF assms(1,2)] .
  then show "rc_command_id (c\<lparr>rc_status := st, rc_failed_at := epoch_string now, rc_failure_reason := reason\<rparr>) = k"
    "cmd_ok (deliveries k (fail_command st reason now dev k c s))
       (c\<lparr>rc_status := st, rc_failed_at := epoch_string now, rc_failure_reason := reason\<rparr>)"
    using assms(4) by (auto simp: fail_command_def cmd_ok_def)
  show "k' \<in> set (cp_acknowledged_commands (fail_command st reason now dev k c s)) \<longleftrightarrow>
    (if k' = k then rc_status (c\<lparr>rc_status := st, rc_failed_at := epoch_string now, rc_failure_reason := reason\<rparr>) = ''acknowledged''
     else k' \<in> set (cp_acknowledged_commands s))" for k'
    using assms by (auto simp: fail_command_def commands_inv_def)
qed (simp add: fail_command_def)

lemma epoch_string_nonempty [simp]: "epoch_string t \<noteq> []"
  by (simp add: epoch_string_def)

lemma deliver_inv:
  assumes "commands_inv s" "get (cp_commands s) k = Some c" "rc_status c = ''pending'' \<or> rc_status c = ''delivered''"
    and "rc_status c = ''delivered'' \<longrightarrow> rc_retry_count c < rc_max_retries c"
  shows "commands_inv (mark_delivered dev now k c s)"
proof (rule commands_inv_touch [OF assms(1,2)])
  have c: "rc_command_id c = k \<and> cmd_ok (deliveries k s) c" using commands_inv_get [OF assms(1,2)] .
  show "cp_commands (mark_delivered dev now k c s) = put k (delivered_command now c) (cp_commands s)"
    by (simp add: mark_delivered_def Let_def)
  have d: "deliveries k' (mark_delivered dev now k c s) = deliveries k' s + (if k' = k then 1 else 0)" for k'
    using c by (simp add: mark_delivered_def Let_def deliveries_event delivered_command_def)
  show "rc_command_id (delivered_command now c) = k" using c by (simp add: delivered_command_def)
  show "cmd_ok (deliveries k (mark_delivered dev now k c s)) (delivered_command now c)"
    using c assms(3,4) by (auto simp: d cmd_ok_def delivered_command_def)
  show "k' \<noteq> k \<Longrightarrow> deliveries k' (mark_delivered dev now k c s) = deliveries k' s" for k' by (simp add: d)
  show "k' \<in> set (cp_acknowledged_commands (mark_delivered dev now k c s)) \<longleftrightarrow>
    (if k' = k then rc_status (delivered_command now c) = ''acknowledged'' else k' \<in> set (cp_acknowledged_commands s))" for k'
    using assms(1-3) by (auto simp: mark_delivered_def Let_def delivered_command_def commands_inv_def)
qed

text \<open>An acknowledged command is frozen: neither its entry nor its deliveries change.\<close>

definition frozen :: "FleetControlPlane \<Rightarrow> FleetControlPlane \<Rightarrow> bool" where
  "frozen s s1 \<longleftrightarrow> (\<forall>k c. get (cp_commands s) k = Some c \<and> rc_status c = ''acknowledged'' \<longrightarrow>
     get (cp_commands s1) k = Some c \<and> deliveries k s1 = deliveries k s)"

lemma frozen_refl [simp]: "frozen s s"
  by (simp add: frozen_def)

lemma frozen_trans [trans]: "frozen s s1 \<Longrightarrow> frozen s1 s2 \<Longrightarrow> frozen s s2"
  unfolding frozen_def by metis

lemma frozen_save [simp]: "frozen s (cp_save_locked s1) = frozen s s1"
  by (simp add: frozen_def)

lemma commands_inv_save [simp]: "commands_inv (cp_save_locked s) = commands_inv s"
  by (simp add: commands_inv_def)

text \<open>The entries a loop has still to visit are those of the table.\<close>

definition current :: "(string \<times> RemoteCommand) list \<Rightarrow> FleetControlPlane \<Rightarrow> bool" where
  "current cs s \<longleftrightarrow> distinct (map fst cs) \<and> (\<forall>(k, c)\<in>set cs. get (cp_commands s) k = Some c)"

lemma current_table: "commands_inv s \<Longrightarrow> current (cp_commands s) s"
  using command_keys_distinct [of s] by (auto simp: current_def intro: in_set_get)

lemma current_Cons: "current ((k, c) # cs) s \<Longrightarrow> get (cp_commands s) k = Some c \<and> current cs s"
  by (auto simp: current_def)

lemma current_fail: "current ((k, c) # cs) s \<Longrightarrow> current cs (fail_command st reason now dev k c s)"
  by (force simp: current_def fail_command_def)

lemma frozen_fail:
  assumes "get (cp_commands s) k = Some c" "rc_status c \<noteq> ''acknowledged''" "frozen (fail_command st reason now dev k c s) s2"
  shows "frozen s s2"
proof -
  have "frozen s (fail_command st reason now dev k c s)" using assms(1,2) by (auto simp: frozen_def fail_command_def)
  then show ?thesis using assms(3) by (rule frozen_trans)
qed

lemma frozen_deliver:
  "get (cp_commands s) k = Some c \<Longrightarrow> rc_command_id c = k \<Longrightarrow> rc_status c \<noteq> ''acknowledged'' \<Longrightarrow>
     frozen s (mark_delivered dev now k c s)"
  by (auto simp: frozen_def mark_delivered_def Let_def deliveries_event delivered_command_def)

lemma deliver_loop_inv:
  "commands_inv s \<Longrightarrow> current cs s \<Longrightarrow>
     commands_inv (snd (deliver_loop dev now cs s)) \<and> frozen s (snd (deliver_loop dev now cs s))"
proof (induction dev now cs s rule: deliver_loop.induct)
  case (2 dev now k c cs s)
  note cur = current_Cons [OF "2.prems"(2)]
  have id: "rc_command_id c = k" using "2.prems"(1) cur by (simp add: commands_inv_def)
  consider (skip) "rc_device_id c \<noteq> dev \<or> rc_status c \<noteq> ''pending'' \<and> rc_status c \<noteq> ''delivered''"
    | (live) "rc_device_id c = dev" "rc_status c = ''pending'' \<or> rc_status c = ''delivered''" by blast
  then show ?case
  proof cases
    case skip
    then show ?thesis using "2.IH"(1) "2.prems"(1) cur by simp
  next
    case live
    then have st: "rc_status c \<noteq> ''acknowledged''" by auto
    then have na: "rc_command_id c \<notin> set (cp_acknowledged_commands s)"
      using "2.prems"(1) cur id by (auto simp: commands_inv_def)
    note fails = fail_inv [OF "2.prems"(1) conjunct1 [OF cur] live(2)] current_fail [OF "2.prems"(2)]
      frozen_fail [OF conjunct1 [OF cur] st]
    show ?thesis
    proof (cases "now > rc_expires_at_epoch c")
      case True
      then show ?thesis using "2.IH"(3) live na fails by auto
    next
      case False
      show ?thesis
      proof (cases "rc_status c = ''delivered'' \<and> rc_retry_count c \<ge> rc_max_retries c")
        case True
        then show ?thesis using "2.IH"(4) live na fails False by auto
      next
        case f: False
        then have "commands_inv (mark_delivered dev now k c s)" "frozen s (mark_delivered dev now k c s)"
          using deliver_inv [OF "2.prems"(1) conjunct1 [OF cur] live(2)] frozen_deliver [OF conjunct1 [OF cur] id st] by auto
        then show ?thesis using live na False f by auto
      qed
    qed
  qed
qed simp

lemma expire_loop_inv:
  "commands_inv s \<Longrightarrow> current cs s \<Longrightarrow> commands_inv (snd (expire_loop now cs n s)) \<and> frozen s (snd (expire_loop now cs n s))"
proof (induction now cs n s rule: expire_loop.induct)
  case (2 now k c cs n s)
  note cur = current_Cons [OF "2.prems"(2)]
  show ?case
  proof (cases "(rc_status c = ''pending'' \<or> rc_status c = ''delivered'') \<and> now > rc_expires_at_epoch c")
    case True
    then have "rc_status c \<noteq> ''acknowledged''" by auto
    with True show ?thesis
      using "2.IH"(1) fail_inv [OF "2.prems"(1) conjunct1 [OF cur]] current_fail [OF "2.prems"(2)]
        frozen_fail [OF conjunct1 [OF cur]] by auto
  next
    case False
    then show ?thesis using "2.IH"(2) "2.prems"(1) cur by auto
  qed
qed simp

lemma acknowledge_inv:
  assumes "commands_inv s"
  shows "commands_inv (snd (acknowledge_command dev cid now s)) \<and> frozen s (snd (acknowledge_command dev cid now s))"
proof (cases "\<exists>c. get (cp_commands s) cid = Some c \<and> rc_device_id c = dev \<and> cid \<notin> set (cp_acknowledged_commands s)")
  case True
  then obtain c where c: "get (cp_commands s) cid = Some c" "rc_device_id c = dev" "cid \<notin> set (cp_acknowledged_commands s)" by blast
  then have st: "rc_status c \<noteq> ''acknowledged''" using assms by (auto simp: commands_inv_def)
  let ?c = "c\<lparr>rc_status := ''acknowledged'', rc_acknowledged_at := epoch_string now\<rparr>"
  let ?s = "snd (acknowledge_command dev cid now s)"
  have eq: "cp_commands ?s = put cid ?c (cp_commands s)" "\<And>k. deliveries k ?s = deliveries k s"
    "set (cp_acknowledged_commands ?s) = insert cid (set (cp_acknowledged_commands s))"
    using c by (simp_all add: acknowledge_command_def)
  have ok: "rc_command_id ?c = cid" "cmd_ok (deliveries cid ?s) ?c"
    using commands_inv_get [OF assms c(1)] by (auto simp: cmd_ok_def eq(2))
  have "commands_inv ?s"
    by (rule commands_inv_touch [OF assms c(1) eq(1) ok]) (auto simp: eq)
  moreover have "frozen s ?s" using st c(1) by (auto simp: frozen_def eq)
  ultimately show ?thesis by blast
next
  case False
  then show ?thesis using assms by (auto simp: acknowledge_command_def split: option.splits)
qed

lemma create_inv:
  assumes "commands_inv s"
  shows "commands_inv (snd (cp_create_command org dev type now ttl retries s)) \<and>
    frozen s (snd (cp_create_command org dev type now ttl retries s))"
proof -
  let ?c = "new_command org dev type now ttl retries s" and ?s = "snd (cp_create_command org dev type now ttl retries s)"
  let ?k = "id_for ''cmd'' (length (cp_commands s))"
  have k: "rc_command_id ?c = ?k" "rc_delivered_at ?c = []" "rc_retry_count ?c = 0" "rc_status ?c = ''pending'' \<or> rc_status ?c = ''failed''"
    by (auto simp: new_command_def Let_def RemoteCommand_default_def)
  have new: "?k \<notin> set (map fst (cp_commands s))" using assms by (auto simp: commands_inv_def)
  then have n: "get (cp_commands s) ?k = None" by (simp add: get_keys)
  have eq: "cp_commands ?s = cp_commands s @ [(?k, ?c)]" "\<And>k. deliveries k ?s = deliveries k s"
    "cp_acknowledged_commands ?s = cp_acknowledged_commands s"
    using new by (simp_all add: cp_create_command_def Let_def k put_new)
  have g: "get (cp_commands ?s) k' = (if k' = ?k then Some ?c else get (cp_commands s) k')" for k'
    using new by (simp add: cp_create_command_def Let_def k)
  have "cmd_ok 0 ?c" using k by (auto simp: cmd_ok_def)
  moreover have "map fst (cp_commands ?s) = map (id_for ''cmd'') [0..<length (cp_commands ?s)]"
    using assms by (simp add: eq(1) commands_inv_def)
  ultimately have "commands_inv ?s"
    using assms k n unfolding commands_inv_def by (auto simp: g eq(2,3))
  moreover have "frozen s ?s" using n by (auto simp: frozen_def g eq(2))
  ultimately show ?thesis by blast
qed

text \<open>The other operations leave the command table and the deliveries alone.\<close>

definition same_commands :: "FleetControlPlane \<Rightarrow> FleetControlPlane \<Rightarrow> bool" where
  "same_commands s s1 \<longleftrightarrow> cp_commands s1 = cp_commands s \<and> cp_acknowledged_commands s1 = cp_acknowledged_commands s \<and>
     (\<forall>k. deliveries k s1 = deliveries k s)"

lemma same_commands_inv: "commands_inv s \<Longrightarrow> same_commands s s1 \<Longrightarrow> commands_inv s1 \<and> frozen s s1"
  by (auto simp: same_commands_def frozen_def intro: commands_inv_cong)

lemma stale_loop_same: "same_commands s (snd (stale_loop now ds n s))"
proof (induction now ds n s rule: stale_loop.induct)
  case (2 now k d ds n s)
  have "same_commands s (mark_stale now k d s)" by (simp add: same_commands_def mark_stale_def Let_def)
  with 2 show ?case by (auto simp: same_commands_def split: sum.splits)
qed (simp add: same_commands_def)

lemma other_ops_same:
  "same_commands s (fc_step x s)"
  if "\<And>org dev type now ttl retries. x \<noteq> Create_command org dev type now ttl retries" "\<And>dev now. x \<noteq> Deliver_next dev now"
    "\<And>dev cid now. x \<noteq> Acknowledge dev cid now" "\<And>now. x \<noteq> Expire now"
proof (cases x)
  case (Detect_stale now)
  then show ?thesis
    using stale_loop_same [of s now "cp_devices s" 0]
    by (auto simp: detect_stale_devices_def same_commands_def split: prod.splits sum.splits)
qed (use that in \<open>auto simp: same_commands_def upsert_organization_def upsert_region_def upsert_merchant_def upsert_branch_def
    cp_register_device_def cp_receive_heartbeat_def create_alert_def acknowledge_alert_def Let_def split: option.splits\<close>)

lemma fc_step_inv: "commands_inv s \<Longrightarrow> commands_inv (fc_step x s) \<and> frozen s (fc_step x s)"
proof (cases "(\<exists>org dev type now ttl retries. x = Create_command org dev type now ttl retries) \<or> (\<exists>dev now. x = Deliver_next dev now)
    \<or> (\<exists>dev cid now. x = Acknowledge dev cid now) \<or> (\<exists>now. x = Expire now)")
  case True
  assume "commands_inv s"
  with True show ?thesis
    using create_inv deliver_loop_inv [OF _ current_table] acknowledge_inv expire_loop_inv [OF _ current_table]
    by (auto simp: deliver_next_command_def expire_commands_def split: prod.splits; metis snd_conv)
next
  case False
  assume "commands_inv s"
  then show ?thesis using same_commands_inv other_ops_same [of x s] False by auto
qed

lemma fc_reach_inv: "fc_reach s0 s \<Longrightarrow> commands_inv s0 \<Longrightarrow> commands_inv s \<and> frozen s0 s"
  by (induction rule: fc_reach.induct) (auto dest: fc_step_inv intro: frozen_trans)

lemma blank_commands_inv: "commands_inv (FleetControlPlane_blank p t f)"
  by (simp add: commands_inv_def FleetControlPlane_blank_def deliveries_def)

section \<open>The other maps\<close>

definition maps_keyed :: "FleetControlPlane \<Rightarrow> bool" where
  "maps_keyed s \<longleftrightarrow> keyed og_organization_id (cp_organizations s) \<and> keyed rg_region_id (cp_regions s) \<and>
     keyed mt_merchant_id (cp_merchants s) \<and> keyed br_branch_id (cp_branches s) \<and> keyed dr_device_id (cp_devices s)"

lemma maps_keyed_save [simp]: "maps_keyed (cp_save_locked s) = maps_keyed s"
  by (simp add: maps_keyed_def)

lemma maps_keyed_event [simp]: "maps_keyed (cp_event_locked org dev t now m s) = maps_keyed s"
  by (simp add: maps_keyed_def)

lemma stale_loop_keyed:
  "maps_keyed s \<Longrightarrow> \<forall>(k, d)\<in>set ds. dr_device_id d = k \<Longrightarrow> maps_keyed (snd (stale_loop now ds n s))"
proof (induction now ds n s rule: stale_loop.induct)
  case (2 now k d ds n s)
  then have "maps_keyed (mark_stale now k d s)" by (auto simp: mark_stale_def Let_def maps_keyed_def)
  with 2 show ?case by (auto split: sum.splits)
qed simp

lemma command_ops_maps:
  "maps_keyed (snd (deliver_loop dev now cs s)) = maps_keyed s" "maps_keyed (snd (expire_loop now cs n s)) = maps_keyed s"
  by (induction dev now cs s rule: deliver_loop.induct; simp add: fail_command_def mark_delivered_def Let_def; simp add: maps_keyed_def)
    (induction now cs n s rule: expire_loop.induct; simp add: fail_command_def; simp add: maps_keyed_def)

lemma fc_step_keyed: "maps_keyed s \<Longrightarrow> maps_keyed (fc_step x s)"
proof (cases x)
  case (Detect_stale now)
  assume m: "maps_keyed s"
  then have "\<forall>(k, d)\<in>set (cp_devices s). dr_device_id d = k" by (simp add: maps_keyed_def keyed_def)
  then show ?thesis
    using stale_loop_keyed [OF m, of "cp_devices s" now 0] Detect_stale
    by (auto simp: detect_stale_devices_def split: prod.splits sum.splits)
next
  case (Heartbeat h)
  assume "maps_keyed s"
  then show ?thesis
    using Heartbeat keyed_get [of dr_device_id "cp_devices s"]
    by (auto simp: cp_receive_heartbeat_def Let_def maps_keyed_def split: option.splits)
qed (auto simp: upsert_organization_def upsert_region_def upsert_merchant_def upsert_branch_def cp_register_device_def
    cp_create_command_def deliver_next_command_def acknowledge_command_def expire_commands_def create_alert_def
    acknowledge_alert_def Let_def command_ops_maps maps_keyed_def split: option.splits prod.splits;
    metis command_ops_maps snd_conv maps_keyed_def)+

lemma fc_reach_keyed: "fc_reach s0 s \<Longrightarrow> maps_keyed s0 \<Longrightarrow> maps_keyed s"
  by (induction rule: fc_reach.induct) (auto dest: fc_step_keyed)

lemma blank_keyed: "maps_keyed (FleetControlPlane_blank p t f)"
  by (simp add: maps_keyed_def FleetControlPlane_blank_def)

section \<open>Properties\<close>

text \<open>
  C13. Commands are delivered a bounded number of times: after any history of operations on a fresh control
  plane, command ids are pairwise distinct, and a command was handed to its device at most once more than
  its retry limit (once if the limit is not positive); it was never handed out exactly when no delivery
  time is recorded.
\<close>

theorem command_delivery_bounded:
  assumes "fc_reach (FleetControlPlane_blank p t f) s" "get (cp_commands s) cid = Some c"
  shows "distinct (map fst (cp_commands s)) \<and> rc_command_id c = cid \<and>
    int (deliveries cid s) \<le> max 0 (rc_max_retries c) + 1 \<and> (rc_delivered_at c = [] \<longleftrightarrow> deliveries cid s = 0)"
proof -
  have i: "commands_inv s" using fc_reach_inv [OF assms(1) blank_commands_inv] by blast
  then show ?thesis using command_keys_distinct [OF i] commands_inv_get [OF i assms(2)] by (auto simp: cmd_ok_def)
qed

definition sample_device :: DeviceRegistryRecord where
  "sample_device = DeviceRegistryRecord_default\<lparr>dr_device_id := ''d1'', dr_organization_id := ''o1'', dr_merchant_id := ''m1''\<rparr>"

definition sample_plane :: FleetControlPlane where
  "sample_plane = fc_step (Create_command ''o1'' ''d1'' ''restart'' 100 60 3)
     (fc_step (Register_device sample_device) (FleetControlPlane_blank [] 90 None))"

lemma sample_plane_reach: "fc_reach (FleetControlPlane_blank [] 90 None) sample_plane"
  unfolding sample_plane_def by (intro fc_reach.intros)

definition sample_command :: RemoteCommand where
  "sample_command = RemoteCommand_default\<lparr>rc_command_id := id_for ''cmd'' 0, rc_organization_id := ''o1'', rc_device_id := ''d1'',
     rc_type := ''restart'', rc_created_at := epoch_string 100, rc_expires_at_epoch := 160\<rparr>"

lemma sample_plane_commands: "cp_commands sample_plane = [(id_for ''cmd'' 0, sample_command)]"
  by (simp add: sample_plane_def cp_create_command_def new_command_def Let_def cp_register_device_def sample_device_def
      DeviceRegistryRecord_default_def FleetControlPlane_blank_def known_command_type_def put_def sample_command_def
      RemoteCommand_default_def)

lemma sample_plane_acks: "cp_acknowledged_commands sample_plane = []"
  by (simp add: sample_plane_def cp_create_command_def Let_def cp_register_device_def sample_device_def
      DeviceRegistryRecord_default_def FleetControlPlane_blank_def)

theorem command_delivery_bounded_witness:
  "int (deliveries (id_for ''cmd'' 0) (fc_step (Deliver_next ''d1'' 110) sample_plane)) \<le> 4"
proof -
  have r: "fc_reach (FleetControlPlane_blank [] 90 None) (fc_step (Deliver_next ''d1'' 110) sample_plane)"
    by (intro fc_reach.step sample_plane_reach)
  have "get (cp_commands (fc_step (Deliver_next ''d1'' 110) sample_plane)) (id_for ''cmd'' 0) = Some (delivered_command 110 sample_command)"
    by (simp add: deliver_next_command_def sample_plane_commands sample_plane_acks sample_command_def RemoteCommand_default_def
        mark_delivered_def Let_def)
  from command_delivery_bounded [OF r this] show ?thesis
    by (simp add: delivered_command_def sample_command_def RemoteCommand_default_def)
qed

text \<open>
  Acknowledged commands are protected against replay: in the states a control plane can reach, a command that was
  acknowledged keeps its entry through any later operations, is not delivered again, and a second
  acknowledgement is refused without an effect.
\<close>

theorem acknowledged_command_final:
  assumes "fc_reach (FleetControlPlane_blank p t f) s" "fc_reach s s1" "get (cp_commands s) cid = Some c"
    and "rc_status c = ''acknowledged''"
  shows "get (cp_commands s1) cid = Some c \<and> deliveries cid s1 = deliveries cid s \<and>
    acknowledge_command dev cid now s1 = (False, s1)"
proof -
  have i: "commands_inv s" using fc_reach_inv [OF assms(1) blank_commands_inv] by blast
  have f: "commands_inv s1 \<and> frozen s s1" using fc_reach_inv [OF assms(2) i] .
  then have g: "get (cp_commands s1) cid = Some c \<and> deliveries cid s1 = deliveries cid s"
    using assms(3,4) by (auto simp: frozen_def)
  with f have "cid \<in> set (cp_acknowledged_commands s1)" using assms(4) by (auto simp: commands_inv_def)
  with g show ?thesis by (simp add: acknowledge_command_def)
qed

theorem acknowledged_command_final_witness:
  "deliveries (id_for ''cmd'' 0) (fc_step (Deliver_next ''d1'' 130) (fc_step (Acknowledge ''d1'' (id_for ''cmd'' 0) 120) sample_plane)) =
     deliveries (id_for ''cmd'' 0) (fc_step (Acknowledge ''d1'' (id_for ''cmd'' 0) 120) sample_plane)"
proof -
  let ?s = "fc_step (Acknowledge ''d1'' (id_for ''cmd'' 0) 120) sample_plane"
  have r: "fc_reach (FleetControlPlane_blank [] 90 None) ?s" by (intro fc_reach.step sample_plane_reach)
  have r1: "fc_reach ?s (fc_step (Deliver_next ''d1'' 130) ?s)" by (intro fc_reach.intros)
  have "get (cp_commands ?s) (id_for ''cmd'' 0) =
      Some (sample_command\<lparr>rc_status := ''acknowledged'', rc_acknowledged_at := epoch_string 120\<rparr>)"
    by (simp add: acknowledge_command_def sample_plane_commands sample_plane_acks) (simp add: sample_command_def RemoteCommand_default_def)
  from acknowledged_command_final [OF r r1 this] show ?thesis by simp
qed

text \<open>
  Acknowledging ignores the outcome: a device may acknowledge a command of its own that was rejected as
  invalid, has expired or was never delivered, and it then counts as a success.
\<close>

theorem dead_command_acknowledged:
  assumes "fc_reach (FleetControlPlane_blank p t f) s" "get (cp_commands s) cid = Some c" "rc_status c \<noteq> ''acknowledged''"
  shows "\<exists>s1. acknowledge_command (rc_device_id c) cid now s = (True, s1) \<and>
    map_option rc_status (get (cp_commands s1) cid) = Some ''acknowledged''"
proof -
  have "cid \<notin> set (cp_acknowledged_commands s)"
    using fc_reach_inv [OF assms(1) blank_commands_inv] assms(2,3) by (auto simp: commands_inv_def)
  then show ?thesis using assms(2) by (simp add: acknowledge_command_def)
qed

theorem dead_command_acknowledged_witness:
  "fst (acknowledge_command ''d1'' (id_for ''cmd'' 0) 500 (fc_step (Expire 400) sample_plane)) \<and>
     map_option rc_status (get (cp_commands (fc_step (Expire 400) sample_plane)) (id_for ''cmd'' 0)) = Some ''expired''"
proof -
  let ?s = "fc_step (Expire 400) sample_plane"
  let ?c = "sample_command\<lparr>rc_status := ''expired'', rc_failed_at := epoch_string 400, rc_failure_reason := ''expired''\<rparr>"
  have r: "fc_reach (FleetControlPlane_blank [] 90 None) ?s" by (intro fc_reach.step sample_plane_reach)
  have c: "get (cp_commands ?s) (id_for ''cmd'' 0) = Some ?c"
    by (simp add: expire_commands_def sample_plane_commands fail_command_def) (simp add: sample_command_def RemoteCommand_default_def)
  have "rc_device_id ?c = ''d1''" by (simp add: sample_command_def)
  with dead_command_acknowledged [OF r c, of 500] show ?thesis by (auto simp: c simp del: fc_step.simps)
qed

lemma commands_keyed: "commands_inv s \<Longrightarrow> keyed rc_command_id (cp_commands s)"
  using command_keys_distinct [of s] commands_inv_get [of s] by (auto simp: keyed_def dest: in_set_get)

lemma set_acks: "set (foldl (\<lambda>a v. if rc_status v = ''acknowledged'' then List.insert (rc_command_id v) a else a) a cs) =
    set a \<union> rc_command_id ` {v \<in> set cs. rc_status v = ''acknowledged''}"
  by (induction cs arbitrary: a) auto

lemma acks_of_table:
  assumes "commands_inv s"
  shows "rc_command_id ` {v \<in> set (vals (cp_commands s)). rc_status v = ''acknowledged''} = set (cp_acknowledged_commands s)"
proof -
  have "v \<in> set (vals (cp_commands s)) \<longleftrightarrow> (\<exists>k. get (cp_commands s) k = Some v)" for v
    using command_keys_distinct [OF assms] by (force simp: vals_def dest: get_in_set intro: in_set_get)
  then show ?thesis using assms unfolding commands_inv_def by (auto simp: image_iff) metis+
qed

text \<open>
  A restart loses nothing: a control plane that reads the file its predecessor saved has the same maps,
  alerts, events and heartbeat statistics, and protects the same commands against replay, when the JSON
  accessors behave as documented.
\<close>

theorem cp_save_load:
  assumes "fc_reach (FleetControlPlane_blank p t f) s" "cp_store_path s \<noteq> []" "value_laws ext"
  shows "\<exists>acks. FleetControlPlane_new ext (cp_store_path s) (cp_heartbeat_timeout_seconds s) (cp_file (cp_save_locked s)) =
      Inr ((cp_save_locked s)\<lparr>cp_acknowledged_commands := acks\<rparr>) \<and> set acks = set (cp_acknowledged_commands s)"
proof -
  have i: "commands_inv s" using fc_reach_inv [OF assms(1) blank_commands_inv] by blast
  have m: "maps_keyed s" by (rule fc_reach_keyed [OF assms(1) blank_keyed])
  note keys = m [unfolded maps_keyed_def] commands_keyed [OF i]
  note trips = organization_json_roundtrip region_json_roundtrip merchant_json_roundtrip branch_json_roundtrip
    registry_json_roundtrip command_json_roundtrip alert_json_roundtrip fleet_event_json_roundtrip
  have cmds: "foldl (\<lambda>m v. put (rc_command_id v) v m) [] (vals (cp_commands s)) = cp_commands s"
    using put_vals [of rc_command_id "[]" "cp_commands s"] keys by simp
  let ?acks = "foldl (\<lambda>a v. if rc_status v = ''acknowledged'' then List.insert (rc_command_id v) a else a) [] (vals (cp_commands s))"
  have "FleetControlPlane_new ext (cp_store_path s) (cp_heartbeat_timeout_seconds s) (cp_file (cp_save_locked s)) =
      Inr ((cp_save_locked s)\<lparr>cp_acknowledged_commands := ?acks\<rparr>)"
    using assms(2,3) keys cmds
    by (simp add: FleetControlPlane_new_def FleetControlPlane_blank_def cp_load_def cp_save_locked_def cp_store_json_def
        value_back values_json_def load_map_back map_result_back trips [OF assms(3)])
  moreover have "set ?acks = set (cp_acknowledged_commands s)"
    using set_acks [of "[]" "vals (cp_commands s)"] acks_of_table [OF i] by simp
  ultimately show ?thesis by blast
qed

definition stored_plane :: FleetControlPlane where
  "stored_plane = fc_step (Register_device sample_device) (FleetControlPlane_blank ''f'' 90 None)"

theorem cp_save_load_witness:
  "\<exists>s1. FleetControlPlane_new sample_extern ''f'' 90 (cp_file (cp_save_locked stored_plane)) = Inr s1 \<and>
     get (cp_devices s1) ''d1'' = Some sample_device"
proof -
  have r: "fc_reach (FleetControlPlane_blank ''f'' 90 None) stored_plane" unfolding stored_plane_def by (intro fc_reach.intros)
  have f: "cp_store_path stored_plane = ''f''" "cp_heartbeat_timeout_seconds stored_plane = 90"
    "get (cp_devices stored_plane) ''d1'' = Some sample_device"
    by (simp_all add: stored_plane_def cp_register_device_def sample_device_def DeviceRegistryRecord_default_def
        FleetControlPlane_blank_def cp_event_locked_def)
  from cp_save_load [OF r _ sample_value_laws] f show ?thesis by auto
qed

text \<open>When the loop over the devices takes a device offline, and what it does as a whole.\<close>

definition stale :: "int \<Rightarrow> int \<Rightarrow> DeviceRegistryRecord \<Rightarrow> bool" where
  "stale now timeout d \<longleftrightarrow> dr_connectivity_status d = ''online'' \<and> (\<exists>i. last_seen d = Inr i \<and> now - i > timeout)"

lemma mark_stale_fields:
  "cp_devices (mark_stale now k d s) = put k (d\<lparr>dr_connectivity_status := ''offline''\<rparr>) (cp_devices s)"
  "cp_heartbeat_timeout_seconds (mark_stale now k d s) = cp_heartbeat_timeout_seconds s"
  "cp_alerts (mark_stale now k d s) = cp_alerts s @ [offline_alert now d (length (cp_alerts s))]"
  by (simp_all add: mark_stale_def Let_def)

lemma stale_loop_effect:
  assumes "distinct (map fst ds)" "\<forall>(k, d)\<in>set ds. get (cp_devices s) k = Some d" "\<forall>d\<in>set (vals ds). \<exists>i. last_seen d = Inr i"
    and "stale_loop now ds n s = (r, s1)"
  shows "r = Inr (n + int (length (filter (stale now (cp_heartbeat_timeout_seconds s)) (vals ds)))) \<and>
    (\<forall>k. get (cp_devices s1) k = (if k \<in> set (map fst ds)
      then map_option (\<lambda>d. if stale now (cp_heartbeat_timeout_seconds s) d then d\<lparr>dr_connectivity_status := ''offline''\<rparr> else d)
        (get (cp_devices s) k) else get (cp_devices s) k)) \<and>
    (\<exists>as. cp_alerts s1 = cp_alerts s @ as \<and>
      map fa_device_id as = map dr_device_id (filter (stale now (cp_heartbeat_timeout_seconds s)) (vals ds)))"
  using assms
proof (induction now ds n s arbitrary: r s1 rule: stale_loop.induct)
  case (2 now k d ds n s)
  obtain i where i: "last_seen d = Inr i" using "2.prems"(3) by (auto simp: vals_def)
  show ?case
  proof (cases "stale now (cp_heartbeat_timeout_seconds s) d")
    case True
    then have e: "stale_loop now ds (n + 1) (mark_stale now k d s) = (r, s1)"
      using "2.prems"(4) i by (auto simp: stale_def)
    have "\<forall>(k', d')\<in>set ds. get (cp_devices (mark_stale now k d s)) k' = Some d'"
      using "2.prems"(1,2) by (force simp: mark_stale_fields)
    from "2.IH"(1) [OF i _ _ this _ e] True i "2.prems"(1-3) show ?thesis
      by (auto simp: stale_def mark_stale_fields vals_def offline_alert_def)
  next
    case False
    then have e: "stale_loop now ds n s = (r, s1)" using "2.prems"(4) i by (auto simp: stale_def)
    from "2.IH"(2) [OF i _ _ _ _ e] False i "2.prems"(1-3) show ?thesis by (auto simp: stale_def vals_def)
  qed
qed (auto simp: vals_def)

lemma stale_loop_error:
  "(\<exists>e. fst (stale_loop now ds n s) = Inl e) \<longleftrightarrow> (\<exists>d\<in>set (vals ds). \<exists>e. last_seen d = Inl e)"
  by (induction now ds n s rule: stale_loop.induct) (auto simp: vals_def split: sum.splits)

text \<open>
  Detecting stale devices: when every recorded time can be read, exactly the online devices not
  seen for longer than the timeout become offline, each with one alert, and the answer is their number;
  nothing else of a device changes. A device of any tenant whose recorded time is not a number makes the
  whole detection fail.
\<close>

theorem stale_detection:
  assumes "fc_reach (FleetControlPlane_blank p t f) s" "detect_stale_devices now s = (r, s1)"
  shows "((\<forall>d\<in>set (vals (cp_devices s)). \<exists>i. last_seen d = Inr i) \<longrightarrow>
      r = Inr (int (length (filter (stale now (cp_heartbeat_timeout_seconds s)) (vals (cp_devices s))))) \<and>
      (\<forall>k. get (cp_devices s1) k = map_option (\<lambda>d. if stale now (cp_heartbeat_timeout_seconds s) d
        then d\<lparr>dr_connectivity_status := ''offline''\<rparr> else d) (get (cp_devices s) k)) \<and>
      (\<exists>as. cp_alerts s1 = cp_alerts s @ as \<and> map fa_device_id as =
        map dr_device_id (filter (stale now (cp_heartbeat_timeout_seconds s)) (vals (cp_devices s))))) \<and>
    ((\<exists>e. r = Inl e) \<longleftrightarrow> (\<exists>d\<in>set (vals (cp_devices s)). \<exists>e. last_seen d = Inl e))"
proof -
  have k: "keyed dr_device_id (cp_devices s)"
    using fc_reach_keyed [OF assms(1) blank_keyed] by (simp add: maps_keyed_def)
  obtain r0 s0 where e: "stale_loop now (cp_devices s) 0 s = (r0, s0)" by fastforce
  have rs: "r = r0" "cp_devices s1 = cp_devices s0" "cp_alerts s1 = cp_alerts s0"
    using assms(2) e by (auto simp: detect_stale_devices_def split: sum.splits)
  have "\<forall>(k, d)\<in>set (cp_devices s). get (cp_devices s) k = Some d" using k by (auto simp: keyed_def intro: in_set_get)
  then show ?thesis
    using stale_loop_effect [OF _ _ _ e] stale_loop_error [of now "cp_devices s" 0 s] k e get_absent [of _ "cp_devices s"]
    by (auto simp: rs keyed_def)
qed

theorem stale_detection_witness:
  "\<exists>s1. detect_stale_devices 300 (fc_step (Heartbeat \<lparr>hb_device_id = ''d1'', hb_sent_at_epoch = 0, hb_received_at_epoch = 100, hb_latency_ms = 0\<rparr>)
     sample_plane) = (Inr 1, s1)"
proof -
  let ?s = "fc_step (Heartbeat \<lparr>hb_device_id = ''d1'', hb_sent_at_epoch = 0, hb_received_at_epoch = 100, hb_latency_ms = 0\<rparr>) sample_plane"
  let ?d = "sample_device\<lparr>dr_connectivity_status := ''online'', dr_last_heartbeat_at := epoch_string 100, dr_last_seen_at := epoch_string 100\<rparr>"
  have r: "fc_reach (FleetControlPlane_blank [] 90 None) ?s" by (intro fc_reach.step sample_plane_reach)
  have "cp_devices sample_plane = [(''d1'', sample_device)]" "cp_heartbeat_timeout_seconds sample_plane = 90"
    by (simp_all add: sample_plane_def cp_create_command_def new_command_def Let_def cp_register_device_def sample_device_def
        DeviceRegistryRecord_default_def FleetControlPlane_blank_def put_def cp_event_locked_def)
  then have d: "cp_devices ?s = [(''d1'', ?d)]" "cp_heartbeat_timeout_seconds ?s = 90"
    by (simp_all add: cp_receive_heartbeat_def Let_def put_def)
  have l: "last_seen ?d = Inr 100" by (simp add: last_seen_def epoch_string_def stol_to_string int64_def)
  then have "stale 300 90 ?d" by (simp add: stale_def)
  then show ?thesis
    using stale_detection [OF r, of 300 "fst (detect_stale_devices 300 ?s)" "snd (detect_stale_devices 300 ?s)"] d l
    by (simp add: vals_def del: fc_step.simps) (metis prod.collapse)
qed

text \<open>Averages of percentages are percentages.\<close>

lemma average_percent:
  assumes "\<forall>x\<in>set xs. 0 \<le> (f x :: int) \<and> f x \<le> 100" "xs \<noteq> []"
  shows "0 \<le> sum_list (map f xs) sdiv int (length xs) \<and> sum_list (map f xs) sdiv int (length xs) \<le> 100"
proof -
  have b: "0 \<le> sum_list (map f xs) \<and> sum_list (map f xs) \<le> 100 * int (length xs)"
    using assms(1) by (induction xs) auto
  then have "sum_list (map f xs) sdiv int (length xs) = sum_list (map f xs) div int (length xs)"
    using assms(2) by (intro sdiv_pos) auto
  moreover have "sum_list (map f xs) div int (length xs) \<le> (100 * int (length xs)) div int (length xs)"
    using b by (intro zdiv_mono1) (use assms(2) in auto)
  ultimately show ?thesis using b assms(2) by (simp add: pos_imp_zdiv_nonneg_iff)
qed

text \<open>
  Every score of a health summary is a percentage, for any organization, provided that the devices'
  own scores are percentages and their failure counters are not negative.
\<close>

theorem fleet_health_bounds:
  assumes "\<forall>d\<in>set (vals (cp_devices s)). 0 \<le> dr_health_score d \<and> dr_health_score d \<le> 100 \<and> 0 \<le> dr_sync_failures d \<and> 0 \<le> dr_ota_failures d"
  shows "\<forall>score. score \<in> {fh_device_health_score, fh_communication_health_score, fh_sync_health_score, fh_ota_health_score,
    fh_certificate_health_score, fh_aggregate_score} \<longrightarrow> 0 \<le> score (cp_health org s) \<and> score (cp_health org s) \<le> 100"
proof -
  define ds where "ds = filter (\<lambda>d. org = [] \<or> dr_organization_id d = org) (vals (cp_devices s))"
  show ?thesis
  proof (cases "ds = []")
    case True
    then show ?thesis by (auto simp: cp_health_def ds_def [symmetric] FleetHealthSummary_default_def Let_def)
  next
    case False
    have in_ds: "\<forall>d\<in>set ds. 0 \<le> dr_health_score d \<and> dr_health_score d \<le> 100 \<and> 0 \<le> dr_sync_failures d \<and> 0 \<le> dr_ota_failures d"
      using assms by (auto simp: ds_def)
    note avg = average_percent [OF _ False]
    have five: "0 \<le> sum_list (map f ds) sdiv int (length ds) \<and> sum_list (map f ds) sdiv int (length ds) \<le> 100"
      if "f \<in> {dr_health_score, \<lambda>d. if dr_connectivity_status d = ''online'' then 100 else 0, \<lambda>d. max 0 (100 - dr_sync_failures d * 20),
        \<lambda>d. max 0 (100 - dr_ota_failures d * 25), \<lambda>d. certificate_score (dr_certificate_identity_status d)}" for f
      using that in_ds by (intro avg) (auto simp: certificate_score_def)
    have "0 \<le> x sdiv 5 \<and> x sdiv 5 \<le> (100::int)" if "0 \<le> x" "x \<le> 500" for x
      using that by (simp add: sdiv_pos) arith
    moreover have "0 < int (length ds)" using False by simp
    ultimately show ?thesis
      using five [of dr_health_score] five [of "\<lambda>d. if dr_connectivity_status d = ''online'' then 100 else 0"]
        five [of "\<lambda>d. max 0 (100 - dr_sync_failures d * 20)"] five [of "\<lambda>d. max 0 (100 - dr_ota_failures d * 25)"]
        five [of "\<lambda>d. certificate_score (dr_certificate_identity_status d)"]
      by (auto simp: cp_health_def ds_def [symmetric] Let_def)
  qed
qed

theorem fleet_health_bounds_witness: "0 \<le> fh_aggregate_score (cp_health ''o1'' sample_plane) \<and> fh_aggregate_score (cp_health ''o1'' sample_plane) \<le> 100"
proof -
  have "cp_devices sample_plane = [(''d1'', sample_device)]"
    by (simp add: sample_plane_def cp_create_command_def new_command_def Let_def cp_register_device_def sample_device_def
        DeviceRegistryRecord_default_def FleetControlPlane_blank_def put_def cp_event_locked_def)
  then show ?thesis
    using fleet_health_bounds [of sample_plane "''o1''"] by (simp add: vals_def sample_device_def DeviceRegistryRecord_default_def)
qed

text \<open>A tally counts: its entries are the numbers of occurrences, its keys are in order.\<close>

lemma count_at_tally: "count_at (tally ks) k = int (count_list ks k)"
proof -
  have "count_at (foldl (\<lambda>m k. sput k (count_at m k + 1) m) m ks) k = count_at m k + int (count_list ks k)" for m
    by (induction ks arbitrary: m) (auto simp: count_at_def)
  then show ?thesis by (simp add: tally_def count_at_def)
qed

end
