(* ===== verification/Fleet_Routes.thy ===== *)
theory Fleet_Routes
  imports Fleet_Control
begin

text \<open>
  The HTTP interface of the fleet control plane (\<^verbatim>\<open>src/cloud/fleet_control/routes.cpp\<close>): how a request is
  attributed to a tenant and what each route reads and changes. A request carries the tenant header, the
  query parameters and the body; the server's access check is a parameter that may answer in place of the
  route. Whatever a \<^verbatim>\<open>POST\<close> route throws is answered 400. Logging is not modelled.
\<close>

record Request =
  rq_X_Org_Id :: string
  rq_params :: "(string \<times> string) list"
  rq_body :: string

type_synonym response = "int \<times> json"

definition get_param_value :: "Request \<Rightarrow> string \<Rightarrow> string" where
  "get_param_value req k = (case get (rq_params req) k of Some v \<Rightarrow> v | None \<Rightarrow> [])"

definition tenant_org :: "Request \<Rightarrow> string" where
  "tenant_org req = (let org = rq_X_Org_Id req in if org = [] then get_param_value req ''organization_id'' else org)"

definition allowed_tenant :: "Request \<Rightarrow> string \<Rightarrow> bool" where
  "allowed_tenant req org \<longleftrightarrow> tenant_org req = [] \<or> org = [] \<or> tenant_org req = org"

definition filter_from :: "Request \<Rightarrow> DeviceFilter" where
  "filter_from req = \<lparr>df_organization_id = tenant_org req, df_merchant_id = get_param_value req ''merchant_id'',
     df_branch_id = get_param_value req ''branch_id'', df_region = get_param_value req ''region'',
     df_environment = get_param_value req ''environment'', df_deployment_channel = get_param_value req ''deployment_channel'',
     df_health_status = get_param_value req ''health_status'', df_connectivity_status = get_param_value req ''connectivity_status'',
     df_tag = get_param_value req ''tag'', df_label_key = get_param_value req ''label_key'',
     df_label_value = get_param_value req ''label_value'', df_text = get_param_value req ''q''\<rparr>"

datatype fc_route = Get_organizations | Post_organizations | Get_merchants | Post_merchants | Get_branches | Post_branches
  | Get_regions | Post_regions | Get_devices | Post_devices | Post_heartbeat string | Post_command string | Get_commands
  | Post_command_ack string | Get_alerts | Post_alert_ack string | Get_metrics | Get_dashboard string string

definition error_json :: "string \<Rightarrow> json" where "error_json e = JObj [(''error'', JStr e)]"

text \<open>The handler bodies of the \<^verbatim>\<open>POST\<close> routes; \<open>Inl\<close> is an exception, which the route catches.\<close>

definition post_entity :: "extern \<Rightarrow> (json \<Rightarrow> 'v result) \<Rightarrow> ('v \<Rightarrow> string) \<Rightarrow> ('v \<Rightarrow> FleetControlPlane \<Rightarrow> FleetControlPlane) \<Rightarrow>
    string \<Rightarrow> ('v \<Rightarrow> json) \<Rightarrow> Request \<Rightarrow> FleetControlPlane \<Rightarrow> (response \<times> FleetControlPlane) result" where
  "post_entity ext conv owner_of upsert name to_j req s =
     bind_result (parse ext (rq_body req)) (\<lambda>body. bind_result (conv body) (\<lambda>v.
       if \<not> allowed_tenant req (owner_of v) then Inr ((403, error_json ''tenant_forbidden''), s)
       else Inr ((200, JObj [(''ok'', JBool True), (name, to_j v)]), upsert v s)))"

definition post_device :: "extern \<Rightarrow> Request \<Rightarrow> FleetControlPlane \<Rightarrow> (response \<times> FleetControlPlane) result" where
  "post_device ext req s =
     bind_result (parse ext (rq_body req)) (\<lambda>body. bind_result (registry_from_json ext body DeviceRegistryRecord_default) (\<lambda>d.
       if \<not> allowed_tenant req (dr_organization_id d) then Inr ((403, error_json ''tenant_forbidden''), s)
       else let (ok, s1) = cp_register_device d s in Inr ((200, JObj [(''ok'', JBool ok), (''device'', registry_to_json d)]), s1)))"

definition post_heartbeat :: "extern \<Rightarrow> string \<Rightarrow> Request \<Rightarrow> FleetControlPlane \<Rightarrow> (response \<times> FleetControlPlane) result" where
  "post_heartbeat ext device_id req s =
     bind_result (parse ext (rq_body req)) (\<lambda>body. bind_result (heartbeat_msg_from_json ext body HeartbeatMessage_default) (\<lambda>h0.
       let h = h0\<lparr>hb_device_id := device_id\<rparr> in
       case cp_device device_id s of None \<Rightarrow> Inr ((404, error_json ''not_found''), s)
       | Some d \<Rightarrow> if \<not> allowed_tenant req (dr_organization_id d) then Inr ((404, error_json ''not_found''), s)
         else let (ok, s1) = cp_receive_heartbeat h s in Inr ((200, JObj [(''ok'', JBool ok)]), s1)))"

definition post_command :: "extern \<Rightarrow> string \<Rightarrow> Request \<Rightarrow> FleetControlPlane \<Rightarrow> (response \<times> FleetControlPlane) result" where
  "post_command ext device_id req s =
     bind_result (parse ext (rq_body req)) (\<lambda>j.
       case cp_device device_id s of None \<Rightarrow> Inr ((404, error_json ''not_found''), s)
       | Some d \<Rightarrow> if \<not> allowed_tenant req (dr_organization_id d) then Inr ((404, error_json ''not_found''), s)
         else
           bind_result (value_str ext j ''type'' []) (\<lambda>type.
           bind_result (value_int ext j ''now_epoch'' 0) (\<lambda>now.
           bind_result (value_int ext j ''ttl_seconds'' 60) (\<lambda>ttl.
           bind_result (value_int ext j ''max_retries'' 3) (\<lambda>retries.
             let (cmd, s1) = cp_create_command (dr_organization_id d) device_id type now ttl retries s
             in Inr ((if rc_status cmd = ''failed'' then 400 else 200, JObj [(''command'', command_to_json cmd)]), s1))))))"

definition post_command_ack :: "extern \<Rightarrow> string \<Rightarrow> Request \<Rightarrow> FleetControlPlane \<Rightarrow> (response \<times> FleetControlPlane) result" where
  "post_command_ack ext command_id req s =
     bind_result (parse ext (rq_body req)) (\<lambda>j.
     bind_result (value_str ext j ''device_id'' []) (\<lambda>device_id.
     bind_result (value_int ext j ''now_epoch'' 0) (\<lambda>now.
       let (ok, s1) = acknowledge_command device_id command_id now s
       in Inr ((if ok then 200 else 409, JObj [(''ok'', JBool ok)]), s1))))"

text \<open>The \<^verbatim>\<open>try\<close> block around them.\<close>

definition guarded :: "(response \<times> FleetControlPlane) result \<Rightarrow> FleetControlPlane \<Rightarrow> response \<times> FleetControlPlane" where
  "guarded r s = (case r of Inr out \<Rightarrow> out | Inl _ \<Rightarrow> ((400, error_json ''bad_request''), s))"

definition list_json :: "string \<Rightarrow> ('v \<Rightarrow> json) \<Rightarrow> 'v list \<Rightarrow> response" where
  "list_json name f vs = (200, JObj [(name, JArr (map f vs))])"

fun fc_handle :: "extern \<Rightarrow> fc_route \<Rightarrow> Request \<Rightarrow> FleetControlPlane \<Rightarrow> response \<times> FleetControlPlane" where
  "fc_handle ext Get_organizations req s = (list_json ''organizations'' organization_to_json (organizations (tenant_org req) s), s)"
| "fc_handle ext Post_organizations req s = guarded (post_entity ext (\<lambda>j. organization_from_json ext j Organization_default)
     og_organization_id upsert_organization ''organization'' organization_to_json req s) s"
| "fc_handle ext Get_merchants req s = (list_json ''merchants'' merchant_to_json (merchants (tenant_org req) s), s)"
| "fc_handle ext Post_merchants req s = guarded (post_entity ext (\<lambda>j. merchant_from_json ext j Merchant_default)
     mt_organization_id upsert_merchant ''merchant'' merchant_to_json req s) s"
| "fc_handle ext Get_branches req s = (list_json ''branches'' branch_to_json (branches (tenant_org req) s), s)"
| "fc_handle ext Post_branches req s = guarded (post_entity ext (\<lambda>j. branch_from_json ext j Branch_default)
     br_organization_id upsert_branch ''branch'' branch_to_json req s) s"
| "fc_handle ext Get_regions req s = (list_json ''regions'' region_to_json (regions (tenant_org req) s), s)"
| "fc_handle ext Post_regions req s = guarded (post_entity ext (\<lambda>j. region_from_json ext j Region_default)
     rg_organization_id upsert_region ''region'' region_to_json req s) s"
| "fc_handle ext Get_devices req s = (list_json ''devices'' registry_to_json (search_devices (filter_from req) s), s)"
| "fc_handle ext Post_devices req s = guarded (post_device ext req s) s"
| "fc_handle ext (Post_heartbeat device_id) req s = guarded (post_heartbeat ext device_id req s) s"
| "fc_handle ext (Post_command device_id) req s = guarded (post_command ext device_id req s) s"
| "fc_handle ext Get_commands req s =
     (list_json ''commands'' command_to_json (cp_command_list (tenant_org req) (get_param_value req ''device_id'') s), s)"
| "fc_handle ext (Post_command_ack command_id) req s = guarded (post_command_ack ext command_id req s) s"
| "fc_handle ext Get_alerts req s =
     (list_json ''alerts'' alert_to_json (cp_alert_list (tenant_org req) (get (rq_params req) ''include_acknowledged'' \<noteq> None) s), s)"
| "fc_handle ext (Post_alert_ack alert_id) req s =
     (let (ok, s1) = acknowledge_alert (tenant_org req) alert_id 0 s in ((if ok then 200 else 404, JObj [(''ok'', JBool ok)]), s1))"
| "fc_handle ext Get_metrics req s = ((200, fleet_metrics_to_json (cp_metrics (tenant_org req) s)), s)"
| "fc_handle ext (Get_dashboard scope_type scope_id) req s =
     (if tenant_org req \<noteq> [] \<and> scope_type = ''organization'' \<and> tenant_org req \<noteq> scope_id
      then ((403, error_json ''tenant_forbidden''), s)
      else ((200, dashboard_to_json (dashboard scope_type scope_id s)), s))"

definition fc_serve :: "extern \<Rightarrow> (Request \<Rightarrow> response option) \<Rightarrow> fc_route \<Rightarrow> Request \<Rightarrow> FleetControlPlane \<Rightarrow> response \<times> FleetControlPlane" where
  "fc_serve ext access_check r req s = (case access_check req of Some refused \<Rightarrow> (refused, s) | None \<Rightarrow> fc_handle ext r req s)"

section \<open>Properties\<close>

text \<open>
  What a tenant's lists show: a request that names a tenant and passes the access check gets from every list route
  exactly the tenant's own records among those that match the other parameters, and reading changes
  nothing; a request that fails the access check gets the check's answer and changes nothing.
\<close>

theorem tenant_lists_isolated:
  assumes "tenant_org req = t" "t \<noteq> []"
  shows "(access_check req = None \<longrightarrow>
      fc_serve ext access_check Get_organizations req s = (list_json ''organizations'' organization_to_json
        (filter (\<lambda>v. og_organization_id v = t) (vals (cp_organizations s))), s) \<and>
      fc_serve ext access_check Get_merchants req s = (list_json ''merchants'' merchant_to_json
        (filter (\<lambda>v. mt_organization_id v = t) (vals (cp_merchants s))), s) \<and>
      fc_serve ext access_check Get_branches req s = (list_json ''branches'' branch_to_json
        (filter (\<lambda>v. br_organization_id v = t) (vals (cp_branches s))), s) \<and>
      fc_serve ext access_check Get_regions req s = (list_json ''regions'' region_to_json
        (filter (\<lambda>v. rg_organization_id v = t) (vals (cp_regions s))), s) \<and>
      (\<exists>P. fc_serve ext access_check Get_devices req s = (list_json ''devices'' registry_to_json
        (filter (\<lambda>v. dr_organization_id v = t \<and> P v) (vals (cp_devices s))), s)) \<and>
      (\<exists>P. fc_serve ext access_check Get_commands req s = (list_json ''commands'' command_to_json
        (filter (\<lambda>v. rc_organization_id v = t \<and> P v) (vals (cp_commands s))), s)) \<and>
      (\<exists>P. fc_serve ext access_check Get_alerts req s = (list_json ''alerts'' alert_to_json
        (filter (\<lambda>v. fa_organization_id v = t \<and> P v) (cp_alerts s)), s))) \<and>
    (\<forall>out r. access_check req = Some out \<longrightarrow> fc_serve ext access_check r req s = (out, s))"
proof -
  have d: "tenant_matches d (filter_from req) \<longleftrightarrow> dr_organization_id d = t \<and> tenant_matches d (filter_from req)" for d
    using assms by (auto simp: tenant_matches_def filter_from_def)
  have devs: "search_devices (filter_from req) s =
      filter (\<lambda>v. dr_organization_id v = t \<and> tenant_matches v (filter_from req)) (vals (cp_devices s))"
    unfolding search_devices_def using d by (intro filter_cong) auto
  show ?thesis
    using assms devs
    by (auto simp: fc_serve_def organizations_def merchants_def branches_def regions_def cp_command_list_def cp_alert_list_def)
qed

definition tenant_request :: "string \<Rightarrow> Request" where
  "tenant_request t = \<lparr>rq_X_Org_Id = t, rq_params = [], rq_body = []\<rparr>"

lemma tenant_request_org: "t \<noteq> [] \<Longrightarrow> tenant_org (tenant_request t) = t"
  by (simp add: tenant_org_def tenant_request_def)

theorem tenant_lists_isolated_witness:
  "fst (fc_serve sample_extern (\<lambda>_. None) Get_merchants (tenant_request ''o2'') (upsert_merchant
     (Merchant_default\<lparr>mt_merchant_id := ''m1'', mt_organization_id := ''o1''\<rparr>) (FleetControlPlane_blank [] 90 None))) =
   list_json ''merchants'' merchant_to_json []"
  using tenant_lists_isolated [of "tenant_request ''o2''" "''o2''" "\<lambda>_. None" sample_extern "upsert_merchant
     (Merchant_default\<lparr>mt_merchant_id := ''m1'', mt_organization_id := ''o1''\<rparr>) (FleetControlPlane_blank [] 90 None)"]
  by (simp add: tenant_request_org upsert_merchant_def FleetControlPlane_blank_def put_def vals_def Merchant_default_def)

text \<open>
  The dashboards are not separated: the dashboard of a merchant, a branch or a region carries the health
  scores and the alert counts of the whole fleet, of all organizations, and every tenant may ask for it.
\<close>

theorem dashboard_shows_other_tenants:
  assumes "scope_type \<noteq> ''organization''" "access_check req = None"
  shows "\<exists>view. fc_serve ext access_check (Get_dashboard scope_type scope_id) req s = ((200, dashboard_to_json view), s) \<and>
    dv_health view = cp_health [] s \<and>
    (\<forall>sev. count_at (dv_alert_summary view) sev =
      int (length (filter (\<lambda>a. \<not> fa_acknowledged a \<and> fa_severity a = sev) (cp_alerts s))))"
proof -
  have c: "int (count_list (map fa_severity (filter P as)) sev) = int (length (filter (\<lambda>a. P a \<and> fa_severity a = sev) as))" for P as sev
    by (induction as) auto
  have e: "fc_serve ext access_check (Get_dashboard scope_type scope_id) req s =
      ((200, dashboard_to_json (dashboard scope_type scope_id s)), s)"
    using assms by (simp add: fc_serve_def)
  show ?thesis
    by (rule exI [of _ "dashboard scope_type scope_id s"])
      (use assms(1) in \<open>simp add: e dashboard_def Let_def count_at_tally cp_alert_list_def c\<close>)
qed

theorem dashboard_shows_other_tenants_witness:
  "\<exists>view. fst (fc_serve sample_extern (\<lambda>_. None) (Get_dashboard ''merchant'' ''m2'') (tenant_request ''o2'')
     (snd (create_alert ''o1'' ''d1'' ''tamper'' ''critical'' ''door'' 5 (FleetControlPlane_blank [] 90 None)))) = (200, dashboard_to_json view) \<and>
     count_at (dv_alert_summary view) ''critical'' = 1"
proof -
  let ?s = "snd (create_alert ''o1'' ''d1'' ''tamper'' ''critical'' ''door'' 5 (FleetControlPlane_blank [] 90 None))"
  have "length (filter (\<lambda>a. \<not> fa_acknowledged a \<and> fa_severity a = ''critical'') (cp_alerts ?s)) = 1"
    by (simp add: create_alert_def Let_def FleetControlPlane_blank_def)
  then show ?thesis
    using dashboard_shows_other_tenants [of "''merchant''" "\<lambda>_. None" "tenant_request ''o2''" sample_extern "''m2''" ?s] by auto
qed

text \<open>
  A tenant can take over another tenant's device: registering a device under one's own organization with
  an id that is in use is answered 200 and replaces the registry record, so that the device now belongs
  to the new tenant and no search finds it for its former owner.
\<close>

theorem device_takeover:
  assumes "fc_reach (FleetControlPlane_blank p tmo f) s" "tenant_org req = t" "t \<noteq> []" "access_check req = None"
    and "parse ext (rq_body req) = Inr body" "registry_from_json ext body DeviceRegistryRecord_default = Inr d"
    and "dr_organization_id d = t" "dr_device_id d = dev" "dev \<noteq> []"
    and "get (cp_devices s) dev = Some victim" "dr_organization_id victim \<noteq> t" "dr_organization_id victim \<noteq> []"
  shows "\<exists>out s1. fc_serve ext access_check Post_devices req s = ((200, out), s1) \<and> get (cp_devices s1) dev = Some d \<and>
    (\<forall>flt. df_organization_id flt = dr_organization_id victim \<longrightarrow> dev \<notin> dr_device_id ` set (search_devices flt s1))"
proof -
  let ?s = "snd (cp_register_device d s)"
  have reg: "fst (cp_register_device d s)" "cp_devices ?s = put dev d (cp_devices s)"
    using assms(3,7-9) by (simp_all add: cp_register_device_def)
  have k: "keyed dr_device_id (cp_devices ?s)"
    using fc_step_keyed [OF fc_reach_keyed [OF assms(1) blank_keyed], of "Register_device d"] by (simp add: maps_keyed_def)
  have "x = d" if "x \<in> set (vals (cp_devices ?s))" "dr_device_id x = dev" for x
  proof -
    obtain k' where "(k', x) \<in> set (cp_devices ?s)" using \<open>x \<in> set (vals (cp_devices ?s))\<close> by (auto simp: vals_def)
    then have "get (cp_devices ?s) dev = Some x" using k that(2) by (auto simp: keyed_def intro: in_set_get)
    then show ?thesis by (simp add: reg)
  qed
  moreover have "\<not> tenant_matches d flt" if "df_organization_id flt = dr_organization_id victim" for flt
    using assms(7,11,12) that by (auto simp: tenant_matches_def)
  ultimately have gone: "dev \<notin> dr_device_id ` set (search_devices flt ?s)"
    if "df_organization_id flt = dr_organization_id victim" for flt
    using that by (auto simp: search_devices_def)
  have "fc_serve ext access_check Post_devices req s =
      ((200, JObj [(''ok'', JBool True), (''device'', registry_to_json d)]), ?s)"
    using assms(2-9) reg(1) by (cases "cp_register_device d s") (simp add: fc_serve_def post_device_def guarded_def allowed_tenant_def)
  then show ?thesis using gone reg(2) by auto
qed

theorem device_takeover_witness:
  "\<exists>out s1. fc_serve (sample_extern\<lparr>parse := \<lambda>_. Inr (registry_to_json (sample_device\<lparr>dr_organization_id := ''o2''\<rparr>))\<rparr>) (\<lambda>_. None)
     Post_devices (tenant_request ''o2'') sample_plane = ((200, out), s1) \<and>
     map_option dr_organization_id (get (cp_devices s1) ''d1'') = Some ''o2''"
proof -
  let ?d = "sample_device\<lparr>dr_organization_id := ''o2''\<rparr>"
  let ?e = "sample_extern\<lparr>parse := \<lambda>_. Inr (registry_to_json ?d)\<rparr>"
  have "value_laws ?e" using sample_value_laws by (simp add: value_laws_def)
  then have r: "registry_from_json ?e (registry_to_json ?d) DeviceRegistryRecord_default = Inr ?d" by (rule registry_json_roundtrip)
  have v: "get (cp_devices sample_plane) ''d1'' = Some sample_device"
    by (simp add: sample_plane_def cp_create_command_def Let_def cp_register_device_def sample_device_def
        DeviceRegistryRecord_default_def FleetControlPlane_blank_def)
  have "dr_organization_id sample_device = ''o1''" "dr_device_id sample_device = ''d1''" by (simp_all add: sample_device_def)
  then show ?thesis
    using device_takeover [OF sample_plane_reach _ _ _ _ r _ _ _ v, of "tenant_request ''o2''" "''o2''" "\<lambda>_. None"]
    by (auto simp: tenant_request_org)
qed

end
