(* ===== verification/Edge_Models.thy ===== *)
theory Edge_Models
  imports Fleet_Models
begin

text \<open>
  The data of the edge platform (\<^verbatim>\<open>src/edge_platform/models.hpp\<close>), their JSON (\<^verbatim>\<open>models.cpp\<close>) and the
  mock driver with the capabilities of each device type (\<^verbatim>\<open>driver.cpp\<close>).
\<close>

section \<open>Data\<close>

record EdgeDevice =
  ed_device_id :: string
  ed_tenant_id :: string
  ed_merchant_id :: string
  ed_branch_id :: string
  ed_region :: string
  ed_device_type :: string
  ed_driver_id :: string
  ed_firmware_version :: string
  ed_capabilities :: "string list"
  ed_labels :: "(string \<times> string) list"

definition EdgeDevice_default :: EdgeDevice where
  "EdgeDevice_default = \<lparr>ed_device_id = [], ed_tenant_id = [], ed_merchant_id = [], ed_branch_id = [],
     ed_region = [], ed_device_type = ''cash_drawer'', ed_driver_id = [], ed_firmware_version = [],
     ed_capabilities = [], ed_labels = []\<rparr>"

record CapabilityMetadata =
  cm_capability :: string
  cm_description :: string
  cm_high_risk :: bool

definition CapabilityMetadata_default :: CapabilityMetadata where
  "CapabilityMetadata_default = \<lparr>cm_capability = [], cm_description = [], cm_high_risk = False\<rparr>"

record DriverMetadata =
  dm_driver_id :: string
  dm_vendor :: string
  dm_device_type :: string
  dm_version :: string
  dm_health :: string
  dm_supported_capabilities :: "string list"

definition DriverMetadata_default :: DriverMetadata where
  "DriverMetadata_default = \<lparr>dm_driver_id = [], dm_vendor = [], dm_device_type = [], dm_version = [],
     dm_health = ''healthy'', dm_supported_capabilities = []\<rparr>"

record EdgeCommandRequest =
  eq_command_id :: string
  eq_device_id :: string
  eq_command :: string
  eq_parameters :: json
  eq_actor_id :: string
  eq_requested_at :: int

definition EdgeCommandRequest_default :: EdgeCommandRequest where
  "EdgeCommandRequest_default = \<lparr>eq_command_id = [], eq_device_id = [], eq_command = [],
     eq_parameters = JObj [], eq_actor_id = [], eq_requested_at = 0\<rparr>"

record EdgeCommandResult =
  er_command_id :: string
  er_device_id :: string
  er_command :: string
  er_accepted :: bool
  er_executed :: bool
  er_status :: string
  er_reason :: string
  er_completed_at :: int

definition EdgeCommandResult_default :: EdgeCommandResult where
  "EdgeCommandResult_default = \<lparr>er_command_id = [], er_device_id = [], er_command = [], er_accepted = False,
     er_executed = False, er_status = ''rejected'', er_reason = [], er_completed_at = 0\<rparr>"

record EdgeInventoryCompartment =
  ic_compartment_id :: string
  ic_compartment_type :: string
  ic_currency :: string
  ic_denominations :: "(string \<times> int) list"
  ic_status :: string

definition EdgeInventoryCompartment_default :: EdgeInventoryCompartment where
  "EdgeInventoryCompartment_default = \<lparr>ic_compartment_id = [], ic_compartment_type = [], ic_currency = [],
     ic_denominations = [], ic_status = ''ok''\<rparr>"

record EdgeInventoryView =
  iv_device_id :: string
  iv_compartments :: "EdgeInventoryCompartment list"
  iv_updated_at :: int

definition EdgeInventoryView_default :: EdgeInventoryView where
  "EdgeInventoryView_default = \<lparr>iv_device_id = [], iv_compartments = [], iv_updated_at = 0\<rparr>"

record EdgeHealthSummary =
  eh_device_id :: string
  eh_device_type :: string
  eh_score :: int
  eh_factors :: "(string \<times> string) list"
  eh_explanations :: "string list"

definition EdgeHealthSummary_default :: EdgeHealthSummary where
  "EdgeHealthSummary_default = \<lparr>eh_device_id = [], eh_device_type = [], eh_score = 100, eh_factors = [],
     eh_explanations = []\<rparr>"

record SimulatorState =
  ss_device_id :: string
  ss_online :: bool
  ss_faults :: "string list"
  ss_sensor_telemetry :: json

definition SimulatorState_default :: SimulatorState where
  "SimulatorState_default = \<lparr>ss_device_id = [], ss_online = True, ss_faults = [],
     ss_sensor_telemetry = JObj []\<rparr>"

record EdgeEvent =
  ee_event_id :: string
  ee_tenant_id :: string
  ee_device_id :: string
  ee_event_type :: string
  ee_occurred_at :: int
  ee_metadata :: json

definition EdgeEvent_default :: EdgeEvent where
  "EdgeEvent_default = \<lparr>ee_event_id = [], ee_tenant_id = [], ee_device_id = [], ee_event_type = [],
     ee_occurred_at = 0, ee_metadata = JObj []\<rparr>"

section \<open>JSON\<close>

definition edge_device_to_json :: "EdgeDevice \<Rightarrow> json" where
  "edge_device_to_json v = JObj [(''device_id'', JStr (ed_device_id v)), (''tenant_id'', JStr (ed_tenant_id v)),
     (''merchant_id'', JStr (ed_merchant_id v)), (''branch_id'', JStr (ed_branch_id v)),
     (''region'', JStr (ed_region v)), (''device_type'', JStr (ed_device_type v)),
     (''driver_id'', JStr (ed_driver_id v)), (''firmware_version'', JStr (ed_firmware_version v)),
     (''capabilities'', JArr (map JStr (ed_capabilities v))), (''labels'', labels_json (ed_labels v))]"

definition edge_device_from_json :: "extern \<Rightarrow> json \<Rightarrow> EdgeDevice \<Rightarrow> EdgeDevice result" where
  "edge_device_from_json ext j v =
     bind_result (value_str ext j ''device_id'' (ed_device_id v)) (\<lambda>a1.
     bind_result (value_str ext j ''tenant_id'' (ed_tenant_id v)) (\<lambda>a2.
     bind_result (value_str ext j ''merchant_id'' (ed_merchant_id v)) (\<lambda>a3.
     bind_result (value_str ext j ''branch_id'' (ed_branch_id v)) (\<lambda>a4.
     bind_result (value_str ext j ''region'' (ed_region v)) (\<lambda>a5.
     bind_result (value_str ext j ''device_type'' (ed_device_type v)) (\<lambda>a6.
     bind_result (value_str ext j ''driver_id'' (ed_driver_id v)) (\<lambda>a7.
     bind_result (value_str ext j ''firmware_version'' (ed_firmware_version v)) (\<lambda>a8.
     bind_result (value_strs ext j ''capabilities'' (ed_capabilities v)) (\<lambda>a9.
     bind_result (value_labels ext j ''labels'' (ed_labels v)) (\<lambda>b1.
     Inr \<lparr>ed_device_id = a1, ed_tenant_id = a2, ed_merchant_id = a3, ed_branch_id = a4, ed_region = a5,
       ed_device_type = a6, ed_driver_id = a7, ed_firmware_version = a8, ed_capabilities = a9,
       ed_labels = b1\<rparr>))))))))))"

definition capability_to_json :: "CapabilityMetadata \<Rightarrow> json" where
  "capability_to_json v = JObj [(''capability'', JStr (cm_capability v)), (''description'', JStr (cm_description v)),
     (''high_risk'', JBool (cm_high_risk v))]"

definition capability_from_json :: "extern \<Rightarrow> json \<Rightarrow> CapabilityMetadata \<Rightarrow> CapabilityMetadata result" where
  "capability_from_json ext j v =
     bind_result (value_str ext j ''capability'' (cm_capability v)) (\<lambda>a1.
     bind_result (value_str ext j ''description'' (cm_description v)) (\<lambda>a2.
     bind_result (value_bool ext j ''high_risk'' (cm_high_risk v)) (\<lambda>a3.
     Inr \<lparr>cm_capability = a1, cm_description = a2, cm_high_risk = a3\<rparr>)))"

definition driver_to_json :: "DriverMetadata \<Rightarrow> json" where
  "driver_to_json v = JObj [(''driver_id'', JStr (dm_driver_id v)), (''vendor'', JStr (dm_vendor v)),
     (''device_type'', JStr (dm_device_type v)), (''version'', JStr (dm_version v)), (''health'', JStr (dm_health v)),
     (''supported_capabilities'', JArr (map JStr (dm_supported_capabilities v)))]"

definition driver_from_json :: "extern \<Rightarrow> json \<Rightarrow> DriverMetadata \<Rightarrow> DriverMetadata result" where
  "driver_from_json ext j v =
     bind_result (value_str ext j ''driver_id'' (dm_driver_id v)) (\<lambda>a1.
     bind_result (value_str ext j ''vendor'' (dm_vendor v)) (\<lambda>a2.
     bind_result (value_str ext j ''device_type'' (dm_device_type v)) (\<lambda>a3.
     bind_result (value_str ext j ''version'' (dm_version v)) (\<lambda>a4.
     bind_result (value_str ext j ''health'' (dm_health v)) (\<lambda>a5.
     bind_result (value_strs ext j ''supported_capabilities'' (dm_supported_capabilities v)) (\<lambda>a6.
     Inr \<lparr>dm_driver_id = a1, dm_vendor = a2, dm_device_type = a3, dm_version = a4, dm_health = a5,
       dm_supported_capabilities = a6\<rparr>))))))"

definition edge_request_to_json :: "EdgeCommandRequest \<Rightarrow> json" where
  "edge_request_to_json v = JObj [(''command_id'', JStr (eq_command_id v)), (''device_id'', JStr (eq_device_id v)),
     (''command'', JStr (eq_command v)), (''parameters'', eq_parameters v), (''actor_id'', JStr (eq_actor_id v)),
     (''requested_at'', JInt (eq_requested_at v))]"

definition edge_request_from_json :: "extern \<Rightarrow> json \<Rightarrow> EdgeCommandRequest \<Rightarrow> EdgeCommandRequest result" where
  "edge_request_from_json ext j v =
     bind_result (value_str ext j ''command_id'' (eq_command_id v)) (\<lambda>a1.
     bind_result (value_str ext j ''device_id'' (eq_device_id v)) (\<lambda>a2.
     bind_result (value_str ext j ''command'' (eq_command v)) (\<lambda>a3.
     bind_result (value_json ext j ''parameters'' (JObj [])) (\<lambda>a4.
     bind_result (value_str ext j ''actor_id'' (eq_actor_id v)) (\<lambda>a5.
     bind_result (value_int ext j ''requested_at'' (eq_requested_at v)) (\<lambda>a6.
     Inr \<lparr>eq_command_id = a1, eq_device_id = a2, eq_command = a3, eq_parameters = a4, eq_actor_id = a5,
       eq_requested_at = a6\<rparr>))))))"

definition edge_result_to_json :: "EdgeCommandResult \<Rightarrow> json" where
  "edge_result_to_json v = JObj [(''command_id'', JStr (er_command_id v)), (''device_id'', JStr (er_device_id v)),
     (''command'', JStr (er_command v)), (''accepted'', JBool (er_accepted v)), (''executed'', JBool (er_executed v)),
     (''status'', JStr (er_status v)), (''reason'', JStr (er_reason v)),
     (''completed_at'', JInt (er_completed_at v))]"

definition edge_result_from_json :: "extern \<Rightarrow> json \<Rightarrow> EdgeCommandResult \<Rightarrow> EdgeCommandResult result" where
  "edge_result_from_json ext j v =
     bind_result (value_str ext j ''command_id'' (er_command_id v)) (\<lambda>a1.
     bind_result (value_str ext j ''device_id'' (er_device_id v)) (\<lambda>a2.
     bind_result (value_str ext j ''command'' (er_command v)) (\<lambda>a3.
     bind_result (value_bool ext j ''accepted'' (er_accepted v)) (\<lambda>a4.
     bind_result (value_bool ext j ''executed'' (er_executed v)) (\<lambda>a5.
     bind_result (value_str ext j ''status'' (er_status v)) (\<lambda>a6.
     bind_result (value_str ext j ''reason'' (er_reason v)) (\<lambda>a7.
     bind_result (value_int ext j ''completed_at'' (er_completed_at v)) (\<lambda>a8.
     Inr \<lparr>er_command_id = a1, er_device_id = a2, er_command = a3, er_accepted = a4, er_executed = a5,
       er_status = a6, er_reason = a7, er_completed_at = a8\<rparr>))))))))"

definition compartment_to_json :: "EdgeInventoryCompartment \<Rightarrow> json" where
  "compartment_to_json v = JObj [(''compartment_id'', JStr (ic_compartment_id v)),
     (''compartment_type'', JStr (ic_compartment_type v)), (''currency'', JStr (ic_currency v)),
     (''denominations'', counts_json (ic_denominations v)), (''status'', JStr (ic_status v))]"

definition compartment_from_json :: "extern \<Rightarrow> json \<Rightarrow> EdgeInventoryCompartment \<Rightarrow> EdgeInventoryCompartment result" where
  "compartment_from_json ext j v =
     bind_result (value_str ext j ''compartment_id'' (ic_compartment_id v)) (\<lambda>a1.
     bind_result (value_str ext j ''compartment_type'' (ic_compartment_type v)) (\<lambda>a2.
     bind_result (value_str ext j ''currency'' (ic_currency v)) (\<lambda>a3.
     bind_result (value_counts ext j ''denominations'' (ic_denominations v)) (\<lambda>a4.
     bind_result (value_str ext j ''status'' (ic_status v)) (\<lambda>a5.
     Inr \<lparr>ic_compartment_id = a1, ic_compartment_type = a2, ic_currency = a3, ic_denominations = a4,
       ic_status = a5\<rparr>)))))"

definition inventory_to_json :: "EdgeInventoryView \<Rightarrow> json" where
  "inventory_to_json v = JObj [(''device_id'', JStr (iv_device_id v)),
     (''compartments'', JArr (map compartment_to_json (iv_compartments v))),
     (''updated_at'', JInt (iv_updated_at v))]"

definition inventory_from_json :: "extern \<Rightarrow> json \<Rightarrow> EdgeInventoryView \<Rightarrow> EdgeInventoryView result" where
  "inventory_from_json ext j v =
     bind_result (value_str ext j ''device_id'' (iv_device_id v)) (\<lambda>a1.
     bind_result (value_with ext (\<lambda>j. compartment_from_json ext j EdgeInventoryCompartment_default) j ''compartments'' (iv_compartments v)) (\<lambda>a2.
     bind_result (value_int ext j ''updated_at'' (iv_updated_at v)) (\<lambda>a3.
     Inr \<lparr>iv_device_id = a1, iv_compartments = a2, iv_updated_at = a3\<rparr>)))"

definition edge_health_to_json :: "EdgeHealthSummary \<Rightarrow> json" where
  "edge_health_to_json v = JObj [(''device_id'', JStr (eh_device_id v)), (''device_type'', JStr (eh_device_type v)),
     (''score'', JInt (eh_score v)), (''factors'', labels_json (eh_factors v)),
     (''explanations'', JArr (map JStr (eh_explanations v)))]"

definition edge_health_from_json :: "extern \<Rightarrow> json \<Rightarrow> EdgeHealthSummary \<Rightarrow> EdgeHealthSummary result" where
  "edge_health_from_json ext j v =
     bind_result (value_str ext j ''device_id'' (eh_device_id v)) (\<lambda>a1.
     bind_result (value_str ext j ''device_type'' (eh_device_type v)) (\<lambda>a2.
     bind_result (value_int ext j ''score'' (eh_score v)) (\<lambda>a3.
     bind_result (value_labels ext j ''factors'' (eh_factors v)) (\<lambda>a4.
     bind_result (value_strs ext j ''explanations'' (eh_explanations v)) (\<lambda>a5.
     Inr \<lparr>eh_device_id = a1, eh_device_type = a2, eh_score = a3, eh_factors = a4,
       eh_explanations = a5\<rparr>)))))"

definition simulator_to_json :: "SimulatorState \<Rightarrow> json" where
  "simulator_to_json v = JObj [(''device_id'', JStr (ss_device_id v)), (''online'', JBool (ss_online v)),
     (''faults'', JArr (map JStr (ss_faults v))), (''sensor_telemetry'', ss_sensor_telemetry v)]"

definition simulator_from_json :: "extern \<Rightarrow> json \<Rightarrow> SimulatorState \<Rightarrow> SimulatorState result" where
  "simulator_from_json ext j v =
     bind_result (value_str ext j ''device_id'' (ss_device_id v)) (\<lambda>a1.
     bind_result (value_bool ext j ''online'' (ss_online v)) (\<lambda>a2.
     bind_result (value_strs ext j ''faults'' (ss_faults v)) (\<lambda>a3.
     bind_result (value_json ext j ''sensor_telemetry'' (JObj [])) (\<lambda>a4.
     Inr \<lparr>ss_device_id = a1, ss_online = a2, ss_faults = a3, ss_sensor_telemetry = a4\<rparr>))))"

definition edge_event_to_json :: "EdgeEvent \<Rightarrow> json" where
  "edge_event_to_json v = JObj [(''event_id'', JStr (ee_event_id v)), (''tenant_id'', JStr (ee_tenant_id v)),
     (''device_id'', JStr (ee_device_id v)), (''event_type'', JStr (ee_event_type v)),
     (''occurred_at'', JInt (ee_occurred_at v)), (''metadata'', ee_metadata v)]"

definition edge_event_from_json :: "extern \<Rightarrow> json \<Rightarrow> EdgeEvent \<Rightarrow> EdgeEvent result" where
  "edge_event_from_json ext j v =
     bind_result (value_str ext j ''event_id'' (ee_event_id v)) (\<lambda>a1.
     bind_result (value_str ext j ''tenant_id'' (ee_tenant_id v)) (\<lambda>a2.
     bind_result (value_str ext j ''device_id'' (ee_device_id v)) (\<lambda>a3.
     bind_result (value_str ext j ''event_type'' (ee_event_type v)) (\<lambda>a4.
     bind_result (value_int ext j ''occurred_at'' (ee_occurred_at v)) (\<lambda>a5.
     bind_result (value_json ext j ''metadata'' (JObj [])) (\<lambda>a6.
     Inr \<lparr>ee_event_id = a1, ee_tenant_id = a2, ee_device_id = a3, ee_event_type = a4, ee_occurred_at = a5,
       ee_metadata = a6\<rparr>))))))"

section \<open>Drivers\<close>

record MockEdgeDriver =
  md_device_type :: string
  md_capabilities :: "string list"
  md_healthy :: bool

definition driver_metadata :: "MockEdgeDriver \<Rightarrow> DriverMetadata" where
  "driver_metadata m = \<lparr>dm_driver_id = ''mock-'' @ md_device_type m, dm_vendor = ''mock'', dm_device_type = md_device_type m,
     dm_version = ''1.0.0'', dm_health = (if md_healthy m then ''healthy'' else ''faulted''),
     dm_supported_capabilities = md_capabilities m\<rparr>"

definition driver_execute :: "MockEdgeDriver \<Rightarrow> EdgeDevice \<Rightarrow> EdgeCommandRequest \<Rightarrow> EdgeCommandResult" where
  "driver_execute m device request =
     (let r = EdgeCommandResult_default\<lparr>er_command_id := eq_command_id request, er_device_id := ed_device_id device,
        er_command := eq_command request, er_completed_at := eq_requested_at request\<rparr>
      in if \<not> md_healthy m then r\<lparr>er_status := ''failed'', er_reason := ''driver_unhealthy''\<rparr>
         else r\<lparr>er_accepted := True, er_executed := True, er_status := ''executed'', er_reason := ''mock_driver_executed''\<rparr>)"

definition default_capabilities_for_type :: "string \<Rightarrow> string list" where
  "default_capabilities_for_type device_type =
     (if device_type = ''cash_drawer'' then [''inventory'', ''cash_out'', ''open_close'', ''lock_control'', ''sensor_telemetry'',
        ''command_execution'', ''firmware_update'', ''identity'', ''evidence_export'']
      else if device_type = ''smart_safe'' then [''inventory'', ''cash_in'', ''open_close'', ''lock_control'', ''sensor_telemetry'',
        ''command_execution'', ''firmware_update'', ''identity'', ''evidence_export'']
      else if device_type = ''cash_recycler'' then [''inventory'', ''cash_in'', ''cash_out'', ''lock_control'', ''sensor_telemetry'',
        ''command_execution'', ''firmware_update'', ''identity'', ''evidence_export'']
      else if device_type = ''teller_station'' then [''inventory'', ''cash_in'', ''cash_out'', ''open_close'', ''sensor_telemetry'',
        ''command_execution'', ''firmware_update'', ''identity'', ''evidence_export'']
      else if device_type = ''kiosk'' then [''inventory'', ''cash_in'', ''cash_out'', ''lock_control'', ''sensor_telemetry'',
        ''command_execution'', ''firmware_update'', ''identity'', ''evidence_export'']
      else if device_type = ''atm_like_terminal'' then [''inventory'', ''cash_out'', ''lock_control'', ''sensor_telemetry'',
        ''command_execution'', ''firmware_update'', ''identity'', ''evidence_export'']
      else [])"

definition make_mock_driver :: "string \<Rightarrow> MockEdgeDriver" where
  "make_mock_driver device_type = \<lparr>md_device_type = device_type, md_capabilities = default_capabilities_for_type device_type,
     md_healthy = True\<rparr>"

section \<open>Round trips\<close>

lemma edge_device_json_roundtrip: "value_laws ext \<Longrightarrow> edge_device_from_json ext (edge_device_to_json x) v = Inr x"
  by (simp add: edge_device_from_json_def edge_device_to_json_def value_back)

lemma capability_json_roundtrip: "value_laws ext \<Longrightarrow> capability_from_json ext (capability_to_json x) v = Inr x"
  by (simp add: capability_from_json_def capability_to_json_def value_back)

lemma driver_json_roundtrip: "value_laws ext \<Longrightarrow> driver_from_json ext (driver_to_json x) v = Inr x"
  by (simp add: driver_from_json_def driver_to_json_def value_back)

lemma edge_request_json_roundtrip: "value_laws ext \<Longrightarrow> edge_request_from_json ext (edge_request_to_json x) v = Inr x"
  by (simp add: edge_request_from_json_def edge_request_to_json_def value_back)

lemma edge_result_json_roundtrip: "value_laws ext \<Longrightarrow> edge_result_from_json ext (edge_result_to_json x) v = Inr x"
  by (simp add: edge_result_from_json_def edge_result_to_json_def value_back)

lemma compartment_json_roundtrip: "value_laws ext \<Longrightarrow> compartment_from_json ext (compartment_to_json x) v = Inr x"
  by (simp add: compartment_from_json_def compartment_to_json_def value_back)

lemma inventory_json_roundtrip: "value_laws ext \<Longrightarrow> inventory_from_json ext (inventory_to_json x) v = Inr x"
  by (simp add: inventory_from_json_def inventory_to_json_def value_back map_result_back compartment_json_roundtrip)

lemma edge_health_json_roundtrip: "value_laws ext \<Longrightarrow> edge_health_from_json ext (edge_health_to_json x) v = Inr x"
  by (simp add: edge_health_from_json_def edge_health_to_json_def value_back)

lemma simulator_json_roundtrip: "value_laws ext \<Longrightarrow> simulator_from_json ext (simulator_to_json x) v = Inr x"
  by (simp add: simulator_from_json_def simulator_to_json_def value_back)

lemma edge_event_json_roundtrip: "value_laws ext \<Longrightarrow> edge_event_from_json ext (edge_event_to_json x) v = Inr x"
  by (simp add: edge_event_from_json_def edge_event_to_json_def value_back)

end
