(* ===== verification/Edge_Platform.thy ===== *)
theory Edge_Platform
  imports Edge_Models Fleet_Control Veil
begin

text \<open>
  The edge platform (\<^verbatim>\<open>src/edge_platform/service.cpp\<close>): registering devices and capabilities, the checks a
  command passes before its driver runs it, inventories, the simulator, health scores, events, trust
  evidence, and the store file. The fleet control plane and the trust service it may be given are parts
  of its state. Operations that a JSON type error can interrupt return the exception together with the
  state reached. Gauges are not modelled.
\<close>

section \<open>State\<close>

record EdgePlatformService =
  ep_store_path :: string
  ep_file :: "json option"
  ep_fleet :: "FleetControlPlane option"
  ep_trust :: "VeilTrustService option"
  ep_devices :: "(string, EdgeDevice) amap"
  ep_capabilities :: "(string, CapabilityMetadata list) amap"
  ep_drivers :: "(string, MockEdgeDriver) amap"
  ep_inventories :: "(string, EdgeInventoryView) amap"
  ep_simulator :: "(string, SimulatorState) amap"
  ep_command_count :: "(string, int) amap"
  ep_command_failures :: "(string, int) amap"
  ep_command_results :: "EdgeCommandResult list"
  ep_events :: "EdgeEvent list"

text \<open>\<^verbatim>\<open>operator[]\<close> of a map: a missing entry is made by the default constructor.\<close>

definition entry :: "('k, 'v) amap \<Rightarrow> 'v \<Rightarrow> 'k \<Rightarrow> 'v" where
  "entry m d k = (case get m k of Some v \<Rightarrow> v | None \<Rightarrow> d)"

definition supported_types :: "string list" where
  "supported_types = [''atm_like_terminal'', ''cash_drawer'', ''cash_recycler'', ''kiosk'', ''smart_safe'', ''teller_station'']"

definition known_device_type :: "string \<Rightarrow> bool" where
  "known_device_type t \<longleftrightarrow> t \<in> set supported_types"

section \<open>Events, evidence, store file\<close>

definition ep_store_json :: "EdgePlatformService \<Rightarrow> json" where
  "ep_store_json s = JObj [(''schema'', JInt 1), (''devices'', values_json edge_device_to_json (ep_devices s)),
     (''capabilities'', JObj (map (\<lambda>(k, cs). (k, JArr (map capability_to_json cs))) (ep_capabilities s))),
     (''inventories'', values_json inventory_to_json (ep_inventories s)), (''simulator'', values_json simulator_to_json (ep_simulator s)),
     (''command_results'', JArr (map edge_result_to_json (ep_command_results s))),
     (''events'', JArr (map edge_event_to_json (ep_events s)))]"

definition ep_save_locked :: "EdgePlatformService \<Rightarrow> EdgePlatformService" where
  "ep_save_locked s = (if ep_store_path s = [] then s else s\<lparr>ep_file := Some (ep_store_json s)\<rparr>)"

definition load_capabilities ::
  "extern \<Rightarrow> (string \<times> json) list \<Rightarrow> (string, CapabilityMetadata list) amap \<Rightarrow> (string, CapabilityMetadata list) amap result" where
  "load_capabilities ext kvs m =
     bind_result (map_result (\<lambda>(k, v). bind_result (as_arr ext v) (\<lambda>js.
       bind_result (map_result (\<lambda>c. capability_from_json ext c CapabilityMetadata_default) js) (\<lambda>cs. Inr (k, cs)))) kvs)
       (\<lambda>items. Inr (foldl (\<lambda>m (k, cs). put k cs m) m items))"

definition ep_load :: "extern \<Rightarrow> EdgePlatformService \<Rightarrow> EdgePlatformService result" where
  "ep_load ext s = (if ep_store_path s = [] then Inr s else case ep_file s of None \<Rightarrow> Inr s | Some j \<Rightarrow>
     bind_result (value_arr ext j ''devices'' []) (\<lambda>js.
     bind_result (load_map (\<lambda>j. edge_device_from_json ext j EdgeDevice_default) ed_device_id js (ep_devices s)) (\<lambda>devs.
     bind_result (value_items ext j ''capabilities'') (\<lambda>cj.
     bind_result (load_capabilities ext cj (ep_capabilities s)) (\<lambda>caps.
     bind_result (value_arr ext j ''inventories'' []) (\<lambda>js.
     bind_result (load_map (\<lambda>j. inventory_from_json ext j EdgeInventoryView_default) iv_device_id js (ep_inventories s)) (\<lambda>invs.
     bind_result (value_arr ext j ''simulator'' []) (\<lambda>js.
     bind_result (load_map (\<lambda>j. simulator_from_json ext j SimulatorState_default) ss_device_id js (ep_simulator s)) (\<lambda>sims.
     bind_result (value_with ext (\<lambda>j. edge_result_from_json ext j EdgeCommandResult_default) j ''command_results'' (ep_command_results s)) (\<lambda>results.
     bind_result (value_with ext (\<lambda>j. edge_event_from_json ext j EdgeEvent_default) j ''events'' (ep_events s)) (\<lambda>evs.
     Inr (s\<lparr>ep_devices := devs, ep_capabilities := caps, ep_inventories := invs, ep_simulator := sims,
       ep_command_results := results, ep_events := evs\<rparr>))))))))))))"

definition register_default_driver :: "string \<Rightarrow> EdgePlatformService \<Rightarrow> EdgePlatformService" where
  "register_default_driver device_type s =
     (let i = ''mock-'' @ device_type
      in if get (ep_drivers s) i = None then s\<lparr>ep_drivers := put i (make_mock_driver device_type) (ep_drivers s)\<rparr> else s)"

text \<open>The constructor.\<close>

definition EdgePlatformService_blank ::
  "string \<Rightarrow> json option \<Rightarrow> FleetControlPlane option \<Rightarrow> VeilTrustService option \<Rightarrow> EdgePlatformService" where
  "EdgePlatformService_blank store_path file fleet trust = \<lparr>ep_store_path = store_path, ep_file = file, ep_fleet = fleet,
     ep_trust = trust, ep_devices = [], ep_capabilities = [], ep_drivers = [], ep_inventories = [], ep_simulator = [],
     ep_command_count = [], ep_command_failures = [], ep_command_results = [], ep_events = []\<rparr>"

definition EdgePlatformService_new ::
  "extern \<Rightarrow> string \<Rightarrow> json option \<Rightarrow> FleetControlPlane option \<Rightarrow> VeilTrustService option \<Rightarrow> EdgePlatformService result" where
  "EdgePlatformService_new ext store_path file fleet trust =
     bind_result (ep_load ext (EdgePlatformService_blank store_path file fleet trust)) (\<lambda>s.
       Inr (foldl (\<lambda>s t. register_default_driver t s) s supported_types))"

definition emit_event :: "string \<Rightarrow> string \<Rightarrow> string \<Rightarrow> int \<Rightarrow> json \<Rightarrow> EdgePlatformService \<Rightarrow> EdgePlatformService" where
  "emit_event tenant_id device_id event_type now metadata s =
     s\<lparr>ep_events := ep_events s @ [\<lparr>ee_event_id = id_for ''edge-event'' (length (ep_events s)), ee_tenant_id = tenant_id,
       ee_device_id = device_id, ee_event_type = event_type, ee_occurred_at = now, ee_metadata = metadata\<rparr>]\<rparr>"

definition evidence_for :: "EdgeDevice \<Rightarrow> string \<Rightarrow> int \<Rightarrow> json \<Rightarrow> nat \<Rightarrow> TrustEvidenceRecord" where
  "evidence_for device event_type now payload n = TrustEvidenceRecord_default\<lparr>te_tenant_id := ed_tenant_id device,
     te_device_id := ed_device_id device, te_merchant_id := ed_merchant_id device, te_branch_id := ed_branch_id device,
     te_region := ed_region device, te_event_type := event_type, te_source_module := ''edge_platform'', te_timestamp := now,
     te_policy_context := JObj [(''device_type'', JStr (ed_device_type device)), (''capabilities'', JArr (map JStr (ed_capabilities device)))],
     te_classification_labels := [''financial_edge_device''], te_sensitivity_labels := [''cash_ops'', ''device_control''],
     te_audit_event_id := id_for ''edge-audit'' n,
     te_correlation_id := ed_device_id device @ '':'' @ event_type @ '':'' @ to_string now, te_payload := payload\<rparr>"

definition emit_trust_evidence :: "extern \<Rightarrow> EdgeDevice \<Rightarrow> string \<Rightarrow> int \<Rightarrow> json \<Rightarrow> EdgePlatformService \<Rightarrow> EdgePlatformService" where
  "emit_trust_evidence ext device event_type now payload s = (case ep_trust s of None \<Rightarrow> s
     | Some v \<Rightarrow> s\<lparr>ep_trust := Some (snd (create_evidence ext (evidence_for device event_type now payload (length (ep_events s))) v))\<rparr>)"

section \<open>Devices and capabilities\<close>

definition compartment_of_type :: "string \<Rightarrow> string" where
  "compartment_of_type t = (if t = ''kiosk'' \<or> t = ''atm_like_terminal'' then ''terminal_cash_slot''
     else if t = ''teller_station'' then ''teller_drawer'' else if t = ''cash_recycler'' then ''recycler_bin''
     else if t = ''smart_safe'' then ''vault_section'' else ''drawer'')"

definition default_inventory_for :: "EdgeDevice \<Rightarrow> EdgeInventoryView" where
  "default_inventory_for device = \<lparr>iv_device_id = ed_device_id device,
     iv_compartments = [\<lparr>ic_compartment_id = ''main'', ic_compartment_type = compartment_of_type (ed_device_type device),
       ic_currency = ''USD'', ic_denominations = [(''100'', 10), (''500'', 5)], ic_status = ''ok''\<rparr>], iv_updated_at = 0\<rparr>"

definition capability_metadata :: "string \<Rightarrow> CapabilityMetadata" where
  "capability_metadata cap = \<lparr>cm_capability = cap, cm_description = ''registered edge capability'',
     cm_high_risk = (cap = ''lock_control'' \<or> cap = ''cash_out'' \<or> cap = ''command_execution'' \<or> cap = ''evidence_export'')\<rparr>"

definition registry_record :: "EdgeDevice \<Rightarrow> DeviceRegistryRecord" where
  "registry_record d = DeviceRegistryRecord_default\<lparr>dr_device_id := ed_device_id d, dr_device_type := ed_device_type d,
     dr_organization_id := ed_tenant_id d, dr_merchant_id := ed_merchant_id d, dr_branch_id := ed_branch_id d,
     dr_region := ed_region d, dr_firmware_version := ed_firmware_version d, dr_enrollment_status := ''enrolled'',
     dr_certificate_identity_status := ''active'', dr_health_status := ''healthy'', dr_capabilities := ed_capabilities d,
     dr_labels := ed_labels d\<rparr>"

definition completed_device :: "EdgeDevice \<Rightarrow> EdgeDevice" where
  "completed_device d = d\<lparr>ed_driver_id := (if ed_driver_id d = [] then ''mock-'' @ ed_device_type d else ed_driver_id d),
     ed_capabilities := (if ed_capabilities d = [] then default_capabilities_for_type (ed_device_type d) else ed_capabilities d)\<rparr>"

definition registration_json :: "EdgeDevice \<Rightarrow> json" where
  "registration_json d = JObj [(''device_type'', JStr (ed_device_type d)), (''capabilities'', JArr (map JStr (ed_capabilities d)))]"

definition ep_register_device :: "extern \<Rightarrow> EdgeDevice \<Rightarrow> EdgePlatformService \<Rightarrow> bool \<times> EdgePlatformService" where
  "ep_register_device ext d0 s =
     (if ed_device_id d0 = [] \<or> ed_tenant_id d0 = [] \<or> \<not> known_device_type (ed_device_type d0) then (False, s)
      else let d = completed_device d0; i = ed_device_id d;
          s1 = register_default_driver (ed_device_type d) s;
          s2 = s1\<lparr>ep_devices := put i d (ep_devices s1),
            ep_capabilities := put i (map capability_metadata (ed_capabilities d)) (ep_capabilities s1),
            ep_inventories := put i (default_inventory_for d) (ep_inventories s1),
            ep_simulator := put i \<lparr>ss_device_id = i, ss_online = True, ss_faults = [],
              ss_sensor_telemetry = JObj [(''door'', JStr ''closed''), (''lock'', JStr ''locked'')]\<rparr> (ep_simulator s1),
            ep_fleet := map_option (\<lambda>f. snd (cp_register_device (registry_record d) f)) (ep_fleet s1)\<rparr>;
          s3 = emit_event (ed_tenant_id d) i ''edge_device_registered'' 0 (registration_json d) s2;
          s4 = emit_trust_evidence ext d ''edge_device_registered'' 0 (registration_json d) s3
        in (True, ep_save_locked s4))"

definition register_capability :: "string \<Rightarrow> CapabilityMetadata \<Rightarrow> EdgePlatformService \<Rightarrow> bool \<times> EdgePlatformService" where
  "register_capability device_id c s = (case get (ep_devices s) device_id of None \<Rightarrow> (False, s)
     | Some d \<Rightarrow> if cm_capability c = [] then (False, s)
       else let d1 = (if cm_capability c \<in> set (ed_capabilities d) then d
                else d\<lparr>ed_capabilities := ed_capabilities d @ [cm_capability c]\<rparr>);
            s1 = s\<lparr>ep_devices := put device_id d1 (ep_devices s),
              ep_capabilities := put device_id (entry (ep_capabilities s) [] device_id @ [c]) (ep_capabilities s)\<rparr>
          in (True, ep_save_locked (emit_event (ed_tenant_id d1) device_id ''device_capability_registered'' 0
            (JObj [(''capability'', JStr (cm_capability c))]) s1)))"

definition ep_device_list :: "string \<Rightarrow> EdgePlatformService \<Rightarrow> EdgeDevice list" where
  "ep_device_list tenant_id s = filter (\<lambda>d. tenant_id = [] \<or> ed_tenant_id d = tenant_id) (vals (ep_devices s))"

definition capabilities :: "string \<Rightarrow> EdgePlatformService \<Rightarrow> CapabilityMetadata list" where
  "capabilities device_id s = entry (ep_capabilities s) [] device_id"

definition drivers :: "EdgePlatformService \<Rightarrow> DriverMetadata list" where
  "drivers s = map driver_metadata (vals (ep_drivers s))"

section \<open>Commands\<close>

definition capability_for_command :: "string \<Rightarrow> string" where
  "capability_for_command c = (if c = ''lock'' \<or> c = ''unlock'' then ''lock_control'' else if c = ''open'' \<or> c = ''close'' then ''open_close''
     else if c = ''dispense_cash'' then ''cash_out'' else if c = ''accept_cash'' then ''cash_in''
     else if c = ''count_cash'' \<or> c = ''reconcile_device'' then ''inventory'' else if c = ''run_self_test'' then ''sensor_telemetry''
     else if c = ''rotate_keys'' then ''identity'' else if c = ''export_evidence'' then ''evidence_export''
     else if c = ''enter_maintenance_mode'' \<or> c = ''exit_maintenance_mode'' then ''command_execution'' else [])"

definition high_risk_command :: "string \<Rightarrow> bool" where
  "high_risk_command c \<longleftrightarrow> c \<in> {''lock'', ''unlock'', ''open'', ''dispense_cash'', ''accept_cash'', ''rotate_keys'', ''export_evidence'',
     ''enter_maintenance_mode''}"

definition has_capability :: "EdgeDevice \<Rightarrow> string \<Rightarrow> bool" where
  "has_capability d cap \<longleftrightarrow> cap \<in> set (ed_capabilities d)"

definition bump :: "string \<Rightarrow> (string, int) amap \<Rightarrow> (string, int) amap" where
  "bump k m = put k (count_at m k + 1) m"

definition reject :: "EdgeCommandRequest \<Rightarrow> string \<Rightarrow> string \<Rightarrow> EdgePlatformService \<Rightarrow> EdgeCommandResult \<times> EdgePlatformService" where
  "reject q reason event_type s =
     (let r = \<lparr>er_command_id = eq_command_id q, er_device_id = eq_device_id q, er_command = eq_command q, er_accepted = False,
        er_executed = False, er_status = ''rejected'', er_reason = reason, er_completed_at = eq_requested_at q\<rparr>;
          s1 = (case get (ep_devices s) (eq_device_id q) of None \<Rightarrow> s
            | Some d \<Rightarrow> emit_event (ed_tenant_id d) (eq_device_id q) event_type (eq_requested_at q) (JObj [(''command'', JStr (eq_command q))]) s)
      in (r, ep_save_locked (s1\<lparr>ep_command_results := ep_command_results s1 @ [r],
        ep_command_count := bump (eq_device_id q) (ep_command_count s1),
        ep_command_failures := bump (eq_device_id q) (ep_command_failures s1)\<rparr>)))"

text \<open>The policy check of a high-risk command; without a trust service nothing is asked.\<close>

definition ask_policy :: "EdgeDevice \<Rightarrow> string \<Rightarrow> EdgeCommandRequest \<Rightarrow> EdgePlatformService \<Rightarrow> bool \<times> EdgePlatformService" where
  "ask_policy d cap q s = (case ep_trust s of None \<Rightarrow> (True, s)
     | Some v \<Rightarrow> if \<not> high_risk_command (eq_command q) then (True, s)
       else let (ok, v1) = policy_allows_or_fail_closed (ed_tenant_id d) (ed_device_id d) (eq_command q)
              (JObj [(''device_type'', JStr (ed_device_type d)), (''capability'', JStr cap)]) (eq_requested_at q) v
         in (ok, s\<lparr>ep_trust := Some v1\<rparr>))"

text \<open>\<^verbatim>\<open>simulator_[id].sensor_telemetry["maintenance_mode"] = value\<close>.\<close>

definition set_maintenance :: "extern \<Rightarrow> string \<Rightarrow> bool \<Rightarrow> EdgePlatformService \<Rightarrow> EdgePlatformService result" where
  "set_maintenance ext device_id b s =
     (let st = entry (ep_simulator s) SimulatorState_default device_id
      in bind_result (set_member ext (ss_sensor_telemetry st) ''maintenance_mode'' (JBool b)) (\<lambda>t.
        Inr (s\<lparr>ep_simulator := put device_id (st\<lparr>ss_sensor_telemetry := t\<rparr>) (ep_simulator s)\<rparr>)))"

definition maintenance_step :: "extern \<Rightarrow> EdgeDevice \<Rightarrow> EdgeCommandRequest \<Rightarrow> EdgePlatformService \<Rightarrow> EdgePlatformService result" where
  "maintenance_step ext d q s =
     (if eq_command q = ''enter_maintenance_mode'' then
        bind_result (set_maintenance ext (eq_device_id q) True s) (\<lambda>s1.
          Inr (emit_event (ed_tenant_id d) (ed_device_id d) ''maintenance_mode_entered'' (eq_requested_at q) JNull s1))
      else if eq_command q = ''exit_maintenance_mode'' then
        bind_result (set_maintenance ext (eq_device_id q) False s) (\<lambda>s1.
          Inr (emit_event (ed_tenant_id d) (ed_device_id d) ''maintenance_mode_exited'' (eq_requested_at q) JNull s1))
      else Inr s)"

definition run_driver :: "extern \<Rightarrow> MockEdgeDriver \<Rightarrow> EdgeDevice \<Rightarrow> string \<Rightarrow> EdgeCommandRequest \<Rightarrow> EdgePlatformService \<Rightarrow>
    EdgeCommandResult result \<times> EdgePlatformService" where
  "run_driver ext m d cap q s =
     (let r = driver_execute m d q;
          s1 = s\<lparr>ep_command_count := bump (eq_device_id q) (ep_command_count s),
            ep_command_failures := (if er_executed r then ep_command_failures s else bump (eq_device_id q) (ep_command_failures s)),
            ep_command_results := ep_command_results s @ [r]\<rparr>;
          s2 = emit_event (ed_tenant_id d) (ed_device_id d) (if er_executed r then ''driver_command_executed'' else ''driver_command_failed'')
            (eq_requested_at q) (JObj [(''command'', JStr (eq_command q)), (''status'', JStr (er_status r))]) s1
      in case maintenance_step ext d q s2 of Inl e \<Rightarrow> (Inl e, s2)
         | Inr s3 \<Rightarrow>
           let s4 = (if high_risk_command (eq_command q) then emit_trust_evidence ext d ''edge_command_executed'' (eq_requested_at q)
                  (JObj [(''command'', JStr (eq_command q)), (''capability'', JStr cap), (''result'', edge_result_to_json r)]) s3 else s3)
           in (Inr r, ep_save_locked s4))"

definition with_command_id :: "EdgeCommandRequest \<Rightarrow> EdgePlatformService \<Rightarrow> EdgeCommandRequest" where
  "with_command_id q s = (if eq_command_id q = [] then q\<lparr>eq_command_id := id_for ''edge-command'' (length (ep_command_results s))\<rparr> else q)"

definition rejected :: "EdgeCommandResult \<times> EdgePlatformService \<Rightarrow> EdgeCommandResult result \<times> EdgePlatformService" where
  "rejected p = (Inr (fst p), snd p)"

definition execute_command :: "extern \<Rightarrow> EdgeCommandRequest \<Rightarrow> EdgePlatformService \<Rightarrow> EdgeCommandResult result \<times> EdgePlatformService" where
  "execute_command ext q0 s =
     (let q = with_command_id q0 s; cap = capability_for_command (eq_command q) in
      case get (ep_devices s) (eq_device_id q) of
        None \<Rightarrow> rejected (reject q ''unknown_device'' ''driver_command_failed'' s)
      | Some d \<Rightarrow>
        if cap = [] then rejected (reject q ''unsupported_command'' ''unsupported_command_rejected''
          (emit_trust_evidence ext d ''unsupported_command_rejected'' (eq_requested_at q)
            (JObj [(''command'', JStr (eq_command q)), (''reason'', JStr ''unknown_command'')]) s))
        else if \<not> has_capability d cap then rejected (reject q (''missing_capability:'' @ cap) ''unsupported_command_rejected''
          (emit_trust_evidence ext d ''unsupported_command_rejected'' (eq_requested_at q)
            (JObj [(''command'', JStr (eq_command q)), (''required_capability'', JStr cap)]) s))
        else
          let st = entry (ep_simulator s) SimulatorState_default (eq_device_id q);
              s1 = s\<lparr>ep_simulator := put (eq_device_id q) st (ep_simulator s)\<rparr>
          in if \<not> ss_online st then rejected (reject q ''device_offline'' ''driver_command_failed'' s1)
             else let (ok, s2) = ask_policy d cap q s1 in
               if \<not> ok then rejected (reject q ''policy_denied'' ''driver_command_failed''
                 (emit_trust_evidence ext d ''edge_policy_denied_command'' (eq_requested_at q) (JObj [(''command'', JStr (eq_command q))]) s2))
               else case get (ep_drivers s2) (ed_driver_id d) of
                 None \<Rightarrow> rejected (reject q ''driver_missing'' ''driver_command_failed'' s2)
               | Some m \<Rightarrow> run_driver ext m d cap q s2)"

section \<open>Inventory and simulator\<close>

definition ep_inventory :: "string \<Rightarrow> EdgePlatformService \<Rightarrow> EdgeInventoryView" where
  "ep_inventory device_id s = (case get (ep_inventories s) device_id of Some v \<Rightarrow> v
     | None \<Rightarrow> \<lparr>iv_device_id = device_id, iv_compartments = [], iv_updated_at = 0\<rparr>)"

definition update_inventory :: "extern \<Rightarrow> EdgeInventoryView \<Rightarrow> EdgePlatformService \<Rightarrow> bool \<times> EdgePlatformService" where
  "update_inventory ext v s = (case get (ep_devices s) (iv_device_id v) of None \<Rightarrow> (False, s)
     | Some d \<Rightarrow>
       let s1 = emit_event (ed_tenant_id d) (iv_device_id v) ''edge_inventory_updated'' (iv_updated_at v)
              (JObj [(''compartments'', JInt (int (length (iv_compartments v))))])
              (s\<lparr>ep_inventories := put (iv_device_id v) v (ep_inventories s)\<rparr>)
       in (True, ep_save_locked (emit_trust_evidence ext d ''edge_inventory_updated'' (iv_updated_at v) (inventory_to_json v) s1)))"

definition cash_in :: "int \<Rightarrow> EdgeInventoryView \<Rightarrow> EdgeInventoryView" where
  "cash_in n v = (case iv_compartments v of [] \<Rightarrow> v
     | c # cs \<Rightarrow> v\<lparr>iv_compartments := c\<lparr>ic_denominations := sput ''100'' (count_at (ic_denominations c) ''100'' + n) (ic_denominations c)\<rparr> # cs\<rparr>)"

definition simulate_fault :: "extern \<Rightarrow> EdgeDevice \<Rightarrow> string \<Rightarrow> json \<Rightarrow> int \<Rightarrow> EdgePlatformService \<Rightarrow> EdgePlatformService result" where
  "simulate_fault ext d device_id params now s =
     bind_result (value_str ext params ''fault'' ''simulated_fault'') (\<lambda>f.
       let st = entry (ep_simulator s) SimulatorState_default device_id
       in Inr (emit_event (ed_tenant_id d) device_id ''device_fault_detected'' now (JObj [(''fault'', JStr f)])
         (s\<lparr>ep_simulator := put device_id (st\<lparr>ss_faults := ss_faults st @ [f]\<rparr>) (ep_simulator s)\<rparr>)))"

definition simulate_cash_in :: "extern \<Rightarrow> EdgeDevice \<Rightarrow> string \<Rightarrow> json \<Rightarrow> int \<Rightarrow> EdgePlatformService \<Rightarrow> EdgePlatformService result" where
  "simulate_cash_in ext d device_id params now s =
     (let v = entry (ep_inventories s) EdgeInventoryView_default device_id
      in bind_result (if iv_compartments v = [] then Inr v
           else bind_result (value_int ext params ''quantity'' 1) (\<lambda>n. Inr (cash_in n v))) (\<lambda>v1.
         Inr (emit_event (ed_tenant_id d) device_id ''edge_inventory_updated'' now (JObj [(''simulated'', JBool True)])
           (s\<lparr>ep_inventories := put device_id (v1\<lparr>iv_updated_at := now\<rparr>) (ep_inventories s)\<rparr>))))"

definition simulate_action :: "extern \<Rightarrow> EdgeDevice \<Rightarrow> string \<Rightarrow> string \<Rightarrow> json \<Rightarrow> int \<Rightarrow> EdgePlatformService \<Rightarrow> EdgePlatformService result" where
  "simulate_action ext d device_id action params now s =
     (let st = entry (ep_simulator s) SimulatorState_default device_id in
      if action = ''offline'' then Inr (s\<lparr>ep_simulator := put device_id (st\<lparr>ss_online := False\<rparr>) (ep_simulator s)\<rparr>)
      else if action = ''online'' then Inr (s\<lparr>ep_simulator := put device_id (st\<lparr>ss_online := True\<rparr>) (ep_simulator s)\<rparr>)
      else if action = ''fault'' then simulate_fault ext d device_id params now s
      else if action = ''telemetry'' then Inr (s\<lparr>ep_simulator := put device_id (st\<lparr>ss_sensor_telemetry := params\<rparr>) (ep_simulator s)\<rparr>)
      else if action = ''cash_in'' then simulate_cash_in ext d device_id params now s
      else Inr s)"

definition simulate :: "extern \<Rightarrow> string \<Rightarrow> string \<Rightarrow> json \<Rightarrow> int \<Rightarrow> EdgePlatformService \<Rightarrow> SimulatorState result \<times> EdgePlatformService" where
  "simulate ext device_id action params now s = (case get (ep_devices s) device_id of
     None \<Rightarrow> (Inr \<lparr>ss_device_id = device_id, ss_online = False, ss_faults = [''unknown_device''], ss_sensor_telemetry = JNull\<rparr>, s)
   | Some d \<Rightarrow>
     let s0 = s\<lparr>ep_simulator := put device_id (entry (ep_simulator s) SimulatorState_default device_id) (ep_simulator s)\<rparr>
     in case simulate_action ext d device_id action params now s0 of Inl e \<Rightarrow> (Inl e, s0)
        | Inr s1 \<Rightarrow>
          let s2 = ep_save_locked (emit_event (ed_tenant_id d) device_id ''simulator_event_generated'' now
                (JObj [(''action'', JStr action), (''parameters'', params)]) s1)
          in (Inr (entry (ep_simulator s2) SimulatorState_default device_id), s2))"

section \<open>Health\<close>

definition evidence_health :: "extern \<Rightarrow> EdgeDevice \<Rightarrow> string \<Rightarrow> EdgePlatformService \<Rightarrow> string \<times> int \<times> EdgePlatformService" where
  "evidence_health ext d device_id s = (case ep_trust s of None \<Rightarrow> (''unavailable'', 0, s)
     | Some v \<Rightarrow>
       let (r, v1) = verify_chain ext (EvidenceFilter_default\<lparr>ef_tenant_id := ed_tenant_id d, ef_device_id := device_id\<rparr>) v
       in if cv_valid r then (''valid'', 0, s\<lparr>ep_trust := Some v1\<rparr>) else (''invalid'', 20, s\<lparr>ep_trust := Some v1\<rparr>))"

definition health_locked :: "extern \<Rightarrow> string \<Rightarrow> EdgePlatformService \<Rightarrow> EdgeHealthSummary result \<times> EdgePlatformService" where
  "health_locked ext device_id s = (case get (ep_devices s) device_id of
     None \<Rightarrow> (Inr (EdgeHealthSummary_default\<lparr>eh_device_id := device_id, eh_score := 0, eh_explanations := [''unknown device'']\<rparr>), s)
   | Some d \<Rightarrow>
     let sim = entry (ep_simulator s) SimulatorState_default device_id;
         v = entry (ep_inventories s) EdgeInventoryView_default device_id;
         bad = int (length (filter (\<lambda>c. ic_status c \<noteq> ''ok'') (iv_compartments v)));
         s1 = s\<lparr>ep_simulator := put device_id sim (ep_simulator s), ep_inventories := put device_id v (ep_inventories s)\<rparr>;
         total = count_at (ep_command_count s) device_id; failed = count_at (ep_command_failures s) device_id;
         s2 = s1\<lparr>ep_command_count := put device_id total (ep_command_count s), ep_command_failures := put device_id failed (ep_command_failures s)\<rparr>
     in case value_str ext (ss_sensor_telemetry sim) ''lock'' ''unknown'' of Inl e \<Rightarrow> (Inl e, s1)
        | Inr lock \<Rightarrow> case value_bool ext (ss_sensor_telemetry sim) ''maintenance_mode'' False of Inl e \<Rightarrow> (Inl e, s1)
        | Inr maint \<Rightarrow>
          let (chain, chain_penalty, s3) = evidence_health ext d device_id s2;
              penalty = (if ss_online sim then 0 else 25) + int (length (ss_faults sim)) * 15 + bad * 10 + (if maint then 10 else 0) +
                (if total = 0 then 0 else (failed * 20) sdiv total) + chain_penalty;
              factors = [(''sensor_health'', if ss_online sim then ''online'' else ''offline'')] @
                (if ss_faults sim = [] then [] else [(''cash_jam_fault_indicators'', to_string (int (length (ss_faults sim))))]) @
                [(''compartment_status'', to_string bad), (''lock_health'', lock),
                 (''maintenance_state'', if maint then ''maintenance'' else ''normal''),
                 (''command_failure_rate'', if total = 0 then ''0/0'' else to_string failed @ ''/'' @ to_string total),
                 (''evidence_chain_health'', chain)]
          in (Inr \<lparr>eh_device_id = device_id, eh_device_type = ed_device_type d, eh_score = max 0 (100 - penalty),
                eh_factors = foldl (\<lambda>m (k, x). sput k x m) [] factors,
                eh_explanations = (if ss_online sim then [] else [''device simulator is offline'']) @
                  (if ss_faults sim = [] then [] else [''simulated faults reduced score''])\<rparr>, s3))"

definition ep_health :: "extern \<Rightarrow> string \<Rightarrow> EdgePlatformService \<Rightarrow> EdgeHealthSummary result \<times> EdgePlatformService" where
  "ep_health ext device_id s = (case health_locked ext device_id s of (Inl e, s1) \<Rightarrow> (Inl e, s1) | (Inr h, s1) \<Rightarrow> (Inr h, ep_save_locked s1))"

definition ep_event_list :: "string \<Rightarrow> EdgePlatformService \<Rightarrow> EdgeEvent list" where
  "ep_event_list tenant_id s = filter (\<lambda>e. tenant_id = [] \<or> ee_tenant_id e = tenant_id) (ep_events s)"

section \<open>Histories and the invariant\<close>

datatype ep_op = Register EdgeDevice | Add_capability string CapabilityMetadata | Execute EdgeCommandRequest
  | Update_inventory EdgeInventoryView | Simulate string string json int | Health string

fun ep_step :: "extern \<Rightarrow> ep_op \<Rightarrow> EdgePlatformService \<Rightarrow> EdgePlatformService" where
  "ep_step ext (Register d) s = snd (ep_register_device ext d s)"
| "ep_step ext (Add_capability i c) s = snd (register_capability i c s)"
| "ep_step ext (Execute q) s = snd (execute_command ext q s)"
| "ep_step ext (Update_inventory v) s = snd (update_inventory ext v s)"
| "ep_step ext (Simulate i a p now) s = snd (simulate ext i a p now s)"
| "ep_step ext (Health i) s = snd (ep_health ext i s)"

inductive ep_reach :: "extern \<Rightarrow> EdgePlatformService \<Rightarrow> EdgePlatformService \<Rightarrow> bool" for ext s0 where
  ep_start: "ep_reach ext s0 s0"
| ep_next: "ep_reach ext s0 s \<Longrightarrow> ep_reach ext s0 (ep_step ext x s)"

text \<open>Entries stand under their own ids, every device has a simulator state and an inventory, and no device
  failed more commands than it was sent.\<close>

definition ep_inv :: "EdgePlatformService \<Rightarrow> bool" where
  "ep_inv s \<longleftrightarrow> keyed ed_device_id (ep_devices s) \<and> keyed iv_device_id (ep_inventories s) \<and> keyed ss_device_id (ep_simulator s) \<and>
     distinct (map fst (ep_capabilities s)) \<and>
     (\<forall>k. get (ep_devices s) k \<noteq> None \<longrightarrow> get (ep_simulator s) k \<noteq> None \<and> get (ep_inventories s) k \<noteq> None) \<and>
     (\<forall>k. 0 \<le> count_at (ep_command_failures s) k \<and> count_at (ep_command_failures s) k \<le> count_at (ep_command_count s) k)"

lemma ep_save_fields [simp]:
  "ep_devices (ep_save_locked s) = ep_devices s" "ep_capabilities (ep_save_locked s) = ep_capabilities s"
  "ep_drivers (ep_save_locked s) = ep_drivers s" "ep_inventories (ep_save_locked s) = ep_inventories s"
  "ep_simulator (ep_save_locked s) = ep_simulator s" "ep_command_count (ep_save_locked s) = ep_command_count s"
  "ep_command_failures (ep_save_locked s) = ep_command_failures s"
  "ep_command_results (ep_save_locked s) = ep_command_results s" "ep_events (ep_save_locked s) = ep_events s"
  "ep_trust (ep_save_locked s) = ep_trust s" "ep_fleet (ep_save_locked s) = ep_fleet s"
  "ep_store_path (ep_save_locked s) = ep_store_path s"
  by (simp_all add: ep_save_locked_def)

lemma emit_event_fields [simp]:
  "ep_devices (emit_event t d ty now m s) = ep_devices s" "ep_capabilities (emit_event t d ty now m s) = ep_capabilities s"
  "ep_drivers (emit_event t d ty now m s) = ep_drivers s" "ep_inventories (emit_event t d ty now m s) = ep_inventories s"
  "ep_simulator (emit_event t d ty now m s) = ep_simulator s"
  "ep_command_count (emit_event t d ty now m s) = ep_command_count s"
  "ep_command_failures (emit_event t d ty now m s) = ep_command_failures s"
  "ep_command_results (emit_event t d ty now m s) = ep_command_results s" "ep_trust (emit_event t d ty now m s) = ep_trust s"
  "ep_fleet (emit_event t d ty now m s) = ep_fleet s" "ep_store_path (emit_event t d ty now m s) = ep_store_path s"
  by (simp_all add: emit_event_def)

lemma emit_trust_fields [simp]:
  "ep_devices (emit_trust_evidence ext d ty now pl s) = ep_devices s"
  "ep_capabilities (emit_trust_evidence ext d ty now pl s) = ep_capabilities s"
  "ep_drivers (emit_trust_evidence ext d ty now pl s) = ep_drivers s"
  "ep_inventories (emit_trust_evidence ext d ty now pl s) = ep_inventories s"
  "ep_simulator (emit_trust_evidence ext d ty now pl s) = ep_simulator s"
  "ep_command_count (emit_trust_evidence ext d ty now pl s) = ep_command_count s"
  "ep_command_failures (emit_trust_evidence ext d ty now pl s) = ep_command_failures s"
  "ep_command_results (emit_trust_evidence ext d ty now pl s) = ep_command_results s"
  "ep_events (emit_trust_evidence ext d ty now pl s) = ep_events s"
  "ep_fleet (emit_trust_evidence ext d ty now pl s) = ep_fleet s"
  "ep_store_path (emit_trust_evidence ext d ty now pl s) = ep_store_path s"
  by (simp_all add: emit_trust_evidence_def split: option.splits)

lemma default_driver_fields [simp]:
  "ep_devices (register_default_driver t s) = ep_devices s"
  "ep_capabilities (register_default_driver t s) = ep_capabilities s"
  "ep_inventories (register_default_driver t s) = ep_inventories s"
  "ep_simulator (register_default_driver t s) = ep_simulator s"
  "ep_command_count (register_default_driver t s) = ep_command_count s"
  "ep_command_failures (register_default_driver t s) = ep_command_failures s"
  "ep_command_results (register_default_driver t s) = ep_command_results s"
  "ep_events (register_default_driver t s) = ep_events s" "ep_trust (register_default_driver t s) = ep_trust s"
  "ep_fleet (register_default_driver t s) = ep_fleet s" "ep_store_path (register_default_driver t s) = ep_store_path s"
  by (simp_all add: register_default_driver_def Let_def)

lemma ep_inv_simps [simp]:
  "ep_inv (ep_save_locked s) = ep_inv s" "ep_inv (emit_event t d ty now m s) = ep_inv s"
  "ep_inv (emit_trust_evidence ext dev ty now pl s) = ep_inv s" "ep_inv (register_default_driver t s) = ep_inv s"
  "ep_inv (s\<lparr>ep_trust := v\<rparr>) = ep_inv s" "ep_inv (s\<lparr>ep_command_results := r\<rparr>) = ep_inv s"
  by (simp_all add: ep_inv_def)

lemma count_put [simp]: "count_at (put k v m) k' = (if k' = k then v else count_at m k')"
  by (simp add: count_at_def)

lemma count_bump [simp]: "count_at (bump k m) k' = count_at m k' + (if k' = k then 1 else 0)"
  by (simp add: bump_def)

lemma ep_inv_entry:
  assumes "ep_inv s" "get (ep_devices s) k \<noteq> None"
  shows "\<exists>st v. get (ep_simulator s) k = Some st \<and> entry (ep_simulator s) d k = st \<and> ss_device_id st = k \<and>
    get (ep_inventories s) k = Some v \<and> entry (ep_inventories s) d' k = v \<and> iv_device_id v = k"
proof -
  obtain st v where sv: "get (ep_simulator s) k = Some st" "get (ep_inventories s) k = Some v" using assms by (auto simp: ep_inv_def)
  moreover have "ss_device_id st = k" "iv_device_id v = k" using assms(1) sv keyed_get by (auto simp: ep_inv_def)
  ultimately show ?thesis by (simp add: entry_def)
qed

lemma ep_inv_sim: "ep_inv s \<Longrightarrow> ss_device_id st = k \<Longrightarrow> ep_inv (s\<lparr>ep_simulator := put k st (ep_simulator s)\<rparr>)"
  by (auto simp: ep_inv_def)

lemma ep_inv_inventory: "ep_inv s \<Longrightarrow> iv_device_id v = k \<Longrightarrow> ep_inv (s\<lparr>ep_inventories := put k v (ep_inventories s)\<rparr>)"
  by (auto simp: ep_inv_def)

lemma reject_inv: "ep_inv s \<Longrightarrow> ep_inv (snd (reject q reason ty s))"
  by (auto simp: reject_def Let_def ep_inv_def split: option.splits)

lemma register_inv: "ep_inv s \<Longrightarrow> ep_inv (snd (ep_register_device ext d s))"
  by (auto simp: ep_register_device_def Let_def ep_inv_def completed_device_def default_inventory_for_def)

lemma capability_inv: "ep_inv s \<Longrightarrow> ep_inv (snd (register_capability i c s))"
  using keyed_get [of ed_device_id "ep_devices s" i] by (auto simp: register_capability_def Let_def ep_inv_def split: option.splits)

lemma maintenance_inv:
  assumes "ep_inv s" "get (ep_devices s) (eq_device_id q) \<noteq> None" "maintenance_step ext d q s = Inr s1"
  shows "ep_inv s1"
  using ep_inv_entry [OF assms(1,2), of SimulatorState_default] assms(1,3)
  by (auto simp: maintenance_step_def set_maintenance_def Let_def bind_result_def ep_inv_sim split: sum.splits if_splits)

lemma run_driver_inv:
  assumes "ep_inv s" "get (ep_devices s) (eq_device_id q) \<noteq> None"
  shows "ep_inv (snd (run_driver ext m d cap q s))"
proof -
  define r where "r = driver_execute m d q"
  define s1 where "s1 = s\<lparr>ep_command_count := bump (eq_device_id q) (ep_command_count s),
            ep_command_failures := (if er_executed r then ep_command_failures s else bump (eq_device_id q) (ep_command_failures s)),
            ep_command_results := ep_command_results s @ [r]\<rparr>"
  define s2 where "s2 = emit_event (ed_tenant_id d) (ed_device_id d) (if er_executed r then ''driver_command_executed'' else ''driver_command_failed'')
            (eq_requested_at q) (JObj [(''command'', JStr (eq_command q)), (''status'', JStr (er_status r))]) s1"
  have "0 \<le> count_at (ep_command_failures s1) k \<and> count_at (ep_command_failures s1) k \<le> count_at (ep_command_count s1) k" for k
    using assms(1) by (auto simp: ep_inv_def s1_def add_increasing2)
  then have i1: "ep_inv s1" using assms(1) by (simp add: ep_inv_def s1_def)
  then have i2: "ep_inv s2" by (simp add: s2_def)
  have d2: "get (ep_devices s2) (eq_device_id q) \<noteq> None" using assms(2) by (simp add: s2_def s1_def)
  show ?thesis
  proof (cases "maintenance_step ext d q s2")
    case (Inl e)
    then have "snd (run_driver ext m d cap q s) = s2" by (simp add: run_driver_def Let_def r_def s1_def s2_def)
    then show ?thesis using i2 by simp
  next
    case (Inr s3)
    have "ep_inv s3" by (rule maintenance_inv [OF i2 d2 Inr])
    then show ?thesis using Inr by (simp add: run_driver_def Let_def r_def s1_def s2_def)
  qed
qed

lemma ask_policy_result:
  "ask_policy d cap q s = (ok, s1) \<Longrightarrow>
     (ok \<longleftrightarrow> (\<forall>v. ep_trust s = Some v \<and> high_risk_command (eq_command q) \<longrightarrow> policy_permits v (eq_command q))) \<and>
     (\<exists>v. s1 = s\<lparr>ep_trust := v\<rparr>)"
  using verify_policy_allowed [of "ed_tenant_id d" "ed_device_id d" "eq_command q"
      "JObj [(''device_type'', JStr (ed_device_type d)), (''capability'', JStr cap)]" "eq_requested_at q" "the (ep_trust s)"]
  by (auto simp: ask_policy_def policy_allows_or_fail_closed_def split: option.splits if_splits prod.splits)
    (metis EdgePlatformService.surjective EdgePlatformService.update_convs(4))+

lemma with_command_id_fields [simp]:
  "eq_command (with_command_id q s) = eq_command q" "eq_device_id (with_command_id q s) = eq_device_id q"
  "eq_command_id (with_command_id q s) \<noteq> []" "eq_requested_at (with_command_id q s) = eq_requested_at q"
  by (simp_all add: with_command_id_def)

text \<open>What must hold for a driver to be asked to run a command.\<close>

definition may_run :: "EdgeCommandRequest \<Rightarrow> EdgeDevice \<Rightarrow> EdgePlatformService \<Rightarrow> bool" where
  "may_run q d s \<longleftrightarrow> get (ep_devices s) (eq_device_id q) = Some d \<and> capability_for_command (eq_command q) \<noteq> [] \<and>
     has_capability d (capability_for_command (eq_command q)) \<and>
     ss_online (entry (ep_simulator s) SimulatorState_default (eq_device_id q)) \<and>
     (\<forall>v. ep_trust s = Some v \<and> high_risk_command (eq_command q) \<longrightarrow> policy_permits v (eq_command q)) \<and>
     get (ep_drivers s) (ed_driver_id d) \<noteq> None"

lemma execute_cases:
  obtains (refused) reason ty s' where "execute_command ext q0 s = rejected (reject (with_command_id q0 s) reason ty s')"
      "\<And>d. \<not> may_run (with_command_id q0 s) d s" "ep_inv s \<Longrightarrow> ep_inv s'" "ep_command_results s' = ep_command_results s"
      "ep_devices s' = ep_devices s"
    | (ran) d m v where "may_run (with_command_id q0 s) d s" "get (ep_drivers s) (ed_driver_id d) = Some m"
      "execute_command ext q0 s = run_driver ext m d (capability_for_command (eq_command q0)) (with_command_id q0 s)
        (s\<lparr>ep_simulator := put (eq_device_id q0) (entry (ep_simulator s) SimulatorState_default (eq_device_id q0)) (ep_simulator s), ep_trust := v\<rparr>)"
proof -
  define q where "q = with_command_id q0 s"
  define cap where "cap = capability_for_command (eq_command q)"
  define st where "st = entry (ep_simulator s) SimulatorState_default (eq_device_id q)"
  define s1 where "s1 = s\<lparr>ep_simulator := put (eq_device_id q) st (ep_simulator s)\<rparr>"
  have q0: "eq_command q = eq_command q0" "eq_device_id q = eq_device_id q0" by (simp_all add: q_def)
  note defs = execute_command_def Let_def q_def [symmetric] cap_def [symmetric] st_def [symmetric] s1_def [symmetric]
  note refuse = refused [folded q_def]
  show thesis
  proof (cases "get (ep_devices s) (eq_device_id q)")
    case None
    show thesis by (rule refuse [of "''unknown_device''" "''driver_command_failed''" s]) (simp_all add: defs None may_run_def)
  next
    case (Some d)
    have i1: "ep_inv s \<Longrightarrow> ep_inv s1" using ep_inv_entry [of s "eq_device_id q"] Some by (fastforce simp: s1_def st_def intro: ep_inv_sim)
    consider (unknown) "cap = []" | (missing) "cap \<noteq> []" "\<not> has_capability d cap" | (offline) "cap \<noteq> []" "has_capability d cap" "\<not> ss_online st"
      | (ready) "cap \<noteq> []" "has_capability d cap" "ss_online st" by blast
    then show thesis
    proof cases
      case unknown
      have "execute_command ext q0 s = rejected (reject q ''unsupported_command'' ''unsupported_command_rejected''
          (emit_trust_evidence ext d ''unsupported_command_rejected'' (eq_requested_at q)
            (JObj [(''command'', JStr (eq_command q)), (''reason'', JStr ''unknown_command'')]) s))"
        using unknown by (simp add: defs Some)
      from refuse [OF this] show thesis using unknown by (simp add: may_run_def cap_def)
    next
      case missing
      have "execute_command ext q0 s = rejected (reject q (''missing_capability:'' @ cap) ''unsupported_command_rejected''
          (emit_trust_evidence ext d ''unsupported_command_rejected'' (eq_requested_at q)
            (JObj [(''command'', JStr (eq_command q)), (''required_capability'', JStr cap)]) s))"
        using missing by (simp add: defs Some)
      from refuse [OF this] show thesis using missing Some by (auto simp: may_run_def cap_def)
    next
      case offline
      show thesis
        by (rule refuse [of "''device_offline''" "''driver_command_failed''" s1])
          (use offline i1 in \<open>simp_all add: defs Some may_run_def\<close>, simp_all add: s1_def)
    next
      case ready
      obtain ok s2 where a: "ask_policy d cap q s1 = (ok, s2)" by fastforce
      have t1: "ep_trust s1 = ep_trust s" "ep_drivers s1 = ep_drivers s" "ep_devices s1 = ep_devices s"
        "ep_command_results s1 = ep_command_results s" by (simp_all add: s1_def)
      from ask_policy_result [OF a] obtain v where
        v: "ok \<longleftrightarrow> (\<forall>v. ep_trust s = Some v \<and> high_risk_command (eq_command q) \<longrightarrow> policy_permits v (eq_command q))" "s2 = s1\<lparr>ep_trust := v\<rparr>"
        by (auto simp: t1)
      have i2: "ep_inv s \<Longrightarrow> ep_inv s2" using i1 v(2) by simp
      consider (denied) "\<not> ok" | (no_driver) "ok" "get (ep_drivers s) (ed_driver_id d) = None"
        | (go) m where "ok" "get (ep_drivers s) (ed_driver_id d) = Some m" by fastforce
      then show thesis
      proof cases
        case denied
        have "execute_command ext q0 s = rejected (reject q ''policy_denied'' ''driver_command_failed''
            (emit_trust_evidence ext d ''edge_policy_denied_command'' (eq_requested_at q) (JObj [(''command'', JStr (eq_command q))]) s2))"
          using denied ready by (simp add: defs Some a)
        from refuse [OF this] show thesis using denied i2 v(1) by (auto simp: may_run_def v(2) t1)
      next
        case no_driver
        show thesis
          by (rule refuse [of "''driver_missing''" "''driver_command_failed''" s2])
            (use no_driver ready i2 in \<open>auto simp: defs Some a may_run_def v(2) t1\<close>)
      next
        case go
        have e: "execute_command ext q0 s = run_driver ext m d cap q s2"
          using go ready by (simp add: defs Some a) (simp add: v(2) t1 cap_def)
        show thesis
        proof (rule ran [of d m v, folded q_def])
          show "may_run q d s" using go ready v(1) Some by (auto simp: may_run_def cap_def st_def)
        qed (use e go in \<open>simp_all add: v(2) s1_def st_def cap_def q0\<close>)
      qed
    qed
  qed
qed

lemma execute_inv: "ep_inv s \<Longrightarrow> ep_inv (snd (execute_command ext q s))"
proof (cases rule: execute_cases [of ext q s])
  case (refused reason ty s')
  assume "ep_inv s"
  then show ?thesis using refused(1,3) reject_inv [of s' "with_command_id q s" reason ty] by (simp add: rejected_def)
next
  case (ran d m v)
  assume i: "ep_inv s"
  have d: "get (ep_devices s) (eq_device_id q) \<noteq> None" using ran(1) by (auto simp: may_run_def)
  have "ep_inv (s\<lparr>ep_simulator := put (eq_device_id q) (entry (ep_simulator s) SimulatorState_default (eq_device_id q)) (ep_simulator s), ep_trust := v\<rparr>)"
    using ep_inv_entry [OF i d, of SimulatorState_default] by (auto simp: ep_inv_sim [OF i])
  then show ?thesis using ran(3) run_driver_inv [of _ "with_command_id q s"] d by simp
qed

lemma simulate_inv: "ep_inv s \<Longrightarrow> ep_inv (snd (simulate ext i a p now s))"
proof (cases "get (ep_devices s) i")
  case None
  assume "ep_inv s"
  then show ?thesis using None by (simp add: simulate_def)
next
  case (Some d)
  assume i: "ep_inv s"
  define s0 where "s0 = s\<lparr>ep_simulator := put i (entry (ep_simulator s) SimulatorState_default i) (ep_simulator s)\<rparr>"
  obtain st v where e: "entry (ep_simulator s) SimulatorState_default i = st" "ss_device_id st = i"
    "entry (ep_inventories s) EdgeInventoryView_default i = v" "iv_device_id v = i"
    using ep_inv_entry [OF i, of i SimulatorState_default EdgeInventoryView_default] Some by auto
  have i0: "ep_inv s0" using ep_inv_sim [OF i e(2)] by (simp add: s0_def e(1))
  have e0: "entry (ep_simulator s0) SimulatorState_default i = st" "entry (ep_inventories s0) EdgeInventoryView_default i = v"
    by (simp_all add: s0_def entry_def e [unfolded entry_def])
  have c: "iv_device_id (cash_in n v) = i" for n using e(4) by (simp add: cash_in_def split: list.splits)
  have act: "ep_inv s1" if "simulate_action ext d i a p now s0 = Inr s1" for s1
    using that e(2,4) c i0
    by (auto simp: simulate_action_def e0 simulate_fault_def simulate_cash_in_def Let_def bind_result_def ep_inv_sim ep_inv_inventory
        split: if_splits sum.splits)
  show ?thesis
    using i0 act Some by (cases "simulate_action ext d i a p now s0") (simp_all add: simulate_def Let_def s0_def [symmetric])
qed

lemma health_inv: "ep_inv s \<Longrightarrow> ep_inv (snd (ep_health ext i s))"
proof (cases "get (ep_devices s) i")
  case None
  assume "ep_inv s"
  then show ?thesis using None by (simp add: ep_health_def health_locked_def)
next
  case (Some d)
  assume i: "ep_inv s"
  obtain st v where e: "entry (ep_simulator s) SimulatorState_default i = st" "ss_device_id st = i"
    "entry (ep_inventories s) EdgeInventoryView_default i = v" "iv_device_id v = i"
    using ep_inv_entry [OF i, of i SimulatorState_default EdgeInventoryView_default] Some by auto
  define s1 where "s1 = s\<lparr>ep_simulator := put i st (ep_simulator s), ep_inventories := put i v (ep_inventories s)\<rparr>"
  define s2 where "s2 = s1\<lparr>ep_command_count := put i (count_at (ep_command_count s) i) (ep_command_count s),
    ep_command_failures := put i (count_at (ep_command_failures s) i) (ep_command_failures s)\<rparr>"
  have i1: "ep_inv s1" using ep_inv_inventory [OF ep_inv_sim [OF i e(2)] e(4)] by (simp add: s1_def)
  then have i2: "ep_inv s2" by (simp add: s2_def s1_def ep_inv_def)
  obtain chain cp s3 where ev: "evidence_health ext d i s2 = (chain, cp, s3)" by (metis prod_cases3)
  have "ep_inv s3" using i2 ev by (auto simp: evidence_health_def Let_def split: option.splits prod.splits if_splits)
  then show ?thesis
    using i1 Some ev
    by (cases "value_str ext (ss_sensor_telemetry st) ''lock'' ''unknown''";
        cases "value_bool ext (ss_sensor_telemetry st) ''maintenance_mode'' False")
      (simp_all add: ep_health_def health_locked_def e Let_def s2_def s1_def)
qed

lemma ep_step_inv: "ep_inv s \<Longrightarrow> ep_inv (ep_step ext x s)"
  by (cases x) (auto simp: register_inv capability_inv execute_inv simulate_inv health_inv update_inventory_def Let_def
      intro: ep_inv_inventory split: option.splits)

lemma ep_reach_inv: "ep_reach ext s0 s \<Longrightarrow> ep_inv s0 \<Longrightarrow> ep_inv s"
  by (induction rule: ep_reach.induct) (auto dest: ep_step_inv)

lemma blank_inv: "ep_inv (EdgePlatformService_blank p f fl tr)"
  by (simp add: ep_inv_def EdgePlatformService_blank_def count_at_def)

section \<open>Properties\<close>

text \<open>
  C14. A command is executed only through all gates: the driver runs it exactly when the device is
  registered, the command is known and its capability is one of the device's, the device is online, the trust
  service permits a high-risk command, and the device's driver exists and is healthy; otherwise the
  answer is a rejection or a driver failure. Each answered command is recorded once, under an id that is not empty.
\<close>

theorem edge_command_gates:
  assumes "execute_command ext q s = (Inr r, s1)"
  shows "(er_executed r \<longleftrightarrow> (\<exists>d m. get (ep_devices s) (eq_device_id q) = Some d \<and>
      capability_for_command (eq_command q) \<noteq> [] \<and> capability_for_command (eq_command q) \<in> set (ed_capabilities d) \<and>
      ss_online (entry (ep_simulator s) SimulatorState_default (eq_device_id q)) \<and>
      (\<forall>v. ep_trust s = Some v \<and> high_risk_command (eq_command q) \<longrightarrow> policy_permits v (eq_command q)) \<and>
      get (ep_drivers s) (ed_driver_id d) = Some m \<and> md_healthy m)) \<and>
    (\<not> er_executed r \<longrightarrow> er_status r = ''rejected'' \<or> er_status r = ''failed'') \<and>
    ep_command_results s1 = ep_command_results s @ [r] \<and> er_command_id r \<noteq> []"
proof -
  show ?thesis
  proof (cases rule: execute_cases [of ext q s])
    case (refused reason ty s')
    have "r = fst (reject (with_command_id q s) reason ty s')" "s1 = snd (reject (with_command_id q s) reason ty s')"
      using assms refused(1) by (auto simp: rejected_def)
    then have r: "\<not> er_executed r" "er_status r = ''rejected''" "er_command_id r \<noteq> []" "ep_command_results s1 = ep_command_results s @ [r]"
      using refused(4) by (auto simp: reject_def Let_def split: option.splits)
    show ?thesis using r refused(2) by (auto simp: may_run_def has_capability_def)
  next
    case (ran d m v)
    have r: "r = driver_execute m d (with_command_id q s)" "ep_command_results s1 = ep_command_results s @ [r]"
      using assms ran(3) by (auto simp: run_driver_def Let_def maintenance_step_def set_maintenance_def bind_result_def
          split: sum.splits if_splits)
    have "er_executed r \<longleftrightarrow> md_healthy m" "\<not> er_executed r \<longrightarrow> er_status r = ''failed''" "er_command_id r \<noteq> []"
      by (auto simp: r(1) driver_execute_def Let_def EdgeCommandResult_default_def)
    then show ?thesis using r(2) ran(1,2) by (auto simp: may_run_def has_capability_def)
  qed
qed

definition sample_edge :: EdgePlatformService where
  "sample_edge = ep_step sample_extern (Register (EdgeDevice_default\<lparr>ed_device_id := ''d1'', ed_tenant_id := ''t1''\<rparr>))
     (EdgePlatformService_blank [] None None (Some empty_veil))"

definition sample_request :: "string \<Rightarrow> EdgeCommandRequest" where
  "sample_request c = EdgeCommandRequest_default\<lparr>eq_device_id := ''d1'', eq_command := c, eq_requested_at := 5\<rparr>"

lemma sample_edge_reach: "ep_reach sample_extern (EdgePlatformService_blank [] None None (Some empty_veil)) sample_edge"
  unfolding sample_edge_def by (intro ep_reach.intros)

lemma sample_edge_fields:
  "get (ep_devices sample_edge) ''d1'' = Some (completed_device (EdgeDevice_default\<lparr>ed_device_id := ''d1'', ed_tenant_id := ''t1''\<rparr>))"
  "get (ep_drivers sample_edge) ''mock-cash_drawer'' = Some (make_mock_driver ''cash_drawer'')"
  "ss_online (entry (ep_simulator sample_edge) SimulatorState_default ''d1'')"
  "map_option (\<lambda>v. (vs_client v, vs_policy v)) (ep_trust sample_edge) = Some (LocalVeilClient_default, PolicyConfig_default)"
  by (simp_all add: sample_edge_def ep_register_device_def Let_def known_device_type_def supported_types_def EdgeDevice_default_def
      completed_device_def EdgePlatformService_blank_def register_default_driver_def entry_def emit_trust_evidence_def
      create_evidence_def empty_veil_def)

theorem edge_command_gates_witness:
  "\<exists>r s1. execute_command sample_extern (sample_request ''dispense_cash'') sample_edge = (Inr r, s1) \<and> er_executed r"
proof -
  let ?q = "sample_request ''dispense_cash''"
  have q: "eq_command ?q = ''dispense_cash''" "eq_device_id ?q = ''d1''" by (simp_all add: sample_request_def)
  have d: "ed_driver_id (completed_device (EdgeDevice_default\<lparr>ed_device_id := ''d1'', ed_tenant_id := ''t1''\<rparr>)) = ''mock-cash_drawer''"
    "''cash_out'' \<in> set (ed_capabilities (completed_device (EdgeDevice_default\<lparr>ed_device_id := ''d1'', ed_tenant_id := ''t1''\<rparr>)))"
    by (simp_all add: completed_device_def EdgeDevice_default_def default_capabilities_for_type_def)
  obtain r s1 where e: "execute_command sample_extern ?q sample_edge = (Inr r, s1)"
  proof (cases rule: execute_cases [of sample_extern ?q sample_edge])
    case (refused reason ty s')
    then show ?thesis using that by (simp add: rejected_def)
  next
    case (ran d m v)
    then show ?thesis using that by (simp add: run_driver_def maintenance_step_def Let_def q)
  qed
  have "policy_permits v ''dispense_cash''" if "ep_trust sample_edge = Some v" for v
    using sample_edge_fields(4) that by (simp add: policy_permits_def LocalVeilClient_default_def)
  then have "er_executed r"
    using edge_command_gates [OF e] sample_edge_fields(1-3) d
    by (simp add: q capability_for_command_def make_mock_driver_def)
  with e show ?thesis by blast
qed

text \<open>
  Health scores: in every state the platform can reach, a health summary has a score from 0 to 100, and the
  failures it counts are at most the commands; an unknown device scores 0.
\<close>

theorem edge_health_bounds:
  assumes "ep_reach ext (EdgePlatformService_blank p f fl tr) s" "ep_health ext i s = (Inr h, s1)"
  shows "0 \<le> eh_score h \<and> eh_score h \<le> 100 \<and> (get (ep_devices s) i = None \<longrightarrow> eh_score h = 0) \<and>
    count_at (ep_command_failures s) i \<le> count_at (ep_command_count s) i"
proof -
  have inv: "0 \<le> count_at (ep_command_failures s) i \<and> count_at (ep_command_failures s) i \<le> count_at (ep_command_count s) i"
    using ep_reach_inv [OF assms(1) blank_inv] by (simp add: ep_inv_def)
  then have q: "count_at (ep_command_count s) i \<noteq> 0 \<Longrightarrow> 0 \<le> count_at (ep_command_failures s) i * 20 sdiv count_at (ep_command_count s) i"
    by (simp add: sdiv_pos pos_imp_zdiv_nonneg_iff)
  show ?thesis
  proof (cases "get (ep_devices s) i")
    case None
    then show ?thesis using assms(2) inv by (auto simp: ep_health_def health_locked_def)
  next
    case (Some d)
    define sim where "sim = entry (ep_simulator s) SimulatorState_default i"
    define v where "v = entry (ep_inventories s) EdgeInventoryView_default i"
    define total where "total = count_at (ep_command_count s) i"
    define failed where "failed = count_at (ep_command_failures s) i"
    define s2 where "s2 = s\<lparr>ep_simulator := put i sim (ep_simulator s), ep_inventories := put i v (ep_inventories s),
      ep_command_count := put i total (ep_command_count s), ep_command_failures := put i failed (ep_command_failures s)\<rparr>"
    obtain chain cp s3 where e: "evidence_health ext d i s2 = (chain, cp, s3)" by (metis prod_cases3)
    have cp: "0 \<le> cp" using e by (auto simp: evidence_health_def Let_def split: option.splits prod.splits if_splits)
    obtain lock maint where vals: "value_str ext (ss_sensor_telemetry sim) ''lock'' ''unknown'' = Inr lock"
      "value_bool ext (ss_sensor_telemetry sim) ''maintenance_mode'' False = Inr maint"
      using assms(2) Some
      by (cases "value_str ext (ss_sensor_telemetry sim) ''lock'' ''unknown''";
          cases "value_bool ext (ss_sensor_telemetry sim) ''maintenance_mode'' False")
        (simp_all add: ep_health_def health_locked_def Let_def sim_def [symmetric])
    have "eh_score (projr (fst (health_locked ext i s))) = max 0 (100 - ((if ss_online sim then 0 else 25) + int (length (ss_faults sim)) * 15 +
        int (length (filter (\<lambda>c. ic_status c \<noteq> ''ok'') (iv_compartments v))) * 10 + (if maint then 10 else 0) +
        (if total = 0 then 0 else (failed * 20) sdiv total) + cp))"
      using e [unfolded s2_def]
      by (simp add: health_locked_def Some vals Let_def sim_def [symmetric] v_def [symmetric] total_def [symmetric] failed_def [symmetric])
    moreover have "fst (health_locked ext i s) = Inr h"
      using assms(2) by (auto simp: ep_health_def split: prod.splits sum.splits)
    ultimately have "eh_score h = max 0 (100 - ((if ss_online sim then 0 else 25) + int (length (ss_faults sim)) * 15 +
        int (length (filter (\<lambda>c. ic_status c \<noteq> ''ok'') (iv_compartments v))) * 10 + (if maint then 10 else 0) +
        (if total = 0 then 0 else (failed * 20) sdiv total) + cp))" by simp
    then show ?thesis using cp q inv Some by (auto simp: total_def failed_def)
  qed
qed

lemma object_health_answers:
  assumes "value_laws ext" "get (ep_devices s) i \<noteq> None" "ss_sensor_telemetry (entry (ep_simulator s) SimulatorState_default i) = JObj kvs"
    and "\<forall>v. map_of kvs ''lock'' = Some v \<longrightarrow> (\<exists>x. v = JStr x)" "\<forall>v. map_of kvs ''maintenance_mode'' = Some v \<longrightarrow> (\<exists>b. v = JBool b)"
  shows "\<exists>h s1. ep_health ext i s = (Inr h, s1)"
proof -
  obtain lock where l: "value_str ext (JObj kvs) ''lock'' ''unknown'' = Inr lock"
    using assms(1,4) by (cases "map_of kvs ''lock''") (auto simp: value_laws_def json_value_def)
  obtain maint where m: "value_bool ext (JObj kvs) ''maintenance_mode'' False = Inr maint"
    using assms(1,5) by (cases "map_of kvs ''maintenance_mode''") (auto simp: value_laws_def json_value_def)
  obtain d where d: "get (ep_devices s) i = Some d" using assms(2) by auto
  have "\<exists>h s1. health_locked ext i s = (Inr h, s1)"
    unfolding health_locked_def Let_def d assms(3) option.case l m sum.case split_def by blast
  then show ?thesis by (auto simp: ep_health_def)
qed

theorem edge_health_bounds_witness:
  "\<exists>h s1. ep_health sample_extern ''d1'' sample_edge = (Inr h, s1) \<and> 0 \<le> eh_score h \<and> eh_score h \<le> 100"
proof -
  have "ss_sensor_telemetry (entry (ep_simulator sample_edge) SimulatorState_default ''d1'') =
      JObj [(''door'', JStr ''closed''), (''lock'', JStr ''locked'')]"
    by (simp add: sample_edge_def ep_register_device_def Let_def known_device_type_def supported_types_def EdgeDevice_default_def
        completed_device_def EdgePlatformService_blank_def entry_def)
  then obtain h s1 where h: "ep_health sample_extern ''d1'' sample_edge = (Inr h, s1)"
    using object_health_answers [OF sample_value_laws, of sample_edge "''d1''"] sample_edge_fields(1) by auto
  from edge_health_bounds [OF sample_edge_reach this] h show ?thesis by blast
qed

text \<open>
  Telemetry that is not an object disables the health check: the simulator accepts it, and from then on
  the health of the device cannot be computed, the JSON library throws.
\<close>

theorem bad_telemetry_breaks_health:
  assumes "value_laws ext" "get (ep_devices s) i = Some d" "\<forall>kvs. params \<noteq> JObj kvs"
  shows "\<exists>st s1. simulate ext i ''telemetry'' params now s = (Inr st, s1) \<and> ss_sensor_telemetry st = params \<and>
    fst (ep_health ext i s1) = Inl Json_error"
proof -
  obtain st s1 where e: "simulate ext i ''telemetry'' params now s = (Inr st, s1)" "ss_sensor_telemetry st = params"
    "entry (ep_simulator s1) SimulatorState_default i = st" "get (ep_devices s1) i = Some d"
    using assms(2) by (simp add: simulate_def simulate_action_def Let_def entry_def)
  have "value_str ext params ''lock'' ''unknown'' = Inl Json_error"
    using assms(1,3) by (cases params) (simp_all add: value_laws_def json_value_def)
  then have "fst (ep_health ext i s1) = Inl Json_error"
    by (simp add: ep_health_def health_locked_def e(2-4) Let_def)
  with e show ?thesis by blast
qed

theorem bad_telemetry_breaks_health_witness:
  "\<exists>st s1. simulate sample_extern ''d1'' ''telemetry'' (JArr []) 9 sample_edge = (Inr st, s1) \<and>
     fst (ep_health sample_extern ''d1'' s1) = Inl Json_error"
  using bad_telemetry_breaks_health [OF sample_value_laws sample_edge_fields(1), of "JArr []" 9] by auto

lemma verify_last_time:
  "te_device_id e \<noteq> [] \<Longrightarrow> get (vf_last_time (verify_record ext v e)) (chain_key ''device'' (te_device_id e)) = Some (te_timestamp e)"
  by (auto simp: verify_record_def chain_keys_def verify_key_def Let_def)

lemma verify_out_of_order:
  "te_device_id e \<noteq> [] \<Longrightarrow> get (vf_last_time v) (chain_key ''device'' (te_device_id e)) = Some t \<Longrightarrow> te_timestamp e < t \<Longrightarrow>
     vf_errors (verify_record ext v e) \<noteq> []"
  by (auto simp: verify_record_def chain_keys_def verify_key_def Let_def)

text \<open>
  Registering a device again spoils its evidence: the registration is recorded with time 0, so that
  after any dated record of the device the verifier finds the chain out of order, and a health check reports
  the chain as invalid.
\<close>

theorem reregistration_breaks_chain:
  assumes "ep_trust s = Some v" "ep_register_device ext d s = (True, s1)"
    and "filter (filter_matches (device_filter (ed_tenant_id d) (ed_device_id d))) (vs_evidence v) = es @ [e]" "te_timestamp e > 0"
  shows "\<exists>v1. ep_trust s1 = Some v1 \<and> \<not> cv_valid (fst (verify_chain ext (device_filter (ed_tenant_id d) (ed_device_id d)) v1))"
proof -
  let ?f = "filter_matches (device_filter (ed_tenant_id d) (ed_device_id d))"
  have reg: "ed_device_id d \<noteq> []" "ed_tenant_id d \<noteq> []" using assms(2) by (auto simp: ep_register_device_def split: if_splits)
  obtain n pl where t1: "ep_trust s1 = Some (snd (create_evidence ext (evidence_for (completed_device d) ''edge_device_registered'' 0 pl n) v))"
    using assms(1,2) by (auto simp: ep_register_device_def Let_def emit_trust_evidence_def register_default_driver_def split: if_splits)
  define r where "r = complete_evidence ext (evidence_for (completed_device d) ''edge_device_registered'' 0 pl n) v"
  have rf: "te_device_id r = ed_device_id d" "te_tenant_id r = ed_tenant_id d" "te_timestamp r = 0"
    by (simp_all add: r_def complete_evidence_fields evidence_for_def completed_device_def)
  have "e \<in> set (filter ?f (vs_evidence v))" unfolding assms(3) by simp
  then have ef: "te_device_id e = ed_device_id d"
    using reg by (auto simp: filter_matches_def device_filter_def EvidenceFilter_default_def)
  have "?f r" using rf by (simp add: filter_matches_def device_filter_def EvidenceFilter_default_def)
  then have "filter ?f (vs_evidence (snd (create_evidence ext (evidence_for (completed_device d) ''edge_device_registered'' 0 pl n) v))) = es @ [e] @ [r]"
    using assms(3) by (simp add: create_evidence_list r_def)
  moreover have "vf_errors (foldl (verify_record ext) verify_start (es @ [e] @ [r])) \<noteq> []"
    using verify_out_of_order [of r "foldl (verify_record ext) verify_start (es @ [e])"] verify_last_time [of e] reg rf ef assms(4) by simp
  ultimately show ?thesis by (simp add: t1 verify_chain_def verify_chain_locked_def Let_def)
qed

theorem reregistration_breaks_chain_witness:
  "\<exists>s1 v1. ep_register_device sample_extern (EdgeDevice_default\<lparr>ed_device_id := ''d1'', ed_tenant_id := ''t1''\<rparr>)
     (EdgePlatformService_blank [] None None (Some (empty_veil\<lparr>vs_evidence := [device_event ''d1'' 5]\<rparr>))) = (True, s1) \<and>
     ep_trust s1 = Some v1 \<and> \<not> cv_valid (fst (verify_chain sample_extern (device_filter ''t1'' ''d1'') v1))"
proof -
  let ?d = "EdgeDevice_default\<lparr>ed_device_id := ''d1'', ed_tenant_id := ''t1''\<rparr>" and ?v = "empty_veil\<lparr>vs_evidence := [device_event ''d1'' 5]\<rparr>"
  let ?s = "EdgePlatformService_blank [] None None (Some ?v)"
  have t: "ep_trust ?s = Some ?v" by (simp add: EdgePlatformService_blank_def)
  obtain s1 where r: "ep_register_device sample_extern ?d ?s = (True, s1)"
    by (simp add: ep_register_device_def known_device_type_def supported_types_def EdgeDevice_default_def Let_def)
  have "filter (filter_matches (device_filter (ed_tenant_id ?d) (ed_device_id ?d))) (vs_evidence ?v) = [] @ [device_event ''d1'' 5]"
    by (simp add: filter_matches_def device_filter_def EvidenceFilter_default_def)
  from reregistration_breaks_chain [OF t r this] r show ?thesis by auto
qed

lemma capabilities_back:
  "value_laws ext \<Longrightarrow> distinct (map fst m) \<Longrightarrow>
     load_capabilities ext (map (\<lambda>(k, cs). (k, JArr (map capability_to_json cs))) m) [] = Inr m"
proof -
  assume l: "value_laws ext" and d: "distinct (map fst m)"
  have a: "as_arr ext (JArr js) = Inr js" for js using l by (simp add: value_laws_def)
  have "map_result (\<lambda>(k, v). bind_result (as_arr ext v) (\<lambda>js.
       bind_result (map_result (\<lambda>c. capability_from_json ext c CapabilityMetadata_default) js) (\<lambda>cs. Inr (k, cs))))
       (map (\<lambda>(k, cs). (k, JArr (map capability_to_json cs))) m) = Inr m"
    by (rule map_result_map) (auto simp: a map_result_back capability_json_roundtrip [OF l])
  moreover have "foldl (\<lambda>m (k, cs). put k cs m) m1 m2 = m1 @ m2" if "distinct (map fst (m1 @ m2))" for m1 m2 :: "(string, CapabilityMetadata list) amap"
    using that
  proof (induction m2 arbitrary: m1)
    case (Cons kv m2)
    then show ?case by (cases kv) (simp add: put_new)
  qed simp
  ultimately show ?thesis using d by (simp add: load_capabilities_def)
qed

text \<open>
  A restart keeps devices, capabilities, inventories, simulator states, command results and events; only
  the counters behind the failure rate start again from zero.
\<close>

theorem ep_save_load:
  assumes "ep_reach ext (EdgePlatformService_blank p f fl tr) s" "ep_store_path s \<noteq> []" "value_laws ext"
  shows "\<exists>s1. ep_load ext (EdgePlatformService_blank (ep_store_path s) (ep_file (ep_save_locked s)) fl1 tr1) = Inr s1 \<and>
    ep_devices s1 = ep_devices s \<and> ep_capabilities s1 = ep_capabilities s \<and> ep_inventories s1 = ep_inventories s \<and>
    ep_simulator s1 = ep_simulator s \<and> ep_command_results s1 = ep_command_results s \<and> ep_events s1 = ep_events s \<and>
    ep_command_count s1 = [] \<and> ep_command_failures s1 = []"
proof -
  have "ep_inv s" by (rule ep_reach_inv [OF assms(1) blank_inv])
  then have k: "keyed ed_device_id (ep_devices s)" "keyed iv_device_id (ep_inventories s)" "keyed ss_device_id (ep_simulator s)"
    "distinct (map fst (ep_capabilities s))" by (simp_all add: ep_inv_def)
  note trips = edge_device_json_roundtrip inventory_json_roundtrip simulator_json_roundtrip edge_result_json_roundtrip edge_event_json_roundtrip
  show ?thesis
    using assms(2,3) k
    by (simp add: EdgePlatformService_blank_def ep_load_def ep_save_locked_def ep_store_json_def value_back value_items_back values_json_def
        load_map_back map_result_back capabilities_back trips [OF assms(3)])
qed

theorem ep_save_load_witness:
  "\<exists>s1. ep_load sample_extern (EdgePlatformService_blank ''f'' (ep_file (ep_save_locked (ep_step sample_extern
       (Register (EdgeDevice_default\<lparr>ed_device_id := ''d1'', ed_tenant_id := ''t1''\<rparr>)) (EdgePlatformService_blank ''f'' None None None)))) None None) = Inr s1 \<and>
     get (ep_devices s1) ''d1'' \<noteq> None"
proof -
  let ?s = "ep_step sample_extern (Register (EdgeDevice_default\<lparr>ed_device_id := ''d1'', ed_tenant_id := ''t1''\<rparr>)) (EdgePlatformService_blank ''f'' None None None)"
  have r: "ep_reach sample_extern (EdgePlatformService_blank ''f'' None None None) ?s" by (intro ep_reach.intros)
  have "ep_store_path ?s = ''f''" "get (ep_devices ?s) ''d1'' \<noteq> None"
    by (simp_all add: ep_register_device_def Let_def known_device_type_def supported_types_def EdgeDevice_default_def completed_device_def
        EdgePlatformService_blank_def)
  with ep_save_load [OF r _ sample_value_laws, of None None] show ?thesis by auto
qed

end
