(* ===== verification/Fleet_Ops_Models.thy ===== *)
theory Fleet_Ops_Models
  imports Fleet_Models
begin

text \<open>
  The data of the fleet operations service (\<^verbatim>\<open>src/cloud/fleet_operations/models.hpp\<close>) with their JSON
  (\<^verbatim>\<open>models.cpp\<close>, whose macros \<^verbatim>\<open>JSON_FIELD\<close> and \<^verbatim>\<open>READ_FIELD\<close> are written out) and the round trips.
\<close>

section \<open>Data\<close>

record Fleet =
  fl_fleet_id :: string
  fl_tenant_id :: string
  fl_name :: string
  fl_device_group_ids :: "string list"
  fl_labels :: "(string \<times> string) list"

definition Fleet_default :: Fleet where
  "Fleet_default = \<lparr>fl_fleet_id = [], fl_tenant_id = [], fl_name = [], fl_device_group_ids = [],
     fl_labels = []\<rparr>"

record Location =
  lo_location_id :: string
  lo_tenant_id :: string
  lo_branch_id :: string
  lo_region :: string
  lo_name :: string
  lo_labels :: "(string \<times> string) list"

definition Location_default :: Location where
  "Location_default = \<lparr>lo_location_id = [], lo_tenant_id = [], lo_branch_id = [], lo_region = [], lo_name = [],
     lo_labels = []\<rparr>"

record DeviceGroup =
  dg_group_id :: string
  dg_tenant_id :: string
  dg_fleet_id :: string
  dg_name :: string
  dg_device_ids :: "string list"
  dg_labels :: "(string \<times> string) list"

definition DeviceGroup_default :: DeviceGroup where
  "DeviceGroup_default = \<lparr>dg_group_id = [], dg_tenant_id = [], dg_fleet_id = [], dg_name = [],
     dg_device_ids = [], dg_labels = []\<rparr>"

record DeviceEnrollment =
  en_enrollment_id :: string
  en_tenant_id :: string
  en_device_id :: string
  en_enrolled_at :: string
  en_enrolled_by :: string
  en_status :: string

definition DeviceEnrollment_default :: DeviceEnrollment where
  "DeviceEnrollment_default = \<lparr>en_enrollment_id = [], en_tenant_id = [], en_device_id = [],
     en_enrolled_at = [], en_enrolled_by = [], en_status = ''enrolled''\<rparr>"

record DeviceAssignment =
  as_tenant_id :: string
  as_device_id :: string
  as_fleet_id :: string
  as_group_id :: string
  as_location_id :: string
  as_branch_id :: string
  as_assigned_at :: string

definition DeviceAssignment_default :: DeviceAssignment where
  "DeviceAssignment_default = \<lparr>as_tenant_id = [], as_device_id = [], as_fleet_id = [], as_group_id = [],
     as_location_id = [], as_branch_id = [], as_assigned_at = []\<rparr>"

record FleetDevice =
  fd_device_id :: string
  fd_tenant_id :: string
  fd_merchant_id :: string
  fd_branch_id :: string
  fd_location_id :: string
  fd_fleet_id :: string
  fd_group_id :: string
  fd_region :: string
  fd_device_type :: string
  fd_firmware_version :: string
  fd_driver_id :: string
  fd_driver_version :: string
  fd_lifecycle_state :: string
  fd_connectivity_status :: string
  fd_last_heartbeat_at :: string
  fd_last_heartbeat_epoch :: int
  fd_capabilities :: "string list"
  fd_labels :: "(string \<times> string) list"
  fd_quarantine_reason :: string
  fd_retired :: bool

definition FleetDevice_default :: FleetDevice where
  "FleetDevice_default = \<lparr>fd_device_id = [], fd_tenant_id = [], fd_merchant_id = [], fd_branch_id = [],
     fd_location_id = [], fd_fleet_id = [], fd_group_id = [], fd_region = [], fd_device_type = ''cash_drawer'',
     fd_firmware_version = [], fd_driver_id = [], fd_driver_version = [], fd_lifecycle_state = ''provisioned'',
     fd_connectivity_status = ''offline'', fd_last_heartbeat_at = [], fd_last_heartbeat_epoch = 0,
     fd_capabilities = [], fd_labels = [], fd_quarantine_reason = [], fd_retired = False\<rparr>"

record FleetHeartbeat =
  fhb_device_id :: string
  fhb_tenant_id :: string
  fhb_firmware_version :: string
  fhb_driver_version :: string
  fhb_connectivity_status :: string
  fhb_inventory_summary :: json
  fhb_error_codes :: "string list"
  fhb_health_metrics :: json
  fhb_timestamp :: int
  fhb_signature :: string

definition FleetHeartbeat_default :: FleetHeartbeat where
  "FleetHeartbeat_default = \<lparr>fhb_device_id = [], fhb_tenant_id = [], fhb_firmware_version = [],
     fhb_driver_version = [], fhb_connectivity_status = ''online'', fhb_inventory_summary = JObj [],
     fhb_error_codes = [], fhb_health_metrics = JObj [], fhb_timestamp = 0, fhb_signature = []\<rparr>"

record FleetCommand =
  fc_command_id :: string
  fc_tenant_id :: string
  fc_device_id :: string
  fc_command :: string
  fc_parameters :: json
  fc_state :: string
  fc_required_capability :: string
  fc_high_risk :: bool
  fc_approval_id :: string
  fc_approved_by :: string
  fc_actor_id :: string
  fc_created_at :: int
  fc_expires_at :: int
  fc_dispatched_at :: int
  fc_acknowledged_at :: int
  fc_completed_at :: int
  fc_result :: string
  fc_failure_reason :: string

definition FleetCommand_default :: FleetCommand where
  "FleetCommand_default = \<lparr>fc_command_id = [], fc_tenant_id = [], fc_device_id = [], fc_command = [],
     fc_parameters = JObj [], fc_state = ''queued'', fc_required_capability = [], fc_high_risk = False,
     fc_approval_id = [], fc_approved_by = [], fc_actor_id = [], fc_created_at = 0, fc_expires_at = 0,
     fc_dispatched_at = 0, fc_acknowledged_at = 0, fc_completed_at = 0, fc_result = [],
     fc_failure_reason = []\<rparr>"

record RiskFactor =
  rf_factor :: string
  rf_points :: int
  rf_explanation :: string

definition RiskFactor_default :: RiskFactor where
  "RiskFactor_default = \<lparr>rf_factor = [], rf_points = 0, rf_explanation = []\<rparr>"

record FleetRisk =
  fr_tenant_id :: string
  fr_scope_type :: string
  fr_scope_id :: string
  fr_score :: int
  fr_level :: string
  fr_factors :: "RiskFactor list"
  fr_evaluated_at :: int

definition FleetRisk_default :: FleetRisk where
  "FleetRisk_default = \<lparr>fr_tenant_id = [], fr_scope_type = ''device'', fr_scope_id = [], fr_score = 0,
     fr_level = ''low'', fr_factors = [], fr_evaluated_at = 0\<rparr>"

record FleetOperationEvent =
  oe_sequence :: int
  oe_event_id :: string
  oe_tenant_id :: string
  oe_device_id :: string
  oe_event_type :: string
  oe_occurred_at :: int
  oe_payload :: json
  oe_previous_hash :: string
  oe_event_hash :: string

definition FleetOperationEvent_default :: FleetOperationEvent where
  "FleetOperationEvent_default = \<lparr>oe_sequence = 0, oe_event_id = [], oe_tenant_id = [], oe_device_id = [],
     oe_event_type = [], oe_occurred_at = 0, oe_payload = JObj [], oe_previous_hash = [], oe_event_hash = []\<rparr>"

record ReplayResult =
  rr_valid :: bool
  rr_reason :: string
  rr_hash_summary :: string
  rr_events :: "FleetOperationEvent list"

definition ReplayResult_default :: ReplayResult where
  "ReplayResult_default = \<lparr>rr_valid = True, rr_reason = [], rr_hash_summary = [], rr_events = []\<rparr>"

section \<open>JSON\<close>

definition fleet_to_json :: "Fleet \<Rightarrow> json" where
  "fleet_to_json v = JObj [(''fleet_id'', JStr (fl_fleet_id v)), (''tenant_id'', JStr (fl_tenant_id v)),
     (''name'', JStr (fl_name v)), (''device_group_ids'', JArr (map JStr (fl_device_group_ids v))),
     (''labels'', labels_json (fl_labels v))]"

definition fleet_from_json :: "extern \<Rightarrow> json \<Rightarrow> Fleet \<Rightarrow> Fleet result" where
  "fleet_from_json ext j v =
     bind_result (value_str ext j ''fleet_id'' (fl_fleet_id v)) (\<lambda>a1.
     bind_result (value_str ext j ''tenant_id'' (fl_tenant_id v)) (\<lambda>a2.
     bind_result (value_str ext j ''name'' (fl_name v)) (\<lambda>a3.
     bind_result (value_strs ext j ''device_group_ids'' (fl_device_group_ids v)) (\<lambda>a4.
     bind_result (value_labels ext j ''labels'' (fl_labels v)) (\<lambda>a5.
     Inr \<lparr>fl_fleet_id = a1, fl_tenant_id = a2, fl_name = a3, fl_device_group_ids = a4,
       fl_labels = a5\<rparr>)))))"

definition location_to_json :: "Location \<Rightarrow> json" where
  "location_to_json v = JObj [(''location_id'', JStr (lo_location_id v)), (''tenant_id'', JStr (lo_tenant_id v)),
     (''branch_id'', JStr (lo_branch_id v)), (''region'', JStr (lo_region v)), (''name'', JStr (lo_name v)),
     (''labels'', labels_json (lo_labels v))]"

definition location_from_json :: "extern \<Rightarrow> json \<Rightarrow> Location \<Rightarrow> Location result" where
  "location_from_json ext j v =
     bind_result (value_str ext j ''location_id'' (lo_location_id v)) (\<lambda>a1.
     bind_result (value_str ext j ''tenant_id'' (lo_tenant_id v)) (\<lambda>a2.
     bind_result (value_str ext j ''branch_id'' (lo_branch_id v)) (\<lambda>a3.
     bind_result (value_str ext j ''region'' (lo_region v)) (\<lambda>a4.
     bind_result (value_str ext j ''name'' (lo_name v)) (\<lambda>a5.
     bind_result (value_labels ext j ''labels'' (lo_labels v)) (\<lambda>a6.
     Inr \<lparr>lo_location_id = a1, lo_tenant_id = a2, lo_branch_id = a3, lo_region = a4, lo_name = a5,
       lo_labels = a6\<rparr>))))))"

definition device_group_to_json :: "DeviceGroup \<Rightarrow> json" where
  "device_group_to_json v = JObj [(''group_id'', JStr (dg_group_id v)), (''tenant_id'', JStr (dg_tenant_id v)),
     (''fleet_id'', JStr (dg_fleet_id v)), (''name'', JStr (dg_name v)),
     (''device_ids'', JArr (map JStr (dg_device_ids v))), (''labels'', labels_json (dg_labels v))]"

definition device_group_from_json :: "extern \<Rightarrow> json \<Rightarrow> DeviceGroup \<Rightarrow> DeviceGroup result" where
  "device_group_from_json ext j v =
     bind_result (value_str ext j ''group_id'' (dg_group_id v)) (\<lambda>a1.
     bind_result (value_str ext j ''tenant_id'' (dg_tenant_id v)) (\<lambda>a2.
     bind_result (value_str ext j ''fleet_id'' (dg_fleet_id v)) (\<lambda>a3.
     bind_result (value_str ext j ''name'' (dg_name v)) (\<lambda>a4.
     bind_result (value_strs ext j ''device_ids'' (dg_device_ids v)) (\<lambda>a5.
     bind_result (value_labels ext j ''labels'' (dg_labels v)) (\<lambda>a6.
     Inr \<lparr>dg_group_id = a1, dg_tenant_id = a2, dg_fleet_id = a3, dg_name = a4, dg_device_ids = a5,
       dg_labels = a6\<rparr>))))))"

definition enrollment_to_json :: "DeviceEnrollment \<Rightarrow> json" where
  "enrollment_to_json v = JObj [(''enrollment_id'', JStr (en_enrollment_id v)),
     (''tenant_id'', JStr (en_tenant_id v)), (''device_id'', JStr (en_device_id v)),
     (''enrolled_at'', JStr (en_enrolled_at v)), (''enrolled_by'', JStr (en_enrolled_by v)),
     (''status'', JStr (en_status v))]"

definition enrollment_from_json :: "extern \<Rightarrow> json \<Rightarrow> DeviceEnrollment \<Rightarrow> DeviceEnrollment result" where
  "enrollment_from_json ext j v =
     bind_result (value_str ext j ''enrollment_id'' (en_enrollment_id v)) (\<lambda>a1.
     bind_result (value_str ext j ''tenant_id'' (en_tenant_id v)) (\<lambda>a2.
     bind_result (value_str ext j ''device_id'' (en_device_id v)) (\<lambda>a3.
     bind_result (value_str ext j ''enrolled_at'' (en_enrolled_at v)) (\<lambda>a4.
     bind_result (value_str ext j ''enrolled_by'' (en_enrolled_by v)) (\<lambda>a5.
     bind_result (value_str ext j ''status'' (en_status v)) (\<lambda>a6.
     Inr \<lparr>en_enrollment_id = a1, en_tenant_id = a2, en_device_id = a3, en_enrolled_at = a4,
       en_enrolled_by = a5, en_status = a6\<rparr>))))))"

definition assignment_to_json :: "DeviceAssignment \<Rightarrow> json" where
  "assignment_to_json v = JObj [(''tenant_id'', JStr (as_tenant_id v)), (''device_id'', JStr (as_device_id v)),
     (''fleet_id'', JStr (as_fleet_id v)), (''group_id'', JStr (as_group_id v)),
     (''location_id'', JStr (as_location_id v)), (''branch_id'', JStr (as_branch_id v)),
     (''assigned_at'', JStr (as_assigned_at v))]"

definition assignment_from_json :: "extern \<Rightarrow> json \<Rightarrow> DeviceAssignment \<Rightarrow> DeviceAssignment result" where
  "assignment_from_json ext j v =
     bind_result (value_str ext j ''tenant_id'' (as_tenant_id v)) (\<lambda>a1.
     bind_result (value_str ext j ''device_id'' (as_device_id v)) (\<lambda>a2.
     bind_result (value_str ext j ''fleet_id'' (as_fleet_id v)) (\<lambda>a3.
     bind_result (value_str ext j ''group_id'' (as_group_id v)) (\<lambda>a4.
     bind_result (value_str ext j ''location_id'' (as_location_id v)) (\<lambda>a5.
     bind_result (value_str ext j ''branch_id'' (as_branch_id v)) (\<lambda>a6.
     bind_result (value_str ext j ''assigned_at'' (as_assigned_at v)) (\<lambda>a7.
     Inr \<lparr>as_tenant_id = a1, as_device_id = a2, as_fleet_id = a3, as_group_id = a4, as_location_id = a5,
       as_branch_id = a6, as_assigned_at = a7\<rparr>)))))))"

definition fleet_device_to_json :: "FleetDevice \<Rightarrow> json" where
  "fleet_device_to_json v = JObj [(''device_id'', JStr (fd_device_id v)), (''tenant_id'', JStr (fd_tenant_id v)),
     (''merchant_id'', JStr (fd_merchant_id v)), (''branch_id'', JStr (fd_branch_id v)),
     (''location_id'', JStr (fd_location_id v)), (''fleet_id'', JStr (fd_fleet_id v)),
     (''group_id'', JStr (fd_group_id v)), (''region'', JStr (fd_region v)),
     (''device_type'', JStr (fd_device_type v)), (''firmware_version'', JStr (fd_firmware_version v)),
     (''driver_id'', JStr (fd_driver_id v)), (''driver_version'', JStr (fd_driver_version v)),
     (''lifecycle_state'', JStr (fd_lifecycle_state v)), (''connectivity_status'', JStr (fd_connectivity_status v)),
     (''last_heartbeat_at'', JStr (fd_last_heartbeat_at v)),
     (''last_heartbeat_epoch'', JInt (fd_last_heartbeat_epoch v)),
     (''capabilities'', JArr (map JStr (fd_capabilities v))), (''labels'', labels_json (fd_labels v)),
     (''quarantine_reason'', JStr (fd_quarantine_reason v)), (''retired'', JBool (fd_retired v))]"

definition fleet_device_from_json :: "extern \<Rightarrow> json \<Rightarrow> FleetDevice \<Rightarrow> FleetDevice result" where
  "fleet_device_from_json ext j v =
     bind_result (value_str ext j ''device_id'' (fd_device_id v)) (\<lambda>a1.
     bind_result (value_str ext j ''tenant_id'' (fd_tenant_id v)) (\<lambda>a2.
     bind_result (value_str ext j ''merchant_id'' (fd_merchant_id v)) (\<lambda>a3.
     bind_result (value_str ext j ''branch_id'' (fd_branch_id v)) (\<lambda>a4.
     bind_result (value_str ext j ''location_id'' (fd_location_id v)) (\<lambda>a5.
     bind_result (value_str ext j ''fleet_id'' (fd_fleet_id v)) (\<lambda>a6.
     bind_result (value_str ext j ''group_id'' (fd_group_id v)) (\<lambda>a7.
     bind_result (value_str ext j ''region'' (fd_region v)) (\<lambda>a8.
     bind_result (value_str ext j ''device_type'' (fd_device_type v)) (\<lambda>a9.
     bind_result (value_str ext j ''firmware_version'' (fd_firmware_version v)) (\<lambda>b1.
     bind_result (value_str ext j ''driver_id'' (fd_driver_id v)) (\<lambda>b2.
     bind_result (value_str ext j ''driver_version'' (fd_driver_version v)) (\<lambda>b3.
     bind_result (value_str ext j ''lifecycle_state'' (fd_lifecycle_state v)) (\<lambda>b4.
     bind_result (value_str ext j ''connectivity_status'' (fd_connectivity_status v)) (\<lambda>b5.
     bind_result (value_str ext j ''last_heartbeat_at'' (fd_last_heartbeat_at v)) (\<lambda>b6.
     bind_result (value_int ext j ''last_heartbeat_epoch'' (fd_last_heartbeat_epoch v)) (\<lambda>b7.
     bind_result (value_strs ext j ''capabilities'' (fd_capabilities v)) (\<lambda>b8.
     bind_result (value_labels ext j ''labels'' (fd_labels v)) (\<lambda>b9.
     bind_result (value_str ext j ''quarantine_reason'' (fd_quarantine_reason v)) (\<lambda>c1.
     bind_result (value_bool ext j ''retired'' (fd_retired v)) (\<lambda>c2.
     Inr \<lparr>fd_device_id = a1, fd_tenant_id = a2, fd_merchant_id = a3, fd_branch_id = a4, fd_location_id = a5,
       fd_fleet_id = a6, fd_group_id = a7, fd_region = a8, fd_device_type = a9, fd_firmware_version = b1,
       fd_driver_id = b2, fd_driver_version = b3, fd_lifecycle_state = b4, fd_connectivity_status = b5,
       fd_last_heartbeat_at = b6, fd_last_heartbeat_epoch = b7, fd_capabilities = b8, fd_labels = b9,
       fd_quarantine_reason = c1, fd_retired = c2\<rparr>))))))))))))))))))))"

definition heartbeat_to_json :: "FleetHeartbeat \<Rightarrow> json" where
  "heartbeat_to_json v = JObj [(''device_id'', JStr (fhb_device_id v)), (''tenant_id'', JStr (fhb_tenant_id v)),
     (''firmware_version'', JStr (fhb_firmware_version v)), (''driver_version'', JStr (fhb_driver_version v)),
     (''connectivity_status'', JStr (fhb_connectivity_status v)), (''inventory_summary'', fhb_inventory_summary v),
     (''error_codes'', JArr (map JStr (fhb_error_codes v))), (''health_metrics'', fhb_health_metrics v),
     (''timestamp'', JInt (fhb_timestamp v)), (''signature'', JStr (fhb_signature v))]"

definition heartbeat_from_json :: "extern \<Rightarrow> json \<Rightarrow> FleetHeartbeat \<Rightarrow> FleetHeartbeat result" where
  "heartbeat_from_json ext j v =
     bind_result (value_str ext j ''device_id'' (fhb_device_id v)) (\<lambda>a1.
     bind_result (value_str ext j ''tenant_id'' (fhb_tenant_id v)) (\<lambda>a2.
     bind_result (value_str ext j ''firmware_version'' (fhb_firmware_version v)) (\<lambda>a3.
     bind_result (value_str ext j ''driver_version'' (fhb_driver_version v)) (\<lambda>a4.
     bind_result (value_str ext j ''connectivity_status'' (fhb_connectivity_status v)) (\<lambda>a5.
     bind_result (value_json ext j ''inventory_summary'' (fhb_inventory_summary v)) (\<lambda>a6.
     bind_result (value_strs ext j ''error_codes'' (fhb_error_codes v)) (\<lambda>a7.
     bind_result (value_json ext j ''health_metrics'' (fhb_health_metrics v)) (\<lambda>a8.
     bind_result (value_int ext j ''timestamp'' (fhb_timestamp v)) (\<lambda>a9.
     bind_result (value_str ext j ''signature'' (fhb_signature v)) (\<lambda>b1.
     Inr \<lparr>fhb_device_id = a1, fhb_tenant_id = a2, fhb_firmware_version = a3, fhb_driver_version = a4,
       fhb_connectivity_status = a5, fhb_inventory_summary = a6, fhb_error_codes = a7, fhb_health_metrics = a8,
       fhb_timestamp = a9, fhb_signature = b1\<rparr>))))))))))"

definition fleet_command_to_json :: "FleetCommand \<Rightarrow> json" where
  "fleet_command_to_json v = JObj [(''command_id'', JStr (fc_command_id v)), (''tenant_id'', JStr (fc_tenant_id v)),
     (''device_id'', JStr (fc_device_id v)), (''command'', JStr (fc_command v)), (''parameters'', fc_parameters v),
     (''state'', JStr (fc_state v)), (''required_capability'', JStr (fc_required_capability v)),
     (''high_risk'', JBool (fc_high_risk v)), (''approval_id'', JStr (fc_approval_id v)),
     (''approved_by'', JStr (fc_approved_by v)), (''actor_id'', JStr (fc_actor_id v)),
     (''created_at'', JInt (fc_created_at v)), (''expires_at'', JInt (fc_expires_at v)),
     (''dispatched_at'', JInt (fc_dispatched_at v)), (''acknowledged_at'', JInt (fc_acknowledged_at v)),
     (''completed_at'', JInt (fc_completed_at v)), (''result'', JStr (fc_result v)),
     (''failure_reason'', JStr (fc_failure_reason v))]"

definition fleet_command_from_json :: "extern \<Rightarrow> json \<Rightarrow> FleetCommand \<Rightarrow> FleetCommand result" where
  "fleet_command_from_json ext j v =
     bind_result (value_str ext j ''command_id'' (fc_command_id v)) (\<lambda>a1.
     bind_result (value_str ext j ''tenant_id'' (fc_tenant_id v)) (\<lambda>a2.
     bind_result (value_str ext j ''device_id'' (fc_device_id v)) (\<lambda>a3.
     bind_result (value_str ext j ''command'' (fc_command v)) (\<lambda>a4.
     bind_result (value_json ext j ''parameters'' (fc_parameters v)) (\<lambda>a5.
     bind_result (value_str ext j ''state'' (fc_state v)) (\<lambda>a6.
     bind_result (value_str ext j ''required_capability'' (fc_required_capability v)) (\<lambda>a7.
     bind_result (value_bool ext j ''high_risk'' (fc_high_risk v)) (\<lambda>a8.
     bind_result (value_str ext j ''approval_id'' (fc_approval_id v)) (\<lambda>a9.
     bind_result (value_str ext j ''approved_by'' (fc_approved_by v)) (\<lambda>b1.
     bind_result (value_str ext j ''actor_id'' (fc_actor_id v)) (\<lambda>b2.
     bind_result (value_int ext j ''created_at'' (fc_created_at v)) (\<lambda>b3.
     bind_result (value_int ext j ''expires_at'' (fc_expires_at v)) (\<lambda>b4.
     bind_result (value_int ext j ''dispatched_at'' (fc_dispatched_at v)) (\<lambda>b5.
     bind_result (value_int ext j ''acknowledged_at'' (fc_acknowledged_at v)) (\<lambda>b6.
     bind_result (value_int ext j ''completed_at'' (fc_completed_at v)) (\<lambda>b7.
     bind_result (value_str ext j ''result'' (fc_result v)) (\<lambda>b8.
     bind_result (value_str ext j ''failure_reason'' (fc_failure_reason v)) (\<lambda>b9.
     Inr \<lparr>fc_command_id = a1, fc_tenant_id = a2, fc_device_id = a3, fc_command = a4, fc_parameters = a5,
       fc_state = a6, fc_required_capability = a7, fc_high_risk = a8, fc_approval_id = a9, fc_approved_by = b1,
       fc_actor_id = b2, fc_created_at = b3, fc_expires_at = b4, fc_dispatched_at = b5, fc_acknowledged_at = b6,
       fc_completed_at = b7, fc_result = b8, fc_failure_reason = b9\<rparr>))))))))))))))))))"

definition risk_factor_to_json :: "RiskFactor \<Rightarrow> json" where
  "risk_factor_to_json v = JObj [(''factor'', JStr (rf_factor v)), (''points'', JInt (rf_points v)),
     (''explanation'', JStr (rf_explanation v))]"

definition risk_factor_from_json :: "extern \<Rightarrow> json \<Rightarrow> RiskFactor \<Rightarrow> RiskFactor result" where
  "risk_factor_from_json ext j v =
     bind_result (value_str ext j ''factor'' (rf_factor v)) (\<lambda>a1.
     bind_result (value_int ext j ''points'' (rf_points v)) (\<lambda>a2.
     bind_result (value_str ext j ''explanation'' (rf_explanation v)) (\<lambda>a3.
     Inr \<lparr>rf_factor = a1, rf_points = a2, rf_explanation = a3\<rparr>)))"

definition risk_to_json :: "FleetRisk \<Rightarrow> json" where
  "risk_to_json v = JObj [(''tenant_id'', JStr (fr_tenant_id v)), (''scope_type'', JStr (fr_scope_type v)),
     (''scope_id'', JStr (fr_scope_id v)), (''score'', JInt (fr_score v)), (''level'', JStr (fr_level v)),
     (''factors'', JArr (map risk_factor_to_json (fr_factors v))), (''evaluated_at'', JInt (fr_evaluated_at v))]"

definition risk_from_json :: "extern \<Rightarrow> json \<Rightarrow> FleetRisk \<Rightarrow> FleetRisk result" where
  "risk_from_json ext j v =
     bind_result (value_str ext j ''tenant_id'' (fr_tenant_id v)) (\<lambda>a1.
     bind_result (value_str ext j ''scope_type'' (fr_scope_type v)) (\<lambda>a2.
     bind_result (value_str ext j ''scope_id'' (fr_scope_id v)) (\<lambda>a3.
     bind_result (value_int ext j ''score'' (fr_score v)) (\<lambda>a4.
     bind_result (value_str ext j ''level'' (fr_level v)) (\<lambda>a5.
     bind_result (value_with ext (\<lambda>j. risk_factor_from_json ext j RiskFactor_default) j ''factors'' (fr_factors v)) (\<lambda>a6.
     bind_result (value_int ext j ''evaluated_at'' (fr_evaluated_at v)) (\<lambda>a7.
     Inr \<lparr>fr_tenant_id = a1, fr_scope_type = a2, fr_scope_id = a3, fr_score = a4, fr_level = a5,
       fr_factors = a6, fr_evaluated_at = a7\<rparr>)))))))"

definition operation_event_to_json :: "FleetOperationEvent \<Rightarrow> json" where
  "operation_event_to_json v = JObj [(''sequence'', JInt (oe_sequence v)), (''event_id'', JStr (oe_event_id v)),
     (''tenant_id'', JStr (oe_tenant_id v)), (''device_id'', JStr (oe_device_id v)),
     (''event_type'', JStr (oe_event_type v)), (''occurred_at'', JInt (oe_occurred_at v)),
     (''payload'', oe_payload v), (''previous_hash'', JStr (oe_previous_hash v)),
     (''event_hash'', JStr (oe_event_hash v))]"

definition operation_event_from_json :: "extern \<Rightarrow> json \<Rightarrow> FleetOperationEvent \<Rightarrow> FleetOperationEvent result" where
  "operation_event_from_json ext j v =
     bind_result (value_int ext j ''sequence'' (oe_sequence v)) (\<lambda>a1.
     bind_result (value_str ext j ''event_id'' (oe_event_id v)) (\<lambda>a2.
     bind_result (value_str ext j ''tenant_id'' (oe_tenant_id v)) (\<lambda>a3.
     bind_result (value_str ext j ''device_id'' (oe_device_id v)) (\<lambda>a4.
     bind_result (value_str ext j ''event_type'' (oe_event_type v)) (\<lambda>a5.
     bind_result (value_int ext j ''occurred_at'' (oe_occurred_at v)) (\<lambda>a6.
     bind_result (value_json ext j ''payload'' (oe_payload v)) (\<lambda>a7.
     bind_result (value_str ext j ''previous_hash'' (oe_previous_hash v)) (\<lambda>a8.
     bind_result (value_str ext j ''event_hash'' (oe_event_hash v)) (\<lambda>a9.
     Inr \<lparr>oe_sequence = a1, oe_event_id = a2, oe_tenant_id = a3, oe_device_id = a4, oe_event_type = a5,
       oe_occurred_at = a6, oe_payload = a7, oe_previous_hash = a8, oe_event_hash = a9\<rparr>)))))))))"

definition replay_to_json :: "ReplayResult \<Rightarrow> json" where
  "replay_to_json v = JObj [(''valid'', JBool (rr_valid v)), (''reason'', JStr (rr_reason v)),
     (''hash_summary'', JStr (rr_hash_summary v)), (''events'', JArr (map operation_event_to_json (rr_events v)))]"

section \<open>Round trips\<close>

lemma fleet_json_roundtrip: "value_laws ext \<Longrightarrow> fleet_from_json ext (fleet_to_json x) v = Inr x"
  by (simp add: fleet_from_json_def fleet_to_json_def value_back)

lemma location_json_roundtrip: "value_laws ext \<Longrightarrow> location_from_json ext (location_to_json x) v = Inr x"
  by (simp add: location_from_json_def location_to_json_def value_back)

lemma device_group_json_roundtrip: "value_laws ext \<Longrightarrow> device_group_from_json ext (device_group_to_json x) v = Inr x"
  by (simp add: device_group_from_json_def device_group_to_json_def value_back)

lemma enrollment_json_roundtrip: "value_laws ext \<Longrightarrow> enrollment_from_json ext (enrollment_to_json x) v = Inr x"
  by (simp add: enrollment_from_json_def enrollment_to_json_def value_back)

lemma assignment_json_roundtrip: "value_laws ext \<Longrightarrow> assignment_from_json ext (assignment_to_json x) v = Inr x"
  by (simp add: assignment_from_json_def assignment_to_json_def value_back)

lemma fleet_device_json_roundtrip: "value_laws ext \<Longrightarrow> fleet_device_from_json ext (fleet_device_to_json x) v = Inr x"
  by (simp add: fleet_device_from_json_def fleet_device_to_json_def value_back)

lemma heartbeat_json_roundtrip: "value_laws ext \<Longrightarrow> heartbeat_from_json ext (heartbeat_to_json x) v = Inr x"
  by (simp add: heartbeat_from_json_def heartbeat_to_json_def value_back)

lemma fleet_command_json_roundtrip: "value_laws ext \<Longrightarrow> fleet_command_from_json ext (fleet_command_to_json x) v = Inr x"
  by (simp add: fleet_command_from_json_def fleet_command_to_json_def value_back)

lemma risk_factor_json_roundtrip: "value_laws ext \<Longrightarrow> risk_factor_from_json ext (risk_factor_to_json x) v = Inr x"
  by (simp add: risk_factor_from_json_def risk_factor_to_json_def value_back)

lemma risk_json_roundtrip: "value_laws ext \<Longrightarrow> risk_from_json ext (risk_to_json x) v = Inr x"
  by (simp add: risk_from_json_def risk_to_json_def value_back map_result_back risk_factor_json_roundtrip)

lemma operation_event_json_roundtrip: "value_laws ext \<Longrightarrow> operation_event_from_json ext (operation_event_to_json x) v = Inr x"
  by (simp add: operation_event_from_json_def operation_event_to_json_def value_back)

end
