(* ===== verification/Fleet_Ops.thy ===== *)
theory Fleet_Ops
  imports Fleet_Ops_Models Edge_Platform
begin

text \<open>
  The fleet operations service (\<^verbatim>\<open>src/cloud/fleet_operations/service.cpp\<close>): enrollment, lifecycle,
  heartbeats with automatic quarantine, the command queue with policy and approval, risk scores, recovery,
  the hash-linked event log with its replay, and the store file. The edge platform and the trust service
  are parts of the state; the edge platform works with the same trust service, as the program wires them, so
  it is lent out for the edge operation. An operation with an error text returns \<open>None\<close> for success;
  \<open>Inl\<close> is an exception of the JSON library, with the state reached. Doubles are real numbers.
\<close>

section \<open>State\<close>

record FleetOperationsService =
  fo_store_path :: string
  fo_file :: "json option"
  fo_edge :: "EdgePlatformService option"
  fo_trust :: "VeilTrustService option"
  fo_heartbeat_timeout_seconds :: int
  fo_fleets :: "(string, Fleet) amap"
  fo_locations :: "(string, Location) amap"
  fo_groups :: "(string, DeviceGroup) amap"
  fo_enrollments :: "(string, DeviceEnrollment) amap"
  fo_assignments :: "(string, DeviceAssignment) amap"
  fo_devices :: "(string, FleetDevice) amap"
  fo_heartbeats :: "(string, FleetHeartbeat) amap"
  fo_commands :: "(string, FleetCommand) amap"
  fo_policy_violations :: "(string, int) amap"
  fo_risk_levels :: "(string, string) amap"
  fo_events :: "FleetOperationEvent list"

definition risk_level :: "int \<Rightarrow> string" where
  "risk_level score = (if score \<ge> 75 then ''critical'' else if score \<ge> 50 then ''high'' else if score \<ge> 25 then ''medium'' else ''low'')"

definition valid_transition :: "string \<Rightarrow> string \<Rightarrow> bool \<Rightarrow> bool" where
  "valid_transition frm to recovery = (if frm = to then True else if frm = ''retired'' then False
     else if to = ''retired'' \<or> to = ''quarantined'' then True
     else if frm = ''provisioned'' then to = ''active'' else if frm = ''active'' then to = ''maintenance''
     else if frm = ''maintenance'' then to = ''active'' else if frm = ''quarantined'' then recovery \<and> to = ''active'' else False)"

section \<open>The store file\<close>

definition fo_store_json :: "FleetOperationsService \<Rightarrow> json" where
  "fo_store_json s = JObj [(''schema'', JInt 1), (''fleets'', values_json fleet_to_json (fo_fleets s)),
     (''locations'', values_json location_to_json (fo_locations s)), (''groups'', values_json device_group_to_json (fo_groups s)),
     (''enrollments'', values_json enrollment_to_json (fo_enrollments s)), (''assignments'', values_json assignment_to_json (fo_assignments s)),
     (''devices'', values_json fleet_device_to_json (fo_devices s)), (''heartbeats'', values_json heartbeat_to_json (fo_heartbeats s)),
     (''commands'', values_json fleet_command_to_json (fo_commands s)), (''policy_violations'', counts_json (fo_policy_violations s)),
     (''risk_levels'', labels_json (fo_risk_levels s)), (''events'', JArr (map operation_event_to_json (fo_events s)))]"

definition fo_save_locked :: "FleetOperationsService \<Rightarrow> FleetOperationsService" where
  "fo_save_locked s = (if fo_store_path s = [] then s else s\<lparr>fo_file := Some (fo_store_json s)\<rparr>)"

definition fo_load :: "extern \<Rightarrow> FleetOperationsService \<Rightarrow> FleetOperationsService result" where
  "fo_load ext s = (if fo_store_path s = [] then Inr s else case fo_file s of None \<Rightarrow> Inr s | Some j \<Rightarrow>
     bind_result (value_arr ext j ''fleets'' []) (\<lambda>js.
     bind_result (load_map (\<lambda>j. fleet_from_json ext j Fleet_default) fl_fleet_id js (fo_fleets s)) (\<lambda>a1.
     bind_result (value_arr ext j ''locations'' []) (\<lambda>js.
     bind_result (load_map (\<lambda>j. location_from_json ext j Location_default) lo_location_id js (fo_locations s)) (\<lambda>a2.
     bind_result (value_arr ext j ''groups'' []) (\<lambda>js.
     bind_result (load_map (\<lambda>j. device_group_from_json ext j DeviceGroup_default) dg_group_id js (fo_groups s)) (\<lambda>a3.
     bind_result (value_arr ext j ''enrollments'' []) (\<lambda>js.
     bind_result (load_map (\<lambda>j. enrollment_from_json ext j DeviceEnrollment_default) en_device_id js (fo_enrollments s)) (\<lambda>a4.
     bind_result (value_arr ext j ''assignments'' []) (\<lambda>js.
     bind_result (load_map (\<lambda>j. assignment_from_json ext j DeviceAssignment_default) as_device_id js (fo_assignments s)) (\<lambda>a5.
     bind_result (value_arr ext j ''devices'' []) (\<lambda>js.
     bind_result (load_map (\<lambda>j. fleet_device_from_json ext j FleetDevice_default) fd_device_id js (fo_devices s)) (\<lambda>a6.
     bind_result (value_arr ext j ''heartbeats'' []) (\<lambda>js.
     bind_result (load_map (\<lambda>j. heartbeat_from_json ext j FleetHeartbeat_default) fhb_device_id js (fo_heartbeats s)) (\<lambda>a7.
     bind_result (value_arr ext j ''commands'' []) (\<lambda>js.
     bind_result (load_map (\<lambda>j. fleet_command_from_json ext j FleetCommand_default) fc_command_id js (fo_commands s)) (\<lambda>a8.
     bind_result (value_counts ext j ''policy_violations'' (fo_policy_violations s)) (\<lambda>a9.
     bind_result (value_labels ext j ''risk_levels'' (fo_risk_levels s)) (\<lambda>b1.
     bind_result (value_with ext (\<lambda>j. operation_event_from_json ext j FleetOperationEvent_default) j ''events'' (fo_events s)) (\<lambda>b2.
     Inr (s\<lparr>fo_fleets := a1, fo_locations := a2, fo_groups := a3, fo_enrollments := a4, fo_assignments := a5, fo_devices := a6,
       fo_heartbeats := a7, fo_commands := a8, fo_policy_violations := a9, fo_risk_levels := b1, fo_events := b2\<rparr>)))))))))))))))))))))"

definition FleetOperationsService_blank ::
  "string \<Rightarrow> json option \<Rightarrow> EdgePlatformService option \<Rightarrow> VeilTrustService option \<Rightarrow> int \<Rightarrow> FleetOperationsService" where
  "FleetOperationsService_blank store_path file edge trust timeout = \<lparr>fo_store_path = store_path, fo_file = file, fo_edge = edge,
     fo_trust = trust, fo_heartbeat_timeout_seconds = timeout, fo_fleets = [], fo_locations = [], fo_groups = [], fo_enrollments = [],
     fo_assignments = [], fo_devices = [], fo_heartbeats = [], fo_commands = [], fo_policy_violations = [], fo_risk_levels = [],
     fo_events = []\<rparr>"

definition FleetOperationsService_new ::
  "extern \<Rightarrow> string \<Rightarrow> json option \<Rightarrow> EdgePlatformService option \<Rightarrow> VeilTrustService option \<Rightarrow> int \<Rightarrow> FleetOperationsService result" where
  "FleetOperationsService_new ext store_path file edge trust timeout =
     fo_load ext (FleetOperationsService_blank store_path file edge trust timeout)"

section \<open>Event log and evidence\<close>

definition event_hash :: "extern \<Rightarrow> FleetOperationEvent \<Rightarrow> string" where
  "event_hash ext e = sha256_hex ext (dump ext (JObj [(''sequence'', JInt (oe_sequence e)), (''event_id'', JStr (oe_event_id e)),
     (''tenant_id'', JStr (oe_tenant_id e)), (''device_id'', JStr (oe_device_id e)), (''event_type'', JStr (oe_event_type e)),
     (''occurred_at'', JInt (oe_occurred_at e)), (''payload'', oe_payload e), (''previous_hash'', JStr (oe_previous_hash e))]))"

definition next_event :: "extern \<Rightarrow> string \<Rightarrow> string \<Rightarrow> string \<Rightarrow> int \<Rightarrow> json \<Rightarrow> FleetOperationEvent list \<Rightarrow> FleetOperationEvent" where
  "next_event ext tenant_id device_id type now payload es =
     (let e = \<lparr>oe_sequence = int (length es) + 1, oe_event_id = id_for ''fleet-event'' (length es), oe_tenant_id = tenant_id,
        oe_device_id = device_id, oe_event_type = type, oe_occurred_at = now, oe_payload = payload,
        oe_previous_hash = (if es = [] then [] else oe_event_hash (last es)), oe_event_hash = []\<rparr>
      in e\<lparr>oe_event_hash := event_hash ext e\<rparr>)"

definition append_event :: "extern \<Rightarrow> string \<Rightarrow> string \<Rightarrow> string \<Rightarrow> int \<Rightarrow> json \<Rightarrow> FleetOperationsService \<Rightarrow> FleetOperationsService" where
  "append_event ext tenant_id device_id type now payload s =
     s\<lparr>fo_events := fo_events s @ [next_event ext tenant_id device_id type now payload (fo_events s)]\<rparr>"

definition ops_evidence :: "FleetDevice \<Rightarrow> string \<Rightarrow> int \<Rightarrow> json \<Rightarrow> nat \<Rightarrow> TrustEvidenceRecord" where
  "ops_evidence d event_type now payload n = TrustEvidenceRecord_default\<lparr>te_tenant_id := fd_tenant_id d, te_device_id := fd_device_id d,
     te_merchant_id := fd_merchant_id d, te_branch_id := fd_branch_id d, te_region := fd_region d, te_event_type := event_type,
     te_source_module := ''fleet_operations'', te_timestamp := now,
     te_policy_context := JObj [(''lifecycle_state'', JStr (fd_lifecycle_state d)), (''location_id'', JStr (fd_location_id d))],
     te_classification_labels := [''fleet_operations''], te_sensitivity_labels := [''device_control''],
     te_audit_event_id := id_for ''fleet-audit'' n,
     te_correlation_id := fd_device_id d @ '':'' @ event_type @ '':'' @ to_string now, te_payload := payload\<rparr>"

definition emit_evidence :: "extern \<Rightarrow> FleetDevice \<Rightarrow> string \<Rightarrow> int \<Rightarrow> json \<Rightarrow> FleetOperationsService \<Rightarrow> FleetOperationsService" where
  "emit_evidence ext d event_type now payload s = (case fo_trust s of None \<Rightarrow> s
     | Some v \<Rightarrow> s\<lparr>fo_trust := Some (snd (create_evidence ext (ops_evidence d event_type now payload (length (fo_events s))) v))\<rparr>)"

definition put_device :: "string \<Rightarrow> FleetDevice \<Rightarrow> FleetOperationsService \<Rightarrow> FleetOperationsService" where
  "put_device k d s = s\<lparr>fo_devices := put k d (fo_devices s)\<rparr>"

definition quarantine_locked :: "extern \<Rightarrow> string \<Rightarrow> string \<Rightarrow> int \<Rightarrow> FleetOperationsService \<Rightarrow> FleetOperationsService" where
  "quarantine_locked ext k reason now s = (case get (fo_devices s) k of None \<Rightarrow> s
     | Some d0 \<Rightarrow> if fd_retired d0 then s
       else let d = d0\<lparr>fd_lifecycle_state := ''quarantined'', fd_quarantine_reason := reason\<rparr>
         in emit_evidence ext d ''device_quarantine'' now (JObj [(''reason'', JStr reason)])
              (append_event ext (fd_tenant_id d) (fd_device_id d) ''device_quarantined'' now (JObj [(''reason'', JStr reason)]) (put_device k d s)))"

section \<open>Registry\<close>

text \<open>An operation of the edge platform, with the trust service lent to it.\<close>

definition with_edge :: "EdgePlatformService \<Rightarrow> (EdgePlatformService \<Rightarrow> 'a \<times> EdgePlatformService) \<Rightarrow> FleetOperationsService \<Rightarrow> 'a \<times> FleetOperationsService" where
  "with_edge e f s = (let (r, e1) = f (e\<lparr>ep_trust := fo_trust s\<rparr>) in (r, s\<lparr>fo_edge := Some e1, fo_trust := ep_trust e1\<rparr>))"

definition edge_device_of :: "FleetDevice \<Rightarrow> EdgeDevice" where
  "edge_device_of d = EdgeDevice_default\<lparr>ed_device_id := fd_device_id d, ed_tenant_id := fd_tenant_id d, ed_merchant_id := fd_merchant_id d,
     ed_branch_id := fd_branch_id d, ed_region := fd_region d, ed_device_type := fd_device_type d, ed_driver_id := fd_driver_id d,
     ed_firmware_version := fd_firmware_version d, ed_capabilities := fd_capabilities d, ed_labels := fd_labels d\<rparr>"

definition edge_entry :: "FleetDevice \<Rightarrow> FleetOperationsService \<Rightarrow> EdgeDevice option" where
  "edge_entry d s = (case fo_edge s of None \<Rightarrow> None
     | Some e \<Rightarrow> find (\<lambda>x. ed_device_id x = fd_device_id d) (ep_device_list (fd_tenant_id d) e))"

definition edge_registered :: "extern \<Rightarrow> FleetDevice \<Rightarrow> FleetOperationsService \<Rightarrow> bool \<times> FleetOperationsService" where
  "edge_registered ext d s = (case fo_edge s of None \<Rightarrow> (True, s)
     | Some e \<Rightarrow> if edge_entry d s \<noteq> None then (True, s) else with_edge e (ep_register_device ext (edge_device_of d)) s)"

definition inherit_capabilities :: "FleetDevice \<Rightarrow> FleetOperationsService \<Rightarrow> FleetDevice" where
  "inherit_capabilities d s = (if fd_capabilities d \<noteq> [] then d else case edge_entry d s of None \<Rightarrow> d
     | Some x \<Rightarrow> d\<lparr>fd_capabilities := ed_capabilities x, fd_driver_id := ed_driver_id x\<rparr>)"

definition assignment_of :: "FleetDevice \<Rightarrow> string \<Rightarrow> string \<Rightarrow> int \<Rightarrow> DeviceAssignment" where
  "assignment_of d tenant_id device_id now = \<lparr>as_tenant_id = tenant_id, as_device_id = device_id, as_fleet_id = fd_fleet_id d,
     as_group_id = fd_group_id d, as_location_id = fd_location_id d, as_branch_id = fd_branch_id d, as_assigned_at = epoch_string now\<rparr>"

definition join_group :: "FleetDevice \<Rightarrow> FleetOperationsService \<Rightarrow> FleetOperationsService" where
  "join_group d s = (if fd_group_id d = [] then s
     else let g = entry (fo_groups s) DeviceGroup_default (fd_group_id d)
       in s\<lparr>fo_groups := put (fd_group_id d) (g\<lparr>dg_group_id := fd_group_id d, dg_tenant_id := fd_tenant_id d, dg_fleet_id := fd_fleet_id d,
            dg_name := fd_group_id d, dg_device_ids := dg_device_ids g @ [fd_device_id d]\<rparr>) (fo_groups s)\<rparr>)"

definition enter_device :: "FleetDevice \<Rightarrow> string \<Rightarrow> int \<Rightarrow> FleetOperationsService \<Rightarrow> FleetOperationsService" where
  "enter_device d actor_id now s =
     (let s1 = join_group d ((put_device (fd_device_id d) d s)
            \<lparr>fo_locations := put (fd_location_id d) \<lparr>lo_location_id = fd_location_id d, lo_tenant_id = fd_tenant_id d, lo_branch_id = fd_branch_id d,
               lo_region = fd_region d, lo_name = fd_location_id d, lo_labels = fd_labels d\<rparr> (fo_locations s),
             fo_fleets := put (fd_fleet_id d) \<lparr>fl_fleet_id = fd_fleet_id d, fl_tenant_id = fd_tenant_id d, fl_name = fd_fleet_id d,
               fl_device_group_ids = [], fl_labels = []\<rparr> (fo_fleets s)\<rparr>)
      in s1\<lparr>fo_enrollments := put (fd_device_id d) \<lparr>en_enrollment_id = id_for ''enrollment'' (length (fo_enrollments s1)),
            en_tenant_id = fd_tenant_id d, en_device_id = fd_device_id d, en_enrolled_at = epoch_string now, en_enrolled_by = actor_id,
            en_status = ''enrolled''\<rparr> (fo_enrollments s1),
          fo_assignments := put (fd_device_id d) (assignment_of d (fd_tenant_id d) (fd_device_id d) now) (fo_assignments s1)\<rparr>)"

definition enroll :: "extern \<Rightarrow> FleetDevice \<Rightarrow> string \<Rightarrow> int \<Rightarrow> FleetOperationsService \<Rightarrow> string option \<times> FleetOperationsService" where
  "enroll ext d0 actor_id now s =
     (if fd_device_id d0 = [] \<or> fd_tenant_id d0 = [] \<or> fd_location_id d0 = [] \<or> fd_branch_id d0 = [] \<or> fd_fleet_id d0 = []
      then (Some ''missing_required_assignment'', s)
      else if fd_lifecycle_state d0 \<noteq> ''provisioned'' \<and> fd_lifecycle_state d0 \<noteq> ''active'' then (Some ''invalid_initial_lifecycle'', s)
      else if get (fo_devices s) (fd_device_id d0) \<noteq> None then (Some ''device_already_enrolled'', s)
      else let (ok, s1) = edge_registered ext d0 s in
        if \<not> ok then (Some ''edge_registration_failed'', s1)
        else let d1 = inherit_capabilities d0 s1 in
          if fd_capabilities d1 = [] then (Some ''unknown_capability_state'', s1)
          else let d = d1\<lparr>fd_connectivity_status := ''offline''\<rparr>;
              s2 = append_event ext (fd_tenant_id d) (fd_device_id d) ''device_enrolled'' now
                (JObj [(''location_id'', JStr (fd_location_id d)), (''fleet_id'', JStr (fd_fleet_id d)),
                  (''lifecycle_state'', JStr (fd_lifecycle_state d))]) (enter_device d actor_id now s1);
              s3 = emit_evidence ext d ''device_enrollment'' now
                (JObj [(''location_id'', JStr (fd_location_id d)), (''fleet_id'', JStr (fd_fleet_id d))]) s2
            in (None, fo_save_locked s3))"

definition fo_device :: "string \<Rightarrow> string \<Rightarrow> FleetOperationsService \<Rightarrow> FleetDevice option" where
  "fo_device tenant_id device_id s = (case get (fo_devices s) device_id of None \<Rightarrow> None
     | Some d \<Rightarrow> if fd_tenant_id d \<noteq> tenant_id then None else Some d)"

definition fo_device_list :: "string \<Rightarrow> FleetOperationsService \<Rightarrow> FleetDevice list" where
  "fo_device_list tenant_id s = sort_key fd_device_id (filter (\<lambda>d. fd_tenant_id d = tenant_id) (vals (fo_devices s)))"

text \<open>The assignments of \<^verbatim>\<open>update_device\<close>: the first that throws leaves those before it done.\<close>

definition assign :: "(FleetDevice \<Rightarrow> 'a result) \<Rightarrow> ('a \<Rightarrow> FleetDevice \<Rightarrow> FleetDevice) \<Rightarrow> exn option \<times> FleetDevice \<Rightarrow> exn option \<times> FleetDevice" where
  "assign r upd p = (case p of (Some e, d) \<Rightarrow> (Some e, d)
     | (None, d) \<Rightarrow> (case r d of Inl e \<Rightarrow> (Some e, d) | Inr x \<Rightarrow> (None, upd x d)))"

definition patch_device :: "extern \<Rightarrow> json \<Rightarrow> string \<Rightarrow> FleetDevice \<Rightarrow> exn option \<times> FleetDevice" where
  "patch_device ext patch next d =
     assign (\<lambda>d. value_labels ext patch ''labels'' (fd_labels d)) (\<lambda>x d. d\<lparr>fd_labels := x\<rparr>)
     (assign (\<lambda>d. value_str ext patch ''fleet_id'' (fd_fleet_id d)) (\<lambda>x d. d\<lparr>fd_fleet_id := x\<rparr>)
     (assign (\<lambda>d. value_str ext patch ''group_id'' (fd_group_id d)) (\<lambda>x d. d\<lparr>fd_group_id := x\<rparr>)
     (assign (\<lambda>d. value_str ext patch ''branch_id'' (fd_branch_id d)) (\<lambda>x d. d\<lparr>fd_branch_id := x\<rparr>)
     (assign (\<lambda>d. value_str ext patch ''location_id'' (fd_location_id d)) (\<lambda>x d. d\<lparr>fd_location_id := x\<rparr>)
     (None, d\<lparr>fd_lifecycle_state := next\<rparr>)))))"

definition update_device :: "extern \<Rightarrow> string \<Rightarrow> string \<Rightarrow> json \<Rightarrow> int \<Rightarrow> FleetOperationsService \<Rightarrow> string option result \<times> FleetOperationsService" where
  "update_device ext tenant_id device_id patch now s = (case fo_device tenant_id device_id s of
     None \<Rightarrow> (Inr (Some ''not_found''), s)
   | Some d \<Rightarrow>
     if fd_retired d then (Inr (Some ''device_retired''), s)
     else case value_str ext patch ''lifecycle_state'' (fd_lifecycle_state d) of Inl e \<Rightarrow> (Inl e, s)
     | Inr next \<Rightarrow>
       if \<not> valid_transition (fd_lifecycle_state d) next False then (Inr (Some ''invalid_lifecycle_transition''), s)
       else case (if has_key ext patch ''location_id'' then map_sum id (\<lambda>x. x = []) (value_str ext patch ''location_id'' []) else Inr False) of
         Inl e \<Rightarrow> (Inl e, s)
       | Inr True \<Rightarrow> (Inr (Some ''location_required''), s)
       | Inr False \<Rightarrow>
         (case patch_device ext patch next d of
            (Some e, d1) \<Rightarrow> (Inl e, put_device device_id d1 s)
          | (None, d1) \<Rightarrow>
            let s1 = put_device device_id d1 s;
                s2 = (if fd_lifecycle_state d \<noteq> next then append_event ext tenant_id device_id ''device_lifecycle_changed'' now
                  (JObj [(''from'', JStr (fd_lifecycle_state d)), (''to'', JStr next)]) s1 else s1)
            in (Inr None, fo_save_locked (s2\<lparr>fo_assignments := put device_id (assignment_of d1 tenant_id device_id now) (fo_assignments s2)\<rparr>))))"

definition retire_device :: "extern \<Rightarrow> string \<Rightarrow> string \<Rightarrow> int \<Rightarrow> FleetOperationsService \<Rightarrow> string option \<times> FleetOperationsService" where
  "retire_device ext tenant_id device_id now s = (case fo_device tenant_id device_id s of
     None \<Rightarrow> (Some ''not_found'', s)
   | Some d0 \<Rightarrow>
     if fd_retired d0 then (Some ''device_already_retired'', s)
     else let d = d0\<lparr>fd_lifecycle_state := ''retired'', fd_retired := True, fd_connectivity_status := ''offline''\<rparr>;
         s1 = append_event ext tenant_id device_id ''device_retired'' now
           (JObj [(''from'', JStr (fd_lifecycle_state d0)), (''irreversible'', JBool True)]) (put_device device_id d s)
       in (None, fo_save_locked (emit_evidence ext d ''device_retired'' now (JObj [(''from'', JStr (fd_lifecycle_state d0))]) s1)))"

section \<open>Heartbeats\<close>

definition heartbeat_fresh :: "FleetDevice \<Rightarrow> int \<Rightarrow> FleetOperationsService \<Rightarrow> bool" where
  "heartbeat_fresh d now s \<longleftrightarrow> fd_last_heartbeat_epoch d > 0 \<and> now \<ge> fd_last_heartbeat_epoch d \<and>
     now - fd_last_heartbeat_epoch d \<le> fo_heartbeat_timeout_seconds s"

definition refuse_heartbeat :: "extern \<Rightarrow> string \<Rightarrow> string \<Rightarrow> string \<Rightarrow> int \<Rightarrow> FleetOperationsService \<Rightarrow> string option result \<times> FleetOperationsService" where
  "refuse_heartbeat ext k reason err now s = (Inr (Some err), fo_save_locked (quarantine_locked ext k reason now s))"

definition accept_heartbeat :: "extern \<Rightarrow> FleetHeartbeat \<Rightarrow> FleetDevice \<Rightarrow> int \<Rightarrow> FleetOperationsService \<Rightarrow> FleetOperationsService" where
  "accept_heartbeat ext h d0 received_at s =
     (let d = d0\<lparr>fd_firmware_version := fhb_firmware_version h, fd_driver_version := fhb_driver_version h,
            fd_connectivity_status := fhb_connectivity_status h, fd_last_heartbeat_epoch := fhb_timestamp h,
            fd_last_heartbeat_at := epoch_string (fhb_timestamp h)\<rparr>;
          s1 = (put_device (fhb_device_id h) d s)\<lparr>fo_heartbeats := put (fd_device_id d) h (fo_heartbeats s)\<rparr>;
          s2 = append_event ext (fd_tenant_id d) (fd_device_id d) ''heartbeat_received'' received_at
            (JObj [(''status'', JStr (fhb_connectivity_status h)), (''error_codes'', JArr (map JStr (fhb_error_codes h)))]) s1
      in fo_save_locked (emit_evidence ext d ''device_heartbeat'' (fhb_timestamp h)
           (JObj [(''status'', JStr (fhb_connectivity_status h)), (''health_metrics'', fhb_health_metrics h)]) s2))"

definition note_heartbeat :: "extern \<Rightarrow> FleetHeartbeat \<Rightarrow> FleetDevice \<Rightarrow> int \<Rightarrow> FleetOperationsService \<Rightarrow> FleetOperationsService" where
  "note_heartbeat ext h d0 received_at s =
     (let d = d0\<lparr>fd_last_heartbeat_epoch := fhb_timestamp h, fd_last_heartbeat_at := epoch_string (fhb_timestamp h),
            fd_connectivity_status := fhb_connectivity_status h\<rparr>
      in fo_save_locked (append_event ext (fd_tenant_id d) (fd_device_id d) ''heartbeat_received'' received_at (JObj [(''quarantined'', JBool True)])
           ((put_device (fhb_device_id h) d s)\<lparr>fo_heartbeats := put (fd_device_id d) h (fo_heartbeats s)\<rparr>)))"

definition unknown_version :: "string \<Rightarrow> bool" where
  "unknown_version v \<longleftrightarrow> v = [] \<or> v = ''unknown''"

definition receive_heartbeat :: "extern \<Rightarrow> FleetHeartbeat \<Rightarrow> int \<Rightarrow> FleetOperationsService \<Rightarrow> string option result \<times> FleetOperationsService" where
  "receive_heartbeat ext h received_at s = (let k = fhb_device_id h in case get (fo_devices s) k of
     None \<Rightarrow> (Inr (Some ''unknown_device''), s)
   | Some d \<Rightarrow>
     if fhb_tenant_id h \<noteq> fd_tenant_id d then refuse_heartbeat ext k ''tenant_boundary_violation'' ''tenant_mismatch'' received_at s
     else if fd_retired d then (Inr (Some ''device_retired''), s)
     else if fhb_timestamp h \<le> 0 \<or> received_at - fhb_timestamp h > fo_heartbeat_timeout_seconds s \<or> fhb_timestamp h > received_at + 30
     then refuse_heartbeat ext k ''stale_heartbeat'' ''stale_heartbeat'' received_at s
     else if fd_lifecycle_state d = ''quarantined'' then (Inr (Some ''device_quarantined''), note_heartbeat ext h d received_at s)
     else if fd_capabilities d = [] then refuse_heartbeat ext k ''unknown_capability_state'' ''unknown_capability_state'' received_at s
     else if unknown_version (fhb_firmware_version h) then refuse_heartbeat ext k ''unknown_firmware'' ''unknown_firmware'' received_at s
     else if unknown_version (fhb_driver_version h) then refuse_heartbeat ext k ''unknown_driver'' ''unknown_driver'' received_at s
     else case value_bool ext (fhb_inventory_summary h) ''contradiction'' False of Inl e \<Rightarrow> (Inl e, s)
     | Inr True \<Rightarrow> refuse_heartbeat ext k ''inventory_contradiction'' ''inventory_contradiction'' received_at s
     | Inr False \<Rightarrow> (Inr None, accept_heartbeat ext h d received_at s))"

definition freshness :: "string \<Rightarrow> string \<Rightarrow> int \<Rightarrow> FleetOperationsService \<Rightarrow> json" where
  "freshness tenant_id device_id now s = (case fo_device tenant_id device_id s of None \<Rightarrow> JObj [(''found'', JBool False)]
     | Some d \<Rightarrow> JObj [(''found'', JBool True), (''device_id'', JStr device_id), (''fresh'', JBool (heartbeat_fresh d now s)),
         (''age_seconds'', JInt (if fd_last_heartbeat_epoch d = 0 then - 1 else now - fd_last_heartbeat_epoch d)),
         (''timeout_seconds'', JInt (fo_heartbeat_timeout_seconds s)), (''last_heartbeat_at'', JStr (fd_last_heartbeat_at d))])"

definition fo_health :: "string \<Rightarrow> string \<Rightarrow> int \<Rightarrow> FleetOperationsService \<Rightarrow> json" where
  "fo_health tenant_id device_id now s = (case fo_device tenant_id device_id s of None \<Rightarrow> JObj [(''found'', JBool False)]
     | Some d \<Rightarrow> JObj [(''found'', JBool True), (''device_id'', JStr device_id), (''lifecycle_state'', JStr (fd_lifecycle_state d)),
         (''connectivity_status'', JStr (fd_connectivity_status d)), (''fresh'', JBool (heartbeat_fresh d now s)),
         (''health_metrics'', case get (fo_heartbeats s) device_id of None \<Rightarrow> JObj [] | Some h \<Rightarrow> fhb_health_metrics h),
         (''error_codes'', case get (fo_heartbeats s) device_id of None \<Rightarrow> JArr [] | Some h \<Rightarrow> JArr (map JStr (fhb_error_codes h)))])"

end
