(* ===== verification/Fleet_Commands.thy ===== *)
theory Fleet_Commands
  imports Fleet_Ops
begin

text \<open>
  The second half of the fleet operations service (\<^verbatim>\<open>src/cloud/fleet_operations/service.cpp\<close>): the command
  queue with its policy and approval gates, risk scores, quarantine and recovery, event replay.
\<close>

section \<open>The command queue\<close>

definition fo_capability_for_command :: "string \<Rightarrow> string" where
  "fo_capability_for_command c = (if c = ''lock'' \<or> c = ''unlock'' then ''lock_control'' else if c = ''open'' \<or> c = ''close'' then ''open_close''
     else if c = ''dispense_cash'' then ''cash_out'' else if c = ''accept_cash'' then ''cash_in''
     else if c = ''count_cash'' \<or> c = ''reconcile_device'' \<or> c = ''sync_inventory'' then ''inventory''
     else if c = ''run_self_test'' then ''sensor_telemetry'' else if c = ''rotate_keys'' then ''identity''
     else if c = ''export_evidence'' then ''evidence_export''
     else if c = ''restart'' \<or> c = ''refresh_config'' \<or> c = ''pause_transactions'' \<or> c = ''resume_transactions'' \<or> c = ''disable_device'' \<or>
       c = ''enable_device'' \<or> c = ''enter_maintenance_mode'' \<or> c = ''exit_maintenance_mode'' then ''command_execution'' else [])"

definition fo_high_risk_command :: "string \<Rightarrow> bool" where
  "fo_high_risk_command c \<longleftrightarrow> c \<in> {''lock'', ''unlock'', ''open'', ''dispense_cash'', ''accept_cash'', ''rotate_keys'', ''export_evidence'',
     ''disable_device'', ''enable_device'', ''pause_transactions'', ''resume_transactions'', ''enter_maintenance_mode''}"

definition put_command :: "FleetCommand \<Rightarrow> FleetOperationsService \<Rightarrow> FleetOperationsService" where
  "put_command c s = s\<lparr>fo_commands := put (fc_command_id c) c (fo_commands s)\<rparr>"

definition command_json :: "string \<Rightarrow> (string \<times> json) list \<Rightarrow> json" where
  "command_json cid rest = JObj ((''command_id'', JStr cid) # rest)"

definition fail_fleet_command :: "extern \<Rightarrow> string \<Rightarrow> bool \<Rightarrow> int \<Rightarrow> FleetCommand \<Rightarrow> FleetOperationsService \<Rightarrow> FleetCommand \<times> FleetOperationsService" where
  "fail_fleet_command ext reason denied now c0 s =
     (let c = c0\<lparr>fc_state := ''failed'', fc_failure_reason := reason\<rparr>
      in (c, fo_save_locked (append_event ext (fc_tenant_id c) (fc_device_id c) (if denied then ''command_denied'' else ''command_failed'') now
           (command_json (fc_command_id c) [(''reason'', JStr reason)]) (put_command c s))))"

definition ask_trust :: "FleetCommand \<Rightarrow> string \<Rightarrow> json \<Rightarrow> int \<Rightarrow> FleetOperationsService \<Rightarrow> bool \<times> FleetOperationsService" where
  "ask_trust c action ctx now s = (case fo_trust s of None \<Rightarrow> (False, s)
     | Some v \<Rightarrow> let (ok, v1) = policy_allows_or_fail_closed (fc_tenant_id c) (fc_device_id c) action ctx now v in (ok, s\<lparr>fo_trust := Some v1\<rparr>))"

definition dispatch :: "extern \<Rightarrow> FleetDevice \<Rightarrow> int \<Rightarrow> FleetCommand \<Rightarrow> FleetOperationsService \<Rightarrow> FleetCommand \<times> FleetOperationsService" where
  "dispatch ext d now c0 s =
     (let s1 = append_event ext (fc_tenant_id c0) (fc_device_id c0) ''command_approved'' now
            (command_json (fc_command_id c0) [(''approval_id'', JStr (fc_approval_id c0))]) s;
          c = c0\<lparr>fc_state := ''dispatched'', fc_dispatched_at := now\<rparr>;
          s2 = append_event ext (fc_tenant_id c) (fc_device_id c) ''command_dispatched'' now (command_json (fc_command_id c) []) (put_command c s1)
      in (c, fo_save_locked (emit_evidence ext d ''command_delivery'' now (fleet_command_to_json c) s2)))"

text \<open>From the policy check on, for a command on a device that passed the checks of its state.\<close>

definition policy_stage :: "extern \<Rightarrow> FleetDevice \<Rightarrow> int \<Rightarrow> FleetCommand \<Rightarrow> FleetOperationsService \<Rightarrow> FleetCommand \<times> FleetOperationsService" where
  "policy_stage ext d now c0 s =
     (let c = c0\<lparr>fc_state := ''policy_checking'', fc_high_risk := fo_high_risk_command (fc_command c0)\<rparr>;
          (ok, s1) = ask_trust c (if fc_high_risk c then fc_command c else ''command_execution'')
            (JObj [(''command'', JStr (fc_command c)), (''parameters'', fc_parameters c), (''required_capability'', JStr (fc_required_capability c))]) now s
      in if \<not> ok then fail_fleet_command ext ''policy_denied'' True now c
             (quarantine_locked ext (fc_device_id c) ''failed_veil_trust_check'' now
               (s1\<lparr>fo_policy_violations := bump (fc_device_id c) (fo_policy_violations s1)\<rparr>))
         else if fc_high_risk c \<and> (fc_approval_id c = [] \<or> fc_approved_by c = [])
         then let c1 = c\<lparr>fc_failure_reason := ''approval_required''\<rparr> in (c1, fo_save_locked (put_command c1 s1))
         else dispatch ext d now c s1)"

definition device_stage :: "extern \<Rightarrow> int \<Rightarrow> FleetCommand \<Rightarrow> FleetOperationsService \<Rightarrow> FleetCommand \<times> FleetOperationsService" where
  "device_stage ext now c s = (case fo_device (fc_tenant_id c) (fc_device_id c) s of
     None \<Rightarrow> fail_fleet_command ext ''tenant_or_device_mismatch'' False now c s
   | Some d \<Rightarrow>
     if fd_retired d \<or> fd_lifecycle_state d = ''quarantined'' then fail_fleet_command ext ''device_unavailable'' False now c s
     else if \<not> heartbeat_fresh d now s then fail_fleet_command ext ''stale_heartbeat'' False now c s
     else if fd_connectivity_status d \<noteq> ''online'' then fail_fleet_command ext ''device_offline'' False now c s
     else if fd_capabilities d = [] then fail_fleet_command ext ''unknown_capability_state'' False now c s
     else let c1 = c\<lparr>fc_required_capability := fo_capability_for_command (fc_command c)\<rparr> in
       if fc_required_capability c1 = [] \<or> fc_required_capability c1 \<notin> set (fd_capabilities d)
       then fail_fleet_command ext ''unsupported_capability'' False now c1 s
       else policy_stage ext d now c1 s)"

definition create_command :: "extern \<Rightarrow> FleetCommand \<Rightarrow> int \<Rightarrow> FleetOperationsService \<Rightarrow> FleetCommand \<times> FleetOperationsService" where
  "create_command ext c0 now s =
     (let c = c0\<lparr>fc_command_id := (if fc_command_id c0 = [] then id_for ''fleet-command'' (length (fo_commands s)) else fc_command_id c0),
            fc_created_at := now, fc_expires_at := (if fc_expires_at c0 \<le> now then now + 60 else fc_expires_at c0)\<rparr>
      in if get (fo_commands s) (fc_command_id c) \<noteq> None
         then let c1 = c\<lparr>fc_state := ''failed'', fc_failure_reason := ''duplicate_command_id''\<rparr>
           in (c1, fo_save_locked (append_event ext (fc_tenant_id c) (fc_device_id c) ''command_denied'' now
                (command_json (fc_command_id c) [(''reason'', JStr ''duplicate_command_id'')]) s))
         else let c1 = c\<lparr>fc_state := ''queued''\<rparr>
           in device_stage ext now c1 (append_event ext (fc_tenant_id c1) (fc_device_id c1) ''command_queued'' now
                (command_json (fc_command_id c1) [(''command'', JStr (fc_command c1))]) s))"

definition fo_command :: "string \<Rightarrow> string \<Rightarrow> FleetOperationsService \<Rightarrow> FleetCommand option" where
  "fo_command tenant_id command_id s = (case get (fo_commands s) command_id of None \<Rightarrow> None
     | Some c \<Rightarrow> if fc_tenant_id c \<noteq> tenant_id then None else Some c)"

definition fo_command_list :: "string \<Rightarrow> FleetOperationsService \<Rightarrow> FleetCommand list" where
  "fo_command_list tenant_id s = sort_key fc_command_id (filter (\<lambda>c. fc_tenant_id c = tenant_id) (vals (fo_commands s)))"

definition set_command :: "string \<Rightarrow> FleetCommand \<Rightarrow> FleetOperationsService \<Rightarrow> FleetOperationsService" where
  "set_command k c s = s\<lparr>fo_commands := put k c (fo_commands s)\<rparr>"

definition cancel_command :: "extern \<Rightarrow> string \<Rightarrow> string \<Rightarrow> int \<Rightarrow> FleetOperationsService \<Rightarrow> string option \<times> FleetOperationsService" where
  "cancel_command ext tenant_id command_id now s = (case fo_command tenant_id command_id s of None \<Rightarrow> (Some ''not_found'', s)
     | Some c \<Rightarrow> if fc_state c \<notin> {''queued'', ''policy_checking'', ''approved'', ''dispatched''} then (Some ''command_not_cancellable'', s)
       else (None, fo_save_locked (append_event ext tenant_id (fc_device_id c) ''command_cancelled'' now (command_json command_id [])
         (set_command command_id (c\<lparr>fc_state := ''cancelled''\<rparr>) s))))"

definition expire_one :: "extern \<Rightarrow> string \<Rightarrow> string \<Rightarrow> FleetCommand \<Rightarrow> int \<Rightarrow> FleetOperationsService \<Rightarrow> FleetOperationsService" where
  "expire_one ext tenant_id command_id c now s =
     append_event ext tenant_id (fc_device_id c) ''command_failed'' now (command_json command_id [(''reason'', JStr ''expired'')])
       (set_command command_id (c\<lparr>fc_state := ''expired'', fc_failure_reason := ''expired''\<rparr>) s)"

definition fo_acknowledge_command :: "extern \<Rightarrow> string \<Rightarrow> string \<Rightarrow> int \<Rightarrow> FleetOperationsService \<Rightarrow> string option \<times> FleetOperationsService" where
  "fo_acknowledge_command ext tenant_id command_id now s = (case fo_command tenant_id command_id s of None \<Rightarrow> (Some ''not_found'', s)
     | Some c \<Rightarrow> if fc_state c \<noteq> ''dispatched'' then (Some ''invalid_command_transition'', s)
       else if now > fc_expires_at c then (Some ''command_expired'', fo_save_locked (expire_one ext tenant_id command_id c now s))
       else (None, fo_save_locked (append_event ext tenant_id (fc_device_id c) ''command_acknowledged'' now (command_json command_id [])
         (set_command command_id (c\<lparr>fc_state := ''acknowledged'', fc_acknowledged_at := now\<rparr>) s))))"

definition failed_commands :: "string \<Rightarrow> FleetOperationsService \<Rightarrow> nat" where
  "failed_commands device_id s = length (filter (\<lambda>c. fc_device_id c = device_id \<and> fc_state c = ''failed'') (vals (fo_commands s)))"

definition after_failure :: "extern \<Rightarrow> string \<Rightarrow> string \<Rightarrow> int \<Rightarrow> FleetOperationsService \<Rightarrow> FleetOperationsService" where
  "after_failure ext device_id result now s =
     (let s1 = (if contains ''suspicious'' result then quarantine_locked ext device_id ''suspicious_command_result'' now s else s)
      in if failed_commands device_id s1 \<ge> 3 then quarantine_locked ext device_id ''repeated_command_failures'' now s1 else s1)"

definition complete_command ::
  "extern \<Rightarrow> string \<Rightarrow> string \<Rightarrow> bool \<Rightarrow> string \<Rightarrow> int \<Rightarrow> FleetOperationsService \<Rightarrow> string option \<times> FleetOperationsService" where
  "complete_command ext tenant_id command_id success result now s = (case fo_command tenant_id command_id s of
     None \<Rightarrow> (Some ''not_found'', s)
   | Some c0 \<Rightarrow> if fc_state c0 \<noteq> ''acknowledged'' then (Some ''invalid_command_transition'', s)
     else let c = c0\<lparr>fc_state := (if success then ''completed'' else ''failed''), fc_completed_at := now, fc_result := result,
            fc_failure_reason := (if success then fc_failure_reason c0 else if result = [] then ''device_reported_failure'' else result)\<rparr>;
         ev = (if success then ''command_completed'' else ''command_failed'');
         s1 = append_event ext tenant_id (fc_device_id c) ev now (command_json command_id [(''result'', JStr result)]) (set_command command_id c s);
         s2 = (case get (fo_devices s1) (fc_device_id c) of None \<Rightarrow> s1
           | Some d \<Rightarrow> let s' = emit_evidence ext d ev now (fleet_command_to_json c) s1
               in if success then s' else after_failure ext (fc_device_id c) result now s')
       in (None, fo_save_locked s2))"

fun fo_expire_loop :: "extern \<Rightarrow> int \<Rightarrow> (string \<times> FleetCommand) list \<Rightarrow> int \<Rightarrow> FleetOperationsService \<Rightarrow> int \<times> FleetOperationsService" where
  "fo_expire_loop ext now [] n s = (n, s)"
| "fo_expire_loop ext now ((k, c) # cs) n s =
     (if fc_state c \<in> {''queued'', ''policy_checking'', ''approved'', ''dispatched''} \<and> now > fc_expires_at c
      then fo_expire_loop ext now cs (n + 1)
        (append_event ext (fc_tenant_id c) (fc_device_id c) ''command_failed'' now (command_json (fc_command_id c) [(''reason'', JStr ''expired'')])
          (set_command k (c\<lparr>fc_state := ''expired'', fc_failure_reason := ''expired''\<rparr>) s))
      else fo_expire_loop ext now cs n s)"

definition fo_expire_commands :: "extern \<Rightarrow> int \<Rightarrow> FleetOperationsService \<Rightarrow> int \<times> FleetOperationsService" where
  "fo_expire_commands ext now s = (let (n, s1) = fo_expire_loop ext now (fo_commands s) 0 s in (n, fo_save_locked s1))"

section \<open>Risk\<close>

definition factor :: "bool \<Rightarrow> string \<Rightarrow> int \<Rightarrow> string \<Rightarrow> RiskFactor list" where
  "factor b f p e = (if b then [\<lparr>rf_factor = f, rf_points = p, rf_explanation = e\<rparr>] else [])"

text \<open>The double nearest to 0.10.\<close>

definition drift_limit :: real where "drift_limit = 3602879701896397 / 36028797018963968"

definition heartbeat_factors :: "extern \<Rightarrow> FleetHeartbeat option \<Rightarrow> RiskFactor list result" where
  "heartbeat_factors ext hb = (case hb of None \<Rightarrow> Inr []
     | Some h \<Rightarrow>
       bind_result (value_real ext (fhb_inventory_summary h) ''drift'' 0) (\<lambda>drift.
       bind_result (value_bool ext (fhb_health_metrics h) ''unusual_cash_movement'' False) (\<lambda>unusual.
       bind_result (value_bool ext (fhb_health_metrics h) ''missing_trust_evidence'' False) (\<lambda>missing.
       bind_result (value_real ext (fhb_health_metrics h) ''driver_stability'' 1) (\<lambda>stability.
       Inr (factor (drift > drift_limit) ''inventory_drift'' 20 ''reported inventory drift exceeds ten percent'' @
         factor unusual ''unusual_cash_movement'' 25 ''heartbeat reports unusual cash movement'' @
         factor missing ''missing_trust_evidence'' 20 ''required trust evidence is missing'' @
         factor (stability < 3 / 4) ''unstable_vendor_driver'' 20 ''driver stability is below threshold''))))))"

definition device_risk_locked :: "extern \<Rightarrow> FleetDevice \<Rightarrow> int \<Rightarrow> FleetOperationsService \<Rightarrow> FleetRisk result" where
  "device_risk_locked ext d now s =
     (let mine = filter (\<lambda>c. fc_device_id c = fd_device_id d) (vals (fo_commands s));
          total = length mine;
          failures = length (filter (\<lambda>c. fc_state c = ''failed'' \<or> fc_state c = ''expired'') mine);
          violations = count_at (fo_policy_violations s) (fd_device_id d)
      in bind_result (heartbeat_factors ext (get (fo_heartbeats s) (fd_device_id d))) (\<lambda>hb.
        let fs = factor (\<not> heartbeat_fresh d now s) ''stale_heartbeat'' 30 ''heartbeat exceeds freshness threshold'' @
              factor (failures \<ge> 3) ''repeated_command_failures'' 25 ''three or more commands failed'' @
              factor (total > 0 \<and> failures * 2 \<ge> total) ''command_failure_rate'' 15 ''at least half of commands failed'' @ hb @
              factor (violations > 0) ''policy_violations'' (min 30 (violations * 10)) ''VEIL policy checks were denied'' @
              factor (fd_lifecycle_state d = ''quarantined'') ''quarantined'' 20 (fd_quarantine_reason d);
            score = min 100 (sum_list (map rf_points fs))
        in Inr \<lparr>fr_tenant_id = fd_tenant_id d, fr_scope_type = ''device'', fr_scope_id = fd_device_id d, fr_score = score,
             fr_level = risk_level score, fr_factors = fs, fr_evaluated_at = now\<rparr>))"

definition record_risk_change :: "extern \<Rightarrow> FleetRisk \<Rightarrow> int \<Rightarrow> FleetOperationsService \<Rightarrow> FleetOperationsService" where
  "record_risk_change ext r now s =
     (let key = fr_tenant_id r @ '':'' @ fr_scope_type r @ '':'' @ fr_scope_id r; prev = get (fo_risk_levels s) key
      in if prev = Some (fr_level r) then s
         else (append_event ext (fr_tenant_id r) (if fr_scope_type r = ''device'' then fr_scope_id r else []) ''risk_changed'' now
           (JObj [(''scope_type'', JStr (fr_scope_type r)), (''scope_id'', JStr (fr_scope_id r)),
             (''from'', JStr (case prev of None \<Rightarrow> ''unknown'' | Some l \<Rightarrow> l)), (''to'', JStr (fr_level r)), (''score'', JInt (fr_score r))]) s)
           \<lparr>fo_risk_levels := put key (fr_level r) (fo_risk_levels s)\<rparr>)"

definition device_risk :: "extern \<Rightarrow> string \<Rightarrow> string \<Rightarrow> int \<Rightarrow> FleetOperationsService \<Rightarrow> FleetRisk result \<times> FleetOperationsService" where
  "device_risk ext tenant_id device_id now s = (case fo_device tenant_id device_id s of
     None \<Rightarrow> (Inr \<lparr>fr_tenant_id = tenant_id, fr_scope_type = ''device'', fr_scope_id = device_id, fr_score = 100, fr_level = ''critical'',
       fr_factors = factor True ''unknown_device'' 100 ''device is not present in tenant registry'', fr_evaluated_at = now\<rparr>, s)
   | Some d \<Rightarrow> (case device_risk_locked ext d now s of Inl e \<Rightarrow> (Inl e, s)
     | Inr r \<Rightarrow> (Inr r, fo_save_locked (record_risk_change ext r now s))))"

fun fleet_risk_loop :: "extern \<Rightarrow> string \<Rightarrow> int \<Rightarrow> FleetDevice list \<Rightarrow> FleetRisk list \<Rightarrow> FleetOperationsService \<Rightarrow>
    FleetRisk list result \<times> FleetOperationsService" where
  "fleet_risk_loop ext tenant_id now [] out s = (Inr out, s)"
| "fleet_risk_loop ext tenant_id now (d # ds) out s =
     (if fd_tenant_id d = tenant_id then
        case device_risk_locked ext d now s of Inl e \<Rightarrow> (Inl e, s)
        | Inr r \<Rightarrow> fleet_risk_loop ext tenant_id now ds (out @ [r]) (record_risk_change ext r now s)
      else fleet_risk_loop ext tenant_id now ds out s)"

definition fleet_risk :: "extern \<Rightarrow> string \<Rightarrow> int \<Rightarrow> FleetOperationsService \<Rightarrow> FleetRisk list result \<times> FleetOperationsService" where
  "fleet_risk ext tenant_id now s = (case fleet_risk_loop ext tenant_id now (vals (fo_devices s)) [] s of
     (Inl e, s1) \<Rightarrow> (Inl e, s1) | (Inr rs, s1) \<Rightarrow> (Inr (sort_key fr_scope_id rs), fo_save_locked s1))"

definition location_risk :: "extern \<Rightarrow> string \<Rightarrow> string \<Rightarrow> int \<Rightarrow> FleetOperationsService \<Rightarrow> FleetRisk result \<times> FleetOperationsService" where
  "location_risk ext tenant_id location_id now s =
     (let ds = filter (\<lambda>d. fd_tenant_id d = tenant_id \<and> fd_location_id d = location_id) (vals (fo_devices s))
      in case map_result (\<lambda>d. device_risk_locked ext d now s) ds of Inl e \<Rightarrow> (Inl e, s)
         | Inr rs \<Rightarrow>
           let score = (if rs = [] then 100 else sum_list (map fr_score rs) sdiv int (length rs));
               r = \<lparr>fr_tenant_id = tenant_id, fr_scope_type = ''location'', fr_scope_id = location_id, fr_score = score, fr_level = risk_level score,
                 fr_factors = concat (map fr_factors rs) @ factor (rs = []) ''unknown_location'' 100 ''location has no tenant devices'',
                 fr_evaluated_at = now\<rparr>
           in (Inr r, fo_save_locked (record_risk_change ext r now s)))"

section \<open>Quarantine and recovery\<close>

definition quarantine :: "extern \<Rightarrow> string \<Rightarrow> string \<Rightarrow> string \<Rightarrow> int \<Rightarrow> FleetOperationsService \<Rightarrow> string option \<times> FleetOperationsService" where
  "quarantine ext tenant_id device_id reason now s = (case fo_device tenant_id device_id s of None \<Rightarrow> (Some ''not_found_or_retired'', s)
     | Some d \<Rightarrow> if fd_retired d then (Some ''not_found_or_retired'', s)
       else (None, fo_save_locked (quarantine_locked ext device_id (if reason = [] then ''operator_quarantine'' else reason) now s)))"

definition unresolved_risk :: "FleetRisk \<Rightarrow> int" where
  "unresolved_risk r = fr_score r - sum_list (map rf_points (filter (\<lambda>f. rf_factor f = ''quarantined'') (fr_factors r)))"

text \<open>What the last heartbeat must say; \<open>Inr (Some e)\<close> is the error of the failed requirement.\<close>

definition heartbeat_cleared :: "extern \<Rightarrow> FleetDevice \<Rightarrow> FleetHeartbeat option \<Rightarrow> string option result" where
  "heartbeat_cleared ext d hb = (case hb of None \<Rightarrow> Inr (Some ''successful_self_test_required'')
     | Some h \<Rightarrow> bind_result (value_bool ext (fhb_health_metrics h) ''self_test_passed'' False) (\<lambda>passed.
         if \<not> passed then Inr (Some ''successful_self_test_required'')
         else if fhb_connectivity_status h \<noteq> ''online'' \<or> unknown_version (fhb_firmware_version h) \<or> unknown_version (fhb_driver_version h)
         then Inr (Some ''device_identity_or_health_unresolved'')
         else bind_result (value_bool ext (fhb_inventory_summary h) ''contradiction'' False) (\<lambda>contra.
           Inr (if contra \<or> fd_capabilities d = [] then Some ''device_identity_or_health_unresolved'' else None))))"

definition reactivate :: "extern \<Rightarrow> string \<Rightarrow> string \<Rightarrow> FleetDevice \<Rightarrow> int \<Rightarrow> int \<Rightarrow> FleetOperationsService \<Rightarrow> FleetOperationsService" where
  "reactivate ext tenant_id device_id d0 unresolved now s =
     (let d = d0\<lparr>fd_lifecycle_state := ''active'', fd_quarantine_reason := []\<rparr>;
          pl = JObj [(''previous_reason'', JStr (fd_quarantine_reason d0)), (''risk_score'', JInt unresolved)]
      in fo_save_locked (emit_evidence ext d ''device_recovery'' now pl
           (append_event ext tenant_id device_id ''device_recovered'' now pl (put_device device_id d s))))"

definition ask_recovery :: "string \<Rightarrow> string \<Rightarrow> json \<Rightarrow> int \<Rightarrow> FleetOperationsService \<Rightarrow> bool \<times> FleetOperationsService" where
  "ask_recovery tenant_id device_id ctx now s = (case fo_trust s of None \<Rightarrow> (False, s)
     | Some v \<Rightarrow> let (ok, v1) = policy_allows_or_fail_closed tenant_id device_id ''device_recovery'' ctx now v in (ok, s\<lparr>fo_trust := Some v1\<rparr>))"

definition recover :: "extern \<Rightarrow> string \<Rightarrow> string \<Rightarrow> int \<Rightarrow> FleetOperationsService \<Rightarrow> string option result \<times> FleetOperationsService" where
  "recover ext tenant_id device_id now s = (case fo_device tenant_id device_id s of None \<Rightarrow> (Inr (Some ''not_found''), s)
     | Some d \<Rightarrow>
       if fd_lifecycle_state d \<noteq> ''quarantined'' \<or> fd_retired d then (Inr (Some ''device_not_recoverable''), s)
       else if \<not> heartbeat_fresh d now s then (Inr (Some ''fresh_heartbeat_required''), s)
       else case heartbeat_cleared ext d (get (fo_heartbeats s) device_id) of Inl e \<Rightarrow> (Inl e, s)
       | Inr (Some err) \<Rightarrow> (Inr (Some err), s)
       | Inr None \<Rightarrow>
         (case device_risk_locked ext d now s of Inl e \<Rightarrow> (Inl e, s)
          | Inr r \<Rightarrow>
            if unresolved_risk r \<ge> 75 then (Inr (Some ''critical_risk_unresolved''), s)
            else let (ok, s1) = ask_recovery tenant_id device_id (JObj [(''quarantine_reason'', JStr (fd_quarantine_reason d)),
                  (''risk_score'', JInt (unresolved_risk r)), (''self_test_passed'', JBool True)]) now s
              in if \<not> ok then (Inr (Some ''veil_recovery_denied''), s1)
                 else (Inr None, reactivate ext tenant_id device_id d (unresolved_risk r) now s1)))"

definition quarantined :: "string \<Rightarrow> FleetOperationsService \<Rightarrow> FleetDevice list" where
  "quarantined tenant_id s = filter (\<lambda>d. fd_tenant_id d = tenant_id \<and> fd_lifecycle_state d = ''quarantined'') (vals (fo_devices s))"

section \<open>Replay\<close>

definition fo_event_list :: "string \<Rightarrow> FleetOperationsService \<Rightarrow> FleetOperationEvent list" where
  "fo_event_list tenant_id s = filter (\<lambda>e. oe_tenant_id e = tenant_id) (fo_events s)"

fun replay_loop :: "extern \<Rightarrow> string \<Rightarrow> string \<Rightarrow> int \<Rightarrow> FleetOperationEvent list \<Rightarrow> FleetOperationEvent list \<Rightarrow> bool \<times> FleetOperationEvent list" where
  "replay_loop ext tenant_id prev seq out [] = (True, out)"
| "replay_loop ext tenant_id prev seq out (e # es) =
     (if oe_sequence e \<noteq> seq \<or> oe_previous_hash e \<noteq> prev \<or> oe_event_hash e \<noteq> event_hash ext e then (False, out)
      else replay_loop ext tenant_id (oe_event_hash e) (seq + 1) (if oe_tenant_id e = tenant_id then out @ [e] else out) es)"

definition fo_replay :: "extern \<Rightarrow> string \<Rightarrow> FleetOperationsService \<Rightarrow> ReplayResult" where
  "fo_replay ext tenant_id s = (let (ok, es) = replay_loop ext tenant_id [] 1 [] (fo_events s)
     in \<lparr>rr_valid = ok, rr_reason = (if ok then [] else ''event_chain_invalid''),
          rr_hash_summary = sha256_hex ext (dump ext (JArr (map (\<lambda>e. JStr (oe_event_hash e)) es))), rr_events = es\<rparr>)"

end
