(* ===== verification/Fleet_Lifecycle.thy ===== *)
theory Fleet_Lifecycle
  imports Fleet_Commands
begin

text \<open>
  Histories of the fleet operations service, an abstract specification of its devices, commands and event log
  as moves, and that every operation refines it; then what follows: the states a device and a command
  go through, when a command is dispatched, what recovery requires, how risk is bounded, and that the event
  log always replays.
\<close>

section \<open>Refinement, step by step\<close>

text \<open>
  A machine whose every step, seen through an abstraction, is a run of a specification: then so is every
  sequence of steps, and whatever the moves of the specification keep holds throughout.
\<close>

locale stepwise_refinement =
  fixes step :: "'x \<Rightarrow> 's \<Rightarrow> 's" and abstr :: "'s \<Rightarrow> 'a" and spec :: "'a \<Rightarrow> 'a \<Rightarrow> bool" and wf :: "'a \<Rightarrow> bool"
  assumes step_refines: "wf (abstr s) \<Longrightarrow> spec\<^sup>*\<^sup>* (abstr s) (abstr (step x s))"
    and spec_wf: "spec a b \<Longrightarrow> wf a \<Longrightarrow> wf b"
begin

lemma kept: "spec\<^sup>*\<^sup>* a b \<Longrightarrow> P a \<Longrightarrow> (\<And>a b. spec a b \<Longrightarrow> P a \<Longrightarrow> P b) \<Longrightarrow> P b"
  by (induction rule: rtranclp_induct) auto

lemma run_wf: "spec\<^sup>*\<^sup>* a b \<Longrightarrow> wf a \<Longrightarrow> wf b"
  by (erule kept) (auto dest: spec_wf)

lemma runs_refine: "wf (abstr s) \<Longrightarrow> spec\<^sup>*\<^sup>* (abstr s) (abstr (fold step xs s))"
proof (induction xs arbitrary: s)
  case (Cons x xs)
  then show ?case using Cons.IH [of "step x s"] run_wf [OF step_refines] step_refines by (metis fold_simps(2) rtranclp_trans)
qed simp

lemma kept_by_runs: "wf (abstr s) \<Longrightarrow> P (abstr s) \<Longrightarrow> (\<And>a b. spec a b \<Longrightarrow> P a \<Longrightarrow> P b) \<Longrightarrow> P (abstr (fold step xs s))"
  by (rule kept [OF runs_refine])

end

section \<open>Histories\<close>

datatype fo_op = Enroll FleetDevice string int | Update string string json int | Retire string string int | Beat FleetHeartbeat int
  | New_command FleetCommand int | Cancel string string int | Ack string string int | Complete string string bool string int | Expire_all int
  | Device_risk string string int | Fleet_risk string int | Location_risk string string int | Quarantine string string string int
  | Recover string string int

fun fo_step :: "extern \<Rightarrow> fo_op \<Rightarrow> FleetOperationsService \<Rightarrow> FleetOperationsService" where
  "fo_step ext (Enroll d actor now) s = snd (enroll ext d actor now s)"
| "fo_step ext (Update t i patch now) s = snd (update_device ext t i patch now s)"
| "fo_step ext (Retire t i now) s = snd (retire_device ext t i now s)"
| "fo_step ext (Beat h now) s = snd (receive_heartbeat ext h now s)"
| "fo_step ext (New_command c now) s = snd (create_command ext c now s)"
| "fo_step ext (Cancel t i now) s = snd (cancel_command ext t i now s)"
| "fo_step ext (Ack t i now) s = snd (fo_acknowledge_command ext t i now s)"
| "fo_step ext (Complete t i ok result now) s = snd (complete_command ext t i ok result now s)"
| "fo_step ext (Expire_all now) s = snd (fo_expire_commands ext now s)"
| "fo_step ext (Device_risk t i now) s = snd (device_risk ext t i now s)"
| "fo_step ext (Fleet_risk t now) s = snd (fleet_risk ext t now s)"
| "fo_step ext (Location_risk t i now) s = snd (location_risk ext t i now s)"
| "fo_step ext (Quarantine t i reason now) s = snd (quarantine ext t i reason now s)"
| "fo_step ext (Recover t i now) s = snd (recover ext t i now s)"

inductive fo_reach :: "extern \<Rightarrow> FleetOperationsService \<Rightarrow> FleetOperationsService \<Rightarrow> bool" for ext s0 where
  fo_start: "fo_reach ext s0 s0"
| fo_next: "fo_reach ext s0 s \<Longrightarrow> fo_reach ext s0 (fo_step ext x s)"

lemma fo_reach_fold: "fo_reach ext s0 s \<Longrightarrow> \<exists>xs. s = fold (fo_step ext) xs s0"
proof (induction rule: fo_reach.induct)
  case (fo_next s x)
  then obtain xs where "s = fold (fo_step ext) xs s0" by blast
  then have "fo_step ext x s = fold (fo_step ext) (xs @ [x]) s0" by simp
  then show ?case by blast
qed (auto intro: exI [of _ "[]"])

section \<open>The specification\<close>

text \<open>
  What the service promises of its devices, commands and log, as moves of these three parts alone: the life of a
  device follows the documented transitions (recovery included), with one exception: a device that was patched to
  \<^verbatim>\<open>retired\<close> without being retired can be quarantined; a device that was retired keeps its state.
  A command goes from open states to the next one or to an end; the log only grows, by hashed records.
\<close>

definition dev_next :: "FleetDevice \<Rightarrow> FleetDevice \<Rightarrow> bool" where
  "dev_next d d' \<longleftrightarrow> fd_device_id d' = fd_device_id d \<and> fd_tenant_id d' = fd_tenant_id d \<and> (fd_retired d \<longrightarrow> fd_retired d') \<and>
     (if fd_retired d then fd_lifecycle_state d' = fd_lifecycle_state d
      else valid_transition (fd_lifecycle_state d) (fd_lifecycle_state d') True \<or>
        fd_lifecycle_state d = ''retired'' \<and> fd_lifecycle_state d' = ''quarantined'')"

definition open_states :: "string set" where
  "open_states = {''queued'', ''policy_checking'', ''approved'', ''dispatched''}"

definition cmd_next :: "FleetCommand \<Rightarrow> FleetCommand \<Rightarrow> bool" where
  "cmd_next c c' \<longleftrightarrow> fc_command_id c' = fc_command_id c \<and> fc_tenant_id c' = fc_tenant_id c \<and> fc_device_id c' = fc_device_id c \<and>
     (fc_state c \<in> open_states \<and> fc_state c' \<in> {''cancelled'', ''expired''} \<or>
      fc_state c = ''dispatched'' \<and> fc_state c' = ''acknowledged'' \<or>
      fc_state c = ''acknowledged'' \<and> fc_state c' \<in> {''completed'', ''failed''})"

type_synonym fleet_core = "(string, FleetDevice) amap \<times> (string, FleetCommand) amap \<times> FleetOperationEvent list"

inductive move :: "extern \<Rightarrow> fleet_core \<Rightarrow> fleet_core \<Rightarrow> bool" for ext where
  log: "move ext (D, C, L) (D, C, L @ [next_event ext t i ty now pl L])"
| enrolled: "get D (fd_device_id d) = None \<Longrightarrow> fd_lifecycle_state d \<in> {''provisioned'', ''active''} \<Longrightarrow>
    move ext (D, C, L) (put (fd_device_id d) d D, C, L)"
| lives: "get D k = Some d \<Longrightarrow> dev_next d d' \<Longrightarrow> move ext (D, C, L) (put k d' D, C, L)"
| created: "get C (fc_command_id c) = None \<Longrightarrow> fc_state c \<in> {''failed'', ''policy_checking'', ''dispatched''} \<Longrightarrow>
    move ext (D, C, L) (D, put (fc_command_id c) c C, L)"
| advances: "get C k = Some c \<Longrightarrow> cmd_next c c' \<Longrightarrow> move ext (D, C, L) (D, put k c' C, L)"

abbreviation moves :: "extern \<Rightarrow> fleet_core \<Rightarrow> fleet_core \<Rightarrow> bool" where "moves ext \<equiv> (move ext)\<^sup>*\<^sup>*"

definition core :: "FleetOperationsService \<Rightarrow> fleet_core" where
  "core s = (fo_devices s, fo_commands s, fo_events s)"

lemma fo_save_fields [simp]:
  "core (fo_save_locked s) = core s" "fo_devices (fo_save_locked s) = fo_devices s" "fo_commands (fo_save_locked s) = fo_commands s"
  "fo_events (fo_save_locked s) = fo_events s"
  by (simp_all add: fo_save_locked_def core_def)

lemma emit_evidence_fields [simp]:
  "core (emit_evidence ext d ty now pl s) = core s" "fo_devices (emit_evidence ext d ty now pl s) = fo_devices s"
  "fo_commands (emit_evidence ext d ty now pl s) = fo_commands s" "fo_events (emit_evidence ext d ty now pl s) = fo_events s"
  "fo_heartbeat_timeout_seconds (emit_evidence ext d ty now pl s) = fo_heartbeat_timeout_seconds s"
  by (simp_all add: emit_evidence_def core_def split: option.splits)

lemma append_event_fields [simp]:
  "fo_devices (append_event ext t i ty now pl s) = fo_devices s" "fo_commands (append_event ext t i ty now pl s) = fo_commands s"
  "fo_trust (append_event ext t i ty now pl s) = fo_trust s" "fo_risk_levels (append_event ext t i ty now pl s) = fo_risk_levels s"
  "fo_heartbeat_timeout_seconds (append_event ext t i ty now pl s) = fo_heartbeat_timeout_seconds s"
  by (simp_all add: append_event_def)

lemma put_fields [simp]:
  "fo_devices (put_device k d s) = put k d (fo_devices s)" "fo_commands (put_device k d s) = fo_commands s"
  "fo_devices (set_command k c s) = fo_devices s" "fo_commands (set_command k c s) = put k c (fo_commands s)"
  "fo_devices (put_command c s) = fo_devices s" "fo_commands (put_command c s) = put (fc_command_id c) c (fo_commands s)"
  by (simp_all add: put_device_def set_command_def put_command_def)

lemma core_cong [simp]:
  "core (s\<lparr>fo_trust := a1\<rparr>) = core s" "core (s\<lparr>fo_edge := a2\<rparr>) = core s" "core (s\<lparr>fo_assignments := a3\<rparr>) = core s"
  "core (s\<lparr>fo_heartbeats := a4\<rparr>) = core s" "core (s\<lparr>fo_policy_violations := a5\<rparr>) = core s" "core (s\<lparr>fo_risk_levels := a6\<rparr>) = core s"
  "core (s\<lparr>fo_locations := a7\<rparr>) = core s" "core (s\<lparr>fo_fleets := a8\<rparr>) = core s" "core (s\<lparr>fo_groups := a9\<rparr>) = core s"
  "core (s\<lparr>fo_enrollments := b1\<rparr>) = core s"
  by (simp_all add: core_def)

text \<open>One rule for each way the service changes the three parts.\<close>

lemma mv_append [intro]: "moves ext x (core s) \<Longrightarrow> moves ext x (core (append_event ext t i ty now pl s))"
  by (erule rtranclp.rtrancl_into_rtrancl) (simp add: core_def append_event_def move.log)

lemma mv_device: "moves ext x (core s) \<Longrightarrow> get (fo_devices s) k = Some d \<Longrightarrow> dev_next d d' \<Longrightarrow> moves ext x (core (put_device k d' s))"
  by (erule rtranclp.rtrancl_into_rtrancl) (simp add: core_def put_device_def move.lives)

lemma mv_command: "moves ext x (core s) \<Longrightarrow> get (fo_commands s) k = Some c \<Longrightarrow> cmd_next c c' \<Longrightarrow> moves ext x (core (set_command k c' s))"
  by (erule rtranclp.rtrancl_into_rtrancl) (simp add: core_def set_command_def move.advances)

lemma mv_new_command:
  "moves ext x (core s) \<Longrightarrow> get (fo_commands s) (fc_command_id c) = None \<Longrightarrow> fc_state c \<in> {''failed'', ''policy_checking'', ''dispatched''} \<Longrightarrow>
     moves ext x (core (put_command c s))"
  by (erule rtranclp.rtrancl_into_rtrancl) (simp add: core_def put_command_def move.created)

lemma dev_next_same: "fd_device_id d' = fd_device_id d \<Longrightarrow> fd_tenant_id d' = fd_tenant_id d \<Longrightarrow> fd_retired d' = fd_retired d \<Longrightarrow>
    fd_lifecycle_state d' = fd_lifecycle_state d \<Longrightarrow> dev_next d d'"
  by (simp add: dev_next_def valid_transition_def)

lemma mv_quarantine [intro]: "moves ext x (core s) \<Longrightarrow> moves ext x (core (quarantine_locked ext k reason now s))"
  by (auto simp: quarantine_locked_def Let_def dev_next_def valid_transition_def intro!: mv_append mv_device split: option.splits)

lemma fo_device_Some: "fo_device t i s = Some d \<Longrightarrow> get (fo_devices s) i = Some d \<and> fd_tenant_id d = t"
  by (auto simp: fo_device_def split: option.splits if_splits)

lemma fo_command_Some: "fo_command t i s = Some c \<Longrightarrow> get (fo_commands s) i = Some c \<and> fc_tenant_id c = t"
  by (auto simp: fo_command_def split: option.splits if_splits)

text \<open>Every operation is a sequence of moves.\<close>

lemma edge_registered_core: "core (snd (edge_registered ext d s)) = core s"
  by (auto simp: edge_registered_def with_edge_def split: option.splits prod.splits)

lemma join_group_core: "core (join_group d s) = core s"
  by (simp add: join_group_def Let_def)

lemma enter_device_core: "core (enter_device d actor now s) = core (put_device (fd_device_id d) d s)"
  by (simp add: enter_device_def Let_def join_group_core)

lemma enroll_moves: "moves ext (core s) (core (snd (enroll ext d0 actor now s)))"
proof -
  obtain ok s1 where e: "edge_registered ext d0 s = (ok, s1)" by fastforce
  then have c: "core s1 = core s" using edge_registered_core [of ext d0 s] by simp
  define d where "d = (inherit_capabilities d0 s1)\<lparr>fd_connectivity_status := ''offline''\<rparr>"
  have d: "fd_device_id d = fd_device_id d0" "fd_lifecycle_state d = fd_lifecycle_state d0"
    by (simp_all add: d_def inherit_capabilities_def split: option.splits)
  have "moves ext (core s) (core (put_device (fd_device_id d) d s1))"
    if "get (fo_devices s) (fd_device_id d0) = None" "fd_lifecycle_state d0 = ''provisioned'' \<or> fd_lifecycle_state d0 = ''active''"
  proof -
    have "core (put_device (fd_device_id d) d s1) = (put (fd_device_id d) d (fo_devices s), fo_commands s, fo_events s)"
      using c by (simp add: core_def put_device_def)
    moreover have "move ext (core s) (put (fd_device_id d) d (fo_devices s), fo_commands s, fo_events s)"
      unfolding core_def using that d by (intro move.enrolled) auto
    ultimately show ?thesis by auto
  qed
  then show ?thesis
    by (auto simp: enroll_def e c Let_def d_def [symmetric] enter_device_core intro!: mv_append)
qed

lemma valid_transition_mono: "valid_transition a b False \<Longrightarrow> valid_transition a b True"
proof -
  have "(if p1 then True else if p2 then False else if p3 then True else if p4 then q4 else if p5 then q5 else if p6 then q6
      else if p7 then False \<and> q7 else False) \<Longrightarrow>
    (if p1 then True else if p2 then False else if p3 then True else if p4 then q4 else if p5 then q5 else if p6 then q6
      else if p7 then True \<and> q7 else False)" for p1 p2 p3 p4 p5 p6 p7 q4 q5 q6 q7
    by (simp split: if_splits)
  then show "valid_transition a b False \<Longrightarrow> valid_transition a b True" unfolding valid_transition_def .
qed

lemma assign_keeps:
  assumes "\<And>x d. fd_device_id (u x d) = fd_device_id d \<and> fd_tenant_id (u x d) = fd_tenant_id d \<and> fd_retired (u x d) = fd_retired d \<and>
      fd_lifecycle_state (u x d) = fd_lifecycle_state d"
  shows "fd_device_id (snd (assign f u p)) = fd_device_id (snd p)" "fd_tenant_id (snd (assign f u p)) = fd_tenant_id (snd p)"
    "fd_retired (snd (assign f u p)) = fd_retired (snd p)" "fd_lifecycle_state (snd (assign f u p)) = fd_lifecycle_state (snd p)"
  using assms by (auto simp: assign_def split: prod.splits option.splits sum.splits)

lemma patch_device_result:
  assumes "patch_device ext patch nxt d = (r, d')"
  shows "fd_device_id d' = fd_device_id d" "fd_tenant_id d' = fd_tenant_id d" "fd_retired d' = fd_retired d" "fd_lifecycle_state d' = nxt"
proof -
  have d': "d' = snd (patch_device ext patch nxt d)" using assms by simp
  show "fd_device_id d' = fd_device_id d" "fd_tenant_id d' = fd_tenant_id d" "fd_retired d' = fd_retired d" "fd_lifecycle_state d' = nxt"
    unfolding d' patch_device_def by (simp_all add: assign_keeps)
qed

text \<open>What a successful or interrupted update of a device leaves.\<close>

lemma update_cases:
  assumes "fo_device t i s = Some d"
  obtains (same) "snd (update_device ext t i patch now s) = s"
  | (thrown) nxt r d' where "\<not> fd_retired d" "valid_transition (fd_lifecycle_state d) nxt False" "patch_device ext patch nxt d = (r, d')"
      "snd (update_device ext t i patch now s) = put_device i d' s"
  | (stored) nxt d' where "\<not> fd_retired d" "valid_transition (fd_lifecycle_state d) nxt False" "patch_device ext patch nxt d = (None, d')"
      "core (snd (update_device ext t i patch now s)) = core (if fd_lifecycle_state d \<noteq> nxt
         then append_event ext t i ''device_lifecycle_changed'' now (JObj [(''from'', JStr (fd_lifecycle_state d)), (''to'', JStr nxt)]) (put_device i d' s)
         else put_device i d' s)"
proof (cases "value_str ext patch ''lifecycle_state'' (fd_lifecycle_state d)")
  case (Inl e)
  then show ?thesis using same assms by (simp add: update_device_def)
next
  case (Inr nxt)
  define loc where "loc = (if has_key ext patch ''location_id'' then map_sum id (\<lambda>x. x = []) (value_str ext patch ''location_id'' []) else Inr False)"
  obtain r d' where p: "patch_device ext patch nxt d = (r, d')" by fastforce
  note u = update_device_def [of ext t i patch now s, folded loc_def]
  show ?thesis
  proof (cases "fd_retired d \<or> \<not> valid_transition (fd_lifecycle_state d) nxt False \<or> loc \<noteq> Inr False")
    case True
    then show ?thesis using same assms Inr by (cases loc) (auto simp: u split: bool.splits)
  next
    case False
    then show ?thesis using assms Inr p thrown [OF _ _ p] stored [of nxt d']
      by (cases r) (simp_all add: u Let_def)
  qed
qed

lemma update_moves: "moves ext (core s) (core (snd (update_device ext t i patch now s)))"
proof (cases "fo_device t i s")
  case None
  then show ?thesis by (simp add: update_device_def)
next
  case (Some d)
  note get = conjunct1 [OF fo_device_Some [OF Some]]
  have mv: "moves ext (core s) (core (put_device i d' s))"
    if "\<not> fd_retired d" "valid_transition (fd_lifecycle_state d) nxt False" "patch_device ext patch nxt d = (r, d')" for nxt r d'
    using patch_device_result [OF that(3)] that(1,2) get
    by (intro mv_device [OF _ get]) (simp_all add: dev_next_def valid_transition_mono)
  show ?thesis
    using Some
  proof (cases rule: update_cases [where ext = ext and patch = patch and now = now])
    case (thrown nxt r d')
    then show ?thesis using mv by simp
  next
    case (stored nxt d')
    then show ?thesis using mv_append [OF mv [OF stored(1-3)]] mv [OF stored(1-3)] by simp
  qed simp
qed

lemma retire_moves: "moves ext (core s) (core (snd (retire_device ext t i now s)))"
  by (auto simp: retire_device_def Let_def dest!: fo_device_Some intro!: mv_append mv_device
      simp: dev_next_def valid_transition_def split: option.splits)

lemma refuse_moves: "moves ext (core s) (core (snd (refuse_heartbeat ext k reason err now s)))"
  by (auto simp: refuse_heartbeat_def)

lemma accept_moves: "get (fo_devices s) (fhb_device_id h) = Some d \<Longrightarrow> moves ext (core s) (core (accept_heartbeat ext h d now s))"
  unfolding accept_heartbeat_def Let_def by (simp, intro mv_append) (simp, erule mv_device [rotated], auto intro: dev_next_same)

lemma note_moves: "get (fo_devices s) (fhb_device_id h) = Some d \<Longrightarrow> moves ext (core s) (core (note_heartbeat ext h d now s))"
  unfolding note_heartbeat_def Let_def by (simp, intro mv_append) (simp, erule mv_device [rotated], auto intro: dev_next_same)

lemma mv_if: "moves ext x (core (snd a)) \<Longrightarrow> moves ext x (core (snd b)) \<Longrightarrow> moves ext x (core (snd (if c then a else b)))"
  by simp

lemma heartbeat_moves: "moves ext (core s) (core (snd (receive_heartbeat ext h now s)))"
proof (cases "get (fo_devices s) (fhb_device_id h)")
  case (Some d)
  have "moves ext (core s) (core (snd (case value_bool ext (fhb_inventory_summary h) ''contradiction'' False of Inl e \<Rightarrow> (Inl e, s)
     | Inr True \<Rightarrow> refuse_heartbeat ext (fhb_device_id h) ''inventory_contradiction'' ''inventory_contradiction'' now s
     | Inr False \<Rightarrow> (Inr None, accept_heartbeat ext h d now s))))"
    using Some by (auto intro: refuse_moves accept_moves split: sum.split bool.split)
  moreover have "moves ext (core s) (core (snd (x :: string option result, s)))"
    "moves ext (core s) (core (snd (x, note_heartbeat ext h d now s)))" for x
    using Some by (auto intro: note_moves)
  ultimately show ?thesis unfolding receive_heartbeat_def Let_def Some option.case by (intro mv_if refuse_moves) assumption+
qed (simp add: receive_heartbeat_def)

lemma cancel_moves: "moves ext (core s) (core (snd (cancel_command ext t i now s)))"
  by (auto simp: cancel_command_def cmd_next_def open_states_def dest!: fo_command_Some intro!: mv_append mv_command split: option.splits)

lemma ack_moves: "moves ext (core s) (core (snd (fo_acknowledge_command ext t i now s)))"
  by (auto simp: fo_acknowledge_command_def expire_one_def cmd_next_def open_states_def dest!: fo_command_Some
      intro!: mv_append mv_command split: option.splits)

lemma ask_trust_core: "core (snd (ask_trust c a ctx now s)) = core s"
  by (auto simp: ask_trust_def split: option.splits prod.splits)

lemma core_commands: "core s = core s' \<Longrightarrow> fo_commands s = fo_commands s'"
  by (simp add: core_def)

lemma quarantine_commands [simp]: "fo_commands (quarantine_locked ext k reason now s) = fo_commands s"
  by (simp add: quarantine_locked_def Let_def split: option.splits)

lemma fail_moves:
  "moves ext x (core s) \<Longrightarrow> get (fo_commands s) (fc_command_id c) = None \<Longrightarrow> moves ext x (core (snd (fail_fleet_command ext reason denied now c s)))"
  by (simp add: fail_fleet_command_def Let_def mv_append mv_new_command)

lemma dispatch_moves:
  "moves ext x (core s) \<Longrightarrow> get (fo_commands s) (fc_command_id c) = None \<Longrightarrow> moves ext x (core (snd (dispatch ext d now c s)))"
  by (simp add: dispatch_def Let_def mv_append mv_new_command)

lemma policy_moves:
  assumes "moves ext x (core s)" "get (fo_commands s) (fc_command_id c) = None"
  shows "moves ext x (core (snd (policy_stage ext d now c s)))"
proof -
  define c1 where "c1 = c\<lparr>fc_state := ''policy_checking'', fc_high_risk := fo_high_risk_command (fc_command c)\<rparr>"
  obtain ok s1 where a: "ask_trust c1 (if fc_high_risk c1 then fc_command c1 else ''command_execution'')
      (JObj [(''command'', JStr (fc_command c1)), (''parameters'', fc_parameters c1), (''required_capability'', JStr (fc_required_capability c1))]) now s = (ok, s1)"
    by fastforce
  then have eq: "core s1 = core s" by (metis ask_trust_core snd_conv)
  have new: "get (fo_commands s1) (fc_command_id c1) = None" using assms(2) core_commands [OF eq] by (simp add: c1_def)
  have mv: "moves ext x (core s1)" using assms(1) eq by simp
  have "fc_state c1 = ''policy_checking''" by (simp add: c1_def)
  then have wait: "moves ext x (core (put_command (c1\<lparr>fc_failure_reason := r\<rparr>) s1))" for r
    using mv new by (intro mv_new_command) simp_all
  have fail: "moves ext x (core (snd (fail_fleet_command ext r b now c1 (quarantine_locked ext k q now (s1\<lparr>fo_policy_violations := v\<rparr>)))))" for r b k q v
    using mv new by (intro fail_moves mv_quarantine) simp_all
  show ?thesis unfolding policy_stage_def c1_def [symmetric] Let_def a prod.case
    by (intro mv_if fail dispatch_moves mv new) (simp add: wait)
qed

lemma create_moves: "moves ext (core s) (core (snd (create_command ext c now s)))"
proof -
  have stage: "moves ext x (core (snd (device_stage ext now c s)))"
    if "moves ext x (core s)" "get (fo_commands s) (fc_command_id c) = None" for x c s
  proof (cases "fo_device (fc_tenant_id c) (fc_device_id c) s")
    case None
    then show ?thesis using that by (simp add: device_stage_def fail_moves)
  next
    case (Some d)
    show ?thesis unfolding device_stage_def Some option.case Let_def
      using that by (intro mv_if fail_moves policy_moves) simp_all
  qed
  have "moves ext (core s) (core (snd (if get (fo_commands s) k \<noteq> None then (c1, fo_save_locked (append_event ext t i ty now pl s))
      else device_stage ext now c2 (append_event ext t' i' ty' now pl' s))))"
    if "fc_command_id c2 = k" for k c1 c2 t i ty pl t' i' ty' pl'
    using that by (cases "get (fo_commands s) k") (auto intro!: mv_append stage)
  then show ?thesis unfolding create_command_def Let_def by simp
qed

lemma complete_moves: "moves ext (core s) (core (snd (complete_command ext t i success result now s)))"
proof (cases "fo_command t i s")
  case (Some c)
  have after: "moves ext x (core (after_failure ext k r now s))" if "moves ext x (core s)" for x k r s
    using that by (auto simp: after_failure_def Let_def)
  have "moves ext (core s) (core (snd (complete_command ext t i success result now s)))" if "fc_state c = ''acknowledged''"
    unfolding complete_command_def Some option.case Let_def using fo_command_Some [OF Some] that
    by (cases "get (fo_devices s) (fc_device_id c)") (auto simp: cmd_next_def intro!: after mv_append mv_command)
  then show ?thesis by (cases "fc_state c = ''acknowledged''") (simp_all add: complete_command_def Some)
qed (simp add: complete_command_def)

lemma expire_loop_moves:
  assumes "distinct (map fst cs)" "\<forall>(k, c)\<in>set cs. get (fo_commands s) k = Some c" "moves ext x (core s)"
  shows "moves ext x (core (snd (fo_expire_loop ext now cs n s)))"
  using assms
proof (induction cs arbitrary: n s)
  case (Cons p cs)
  obtain k c where p: "p = (k, c)" by fastforce
  have g: "get (fo_commands s) k = Some c" using Cons.prems(2) p by simp
  define s1 where "s1 = append_event ext (fc_tenant_id c) (fc_device_id c) ''command_failed'' now (command_json (fc_command_id c) [(''reason'', JStr ''expired'')])
          (set_command k (c\<lparr>fc_state := ''expired'', fc_failure_reason := ''expired''\<rparr>) s)"
  have "moves ext x (core s1)" if "fc_state c \<in> {''queued'', ''policy_checking'', ''approved'', ''dispatched''}"
    unfolding s1_def using Cons.prems(3) g that by (intro mv_append mv_command) (auto simp: cmd_next_def open_states_def)
  moreover have "\<forall>(k, c)\<in>set cs. get (fo_commands s1) k = Some c"
  proof clarify
    fix k' c' assume "(k', c') \<in> set cs"
    then have "k' \<noteq> k" "get (fo_commands s) k' = Some c'" using Cons.prems(1,2) by (force simp: p)+
    then show "get (fo_commands s1) k' = Some c'" by (simp add: s1_def)
  qed
  ultimately show ?case using Cons.prems Cons.IH by (auto simp: p s1_def [symmetric])
qed simp

lemma expire_moves: "distinct (map fst (fo_commands s)) \<Longrightarrow> moves ext (core s) (core (snd (fo_expire_commands ext now s)))"
  using expire_loop_moves [of "fo_commands s" s ext "core s" now 0] in_set_get [of "fo_commands s"]
  by (fastforce simp: fo_expire_commands_def split: prod.splits)

lemma record_moves [intro]: "moves ext x (core s) \<Longrightarrow> moves ext x (core (record_risk_change ext r now s))"
  by (simp add: record_risk_change_def Let_def mv_append)

lemma fleet_risk_loop_moves: "moves ext x (core s) \<Longrightarrow> moves ext x (core (snd (fleet_risk_loop ext t now ds out s)))"
  by (induction ext t now ds out s rule: fleet_risk_loop.induct) (auto split: sum.splits)

lemma risk_moves:
  "moves ext (core s) (core (snd (device_risk ext t i now s)))"
  "moves ext (core s) (core (snd (fleet_risk ext t now s)))"
  "moves ext (core s) (core (snd (location_risk ext t i now s)))"
  using fleet_risk_loop_moves [of ext "core s" s t now "vals (fo_devices s)" "[]"]
  by (auto simp: device_risk_def fleet_risk_def location_risk_def Let_def split: option.splits sum.splits prod.splits)

lemma quarantine_moves: "moves ext (core s) (core (snd (quarantine ext t i reason now s)))"
  by (auto simp: quarantine_def split: option.splits)

lemma ask_recovery_core: "core (snd (ask_recovery t i ctx now s)) = core s"
  by (auto simp: ask_recovery_def split: option.splits prod.splits)

lemma reactivate_moves:
  assumes "moves ext x (core s)" "get (fo_devices s) i = Some d" "fd_lifecycle_state d = ''quarantined''" "\<not> fd_retired d"
  shows "moves ext x (core (reactivate ext t i d u now s))"
  unfolding reactivate_def Let_def using assms by (simp, intro mv_append mv_device) (auto simp: dev_next_def valid_transition_def)

lemma recover_cases:
  "recover ext t i now s = (r, s') \<Longrightarrow> core s' = core s \<and> r \<noteq> Inr None \<or>
    (\<exists>d h risk s1. r = Inr None \<and> fo_device t i s = Some d \<and> fd_lifecycle_state d = ''quarantined'' \<and> \<not> fd_retired d \<and> heartbeat_fresh d now s \<and>
       get (fo_heartbeats s) i = Some h \<and> heartbeat_cleared ext d (Some h) = Inr None \<and> device_risk_locked ext d now s = Inr risk \<and>
       unresolved_risk risk < 75 \<and>
       ask_recovery t i (JObj [(''quarantine_reason'', JStr (fd_quarantine_reason d)),
          (''risk_score'', JInt (unresolved_risk risk)), (''self_test_passed'', JBool True)]) now s = (True, s1) \<and>
       s' = reactivate ext t i d (unresolved_risk risk) now s1)"
proof (cases "fo_device t i s")
  case (Some d)
  assume r: "recover ext t i now s = (r, s')"
  note u = recover_def [of ext t i now s, unfolded Some option.case]
  consider "fd_lifecycle_state d \<noteq> ''quarantined'' \<or> fd_retired d \<or> \<not> heartbeat_fresh d now s \<or>
      heartbeat_cleared ext d (get (fo_heartbeats s) i) \<noteq> Inr None"
    | "fd_lifecycle_state d = ''quarantined''" "\<not> fd_retired d" "heartbeat_fresh d now s" "heartbeat_cleared ext d (get (fo_heartbeats s) i) = Inr None"
    by blast
  then show ?thesis
  proof cases
    case 1
    then have "s' = s \<and> r \<noteq> Inr None" using r by (auto simp: u split: if_splits sum.splits option.splits)
    then show ?thesis by simp
  next
    case 2
    from 2(4) obtain h where h: "get (fo_heartbeats s) i = Some h" by (cases "get (fo_heartbeats s) i") (auto simp: heartbeat_cleared_def)
    show ?thesis
    proof (cases "device_risk_locked ext d now s")
      case (Inl e)
      then have "s' = s \<and> r \<noteq> Inr None" using r 2 by (auto simp: u)
      then show ?thesis by simp
    next
      case (Inr risk)
      obtain ok s1 where a: "ask_recovery t i (JObj [(''quarantine_reason'', JStr (fd_quarantine_reason d)),
          (''risk_score'', JInt (unresolved_risk risk)), (''self_test_passed'', JBool True)]) now s = (ok, s1)" by fastforce
      have "core s1 = core s" using ask_recovery_core a by (metis snd_conv)
      then show ?thesis using r 2 Some h Inr a by (cases "unresolved_risk risk \<ge> 75"; cases ok) (auto simp: u)
    qed
  qed
qed (auto simp: recover_def)

lemma core_devices: "core s = core s' \<Longrightarrow> fo_devices s = fo_devices s'"
  by (simp add: core_def)

lemma recover_moves: "moves ext (core s) (core (snd (recover ext t i now s)))"
proof -
  obtain r s' where r: "recover ext t i now s = (r, s')" by fastforce
  show ?thesis
  proof (cases "core s' = core s")
    case False
    then obtain d risk s1 ctx where d: "fo_device t i s = Some d" "fd_lifecycle_state d = ''quarantined''" "\<not> fd_retired d"
      and a: "ask_recovery t i ctx now s = (True, s1)" and s': "s' = reactivate ext t i d (unresolved_risk risk) now s1"
      using recover_cases [OF r] by blast
    have eq: "core s1 = core s" using ask_recovery_core a by (metis snd_conv)
    have "moves ext (core s) (core s')" unfolding s'
      using d fo_device_Some [OF d(1)] core_devices [OF eq] eq by (intro reactivate_moves) simp_all
    then show ?thesis using r by simp
  qed (simp add: r)
qed

text \<open>The whole service: devices and commands stand under their own ids, which the moves keep.\<close>

definition core_wf :: "fleet_core \<Rightarrow> bool" where
  "core_wf x \<longleftrightarrow> keyed fd_device_id (fst x) \<and> keyed fc_command_id (fst (snd x))"

lemma move_wf: "move ext x y \<Longrightarrow> core_wf x \<Longrightarrow> core_wf y"
  by (erule move.cases) (auto simp: core_wf_def dev_next_def cmd_next_def dest: keyed_get)

lemma fo_step_moves:
  assumes "core_wf (core s)"
  shows "moves ext (core s) (core (fo_step ext x s))"
proof -
  have "distinct (map fst (fo_commands s))" using assms by (simp add: core_wf_def core_def keyed_def)
  then show ?thesis
    by (cases x) (simp_all add: enroll_moves update_moves retire_moves heartbeat_moves create_moves cancel_moves ack_moves
      complete_moves expire_moves risk_moves quarantine_moves recover_moves)
qed

interpretation fo: stepwise_refinement "fo_step ext" core "move ext" core_wf for ext
  by unfold_locales (auto intro: fo_step_moves dest: move_wf)

lemmas moves_wf = fo.run_wf

lemma fo_reach_moves: "fo_reach ext s0 s \<Longrightarrow> core_wf (core s0) \<Longrightarrow> moves ext (core s0) (core s)"
  using fo_reach_fold fo.runs_refine by metis

lemma fo_reach_keeps:
  "fo_reach ext s0 s \<Longrightarrow> core_wf (core s0) \<Longrightarrow> P (core s0) \<Longrightarrow> (\<And>x y. move ext x y \<Longrightarrow> P x \<Longrightarrow> P y) \<Longrightarrow> P (core s)"
  using fo.kept [OF fo_reach_moves] by blast

lemma load_map_keyed: "load_map conv key js m = Inr m' \<Longrightarrow> keyed key m \<Longrightarrow> keyed key m'"
proof -
  have "keyed key (foldl (\<lambda>m v. put (key v) v m) m vs)" if "keyed key m" for vs
    using that by (induction vs arbitrary: m) auto
  then show "load_map conv key js m = Inr m' \<Longrightarrow> keyed key m \<Longrightarrow> keyed key m'"
    by (auto simp: load_map_def bind_result_def split: sum.splits)
qed

lemma bind_InrD: "bind_result m f = Inr y \<Longrightarrow> \<exists>x. m = Inr x \<and> f x = Inr y"
  by (auto simp: bind_result_def split: sum.splits)

lemma new_wf: "FleetOperationsService_new ext path file edge trust timeout = Inr s \<Longrightarrow> core_wf (core s)"
  unfolding FleetOperationsService_new_def fo_load_def
  by (auto simp: FleetOperationsService_blank_def core_wf_def core_def dest!: bind_InrD dest: load_map_keyed split: if_splits option.splits)

lemma new_empty:
  "FleetOperationsService_new ext path None edge trust timeout = Inr (FleetOperationsService_blank path None edge trust timeout)"
  by (cases "path = []") (simp_all add: FleetOperationsService_new_def fo_load_def FleetOperationsService_blank_def)


text \<open>A device that was retired, and a command that ended, under any further move.\<close>

definition ended :: "string set" where
  "ended = {''completed'', ''failed'', ''cancelled'', ''expired''}"

lemma moves_retired:
  "moves ext x y \<Longrightarrow> get (fst x) k = Some d \<Longrightarrow> fd_retired d \<Longrightarrow>
     \<exists>d'. get (fst y) k = Some d' \<and> fd_retired d' \<and> fd_tenant_id d' = fd_tenant_id d \<and> fd_lifecycle_state d' = fd_lifecycle_state d"
proof (induction rule: rtranclp_induct)
  case (step y z)
  then obtain d1 where d1: "get (fst y) k = Some d1" "fd_retired d1" "fd_tenant_id d1 = fd_tenant_id d"
    "fd_lifecycle_state d1 = fd_lifecycle_state d" by blast
  from step(2) d1(1) have "\<exists>d2. get (fst z) k = Some d2 \<and> (d2 = d1 \<or> dev_next d1 d2)" by (cases) (auto split: if_splits)
  then show ?case using d1 by (auto simp: dev_next_def)
qed auto

lemma moves_ended: "moves ext x y \<Longrightarrow> get (fst (snd x)) k = Some c \<Longrightarrow> fc_state c \<in> ended \<Longrightarrow> get (fst (snd y)) k = Some c"
proof (induction rule: rtranclp_induct)
  case (step y z)
  then have y: "get (fst (snd y)) k = Some c" by blast
  have "\<not> cmd_next c c'" for c' using step.prems(2) by (auto simp: cmd_next_def open_states_def ended_def)
  with step(2) y show ?case by cases (auto split: if_splits)
qed auto

lemma reach_moves_on:
  assumes "FleetOperationsService_new ext path file edge trust timeout = Inr s0" "fo_reach ext s0 s" "fo_reach ext s s'"
  shows "moves ext (core s) (core s')"
  using assms new_wf fo_reach_moves moves_wf by metis

text \<open>
  C33. A device retired through the retire operation stays in the registry, retired, with its lifecycle state and its tenant,
  whatever operations follow.
\<close>

theorem retired_device_final:
  assumes "FleetOperationsService_new ext path file edge trust timeout = Inr s0" "fo_reach ext s0 s" "fo_reach ext s s'"
    and "get (fo_devices s) k = Some d" "fd_retired d"
  shows "\<exists>d'. get (fo_devices s') k = Some d' \<and> fd_retired d' \<and> fd_tenant_id d' = fd_tenant_id d \<and>
    fd_lifecycle_state d' = fd_lifecycle_state d"
  using moves_retired [OF reach_moves_on [OF assms(1-3)], of k d] assms(4,5) by (simp add: core_def)

text \<open>
  A command of the fleet operations service that completed, failed, was cancelled or expired is never changed again,
  whatever operations follow.
\<close>

theorem ended_command_final:
  assumes "FleetOperationsService_new ext path file edge trust timeout = Inr s0" "fo_reach ext s0 s" "fo_reach ext s s'"
    and "get (fo_commands s) k = Some c" "fc_state c \<in> ended"
  shows "get (fo_commands s') k = Some c"
  using moves_ended [OF reach_moves_on [OF assms(1-3)], of k c] assms(4,5) by (simp add: core_def)

section \<open>The states that occur\<close>

definition lifecycle_states :: "string set" where
  "lifecycle_states = {''provisioned'', ''active'', ''maintenance'', ''quarantined'', ''retired''}"

definition command_states :: "string set" where
  "command_states = {''policy_checking'', ''dispatched'', ''acknowledged''} \<union> ended"

definition typed_core :: "fleet_core \<Rightarrow> bool" where
  "typed_core x \<longleftrightarrow> (\<forall>k d. get (fst x) k = Some d \<longrightarrow> fd_lifecycle_state d \<in> lifecycle_states) \<and>
     (\<forall>k c. get (fst (snd x)) k = Some c \<longrightarrow> fc_state c \<in> command_states)"

lemma dev_next_typed: "dev_next d d' \<Longrightarrow> fd_lifecycle_state d \<in> lifecycle_states \<Longrightarrow> fd_lifecycle_state d' \<in> lifecycle_states"
  by (auto simp: dev_next_def lifecycle_states_def valid_transition_def split: if_splits)

lemma cmd_next_typed: "cmd_next c c' \<Longrightarrow> fc_state c' \<in> command_states"
  by (auto simp: cmd_next_def command_states_def ended_def)

lemma move_typed: "move ext x y \<Longrightarrow> typed_core x \<Longrightarrow> typed_core y"
proof (induction rule: move.induct)
  case (enrolled D d C L)
  then show ?case by (auto simp: typed_core_def lifecycle_states_def)
next
  case (lives D k d d' C L)
  then show ?case using dev_next_typed [of d d'] by (auto simp: typed_core_def)
next
  case (created C c D L)
  then show ?case by (auto simp: typed_core_def command_states_def ended_def)
next
  case (advances C k c c' D L)
  then show ?case using cmd_next_typed [of c c'] by (auto simp: typed_core_def)
qed (simp add: typed_core_def)

text \<open>
  C34. Started without a store file, the service only ever holds devices in one of the five documented lifecycle states and
  commands in one of the stored command states (a command is never stored as queued or approved), each under its own id.
\<close>

theorem fleet_states_typed:
  assumes "FleetOperationsService_new ext path None edge trust timeout = Inr s0" "fo_reach ext s0 s"
  shows "keyed fd_device_id (fo_devices s) \<and> keyed fc_command_id (fo_commands s) \<and>
    (get (fo_devices s) k = Some d \<longrightarrow> fd_lifecycle_state d \<in> {''provisioned'', ''active'', ''maintenance'', ''quarantined'', ''retired''}) \<and>
    (get (fo_commands s) i = Some c \<longrightarrow>
       fc_state c \<in> {''policy_checking'', ''dispatched'', ''acknowledged'', ''completed'', ''failed'', ''cancelled'', ''expired''})"
proof -
  have "core s0 = ([], [], [])" using assms(1) by (auto simp: new_empty FleetOperationsService_blank_def core_def)
  then have "typed_core (core s0)" by (simp add: typed_core_def)
  then have t: "typed_core (core s)"
    by (rule fo_reach_keeps [where P = typed_core, OF assms(2) new_wf [OF assms(1)]]) (rule move_typed)
  have w: "core_wf (core s)" by (rule moves_wf [OF fo_reach_moves [OF assms(2) new_wf [OF assms(1)]] new_wf [OF assms(1)]])
  have "command_states = {''policy_checking'', ''dispatched'', ''acknowledged'', ''completed'', ''failed'', ''cancelled'', ''expired''}"
    by (auto simp: command_states_def ended_def)
  with t w show ?thesis unfolding typed_core_def core_wf_def lifecycle_states_def core_def by simp
qed

section \<open>The log replays\<close>

text \<open>Record \<open>i\<close> of a log is sound when it has its number, the hash of the record before it and its own hash.\<close>

definition sound :: "extern \<Rightarrow> FleetOperationEvent list \<Rightarrow> nat \<Rightarrow> bool" where
  "sound ext L i \<longleftrightarrow> oe_sequence (L ! i) = int i + 1 \<and> oe_previous_hash (L ! i) = (if i = 0 then [] else oe_event_hash (L ! (i - 1))) \<and>
     oe_event_hash (L ! i) = event_hash ext (L ! i)"

definition sound_length :: "extern \<Rightarrow> FleetOperationEvent list \<Rightarrow> nat" where
  "sound_length ext L = length (takeWhile (sound ext L) [0..<length L])"

lemma takeWhile_from:
  "n \<le> m \<Longrightarrow> (\<And>i. i < n \<Longrightarrow> P i) \<Longrightarrow> length (takeWhile P [0..<m]) = n + length (takeWhile P [n..<m])"
proof -
  assume "n \<le> m" and P: "\<And>i. i < n \<Longrightarrow> P i"
  then have "[0..<m] = [0..<n] @ [n..<m]" by (metis upt_add_eq_append le_add_diff_inverse zero_le)
  moreover have "takeWhile P ([0..<n] @ [n..<m]) = [0..<n] @ takeWhile P [n..<m]" by (rule takeWhile_append2) (simp add: P)
  ultimately show ?thesis by simp
qed

lemma replay_loop_spec:
  assumes "\<And>i. i < length pre \<Longrightarrow> sound ext (pre @ es) i"
  shows "replay_loop ext t (if pre = [] then [] else oe_event_hash (last pre)) (int (length pre) + 1) (filter (\<lambda>e. oe_tenant_id e = t) pre) es =
    (sound_length ext (pre @ es) = length (pre @ es), filter (\<lambda>e. oe_tenant_id e = t) (take (sound_length ext (pre @ es)) (pre @ es)))"
  using assms
proof (induction es arbitrary: pre)
  case Nil
  then have "sound_length ext pre = length pre" using takeWhile_from [of "length pre" "length pre" "sound ext pre"] by (simp add: sound_length_def)
  then show ?case by simp
next
  case (Cons e es)
  have s: "sound ext (pre @ e # es) (length pre) \<longleftrightarrow> oe_sequence e = int (length pre) + 1 \<and>
      oe_previous_hash e = (if pre = [] then [] else oe_event_hash (last pre)) \<and> oe_event_hash e = event_hash ext e"
    by (auto simp: sound_def nth_append last_conv_nth)
  show ?case
  proof (cases "sound ext (pre @ e # es) (length pre)")
    case True
    have "sound ext ((pre @ [e]) @ es) i" if "i < length (pre @ [e])" for i
      using that Cons.prems True by (cases "i = length pre") auto
    from Cons.IH [OF this] show ?thesis using True s by (auto simp: algebra_simps)
  next
    case False
    have "[length pre..<length (pre @ e # es)] = length pre # [Suc (length pre)..<length (pre @ e # es)]"
      by (rule upt_conv_Cons) simp
    then have "takeWhile (sound ext (pre @ e # es)) [length pre..<length (pre @ e # es)] = []" using False by simp
    then have "sound_length ext (pre @ e # es) = length pre"
      using takeWhile_from [of "length pre" "length (pre @ e # es)" "sound ext (pre @ e # es)"] Cons.prems
      by (simp add: sound_length_def del: upt_Suc)
    then show ?thesis using False s by auto
  qed
qed

text \<open>
  Replaying computes what its reference says: with \<open>n\<close> the length of the longest prefix of the log in which every
  record is sound, the replay is valid exactly when that is the whole log, and it returns the tenant's
  records of the prefix, in order, with the digest of their hashes.
\<close>

theorem replay_reference:
  "fo_replay ext t s = (let n = sound_length ext (fo_events s); es = filter (\<lambda>e. oe_tenant_id e = t) (take n (fo_events s))
     in \<lparr>rr_valid = (n = length (fo_events s)), rr_reason = (if n = length (fo_events s) then [] else ''event_chain_invalid''),
          rr_hash_summary = sha256_hex ext (dump ext (JArr (map (\<lambda>e. JStr (oe_event_hash e)) es))), rr_events = es\<rparr>)"
  using replay_loop_spec [of "[]" ext "fo_events s" t] by (simp add: fo_replay_def Let_def)

definition sound_log :: "extern \<Rightarrow> FleetOperationEvent list \<Rightarrow> bool" where
  "sound_log ext L \<longleftrightarrow> (\<forall>i<length L. sound ext L i)"

lemma sound_log_length: "sound_log ext L \<Longrightarrow> sound_length ext L = length L"
  using takeWhile_from [of "length L" "length L" "sound ext L"] by (simp add: sound_length_def sound_log_def)

lemma next_event_sound: "sound_log ext L \<Longrightarrow> sound_log ext (L @ [next_event ext t i ty now pl L])"
proof -
  assume L: "sound_log ext L"
  have "sound ext (L @ [e]) i = sound ext L i" if "i < length L" for e i
    using that by (auto simp: sound_def nth_append)
  moreover have "sound ext (L @ [next_event ext t i ty now pl L]) (length L)"
    by (auto simp: sound_def nth_append next_event_def Let_def last_conv_nth event_hash_def)
  ultimately show ?thesis using L by (auto simp: sound_log_def less_Suc_eq)
qed

lemma move_sound: "move ext x y \<Longrightarrow> sound_log ext (snd (snd x)) \<Longrightarrow> sound_log ext (snd (snd y))"
  by (auto elim!: move.cases intro: next_event_sound)

text \<open>
  C12. The log the service writes always replays: started without a store file, after any operations, the replay for any
  tenant is valid and returns exactly that tenant's events; and the log read back from any store file stays valid
  under further operations if it was valid when it was read.
\<close>

theorem own_log_replays:
  assumes "FleetOperationsService_new ext path file edge trust timeout = Inr s0" "fo_reach ext s0 s"
    and "file = None \<or> rr_valid (fo_replay ext u s0)"
  shows "rr_valid (fo_replay ext t s) \<and> rr_events (fo_replay ext t s) = fo_event_list t s"
proof -
  have start: "sound_log ext (fo_events s0)" if "rr_valid (fo_replay ext u s0)"
  proof -
    have "sound_length ext (fo_events s0) = length (fo_events s0)" using that replay_loop_spec [of "[]" ext "fo_events s0" u]
      by (simp add: fo_replay_def Let_def)
    then have "takeWhile (sound ext (fo_events s0)) [0..<length (fo_events s0)] = [0..<length (fo_events s0)]"
      by (metis sound_length_def takeWhile_eq_take take_all_iff length_upt minus_nat.diff_0 order_refl)
    then show ?thesis unfolding sound_log_def by (metis takeWhile_eq_all_conv atLeast0LessThan lessThan_iff set_upt)
  qed
  have "sound_log ext (fo_events s0)"
    using assms(1,3) start by (auto simp: new_empty FleetOperationsService_blank_def sound_log_def)
  then have "sound_log ext (fo_events s)"
    using fo_reach_keeps [OF assms(2) new_wf [OF assms(1)], of "\<lambda>x. sound_log ext (snd (snd x))"] move_sound
    by (auto simp: core_def)
  then show ?thesis using replay_loop_spec [of "[]" ext "fo_events s" t]
    by (simp add: fo_replay_def Let_def sound_log_length fo_event_list_def)
qed

section \<open>Dispatch\<close>

definition permitted :: "FleetOperationsService \<Rightarrow> string \<Rightarrow> bool" where
  "permitted s a \<longleftrightarrow> (case fo_trust s of None \<Rightarrow> False | Some v \<Rightarrow> policy_permits v a)"

lemma allows_permits: "fst (policy_allows_or_fail_closed t i a ctx now v) = policy_permits v a"
  using verify_policy_allowed [of t i a ctx now v]
  by (cases "verify_policy t i a ctx now v") (simp add: policy_allows_or_fail_closed_def)

lemma ask_trust_permitted: "fst (ask_trust c a ctx now s) = permitted s a"
proof (cases "fo_trust s")
  case (Some v)
  then show ?thesis using allows_permits [of "fc_tenant_id c" "fc_device_id c" a ctx now v]
    by (cases "policy_allows_or_fail_closed (fc_tenant_id c) (fc_device_id c) a ctx now v") (simp add: ask_trust_def permitted_def)
qed (simp add: ask_trust_def permitted_def)

lemma stage_states [simp]:
  "fc_state (fst (fail_fleet_command ext r b now c s)) = ''failed''" "fc_state (fst (dispatch ext d now c s)) = ''dispatched''"
  by (simp_all add: fail_fleet_command_def dispatch_def Let_def)

lemma policy_stage_dispatched:
  "fc_state (fst (policy_stage ext d now c s)) = ''dispatched'' \<longleftrightarrow>
     permitted s (if fo_high_risk_command (fc_command c) then fc_command c else ''command_execution'') \<and>
     (fo_high_risk_command (fc_command c) \<longrightarrow> fc_approval_id c \<noteq> [] \<and> fc_approved_by c \<noteq> [])"
proof -
  define c1 where "c1 = c\<lparr>fc_state := ''policy_checking'', fc_high_risk := fo_high_risk_command (fc_command c)\<rparr>"
  have c1: "fc_command c1 = fc_command c" "fc_high_risk c1 = fo_high_risk_command (fc_command c)" "fc_approval_id c1 = fc_approval_id c"
    "fc_approved_by c1 = fc_approved_by c" "fc_state c1 = ''policy_checking''" by (simp_all add: c1_def)
  obtain ok s1 where a: "ask_trust c1 (if fc_high_risk c1 then fc_command c1 else ''command_execution'')
      (JObj [(''command'', JStr (fc_command c1)), (''parameters'', fc_parameters c1), (''required_capability'', JStr (fc_required_capability c1))]) now s = (ok, s1)"
    by fastforce
  have "ok = permitted s (if fo_high_risk_command (fc_command c) then fc_command c else ''command_execution'')"
    using arg_cong [OF a, of fst] unfolding ask_trust_permitted c1 fst_conv by (rule sym)
  then show ?thesis unfolding policy_stage_def c1_def [symmetric] Let_def a prod.case by (simp add: c1)
qed

definition ready :: "FleetDevice \<Rightarrow> string \<Rightarrow> int \<Rightarrow> FleetOperationsService \<Rightarrow> bool" where
  "ready d cmd now s \<longleftrightarrow> \<not> fd_retired d \<and> fd_lifecycle_state d \<noteq> ''quarantined'' \<and> heartbeat_fresh d now s \<and>
     fd_connectivity_status d = ''online'' \<and> fo_capability_for_command cmd \<noteq> [] \<and> fo_capability_for_command cmd \<in> set (fd_capabilities d)"

lemma device_stage_dispatched:
  "fc_state (fst (device_stage ext now c s)) = ''dispatched'' \<longleftrightarrow>
     (\<exists>d. fo_device (fc_tenant_id c) (fc_device_id c) s = Some d \<and> ready d (fc_command c) now s) \<and>
     permitted s (if fo_high_risk_command (fc_command c) then fc_command c else ''command_execution'') \<and>
     (fo_high_risk_command (fc_command c) \<longrightarrow> fc_approval_id c \<noteq> [] \<and> fc_approved_by c \<noteq> [])"
proof (cases "fo_device (fc_tenant_id c) (fc_device_id c) s")
  case (Some d)
  have ne: "fo_capability_for_command (fc_command c) \<in> set (fd_capabilities d) \<Longrightarrow> fd_capabilities d \<noteq> []" by auto
  show ?thesis unfolding device_stage_def Some option.case Let_def ready_def using ne by (simp add: policy_stage_dispatched)
qed (simp add: device_stage_def)

lemma append_event_device [simp]: "fo_device t i (append_event ext t' i' ty now pl s) = fo_device t i s"
  "heartbeat_fresh d n (append_event ext t' i' ty now pl s) = heartbeat_fresh d n s"
  by (simp_all add: fo_device_def heartbeat_fresh_def)


section \<open>Recovery\<close>

text \<open>
  A quarantined device comes back only through recovery, and recovery succeeds only for a device of the tenant that is
  quarantined and not retired, with a fresh heartbeat from an online device that reports a passed self test, known
  firmware and driver, no inventory contradiction, with known capabilities, a risk below 75 points without
  counting the quarantine itself, and the permission of the trust service; then it is active.
\<close>

theorem recovery_requirements:
  assumes "recover ext t i now s = (Inr None, s')"
  shows "\<exists>d h risk v d'. get (fo_devices s) i = Some d \<and> fd_tenant_id d = t \<and> fd_lifecycle_state d = ''quarantined'' \<and> \<not> fd_retired d \<and>
    heartbeat_fresh d now s \<and> fd_capabilities d \<noteq> [] \<and> get (fo_heartbeats s) i = Some h \<and>
    value_bool ext (fhb_health_metrics h) ''self_test_passed'' False = Inr True \<and>
    value_bool ext (fhb_inventory_summary h) ''contradiction'' False = Inr False \<and> fhb_connectivity_status h = ''online'' \<and>
    \<not> unknown_version (fhb_firmware_version h) \<and> \<not> unknown_version (fhb_driver_version h) \<and>
    device_risk_locked ext d now s = Inr risk \<and> unresolved_risk risk < 75 \<and>
    fo_trust s = Some v \<and> policy_permits v ''device_recovery'' \<and>
    get (fo_devices s') i = Some d' \<and> fd_lifecycle_state d' = ''active'' \<and> fd_quarantine_reason d' = []"
proof -
  obtain d h risk s1 where d: "fo_device t i s = Some d" "fd_lifecycle_state d = ''quarantined''" "\<not> fd_retired d" "heartbeat_fresh d now s"
    and h: "get (fo_heartbeats s) i = Some h" "heartbeat_cleared ext d (Some h) = Inr None"
    and r: "device_risk_locked ext d now s = Inr risk" "unresolved_risk risk < 75"
    and a: "ask_recovery t i (JObj [(''quarantine_reason'', JStr (fd_quarantine_reason d)),
          (''risk_score'', JInt (unresolved_risk risk)), (''self_test_passed'', JBool True)]) now s = (True, s1)"
    and s': "s' = reactivate ext t i d (unresolved_risk risk) now s1"
    using recover_cases [OF assms] by blast
  from a obtain v where v: "fo_trust s = Some v" "policy_permits v ''device_recovery''"
    using allows_permits by (auto simp: ask_recovery_def split: option.splits prod.splits) (metis fst_conv)
  have c: "value_bool ext (fhb_health_metrics h) ''self_test_passed'' False = Inr True"
    "value_bool ext (fhb_inventory_summary h) ''contradiction'' False = Inr False" "fhb_connectivity_status h = ''online''"
    "\<not> unknown_version (fhb_firmware_version h)" "\<not> unknown_version (fhb_driver_version h)" "fd_capabilities d \<noteq> []"
    using h(2) by (auto simp: heartbeat_cleared_def split: if_splits dest!: bind_InrD)
  have "get (fo_devices s') i = Some (d\<lparr>fd_lifecycle_state := ''active'', fd_quarantine_reason := []\<rparr>)"
    by (simp add: s' reactivate_def Let_def)
  then show ?thesis using d fo_device_Some [OF d(1)] h(1) r v c by force
qed

section \<open>Risk\<close>

definition nonneg :: "RiskFactor list \<Rightarrow> bool" where
  "nonneg fs \<longleftrightarrow> (\<forall>f\<in>set fs. 0 \<le> rf_points f)"

lemma nonneg_simps [simp]: "nonneg (xs @ ys) \<longleftrightarrow> nonneg xs \<and> nonneg ys" "nonneg (factor b n p e) \<longleftrightarrow> (b \<longrightarrow> 0 \<le> p)" "nonneg []"
  by (auto simp: nonneg_def factor_def)

lemma nonneg_sum: "nonneg fs \<Longrightarrow> 0 \<le> sum_list (map rf_points fs)"
  by (auto simp: nonneg_def intro!: sum_list_nonneg)

lemma heartbeat_factors_nonneg: "heartbeat_factors ext hb = Inr fs \<Longrightarrow> nonneg fs"
  by (auto simp: heartbeat_factors_def dest!: bind_InrD split: option.splits)

lemma device_risk_score:
  assumes "device_risk_locked ext d now s = Inr r"
  shows "0 \<le> fr_score r \<and> fr_score r \<le> 100 \<and> fr_level r = risk_level (fr_score r) \<and> nonneg (fr_factors r)"
proof -
  obtain hb where hb: "heartbeat_factors ext (get (fo_heartbeats s) (fd_device_id d)) = Inr hb"
    using assms by (auto simp: device_risk_locked_def Let_def dest!: bind_InrD)
  have f: "fr_score r = min 100 (sum_list (map rf_points (fr_factors r))) \<and> fr_level r = risk_level (fr_score r)"
    using assms unfolding device_risk_locked_def Let_def hb by force
  have "nonneg (fr_factors r)"
    using assms heartbeat_factors_nonneg [OF hb] unfolding device_risk_locked_def Let_def hb by force
  then show ?thesis using f nonneg_sum [of "fr_factors r"] by auto
qed

lemma average_bounds:
  assumes "rs \<noteq> []" "\<And>x. x \<in> set rs \<Longrightarrow> 0 \<le> f x \<and> f x \<le> (100 :: int)"
  shows "0 \<le> sum_list (map f rs) sdiv int (length rs) \<and> sum_list (map f rs) sdiv int (length rs) \<le> 100"
proof -
  have "0 \<le> sum_list (map f rs)" using assms(2) by (intro sum_list_nonneg) auto
  moreover have "sum_list (map f rs) \<le> 100 * int (length rs)"
    using assms(2) by (induction rs) fastforce+
  moreover have "0 < int (length rs)" using assms(1) by simp
  ultimately show ?thesis using zdiv_mono1 [of "sum_list (map f rs)" "100 * int (length rs)" "int (length rs)"]
    by (simp add: sdiv_pos pos_imp_zdiv_nonneg_iff)
qed

text \<open>
  Risk scores are bounded: whatever the devices report, the risk of a device and of a location lies between 0 and 100,
  its level is the one of its score, and no factor takes points away.
\<close>

theorem risk_bounds:
  assumes "fst (device_risk ext t i now s) = Inr r \<or> fst (location_risk ext t i now s) = Inr r"
  shows "0 \<le> fr_score r \<and> fr_score r \<le> 100 \<and> fr_level r = risk_level (fr_score r) \<and> (\<forall>f\<in>set (fr_factors r). 0 \<le> rf_points f)"
  using assms
proof
  assume "fst (device_risk ext t i now s) = Inr r"
  then show ?thesis using device_risk_score [of ext _ now s r]
    by (auto simp: device_risk_def nonneg_def risk_level_def factor_def split: option.splits sum.splits)
next
  assume l: "fst (location_risk ext t i now s) = Inr r"
  define ds where "ds = filter (\<lambda>d. fd_tenant_id d = t \<and> fd_location_id d = i) (vals (fo_devices s))"
  obtain rs where rs: "map_result (\<lambda>d. device_risk_locked ext d now s) ds = Inr rs"
    using l by (auto simp: location_risk_def Let_def ds_def split: sum.splits)
  have each: "0 \<le> fr_score x \<and> fr_score x \<le> 100 \<and> nonneg (fr_factors x)" if "x \<in> set rs" for x
    using rs that device_risk_score by (induction ds arbitrary: rs) (fastforce dest!: bind_InrD)+
  have "nonneg (concat (map fr_factors rs))" using each by (auto simp: nonneg_def)
  then show ?thesis using l average_bounds [of rs fr_score] each
    by (auto simp: location_risk_def Let_def ds_def [symmetric] rs nonneg_def factor_def split: if_splits)
qed

section \<open>Retirement by patch\<close>

text \<open>
  Retirement is irreversible only through the retire operation. An update that patches the lifecycle state to
  \<^verbatim>\<open>retired\<close> is accepted but leaves the device unmarked, and a later quarantine, which recovery can end, moves the device
  out of the retired state.
\<close>

theorem patched_retirement_undone:
  assumes "value_laws ext" "fo_device t i s = Some d" "\<not> fd_retired d"
    and s1: "update_device ext t i (JObj [(''lifecycle_state'', JStr ''retired'')]) now s = (r, s1)"
  shows "r = Inr None \<and> (\<exists>d1. fo_device t i s1 = Some d1 \<and> fd_lifecycle_state d1 = ''retired'' \<and> \<not> fd_retired d1) \<and>
    (\<exists>s2 d2. quarantine ext t i reason later s1 = (None, s2) \<and> fo_device t i s2 = Some d2 \<and> fd_lifecycle_state d2 = ''quarantined'' \<and>
       \<not> fd_retired d2)"
proof -
  let ?p = "JObj [(''lifecycle_state'', JStr ''retired'')]"
  let ?d = "d\<lparr>fd_lifecycle_state := ''retired''\<rparr>"
  have v: "value_str ext ?p ''lifecycle_state'' x = Inr ''retired''" "has_key ext ?p ''location_id'' = False"
    "value_str ext ?p ''location_id'' x = Inr x" "value_str ext ?p ''branch_id'' x = Inr x" "value_str ext ?p ''group_id'' x = Inr x"
    "value_str ext ?p ''fleet_id'' x = Inr x" "value_labels ext ?p ''labels'' l = Inr l" for x l
    using assms(1) by (simp_all add: value_laws_def json_value_def json_has_def)
  have p: "patch_device ext ?p ''retired'' d = (None, ?d)"
    unfolding patch_device_def by (simp add: assign_def v)
  have tr: "valid_transition (fd_lifecycle_state d) ''retired'' False" by (simp add: valid_transition_def)
  have u: "r = Inr None" "fo_devices s1 = put i ?d (fo_devices s)"
    using s1 assms(2,3) by (auto simp: update_device_def v p tr Let_def)
  have t: "fd_tenant_id d = t" using fo_device_Some [OF assms(2)] by simp
  then have d1: "fo_device t i s1 = Some ?d" "get (fo_devices s1) i = Some ?d" by (simp_all add: fo_device_def u(2))
  then show ?thesis using u(1) assms(3) t
    by (simp add: quarantine_def quarantine_locked_def Let_def fo_device_def [of t i "fo_save_locked _"])
qed

section \<open>Witnesses\<close>

definition sample_fleet_device :: FleetDevice where
  "sample_fleet_device = FleetDevice_default\<lparr>fd_device_id := ''d1'', fd_tenant_id := ''t1'', fd_branch_id := ''b1'', fd_location_id := ''l1'',
     fd_fleet_id := ''f1'', fd_lifecycle_state := ''active'', fd_connectivity_status := ''online'', fd_last_heartbeat_epoch := 100,
     fd_capabilities := [''cash_out'']\<rparr>"

definition sample_beat :: FleetHeartbeat where
  "sample_beat = FleetHeartbeat_default\<lparr>fhb_device_id := ''d1'', fhb_tenant_id := ''t1'', fhb_firmware_version := ''1.0'',
     fhb_driver_version := ''1.0'', fhb_health_metrics := JObj [(''self_test_passed'', JBool True)], fhb_timestamp := 100\<rparr>"

definition sample_fleet_start :: FleetOperationsService where
  "sample_fleet_start = FleetOperationsService_blank [] None None (Some empty_veil) 60"

definition sample_fleet :: "FleetDevice \<Rightarrow> FleetOperationsService" where
  "sample_fleet d = sample_fleet_start\<lparr>fo_devices := [(''d1'', d)], fo_heartbeats := [(''d1'', sample_beat)]\<rparr>"

definition sample_enrolled :: FleetOperationsService where
  "sample_enrolled = fo_step sample_extern (Enroll sample_fleet_device ''op'' 90) sample_fleet_start"

definition sample_order :: FleetCommand where
  "sample_order = FleetCommand_default\<lparr>fc_command_id := ''c1'', fc_tenant_id := ''t1'', fc_device_id := ''d1'', fc_command := ''dispense_cash'',
     fc_approval_id := ''a1'', fc_approved_by := ''boss''\<rparr>"

lemma sample_start_new: "FleetOperationsService_new sample_extern [] None None (Some empty_veil) 60 = Inr sample_fleet_start"
  by (simp add: new_empty sample_fleet_start_def)

lemma sample_enrolled_device:
  "get (fo_devices sample_enrolled) ''d1'' = Some (sample_fleet_device\<lparr>fd_connectivity_status := ''offline''\<rparr>)"
  by (simp add: sample_enrolled_def enroll_def sample_fleet_device_def FleetDevice_default_def sample_fleet_start_def FleetOperationsService_blank_def
      edge_registered_def inherit_capabilities_def Let_def enter_device_def join_group_def)

lemma sample_fleet_simps [simp]:
  "fo_device ''t1'' ''d1'' (sample_fleet d) = (if fd_tenant_id d = ''t1'' then Some d else None)" "fo_commands (sample_fleet d) = []"
  "fo_heartbeats (sample_fleet d) = [(''d1'', sample_beat)]" "fo_trust (sample_fleet d) = Some empty_veil"
  "fo_heartbeat_timeout_seconds (sample_fleet d) = 60" "vals (fo_devices (sample_fleet d)) = [d]" "fo_policy_violations (sample_fleet d) = []"
  "get (fo_devices (sample_fleet d)) ''d1'' = Some d"
  by (simp_all add: fo_device_def sample_fleet_def sample_fleet_start_def FleetOperationsService_blank_def vals_def)

lemma sample_permits: "policy_permits empty_veil a"
  by (simp add: policy_permits_def empty_veil_def LocalVeilClient_default_def)


theorem retired_device_final_witness:
  "\<exists>d. get (fo_devices (fo_step sample_extern (Beat sample_beat 110) (fo_step sample_extern (Retire ''t1'' ''d1'' 95) sample_enrolled))) ''d1'' = Some d \<and>
     fd_retired d \<and> fd_lifecycle_state d = ''retired''"
proof -
  let ?s = "fo_step sample_extern (Retire ''t1'' ''d1'' 95) sample_enrolled"
  have r: "fo_reach sample_extern sample_fleet_start ?s" unfolding sample_enrolled_def by (intro fo_reach.intros)
  have "fo_device ''t1'' ''d1'' sample_enrolled = Some (sample_fleet_device\<lparr>fd_connectivity_status := ''offline''\<rparr>)"
    by (simp add: fo_device_def sample_enrolled_device sample_fleet_device_def)
  then have d: "get (fo_devices ?s) ''d1'' = Some (sample_fleet_device\<lparr>fd_connectivity_status := ''offline'', fd_lifecycle_state := ''retired'', fd_retired := True\<rparr>)"
    by (simp add: retire_device_def Let_def sample_fleet_device_def FleetDevice_default_def)
  from retired_device_final [OF sample_start_new r fo_reach.fo_next [OF fo_reach.fo_start, of sample_extern ?s "Beat sample_beat 110"] d]
  show ?thesis by auto
qed

theorem ended_command_final_witness:
  "\<exists>c. get (fo_commands (fo_step sample_extern (Cancel ''t1'' ''c1'' 7) (fo_step sample_extern (New_command sample_order 5) sample_fleet_start))) ''c1'' = Some c \<and>
     fc_state c = ''failed''"
proof -
  let ?s = "fo_step sample_extern (New_command sample_order 5) sample_fleet_start"
  have r: "fo_reach sample_extern sample_fleet_start ?s" by (intro fo_reach.intros)
  obtain c where c: "get (fo_commands ?s) ''c1'' = Some c" "fc_state c = ''failed''"
    by (simp add: create_command_def Let_def device_stage_def fail_fleet_command_def sample_order_def FleetCommand_default_def
        sample_fleet_start_def FleetOperationsService_blank_def fo_device_def)
  from ended_command_final [OF sample_start_new r fo_reach.fo_next [OF fo_reach.fo_start, of sample_extern ?s "Cancel ''t1'' ''c1'' 7"] c(1)] c(2)
  show ?thesis by (auto simp: ended_def)
qed

theorem fleet_states_typed_witness:
  "\<exists>d. get (fo_devices sample_enrolled) ''d1'' = Some d \<and>
     fd_lifecycle_state d \<in> {''provisioned'', ''active'', ''maintenance'', ''quarantined'', ''retired''}"
proof -
  have "fo_reach sample_extern sample_fleet_start sample_enrolled" unfolding sample_enrolled_def by (intro fo_reach.intros)
  from fleet_states_typed [OF sample_start_new this, of "''d1''"] sample_enrolled_device show ?thesis by blast
qed

theorem own_log_replays_witness:
  "rr_valid (fo_replay sample_extern ''t1'' sample_enrolled) \<and> rr_events (fo_replay sample_extern ''t1'' sample_enrolled) = fo_event_list ''t1'' sample_enrolled"
proof -
  have "fo_reach sample_extern sample_fleet_start sample_enrolled" unfolding sample_enrolled_def by (intro fo_reach.intros)
  from own_log_replays [OF sample_start_new this] show ?thesis by simp
qed


definition sample_quarantined :: FleetDevice where
  "sample_quarantined = sample_fleet_device\<lparr>fd_lifecycle_state := ''quarantined''\<rparr>"

lemma sample_factors: "heartbeat_factors sample_extern (Some sample_beat) = Inr []"
  by (simp add: heartbeat_factors_def sample_extern_def json_value_def sample_beat_def FleetHeartbeat_default_def factor_def drift_limit_def)

lemma sample_risk: "\<exists>r. device_risk_locked sample_extern sample_quarantined 110 (sample_fleet sample_quarantined) = Inr r \<and> unresolved_risk r < 75"
  by (simp add: device_risk_locked_def Let_def sample_quarantined_def sample_fleet_device_def FleetDevice_default_def sample_factors
      heartbeat_fresh_def unresolved_risk_def factor_def vals_def count_at_def)

theorem risk_bounds_witness:
  "\<exists>r. fst (device_risk sample_extern ''t1'' ''d1'' 110 (sample_fleet sample_quarantined)) = Inr r \<and> 0 \<le> fr_score r \<and> fr_score r \<le> 100"
proof -
  obtain r where "fst (device_risk sample_extern ''t1'' ''d1'' 110 (sample_fleet sample_quarantined)) = Inr r"
    using sample_risk by (auto simp: device_risk_def sample_quarantined_def sample_fleet_device_def)
  then show ?thesis using risk_bounds [of sample_extern "''t1''" "''d1''" 110 "sample_fleet sample_quarantined" r] by blast
qed

theorem patched_retirement_undone_witness:
  "\<exists>s1 s2 d2. update_device sample_extern ''t1'' ''d1'' (JObj [(''lifecycle_state'', JStr ''retired'')]) 110 (sample_fleet sample_fleet_device) = (Inr None, s1) \<and>
     quarantine sample_extern ''t1'' ''d1'' ''check'' 120 s1 = (None, s2) \<and> fo_device ''t1'' ''d1'' s2 = Some d2 \<and> fd_lifecycle_state d2 = ''quarantined''"
proof -
  have d: "fo_device ''t1'' ''d1'' (sample_fleet sample_fleet_device) = Some sample_fleet_device" "\<not> fd_retired sample_fleet_device"
    by (simp_all add: sample_fleet_device_def FleetDevice_default_def)
  obtain r s1 where u: "update_device sample_extern ''t1'' ''d1'' (JObj [(''lifecycle_state'', JStr ''retired'')]) 110 (sample_fleet sample_fleet_device) = (r, s1)"
    by fastforce
  from patched_retirement_undone [OF sample_value_laws d u, of "''check''" 120] u show ?thesis by blast
qed

theorem recovery_requirements_witness:
  "\<exists>s' d'. recover sample_extern ''t1'' ''d1'' 110 (sample_fleet sample_quarantined) = (Inr None, s') \<and>
     get (fo_devices s') ''d1'' = Some d' \<and> fd_lifecycle_state d' = ''active''"
proof -
  obtain risk where risk: "device_risk_locked sample_extern sample_quarantined 110 (sample_fleet sample_quarantined) = Inr risk" "unresolved_risk risk < 75"
    using sample_risk by blast
  have h: "heartbeat_cleared sample_extern sample_quarantined (Some sample_beat) = Inr None"
    by (simp add: heartbeat_cleared_def sample_extern_def json_value_def sample_beat_def FleetHeartbeat_default_def json_bool_def
        unknown_version_def sample_quarantined_def sample_fleet_device_def)
  have q: "fd_lifecycle_state sample_quarantined = ''quarantined''" "\<not> fd_retired sample_quarantined" "fd_tenant_id sample_quarantined = ''t1''"
    "heartbeat_fresh sample_quarantined 110 (sample_fleet sample_quarantined)"
    by (simp_all add: sample_quarantined_def sample_fleet_device_def FleetDevice_default_def heartbeat_fresh_def)
  have ok: "\<exists>s1. ask_recovery ''t1'' ''d1'' ctx 110 (sample_fleet sample_quarantined) = (True, s1)" for ctx
    using allows_permits [of "''t1''" "''d1''" "''device_recovery''" ctx 110 empty_veil] sample_permits
    by (cases "policy_allows_or_fail_closed ''t1'' ''d1'' ''device_recovery'' ctx 110 empty_veil") (simp add: ask_recovery_def)
  obtain s1 where "ask_recovery ''t1'' ''d1'' (JObj [(''quarantine_reason'', JStr (fd_quarantine_reason sample_quarantined)),
      (''risk_score'', JInt (unresolved_risk risk)), (''self_test_passed'', JBool True)]) 110 (sample_fleet sample_quarantined) = (True, s1)"
    by (rule exE [OF ok])
  then obtain s' where r: "recover sample_extern ''t1'' ''d1'' 110 (sample_fleet sample_quarantined) = (Inr None, s')"
    using q h risk by (simp add: recover_def)
  from recovery_requirements [OF r] r show ?thesis by blast
qed

end
