(* ===== verification/Cash_Models.thy ===== *)
theory Cash_Models
  imports Fleet_Models
begin

text \<open>
  The data of the cash intelligence service (\<^verbatim>\<open>src/cloud/cash_intelligence/models.hpp\<close>) with their JSON
  (\<^verbatim>\<open>models.cpp\<close>) and the round trips. A \<^verbatim>\<open>DenominationBreakdown\<close> is a list of pairs in the order of its keys.
\<close>

section \<open>Data\<close>

record CashLedgerEntry =
  le_ledger_entry_id :: string
  le_event_type :: string
  le_event_id :: string
  le_device_id :: string
  le_merchant_id :: string
  le_branch_id :: string
  le_region :: string
  le_currency :: string
  le_denominations :: "(string \<times> int) list"
  le_expected_balance :: int
  le_observed_balance :: int
  le_variance :: int
  le_actor_id :: string
  le_actor_role :: string
  le_occurred_at_epoch :: int
  le_audit_event_id :: string
  le_duplicate :: bool

definition CashLedgerEntry_default :: CashLedgerEntry where
  "CashLedgerEntry_default = \<lparr>le_ledger_entry_id = [], le_event_type = [], le_event_id = [], le_device_id = [],
     le_merchant_id = [], le_branch_id = [], le_region = [], le_currency = [], le_denominations = [],
     le_expected_balance = 0, le_observed_balance = 0, le_variance = 0, le_actor_id = [], le_actor_role = [],
     le_occurred_at_epoch = 0, le_audit_event_id = [], le_duplicate = False\<rparr>"

record DenominationInventory =
  di_scope_type :: string
  di_scope_id :: string
  di_currency :: string
  di_quantities :: "(string \<times> int) list"
  di_updated_at_epoch :: int

definition DenominationInventory_default :: DenominationInventory where
  "DenominationInventory_default = \<lparr>di_scope_type = ''device'', di_scope_id = [], di_currency = [],
     di_quantities = [], di_updated_at_epoch = 0\<rparr>"

record ReconciliationReport =
  rp_report_id :: string
  rp_scope_type :: string
  rp_scope_id :: string
  rp_merchant_id :: string
  rp_branch_id :: string
  rp_region :: string
  rp_currency :: string
  rp_expected_balance :: int
  rp_observed_balance :: int
  rp_variance :: int
  rp_status :: string
  rp_findings :: "string list"
  rp_started_at_epoch :: int
  rp_completed_at_epoch :: int
  rp_audit_event_id :: string

definition ReconciliationReport_default :: ReconciliationReport where
  "ReconciliationReport_default = \<lparr>rp_report_id = [], rp_scope_type = [], rp_scope_id = [],
     rp_merchant_id = [], rp_branch_id = [], rp_region = [], rp_currency = [], rp_expected_balance = 0,
     rp_observed_balance = 0, rp_variance = 0, rp_status = ''balanced'', rp_findings = [], rp_started_at_epoch = 0,
     rp_completed_at_epoch = 0, rp_audit_event_id = []\<rparr>"

record CashForecast =
  cf_forecast_id :: string
  cf_scope_type :: string
  cf_scope_id :: string
  cf_currency :: string
  cf_expected_depletion_epoch :: int
  cf_expected_surplus_epoch :: int
  cf_recommended_replenishment_epoch :: int
  cf_high_risk_shortage_windows :: "string list"
  cf_confidence :: string
  cf_explanation :: string

definition CashForecast_default :: CashForecast where
  "CashForecast_default = \<lparr>cf_forecast_id = [], cf_scope_type = [], cf_scope_id = [], cf_currency = [],
     cf_expected_depletion_epoch = 0, cf_expected_surplus_epoch = 0, cf_recommended_replenishment_epoch = 0,
     cf_high_risk_shortage_windows = [], cf_confidence = ''low'', cf_explanation = []\<rparr>"

record CashAnomaly =
  an_anomaly_id :: string
  an_scope_type :: string
  an_scope_id :: string
  an_device_id :: string
  an_merchant_id :: string
  an_branch_id :: string
  an_region :: string
  an_type :: string
  an_severity :: string
  an_explanation :: string
  an_detected_at_epoch :: int

definition CashAnomaly_default :: CashAnomaly where
  "CashAnomaly_default = \<lparr>an_anomaly_id = [], an_scope_type = [], an_scope_id = [], an_device_id = [],
     an_merchant_id = [], an_branch_id = [], an_region = [], an_type = [], an_severity = ''warning'',
     an_explanation = [], an_detected_at_epoch = 0\<rparr>"

record CashHealthScore =
  ch_scope_type :: string
  ch_scope_id :: string
  ch_score :: int
  ch_factors :: "(string \<times> int) list"
  ch_explanations :: "string list"

definition CashHealthScore_default :: CashHealthScore where
  "CashHealthScore_default = \<lparr>ch_scope_type = [], ch_scope_id = [], ch_score = 100, ch_factors = [],
     ch_explanations = []\<rparr>"

record CashEvent =
  ce_event_id :: string
  ce_scope_type :: string
  ce_scope_id :: string
  ce_device_id :: string
  ce_merchant_id :: string
  ce_branch_id :: string
  ce_region :: string
  ce_type :: string
  ce_occurred_at_epoch :: int
  ce_metadata :: json

definition CashEvent_default :: CashEvent where
  "CashEvent_default = \<lparr>ce_event_id = [], ce_scope_type = [], ce_scope_id = [], ce_device_id = [],
     ce_merchant_id = [], ce_branch_id = [], ce_region = [], ce_type = [], ce_occurred_at_epoch = 0,
     ce_metadata = JObj []\<rparr>"

record CashDashboardView =
  cd_scope_type :: string
  cd_scope_id :: string
  cd_expected_balance :: int
  cd_observed_balance :: int
  cd_variance :: int
  cd_shortage_risk :: string
  cd_surplus_risk :: string
  cd_variance_trend :: "int list"
  cd_anomaly_summary :: "(string \<times> int) list"
  cd_replenishment_recommendations :: "string list"
  cd_health :: CashHealthScore

record CashFilter =
  cl_organization_id :: string
  cl_device_id :: string
  cl_merchant_id :: string
  cl_branch_id :: string
  cl_region :: string
  cl_currency :: string

definition CashFilter_default :: CashFilter where
  "CashFilter_default = \<lparr>cl_organization_id = [], cl_device_id = [], cl_merchant_id = [], cl_branch_id = [],
     cl_region = [], cl_currency = []\<rparr>"

section \<open>JSON\<close>

definition ledger_entry_to_json :: "CashLedgerEntry \<Rightarrow> json" where
  "ledger_entry_to_json v = JObj [(''ledger_entry_id'', JStr (le_ledger_entry_id v)),
     (''event_type'', JStr (le_event_type v)), (''event_id'', JStr (le_event_id v)),
     (''device_id'', JStr (le_device_id v)), (''merchant_id'', JStr (le_merchant_id v)),
     (''branch_id'', JStr (le_branch_id v)), (''region'', JStr (le_region v)), (''currency'', JStr (le_currency v)),
     (''denominations'', counts_json (le_denominations v)), (''expected_balance'', JInt (le_expected_balance v)),
     (''observed_balance'', JInt (le_observed_balance v)), (''variance'', JInt (le_variance v)),
     (''actor_id'', JStr (le_actor_id v)), (''actor_role'', JStr (le_actor_role v)),
     (''occurred_at_epoch'', JInt (le_occurred_at_epoch v)), (''audit_event_id'', JStr (le_audit_event_id v)),
     (''duplicate'', JBool (le_duplicate v))]"

definition ledger_entry_from_json :: "extern \<Rightarrow> json \<Rightarrow> CashLedgerEntry \<Rightarrow> CashLedgerEntry result" where
  "ledger_entry_from_json ext j v =
     bind_result (value_str ext j ''ledger_entry_id'' (le_ledger_entry_id v)) (\<lambda>a1.
     bind_result (value_str ext j ''event_type'' (le_event_type v)) (\<lambda>a2.
     bind_result (value_str ext j ''event_id'' (le_event_id v)) (\<lambda>a3.
     bind_result (value_str ext j ''device_id'' (le_device_id v)) (\<lambda>a4.
     bind_result (value_str ext j ''merchant_id'' (le_merchant_id v)) (\<lambda>a5.
     bind_result (value_str ext j ''branch_id'' (le_branch_id v)) (\<lambda>a6.
     bind_result (value_str ext j ''region'' (le_region v)) (\<lambda>a7.
     bind_result (value_str ext j ''currency'' (le_currency v)) (\<lambda>a8.
     bind_result (value_counts ext j ''denominations'' (le_denominations v)) (\<lambda>a9.
     bind_result (value_int ext j ''expected_balance'' (le_expected_balance v)) (\<lambda>b1.
     bind_result (value_int ext j ''observed_balance'' (le_observed_balance v)) (\<lambda>b2.
     bind_result (value_int ext j ''variance'' (le_variance v)) (\<lambda>b3.
     bind_result (value_str ext j ''actor_id'' (le_actor_id v)) (\<lambda>b4.
     bind_result (value_str ext j ''actor_role'' (le_actor_role v)) (\<lambda>b5.
     bind_result (value_int ext j ''occurred_at_epoch'' (le_occurred_at_epoch v)) (\<lambda>b6.
     bind_result (value_str ext j ''audit_event_id'' (le_audit_event_id v)) (\<lambda>b7.
     bind_result (value_bool ext j ''duplicate'' (le_duplicate v)) (\<lambda>b8.
     Inr \<lparr>le_ledger_entry_id = a1, le_event_type = a2, le_event_id = a3, le_device_id = a4,
       le_merchant_id = a5, le_branch_id = a6, le_region = a7, le_currency = a8, le_denominations = a9,
       le_expected_balance = b1, le_observed_balance = b2, le_variance = b3, le_actor_id = b4, le_actor_role = b5,
       le_occurred_at_epoch = b6, le_audit_event_id = b7, le_duplicate = b8\<rparr>)))))))))))))))))"

definition cash_inventory_to_json :: "DenominationInventory \<Rightarrow> json" where
  "cash_inventory_to_json v = JObj [(''scope_type'', JStr (di_scope_type v)), (''scope_id'', JStr (di_scope_id v)),
     (''currency'', JStr (di_currency v)), (''quantities'', counts_json (di_quantities v)),
     (''updated_at_epoch'', JInt (di_updated_at_epoch v))]"

definition cash_inventory_from_json :: "extern \<Rightarrow> json \<Rightarrow> DenominationInventory \<Rightarrow> DenominationInventory result" where
  "cash_inventory_from_json ext j v =
     bind_result (value_str ext j ''scope_type'' (di_scope_type v)) (\<lambda>a1.
     bind_result (value_str ext j ''scope_id'' (di_scope_id v)) (\<lambda>a2.
     bind_result (value_str ext j ''currency'' (di_currency v)) (\<lambda>a3.
     bind_result (value_counts ext j ''quantities'' (di_quantities v)) (\<lambda>a4.
     bind_result (value_int ext j ''updated_at_epoch'' (di_updated_at_epoch v)) (\<lambda>a5.
     Inr \<lparr>di_scope_type = a1, di_scope_id = a2, di_currency = a3, di_quantities = a4,
       di_updated_at_epoch = a5\<rparr>)))))"

definition report_to_json :: "ReconciliationReport \<Rightarrow> json" where
  "report_to_json v = JObj [(''report_id'', JStr (rp_report_id v)), (''scope_type'', JStr (rp_scope_type v)),
     (''scope_id'', JStr (rp_scope_id v)), (''merchant_id'', JStr (rp_merchant_id v)),
     (''branch_id'', JStr (rp_branch_id v)), (''region'', JStr (rp_region v)), (''currency'', JStr (rp_currency v)),
     (''expected_balance'', JInt (rp_expected_balance v)), (''observed_balance'', JInt (rp_observed_balance v)),
     (''variance'', JInt (rp_variance v)), (''status'', JStr (rp_status v)),
     (''findings'', JArr (map JStr (rp_findings v))), (''started_at_epoch'', JInt (rp_started_at_epoch v)),
     (''completed_at_epoch'', JInt (rp_completed_at_epoch v)), (''audit_event_id'', JStr (rp_audit_event_id v))]"

definition report_from_json :: "extern \<Rightarrow> json \<Rightarrow> ReconciliationReport \<Rightarrow> ReconciliationReport result" where
  "report_from_json ext j v =
     bind_result (value_str ext j ''report_id'' (rp_report_id v)) (\<lambda>a1.
     bind_result (value_str ext j ''scope_type'' (rp_scope_type v)) (\<lambda>a2.
     bind_result (value_str ext j ''scope_id'' (rp_scope_id v)) (\<lambda>a3.
     bind_result (value_str ext j ''merchant_id'' (rp_merchant_id v)) (\<lambda>a4.
     bind_result (value_str ext j ''branch_id'' (rp_branch_id v)) (\<lambda>a5.
     bind_result (value_str ext j ''region'' (rp_region v)) (\<lambda>a6.
     bind_result (value_str ext j ''currency'' (rp_currency v)) (\<lambda>a7.
     bind_result (value_int ext j ''expected_balance'' (rp_expected_balance v)) (\<lambda>a8.
     bind_result (value_int ext j ''observed_balance'' (rp_observed_balance v)) (\<lambda>a9.
     bind_result (value_int ext j ''variance'' (rp_variance v)) (\<lambda>b1.
     bind_result (value_str ext j ''status'' (rp_status v)) (\<lambda>b2.
     bind_result (value_strs ext j ''findings'' (rp_findings v)) (\<lambda>b3.
     bind_result (value_int ext j ''started_at_epoch'' (rp_started_at_epoch v)) (\<lambda>b4.
     bind_result (value_int ext j ''completed_at_epoch'' (rp_completed_at_epoch v)) (\<lambda>b5.
     bind_result (value_str ext j ''audit_event_id'' (rp_audit_event_id v)) (\<lambda>b6.
     Inr \<lparr>rp_report_id = a1, rp_scope_type = a2, rp_scope_id = a3, rp_merchant_id = a4, rp_branch_id = a5,
       rp_region = a6, rp_currency = a7, rp_expected_balance = a8, rp_observed_balance = a9, rp_variance = b1,
       rp_status = b2, rp_findings = b3, rp_started_at_epoch = b4, rp_completed_at_epoch = b5,
       rp_audit_event_id = b6\<rparr>)))))))))))))))"

definition forecast_to_json :: "CashForecast \<Rightarrow> json" where
  "forecast_to_json v = JObj [(''forecast_id'', JStr (cf_forecast_id v)), (''scope_type'', JStr (cf_scope_type v)),
     (''scope_id'', JStr (cf_scope_id v)), (''currency'', JStr (cf_currency v)),
     (''expected_depletion_epoch'', JInt (cf_expected_depletion_epoch v)),
     (''expected_surplus_epoch'', JInt (cf_expected_surplus_epoch v)),
     (''recommended_replenishment_epoch'', JInt (cf_recommended_replenishment_epoch v)),
     (''high_risk_shortage_windows'', JArr (map JStr (cf_high_risk_shortage_windows v))),
     (''confidence'', JStr (cf_confidence v)), (''explanation'', JStr (cf_explanation v))]"

definition forecast_from_json :: "extern \<Rightarrow> json \<Rightarrow> CashForecast \<Rightarrow> CashForecast result" where
  "forecast_from_json ext j v =
     bind_result (value_str ext j ''forecast_id'' (cf_forecast_id v)) (\<lambda>a1.
     bind_result (value_str ext j ''scope_type'' (cf_scope_type v)) (\<lambda>a2.
     bind_result (value_str ext j ''scope_id'' (cf_scope_id v)) (\<lambda>a3.
     bind_result (value_str ext j ''currency'' (cf_currency v)) (\<lambda>a4.
     bind_result (value_int ext j ''expected_depletion_epoch'' (cf_expected_depletion_epoch v)) (\<lambda>a5.
     bind_result (value_int ext j ''expected_surplus_epoch'' (cf_expected_surplus_epoch v)) (\<lambda>a6.
     bind_result (value_int ext j ''recommended_replenishment_epoch'' (cf_recommended_replenishment_epoch v)) (\<lambda>a7.
     bind_result (value_strs ext j ''high_risk_shortage_windows'' (cf_high_risk_shortage_windows v)) (\<lambda>a8.
     bind_result (value_str ext j ''confidence'' (cf_confidence v)) (\<lambda>a9.
     bind_result (value_str ext j ''explanation'' (cf_explanation v)) (\<lambda>b1.
     Inr \<lparr>cf_forecast_id = a1, cf_scope_type = a2, cf_scope_id = a3, cf_currency = a4,
       cf_expected_depletion_epoch = a5, cf_expected_surplus_epoch = a6, cf_recommended_replenishment_epoch = a7,
       cf_high_risk_shortage_windows = a8, cf_confidence = a9, cf_explanation = b1\<rparr>))))))))))"

definition anomaly_to_json :: "CashAnomaly \<Rightarrow> json" where
  "anomaly_to_json v = JObj [(''anomaly_id'', JStr (an_anomaly_id v)), (''scope_type'', JStr (an_scope_type v)),
     (''scope_id'', JStr (an_scope_id v)), (''device_id'', JStr (an_device_id v)),
     (''merchant_id'', JStr (an_merchant_id v)), (''branch_id'', JStr (an_branch_id v)),
     (''region'', JStr (an_region v)), (''type'', JStr (an_type v)), (''severity'', JStr (an_severity v)),
     (''explanation'', JStr (an_explanation v)), (''detected_at_epoch'', JInt (an_detected_at_epoch v))]"

definition anomaly_from_json :: "extern \<Rightarrow> json \<Rightarrow> CashAnomaly \<Rightarrow> CashAnomaly result" where
  "anomaly_from_json ext j v =
     bind_result (value_str ext j ''anomaly_id'' (an_anomaly_id v)) (\<lambda>a1.
     bind_result (value_str ext j ''scope_type'' (an_scope_type v)) (\<lambda>a2.
     bind_result (value_str ext j ''scope_id'' (an_scope_id v)) (\<lambda>a3.
     bind_result (value_str ext j ''device_id'' (an_device_id v)) (\<lambda>a4.
     bind_result (value_str ext j ''merchant_id'' (an_merchant_id v)) (\<lambda>a5.
     bind_result (value_str ext j ''branch_id'' (an_branch_id v)) (\<lambda>a6.
     bind_result (value_str ext j ''region'' (an_region v)) (\<lambda>a7.
     bind_result (value_str ext j ''type'' (an_type v)) (\<lambda>a8.
     bind_result (value_str ext j ''severity'' (an_severity v)) (\<lambda>a9.
     bind_result (value_str ext j ''explanation'' (an_explanation v)) (\<lambda>b1.
     bind_result (value_int ext j ''detected_at_epoch'' (an_detected_at_epoch v)) (\<lambda>b2.
     Inr \<lparr>an_anomaly_id = a1, an_scope_type = a2, an_scope_id = a3, an_device_id = a4, an_merchant_id = a5,
       an_branch_id = a6, an_region = a7, an_type = a8, an_severity = a9, an_explanation = b1,
       an_detected_at_epoch = b2\<rparr>)))))))))))"

definition cash_health_to_json :: "CashHealthScore \<Rightarrow> json" where
  "cash_health_to_json v = JObj [(''scope_type'', JStr (ch_scope_type v)), (''scope_id'', JStr (ch_scope_id v)),
     (''score'', JInt (ch_score v)), (''factors'', counts_json (ch_factors v)),
     (''explanations'', JArr (map JStr (ch_explanations v)))]"

definition cash_health_from_json :: "extern \<Rightarrow> json \<Rightarrow> CashHealthScore \<Rightarrow> CashHealthScore result" where
  "cash_health_from_json ext j v =
     bind_result (value_str ext j ''scope_type'' (ch_scope_type v)) (\<lambda>a1.
     bind_result (value_str ext j ''scope_id'' (ch_scope_id v)) (\<lambda>a2.
     bind_result (value_int ext j ''score'' (ch_score v)) (\<lambda>a3.
     bind_result (value_counts ext j ''factors'' (ch_factors v)) (\<lambda>a4.
     bind_result (value_strs ext j ''explanations'' (ch_explanations v)) (\<lambda>a5.
     Inr \<lparr>ch_scope_type = a1, ch_scope_id = a2, ch_score = a3, ch_factors = a4,
       ch_explanations = a5\<rparr>)))))"

definition cash_event_to_json :: "CashEvent \<Rightarrow> json" where
  "cash_event_to_json v = JObj [(''event_id'', JStr (ce_event_id v)), (''scope_type'', JStr (ce_scope_type v)),
     (''scope_id'', JStr (ce_scope_id v)), (''device_id'', JStr (ce_device_id v)),
     (''merchant_id'', JStr (ce_merchant_id v)), (''branch_id'', JStr (ce_branch_id v)),
     (''region'', JStr (ce_region v)), (''type'', JStr (ce_type v)),
     (''occurred_at_epoch'', JInt (ce_occurred_at_epoch v)), (''metadata'', ce_metadata v)]"

definition cash_event_from_json :: "extern \<Rightarrow> json \<Rightarrow> CashEvent \<Rightarrow> CashEvent result" where
  "cash_event_from_json ext j v =
     bind_result (value_str ext j ''event_id'' (ce_event_id v)) (\<lambda>a1.
     bind_result (value_str ext j ''scope_type'' (ce_scope_type v)) (\<lambda>a2.
     bind_result (value_str ext j ''scope_id'' (ce_scope_id v)) (\<lambda>a3.
     bind_result (value_str ext j ''device_id'' (ce_device_id v)) (\<lambda>a4.
     bind_result (value_str ext j ''merchant_id'' (ce_merchant_id v)) (\<lambda>a5.
     bind_result (value_str ext j ''branch_id'' (ce_branch_id v)) (\<lambda>a6.
     bind_result (value_str ext j ''region'' (ce_region v)) (\<lambda>a7.
     bind_result (value_str ext j ''type'' (ce_type v)) (\<lambda>a8.
     bind_result (value_int ext j ''occurred_at_epoch'' (ce_occurred_at_epoch v)) (\<lambda>a9.
     bind_result (value_json ext j ''metadata'' (JObj [])) (\<lambda>b1.
     Inr \<lparr>ce_event_id = a1, ce_scope_type = a2, ce_scope_id = a3, ce_device_id = a4, ce_merchant_id = a5,
       ce_branch_id = a6, ce_region = a7, ce_type = a8, ce_occurred_at_epoch = a9, ce_metadata = b1\<rparr>))))))))))"

definition cash_dashboard_to_json :: "CashDashboardView \<Rightarrow> json" where
  "cash_dashboard_to_json v = JObj [(''scope_type'', JStr (cd_scope_type v)), (''scope_id'', JStr (cd_scope_id v)),
     (''expected_balance'', JInt (cd_expected_balance v)), (''observed_balance'', JInt (cd_observed_balance v)),
     (''variance'', JInt (cd_variance v)), (''shortage_risk'', JStr (cd_shortage_risk v)),
     (''surplus_risk'', JStr (cd_surplus_risk v)), (''variance_trend'', JArr (map JInt (cd_variance_trend v))),
     (''anomaly_summary'', counts_json (cd_anomaly_summary v)),
     (''replenishment_recommendations'', JArr (map JStr (cd_replenishment_recommendations v))),
     (''health'', cash_health_to_json (cd_health v))]"

section \<open>Round trips\<close>

lemma ledger_entry_json_roundtrip: "value_laws ext \<Longrightarrow> ledger_entry_from_json ext (ledger_entry_to_json x) v = Inr x"
  by (simp add: ledger_entry_from_json_def ledger_entry_to_json_def value_back)

lemma cash_inventory_json_roundtrip: "value_laws ext \<Longrightarrow> cash_inventory_from_json ext (cash_inventory_to_json x) v = Inr x"
  by (simp add: cash_inventory_from_json_def cash_inventory_to_json_def value_back)

lemma report_json_roundtrip: "value_laws ext \<Longrightarrow> report_from_json ext (report_to_json x) v = Inr x"
  by (simp add: report_from_json_def report_to_json_def value_back)

lemma forecast_json_roundtrip: "value_laws ext \<Longrightarrow> forecast_from_json ext (forecast_to_json x) v = Inr x"
  by (simp add: forecast_from_json_def forecast_to_json_def value_back)

lemma anomaly_json_roundtrip: "value_laws ext \<Longrightarrow> anomaly_from_json ext (anomaly_to_json x) v = Inr x"
  by (simp add: anomaly_from_json_def anomaly_to_json_def value_back)

lemma cash_health_json_roundtrip: "value_laws ext \<Longrightarrow> cash_health_from_json ext (cash_health_to_json x) v = Inr x"
  by (simp add: cash_health_from_json_def cash_health_to_json_def value_back)

lemma cash_event_json_roundtrip: "value_laws ext \<Longrightarrow> cash_event_from_json ext (cash_event_to_json x) v = Inr x"
  by (simp add: cash_event_from_json_def cash_event_to_json_def value_back)

end
