(* ===== verification/Cash_Intelligence.thy ===== *)
theory Cash_Intelligence
  imports Cash_Models Fleet_Control
begin

text \<open>
  The cash intelligence service (\<^verbatim>\<open>src/cloud/cash_intelligence/service.cpp\<close>): the cash ledger, denomination
  inventories and mixes, reconciliation, forecasts, anomalies with their alerts on the fleet control plane, health
  scores, dashboards and the store file. \<^verbatim>\<open>long\<close> and \<^verbatim>\<open>int\<close> are \<open>int\<close>, with the narrowing of
  \<^verbatim>\<open>recommend_mix\<close> written out; \<open>None\<close> is its division by zero. Metrics are not modelled.
\<close>

section \<open>State\<close>

record CashIntelligenceService =
  ci_store_path :: string
  ci_file :: "json option"
  ci_fleet :: "FleetControlPlane option"
  ci_ledger :: "CashLedgerEntry list"
  ci_reports :: "ReconciliationReport list"
  ci_forecasts :: "CashForecast list"
  ci_anomalies :: "CashAnomaly list"
  ci_events :: "CashEvent list"
  ci_inventories :: "(string, DenominationInventory) amap"
  ci_denomination_sets :: "(string, int list) amap"
  ci_seen_event_ids :: "string list"

definition inventory_key :: "string \<Rightarrow> string \<Rightarrow> string \<Rightarrow> string" where
  "inventory_key scope_type scope_id currency = scope_type @ '':'' @ scope_id @ '':'' @ currency"

definition key_of_inventory :: "DenominationInventory \<Rightarrow> string" where
  "key_of_inventory v = inventory_key (di_scope_type v) (di_scope_id v) (di_currency v)"

definition currency_code_ok :: "string \<Rightarrow> bool" where
  "currency_code_ok c \<longleftrightarrow> length c = 3 \<and> list_all (\<lambda>x. CHR ''A'' \<le> x \<and> x \<le> CHR ''Z'') c"

definition severity_weight :: "string \<Rightarrow> int" where
  "severity_weight severity = (if severity = ''critical'' then 25 else if severity = ''warning'' then 10 else 4)"

definition risk_from_variance :: "int \<Rightarrow> string" where
  "risk_from_variance v = (if v < - 10000 then ''high'' else if v < - 1000 then ''medium'' else ''low'')"

text \<open>\<^verbatim>\<open>std::set<int>(begin, end)\<close>.\<close>

definition int_set :: "int list \<Rightarrow> int list" where
  "int_set ds = sort (remdups ds)"

definition default_sets :: "(string, int list) amap" where
  "default_sets = [(''USD'', [1, 5, 10, 25, 100, 500, 1000, 2000, 5000, 10000]), (''KES'', [50, 100, 500, 1000, 5000, 10000]),
     (''NGN'', [500, 1000, 2000, 5000, 10000, 20000, 50000, 100000])]"

section \<open>Store file and events\<close>

definition ci_store_json :: "CashIntelligenceService \<Rightarrow> json" where
  "ci_store_json s = JObj [(''schema'', JInt 1), (''ledger'', JArr (map ledger_entry_to_json (ci_ledger s))),
     (''reports'', JArr (map report_to_json (ci_reports s))), (''forecasts'', JArr (map forecast_to_json (ci_forecasts s))),
     (''anomalies'', JArr (map anomaly_to_json (ci_anomalies s))), (''events'', JArr (map cash_event_to_json (ci_events s))),
     (''inventories'', values_json cash_inventory_to_json (ci_inventories s)),
     (''denomination_sets'', JObj (map (\<lambda>(c, ds). (c, JArr (map JInt ds))) (ci_denomination_sets s)))]"

definition ci_save_locked :: "CashIntelligenceService \<Rightarrow> CashIntelligenceService" where
  "ci_save_locked s = (if ci_store_path s = [] then s else s\<lparr>ci_file := Some (ci_store_json s)\<rparr>)"

definition load_sets :: "extern \<Rightarrow> (string \<times> json) list \<Rightarrow> (string, int list) amap \<Rightarrow> (string, int list) amap result" where
  "load_sets ext items m =
     bind_result (map_result (\<lambda>(c, v). bind_result (as_arr ext v) (\<lambda>js. bind_result (map_result (as_int ext) js) (\<lambda>ds. Inr (c, ds)))) items)
       (\<lambda>cds. Inr (foldl (\<lambda>m (c, ds). put c (int_set ds) m) m cds))"

definition see_events :: "CashLedgerEntry list \<Rightarrow> string list \<Rightarrow> string list" where
  "see_events es seen = foldl (\<lambda>seen e. if le_event_id e = [] then seen else List.insert (le_event_id e) seen) seen es"

definition ci_load :: "extern \<Rightarrow> CashIntelligenceService \<Rightarrow> CashIntelligenceService result" where
  "ci_load ext s = (if ci_store_path s = [] then Inr s else case ci_file s of None \<Rightarrow> Inr s | Some j \<Rightarrow>
     bind_result (value_with ext (\<lambda>j. ledger_entry_from_json ext j CashLedgerEntry_default) j ''ledger'' (ci_ledger s)) (\<lambda>a1.
     bind_result (value_with ext (\<lambda>j. report_from_json ext j ReconciliationReport_default) j ''reports'' (ci_reports s)) (\<lambda>a2.
     bind_result (value_with ext (\<lambda>j. forecast_from_json ext j CashForecast_default) j ''forecasts'' (ci_forecasts s)) (\<lambda>a3.
     bind_result (value_with ext (\<lambda>j. anomaly_from_json ext j CashAnomaly_default) j ''anomalies'' (ci_anomalies s)) (\<lambda>a4.
     bind_result (value_with ext (\<lambda>j. cash_event_from_json ext j CashEvent_default) j ''events'' (ci_events s)) (\<lambda>a5.
     bind_result (value_arr ext j ''inventories'' []) (\<lambda>js.
     bind_result (load_map (\<lambda>j. cash_inventory_from_json ext j DenominationInventory_default) key_of_inventory js (ci_inventories s)) (\<lambda>a6.
     bind_result (value_items ext j ''denomination_sets'') (\<lambda>items.
     bind_result (load_sets ext items (ci_denomination_sets s)) (\<lambda>a7.
     Inr (s\<lparr>ci_ledger := a1, ci_reports := a2, ci_forecasts := a3, ci_anomalies := a4, ci_events := a5, ci_inventories := a6,
       ci_denomination_sets := a7, ci_seen_event_ids := see_events a1 (ci_seen_event_ids s)\<rparr>)))))))))))"

definition CashIntelligenceService_blank :: "string \<Rightarrow> json option \<Rightarrow> FleetControlPlane option \<Rightarrow> CashIntelligenceService" where
  "CashIntelligenceService_blank store_path file fleet = \<lparr>ci_store_path = store_path, ci_file = file, ci_fleet = fleet, ci_ledger = [],
     ci_reports = [], ci_forecasts = [], ci_anomalies = [], ci_events = [], ci_inventories = [], ci_denomination_sets = default_sets,
     ci_seen_event_ids = []\<rparr>"

definition CashIntelligenceService_new :: "extern \<Rightarrow> string \<Rightarrow> json option \<Rightarrow> FleetControlPlane option \<Rightarrow> CashIntelligenceService result" where
  "CashIntelligenceService_new ext store_path file fleet = ci_load ext (CashIntelligenceService_blank store_path file fleet)"

definition ci_event_locked ::
  "string \<Rightarrow> string \<Rightarrow> string \<Rightarrow> string \<Rightarrow> string \<Rightarrow> string \<Rightarrow> string \<Rightarrow> int \<Rightarrow> json \<Rightarrow> CashIntelligenceService \<Rightarrow> CashIntelligenceService" where
  "ci_event_locked scope_type scope_id device_id merchant_id branch_id region type now metadata s =
     s\<lparr>ci_events := ci_events s @ [\<lparr>ce_event_id = id_for ''cash-event'' (length (ci_events s)), ce_scope_type = scope_type,
       ce_scope_id = scope_id, ce_device_id = device_id, ce_merchant_id = merchant_id, ce_branch_id = branch_id, ce_region = region,
       ce_type = type, ce_occurred_at_epoch = now, ce_metadata = metadata\<rparr>]\<rparr>"

definition scope_device :: "string \<Rightarrow> string \<Rightarrow> string" where
  "scope_device scope_type scope_id = (if scope_type = ''device'' then scope_id else [])"

section \<open>Denominations\<close>

definition configure_denominations :: "string \<Rightarrow> int list \<Rightarrow> CashIntelligenceService \<Rightarrow> CashIntelligenceService" where
  "configure_denominations currency ds s = ci_save_locked (s\<lparr>ci_denomination_sets := put currency (int_set ds) (ci_denomination_sets s)\<rparr>)"

definition validate_denominations :: "string \<Rightarrow> (string \<times> int) list \<Rightarrow> CashIntelligenceService \<Rightarrow> bool" where
  "validate_denominations currency breakdown s \<longleftrightarrow> currency_code_ok currency \<and>
     list_all (\<lambda>(k, n). case stoi k of Inl _ \<Rightarrow> False
       | Inr denom \<Rightarrow> n \<ge> 0 \<and> (case get (ci_denomination_sets s) currency of None \<Rightarrow> True | Some ds \<Rightarrow> denom \<in> set ds)) breakdown"

fun value_loop :: "(string \<times> int) list \<Rightarrow> int \<Rightarrow> int" where
  "value_loop [] acc = acc"
| "value_loop ((k, n) # rest) acc = (case stoi k of Inl _ \<Rightarrow> - 1 | Inr d \<Rightarrow> value_loop rest (acc + d * n))"

definition denomination_value :: "(string \<times> int) list \<Rightarrow> int" where
  "denomination_value breakdown = value_loop breakdown 0"

definition denomination_drift :: "string \<Rightarrow> (string \<times> int) list \<Rightarrow> (string \<times> int) list \<Rightarrow> CashIntelligenceService \<Rightarrow> int" where
  "denomination_drift currency expected observed s =
     (if \<not> validate_denominations currency expected s \<or> \<not> validate_denominations currency observed s then - 1
      else sum_list (map (\<lambda>k. \<bar>count_at expected k - count_at observed k\<bar>) (remdups (map fst expected @ map fst observed))))"

text \<open>\<^verbatim>\<open>static_cast<int>\<close> of a \<^verbatim>\<open>long\<close>.\<close>

definition to_int :: "int \<Rightarrow> int" where
  "to_int x = sint (word_of_int x :: 32 word)"

fun mix_loop :: "int list \<Rightarrow> int \<Rightarrow> (string, int) amap \<Rightarrow> (string, int) amap option" where
  "mix_loop [] remaining mix = Some mix"
| "mix_loop (d # ds) remaining mix =
     (if d = 0 then None
      else let qty = to_int (remaining sdiv d) in
        if qty > 0 then mix_loop ds (remaining - qty * d) (sput (to_string d) qty mix) else mix_loop ds remaining mix)"

definition recommend_mix :: "string \<Rightarrow> int \<Rightarrow> CashIntelligenceService \<Rightarrow> (string, int) amap option" where
  "recommend_mix currency target s = (case get (ci_denomination_sets s) currency of None \<Rightarrow> Some []
     | Some ds \<Rightarrow> if target \<le> 0 then Some [] else mix_loop (rev ds) target [])"

section \<open>Ledger and inventories\<close>

definition add_ledger_entry :: "CashLedgerEntry \<Rightarrow> CashIntelligenceService \<Rightarrow> bool \<times> CashIntelligenceService" where
  "add_ledger_entry e0 s =
     (if le_device_id e0 = [] \<or> le_currency e0 = [] \<or> \<not> validate_denominations (le_currency e0) (le_denominations e0) s then (False, s)
      else
        let e = e0\<lparr>le_ledger_entry_id := (if le_ledger_entry_id e0 = [] then id_for ''cash-ledger'' (length (ci_ledger s)) else le_ledger_entry_id e0),
              le_audit_event_id := (if le_audit_event_id e0 = [] then id_for ''cash-audit'' (length (ci_events s)) else le_audit_event_id e0),
              le_duplicate := (le_duplicate e0 \<or> le_event_id e0 \<noteq> [] \<and> le_event_id e0 \<in> set (ci_seen_event_ids s)),
              le_variance := le_observed_balance e0 - le_expected_balance e0\<rparr>;
            s1 = s\<lparr>ci_seen_event_ids := (if le_event_id e = [] then ci_seen_event_ids s else List.insert (le_event_id e) (ci_seen_event_ids s)),
              ci_ledger := ci_ledger s @ [e]\<rparr>
        in (True, ci_save_locked (ci_event_locked ''device'' (le_device_id e) (le_device_id e) (le_merchant_id e) (le_branch_id e) (le_region e)
             ''cash_ledger_entry_created'' (le_occurred_at_epoch e) (JObj [(''ledger_entry_id'', JStr (le_ledger_entry_id e))]) s1)))"

definition field_ok :: "string \<Rightarrow> string \<Rightarrow> bool" where
  "field_ok wanted v \<longleftrightarrow> wanted = [] \<or> v = wanted"

definition ci_filter_matches :: "CashLedgerEntry \<Rightarrow> CashFilter \<Rightarrow> CashIntelligenceService \<Rightarrow> bool" where
  "ci_filter_matches e f s \<longleftrightarrow> field_ok (cl_device_id f) (le_device_id e) \<and> field_ok (cl_merchant_id f) (le_merchant_id e) \<and>
     field_ok (cl_branch_id f) (le_branch_id e) \<and> field_ok (cl_region f) (le_region e) \<and> field_ok (cl_currency f) (le_currency e) \<and>
     (cl_organization_id f = [] \<or> (case ci_fleet s of None \<Rightarrow> False
        | Some p \<Rightarrow> (case cp_device (le_device_id e) p of None \<Rightarrow> False | Some d \<Rightarrow> dr_organization_id d = cl_organization_id f)))"

definition ledger_entries :: "CashFilter \<Rightarrow> CashIntelligenceService \<Rightarrow> CashLedgerEntry list" where
  "ledger_entries f s = filter (\<lambda>e. ci_filter_matches e f s) (ci_ledger s)"

definition ci_update_inventory :: "DenominationInventory \<Rightarrow> CashIntelligenceService \<Rightarrow> bool \<times> CashIntelligenceService" where
  "ci_update_inventory v s =
     (if \<not> validate_denominations (di_currency v) (di_quantities v) s \<or> di_scope_id v = [] then (False, s)
      else (True, ci_save_locked (ci_event_locked (di_scope_type v) (di_scope_id v) (scope_device (di_scope_type v) (di_scope_id v)) [] [] []
        ''replenishment_recommendation_created'' (di_updated_at_epoch v) (JObj [(''inventory_updated'', JBool True)])
        (s\<lparr>ci_inventories := put (key_of_inventory v) v (ci_inventories s)\<rparr>))))"

definition scope_ok :: "string \<Rightarrow> string \<Rightarrow> string \<Rightarrow> string \<Rightarrow> bool" where
  "scope_ok wanted type scope_type scope_id \<longleftrightarrow> wanted = [] \<or> scope_type = type \<and> scope_id = wanted"

definition ci_inventory_list :: "CashFilter \<Rightarrow> CashIntelligenceService \<Rightarrow> DenominationInventory list" where
  "ci_inventory_list f s = filter (\<lambda>v. field_ok (cl_currency f) (di_currency v) \<and>
     scope_ok (cl_device_id f) ''device'' (di_scope_type v) (di_scope_id v) \<and> scope_ok (cl_branch_id f) ''branch'' (di_scope_type v) (di_scope_id v) \<and>
     scope_ok (cl_merchant_id f) ''merchant'' (di_scope_type v) (di_scope_id v) \<and>
     scope_ok (cl_region f) ''region'' (di_scope_type v) (di_scope_id v)) (vals (ci_inventories s))"

section \<open>Reconciliation\<close>

definition ci_scope_matches :: "CashLedgerEntry \<Rightarrow> string \<Rightarrow> string \<Rightarrow> bool" where
  "ci_scope_matches e scope_type scope_id \<longleftrightarrow> (if scope_type = ''device'' then le_device_id e = scope_id
     else if scope_type = ''branch'' then le_branch_id e = scope_id else if scope_type = ''merchant'' then le_merchant_id e = scope_id
     else if scope_type = ''region'' then le_region e = scope_id else False)"

text \<open>The local variables of the loop over the ledger.\<close>

record scan =
  sc_seen :: "string list"
  sc_duplicate :: bool
  sc_drawer_open :: bool
  sc_stale_inventory :: bool
  sc_matched_entries :: int
  sc_report :: ReconciliationReport

definition keep_first :: "string \<Rightarrow> string \<Rightarrow> string" where
  "keep_first old v = (if old = [] then v else old)"

definition scan_entry :: "int \<Rightarrow> CashLedgerEntry \<Rightarrow> scan \<Rightarrow> scan" where
  "scan_entry now e x = x\<lparr>sc_matched_entries := sc_matched_entries x + 1,
     sc_report := (sc_report x)\<lparr>rp_expected_balance := rp_expected_balance (sc_report x) + le_expected_balance e,
       rp_merchant_id := keep_first (rp_merchant_id (sc_report x)) (le_merchant_id e),
       rp_branch_id := keep_first (rp_branch_id (sc_report x)) (le_branch_id e),
       rp_region := keep_first (rp_region (sc_report x)) (le_region e)\<rparr>,
     sc_duplicate := (sc_duplicate x \<or> le_event_id e \<noteq> [] \<and> le_event_id e \<in> set (sc_seen x) \<or> le_duplicate e),
     sc_seen := (if le_event_id e = [] then sc_seen x else List.insert (le_event_id e) (sc_seen x)),
     sc_drawer_open := (sc_drawer_open x \<or> le_event_type e = ''drawer_open''),
     sc_stale_inventory := (sc_stale_inventory x \<or> le_event_type e = ''inventory_snapshot'' \<and> now - le_occurred_at_epoch e > 86400)\<rparr>"

fun scan_loop :: "string \<Rightarrow> string \<Rightarrow> string \<Rightarrow> int \<Rightarrow> CashLedgerEntry list \<Rightarrow> scan \<Rightarrow> scan" where
  "scan_loop scope_type scope_id currency now [] x = x"
| "scan_loop scope_type scope_id currency now (e # es) x =
     (if \<not> ci_scope_matches e scope_type scope_id \<or> le_currency e \<noteq> currency then scan_loop scope_type scope_id currency now es x
      else scan_loop scope_type scope_id currency now es (scan_entry now e x))"

definition judge :: "scan \<Rightarrow> ReconciliationReport" where
  "judge x =
     (let r0 = sc_report x; r = r0\<lparr>rp_variance := rp_observed_balance r0 - rp_expected_balance r0\<rparr>; a = \<bar>rp_variance r\<bar>;
          r1 = (if a = 0 \<and> \<not> sc_duplicate x \<and> \<not> sc_drawer_open x \<and> \<not> sc_stale_inventory x then r\<lparr>rp_status := ''balanced''\<rparr>
            else if sc_duplicate x then r\<lparr>rp_status := ''unresolved'', rp_findings := rp_findings r @ [''duplicate_events'']\<rparr>
            else if sc_drawer_open x \<and> a > 0
            then r\<lparr>rp_status := ''suspected_fraud'', rp_findings := rp_findings r @ [''unexplained_drawer_open'']\<rparr>
            else if rp_variance r < - 5000 then r\<lparr>rp_status := ''suspected_loss'', rp_findings := rp_findings r @ [''shortage'']\<rparr>
            else if a > 10000 then r\<lparr>rp_status := ''major_variance''\<rparr>
            else if a > 0 then r\<lparr>rp_status := ''minor_variance''\<rparr> else r);
          r2 = (if sc_stale_inventory x then r1\<lparr>rp_findings := rp_findings r1 @ [''stale_inventory'']\<rparr> else r1)
      in if sc_matched_entries x = 0 then r2\<lparr>rp_status := ''unresolved'', rp_findings := rp_findings r2 @ [''missing_events'']\<rparr> else r2)"

definition start_report :: "string \<Rightarrow> string \<Rightarrow> string \<Rightarrow> int \<Rightarrow> int \<Rightarrow> CashIntelligenceService \<Rightarrow> ReconciliationReport" where
  "start_report scope_type scope_id currency observed now s = ReconciliationReport_default\<lparr>rp_report_id := id_for ''recon'' (length (ci_reports s)),
     rp_scope_type := scope_type, rp_scope_id := scope_id, rp_currency := currency, rp_observed_balance := observed,
     rp_started_at_epoch := now, rp_completed_at_epoch := now, rp_audit_event_id := id_for ''cash-audit'' (length (ci_events s))\<rparr>"

definition start_scan :: "ReconciliationReport \<Rightarrow> scan" where
  "start_scan r = \<lparr>sc_seen = [], sc_duplicate = False, sc_drawer_open = False, sc_stale_inventory = False, sc_matched_entries = 0, sc_report = r\<rparr>"

definition reconcile ::
  "string \<Rightarrow> string \<Rightarrow> string \<Rightarrow> int \<Rightarrow> int \<Rightarrow> CashIntelligenceService \<Rightarrow> ReconciliationReport \<times> CashIntelligenceService" where
  "reconcile scope_type scope_id currency observed now s =
     (let r0 = start_report scope_type scope_id currency observed now s; dev = scope_device scope_type scope_id;
          s1 = ci_event_locked scope_type scope_id dev [] [] [] ''reconciliation_started'' now JNull s;
          r = judge (scan_loop scope_type scope_id currency now (ci_ledger s1) (start_scan r0));
          s2 = (if \<bar>rp_variance r\<bar> > 0 then ci_event_locked scope_type scope_id dev (rp_merchant_id r) (rp_branch_id r) (rp_region r)
            ''reconciliation_variance_detected'' now (JObj [(''variance'', JInt (rp_variance r))]) s1 else s1);
          s3 = ci_event_locked scope_type scope_id dev (rp_merchant_id r) (rp_branch_id r) (rp_region r) ''reconciliation_completed'' now
            (JObj [(''report_id'', JStr (rp_report_id r)), (''status'', JStr (rp_status r))]) (s2\<lparr>ci_reports := ci_reports s2 @ [r]\<rparr>)
      in (r, ci_save_locked s3))"

definition ci_report_list :: "CashFilter \<Rightarrow> CashIntelligenceService \<Rightarrow> ReconciliationReport list" where
  "ci_report_list f s = filter (\<lambda>r. field_ok (cl_currency f) (rp_currency r) \<and> field_ok (cl_merchant_id f) (rp_merchant_id r) \<and>
     field_ok (cl_branch_id f) (rp_branch_id r) \<and> field_ok (cl_region f) (rp_region r) \<and>
     scope_ok (cl_device_id f) ''device'' (rp_scope_type r) (rp_scope_id r)) (ci_reports s)"

section \<open>Forecast\<close>

record trend =
  tr_net :: int
  tr_count :: int
  tr_latest_observed :: int
  tr_first_time :: int
  tr_last_time :: int

fun trend_loop :: "string \<Rightarrow> string \<Rightarrow> string \<Rightarrow> CashLedgerEntry list \<Rightarrow> trend \<Rightarrow> trend" where
  "trend_loop scope_type scope_id currency [] x = x"
| "trend_loop scope_type scope_id currency (e # es) x = trend_loop scope_type scope_id currency es
     (if \<not> ci_scope_matches e scope_type scope_id \<or> le_currency e \<noteq> currency then x
      else let t = le_occurred_at_epoch e in
        \<lparr>tr_net = tr_net x + (le_observed_balance e - le_expected_balance e), tr_count = tr_count x + 1,
          tr_latest_observed = le_observed_balance e,
          tr_first_time = (if tr_first_time x = 0 \<or> t < tr_first_time x then t else tr_first_time x),
          tr_last_time = (if t > tr_last_time x then t else tr_last_time x)\<rparr>)"

definition hourly_change :: "trend \<Rightarrow> int" where
  "hourly_change x = (if tr_count x \<noteq> 0 then tr_net x sdiv max 1 ((tr_last_time x - tr_first_time x) sdiv 3600) else 0)"

definition ci_forecast ::
  "string \<Rightarrow> string \<Rightarrow> string \<Rightarrow> int \<Rightarrow> CashIntelligenceService \<Rightarrow> CashForecast \<times> CashIntelligenceService" where
  "ci_forecast scope_type scope_id currency now s =
     (let f0 = CashForecast_default\<lparr>cf_forecast_id := id_for ''cash-forecast'' (length (ci_forecasts s)), cf_scope_type := scope_type,
            cf_scope_id := scope_id, cf_currency := currency\<rparr>;
          x = trend_loop scope_type scope_id currency (ci_ledger s)
            \<lparr>tr_net = 0, tr_count = 0, tr_latest_observed = 0, tr_first_time = 0, tr_last_time = 0\<rparr>;
          h = hourly_change x;
          f1 = (if h < 0 \<and> tr_latest_observed x > 0
            then let depletion = now + (tr_latest_observed x sdiv max 1 (- h)) * 3600; replenish = max now (depletion - 12 * 3600)
              in f0\<lparr>cf_expected_depletion_epoch := depletion, cf_recommended_replenishment_epoch := replenish,
                   cf_high_risk_shortage_windows := cf_high_risk_shortage_windows f0 @ [to_string replenish @ ''-'' @ to_string depletion]\<rparr>
            else if h > 0 then f0\<lparr>cf_expected_surplus_epoch := now + 24 * 3600\<rparr> else f0);
          f = f1\<lparr>cf_confidence := (if tr_count x \<ge> 5 then ''high'' else if tr_count x \<ge> 2 then ''medium'' else ''low''),
            cf_explanation := ''deterministic hourly cash movement baseline''\<rparr>
      in (f, ci_save_locked (ci_event_locked scope_type scope_id (scope_device scope_type scope_id) [] [] [] ''cash_forecast_generated'' now
           (JObj [(''forecast_id'', JStr (cf_forecast_id f))]) (s\<lparr>ci_forecasts := ci_forecasts s @ [f]\<rparr>))))"

section \<open>Anomalies\<close>

definition anomaly_at :: "string \<Rightarrow> string \<Rightarrow> string \<Rightarrow> string \<Rightarrow> string \<Rightarrow> int \<Rightarrow> CashLedgerEntry \<Rightarrow> nat \<Rightarrow> CashAnomaly" where
  "anomaly_at scope_type scope_id type severity explanation now e n = \<lparr>an_anomaly_id = id_for ''cash-anomaly'' n, an_scope_type = scope_type,
     an_scope_id = scope_id, an_device_id = le_device_id e, an_merchant_id = le_merchant_id e, an_branch_id = le_branch_id e,
     an_region = le_region e, an_type = type, an_severity = severity, an_explanation = explanation, an_detected_at_epoch = now\<rparr>"

definition after_hours :: "int \<Rightarrow> bool" where
  "after_hours t \<longleftrightarrow> t smod 86400 < 6 * 3600 \<or> t smod 86400 > 22 * 3600"

text \<open>The counters and the list \<^verbatim>\<open>created\<close> of the loop.\<close>

record tally_state =
  ts_small_shortages :: int
  ts_manual_adjustments :: int
  ts_cash_out :: int
  ts_created :: "CashAnomaly list"

definition create_if :: "bool \<Rightarrow> (nat \<Rightarrow> CashAnomaly) \<Rightarrow> nat \<Rightarrow> CashAnomaly list \<Rightarrow> CashAnomaly list" where
  "create_if b mk n created = (if b then created @ [mk (n + length created)] else created)"

definition tally_entry :: "string \<Rightarrow> string \<Rightarrow> int \<Rightarrow> nat \<Rightarrow> CashLedgerEntry \<Rightarrow> tally_state \<Rightarrow> tally_state" where
  "tally_entry scope_type scope_id now n e x = \<lparr>
     ts_small_shortages = ts_small_shortages x + (if le_variance e < 0 \<and> le_variance e > - 1000 then 1 else 0),
     ts_manual_adjustments = ts_manual_adjustments x + (if le_event_type e = ''manual_adjustment'' then 1 else 0),
     ts_cash_out = ts_cash_out x + (if le_event_type e = ''cash_out'' then 1 else 0),
     ts_created = create_if (le_event_type e = ''drawer_open'' \<and> after_hours (le_occurred_at_epoch e))
       (anomaly_at scope_type scope_id ''after_hours_drawer_activity'' ''warning'' ''drawer opened outside configured operating window'' now e) n
       (create_if (le_variance e \<le> - 10000)
         (anomaly_at scope_type scope_id ''large_one_time_variance'' ''critical'' ''observed cash is materially below expected cash'' now e) n
         (ts_created x))\<rparr>"

fun tally_loop :: "string \<Rightarrow> string \<Rightarrow> int \<Rightarrow> nat \<Rightarrow> CashLedgerEntry list \<Rightarrow> tally_state \<Rightarrow> tally_state" where
  "tally_loop scope_type scope_id now n [] x = x"
| "tally_loop scope_type scope_id now n (e # es) x = tally_loop scope_type scope_id now n es
     (if ci_scope_matches e scope_type scope_id then tally_entry scope_type scope_id now n e x else x)"

definition created_anomalies :: "string \<Rightarrow> string \<Rightarrow> int \<Rightarrow> CashIntelligenceService \<Rightarrow> CashAnomaly list" where
  "created_anomalies scope_type scope_id now s =
     (let n = length (ci_anomalies s); e0 = CashLedgerEntry_default;
          x = tally_loop scope_type scope_id now n (ci_ledger s)
            \<lparr>ts_small_shortages = 0, ts_manual_adjustments = 0, ts_cash_out = 0, ts_created = []\<rparr>
      in create_if (ts_cash_out x > 5)
           (anomaly_at scope_type scope_id ''unusual_cash_out_frequency'' ''warning'' ''cash-out count exceeds deterministic threshold'' now e0) n
         (create_if (ts_manual_adjustments x > 3)
           (anomaly_at scope_type scope_id ''excessive_manual_adjustments'' ''warning'' ''manual adjustments exceed pilot baseline'' now e0) n
         (create_if (ts_small_shortages x \<ge> 3)
           (anomaly_at scope_type scope_id ''repeated_small_shortages'' ''warning'' ''multiple small negative variances detected'' now e0) n
         (ts_created x))))"

definition record_anomaly :: "string \<Rightarrow> string \<Rightarrow> int \<Rightarrow> CashAnomaly \<Rightarrow> CashIntelligenceService \<Rightarrow> CashIntelligenceService" where
  "record_anomaly scope_type scope_id now a s =
     (let s1 = ci_event_locked scope_type scope_id (an_device_id a) (an_merchant_id a) (an_branch_id a) (an_region a)
            ''cash_anomaly_detected'' now (JObj [(''type'', JStr (an_type a)), (''severity'', JStr (an_severity a))])
            (s\<lparr>ci_anomalies := ci_anomalies s @ [a]\<rparr>)
      in case ci_fleet s1 of None \<Rightarrow> s1
         | Some p \<Rightarrow>
           let org = (if an_device_id a = [] then [] else case cp_device (an_device_id a) p of None \<Rightarrow> [] | Some d \<Rightarrow> dr_organization_id d)
           in s1\<lparr>ci_fleet := Some (snd (create_alert org (an_device_id a) (an_type a) (an_severity a) (an_explanation a) now p))\<rparr>)"

definition detect_anomalies ::
  "string \<Rightarrow> string \<Rightarrow> int \<Rightarrow> CashIntelligenceService \<Rightarrow> CashAnomaly list \<times> CashIntelligenceService" where
  "detect_anomalies scope_type scope_id now s =
     (let created = created_anomalies scope_type scope_id now s
      in (created, ci_save_locked (fold (record_anomaly scope_type scope_id now) created s)))"

definition ci_anomaly_list :: "CashFilter \<Rightarrow> CashIntelligenceService \<Rightarrow> CashAnomaly list" where
  "ci_anomaly_list f s = filter (\<lambda>a. field_ok (cl_device_id f) (an_device_id a) \<and> field_ok (cl_merchant_id f) (an_merchant_id a) \<and>
     field_ok (cl_branch_id f) (an_branch_id a) \<and> field_ok (cl_region f) (an_region a)) (ci_anomalies s)"

section \<open>Health and dashboards\<close>

definition newest_epoch :: "CashEvent list \<Rightarrow> int option" where
  "newest_epoch es = (case es of [] \<Rightarrow> None | e # es' \<Rightarrow> Some (foldl (\<lambda>m x. max m (ce_occurred_at_epoch x)) (ce_occurred_at_epoch e) es'))"

definition stale_inventories :: "string \<Rightarrow> string \<Rightarrow> CashIntelligenceService \<Rightarrow> int" where
  "stale_inventories scope_type scope_id s = int (length (filter (\<lambda>v. di_scope_type v = scope_type \<and> di_scope_id v = scope_id \<and>
     di_updated_at_epoch v > 0 \<and> (case newest_epoch (ci_events s) of None \<Rightarrow> False | Some t \<Rightarrow> t - di_updated_at_epoch v > 86400))
     (vals (ci_inventories s))))"

definition worst_variance :: "string \<Rightarrow> string \<Rightarrow> CashIntelligenceService \<Rightarrow> int" where
  "worst_variance scope_type scope_id s =
     foldl (\<lambda>m r. if rp_scope_type r = scope_type \<and> rp_scope_id r = scope_id then max m \<bar>rp_variance r\<bar> else m) 0 (ci_reports s)"

definition anomaly_penalty :: "string \<Rightarrow> string \<Rightarrow> CashIntelligenceService \<Rightarrow> int" where
  "anomaly_penalty scope_type scope_id s = sum_list (map (\<lambda>a. severity_weight (an_severity a))
     (filter (\<lambda>a. an_scope_type a = scope_type \<and> an_scope_id a = scope_id) (ci_anomalies s)))"

definition health_factors :: "string \<Rightarrow> string \<Rightarrow> CashIntelligenceService \<Rightarrow> (string, int) amap" where
  "health_factors scope_type scope_id s =
     [(''anomalies'', anomaly_penalty scope_type scope_id s), (''offline_duration'', 0),
      (''stale_inventory'', stale_inventories scope_type scope_id s * 10), (''sync_health'', 0), (''transaction_failures'', 0),
      (''variance'', min 40 (worst_variance scope_type scope_id s sdiv 1000))]"

definition explain_if :: "bool \<Rightarrow> string \<Rightarrow> string list" where
  "explain_if b e = (if b then [e] else [])"

definition health_score :: "string \<Rightarrow> string \<Rightarrow> CashIntelligenceService \<Rightarrow> CashHealthScore \<times> CashIntelligenceService" where
  "health_score scope_type scope_id s =
     (let fs = health_factors scope_type scope_id s;
          h = \<lparr>ch_scope_type = scope_type, ch_scope_id = scope_id, ch_score = max 0 (100 - sum_list (map snd fs)), ch_factors = fs,
            ch_explanations = explain_if (count_at fs ''variance'' > 0) ''reconciliation variance reduced score'' @
              explain_if (count_at fs ''stale_inventory'' > 0) ''stale inventory reduced score'' @
              explain_if (count_at fs ''anomalies'' > 0) ''cash anomalies reduced score''\<rparr>
      in (h, ci_save_locked (ci_event_locked scope_type scope_id (scope_device scope_type scope_id) [] [] [] ''cash_health_score_updated'' 0
           (JObj [(''score'', JInt (ch_score h))]) s)))"

definition dashboard_ledger :: "string \<Rightarrow> string \<Rightarrow> string \<Rightarrow> CashIntelligenceService \<Rightarrow> CashLedgerEntry list" where
  "dashboard_ledger scope_type scope_id currency s =
     filter (\<lambda>e. ci_scope_matches e scope_type scope_id \<and> field_ok currency (le_currency e)) (ci_ledger s)"

definition ci_dashboard ::
  "extern \<Rightarrow> string \<Rightarrow> string \<Rightarrow> string \<Rightarrow> CashIntelligenceService \<Rightarrow> (CashDashboardView \<times> CashIntelligenceService) option" where
  "ci_dashboard ext scope_type scope_id currency s =
     (let es = dashboard_ledger scope_type scope_id currency s; v = sum_list (map le_variance es);
          trend = map rp_variance (filter (\<lambda>r. rp_scope_type r = scope_type \<and> rp_scope_id r = scope_id \<and> field_ok currency (rp_currency r)) (ci_reports s));
          summary = foldl (\<lambda>m a. if an_scope_type a = scope_type \<and> an_scope_id a = scope_id
            then sput (an_severity a) (count_at m (an_severity a) + 1) m else m) [] (ci_anomalies s)
      in case recommend_mix (if currency = [] then ''USD'' else currency) (max 0 (- v + 10000)) s of None \<Rightarrow> None
         | Some mix \<Rightarrow>
           let (h, s1) = health_score scope_type scope_id s
           in Some (\<lparr>cd_scope_type = scope_type, cd_scope_id = scope_id, cd_expected_balance = sum_list (map le_expected_balance es),
                cd_observed_balance = sum_list (map le_observed_balance es), cd_variance = v, cd_shortage_risk = risk_from_variance v,
                cd_surplus_risk = (if v > 10000 then ''high'' else if v > 1000 then ''medium'' else ''low''), cd_variance_trend = trend,
                cd_anomaly_summary = summary,
                cd_replenishment_recommendations = (if mix = [] then [] else [dump ext (counts_json mix)]), cd_health = h\<rparr>, s1))"

definition ci_event_list :: "CashFilter \<Rightarrow> CashIntelligenceService \<Rightarrow> CashEvent list" where
  "ci_event_list f s = filter (\<lambda>e. field_ok (cl_device_id f) (ce_device_id e) \<and> field_ok (cl_merchant_id f) (ce_merchant_id e) \<and>
     field_ok (cl_branch_id f) (ce_branch_id e) \<and> field_ok (cl_region f) (ce_region e)) (ci_events s)"

end
