(* ===== verification/Cash_Properties.thy ===== *)
theory Cash_Properties
  imports Cash_Intelligence
begin

text \<open>
  What holds of the cash intelligence service: the ledger's invariant over all histories, the verdict of a
  reconciliation, recommended mixes, scores and forecasts, what repeated detections do, and the store file.
\<close>

section \<open>Histories\<close>

datatype ci_op = Add_entry CashLedgerEntry | Set_inventory DenominationInventory | Configure string "int list"
  | Reconcile string string string int int | Forecast string string string int | Detect string string int
  | Health string string | Dashboard string string string

text \<open>\<open>None\<close>: the process ended in the division by zero.\<close>

fun ci_step :: "extern \<Rightarrow> ci_op \<Rightarrow> CashIntelligenceService \<Rightarrow> CashIntelligenceService option" where
  "ci_step ext (Add_entry e) s = Some (snd (add_ledger_entry e s))"
| "ci_step ext (Set_inventory v) s = Some (snd (ci_update_inventory v s))"
| "ci_step ext (Configure c ds) s = Some (configure_denominations c ds s)"
| "ci_step ext (Reconcile st i c obs now) s = Some (snd (reconcile st i c obs now s))"
| "ci_step ext (Forecast st i c now) s = Some (snd (ci_forecast st i c now s))"
| "ci_step ext (Detect st i now) s = Some (snd (detect_anomalies st i now s))"
| "ci_step ext (Health st i) s = Some (snd (health_score st i s))"
| "ci_step ext (Dashboard st i c) s = map_option snd (ci_dashboard ext st i c s)"

inductive ci_reach :: "extern \<Rightarrow> CashIntelligenceService \<Rightarrow> CashIntelligenceService \<Rightarrow> bool" for ext s0 where
  ci_start: "ci_reach ext s0 s0"
| ci_next: "ci_reach ext s0 s \<Longrightarrow> ci_step ext x s = Some s1 \<Longrightarrow> ci_reach ext s0 s1"

section \<open>The ledger\<close>

definition entry_ok :: "CashLedgerEntry \<Rightarrow> bool" where
  "entry_ok e \<longleftrightarrow> le_variance e = le_observed_balance e - le_expected_balance e \<and> le_device_id e \<noteq> [] \<and> currency_code_ok (le_currency e)"

definition flags_repeats :: "CashLedgerEntry list \<Rightarrow> bool" where
  "flags_repeats es \<longleftrightarrow> (\<forall>j<length es. \<forall>i<j. le_event_id (es ! i) = le_event_id (es ! j) \<and> le_event_id (es ! j) \<noteq> [] \<longrightarrow> le_duplicate (es ! j))"

definition numbered :: "string \<Rightarrow> string list \<Rightarrow> bool" where
  "numbered p ids \<longleftrightarrow> ids = map (id_for p) [0..<length ids]"

definition ci_inv :: "CashIntelligenceService \<Rightarrow> bool" where
  "ci_inv s \<longleftrightarrow> list_all entry_ok (ci_ledger s) \<and> set (ci_seen_event_ids s) = set (map le_event_id (ci_ledger s)) - {[]} \<and>
     flags_repeats (ci_ledger s) \<and> numbered ''cash-event'' (map ce_event_id (ci_events s)) \<and>
     numbered ''recon'' (map rp_report_id (ci_reports s)) \<and> numbered ''cash-forecast'' (map cf_forecast_id (ci_forecasts s)) \<and>
     numbered ''cash-anomaly'' (map an_anomaly_id (ci_anomalies s)) \<and> keyed key_of_inventory (ci_inventories s)"

lemma numbered_Nil [simp]: "numbered p []"
  by (simp add: numbered_def)

lemma numbered_snoc [simp]: "numbered p (ids @ [x]) \<longleftrightarrow> numbered p ids \<and> x = id_for p (length ids)"
  by (auto simp: numbered_def)

lemma numbered_append: "numbered p ids \<Longrightarrow> ids' = map (id_for p) [length ids..<length ids + length ids'] \<Longrightarrow> numbered p (ids @ ids')"
  unfolding numbered_def by (metis length_append map_append upt_add_eq_append zero_le)

lemma flags_snoc:
  "flags_repeats es \<Longrightarrow> (le_event_id e \<in> set (map le_event_id es) \<and> le_event_id e \<noteq> [] \<Longrightarrow> le_duplicate e) \<Longrightarrow> flags_repeats (es @ [e])"
proof -
  assume es: "flags_repeats es" and e: "le_event_id e \<in> set (map le_event_id es) \<and> le_event_id e \<noteq> [] \<Longrightarrow> le_duplicate e"
  have "le_duplicate e" if "i < length es" "le_event_id (es ! i) = le_event_id e" "le_event_id e \<noteq> []" for i
    using that e by (metis image_eqI list.set_map nth_mem)
  then show "flags_repeats (es @ [e])" using es unfolding flags_repeats_def by (auto simp: nth_append less_Suc_eq)
qed

lemma ci_save_fields [simp]:
  "ci_ledger (ci_save_locked s) = ci_ledger s" "ci_reports (ci_save_locked s) = ci_reports s" "ci_forecasts (ci_save_locked s) = ci_forecasts s"
  "ci_anomalies (ci_save_locked s) = ci_anomalies s" "ci_events (ci_save_locked s) = ci_events s"
  "ci_inventories (ci_save_locked s) = ci_inventories s" "ci_denomination_sets (ci_save_locked s) = ci_denomination_sets s"
  "ci_seen_event_ids (ci_save_locked s) = ci_seen_event_ids s" "ci_fleet (ci_save_locked s) = ci_fleet s"
  "ci_inv (ci_save_locked s) = ci_inv s"
  by (simp_all add: ci_save_locked_def ci_inv_def)

lemma ci_event_fields [simp]:
  "ci_ledger (ci_event_locked st i d m b r ty now md s) = ci_ledger s" "ci_reports (ci_event_locked st i d m b r ty now md s) = ci_reports s"
  "ci_anomalies (ci_event_locked st i d m b r ty now md s) = ci_anomalies s"
  "ci_inventories (ci_event_locked st i d m b r ty now md s) = ci_inventories s"
  "ci_fleet (ci_event_locked st i d m b r ty now md s) = ci_fleet s"
  "ci_inv (ci_event_locked st i d m b r ty now md s) = ci_inv s"
  by (simp_all add: ci_event_locked_def ci_inv_def)

lemma judge_id [simp]: "rp_report_id (judge x) = rp_report_id (sc_report x)"
  by (simp add: judge_def Let_def)

lemma scan_loop_id [simp]: "rp_report_id (sc_report (scan_loop st i c now es x)) = rp_report_id (sc_report x)"
  by (induction st i c now es x rule: scan_loop.induct) (simp_all add: scan_entry_def)

lemma snoc_inv:
  assumes "ci_inv s" "entry_ok e" "le_event_id e \<noteq> [] \<Longrightarrow> le_event_id e \<in> set (ci_seen_event_ids s) \<Longrightarrow> le_duplicate e"
  shows "ci_inv (s\<lparr>ci_seen_event_ids := (if le_event_id e = [] then ci_seen_event_ids s else List.insert (le_event_id e) (ci_seen_event_ids s)),
    ci_ledger := ci_ledger s @ [e]\<rparr>)"
proof -
  have "flags_repeats (ci_ledger s @ [e])" using assms by (intro flags_snoc) (auto simp: ci_inv_def)
  moreover have "set (if le_event_id e = [] then ci_seen_event_ids s else List.insert (le_event_id e) (ci_seen_event_ids s)) =
      set (map le_event_id (ci_ledger s @ [e])) - {[]}"
    using assms(1) by (auto simp: ci_inv_def)
  ultimately show ?thesis using assms(1,2) by (simp add: ci_inv_def)
qed

lemma add_inv: "ci_inv s \<Longrightarrow> ci_inv (snd (add_ledger_entry e s))"
proof (cases "le_device_id e = [] \<or> le_currency e = [] \<or> \<not> validate_denominations (le_currency e) (le_denominations e) s")
  case False
  define e1 where "e1 = e\<lparr>le_ledger_entry_id := (if le_ledger_entry_id e = [] then id_for ''cash-ledger'' (length (ci_ledger s)) else le_ledger_entry_id e),
      le_audit_event_id := (if le_audit_event_id e = [] then id_for ''cash-audit'' (length (ci_events s)) else le_audit_event_id e),
      le_duplicate := (le_duplicate e \<or> le_event_id e \<noteq> [] \<and> le_event_id e \<in> set (ci_seen_event_ids s)),
      le_variance := le_observed_balance e - le_expected_balance e\<rparr>"
  have "entry_ok e1" using False by (simp add: e1_def entry_ok_def validate_denominations_def)
  moreover have "le_duplicate e1" if "le_event_id e1 \<noteq> []" "le_event_id e1 \<in> set (ci_seen_event_ids s)" using that by (simp add: e1_def)
  moreover assume "ci_inv s"
  ultimately have "ci_inv (s\<lparr>ci_seen_event_ids := (if le_event_id e1 = [] then ci_seen_event_ids s else List.insert (le_event_id e1) (ci_seen_event_ids s)),
    ci_ledger := ci_ledger s @ [e1]\<rparr>)" by (intro snoc_inv) blast+
  then show ?thesis unfolding add_ledger_entry_def e1_def [symmetric] Let_def if_not_P [OF False] by simp
qed (simp add: add_ledger_entry_def)

lemma report_inv: "ci_inv s \<Longrightarrow> rp_report_id r = id_for ''recon'' (length (ci_reports s)) \<Longrightarrow> ci_inv (s\<lparr>ci_reports := ci_reports s @ [r]\<rparr>)"
  by (simp add: ci_inv_def)

lemma start_id [simp]: "rp_report_id (sc_report (start_scan (start_report st i c obs now s))) = id_for ''recon'' (length (ci_reports s))"
  by (simp add: start_scan_def start_report_def)

lemma reconcile_inv: "ci_inv s \<Longrightarrow> ci_inv (snd (reconcile st i c obs now s))"
  unfolding reconcile_def Let_def snd_conv by (simp only: ci_save_fields ci_event_fields, rule report_inv) simp_all

lemma forecast_inv: "ci_inv s \<Longrightarrow> ci_inv (snd (ci_forecast st i c now s))"
  by (simp add: ci_forecast_def Let_def) (simp add: ci_inv_def)

lemma create_if_ids:
  assumes "map an_anomaly_id xs = map (id_for ''cash-anomaly'') [n..<n + length xs]" "\<And>k. an_anomaly_id (mk k) = id_for ''cash-anomaly'' k"
  shows "map an_anomaly_id (create_if b mk n xs) = map (id_for ''cash-anomaly'') [n..<n + length (create_if b mk n xs)]"
  using assms by (simp add: create_if_def)

lemma anomaly_at_id [simp]: "an_anomaly_id (anomaly_at st i ty sev ex now e n) = id_for ''cash-anomaly'' n"
  by (simp add: anomaly_at_def)

lemma tally_ids:
  "map an_anomaly_id (ts_created x) = map (id_for ''cash-anomaly'') [n..<n + length (ts_created x)] \<Longrightarrow>
   map an_anomaly_id (ts_created (tally_loop st i now n es x)) = map (id_for ''cash-anomaly'') [n..<n + length (ts_created (tally_loop st i now n es x))]"
  by (induction st i now n es x rule: tally_loop.induct) (simp_all add: tally_entry_def create_if_ids)

lemma created_ids:
  "map an_anomaly_id (created_anomalies st i now s) =
     map (id_for ''cash-anomaly'') [length (ci_anomalies s)..<length (ci_anomalies s) + length (created_anomalies st i now s)]"
  unfolding created_anomalies_def Let_def by (intro create_if_ids tally_ids) simp_all

lemma record_fields [simp]:
  "ci_ledger (record_anomaly st i now a s) = ci_ledger s" "ci_reports (record_anomaly st i now a s) = ci_reports s"
  "ci_anomalies (record_anomaly st i now a s) = ci_anomalies s @ [a]"
  by (simp_all add: record_anomaly_def Let_def split: option.splits)

lemma record_inv: "ci_inv s \<Longrightarrow> an_anomaly_id a = id_for ''cash-anomaly'' (length (ci_anomalies s)) \<Longrightarrow> ci_inv (record_anomaly st i now a s)"
  unfolding record_anomaly_def Let_def by (simp split: option.split) (simp add: ci_inv_def ci_event_locked_def)

lemma record_all_inv:
  "ci_inv s \<Longrightarrow> map an_anomaly_id xs = map (id_for ''cash-anomaly'') [length (ci_anomalies s)..<length (ci_anomalies s) + length xs] \<Longrightarrow>
     ci_inv (fold (record_anomaly st i now) xs s)"
proof (induction xs arbitrary: s)
  case (Cons a xs)
  let ?n = "length (ci_anomalies s)"
  have u: "[?n..<?n + length (a # xs)] = ?n # [Suc ?n..<Suc ?n + length xs]" by (simp add: upt_conv_Cons del: upt_Suc)
  then have "an_anomaly_id a = id_for ''cash-anomaly'' ?n" "map an_anomaly_id xs = map (id_for ''cash-anomaly'') [Suc ?n..<Suc ?n + length xs]"
    using Cons.prems(2) unfolding u by simp_all
  then show ?case using Cons.IH [of "record_anomaly st i now a s"] record_inv [OF Cons.prems(1)] by simp
qed simp

lemma detect_inv: "ci_inv s \<Longrightarrow> ci_inv (snd (detect_anomalies st i now s))"
  by (simp add: detect_anomalies_def Let_def record_all_inv [OF _ created_ids])

lemma ci_step_inv: "ci_inv s \<Longrightarrow> ci_step ext x s = Some s1 \<Longrightarrow> ci_inv s1"
proof (cases x)
  case (Dashboard st i c)
  assume "ci_inv s" "ci_step ext x s = Some s1"
  then have "ci_inv (snd (health_score st i s)) \<and> s1 = snd (health_score st i s)"
    using Dashboard by (auto simp: ci_dashboard_def health_score_def Let_def split: option.splits)
  then show ?thesis by simp
qed (auto simp: add_inv reconcile_inv forecast_inv detect_inv ci_update_inventory_def configure_denominations_def health_score_def Let_def,
    auto simp: ci_inv_def)

lemma ci_reach_inv: "ci_reach ext s0 s \<Longrightarrow> ci_inv s0 \<Longrightarrow> ci_inv s"
  by (induction rule: ci_reach.induct) (auto dest: ci_step_inv)

lemma ci_blank_inv: "ci_inv (CashIntelligenceService_blank path file fleet)"
  by (simp add: ci_inv_def CashIntelligenceService_blank_def flags_repeats_def)

lemma numbered_distinct: "numbered p ids \<Longrightarrow> distinct ids"
  unfolding numbered_def by (metis distinct_map distinct_upt id_for_inj inj_onI)

text \<open>
  C39. The cash ledger, after any operations of a service that started without a store file: every entry carries
  the difference of its own balances as variance, names a device and a well-formed currency, and an entry that
  repeats the event id of an earlier one is marked as a duplicate; events, reports, forecasts and anomalies have
  pairwise distinct ids.
\<close>

theorem cash_ledger_sound:
  assumes "ci_reach ext (CashIntelligenceService_blank path file fleet) s"
  shows "(e \<in> set (ci_ledger s) \<longrightarrow> le_variance e = le_observed_balance e - le_expected_balance e \<and> le_device_id e \<noteq> [] \<and>
      currency_code_ok (le_currency e)) \<and>
    (i < j \<and> j < length (ci_ledger s) \<and> le_event_id (ci_ledger s ! i) = le_event_id (ci_ledger s ! j) \<and> le_event_id (ci_ledger s ! j) \<noteq> [] \<longrightarrow>
      le_duplicate (ci_ledger s ! j)) \<and>
    distinct (map ce_event_id (ci_events s)) \<and> distinct (map rp_report_id (ci_reports s)) \<and>
    distinct (map cf_forecast_id (ci_forecasts s)) \<and> distinct (map an_anomaly_id (ci_anomalies s))"
  using ci_reach_inv [OF assms ci_blank_inv] numbered_distinct
  unfolding ci_inv_def list_all_iff entry_ok_def flags_repeats_def by blast

section \<open>Reconciliation\<close>

definition relevant :: "string \<Rightarrow> string \<Rightarrow> string \<Rightarrow> CashIntelligenceService \<Rightarrow> CashLedgerEntry list" where
  "relevant st i c s = filter (\<lambda>e. ci_scope_matches e st i \<and> le_currency e = c) (ci_ledger s)"

definition event_ids :: "CashLedgerEntry list \<Rightarrow> string list" where
  "event_ids es = filter (\<lambda>x. x \<noteq> []) (map le_event_id es)"

lemma scan_loop_filter: "scan_loop st i c now es x = fold (scan_entry now) (filter (\<lambda>e. ci_scope_matches e st i \<and> le_currency e = c) es) x"
  by (induction st i c now es x rule: scan_loop.induct) auto

lemma scan_fold:
  "sc_matched_entries (fold (scan_entry now) es x) = sc_matched_entries x + int (length es)"
  "sc_drawer_open (fold (scan_entry now) es x) \<longleftrightarrow> sc_drawer_open x \<or> (\<exists>e\<in>set es. le_event_type e = ''drawer_open'')"
  "rp_expected_balance (sc_report (fold (scan_entry now) es x)) = rp_expected_balance (sc_report x) + sum_list (map le_expected_balance es)"
  "rp_observed_balance (sc_report (fold (scan_entry now) es x)) = rp_observed_balance (sc_report x)"
  "rp_status (sc_report (fold (scan_entry now) es x)) = rp_status (sc_report x)"
  "sc_duplicate (fold (scan_entry now) es x) \<longleftrightarrow> sc_duplicate x \<or> (\<exists>e\<in>set es. le_duplicate e) \<or>
     \<not> distinct (event_ids es) \<or> set (event_ids es) \<inter> set (sc_seen x) \<noteq> {}"
  by (induction es arbitrary: x) (auto simp: scan_entry_def event_ids_def)

definition verdict :: "CashLedgerEntry list \<Rightarrow> int \<Rightarrow> string" where
  "verdict es v =
     (if es = [] \<or> (\<exists>e\<in>set es. le_duplicate e) \<or> \<not> distinct (event_ids es) then ''unresolved''
      else if v = 0 then ''balanced'' else if \<exists>e\<in>set es. le_event_type e = ''drawer_open'' then ''suspected_fraud''
      else if v < - 5000 then ''suspected_loss'' else if v > 10000 then ''major_variance'' else ''minor_variance'')"

lemma judge_status:
  "rp_status (judge x) =
     (if sc_matched_entries x = 0 then ''unresolved'' else if sc_duplicate x then ''unresolved''
      else let v = rp_observed_balance (sc_report x) - rp_expected_balance (sc_report x) in
        if v = 0 then if \<not> sc_drawer_open x \<and> \<not> sc_stale_inventory x then ''balanced'' else rp_status (sc_report x)
        else if sc_drawer_open x then ''suspected_fraud'' else if v < - 5000 then ''suspected_loss''
        else if v > 10000 then ''major_variance'' else ''minor_variance'')"
  "rp_variance (judge x) = rp_observed_balance (sc_report x) - rp_expected_balance (sc_report x)"
  by (auto simp: judge_def Let_def)

text \<open>
  C38. The verdict of a reconciliation is the one its reference definition gives for the entries of the scope and
  currency: unresolved when there are none or an event was recorded twice; balanced when the observed amount is
  the sum of the expected ones; otherwise suspected fraud when a drawer was opened, suspected loss for a
  shortage above 5000, a major variance for a surplus above 10000 and else a minor one. The report is kept.
\<close>

theorem reconciliation_verdict:
  assumes "reconcile st i c observed now s = (r, s1)"
  shows "rp_variance r = observed - sum_list (map le_expected_balance (relevant st i c s)) \<and>
    rp_status r = verdict (relevant st i c s) (rp_variance r) \<and> ci_reports s1 = ci_reports s @ [r] \<and> ci_ledger s1 = ci_ledger s"
proof -
  define x where "x = scan_loop st i c now (ci_ledger s) (start_scan (start_report st i c observed now s))"
  have r: "r = judge x" using assms by (simp add: reconcile_def Let_def x_def)
  have x: "x = fold (scan_entry now) (relevant st i c s) (start_scan (start_report st i c observed now s))"
    by (simp add: x_def scan_loop_filter relevant_def)
  have f: "rp_observed_balance (sc_report x) = observed"
    "rp_expected_balance (sc_report x) = sum_list (map le_expected_balance (relevant st i c s))" "rp_status (sc_report x) = ''balanced''"
    "sc_matched_entries x = int (length (relevant st i c s))"
    "sc_drawer_open x \<longleftrightarrow> (\<exists>e\<in>set (relevant st i c s). le_event_type e = ''drawer_open'')"
    "sc_duplicate x \<longleftrightarrow> (\<exists>e\<in>set (relevant st i c s). le_duplicate e) \<or> \<not> distinct (event_ids (relevant st i c s))"
    unfolding x scan_fold by (simp_all add: start_scan_def start_report_def ReconciliationReport_default_def)
  have "rp_status r = verdict (relevant st i c s) (rp_variance r)"
    unfolding r judge_status verdict_def Let_def f by simp
  then show ?thesis using assms unfolding r judge_status f by (auto simp: reconcile_def Let_def x_def)
qed

section \<open>Recommended mixes\<close>

lemma to_int_id: "int32 x \<Longrightarrow> to_int x = x"
  by (simp add: to_int_def int32_def sint_sbintrunc' signed_take_bit_int_eq_self)

definition worth :: "(string \<times> int) list \<Rightarrow> int" where
  "worth m = sum_list (map (\<lambda>(k, n). case stoi k of Inr d \<Rightarrow> d * n | Inl _ \<Rightarrow> 0) m)"

definition readable :: "(string \<times> int) list \<Rightarrow> bool" where
  "readable m \<longleftrightarrow> list_all (\<lambda>(k, n). \<exists>d. stoi k = Inr d) m"

lemma value_loop_worth: "readable m \<Longrightarrow> value_loop m acc = acc + worth m"
  by (induction m acc rule: value_loop.induct) (auto simp: readable_def worth_def)

lemma worth_sput: "k \<notin> set (map fst m) \<Longrightarrow> stoi k = Inr d \<Longrightarrow> worth (sput k n m) = worth m + d * n"
  by (induction k n m rule: sput.induct) (auto simp: worth_def)

lemma list_all_sput: "list_all P m \<Longrightarrow> P (k, n) \<Longrightarrow> list_all P (sput k n m)"
  by (induction k n m rule: sput.induct) auto

lemma mix_step:
  assumes "0 < d" "0 \<le> r" "r < 2 ^ 31"
  shows "to_int (r sdiv d) = r div d" "0 \<le> r - r div d * d" "r - r div d * d < d" "r - r div d * d \<le> r"
proof -
  have "0 \<le> r div d" "r div d \<le> r" using assms zdiv_mono2 [of r 1 d] by (simp_all add: pos_imp_zdiv_nonneg_iff)
  then show "to_int (r sdiv d) = r div d" using assms by (simp add: sdiv_pos to_int_id int32_def)
  show "0 \<le> r - r div d * d" "r - r div d * d < d" "r - r div d * d \<le> r"
    using assms by (simp_all add: minus_div_mult_eq_mod zmod_le_nonneg_dividend)
qed

lemma mix_loop_spec:
  assumes "distinct ds" "\<forall>d\<in>set ds. 0 < d \<and> d < 2 ^ 31" "0 \<le> r" "r < 2 ^ 31" "list_all P mix" "set (map fst mix) \<inter> to_string ` set ds = {}"
    and "\<And>d n. d \<in> set ds \<Longrightarrow> 0 \<le> n \<Longrightarrow> P (to_string d, n)"
  shows "\<exists>mix' rest. mix_loop ds r mix = Some mix' \<and> list_all P mix' \<and> worth mix' + rest = worth mix + r \<and> 0 \<le> rest \<and> rest \<le> r \<and>
    (ds \<noteq> [] \<longrightarrow> rest < last ds)"
  using assms
proof (induction ds arbitrary: r mix)
  case (Cons d ds)
  have d: "0 < d" "d < 2 ^ 31" using Cons.prems by auto
  define q where "q = r div d"
  note st = mix_step [OF d(1) Cons.prems(3,4), folded q_def]
  define mix1 where "mix1 = (if q > 0 then sput (to_string d) q mix else mix)"
  have loop: "mix_loop (d # ds) r mix = mix_loop ds (r - q * d) mix1"
  proof (cases "q > 0")
    case False
    then have "q = 0" using Cons.prems(3) d pos_imp_zdiv_nonneg_iff [of d r] by (simp add: q_def)
    then show ?thesis using d st(1) by (simp add: mix1_def)
  qed (use d st(1) in \<open>simp add: mix1_def\<close>)
  have i: "stoi (to_string d) = Inr d" using d by (intro stoi_to_string) (simp add: int32_def)
  have new: "to_string d \<notin> set (map fst mix)" using Cons.prems(6) by auto
  have m1: "list_all P mix1" using Cons.prems(5,7) by (simp add: mix1_def list_all_sput)
  have m2: "set (map fst mix1) \<inter> to_string ` set ds = {}"
    using Cons.prems(1,6) keys_sput [of "to_string d" q mix] by (auto simp: mix1_def)
  have m3: "worth mix1 + (r - q * d) = worth mix + r" if "q \<ge> 0"
    using worth_sput [OF new i, of q] that by (auto simp: mix1_def)
  have q0: "q \<ge> 0" using Cons.prems(3) d by (simp add: q_def pos_imp_zdiv_nonneg_iff)
  obtain mix' rest where "mix_loop ds (r - q * d) mix1 = Some mix'" "list_all P mix'" "worth mix' + rest = worth mix1 + (r - q * d)"
    "0 \<le> rest" "rest \<le> r - q * d" "ds \<noteq> [] \<longrightarrow> rest < last ds"
    using Cons.IH [of "r - q * d" mix1] Cons.prems st m1 m2 by auto
  then show ?case using m3 [OF q0] st unfolding loop by (intro exI [of _ mix'] exI [of _ rest]) auto
qed auto

text \<open>
  A recommended mix can be paid out: for an amount that fits an \<^verbatim>\<open>int\<close> and positive denominations it is a valid
  breakdown of the currency, worth at most the amount and short of it by less than the smallest denomination; where the
  smallest denomination is 1 (as for the built-in dollars) it is worth the amount exactly.
\<close>

theorem recommended_mix:
  assumes "get (ci_denomination_sets s) c = Some ds" "ds \<noteq> []" "distinct ds" "\<forall>d\<in>set ds. 0 < d \<and> d < 2 ^ 31"
    and "0 < target" "target < 2 ^ 31" "currency_code_ok c"
  shows "\<exists>mix. recommend_mix c target s = Some mix \<and> validate_denominations c mix s \<and>
    target - hd ds < denomination_value mix \<and> denomination_value mix \<le> target \<and> (hd ds = 1 \<longrightarrow> denomination_value mix = target)"
proof -
  define P where "P = (\<lambda>(k, n). \<exists>d. stoi k = Inr d \<and> (0 :: int) \<le> n \<and> d \<in> set ds)"
  have "P (to_string d, n)" if "d \<in> set (rev ds)" "0 \<le> n" for d n
    using that assms(4) stoi_to_string [of d] by (auto simp: P_def int32_def)
  then obtain mix rest where m: "mix_loop (rev ds) target [] = Some mix" "list_all P mix" "worth mix + rest = worth [] + target" "0 \<le> rest"
    "rest < last (rev ds)"
    using mix_loop_spec [of "rev ds" target P "[]"] assms by auto
  have "readable mix" using m(2) by (auto simp: readable_def P_def list_all_iff)
  then have v: "denomination_value mix = target - rest" using m(3) value_loop_worth [of mix 0] by (simp add: denomination_value_def worth_def)
  have "validate_denominations c mix s" using m(2) assms(1,7) by (fastforce simp: validate_denominations_def P_def list_all_iff)
  moreover have "recommend_mix c target s = Some mix" using m(1) assms(1,5) by (simp add: recommend_mix_def)
  ultimately show ?thesis using v m(4,5) assms(2) by (auto simp: last_rev)
qed

lemma mix_loop_None: "mix_loop ds r mix = None \<longleftrightarrow> 0 \<in> set ds"
  by (induction ds r mix rule: mix_loop.induct) (auto simp: Let_def)

section \<open>Health\<close>

lemma severity_weight_pos: "0 < severity_weight sev"
  by (simp add: severity_weight_def)

lemma anomaly_penalty_nonneg: "0 \<le> anomaly_penalty st i s"
  unfolding anomaly_penalty_def by (intro sum_list_nonneg) (auto simp: less_imp_le [OF severity_weight_pos])

lemma worst_variance_nonneg: "0 \<le> worst_variance st i s"
proof -
  have "0 \<le> m \<Longrightarrow> 0 \<le> foldl (\<lambda>m r. if rp_scope_type r = st \<and> rp_scope_id r = i then max m \<bar>rp_variance r\<bar> else m) m rs" for m and rs :: "ReconciliationReport list"
    by (induction rs arbitrary: m) auto
  then show ?thesis by (simp add: worst_variance_def)
qed

text \<open>
  A cash health score lies between 0 and 100, and it is 100 exactly when the scope has no anomalies, no stale
  inventory and no report with a variance of 1000 or more.
\<close>

theorem cash_health_bounds:
  assumes "health_score st i s = (h, s1)"
  shows "0 \<le> ch_score h \<and> ch_score h \<le> 100 \<and>
    (ch_score h = 100 \<longleftrightarrow> anomaly_penalty st i s = 0 \<and> stale_inventories st i s = 0 \<and> worst_variance st i s < 1000)"
proof -
  let ?v = "worst_variance st i s sdiv 1000"
  have v: "?v = worst_variance st i s div 1000" using worst_variance_nonneg by (simp add: sdiv_pos)
  have "0 \<le> ?v" "?v = 0 \<longleftrightarrow> worst_variance st i s < 1000" using worst_variance_nonneg [of st i s] unfolding v by (auto simp: pos_imp_zdiv_nonneg_iff)
  moreover have "0 \<le> stale_inventories st i s" by (simp add: stale_inventories_def)
  moreover have "ch_score h = max 0 (100 - (anomaly_penalty st i s + stale_inventories st i s * 10 + min 40 ?v))"
    using assms by (auto simp: health_score_def health_factors_def Let_def)
  ultimately show ?thesis using anomaly_penalty_nonneg [of st i s] by auto
qed

section \<open>Repeated detection\<close>

definition strip :: "CashAnomaly \<Rightarrow> CashAnomaly" where
  "strip a = a\<lparr>an_anomaly_id := []\<rparr>"

lemma create_if_strip: "map strip xs = map strip ys \<Longrightarrow> (\<And>k l. strip (mk k) = strip (mk l)) \<Longrightarrow>
    map strip (create_if b mk n xs) = map strip (create_if b mk m ys)"
  by (simp add: create_if_def)

lemma strip_at [simp]: "strip (anomaly_at st i ty sev ex now e k) = strip (anomaly_at st i ty sev ex now e l) \<longleftrightarrow> True"
  by (simp add: strip_def anomaly_at_def)

definition same_tally :: "tally_state \<Rightarrow> tally_state \<Rightarrow> bool" where
  "same_tally x y \<longleftrightarrow> map strip (ts_created x) = map strip (ts_created y) \<and> ts_small_shortages x = ts_small_shortages y \<and>
     ts_manual_adjustments x = ts_manual_adjustments y \<and> ts_cash_out x = ts_cash_out y"

lemma same_entry: "same_tally x y \<Longrightarrow> same_tally (tally_entry st i now n e x) (tally_entry st i now m e y)"
  unfolding same_tally_def tally_entry_def tally_state.select_convs by (intro conjI create_if_strip) simp_all

lemma same_loop: "same_tally x y \<Longrightarrow> same_tally (tally_loop st i now n es x) (tally_loop st i now m es y)"
  by (induction es arbitrary: x y) (simp_all add: same_entry)

lemma created_strip:
  assumes "ci_ledger s = ci_ledger s'"
  shows "map strip (created_anomalies st i now s) = map strip (created_anomalies st i now s')"
proof -
  let ?x0 = "\<lparr>ts_small_shortages = 0, ts_manual_adjustments = 0, ts_cash_out = 0, ts_created = []\<rparr>"
  have "same_tally (tally_loop st i now n es ?x0) (tally_loop st i now m es ?x0)" for n m es
    by (rule same_loop) (simp add: same_tally_def)
  note t = this [unfolded same_tally_def]
  show ?thesis unfolding created_anomalies_def Let_def assms
    by (simp only: t [of "length (ci_anomalies s)" _ "length (ci_anomalies s')"]) (intro create_if_strip, simp_all add: t)
qed

definition heavy :: "string \<Rightarrow> string \<Rightarrow> CashAnomaly \<Rightarrow> bool" where
  "heavy st i a \<longleftrightarrow> an_scope_type a = st \<and> an_scope_id a = i \<and> 10 \<le> severity_weight (an_severity a)"

lemma create_if_heavy: "list_all (heavy st i) xs \<Longrightarrow> (\<And>k. heavy st i (mk k)) \<Longrightarrow> list_all (heavy st i) (create_if b mk n xs)"
  by (simp add: create_if_def)

lemma heavy_at [simp]: "heavy st i (anomaly_at st i ty ''warning'' ex now e k)" "heavy st i (anomaly_at st i ty ''critical'' ex now e k)"
  by (simp_all add: heavy_def anomaly_at_def severity_weight_def)

lemma created_heavy: "list_all (heavy st i) (created_anomalies st i now s)"
proof -
  have "list_all (heavy st i) (ts_created x) \<Longrightarrow> list_all (heavy st i) (ts_created (tally_loop st i now n es x))" for n es x
    by (induction st i now n es x rule: tally_loop.induct) (simp_all add: tally_entry_def create_if_heavy)
  then show ?thesis unfolding created_anomalies_def Let_def by (simp add: create_if_heavy)
qed

lemma fold_record: "ci_ledger (fold (record_anomaly st i now) xs s) = ci_ledger s \<and> ci_anomalies (fold (record_anomaly st i now) xs s) = ci_anomalies s @ xs"
  by (induction xs arbitrary: s) simp_all

definition redetect :: "string \<Rightarrow> string \<Rightarrow> int \<Rightarrow> CashIntelligenceService \<Rightarrow> CashIntelligenceService" where
  "redetect st i now s = snd (detect_anomalies st i now s)"

lemma redetect_fields:
  "ci_ledger (redetect st i now s) = ci_ledger s" "ci_anomalies (redetect st i now s) = ci_anomalies s @ created_anomalies st i now s"
  using fold_record by (simp_all add: redetect_def detect_anomalies_def Let_def)

lemma heavy_penalty: "list_all (heavy st i) xs \<Longrightarrow> 10 * int (length xs) \<le> sum_list (map (\<lambda>a. severity_weight (an_severity a))
    (filter (\<lambda>a. an_scope_type a = st \<and> an_scope_id a = i) xs))"
  by (induction xs) (auto simp: heavy_def)

lemma redetect_penalty: "created_anomalies st i now s \<noteq> [] \<Longrightarrow>
    10 * int n \<le> anomaly_penalty st i ((redetect st i now ^^ n) s) \<and> ci_ledger ((redetect st i now ^^ n) s) = ci_ledger s"
proof (induction n)
  case 0
  then show ?case using anomaly_penalty_nonneg by simp
next
  case (Suc n)
  let ?s = "(redetect st i now ^^ n) s" let ?c = "created_anomalies st i now ?s"
  have "map strip ?c = map strip (created_anomalies st i now s)" using Suc by (intro created_strip) simp
  then have "?c \<noteq> []" using Suc.prems by auto
  then have "1 \<le> int (length ?c)" by (cases ?c) auto
  then show ?case using Suc heavy_penalty [OF created_heavy [of st i now ?s]]
    by (simp add: redetect_fields anomaly_penalty_def)
qed

text \<open>
  Detection counts again what it found before: if a detection creates any anomaly at all, ten detections on the unchanged
  ledger bring the health score of the scope to 0.
\<close>

theorem detection_drains_health:
  assumes "created_anomalies st i now s \<noteq> []" "10 \<le> n"
  shows "ci_ledger ((redetect st i now ^^ n) s) = ci_ledger s \<and> ch_score (fst (health_score st i ((redetect st i now ^^ n) s))) = 0"
proof -
  let ?s = "(redetect st i now ^^ n) s"
  have p: "100 \<le> anomaly_penalty st i ?s" "ci_ledger ?s = ci_ledger s" using redetect_penalty [OF assms(1), of n] assms(2) by auto
  have "0 \<le> worst_variance st i ?s sdiv 1000" using worst_variance_nonneg [of st i ?s] by (simp add: sdiv_pos pos_imp_zdiv_nonneg_iff)
  then have "100 \<le> sum_list (map snd (health_factors st i ?s))" using p(1) by (simp add: health_factors_def stale_inventories_def)
  then show ?thesis using p(2) by (simp add: health_score_def Let_def)
qed

section \<open>Forecasts\<close>

text \<open>
  A forecast that predicts a depletion recommends a replenishment between now and that time, no more than twelve hours
  before it, and predicts no surplus; a predicted surplus is one day ahead. The confidence is high from five
  entries of the scope on, medium from two on.
\<close>

theorem forecast_consistent:
  assumes "ci_forecast st i c now s = (f, s1)" "0 < now"
  shows "(cf_expected_depletion_epoch f \<noteq> 0 \<longrightarrow> now \<le> cf_recommended_replenishment_epoch f \<and>
      cf_recommended_replenishment_epoch f \<le> cf_expected_depletion_epoch f \<and>
      cf_expected_depletion_epoch f - 43200 \<le> cf_recommended_replenishment_epoch f \<and> cf_expected_surplus_epoch f = 0) \<and>
    (cf_expected_surplus_epoch f \<noteq> 0 \<longrightarrow> cf_expected_surplus_epoch f = now + 86400) \<and>
    (cf_confidence f = ''high'' \<longleftrightarrow> 5 \<le> length (relevant st i c s)) \<and> ci_forecasts s1 = ci_forecasts s @ [f]"
proof -
  define x where "x = trend_loop st i c (ci_ledger s) \<lparr>tr_net = 0, tr_count = 0, tr_latest_observed = 0, tr_first_time = 0, tr_last_time = 0\<rparr>"
  have "tr_count (trend_loop st i c es y) = tr_count y + int (length (filter (\<lambda>e. ci_scope_matches e st i \<and> le_currency e = c) es))" for es y
    by (induction st i c es y rule: trend_loop.induct) (auto simp: Let_def)
  then have n: "tr_count x = int (length (relevant st i c s))" by (simp add: x_def relevant_def)
  have d: "0 \<le> tr_latest_observed x sdiv max 1 (- hourly_change x)" if "tr_latest_observed x > 0"
    using that by (simp add: sdiv_pos pos_imp_zdiv_nonneg_iff)
  show ?thesis using assms d n unfolding ci_forecast_def x_def [symmetric] Let_def
    by (auto simp: CashForecast_default_def ci_event_locked_def split: if_splits)
qed

section \<open>The store file\<close>

definition sets_ok :: "CashIntelligenceService \<Rightarrow> bool" where
  "sets_ok s \<longleftrightarrow> distinct (map fst (ci_denomination_sets s)) \<and> list_all (\<lambda>(c, ds). int_set ds = ds) (ci_denomination_sets s) \<and>
     set (map fst default_sets) \<subseteq> set (map fst (ci_denomination_sets s))"

lemma int_set_idem [simp]: "int_set (int_set ds) = int_set ds"
  by (simp add: int_set_def distinct_remdups_id sorted_sort_id)

lemma key_set_put: "set (map fst (put k v m)) = insert k (set (map fst m))"
  by (simp add: put_def dom_update)

lemma list_all_put: "list_all P m \<Longrightarrow> P (k, v) \<Longrightarrow> list_all P (put k v m)"
  unfolding list_all_iff using set_put [of k v m] by blast

lemma put_sets_ok: "sets_ok s \<Longrightarrow> sets_ok (ci_save_locked (s\<lparr>ci_denomination_sets := put c (int_set ds) (ci_denomination_sets s)\<rparr>))"
  using key_set_put [of c "int_set ds" "ci_denomination_sets s"] by (auto simp: sets_ok_def list_all_put simp del: set_map)

lemma sets_ok_cong: "ci_denomination_sets s = ci_denomination_sets s' \<Longrightarrow> sets_ok s = sets_ok s'"
  by (simp add: sets_ok_def)

lemma record_sets: "ci_denomination_sets (fold (record_anomaly st i now) xs s) = ci_denomination_sets s"
  by (induction xs arbitrary: s) (auto simp: record_anomaly_def Let_def ci_event_locked_def split: option.splits)

lemma ci_step_sets: "sets_ok s \<Longrightarrow> ci_step ext x s = Some s1 \<Longrightarrow> sets_ok s1"
  by (cases x) (auto simp: add_ledger_entry_def ci_update_inventory_def configure_denominations_def reconcile_def ci_forecast_def
      detect_anomalies_def health_score_def ci_dashboard_def Let_def ci_event_locked_def record_sets put_sets_ok
      intro: iffD1 [OF sets_ok_cong, rotated] split: option.splits if_splits)

lemma ci_reach_sets: "ci_reach ext s0 s \<Longrightarrow> sets_ok s0 \<Longrightarrow> sets_ok s"
  by (induction rule: ci_reach.induct) (auto dest: ci_step_sets)

lemma blank_sets_ok: "sets_ok (CashIntelligenceService_blank path file fleet)"
  by (simp add: sets_ok_def CashIntelligenceService_blank_def default_sets_def int_set_def)

lemma get_None: "get m k = None \<longleftrightarrow> k \<notin> set (map fst m)"
  by (simp add: get_def map_of_eq_None_iff)

lemma get_foldl_sets:
  "distinct (map fst xs) \<Longrightarrow> get (foldl (\<lambda>m (c, ds). put c (f ds) m) m xs) k = (case get xs k of Some v \<Rightarrow> Some (f v) | None \<Rightarrow> get m k)"
proof (induction xs arbitrary: m)
  case (Cons x xs)
  obtain c ds where x: "x = (c, ds)" by fastforce
  have "get xs c = None" using Cons.prems by (simp add: x get_None)
  then show ?case using Cons.IH [of "put c (f ds) m"] Cons.prems by (cases "k = c") (simp_all add: x split: option.split)
qed simp

lemma load_sets_back:
  assumes "value_laws ext" "as_int ext = json_int" "sets_ok s"
  shows "\<exists>m. load_sets ext (map (\<lambda>(c, ds). (c, JArr (map JInt ds))) (ci_denomination_sets s)) default_sets = Inr m \<and>
    (\<forall>k. get m k = get (ci_denomination_sets s) k)"
proof -
  let ?xs = "ci_denomination_sets s"
  let ?conv = "\<lambda>(c, v). bind_result (as_arr ext v) (\<lambda>js. bind_result (map_result (as_int ext) js) (\<lambda>ds. Inr (c, ds)))"
  have c: "map_result ?conv (map (\<lambda>(c, ds). (c, JArr (map JInt ds))) ?xs) = Inr ?xs"
    using assms(1,2) by (intro map_result_map) (auto simp: value_laws_def map_result_map)
  have "get (foldl (\<lambda>m (c, ds). put c (int_set ds) m) default_sets ?xs) k = get ?xs k" for k
  proof (cases "get ?xs k")
    case None
    then have "get default_sets k = None" using assms(3) unfolding get_None sets_ok_def by blast
    then show ?thesis using None assms(3) by (simp add: get_foldl_sets sets_ok_def)
  next
    case (Some v)
    then have "int_set v = v" using assms(3) get_in_set [OF Some] by (auto simp: sets_ok_def list_all_iff)
    then show ?thesis using Some assms(3) by (simp add: get_foldl_sets sets_ok_def)
  qed
  then show ?thesis using c by (simp add: load_sets_def)
qed

lemma see_events_set: "set (see_events es seen) = set seen \<union> (set (map le_event_id es) - {[]})"
  unfolding see_events_def by (induction es arbitrary: seen) auto

text \<open>
  A restart loses nothing: a service that reads the file its predecessor saved has the same ledger, reports, forecasts,
  anomalies, events and inventories, the same denominations of every currency, and recognises the same event
  ids as already seen, when the JSON accessors behave as documented.
\<close>

theorem cash_save_load:
  assumes "ci_reach ext (CashIntelligenceService_blank path file fleet) s" "ci_store_path s \<noteq> []" "value_laws ext" "as_int ext = json_int"
  shows "\<exists>s1. CashIntelligenceService_new ext (ci_store_path s) (ci_file (ci_save_locked s)) fleet1 = Inr s1 \<and>
    ci_ledger s1 = ci_ledger s \<and> ci_reports s1 = ci_reports s \<and> ci_forecasts s1 = ci_forecasts s \<and> ci_anomalies s1 = ci_anomalies s \<and>
    ci_events s1 = ci_events s \<and> ci_inventories s1 = ci_inventories s \<and>
    (\<forall>k. get (ci_denomination_sets s1) k = get (ci_denomination_sets s) k) \<and> set (ci_seen_event_ids s1) = set (ci_seen_event_ids s)"
proof -
  have inv: "ci_inv s" using ci_reach_inv [OF assms(1) ci_blank_inv] .
  obtain m where m: "load_sets ext (map (\<lambda>(c, ds). (c, JArr (map JInt ds))) (ci_denomination_sets s)) default_sets = Inr m"
    "\<And>k. get m k = get (ci_denomination_sets s) k"
    using load_sets_back [OF assms(3,4) ci_reach_sets [OF assms(1) blank_sets_ok]] by blast
  have k: "load_map (\<lambda>j. cash_inventory_from_json ext j DenominationInventory_default) key_of_inventory
      (map cash_inventory_to_json (vals (ci_inventories s))) [] = Inr (ci_inventories s)"
    using inv by (intro load_map_back) (simp_all add: ci_inv_def cash_inventory_json_roundtrip [OF assms(3)])
  note trips = ledger_entry_json_roundtrip report_json_roundtrip forecast_json_roundtrip anomaly_json_roundtrip cash_event_json_roundtrip
  have "CashIntelligenceService_new ext (ci_store_path s) (ci_file (ci_save_locked s)) fleet1 =
    Inr ((CashIntelligenceService_blank (ci_store_path s) (ci_file (ci_save_locked s)) fleet1)\<lparr>ci_ledger := ci_ledger s, ci_reports := ci_reports s,
      ci_forecasts := ci_forecasts s, ci_anomalies := ci_anomalies s, ci_events := ci_events s, ci_inventories := ci_inventories s,
      ci_denomination_sets := m, ci_seen_event_ids := see_events (ci_ledger s) []\<rparr>)"
    using assms(2,3) by (simp add: CashIntelligenceService_new_def ci_load_def ci_save_locked_def CashIntelligenceService_blank_def ci_store_json_def
        value_back value_items_back values_json_def k m(1) trips [OF assms(3)] map_result_back)
  then show ?thesis using m(2) inv by (simp add: see_events_set ci_inv_def)
qed

section \<open>Witnesses\<close>

definition sample_cash_entry :: "int \<Rightarrow> CashLedgerEntry" where
  "sample_cash_entry observed = CashLedgerEntry_default\<lparr>le_device_id := ''d1'', le_currency := ''USD'', le_event_id := ''e1'',
     le_expected_balance := 20000, le_observed_balance := observed, le_occurred_at_epoch := 7200\<rparr>"

definition sample_cash :: "int \<Rightarrow> CashIntelligenceService" where
  "sample_cash observed = snd (add_ledger_entry (sample_cash_entry observed) (CashIntelligenceService_blank ''store'' None None))"

lemma sample_cash_reach: "ci_reach sample_extern (CashIntelligenceService_blank ''store'' None None) (sample_cash observed)"
  unfolding sample_cash_def by (rule ci_next [OF ci_start, of _ "Add_entry (sample_cash_entry observed)"]) simp

lemma sample_cash_ledger:
  "\<exists>x. ci_ledger (sample_cash observed) = [x] \<and> le_device_id x = ''d1'' \<and> le_currency x = ''USD'' \<and> le_expected_balance x = 20000 \<and>
     le_variance x = observed - 20000 \<and> le_event_type x = [] \<and> \<not> le_duplicate x \<and> le_event_id x = ''e1''"
  by (simp add: sample_cash_def add_ledger_entry_def sample_cash_entry_def CashLedgerEntry_default_def CashIntelligenceService_blank_def Let_def
      validate_denominations_def currency_code_ok_def less_eq_char_def)

lemma sample_sets: "get (ci_denomination_sets (sample_cash observed)) ''USD'' = Some [1, 5, 10, 25, 100, 500, 1000, 2000, 5000, 10000]"
  by (simp add: sample_cash_def add_ledger_entry_def CashIntelligenceService_blank_def Let_def default_sets_def ci_event_locked_def)

theorem cash_ledger_sound_witness:
  "\<exists>x. ci_ledger (sample_cash 19000) = [x] \<and> le_variance x = le_observed_balance x - le_expected_balance x \<and> le_variance x = - 1000"
proof -
  obtain x where x: "ci_ledger (sample_cash 19000) = [x]" "le_variance x = - 1000" using sample_cash_ledger [of 19000] by auto
  then show ?thesis using cash_ledger_sound [OF sample_cash_reach [of 19000], of x 0 0] by auto
qed

theorem reconciliation_verdict_witness:
  "\<exists>r s1. reconcile ''device'' ''d1'' ''USD'' 12000 9000 (sample_cash 20000) = (r, s1) \<and> rp_variance r = - 8000 \<and> rp_status r = ''suspected_loss''"
proof -
  obtain r s1 where r: "reconcile ''device'' ''d1'' ''USD'' 12000 9000 (sample_cash 20000) = (r, s1)" by fastforce
  obtain x where x: "ci_ledger (sample_cash 20000) = [x]" "le_device_id x = ''d1''" "le_currency x = ''USD''" "le_expected_balance x = 20000"
    "le_event_type x = []" "\<not> le_duplicate x" "le_event_id x = ''e1''" using sample_cash_ledger [of 20000] by auto
  then have "relevant ''device'' ''d1'' ''USD'' (sample_cash 20000) = [x]" by (simp add: relevant_def ci_scope_matches_def)
  then show ?thesis using reconciliation_verdict [OF r] r x by (simp add: verdict_def event_ids_def)
qed

theorem recommended_mix_witness:
  "\<exists>mix. recommend_mix ''USD'' 14287 (sample_cash 20000) = Some mix \<and> denomination_value mix = 14287"
proof -
  have "currency_code_ok ''USD''" by (simp add: currency_code_ok_def less_eq_char_def)
  then show ?thesis using recommended_mix [OF sample_sets [of 20000], of 14287] by auto
qed

theorem cash_health_bounds_witness:
  "\<exists>h s1. health_score ''device'' ''d1'' (sample_cash 20000) = (h, s1) \<and> 0 \<le> ch_score h \<and> ch_score h \<le> 100"
proof -
  obtain h s1 where h: "health_score ''device'' ''d1'' (sample_cash 20000) = (h, s1)" by fastforce
  then show ?thesis using cash_health_bounds [OF h] by blast
qed

theorem detection_drains_health_witness:
  "ch_score (fst (health_score ''device'' ''d1'' ((redetect ''device'' ''d1'' 9000 ^^ 10) (sample_cash 0)))) = 0"
proof -
  obtain x where x: "ci_ledger (sample_cash 0) = [x]" "le_device_id x = ''d1''" "le_variance x = - 20000"
    using sample_cash_ledger [of 0] by auto
  then have "created_anomalies ''device'' ''d1'' 9000 (sample_cash 0) \<noteq> []"
    by (simp add: created_anomalies_def Let_def ci_scope_matches_def tally_entry_def create_if_def)
  then show ?thesis using detection_drains_health [of "''device''" "''d1''" 9000 "sample_cash 0" 10] by simp
qed

theorem forecast_consistent_witness:
  "\<exists>f s1. ci_forecast ''device'' ''d1'' ''USD'' 9000 (sample_cash 19000) = (f, s1) \<and> cf_expected_surplus_epoch f \<in> {0, 95400} \<and>
     ci_forecasts s1 = ci_forecasts (sample_cash 19000) @ [f]"
proof -
  obtain f s1 where f: "ci_forecast ''device'' ''d1'' ''USD'' 9000 (sample_cash 19000) = (f, s1)" by fastforce
  then show ?thesis using forecast_consistent [OF f] by auto
qed

theorem cash_save_load_witness:
  "\<exists>s1. CashIntelligenceService_new sample_extern ''store'' (ci_file (ci_save_locked (sample_cash 19000))) None = Inr s1 \<and>
     ci_ledger s1 = ci_ledger (sample_cash 19000) \<and> ci_ledger s1 \<noteq> []"
proof -
  have "ci_store_path (sample_cash 19000) = ''store''"
    by (simp add: sample_cash_def add_ledger_entry_def CashIntelligenceService_blank_def Let_def ci_event_locked_def ci_save_locked_def)
  then show ?thesis using cash_save_load [OF sample_cash_reach [of 19000] _ sample_value_laws, of None] sample_cash_ledger [of 19000]
    by (auto simp: sample_extern_def)
qed

end
