(* ===== verification/Cash_Routes.thy ===== *)
theory Cash_Routes
  imports Cash_Intelligence Fleet_Routes
begin

text \<open>
  The HTTP interface of the cash intelligence service (\<^verbatim>\<open>src/cloud/cash_intelligence/routes.cpp\<close>). The
  process-wide fleet control plane, against which the ledger route checks the tenant, is an argument; so is the
  server's access check. \<open>None\<close> is the end of the process in a division by zero. Logging is not modelled.
\<close>

definition cash_filter_from :: "Request \<Rightarrow> CashFilter" where
  "cash_filter_from req = \<lparr>cl_organization_id = tenant_org req, cl_device_id = get_param_value req ''device_id'',
     cl_merchant_id = get_param_value req ''merchant_id'', cl_branch_id = get_param_value req ''branch_id'',
     cl_region = get_param_value req ''region'', cl_currency = get_param_value req ''currency''\<rparr>"

definition tenant_allows_device :: "FleetControlPlane \<Rightarrow> Request \<Rightarrow> string \<Rightarrow> bool" where
  "tenant_allows_device plane req device_id \<longleftrightarrow> tenant_org req = [] \<or> device_id = [] \<or>
     (case cp_device device_id plane of None \<Rightarrow> False | Some d \<Rightarrow> dr_organization_id d = tenant_org req)"

datatype ci_route = Get_ledger | Post_ledger | Get_inventory | Post_inventory | Post_reconcile | Get_reconciliation | Post_forecast
  | Get_anomalies | Post_detect | Get_health string string | Get_cash_dashboard string string

definition post_ledger :: "extern \<Rightarrow> FleetControlPlane \<Rightarrow> Request \<Rightarrow> CashIntelligenceService \<Rightarrow> (response \<times> CashIntelligenceService) result" where
  "post_ledger ext plane req s =
     bind_result (parse ext (rq_body req)) (\<lambda>body. bind_result (ledger_entry_from_json ext body CashLedgerEntry_default) (\<lambda>e.
       if \<not> tenant_allows_device plane req (le_device_id e) then Inr ((403, error_json ''tenant_forbidden''), s)
       else let (ok, s1) = add_ledger_entry e s
         in Inr ((if ok then 200 else 400, JObj [(''ok'', JBool ok), (''entry'', ledger_entry_to_json e)]), s1)))"

definition post_inventory :: "extern \<Rightarrow> Request \<Rightarrow> CashIntelligenceService \<Rightarrow> (response \<times> CashIntelligenceService) result" where
  "post_inventory ext req s =
     bind_result (parse ext (rq_body req)) (\<lambda>body. bind_result (cash_inventory_from_json ext body DenominationInventory_default) (\<lambda>v.
       let (ok, s1) = ci_update_inventory v s
       in Inr ((if ok then 200 else 400, JObj [(''ok'', JBool ok), (''inventory'', cash_inventory_to_json v)]), s1)))"

text \<open>The arguments the three \<^verbatim>\<open>POST\<close> routes read in the same way.\<close>

definition scope_args :: "extern \<Rightarrow> json \<Rightarrow> (string \<Rightarrow> string \<Rightarrow> (response \<times> CashIntelligenceService) result) \<Rightarrow> (response \<times> CashIntelligenceService) result" where
  "scope_args ext j f = bind_result (value_str ext j ''scope_type'' ''device'') (\<lambda>st. bind_result (value_str ext j ''scope_id'' []) (\<lambda>i. f st i))"

definition post_reconcile :: "extern \<Rightarrow> Request \<Rightarrow> CashIntelligenceService \<Rightarrow> (response \<times> CashIntelligenceService) result" where
  "post_reconcile ext req s =
     bind_result (parse ext (rq_body req)) (\<lambda>j. scope_args ext j (\<lambda>st i.
     bind_result (value_str ext j ''currency'' []) (\<lambda>c. bind_result (value_int ext j ''observed_balance'' 0) (\<lambda>obs.
     bind_result (value_int ext j ''now_epoch'' 0) (\<lambda>now.
       let (r, s1) = reconcile st i c obs now s in Inr ((200, JObj [(''report'', report_to_json r)]), s1))))))"

definition post_forecast :: "extern \<Rightarrow> Request \<Rightarrow> CashIntelligenceService \<Rightarrow> (response \<times> CashIntelligenceService) result" where
  "post_forecast ext req s =
     bind_result (parse ext (rq_body req)) (\<lambda>j. scope_args ext j (\<lambda>st i.
     bind_result (value_str ext j ''currency'' []) (\<lambda>c. bind_result (value_int ext j ''now_epoch'' 0) (\<lambda>now.
       let (f, s1) = ci_forecast st i c now s in Inr ((200, JObj [(''forecast'', forecast_to_json f)]), s1)))))"

definition post_detect :: "extern \<Rightarrow> Request \<Rightarrow> CashIntelligenceService \<Rightarrow> (response \<times> CashIntelligenceService) result" where
  "post_detect ext req s =
     bind_result (parse ext (rq_body req)) (\<lambda>j. scope_args ext j (\<lambda>st i.
     bind_result (value_int ext j ''now_epoch'' 0) (\<lambda>now.
       let (as, s1) = detect_anomalies st i now s in Inr (list_json ''anomalies'' anomaly_to_json as, s1))))"

definition ci_guarded :: "(response \<times> CashIntelligenceService) result \<Rightarrow> CashIntelligenceService \<Rightarrow> (response \<times> CashIntelligenceService) option" where
  "ci_guarded r s = Some (case r of Inr out \<Rightarrow> out | Inl _ \<Rightarrow> ((400, error_json ''bad_request''), s))"

fun ci_handle :: "extern \<Rightarrow> FleetControlPlane \<Rightarrow> ci_route \<Rightarrow> Request \<Rightarrow> CashIntelligenceService \<Rightarrow> (response \<times> CashIntelligenceService) option" where
  "ci_handle ext plane Get_ledger req s = Some (list_json ''entries'' ledger_entry_to_json (ledger_entries (cash_filter_from req) s), s)"
| "ci_handle ext plane Post_ledger req s = ci_guarded (post_ledger ext plane req s) s"
| "ci_handle ext plane Get_inventory req s = Some (list_json ''inventories'' cash_inventory_to_json (ci_inventory_list (cash_filter_from req) s), s)"
| "ci_handle ext plane Post_inventory req s = ci_guarded (post_inventory ext req s) s"
| "ci_handle ext plane Post_reconcile req s = ci_guarded (post_reconcile ext req s) s"
| "ci_handle ext plane Get_reconciliation req s = Some (list_json ''reports'' report_to_json (ci_report_list (cash_filter_from req) s), s)"
| "ci_handle ext plane Post_forecast req s = ci_guarded (post_forecast ext req s) s"
| "ci_handle ext plane Get_anomalies req s = Some (list_json ''anomalies'' anomaly_to_json (ci_anomaly_list (cash_filter_from req) s), s)"
| "ci_handle ext plane Post_detect req s = ci_guarded (post_detect ext req s) s"
| "ci_handle ext plane (Get_health st i) req s = (let (h, s1) = health_score st i s in Some ((200, cash_health_to_json h), s1))"
| "ci_handle ext plane (Get_cash_dashboard st i) req s =
     map_option (\<lambda>(v, s1). ((200, cash_dashboard_to_json v), s1)) (ci_dashboard ext st i (get_param_value req ''currency'') s)"

definition ci_serve :: "extern \<Rightarrow> FleetControlPlane \<Rightarrow> (Request \<Rightarrow> response option) \<Rightarrow> ci_route \<Rightarrow> Request \<Rightarrow> CashIntelligenceService \<Rightarrow>
    (response \<times> CashIntelligenceService) option" where
  "ci_serve ext plane access_check r req s = (case access_check req of Some refused \<Rightarrow> Some (refused, s) | None \<Rightarrow> ci_handle ext plane r req s)"

section \<open>Properties\<close>

definition owned_by :: "string \<Rightarrow> CashLedgerEntry \<Rightarrow> CashIntelligenceService \<Rightarrow> bool" where
  "owned_by t e s \<longleftrightarrow> (\<exists>p d. ci_fleet s = Some p \<and> get (cp_devices p) (le_device_id e) = Some d \<and> dr_organization_id d = t)"

text \<open>
  Tenants and cash data: a tenant's ledger list shows exactly the matching entries of devices registered to the tenant;
  the lists of inventories, reconciliation reports and anomalies, however, do not look at the tenant at all, so that a request
  gets the same answer whatever tenant it names.
\<close>

theorem cash_lists_tenancy:
  assumes "tenant_org req = t" "t \<noteq> []" "access_check req = None" "access_check (req\<lparr>rq_X_Org_Id := u\<rparr>) = None"
  shows "ci_serve ext plane access_check Get_ledger req s =
      Some (list_json ''entries'' ledger_entry_to_json (filter (\<lambda>e. owned_by t e s)
        (ledger_entries ((cash_filter_from req)\<lparr>cl_organization_id := []\<rparr>) s)), s) \<and>
    (r = Get_inventory \<or> r = Get_reconciliation \<or> r = Get_anomalies \<longrightarrow>
      ci_serve ext plane access_check r (req\<lparr>rq_X_Org_Id := u\<rparr>) s = ci_serve ext plane access_check r req s)"
proof -
  have "ci_filter_matches e (cash_filter_from req) s \<longleftrightarrow> ci_filter_matches e ((cash_filter_from req)\<lparr>cl_organization_id := []\<rparr>) s \<and> owned_by t e s" for e
    using assms(1,2) by (auto simp: ci_filter_matches_def cash_filter_from_def owned_by_def cp_device_def split: option.splits)
  then have "ledger_entries (cash_filter_from req) s = filter (\<lambda>e. owned_by t e s) (ledger_entries ((cash_filter_from req)\<lparr>cl_organization_id := []\<rparr>) s)"
    by (simp add: ledger_entries_def conj_commute)
  moreover have "get_param_value (req\<lparr>rq_X_Org_Id := u\<rparr>) k = get_param_value req k" for k by (simp add: get_param_value_def)
  ultimately show ?thesis using assms(3,4)
    by (auto simp: ci_serve_def ci_inventory_list_def ci_report_list_def ci_anomaly_list_def cash_filter_from_def)
qed

theorem cash_lists_tenancy_witness:
  "ci_serve sample_extern sample_plane (\<lambda>_. None) Get_anomalies (\<lparr>rq_X_Org_Id = ''o1'', rq_params = [], rq_body = []\<rparr>\<lparr>rq_X_Org_Id := ''o2''\<rparr>)
     (CashIntelligenceService_blank [] None None) =
   ci_serve sample_extern sample_plane (\<lambda>_. None) Get_anomalies \<lparr>rq_X_Org_Id = ''o1'', rq_params = [], rq_body = []\<rparr>
     (CashIntelligenceService_blank [] None None)"
proof -
  have "tenant_org \<lparr>rq_X_Org_Id = ''o1'', rq_params = [], rq_body = []\<rparr> = ''o1''" by (simp add: tenant_org_def)
  from cash_lists_tenancy [OF this, of "\<lambda>_. None" "''o2''" sample_extern sample_plane "CashIntelligenceService_blank [] None None" Get_anomalies]
  show ?thesis by simp
qed

end
