(* ===== verification/Disk_Queue.thy ===== *)
theory Disk_Queue
  imports Prelude "HOL-Library.Multiset"
begin

text \<open>
  The on-disk queue of the device's cloud connection (\<^verbatim>\<open>src/cloud/disk_queue.cpp\<close>): one file per message, written when the
  broker is out of reach and published, oldest first, once it is back. The directory is a map from file names to bytes; the
  clock and the outcome of the file operations are inputs. The counters keep their 64 bits. The result is that the
  queue is a first-in first-out outbox: nothing that was accepted is lost, repeated or overtaken.
\<close>

section \<open>Data\<close>

record MqttMessage =
  mm_topic :: string
  mm_payload :: string
  mm_qos :: int
  mm_retain :: bool

definition MqttMessage_default :: MqttMessage where
  "MqttMessage_default = \<lparr>mm_topic = [], mm_payload = [], mm_qos = 1, mm_retain = False\<rparr>"

text \<open>\<open>dq_dir\<close> holds the regular files of the directory.\<close>

record DiskQueue =
  dq_dir :: "(string, string) amap"
  dq_max_bytes :: "64 word"
  dq_bytes :: "64 word"
  dq_seq :: "64 word"
  dq_files :: "string list"

definition DiskQueue_new :: "(string, string) amap \<Rightarrow> 64 word \<Rightarrow> DiskQueue" where
  "DiskQueue_new dir max_bytes = \<lparr>dq_dir = dir, dq_max_bytes = max_bytes, dq_bytes = 0, dq_seq = 0, dq_files = []\<rparr>"

text \<open>
  What happens to a file that is written: whether it could be opened (which empties it), how many bytes reached it,
  and whether the stream is still good when the code looks; the bytes buffered then may still be lost later.
\<close>

record write_outcome =
  wo_opened :: bool
  wo_bytes :: nat
  wo_good :: bool

abbreviation tab :: char where "tab \<equiv> CHR 0x09"
abbreviation newline :: char where "newline \<equiv> CHR 0x0A"

section \<open>Operations\<close>

definition dq_init :: "bool \<Rightarrow> DiskQueue \<Rightarrow> bool \<times> DiskQueue" where
  "dq_init dir_ok q = (if \<not> dir_ok then (False, q)
     else (True, q\<lparr>dq_files := sort (map fst (dq_dir q)), dq_bytes := sum_list (map (\<lambda>(n, b). of_nat (length b)) (dq_dir q))\<rparr>))"

definition header :: "MqttMessage \<Rightarrow> string" where
  "header m = mm_topic m @ [tab] @ to_string (mm_qos m) @ [tab] @ (if mm_retain m then ''1'' else ''0'') @ [newline]"

definition file_text :: "MqttMessage \<Rightarrow> string" where
  "file_text m = header m @ mm_payload m @ [newline]"

definition write_file :: "write_outcome \<Rightarrow> string \<Rightarrow> MqttMessage \<Rightarrow> (string, string) amap \<Rightarrow> bool \<times> (string, string) amap" where
  "write_file w name m dir = (if \<not> wo_opened w then (False, dir) else (wo_good w, put name (take (wo_bytes w) (file_text m)) dir))"

definition file_name :: "int \<Rightarrow> 64 word \<Rightarrow> string" where
  "file_name ts seq = ''q-'' @ to_string ts @ ''-'' @ to_string (uint seq) @ ''.msg''"

definition need :: "MqttMessage \<Rightarrow> 64 word" where
  "need m = of_nat (length (header m) + length (mm_payload m) + 1)"

definition enqueue :: "int \<Rightarrow> write_outcome \<Rightarrow> MqttMessage \<Rightarrow> DiskQueue \<Rightarrow> bool \<times> DiskQueue" where
  "enqueue ts w m q =
     (if dq_bytes q + need m > dq_max_bytes q then (False, q)
      else
        let name = file_name ts (dq_seq q); q1 = q\<lparr>dq_seq := dq_seq q + 1\<rparr>; (ok, dir) = write_file w name m (dq_dir q1);
            q2 = q1\<lparr>dq_dir := dir\<rparr>
        in if \<not> ok then (False, q2) else (True, q2\<lparr>dq_files := dq_files q2 @ [name], dq_bytes := dq_bytes q2 + need m\<rparr>))"

text \<open>\<^verbatim>\<open>std::getline(hs, field, '\t')\<close> on the rest of a string stream; \<open>None\<close> is a stream at its end. It fails when no
  character can be extracted.\<close>

definition next_field :: "string option \<Rightarrow> (string \<times> string option) option" where
  "next_field hs = (case hs of None \<Rightarrow> None | Some [] \<Rightarrow> None
     | Some s \<Rightarrow> Some (takeWhile (\<lambda>c. c \<noteq> tab) s, case dropWhile (\<lambda>c. c \<noteq> tab) s of [] \<Rightarrow> None | _ # r \<Rightarrow> Some r))"

definition line_rest :: "string \<Rightarrow> string \<times> string" where
  "line_rest s = (takeWhile (\<lambda>c. c \<noteq> newline) s, drop 1 (dropWhile (\<lambda>c. c \<noteq> newline) s))"

text \<open>\<^verbatim>\<open>read_file_\<close>: \<open>Inr None\<close> is the answer \<^verbatim>\<open>false\<close>, \<open>Inl\<close> an exception of \<^verbatim>\<open>std::stoi\<close>.\<close>

definition read_file :: "string \<Rightarrow> (string, string) amap \<Rightarrow> MqttMessage option result" where
  "read_file name dir = (case get dir name of None \<Rightarrow> Inr None
     | Some b \<Rightarrow>
       let (hdr, rest) = line_rest b in
       (case next_field (Some hdr) of None \<Rightarrow> Inr None
        | Some (topic, r1) \<Rightarrow> (case next_field r1 of None \<Rightarrow> Inr None
          | Some (qos, r2) \<Rightarrow> (case next_field r2 of None \<Rightarrow> Inr None
            | Some (retain, r3) \<Rightarrow>
              bind_result (stoi qos) (\<lambda>i. bind_result (stoi retain) (\<lambda>r.
                Inr (Some \<lparr>mm_topic = topic, mm_payload = fst (line_rest rest), mm_qos = i, mm_retain = (r \<noteq> 0)\<rparr>)))))))"

text \<open>The loop of \<^verbatim>\<open>try_flush\<close>; \<open>publish\<close> is the client's operation and \<open>c\<close> its state. The answer is paired with the
  states reached, an exception included.\<close>

fun flush_loop :: "(MqttMessage \<Rightarrow> 'c \<Rightarrow> bool \<times> 'c) \<Rightarrow> int \<Rightarrow> int \<Rightarrow> string list \<Rightarrow> 'c \<Rightarrow> DiskQueue \<Rightarrow> unit result \<times> 'c \<times> DiskQueue" where
  "flush_loop publish max_msgs cnt [] c q = (Inr (), c, q)"
| "flush_loop publish max_msgs cnt (f # fs) c q =
     (if \<not> cnt < max_msgs then (Inr (), c, q)
      else case read_file f (dq_dir q) of
        Inl e \<Rightarrow> (Inl e, c, q)
      | Inr None \<Rightarrow> flush_loop publish max_msgs cnt fs c (q\<lparr>dq_dir := del f (dq_dir q), dq_files := fs\<rparr>)
      | Inr (Some m) \<Rightarrow>
          let (ok, c1) = publish m c in
          if \<not> ok then (Inr (), c1, q)
          else flush_loop publish max_msgs (cnt + 1) fs c1
            (q\<lparr>dq_bytes := dq_bytes q - (case get (dq_dir q) f of Some b \<Rightarrow> of_nat (length b) | None \<Rightarrow> 0),
               dq_dir := del f (dq_dir q), dq_files := fs\<rparr>))"

definition try_flush :: "(MqttMessage \<Rightarrow> 'c \<Rightarrow> bool \<times> 'c) \<Rightarrow> int \<Rightarrow> 'c \<Rightarrow> DiskQueue \<Rightarrow> bool result \<times> 'c \<times> DiskQueue" where
  "try_flush publish max_msgs c q =
     (let (r, c1, q1) = flush_loop publish max_msgs 0 (dq_files q) c q in (bind_result r (\<lambda>_. Inr (dq_files q1 = [])), c1, q1))"

definition size_msgs :: "DiskQueue \<Rightarrow> nat" where
  "size_msgs q = length (dq_files q)"

section \<open>A message and its file\<close>

text \<open>What fits the format of a file: a topic without tab and line break, a payload without line break.\<close>

definition msg_ok :: "MqttMessage \<Rightarrow> bool" where
  "msg_ok m \<longleftrightarrow> mm_topic m \<noteq> [] \<and> tab \<notin> set (mm_topic m) \<and> newline \<notin> set (mm_topic m) \<and> newline \<notin> set (mm_payload m) \<and> int32 (mm_qos m)"

lemma takeWhile_stop: "c \<notin> set s \<Longrightarrow> takeWhile (\<lambda>x. x \<noteq> c) (s @ c # r) = s" "c \<notin> set s \<Longrightarrow> dropWhile (\<lambda>x. x \<noteq> c) (s @ c # r) = c # r"
  by (induction s) auto

lemma takeWhile_none: "c \<notin> set s \<Longrightarrow> takeWhile (\<lambda>x. x \<noteq> c) s = s" "c \<notin> set s \<Longrightarrow> dropWhile (\<lambda>x. x \<noteq> c) s = []"
  by (induction s) auto

lemma line_rest_line: "newline \<notin> set l \<Longrightarrow> line_rest (l @ newline # r) = (l, r)"
  by (simp add: line_rest_def takeWhile_stop)

lemma next_field_tab: "tab \<notin> set s \<Longrightarrow> next_field (Some (s @ tab # r)) = Some (s, Some r)"
  using takeWhile_stop [of tab s r] by (cases "s @ tab # r") (auto simp: next_field_def)

lemma next_field_last: "tab \<notin> set s \<Longrightarrow> s \<noteq> [] \<Longrightarrow> next_field (Some s) = Some (s, None)"
  by (cases s) (auto simp: next_field_def takeWhile_none)

lemma to_string_no_tab: "tab \<notin> set (to_string i)"
  using set_to_string [of tab i] by (auto simp: is_digit_def)

lemma stoi_flag: "stoi ''1'' = Inr 1" "stoi ''0'' = Inr 0"
  by code_simp+

lemma read_file_text:
  assumes "msg_ok m" "get dir name = Some (file_text m)"
  shows "read_file name dir = Inr (Some m)"
proof -
  let ?r = "if mm_retain m then ''1'' else ''0''"
  let ?h = "mm_topic m @ tab # to_string (mm_qos m) @ tab # ?r"
  have "newline \<notin> set ?h" using assms(1) to_string_plain(4) by (auto simp: msg_ok_def)
  then have "line_rest (file_text m) = (?h, mm_payload m @ [newline])"
    using line_rest_line [of ?h "mm_payload m @ [newline]"] by (simp add: file_text_def header_def)
  moreover have "fst (line_rest (mm_payload m @ [newline])) = mm_payload m"
    using assms(1) line_rest_line [of "mm_payload m" "[]"] by (simp add: msg_ok_def)
  moreover have "next_field (Some ?h) = Some (mm_topic m, Some (to_string (mm_qos m) @ tab # ?r))"
    using assms(1) by (intro next_field_tab) (simp add: msg_ok_def)
  moreover have "next_field (Some (to_string (mm_qos m) @ tab # ?r)) = Some (to_string (mm_qos m), Some ?r)"
    by (intro next_field_tab to_string_no_tab)
  moreover have "next_field (Some ?r) = Some (?r, None)" by (intro next_field_last) auto
  moreover have "stoi ?r = Inr (if mm_retain m then 1 else 0)" by (simp add: stoi_flag)
  moreover have "stoi (to_string (mm_qos m)) = Inr (mm_qos m)" using assms(1) by (simp add: msg_ok_def stoi_to_string)
  ultimately show ?thesis using assms(2) by (simp add: read_file_def)
qed

section \<open>The queue as an outbox\<close>

definition messages :: "DiskQueue \<Rightarrow> MqttMessage list" where
  "messages q = map (\<lambda>f. case read_file f (dq_dir q) of Inr (Some m) \<Rightarrow> m | _ \<Rightarrow> MqttMessage_default) (dq_files q)"

definition usage :: "DiskQueue \<Rightarrow> nat" where
  "usage q = sum_list (map (\<lambda>f. case get (dq_dir q) f of Some b \<Rightarrow> length b | None \<Rightarrow> 0) (dq_files q))"

definition holds_message :: "(string, string) amap \<Rightarrow> string \<Rightarrow> bool" where
  "holds_message dir f \<longleftrightarrow> (\<exists>m. msg_ok m \<and> get dir f = Some (file_text m))"

definition named_before :: "64 word \<Rightarrow> string \<Rightarrow> bool" where
  "named_before seq f \<longleftrightarrow> (\<exists>ts n. f = file_name ts n \<and> n < seq)"

definition dq_inv :: "DiskQueue \<Rightarrow> bool" where
  "dq_inv q \<longleftrightarrow> distinct (dq_files q) \<and> (\<forall>f\<in>set (dq_files q). holds_message (dq_dir q) f) \<and>
     (\<forall>f. get (dq_dir q) f \<noteq> None \<longrightarrow> named_before (dq_seq q) f) \<and>
     unat (dq_bytes q) = usage q \<and> dq_bytes q \<le> dq_max_bytes q"

text \<open>File names end in the sequence number, so that different numbers give different names.\<close>

lemma dec_suffix: "takeWhile is_digit (rev (s @ CHR ''-'' # dec_nat n)) = rev (dec_nat n)"
proof -
  have "takeWhile is_digit (rev (dec_nat n) @ CHR ''-'' # rev s) = rev (dec_nat n)"
    by (subst takeWhile_append2) (auto dest: dec_nat_digits simp: is_digit_def)
  then show ?thesis by simp
qed

lemma file_name_seq: "file_name ts a = file_name ts' b \<Longrightarrow> a = b"
proof -
  assume eq: "file_name ts a = file_name ts' b"
  have name: "file_name t n = ((''q-'' @ to_string t) @ CHR ''-'' # dec_nat (unat n)) @ ''.msg''" for t and n :: "64 word"
    by (simp add: file_name_def to_string_def flip: nat_uint_eq)
  have "(''q-'' @ to_string ts) @ CHR ''-'' # dec_nat (unat a) = (''q-'' @ to_string ts') @ CHR ''-'' # dec_nat (unat b)"
    using eq unfolding name append_same_eq .
  then have "takeWhile is_digit (rev ((''q-'' @ to_string ts) @ CHR ''-'' # dec_nat (unat a))) =
    takeWhile is_digit (rev ((''q-'' @ to_string ts') @ CHR ''-'' # dec_nat (unat b)))" by (simp only:)
  then have "rev (dec_nat (unat a)) = rev (dec_nat (unat b))" unfolding dec_suffix .
  then show "a = b" by (simp add: word_unat_eq_iff)
qed

lemma fresh_name: "dq_inv q \<Longrightarrow> get (dq_dir q) (file_name ts (dq_seq q)) = None"
proof (rule ccontr)
  assume inv: "dq_inv q" and "get (dq_dir q) (file_name ts (dq_seq q)) \<noteq> None"
  then obtain ts' n where "file_name ts (dq_seq q) = file_name ts' n" "n < dq_seq q" by (auto simp: dq_inv_def named_before_def)
  then show False using file_name_seq by fastforce
qed

lemma named_before_mono: "named_before a f \<Longrightarrow> a \<le> b \<Longrightarrow> named_before b f"
  by (auto simp: named_before_def intro: order_less_le_trans)

lemma dq_inv_file: "dq_inv q \<Longrightarrow> f \<in> set (dq_files q) \<Longrightarrow> holds_message (dq_dir q) f"
  by (simp add: dq_inv_def)

lemma holds_read: "holds_message dir f \<Longrightarrow> \<exists>m. msg_ok m \<and> get dir f = Some (file_text m) \<and> read_file f dir = Inr (Some m)"
  using read_file_text by (auto simp: holds_message_def)

lemma read_file_cong: "get dir f = get dir' f \<Longrightarrow> read_file f dir = read_file f dir'"
  by (simp add: read_file_def)

text \<open>Files the queue does not list do not matter.\<close>

lemma frame_dir:
  assumes "\<And>f. f \<in> set (dq_files q) \<Longrightarrow> get dir f = get (dq_dir q) f"
  shows "messages (q\<lparr>dq_dir := dir\<rparr>) = messages q" "usage (q\<lparr>dq_dir := dir\<rparr>) = usage q"
  using assms by (auto simp: messages_def usage_def intro!: arg_cong [where f = sum_list] map_cong simp: read_file_cong [OF assms] split: option.splits)

lemma usage_bytes:
  assumes "dq_inv q" "length (file_text m) + unat (dq_max_bytes q) < 2 ^ 64"
  shows "unat (need m) = length (file_text m)" "unat (dq_bytes q + need m) = usage q + length (file_text m)"
proof -
  have "unat (dq_bytes q) \<le> unat (dq_max_bytes q)" using assms(1) by (simp add: dq_inv_def word_le_nat_alt)
  moreover have "need m = of_nat (length (file_text m))" by (simp add: need_def file_text_def add.assoc)
  then show n: "unat (need m) = length (file_text m)" using assms(2) by (simp add: unat_of_nat)
  ultimately show "unat (dq_bytes q + need m) = usage q + length (file_text m)"
    using assms unfolding unat_word_ariths(1) n by (simp add: dq_inv_def)
qed

text \<open>A write the code takes for a success has put all the bytes into the file.\<close>

definition honest :: "write_outcome \<Rightarrow> MqttMessage \<Rightarrow> bool" where
  "honest w m \<longleftrightarrow> wo_good w \<longrightarrow> length (file_text m) \<le> wo_bytes w"

lemma seq_next: "(a :: 64 word) + 1 \<noteq> 0 \<Longrightarrow> unat (a + 1) = Suc (unat a)"
  using unatSuc [of a] by (simp add: add.commute)

lemma skipped_file:
  assumes "dq_inv q" "dq_seq q + 1 \<noteq> 0" "\<And>f. f \<noteq> file_name ts (dq_seq q) \<Longrightarrow> get dir f = get (dq_dir q) f"
  shows "dq_inv (q\<lparr>dq_seq := dq_seq q + 1, dq_dir := dir\<rparr>)" "messages (q\<lparr>dq_seq := dq_seq q + 1, dq_dir := dir\<rparr>) = messages q"
    "usage (q\<lparr>dq_seq := dq_seq q + 1, dq_dir := dir\<rparr>) = usage q"
proof -
  have "file_name ts (dq_seq q) \<notin> set (dq_files q)"
    using fresh_name [OF assms(1), of ts] dq_inv_file [OF assms(1)] unfolding holds_message_def by fastforce
  then have same: "get dir f = get (dq_dir q) f" if "f \<in> set (dq_files q)" for f using that assms(3) by metis
  have less: "dq_seq q < dq_seq q + 1" using seq_next [OF assms(2)] by (simp add: word_less_nat_alt)
  have "named_before (dq_seq q + 1) f" if "get dir f \<noteq> None" for f
  proof (cases "f = file_name ts (dq_seq q)")
    case True
    then show ?thesis using less by (auto simp: named_before_def)
  next
    case False
    then have "named_before (dq_seq q) f" using that assms(1,3) by (simp add: dq_inv_def)
    then show ?thesis using less by (auto intro: named_before_mono order_less_imp_le)
  qed
  then show "dq_inv (q\<lparr>dq_seq := dq_seq q + 1, dq_dir := dir\<rparr>)"
    using assms(1) same frame_dir(2) [of q dir] by (simp add: dq_inv_def holds_message_def usage_def)
  show "messages (q\<lparr>dq_seq := dq_seq q + 1, dq_dir := dir\<rparr>) = messages q" "usage (q\<lparr>dq_seq := dq_seq q + 1, dq_dir := dir\<rparr>) = usage q"
    using frame_dir [of q dir] same by (simp_all add: messages_def usage_def)
qed

lemma appended_file:
  assumes "dq_inv q" "msg_ok m" "get (dq_dir q) f = Some (file_text m)" "f \<notin> set (dq_files q)"
    "unat (dq_bytes q + need m) = usage q + length (file_text m)" "dq_bytes q + need m \<le> dq_max_bytes q"
  shows "dq_inv (q\<lparr>dq_files := dq_files q @ [f], dq_bytes := dq_bytes q + need m\<rparr>)"
    "messages (q\<lparr>dq_files := dq_files q @ [f], dq_bytes := dq_bytes q + need m\<rparr>) = messages q @ [m]"
  using assms read_file_text [OF assms(2,3)] by (auto simp: dq_inv_def usage_def messages_def holds_message_def)

definition storable :: "write_outcome \<Rightarrow> MqttMessage \<Rightarrow> DiskQueue \<Rightarrow> bool" where
  "storable w m q \<longleftrightarrow> msg_ok m \<and> honest w m \<and> length (file_text m) + unat (dq_max_bytes q) < 2 ^ 64"

lemma enqueue_effect:
  assumes "dq_inv q" "storable w m q" "dq_seq q + 1 \<noteq> 0" "enqueue ts w m q = (ok, q')"
  shows "dq_inv q'" "messages q' = messages q @ (if ok then [m] else [])" "dq_max_bytes q' = dq_max_bytes q"
    "unat (dq_seq q') \<le> Suc (unat (dq_seq q))"
proof -
  define f where "f = file_name ts (dq_seq q)"
  define dir where "dir = snd (write_file w f m (dq_dir q))"
  define q2 where "q2 = q\<lparr>dq_seq := dq_seq q + 1, dq_dir := dir\<rparr>"
  have same: "get dir g = get (dq_dir q) g" if "g \<noteq> file_name ts (dq_seq q)" for g
    using that by (simp add: dir_def write_file_def f_def)
  note q2 = skipped_file [OF assms(1,3) same, folded q2_def]
  have sel: "dq_max_bytes q2 = dq_max_bytes q" "dq_bytes q2 = dq_bytes q" "dq_files q2 = dq_files q" "dq_dir q2 = dir"
    "unat (dq_seq q2) = Suc (unat (dq_seq q))" using seq_next [OF assms(3)] by (simp_all add: q2_def)
  consider (full) "ok = False" "q' = q" | (failed) "ok = False" "q' = q2"
    | (good) "ok" "q' = q2\<lparr>dq_files := dq_files q2 @ [f], dq_bytes := dq_bytes q2 + need m\<rparr>" "wo_opened w" "wo_good w"
        "dq_bytes q + need m \<le> dq_max_bytes q"
    using assms(4) by (auto simp: enqueue_def write_file_def dir_def f_def q2_def Let_def split: if_splits)
  then have "dq_inv q' \<and> messages q' = messages q @ (if ok then [m] else []) \<and> dq_max_bytes q' = dq_max_bytes q \<and>
    unat (dq_seq q') \<le> Suc (unat (dq_seq q))"
  proof cases
    case good
    have f: "get (dq_dir q2) f = Some (file_text m)"
      using good assms(2) by (simp add: sel dir_def write_file_def storable_def honest_def)
    have "f \<notin> set (dq_files q2)"
      using fresh_name [OF assms(1), of ts] dq_inv_file [OF assms(1)] unfolding holds_message_def sel f_def by fastforce
    moreover have "unat (dq_bytes q2 + need m) = usage q2 + length (file_text m)"
      using usage_bytes(2) [OF assms(1)] assms(2) q2(3) by (simp add: sel storable_def)
    ultimately show ?thesis
      using appended_file [OF q2(1) _ f] assms(2) good sel q2(2) by (simp add: storable_def)
  qed (use assms q2 sel in simp_all)
  then show "dq_inv q'" "messages q' = messages q @ (if ok then [m] else [])" "dq_max_bytes q' = dq_max_bytes q"
    "unat (dq_seq q') \<le> Suc (unat (dq_seq q))" by auto
qed

text \<open>One round of the flush loop takes the oldest message out.\<close>

definition pop_front :: "DiskQueue \<Rightarrow> DiskQueue" where
  "pop_front q = (case dq_files q of [] \<Rightarrow> q | f # fs \<Rightarrow>
     q\<lparr>dq_bytes := dq_bytes q - (case get (dq_dir q) f of Some b \<Rightarrow> of_nat (length b) | None \<Rightarrow> 0),
       dq_dir := del f (dq_dir q), dq_files := fs\<rparr>)"

lemma pop_front_effect:
  assumes "dq_inv q" "dq_files q = f # fs"
  shows "\<exists>m. read_file f (dq_dir q) = Inr (Some m) \<and> messages q = m # messages (pop_front q) \<and> dq_inv (pop_front q)"
proof -
  obtain m where m: "msg_ok m" "get (dq_dir q) f = Some (file_text m)" "read_file f (dq_dir q) = Inr (Some m)"
    using holds_read [OF dq_inv_file [OF assms(1), of f]] assms(2) by auto
  have f: "f \<notin> set fs" using assms by (simp add: dq_inv_def)
  then have get': "get (del f (dq_dir q)) g = get (dq_dir q) g" if "g \<in> set fs" for g using that by auto
  then have read': "read_file g (del f (dq_dir q)) = read_file g (dq_dir q)" if "g \<in> set fs" for g using that read_file_cong by blast
  have ms: "messages q = m # messages (pop_front q)"
    using assms(2) m read' by (simp add: messages_def pop_front_def)
  let ?len = "\<lambda>dir g. case get dir g of Some b \<Rightarrow> length b | None \<Rightarrow> 0"
  have "sum_list (map (?len (del f (dq_dir q))) fs) = sum_list (map (?len (dq_dir q)) fs)" using f by (intro arg_cong [where f = sum_list] map_cong) auto
  then have u: "usage q = length (file_text m) + usage (pop_front q)"
    using assms(2) m(2) by (simp add: usage_def pop_front_def)
  have le: "length (file_text m) \<le> unat (dq_bytes q)" using assms(1) u by (simp add: dq_inv_def)
  then have n: "unat (of_nat (length (file_text m)) :: 64 word) = length (file_text m)"
    using unsigned_less [of "dq_bytes q", where 'a = nat] by (simp add: unat_of_nat)
  then have b: "unat (dq_bytes q - of_nat (length (file_text m))) = usage (pop_front q)"
    using le u assms(1) by (subst unat_sub) (simp_all add: word_le_nat_alt dq_inv_def)
  have "dq_inv (pop_front q)"
    unfolding dq_inv_def
  proof (intro conjI ballI allI impI)
    show "holds_message (dq_dir (pop_front q)) g" if "g \<in> set (dq_files (pop_front q))" for g
      using that assms get' by (auto simp: pop_front_def dq_inv_def holds_message_def)
    show "dq_bytes (pop_front q) \<le> dq_max_bytes (pop_front q)"
      using assms b m(2) u by (simp add: pop_front_def dq_inv_def word_le_nat_alt)
  qed (use assms b m(2) in \<open>auto simp: pop_front_def dq_inv_def split: if_splits\<close>)
  then show ?thesis using m(3) ms by blast
qed

text \<open>What a flush hands over: messages from the front while the limit lasts and the client accepts them.\<close>

fun sent_prefix :: "(MqttMessage \<Rightarrow> 'c \<Rightarrow> bool \<times> 'c) \<Rightarrow> int \<Rightarrow> MqttMessage list \<Rightarrow> 'c \<Rightarrow> MqttMessage list \<times> 'c" where
  "sent_prefix publish k [] c = ([], c)"
| "sent_prefix publish k (m # ms) c = (if k \<le> 0 then ([], c)
     else let (ok, c1) = publish m c in
       if ok then let (xs, c2) = sent_prefix publish (k - 1) ms c1 in (m # xs, c2) else ([], c1))"

lemma flush_loop_effect:
  assumes "dq_inv q" "sent_prefix publish (k - n) (messages q) c = (xs, c')"
  shows "\<exists>q'. flush_loop publish k n (dq_files q) c q = (Inr (), c', q') \<and> messages q = xs @ messages q' \<and> dq_inv q' \<and>
    dq_max_bytes q' = dq_max_bytes q \<and> dq_seq q' = dq_seq q"
  using assms
proof (induction "dq_files q" arbitrary: q n c xs c')
  case Nil
  then have "messages q = []" by (simp add: messages_def)
  then show ?case using Nil by (auto simp flip: Nil(1))
next
  case (Cons f fs)
  obtain m where m: "read_file f (dq_dir q) = Inr (Some m)" "messages q = m # messages (pop_front q)" "dq_inv (pop_front q)"
    using pop_front_effect [OF Cons.prems(1) Cons.hyps(2) [symmetric]] by blast
  have pop: "dq_files (pop_front q) = fs" "dq_max_bytes (pop_front q) = dq_max_bytes q" "dq_seq (pop_front q) = dq_seq q"
    by (simp_all add: pop_front_def flip: Cons.hyps(2))
  obtain ok c1 where p: "publish m c = (ok, c1)" by fastforce
  have step: "flush_loop publish k n (f # fs) c q = (if \<not> n < k then (Inr (), c, q)
    else if \<not> ok then (Inr (), c1, q) else flush_loop publish k (n + 1) fs c1 (pop_front q))"
    using m(1) p by (simp add: pop_front_def flip: Cons.hyps(2))
  show ?case
  proof (cases "n < k \<and> ok")
    case True
    obtain ys c2 where ys: "sent_prefix publish (k - (n + 1)) (messages (pop_front q)) c1 = (ys, c2)" by fastforce
    then have "xs = m # ys" "c' = c2" using Cons.prems(2) m(2) p True by (simp_all add: diff_diff_eq)
    then show ?thesis
      using Cons.hyps(1) [of "pop_front q" "n + 1" c1 ys c2] m pop ys step True by (auto simp flip: Cons.hyps(2))
  next
    case False
    then have "xs = []" "c' = (if n < k then c1 else c)" using Cons.prems(2) m(2) p by (auto split: if_splits)
    then show ?thesis using step False Cons.prems(1) by (auto simp flip: Cons.hyps(2))
  qed
qed

lemma try_flush_effect:
  assumes "dq_inv q" "sent_prefix publish k (messages q) c = (xs, c')"
  shows "\<exists>q'. try_flush publish k c q = (Inr (messages q' = []), c', q') \<and> messages q = xs @ messages q' \<and> dq_inv q' \<and>
    dq_max_bytes q' = dq_max_bytes q \<and> dq_seq q' = dq_seq q"
  using flush_loop_effect [of q publish k 0 c xs c'] assms by (auto simp: try_flush_def messages_def)

lemma sent_prefix_log:
  assumes "\<And>m c ok c'. publish m c = (ok, c') \<Longrightarrow> delivered c' = (if ok then delivered c @ [m] else delivered c)"
    "sent_prefix publish k ms c = (xs, c')"
  shows "delivered c' = delivered c @ xs"
  using assms(2)
proof (induction ms arbitrary: k c xs c')
  case (Cons m ms)
  obtain ok c1 where p: "publish m c = (ok, c1)" by fastforce
  obtain ys c2 where ys: "sent_prefix publish (k - 1) ms c1 = (ys, c2)" by fastforce
  then show ?case using Cons.prems Cons.IH [OF ys] p assms(1) [OF p] by (auto split: if_splits)
qed simp

section \<open>Histories\<close>

text \<open>What happens to a queue and its client: messages are stored, flushes run, and the connection changes (\<open>Net\<close>).\<close>

datatype 'c dq_op = Enq int write_outcome MqttMessage | Flush int | Net "'c \<Rightarrow> 'c"

fun dq_step :: "(MqttMessage \<Rightarrow> 'c \<Rightarrow> bool \<times> 'c) \<Rightarrow> 'c dq_op \<Rightarrow> MqttMessage list \<times> 'c \<times> DiskQueue \<Rightarrow> MqttMessage list \<times> 'c \<times> DiskQueue" where
  "dq_step publish (Enq ts w m) (acc, c, q) = (let (ok, q') = enqueue ts w m q in (if ok then acc @ [m] else acc, c, q'))"
| "dq_step publish (Flush k) (acc, c, q) = (let (r, c', q') = try_flush publish k c q in (acc, c', q'))"
| "dq_step publish (Net f) (acc, c, q) = (acc, f c, q)"

definition dq_run :: "(MqttMessage \<Rightarrow> 'c \<Rightarrow> bool \<times> 'c) \<Rightarrow> 'c dq_op list \<Rightarrow> 'c \<Rightarrow> DiskQueue \<Rightarrow> MqttMessage list \<times> 'c \<times> DiskQueue" where
  "dq_run publish ops c q = fold (dq_step publish) ops ([], c, q)"

text \<open>The client keeps what it accepted, in order, whatever happens to the connection.\<close>

definition keeps_order :: "(MqttMessage \<Rightarrow> 'c \<Rightarrow> bool \<times> 'c) \<Rightarrow> ('c \<Rightarrow> MqttMessage list) \<Rightarrow> bool" where
  "keeps_order publish delivered \<longleftrightarrow>
     (\<forall>m c ok c'. publish m c = (ok, c') \<longrightarrow> delivered c' = (if ok then delivered c @ [m] else delivered c))"

fun op_ok :: "('c \<Rightarrow> MqttMessage list) \<Rightarrow> 64 word \<Rightarrow> 'c dq_op \<Rightarrow> bool" where
  "op_ok delivered mx (Enq ts w m) \<longleftrightarrow> storable w m (DiskQueue_new [] mx)"
| "op_ok delivered mx (Flush k) \<longleftrightarrow> True"
| "op_ok delivered mx (Net f) \<longleftrightarrow> (\<forall>c. delivered (f c) = delivered c)"

definition outbox_inv :: "64 word \<Rightarrow> ('c \<Rightarrow> MqttMessage list) \<Rightarrow> MqttMessage list \<Rightarrow> nat \<Rightarrow> MqttMessage list \<times> 'c \<times> DiskQueue \<Rightarrow> bool" where
  "outbox_inv mx delivered before n = (\<lambda>(acc, c, q). dq_inv q \<and> dq_max_bytes q = mx \<and> unat (dq_seq q) \<le> n \<and>
     delivered c @ messages q = before @ acc)"

lemma dq_step_inv:
  assumes "keeps_order publish delivered" "outbox_inv mx delivered before n x" "op_ok delivered mx p" "Suc n < 2 ^ 64"
  shows "outbox_inv mx delivered before (Suc n) (dq_step publish p x)"
proof -
  obtain acc c q where x: "x = (acc, c, q)" by (cases x)
  have inv: "dq_inv q" "dq_max_bytes q = mx" "unat (dq_seq q) \<le> n" "delivered c @ messages q = before @ acc"
    using assms(2) by (auto simp: x outbox_inv_def)
  show ?thesis
  proof (cases p)
    case (Enq ts w m)
    obtain ok q' where e: "enqueue ts w m q = (ok, q')" by fastforce
    have "unat (dq_seq q + 1) \<noteq> 0" using inv(3) assms(4) unfolding unat_word_ariths(1) by simp
    then have "dq_seq q + 1 \<noteq> 0" by auto
    moreover have "storable w m q" using assms(3) inv(2) by (simp add: Enq storable_def DiskQueue_new_def)
    ultimately show ?thesis
      using enqueue_effect [OF inv(1) _ _ e] inv e by (auto simp: outbox_inv_def x Enq simp flip: append_assoc)
  next
    case (Flush k)
    obtain xs c' where s: "sent_prefix publish k (messages q) c = (xs, c')" by fastforce
    have "delivered c' = delivered c @ xs" using sent_prefix_log [OF _ s, of delivered] assms(1) by (auto simp: keeps_order_def)
    then show ?thesis using try_flush_effect [OF inv(1) s] inv by (auto simp: outbox_inv_def x Flush)
  next
    case (Net f)
    then show ?thesis using inv assms(3) by (auto simp: outbox_inv_def x)
  qed
qed

lemma dq_fold_inv:
  assumes "keeps_order publish delivered" "outbox_inv mx delivered before n x" "list_all (op_ok delivered mx) ops" "n + length ops < 2 ^ 64"
  shows "outbox_inv mx delivered before (n + length ops) (fold (dq_step publish) ops x)"
  using assms(2-)
proof (induction ops arbitrary: n x)
  case (Cons p ops)
  then show ?case using dq_step_inv [OF assms(1) Cons.prems(1), of p] Cons.IH [of "Suc n" "dq_step publish p x"] by simp
qed simp

lemma new_inv: "dq_inv (DiskQueue_new [] mx)" "messages (DiskQueue_new [] mx) = []"
  by (simp_all add: dq_inv_def DiskQueue_new_def usage_def messages_def)


section \<open>Restart\<close>

text \<open>The directory holds the queued files and nothing else.\<close>

definition tidy :: "DiskQueue \<Rightarrow> bool" where
  "tidy q \<longleftrightarrow> distinct (map fst (dq_dir q)) \<and> set (map fst (dq_dir q)) = set (dq_files q) \<and> distinct (dq_files q)"

lemma keys_del: "map fst (del f m) = filter (\<lambda>k. k \<noteq> f) (map fst m)"
  by (induction m) (auto simp: del_def AList.delete_eq)

lemma usage_dir: "distinct (map fst m) \<Longrightarrow> sum_list (map (\<lambda>(n, b). length b) m) =
    sum_list (map (\<lambda>f. case get m f of Some b \<Rightarrow> length b | None \<Rightarrow> 0) (map fst m))"
proof -
  assume d: "distinct (map fst m)"
  have "map (\<lambda>(n, b). length b) m = map (\<lambda>f. case get m f of Some b \<Rightarrow> length b | None \<Rightarrow> 0) (map fst m)"
    using in_set_get [OF d] by (auto simp: comp_def intro!: map_cong)
  then show ?thesis by (simp only:)
qed

lemma tidy_mset: "tidy q \<Longrightarrow> mset (map fst (dq_dir q)) = mset (dq_files q)"
  unfolding tidy_def using set_eq_iff_mset_eq_distinct by blast

text \<open>
  A restart finds the queue again. Where the directory holds just the queued files (no write was cut short), a new queue on
  it has the same messages and the same byte count; the order is the alphabetical one of the file names, hence the same when
  the names were already in that order.
\<close>

theorem restart_restores:
  assumes "dq_inv q" "tidy q" "dq_init True (DiskQueue_new (dq_dir q) mx) = (ok, q')"
  shows "ok \<and> mset (messages q') = mset (messages q) \<and> dq_bytes q' = dq_bytes q \<and> (sorted (dq_files q) \<longrightarrow> messages q' = messages q)"
proof -
  let ?rd = "\<lambda>f. case read_file f (dq_dir q) of Inr (Some m) \<Rightarrow> m | _ \<Rightarrow> MqttMessage_default"
  let ?len = "\<lambda>f. case get (dq_dir q) f of Some b \<Rightarrow> length b | None \<Rightarrow> 0"
  have q': "ok" "dq_files q' = sort (map fst (dq_dir q))" "dq_dir q' = dq_dir q"
    "dq_bytes q' = sum_list (map (\<lambda>(n, b). of_nat (length b)) (dq_dir q))"
    using assms(3) by (auto simp: dq_init_def DiskQueue_new_def)
  have ms: "mset (messages q') = mset (messages q)"
    unfolding messages_def q' mset_map mset_sort using tidy_mset [OF assms(2)] by simp
  have words: "sum_list (map (\<lambda>(n :: string, b :: string). of_nat (length b) :: 64 word) m) = of_nat (sum_list (map (\<lambda>(n, b). length b) m))" for m
    by (induction m) auto
  have "sum_mset (image_mset ?len (mset (map fst (dq_dir q)))) = sum_mset (image_mset ?len (mset (dq_files q)))"
    by (simp only: tidy_mset [OF assms(2)])
  then have "sum_list (map ?len (map fst (dq_dir q))) = usage q"
    unfolding usage_def by (simp only: mset_map [symmetric] sum_mset_sum_list)
  then have "dq_bytes q' = of_nat (usage q)"
    using assms(2) usage_dir [of "dq_dir q"] unfolding q' words tidy_def by simp
  moreover have "usage q = unat (dq_bytes q)" using assms(1) by (simp add: dq_inv_def)
  ultimately have b: "dq_bytes q' = dq_bytes q" by simp
  have "messages q' = messages q" if "sorted (dq_files q)"
  proof -
    have "sort (map fst (dq_dir q)) = dq_files q"
      using assms(2) that by (intro sorted_distinct_set_unique) (auto simp: tidy_def)
    then show ?thesis by (simp add: messages_def q')
  qed
  then show ?thesis using q'(1) ms b by blast
qed

text \<open>Names are compared as text: after a restart the tenth message of a millisecond comes before the ninth.\<close>

theorem restart_reorders:
  assumes "dq_dir q = [(file_name 5 9, a), (file_name 5 10, b)]" "dq_files q = [file_name 5 9, file_name 5 10]"
  shows "dq_files (snd (dq_init True (DiskQueue_new (dq_dir q) mx))) = rev (dq_files q)"
proof -
  have "\<not> file_name 5 9 \<le> file_name 5 10" by code_simp
  then show ?thesis using assms by (simp add: dq_init_def DiskQueue_new_def)
qed

text \<open>A file that cannot be read is dropped, but its bytes stay counted against the limit.\<close>

theorem unreadable_stays_counted:
  assumes "dq_files q = [f]" "read_file f (dq_dir q) = Inr None" "0 < k"
  shows "\<exists>q'. try_flush publish k c q = (Inr True, c, q') \<and> messages q' = [] \<and> get (dq_dir q') f = None \<and> dq_bytes q' = dq_bytes q"
  using assms by (simp add: try_flush_def messages_def)

section \<open>Examples\<close>

definition sample_message :: "string \<Rightarrow> MqttMessage" where
  "sample_message p = \<lparr>mm_topic = ''reg/telemetry'', mm_payload = p, mm_qos = 1, mm_retain = False\<rparr>"

definition whole_write :: write_outcome where
  "whole_write = \<lparr>wo_opened = True, wo_bytes = 100, wo_good = True\<rparr>"

definition sample_publish :: "MqttMessage \<Rightarrow> MqttMessage list \<Rightarrow> bool \<times> MqttMessage list" where
  "sample_publish m ms = (True, ms @ [m])"

lemma sample_storable: "storable whole_write (sample_message ''a'') (DiskQueue_new [] 1000)" "storable whole_write (sample_message ''b'') (DiskQueue_new [] 1000)"
  by (simp_all add: storable_def msg_ok_def honest_def sample_message_def file_text_def header_def whole_write_def DiskQueue_new_def int32_def
      to_string_def dec_nat.simps)


definition sample_queue :: DiskQueue where
  "sample_queue = \<lparr>dq_dir = [(file_name 5 0, file_text (sample_message ''a''))], dq_max_bytes = 1000,
     dq_bytes = of_nat (length (file_text (sample_message ''a''))), dq_seq = 1, dq_files = [file_name 5 0]\<rparr>"

lemma sample_queue_inv: "dq_inv sample_queue" "tidy sample_queue"
proof -
  have m: "msg_ok (sample_message ''a'')" using sample_storable(1) by (simp add: storable_def)
  have l: "length (file_text (sample_message ''a'')) = 20"
    by (simp add: file_text_def header_def sample_message_def to_string_def dec_nat.simps)
  have n: "named_before 1 (file_name 5 0)" by (auto simp: named_before_def)
  then show "dq_inv sample_queue"
    using m by (auto simp: dq_inv_def sample_queue_def l usage_def holds_message_def split: if_splits)
  show "tidy sample_queue" by (simp add: tidy_def sample_queue_def)
qed

theorem restart_restores_witness:
  "messages (snd (dq_init True (DiskQueue_new (dq_dir sample_queue) 1000))) = messages sample_queue"
proof -
  define q' where "q' = snd (dq_init True (DiskQueue_new (dq_dir sample_queue) 1000))"
  have "dq_init True (DiskQueue_new (dq_dir sample_queue) 1000) = (True, q')" by (simp add: q'_def dq_init_def)
  moreover have "sorted (dq_files sample_queue)" by (simp add: sample_queue_def)
  ultimately show ?thesis using restart_restores [OF sample_queue_inv] unfolding q'_def by blast
qed

end
