(* ===== verification/Iot_Client.thy ===== *)
theory Iot_Client
  imports Disk_Queue Journal Persist
begin

text \<open>
  The device's cloud connection: the MQTT interface (\<^verbatim>\<open>src/cloud/mqtt_iface.hpp\<close>) as a record of operations and, for what
  its users rely on, as the locale \<open>mqtt_broker\<close>; the loopback client (\<^verbatim>\<open>mqtt_loopback.cpp\<close>), which interprets it; the device
  shadow (\<^verbatim>\<open>shadow.cpp\<close>, built with the JSON library) and the client that sends telemetry or queues it (\<^verbatim>\<open>iot_client.cpp\<close>). One
  round of the background thread is a step; its sleeps are not modelled.
\<close>

section \<open>The MQTT interface\<close>

record 'c IMqttClient =
  mc_connect :: "'c \<Rightarrow> bool \<times> 'c"
  mc_disconnect :: "'c \<Rightarrow> 'c"
  mc_publish :: "MqttMessage \<Rightarrow> 'c \<Rightarrow> bool \<times> 'c"
  mc_subscribe :: "string \<Rightarrow> int \<Rightarrow> 'c \<Rightarrow> bool \<times> 'c"
  mc_is_connected :: "'c \<Rightarrow> bool"

text \<open>What a client promises: an accepted message is delivered, a refused one is not, and no other operation touches
  what was delivered.\<close>

locale mqtt_broker =
  fixes mq :: "'c IMqttClient"
    and delivered :: "'c \<Rightarrow> MqttMessage list"
  assumes publish_delivers: "mc_publish mq m c = (ok, c') \<Longrightarrow> delivered c' = (if ok then delivered c @ [m] else delivered c)"
    and connect_keeps: "delivered (snd (mc_connect mq c)) = delivered c"
    and disconnect_keeps: "delivered (mc_disconnect mq c) = delivered c"
    and subscribe_keeps: "delivered (snd (mc_subscribe mq t n c)) = delivered c"

section \<open>The loopback client\<close>

text \<open>\<open>lb_calls\<close> records the messages handed to the subscribed callbacks.\<close>

record LoopbackMqttClient =
  lb_online :: bool
  lb_connected :: bool
  lb_subs :: "(string, int) amap"
  lb_published :: "MqttMessage list"
  lb_calls :: "MqttMessage list"

definition LoopbackMqttClient_new :: LoopbackMqttClient where
  "LoopbackMqttClient_new = \<lparr>lb_online = False, lb_connected = False, lb_subs = [], lb_published = [], lb_calls = []\<rparr>"

definition lb_set_online :: "bool \<Rightarrow> LoopbackMqttClient \<Rightarrow> LoopbackMqttClient" where
  "lb_set_online on c = (let c1 = c\<lparr>lb_online := on\<rparr> in if \<not> on then c1\<lparr>lb_connected := False\<rparr> else c1)"

definition lb_connect :: "LoopbackMqttClient \<Rightarrow> bool \<times> LoopbackMqttClient" where
  "lb_connect c = (lb_online c, c\<lparr>lb_connected := lb_online c\<rparr>)"

definition lb_disconnect :: "LoopbackMqttClient \<Rightarrow> LoopbackMqttClient" where
  "lb_disconnect c = c\<lparr>lb_connected := False\<rparr>"

definition lb_publish :: "MqttMessage \<Rightarrow> LoopbackMqttClient \<Rightarrow> bool \<times> LoopbackMqttClient" where
  "lb_publish m c = (if \<not> lb_connected c then (False, c)
     else (True, c\<lparr>lb_published := lb_published c @ [m],
       lb_calls := lb_calls c @ map (\<lambda>_. m) (filter (\<lambda>(topic, sub). topic = mm_topic m) (lb_subs c))\<rparr>))"

definition lb_subscribe :: "string \<Rightarrow> int \<Rightarrow> LoopbackMqttClient \<Rightarrow> bool \<times> LoopbackMqttClient" where
  "lb_subscribe topic_filter qos c = (True, c\<lparr>lb_subs := sput topic_filter qos (lb_subs c)\<rparr>)"

definition loopback :: "LoopbackMqttClient IMqttClient" where
  "loopback = \<lparr>mc_connect = lb_connect, mc_disconnect = lb_disconnect, mc_publish = lb_publish, mc_subscribe = lb_subscribe,
     mc_is_connected = lb_connected\<rparr>"

interpretation lb: mqtt_broker loopback lb_published
  by unfold_locales (auto simp: loopback_def lb_publish_def lb_connect_def lb_disconnect_def lb_subscribe_def split: if_splits)

section \<open>The device shadow\<close>

definition topic_update_delta :: "string \<Rightarrow> string" where
  "topic_update_delta thing = ''$aws/things/'' @ thing @ ''/shadow/update/delta''"

definition topic_update :: "string \<Rightarrow> string" where
  "topic_update thing = ''$aws/things/'' @ thing @ ''/shadow/update''"

text \<open>The parts of a key between its dots.\<close>

fun key_parts :: "string \<Rightarrow> string \<Rightarrow> string list" where
  "key_parts acc [] = [rev acc]"
| "key_parts acc (c # cs) = (if c = CHR ''.'' then rev acc # key_parts [] cs else key_parts (c # acc) cs)"

text \<open>\<^verbatim>\<open>(*cur)[p1]...[pn] = v\<close>; a missing member starts as null.\<close>

fun set_path :: "extern \<Rightarrow> json \<Rightarrow> string list \<Rightarrow> json \<Rightarrow> json result" where
  "set_path ext j [] v = Inr v"
| "set_path ext j (p # ps) v =
     bind_result (if has_key ext j p then idx ext j p else Inr JNull) (\<lambda>sub. bind_result (set_path ext sub ps v) (set_member ext j p))"

text \<open>\<^verbatim>\<open>strtol(v.c_str(), &end, 10)\<close> where the code goes on to test \<^verbatim>\<open>*end\<close>: \<open>None\<close> when something is left over. The value is
  clamped to the range of \<^verbatim>\<open>long\<close>, and an empty text counts as 0.\<close>

definition strtol_all :: "string \<Rightarrow> int option" where
  "strtol_all v =
     (let s = takeWhile (\<lambda>c. c \<noteq> CHR 0x00) v; r = dropWhile is_space s; neg = (r \<noteq> [] \<and> hd r = CHR ''-'');
          body = (if r \<noteq> [] \<and> hd r \<in> {CHR ''-'', CHR ''+''} then tl r else r); ds = takeWhile is_digit body;
          i = (if neg then - int (digits_value ds) else int (digits_value ds))
      in if ds = [] then (if s = [] then Some 0 else None)
         else if dropWhile is_digit body \<noteq> [] then None else Some (max (- (2 ^ 63)) (min (2 ^ 63 - 1) i)))"

definition reported_value :: "string \<Rightarrow> json" where
  "reported_value v = (if v = ''true'' \<or> v = ''false'' then JBool (v = ''true'')
     else case strtol_all v of Some i \<Rightarrow> JInt i | None \<Rightarrow> JStr v)"

fun build_loop :: "extern \<Rightarrow> kv \<Rightarrow> json \<Rightarrow> json result" where
  "build_loop ext [] reported = Inr reported"
| "build_loop ext ((k, v) # kv) reported = bind_result (set_path ext reported (key_parts [] k) (reported_value v)) (build_loop ext kv)"

definition build_reported :: "extern \<Rightarrow> kv \<Rightarrow> string result" where
  "build_reported ext kv = bind_result (build_loop ext kv JNull) (\<lambda>reported.
     bind_result (set_path ext JNull [''state'', ''reported''] reported) (\<lambda>root. Inr (dump ext root)))"

definition desired_value :: "extern \<Rightarrow> json \<Rightarrow> string \<Rightarrow> string \<Rightarrow> kv \<Rightarrow> kv result" where
  "desired_value ext st part name out =
     (if has_key ext st part then bind_result (idx ext st part) (\<lambda>p.
        if has_key ext p name then bind_result (idx ext p name) (\<lambda>v. Inr (sput (part @ ''.'' @ name) (dump ext v) out)) else Inr out)
      else Inr out)"

text \<open>An exception ends the reading; what was read before it is kept.\<close>

definition parse_desired :: "extern \<Rightarrow> string \<Rightarrow> kv" where
  "parse_desired ext text = (case parse ext text of Inl _ \<Rightarrow> [] | Inr j \<Rightarrow>
     if \<not> has_key ext j ''state'' then [] else (case idx ext j ''state'' of Inl _ \<Rightarrow> [] | Inr st \<Rightarrow>
       (case desired_value ext st ''hopper'' ''pulses_per_coin'' [] of Inl _ \<Rightarrow> [] | Inr out \<Rightarrow>
         (case desired_value ext st ''presentation'' ''present_ms'' out of Inl _ \<Rightarrow> out | Inr out' \<Rightarrow> out'))))"

section \<open>The client\<close>

record IoTOptions =
  io_topic_prefix :: string
  io_thing_name :: string
  io_qos :: int
  io_max_queue_bytes :: "64 word"

text \<open>\<open>ic_cb\<close>: a callback is set; \<open>ic_cb_calls\<close>: what it was called with. \<open>ic_thread\<close>: the background thread was started and not joined.\<close>

record 'c IoTClient =
  ic_mqtt :: 'c
  ic_opt :: IoTOptions
  ic_queue :: DiskQueue
  ic_running :: bool
  ic_thread :: bool
  ic_cb :: bool
  ic_cb_calls :: "kv list"

definition IoTClient_new :: "'c \<Rightarrow> IoTOptions \<Rightarrow> (string, string) amap \<Rightarrow> 'c IoTClient" where
  "IoTClient_new c opt dir = \<lparr>ic_mqtt = c, ic_opt = opt, ic_queue = DiskQueue_new dir (io_max_queue_bytes opt), ic_running = False,
     ic_thread = False, ic_cb = False, ic_cb_calls = []\<rparr>"

definition iot_start :: "'c IMqttClient \<Rightarrow> bool \<Rightarrow> 'c IoTClient \<Rightarrow> bool \<times> 'c IoTClient" where
  "iot_start mq dir_ok s =
     (let q = snd (dq_init dir_ok (ic_queue s)); c1 = snd (mc_subscribe mq (topic_update_delta (io_thing_name (ic_opt s))) (io_qos (ic_opt s)) (ic_mqtt s));
          (ok, c2) = mc_connect mq c1
      in (ok, s\<lparr>ic_queue := q, ic_mqtt := c2, ic_running := True, ic_thread := True\<rparr>))"

definition iot_stop :: "'c IMqttClient \<Rightarrow> 'c IoTClient \<Rightarrow> 'c IoTClient" where
  "iot_stop mq s = s\<lparr>ic_running := False, ic_thread := False, ic_mqtt := mc_disconnect mq (ic_mqtt s)\<rparr>"

text \<open>The ending the three publishing operations share: send at once, or queue.\<close>

definition send_or_queue :: "'c IMqttClient \<Rightarrow> int \<Rightarrow> write_outcome \<Rightarrow> MqttMessage \<Rightarrow> 'c IoTClient \<Rightarrow> bool \<times> 'c IoTClient" where
  "send_or_queue mq ts w m s =
     (let (sent, c) = (if mc_is_connected mq (ic_mqtt s) then mc_publish mq m (ic_mqtt s) else (False, ic_mqtt s)); s1 = s\<lparr>ic_mqtt := c\<rparr>
      in if sent then (True, s1) else let (ok, q) = enqueue ts w m (ic_queue s1) in (ok, s1\<lparr>ic_queue := q\<rparr>))"

definition txn_message :: "IoTOptions \<Rightarrow> string \<Rightarrow> string \<Rightarrow> Txn \<Rightarrow> MqttMessage" where
  "txn_message opt ts host t = MqttMessage_default\<lparr>mm_topic := io_topic_prefix opt @ ''/telemetry'', mm_qos := io_qos opt,
     mm_payload := to_json ts host t\<rparr>"

definition publish_txn :: "'c IMqttClient \<Rightarrow> string \<Rightarrow> string \<Rightarrow> int \<Rightarrow> write_outcome \<Rightarrow> Txn \<Rightarrow> 'c IoTClient \<Rightarrow> bool \<times> 'c IoTClient" where
  "publish_txn mq ts host ms w t s = send_or_queue mq ms w (txn_message (ic_opt s) ts host t) s"

definition health_message :: "IoTOptions \<Rightarrow> string \<Rightarrow> MqttMessage" where
  "health_message opt j = \<lparr>mm_topic = io_topic_prefix opt @ ''/telemetry'', mm_payload = j, mm_qos = io_qos opt, mm_retain = False\<rparr>"

definition publish_health :: "'c IMqttClient \<Rightarrow> int \<Rightarrow> write_outcome \<Rightarrow> string \<Rightarrow> 'c IoTClient \<Rightarrow> bool \<times> 'c IoTClient" where
  "publish_health mq ms w j s = send_or_queue mq ms w (health_message (ic_opt s) j) s"

definition set_shadow_callback :: "bool \<Rightarrow> 'c IoTClient \<Rightarrow> 'c IoTClient" where
  "set_shadow_callback cb s = s\<lparr>ic_cb := cb\<rparr>"

definition reported_message :: "extern \<Rightarrow> IoTOptions \<Rightarrow> kv \<Rightarrow> MqttMessage result" where
  "reported_message ext opt kv = bind_result (build_reported ext kv) (\<lambda>p.
     Inr \<lparr>mm_topic = topic_update (io_thing_name opt), mm_payload = p, mm_qos = io_qos opt, mm_retain = False\<rparr>)"

definition publish_reported :: "extern \<Rightarrow> 'c IMqttClient \<Rightarrow> int \<Rightarrow> write_outcome \<Rightarrow> kv \<Rightarrow> 'c IoTClient \<Rightarrow> bool result \<times> 'c IoTClient" where
  "publish_reported ext mq ms w kv s = (case reported_message ext (ic_opt s) kv of Inl e \<Rightarrow> (Inl e, s)
     | Inr m \<Rightarrow> map_prod Inr id (send_or_queue mq ms w m s))"

text \<open>One round of \<^verbatim>\<open>bg_flush_loop_\<close>; an exception out of the flush would end the process.\<close>

definition bg_flush_round :: "'c IMqttClient \<Rightarrow> 'c IoTClient \<Rightarrow> unit result \<times> 'c IoTClient" where
  "bg_flush_round mq s = (if \<not> ic_running s then (Inr (), s)
     else if \<not> mc_is_connected mq (ic_mqtt s) then (Inr (), s\<lparr>ic_mqtt := snd (mc_connect mq (ic_mqtt s))\<rparr>)
     else let (r, c, q) = try_flush (mc_publish mq) 100 (ic_mqtt s) (ic_queue s)
       in (bind_result r (\<lambda>_. Inr ()), s\<lparr>ic_mqtt := c, ic_queue := q\<rparr>))"

definition on_shadow_delta :: "extern \<Rightarrow> 'c IMqttClient \<Rightarrow> int \<Rightarrow> write_outcome \<Rightarrow> MqttMessage \<Rightarrow> 'c IoTClient \<Rightarrow> bool result \<times> 'c IoTClient" where
  "on_shadow_delta ext mq ms w m s =
     (let kv = parse_desired ext (mm_payload m) in
      if kv = [] then (Inr False, s)
      else publish_reported ext mq ms w kv (if ic_cb s then s\<lparr>ic_cb_calls := ic_cb_calls s @ [kv]\<rparr> else s))"

section \<open>Histories\<close>

datatype 'c iot_op = Send_txn string string int write_outcome Txn | Send_health int write_outcome string
  | Send_reported int write_outcome kv | Shadow_delta int write_outcome MqttMessage | Background | Stop | Network "'c \<Rightarrow> 'c"

definition accepted :: "MqttMessage result \<Rightarrow> bool result \<Rightarrow> MqttMessage list" where
  "accepted m r = (case m of Inr x \<Rightarrow> (if r = Inr True then [x] else []) | Inl _ \<Rightarrow> [])"

text \<open>The first component collects the messages whose publishing call answered true.\<close>

fun iot_step :: "extern \<Rightarrow> 'c IMqttClient \<Rightarrow> 'c iot_op \<Rightarrow> MqttMessage list \<times> 'c IoTClient \<Rightarrow> MqttMessage list \<times> 'c IoTClient" where
  "iot_step ext mq (Send_txn ts host ms w t) (acc, s) =
     (let (ok, s') = publish_txn mq ts host ms w t s in (acc @ accepted (Inr (txn_message (ic_opt s) ts host t)) (Inr ok), s'))"
| "iot_step ext mq (Send_health ms w j) (acc, s) =
     (let (ok, s') = publish_health mq ms w j s in (acc @ accepted (Inr (health_message (ic_opt s) j)) (Inr ok), s'))"
| "iot_step ext mq (Send_reported ms w kv) (acc, s) =
     (let (r, s') = publish_reported ext mq ms w kv s in (acc @ accepted (reported_message ext (ic_opt s) kv) r, s'))"
| "iot_step ext mq (Shadow_delta ms w m) (acc, s) =
     (let (r, s') = on_shadow_delta ext mq ms w m s
      in (acc @ accepted (reported_message ext (ic_opt s) (parse_desired ext (mm_payload m))) r, s'))"
| "iot_step ext mq Background (acc, s) = (acc, snd (bg_flush_round mq s))"
| "iot_step ext mq Stop (acc, s) = (acc, iot_stop mq s)"
| "iot_step ext mq (Network f) (acc, s) = (acc, s\<lparr>ic_mqtt := f (ic_mqtt s)\<rparr>)"

definition iot_run :: "extern \<Rightarrow> 'c IMqttClient \<Rightarrow> 'c iot_op list \<Rightarrow> 'c IoTClient \<Rightarrow> MqttMessage list \<times> 'c IoTClient" where
  "iot_run ext mq ops s = fold (iot_step ext mq) ops ([], s)"

text \<open>Every message an operation may send fits the file format and is honestly written; the network does not undo deliveries.\<close>

definition sendable :: "IoTOptions \<Rightarrow> write_outcome \<Rightarrow> MqttMessage result \<Rightarrow> bool" where
  "sendable opt w m \<longleftrightarrow> (case m of Inr x \<Rightarrow> storable w x (DiskQueue_new [] (io_max_queue_bytes opt)) | Inl _ \<Rightarrow> True)"

fun iot_op_ok :: "extern \<Rightarrow> ('c \<Rightarrow> MqttMessage list) \<Rightarrow> IoTOptions \<Rightarrow> 'c iot_op \<Rightarrow> bool" where
  "iot_op_ok ext delivered opt (Send_txn ts host ms w t) \<longleftrightarrow> sendable opt w (Inr (txn_message opt ts host t))"
| "iot_op_ok ext delivered opt (Send_health ms w j) \<longleftrightarrow> sendable opt w (Inr (health_message opt j))"
| "iot_op_ok ext delivered opt (Send_reported ms w kv) \<longleftrightarrow> sendable opt w (reported_message ext opt kv)"
| "iot_op_ok ext delivered opt (Shadow_delta ms w m) \<longleftrightarrow> sendable opt w (reported_message ext opt (parse_desired ext (mm_payload m)))"
| "iot_op_ok ext delivered opt Background \<longleftrightarrow> True"
| "iot_op_ok ext delivered opt Stop \<longleftrightarrow> True"
| "iot_op_ok ext delivered opt (Network f) \<longleftrightarrow> (\<forall>c. delivered (f c) = delivered c)"

definition iot_inv :: "('c \<Rightarrow> MqttMessage list) \<Rightarrow> IoTOptions \<Rightarrow> MqttMessage multiset \<Rightarrow> nat \<Rightarrow> MqttMessage list \<times> 'c IoTClient \<Rightarrow> bool" where
  "iot_inv delivered opt before n = (\<lambda>(acc, s). dq_inv (ic_queue s) \<and> ic_opt s = opt \<and> dq_max_bytes (ic_queue s) = io_max_queue_bytes opt \<and>
     unat (dq_seq (ic_queue s)) \<le> n \<and> mset (delivered (ic_mqtt s)) + mset (messages (ic_queue s)) = before + mset acc)"

lemma iot_invD:
  assumes "iot_inv delivered opt before n (acc, s)"
  shows "dq_inv (ic_queue s)" "ic_opt s = opt" "dq_max_bytes (ic_queue s) = io_max_queue_bytes opt" "unat (dq_seq (ic_queue s)) \<le> n"
    "mset (delivered (ic_mqtt s)) + mset (messages (ic_queue s)) = before + mset acc"
  using assms by (simp_all add: iot_inv_def)

context mqtt_broker
begin

lemma publish_order: "keeps_order (mc_publish mq) delivered"
  using publish_delivers by (auto simp: keeps_order_def)

lemma queue_step:
  assumes "iot_inv delivered opt before n (acc, s)" "storable w m (DiskQueue_new [] (io_max_queue_bytes opt))" "Suc n < 2 ^ 64"
    "delivered c = delivered (ic_mqtt s)" "enqueue ts w m (ic_queue s) = (ok, q)"
  shows "iot_inv delivered opt before (Suc n) (acc @ accepted (Inr m) (Inr ok), s\<lparr>ic_mqtt := c, ic_queue := q\<rparr>)"
proof -
  note inv = iot_invD [OF assms(1)]
  have "unat (dq_seq (ic_queue s) + 1) \<noteq> 0" using inv(4) assms(3) unfolding unat_word_ariths(1) by simp
  then have "dq_seq (ic_queue s) + 1 \<noteq> 0" by auto
  moreover have "storable w m (ic_queue s)" using assms(2) inv(3) by (simp add: storable_def DiskQueue_new_def)
  ultimately show ?thesis
    using enqueue_effect [OF inv(1) _ _ assms(5)] inv assms(4) by (auto simp: iot_inv_def accepted_def)
qed

lemma send_step:
  assumes "iot_inv delivered opt before n (acc, s)" "storable w m (DiskQueue_new [] (io_max_queue_bytes opt))" "Suc n < 2 ^ 64"
    "send_or_queue mq ts w m s = (ok, s')"
  shows "iot_inv delivered opt before (Suc n) (acc @ accepted (Inr m) (Inr ok), s')"
proof -
  note inv = iot_invD [OF assms(1)]
  obtain sent c where c: "(if mc_is_connected mq (ic_mqtt s) then mc_publish mq m (ic_mqtt s) else (False, ic_mqtt s)) = (sent, c)" by fastforce
  then have d: "delivered c = delivered (ic_mqtt s) @ (if sent then [m] else [])"
    using publish_delivers [of m "ic_mqtt s" sent c] by (auto split: if_splits)
  obtain ok' q where e: "enqueue ts w m (ic_queue s) = (ok', q)" by fastforce
  show ?thesis
  proof (cases sent)
    case True
    then have "ok" "s' = s\<lparr>ic_mqtt := c\<rparr>" using assms(4) c by (auto simp: send_or_queue_def)
    then show ?thesis using inv d True by (auto simp: iot_inv_def accepted_def)
  next
    case False
    then have "ok = ok'" "s' = s\<lparr>ic_mqtt := c, ic_queue := q\<rparr>" using assms(4) c e by (auto simp: send_or_queue_def)
    then show ?thesis using queue_step [OF assms(1-3) _ e, of c] d False by simp
  qed
qed

lemma report_step:
  assumes "iot_inv delivered opt before n (acc, s)" "sendable opt w (reported_message ext opt kv)" "Suc n < 2 ^ 64"
    "publish_reported ext mq ts w kv s = (r, s')"
  shows "iot_inv delivered opt before (Suc n) (acc @ accepted (reported_message ext opt kv) r, s')"
proof (cases "reported_message ext opt kv")
  case (Inl e)
  then show ?thesis using assms iot_invD [OF assms(1)] by (auto simp: publish_reported_def accepted_def iot_inv_def)
next
  case (Inr m)
  obtain ok s1 where s1: "send_or_queue mq ts w m s = (ok, s1)" by fastforce
  have "storable w m (DiskQueue_new [] (io_max_queue_bytes opt))" using assms(2) by (simp add: sendable_def Inr)
  from send_step [OF assms(1) this assms(3) s1] show ?thesis
    using assms(4) s1 iot_invD(2) [OF assms(1)] by (auto simp: publish_reported_def Inr)
qed

lemma background_step:
  assumes "iot_inv delivered opt before n (acc, s)"
  shows "\<exists>s'. bg_flush_round mq s = (Inr (), s') \<and> iot_inv delivered opt before n (acc, s')"
proof -
  note inv = iot_invD [OF assms]
  obtain xs c where x: "sent_prefix (mc_publish mq) 100 (messages (ic_queue s)) (ic_mqtt s) = (xs, c)" by fastforce
  have d: "delivered c = delivered (ic_mqtt s) @ xs" by (rule sent_prefix_log [OF publish_delivers x])
  obtain q where q: "try_flush (mc_publish mq) 100 (ic_mqtt s) (ic_queue s) = (Inr (messages q = []), c, q)"
    "messages (ic_queue s) = xs @ messages q" "dq_inv q" "dq_max_bytes q = dq_max_bytes (ic_queue s)" "dq_seq q = dq_seq (ic_queue s)"
    using try_flush_effect [OF inv(1) x] by blast
  have "iot_inv delivered opt before n (acc, s\<lparr>ic_mqtt := c, ic_queue := q\<rparr>)"
    using inv q d by (simp add: iot_inv_def add.assoc)
  moreover have "iot_inv delivered opt before n (acc, s\<lparr>ic_mqtt := snd (mc_connect mq (ic_mqtt s))\<rparr>)"
    using inv connect_keeps by (simp add: iot_inv_def)
  ultimately show ?thesis using q(1) assms by (simp add: bg_flush_round_def)
qed

lemma iot_inv_mono: "iot_inv delivered opt before n x \<Longrightarrow> iot_inv delivered opt before (Suc n) x"
  by (auto simp: iot_inv_def)

lemma iot_step_inv:
  assumes "iot_inv delivered opt before n (acc, s)" "iot_op_ok ext delivered opt p" "Suc n < 2 ^ 64"
  shows "iot_inv delivered opt before (Suc n) (iot_step ext mq p (acc, s))"
proof -
  note inv = iot_invD [OF assms(1)]
  note send = send_step [OF assms(1) _ assms(3)] and report = report_step [OF _ _ assms(3)]
  show ?thesis
  proof (cases p)
    case (Send_txn ts host ms w t)
    then show ?thesis using assms(2) send inv(2) by (auto simp: publish_txn_def sendable_def split: prod.split)
  next
    case (Send_health ms w j)
    then show ?thesis using assms(2) send inv(2) by (auto simp: publish_health_def sendable_def split: prod.split)
  next
    case (Send_reported ms w kv)
    then show ?thesis using assms(2) report [OF assms(1)] inv(2) by (auto split: prod.split)
  next
    case (Shadow_delta ms w m)
    let ?kv = "parse_desired ext (mm_payload m)"
    let ?s = "if ic_cb s then s\<lparr>ic_cb_calls := ic_cb_calls s @ [?kv]\<rparr> else s"
    have s: "iot_inv delivered opt before n (acc, ?s)" using assms(1) by (simp add: iot_inv_def)
    have w: "sendable opt w (reported_message ext opt ?kv)" using assms(2) by (simp add: Shadow_delta)
    obtain r s' where r: "publish_reported ext mq ms w ?kv ?s = (r, s')" by fastforce
    have "accepted x (Inr False) = []" for x by (simp add: accepted_def split: sum.split)
    then show ?thesis
      using report [OF s w r] iot_inv_mono [OF assms(1)] r inv(2)
      by (cases "?kv = []") (simp_all add: on_shadow_delta_def Shadow_delta)
  next
    case Background
    then show ?thesis using background_step [OF assms(1)] iot_inv_mono by fastforce
  next
    case Stop
    then show ?thesis using iot_inv_mono [OF assms(1)] disconnect_keeps by (simp add: iot_stop_def iot_inv_def)
  next
    case (Network f)
    then show ?thesis using iot_inv_mono [OF assms(1)] assms(2) by (simp add: iot_inv_def)
  qed
qed

lemma iot_fold_inv:
  assumes "iot_inv delivered opt before n x" "list_all (iot_op_ok ext delivered opt) ops" "n + length ops < 2 ^ 64"
  shows "iot_inv delivered opt before (n + length ops) (fold (iot_step ext mq) ops x)"
  using assms
proof (induction ops arbitrary: n x)
  case (Cons p ops)
  then show ?case using iot_step_inv [of opt before n "fst x" "snd x" ext p] Cons.IH [of "Suc n" "iot_step ext mq p x"] by simp
qed simp

lemma started_inv:
  assumes "iot_start mq dir_ok (IoTClient_new c0 opt []) = (r, s0)"
  shows "iot_inv delivered opt (mset (delivered c0)) 0 ([], s0)"
proof -
  have "snd (dq_init dir_ok (DiskQueue_new [] (io_max_queue_bytes opt))) = DiskQueue_new [] (io_max_queue_bytes opt)"
    by (simp add: dq_init_def DiskQueue_new_def)
  moreover obtain c1 where c1: "mc_connect mq (snd (mc_subscribe mq (topic_update_delta (io_thing_name opt)) (io_qos opt) c0)) = (r, c1)"
    using assms by (auto simp: iot_start_def IoTClient_new_def split: prod.splits)
  moreover have "delivered c1 = delivered c0"
    using connect_keeps [of "snd (mc_subscribe mq (topic_update_delta (io_thing_name opt)) (io_qos opt) c0)"] c1 subscribe_keeps by simp
  ultimately show ?thesis
    using assms new_inv [of "io_max_queue_bytes opt"]
    by (auto simp: iot_start_def IoTClient_new_def iot_inv_def) (auto simp: DiskQueue_new_def)
qed

end


section \<open>The shadow\<close>

lemma dec_nat_no_nul: "takeWhile (\<lambda>c. c \<noteq> CHR 0x00) (dec_nat n) = dec_nat n"
  by (rule takeWhile_none(1)) (use dec_nat_digits [of "CHR 0x00" n] in \<open>auto simp: is_digit_def\<close>)

lemma dropWhile_dec_nat: "dropWhile is_digit (dec_nat n) = []"
  by (auto dest: dec_nat_digits)

lemma strtol_to_string: "int64 i \<Longrightarrow> strtol_all (to_string i) = Some i"
proof (cases "i < 0")
  case True
  assume "int64 i"
  moreover have "\<not> is_space CHR ''-''" by (simp add: is_space_def)
  ultimately show ?thesis
    using True by (simp add: strtol_all_def to_string_def dropWhile_dec_nat int64_def dec_nat_no_nul Let_def)
next
  case False
  assume "int64 i"
  moreover have "hd (dec_nat (nat i)) \<noteq> CHR ''-''" "hd (dec_nat (nat i)) \<noteq> CHR ''+''"
    using digit_not_special [OF hd_dec_nat [of "nat i"]] by auto
  ultimately show ?thesis
    using False by (simp add: strtol_all_def to_string_def dropWhile_dec_nat int64_def dec_nat_no_nul Let_def)
qed

lemma to_string_not_bool: "to_string i \<noteq> ''true''" "to_string i \<noteq> ''false''"
proof -
  have "CHR ''e'' \<notin> set (to_string i)" using set_to_string [of "CHR ''e''" i] unfolding is_digit_def by fastforce
  then show "to_string i \<noteq> ''true''" "to_string i \<noteq> ''false''" by (metis list.set_intros)+
qed

lemma reported_number: "int64 i \<Longrightarrow> reported_value (to_string i) = JInt i"
  by (simp add: reported_value_def strtol_to_string to_string_not_bool)

text \<open>
  A device reports what it was told: for a shadow delta that asks for a number of pulses per coin and a presentation time,
  the settings handed to the callback are these two, and the message published as reported state carries the same numbers
  in the same places, when the JSON library reads, prints and assigns as documented.
\<close>

theorem shadow_delta_reported:
  assumes "value_laws ext" "idx ext = obj_get" "\<forall>i. dump ext (JInt i) = to_string i" "int64 a" "int64 b"
    "parse ext text = Inr (JObj [(''state'', JObj [(''hopper'', JObj [(''pulses_per_coin'', JInt a)]),
       (''presentation'', JObj [(''present_ms'', JInt b)])])])"
  shows "parse_desired ext text = [(''hopper.pulses_per_coin'', to_string a), (''presentation.present_ms'', to_string b)] \<and>
    reported_message ext opt (parse_desired ext text) = Inr \<lparr>mm_topic = topic_update (io_thing_name opt),
      mm_payload = dump ext (JObj [(''state'', JObj [(''reported'', JObj [(''hopper'', JObj [(''pulses_per_coin'', JInt a)]),
        (''presentation'', JObj [(''present_ms'', JInt b)])])])]), mm_qos = io_qos opt, mm_retain = False\<rparr>"
proof -
  have ext: "has_key ext = json_has" "set_member ext = json_set" using assms(1) by (simp_all add: value_laws_def)
  have p: "parse_desired ext text = [(''hopper.pulses_per_coin'', to_string a), (''presentation.present_ms'', to_string b)]"
    using assms by (simp add: parse_desired_def desired_value_def ext json_has_def obj_get_def)
  have "build_reported ext [(''hopper.pulses_per_coin'', to_string a), (''presentation.present_ms'', to_string b)] =
    Inr (dump ext (JObj [(''state'', JObj [(''reported'', JObj [(''hopper'', JObj [(''pulses_per_coin'', JInt a)]),
      (''presentation'', JObj [(''present_ms'', JInt b)])])])]))"
    using assms(2,4,5) by (simp add: build_reported_def ext json_has_def obj_get_def json_set_def reported_number)
  then show ?thesis using p by (simp add: reported_message_def)
qed

section \<open>Examples\<close>

definition sample_options :: IoTOptions where
  "sample_options = \<lparr>io_topic_prefix = ''reg'', io_thing_name = ''t'', io_qos = 1, io_max_queue_bytes = 1000\<rparr>"

definition sample_delta :: extern where
  "sample_delta = sample_extern\<lparr>parse := (\<lambda>_. Inr (JObj [(''state'', JObj [(''hopper'', JObj [(''pulses_per_coin'', JInt 2)]),
       (''presentation'', JObj [(''present_ms'', JInt 900)])])]))\<rparr>"

theorem shadow_delta_reported_witness:
  "parse_desired sample_delta ''x'' = [(''hopper.pulses_per_coin'', to_string 2), (''presentation.present_ms'', to_string 900)]"
proof -
  have "value_laws sample_delta" "idx sample_delta = obj_get" "\<forall>i. dump sample_delta (JInt i) = to_string i"
    by (simp_all add: sample_delta_def sample_extern_def value_laws_def flat_dump_def)
  moreover have "int64 2" "int64 900" by (simp_all add: int64_def)
  moreover have "parse sample_delta ''x'' = Inr (JObj [(''state'', JObj [(''hopper'', JObj [(''pulses_per_coin'', JInt 2)]),
       (''presentation'', JObj [(''present_ms'', JInt 900)])])])" by (simp add: sample_delta_def)
  ultimately show ?thesis using shadow_delta_reported by blast
qed


end
