(* ===== verification/Ota_Release.thy ===== *)
theory Ota_Release
  imports Prelude "HOL-Library.Product_Lexorder"
begin

text \<open>
  The release service of over-the-air updates (\<^verbatim>\<open>src/ota/release_service.cpp\<close>): publishing and promoting signed
  manifests through the channels dev, pilot and stable, the decision whether a device is offered an update, its audit log, and the
  HTTP routes. Versions are compared as text, as the code does. Metrics and the operational status are not modelled.
\<close>

section \<open>Data\<close>

record SignedReleaseManifest =
  sm_channel :: string
  sm_version :: string
  sm_artifact_url :: string
  sm_sha256 :: string
  sm_sig_ed25519 :: string
  sm_rollout_percent :: int
  sm_min_version :: string
  sm_rollback_protection :: string
  sm_revoked_devices :: "string list"

definition SignedReleaseManifest_default :: SignedReleaseManifest where
  "SignedReleaseManifest_default = \<lparr>sm_channel = ''dev'', sm_version = [], sm_artifact_url = [], sm_sha256 = [], sm_sig_ed25519 = [],
     sm_rollout_percent = 100, sm_min_version = [], sm_rollback_protection = [], sm_revoked_devices = []\<rparr>"

record EligibilityDecision =
  ed_eligible :: bool
  ed_reason :: string
  ed_manifest :: SignedReleaseManifest

definition EligibilityDecision_default :: EligibilityDecision where
  "EligibilityDecision_default = \<lparr>ed_eligible = False, ed_reason = [], ed_manifest = SignedReleaseManifest_default\<rparr>"

definition manifest_to_json :: "SignedReleaseManifest \<Rightarrow> json" where
  "manifest_to_json m = JObj [(''channel'', JStr (sm_channel m)), (''version'', JStr (sm_version m)), (''artifact_url'', JStr (sm_artifact_url m)),
     (''sha256'', JStr (sm_sha256 m)), (''sig_ed25519'', JStr (sm_sig_ed25519 m)), (''rollout_percent'', JInt (sm_rollout_percent m)),
     (''min_version'', JStr (sm_min_version m)), (''rollback_protection'', JStr (sm_rollback_protection m)),
     (''revoked_devices'', JArr (map JStr (sm_revoked_devices m)))]"

definition manifest_from_json :: "extern \<Rightarrow> json \<Rightarrow> SignedReleaseManifest \<Rightarrow> SignedReleaseManifest result" where
  "manifest_from_json ext j m =
     bind_result (value_str ext j ''channel'' (sm_channel m)) (\<lambda>a1.
     bind_result (value_str ext j ''version'' (sm_version m)) (\<lambda>a2.
     bind_result (value_str ext j ''artifact_url'' (sm_artifact_url m)) (\<lambda>a3.
     bind_result (value_str ext j ''sha256'' (sm_sha256 m)) (\<lambda>a4.
     bind_result (value_str ext j ''sig_ed25519'' (sm_sig_ed25519 m)) (\<lambda>a5.
     bind_result (value_int ext j ''rollout_percent'' (sm_rollout_percent m)) (\<lambda>a6.
     bind_result (value_str ext j ''min_version'' (sm_min_version m)) (\<lambda>a7.
     bind_result (value_str ext j ''rollback_protection'' (sm_rollback_protection m)) (\<lambda>a8.
     bind_result (value_strs ext j ''revoked_devices'' (sm_revoked_devices m)) (\<lambda>a9.
     Inr \<lparr>sm_channel = a1, sm_version = a2, sm_artifact_url = a3, sm_sha256 = a4, sm_sig_ed25519 = a5, sm_rollout_percent = a6,
       sm_min_version = a7, sm_rollback_protection = a8, sm_revoked_devices = a9\<rparr>)))))))))"

definition decision_json :: "EligibilityDecision \<Rightarrow> json" where
  "decision_json d = JObj [(''eligible'', JBool (ed_eligible d)), (''reason'', JStr (ed_reason d)), (''manifest'', manifest_to_json (ed_manifest d))]"

record ReleaseService =
  rs_audit_log :: "json list"
  rs_releases :: "(string \<times> string, SignedReleaseManifest) amap"

definition ReleaseService_new :: ReleaseService where
  "ReleaseService_new = \<lparr>rs_audit_log = [], rs_releases = []\<rparr>"

section \<open>Operations\<close>

definition supported_channel :: "string \<Rightarrow> bool" where
  "supported_channel channel \<longleftrightarrow> channel = ''dev'' \<or> channel = ''pilot'' \<or> channel = ''stable''"

definition can_promote :: "string \<Rightarrow> string \<Rightarrow> bool" where
  "can_promote from to \<longleftrightarrow> (from = ''dev'' \<and> to = ''pilot'') \<or> (from = ''pilot'' \<and> to = ''stable'')"

text \<open>\<^verbatim>\<open>Agent::hash_device\<close> and \<^verbatim>\<open>Agent::allow\<close> of \<^verbatim>\<open>agent.cpp\<close>.\<close>

definition hash_device :: "extern \<Rightarrow> string \<Rightarrow> int" where
  "hash_device ext i = uint (std_hash ext i) mod 100"

definition allow :: "int \<Rightarrow> int \<Rightarrow> bool" where
  "allow h percent \<longleftrightarrow> h < percent"

definition rs_publish :: "SignedReleaseManifest \<Rightarrow> ReleaseService \<Rightarrow> bool \<times> ReleaseService" where
  "rs_publish m s = (if \<not> supported_channel (sm_channel m) \<or> sm_version m = [] \<or> sm_sha256 m = [] then (False, s)
     else let m1 = m\<lparr>sm_rollout_percent := max 0 (min 100 (sm_rollout_percent m))\<rparr>
       in (True, s\<lparr>rs_releases := sput (sm_channel m1, sm_version m1) m1 (rs_releases s)\<rparr>))"

definition rs_promote :: "string \<Rightarrow> string \<Rightarrow> string \<Rightarrow> ReleaseService \<Rightarrow> bool \<times> ReleaseService" where
  "rs_promote version from to s = (if \<not> can_promote from to then (False, s)
     else case get (rs_releases s) (from, version) of None \<Rightarrow> (False, s) | Some m \<Rightarrow> rs_publish (m\<lparr>sm_channel := to\<rparr>) s)"

fun newest_loop :: "string \<Rightarrow> (_ \<times> SignedReleaseManifest) list \<Rightarrow> SignedReleaseManifest \<Rightarrow> SignedReleaseManifest" where
  "newest_loop channel [] best = best"
| "newest_loop channel ((k, m) # rest) best = newest_loop channel rest
     (if sm_channel m \<noteq> channel then best else if sm_version best = [] \<or> sm_version m > sm_version best then m else best)"

definition audit_json :: "EligibilityDecision \<Rightarrow> json" where
  "audit_json d = JObj [(''event'', JStr ''ota_eligibility''), (''eligible'', JBool (ed_eligible d)), (''reason'', JStr (ed_reason d)),
     (''channel'', JStr (sm_channel (ed_manifest d))), (''version'', JStr (sm_version (ed_manifest d)))]"

definition rs_audit :: "EligibilityDecision \<Rightarrow> ReleaseService \<Rightarrow> ReleaseService" where
  "rs_audit d s = s\<lparr>rs_audit_log := rs_audit_log s @ [audit_json d]\<rparr>"

definition rs_eligible :: "extern \<Rightarrow> string \<Rightarrow> string \<Rightarrow> string \<Rightarrow> ReleaseService \<Rightarrow> EligibilityDecision \<times> ReleaseService" where
  "rs_eligible ext device_id channel current_version s =
     (let m = newest_loop channel (rs_releases s) SignedReleaseManifest_default; d0 = EligibilityDecision_default\<lparr>ed_manifest := m\<rparr>;
          d = (if sm_version m = [] then d0\<lparr>ed_reason := ''no_release''\<rparr>
            else if device_id \<in> set (sm_revoked_devices m) then d0\<lparr>ed_reason := ''revoked''\<rparr>
            else if sm_version m \<le> current_version then d0\<lparr>ed_reason := ''stale_version''\<rparr>
            else if sm_min_version m \<noteq> [] \<and> current_version < sm_min_version m then d0\<lparr>ed_reason := ''rollback_protection''\<rparr>
            else if \<not> allow (hash_device ext device_id) (sm_rollout_percent m) then d0\<lparr>ed_reason := ''rollout''\<rparr>
            else d0\<lparr>ed_eligible := True, ed_reason := ''eligible''\<rparr>)
      in (d, rs_audit d s))"

section \<open>Routes\<close>

record ota_request =
  or_Authorization :: string
  or_device_id :: string
  or_current_version :: string
  or_body :: string

datatype ota_route = Get_eligible string | Post_release | Post_promote

definition authorized :: "string \<Rightarrow> ota_request \<Rightarrow> bool" where
  "authorized token req \<longleftrightarrow> token = [] \<or> or_Authorization req = ''Bearer '' @ token"

definition ota_reject :: "int \<Rightarrow> string \<Rightarrow> int \<times> json" where
  "ota_reject status reason = (status, JObj [(''ok'', JBool False), (''reason'', JStr reason)])"

definition ok_answer :: "bool \<Rightarrow> string \<Rightarrow> int \<times> json" where
  "ok_answer ok reason = (if ok then 200 else 400, JObj [(''ok'', JBool ok), (''reason'', JStr (if ok then [] else reason))])"

definition post_release :: "extern \<Rightarrow> string \<Rightarrow> ReleaseService \<Rightarrow> ((int \<times> json) \<times> ReleaseService) result" where
  "post_release ext body s = bind_result (parse ext body) (\<lambda>j. bind_result (manifest_from_json ext j SignedReleaseManifest_default) (\<lambda>m.
     let (ok, s1) = rs_publish m s in Inr (ok_answer ok ''invalid_manifest'', s1)))"

definition post_promote :: "extern \<Rightarrow> string \<Rightarrow> ReleaseService \<Rightarrow> ((int \<times> json) \<times> ReleaseService) result" where
  "post_promote ext body s = bind_result (parse ext body) (\<lambda>j.
     bind_result (value_str ext j ''version'' []) (\<lambda>v. bind_result (value_str ext j ''from_channel'' []) (\<lambda>f.
     bind_result (value_str ext j ''to_channel'' []) (\<lambda>t. let (ok, s1) = rs_promote v f t s in Inr (ok_answer ok ''invalid_promotion'', s1)))))"

definition malformed :: "((int \<times> json) \<times> ReleaseService) result \<Rightarrow> ReleaseService \<Rightarrow> (int \<times> json) \<times> ReleaseService" where
  "malformed r s = (case r of Inr x \<Rightarrow> x | Inl _ \<Rightarrow> (ota_reject 400 ''malformed_payload'', s))"

definition ota_serve :: "extern \<Rightarrow> string \<Rightarrow> ota_route \<Rightarrow> ota_request \<Rightarrow> ReleaseService \<Rightarrow> (int \<times> json) \<times> ReleaseService" where
  "ota_serve ext token r req s = (if \<not> authorized token req then (ota_reject 401 ''unauthorized'', s)
     else case r of
       Get_eligible channel \<Rightarrow> let (d, s1) = rs_eligible ext (or_device_id req) channel (or_current_version req) s
         in ((if ed_eligible d then 200 else 409, decision_json d), s1)
     | Post_release \<Rightarrow> malformed (post_release ext (or_body req) s) s
     | Post_promote \<Rightarrow> malformed (post_promote ext (or_body req) s) s)"

section \<open>Properties\<close>

lemma manifest_json_roundtrip: "value_laws ext \<Longrightarrow> manifest_from_json ext (manifest_to_json m) v = Inr m"
  by (simp add: manifest_from_json_def manifest_to_json_def value_back)

definition manifest_ok :: "SignedReleaseManifest \<Rightarrow> bool" where
  "manifest_ok m \<longleftrightarrow> supported_channel (sm_channel m) \<and> sm_version m \<noteq> [] \<and> sm_sha256 m \<noteq> [] \<and> 0 \<le> sm_rollout_percent m \<and> sm_rollout_percent m \<le> 100"

definition rs_inv :: "ReleaseService \<Rightarrow> bool" where
  "rs_inv s \<longleftrightarrow> sorted (map fst (rs_releases s)) \<and> (\<forall>(k, m)\<in>set (rs_releases s). k = (sm_channel m, sm_version m) \<and> manifest_ok m)"

inductive rs_reach :: "extern \<Rightarrow> string \<Rightarrow> ReleaseService \<Rightarrow> bool" for ext token where
  rs_start: "rs_reach ext token ReleaseService_new"
| rs_request: "rs_reach ext token s \<Longrightarrow> rs_reach ext token (snd (ota_serve ext token r req s))"

lemma set_sput: "set (sput k v m) \<subseteq> insert (k, v) (set m)"
  by (induction k v m rule: sput.induct) auto

lemma rs_publish_inv: "rs_inv s \<Longrightarrow> rs_inv (snd (rs_publish m s))"
  using set_sput [of "(sm_channel m, sm_version m)" "m\<lparr>sm_rollout_percent := max 0 (min 100 (sm_rollout_percent m))\<rparr>" "rs_releases s"]
  by (auto simp: rs_inv_def rs_publish_def manifest_ok_def Let_def sorted_sput)

lemma rs_promote_inv: "rs_inv s \<Longrightarrow> rs_inv (snd (rs_promote v f t s))"
  using rs_publish_inv by (simp add: rs_promote_def split: option.split)

lemma rs_audit_inv: "rs_inv (rs_audit d s) \<longleftrightarrow> rs_inv s"
  by (simp add: rs_inv_def rs_audit_def)

lemma rs_serve_inv: "rs_inv s \<Longrightarrow> rs_inv (snd (ota_serve ext token r req s))"
proof (cases r)
  case Post_release
  assume "rs_inv s"
  then show ?thesis using rs_publish_inv [OF \<open>rs_inv s\<close>]
    by (auto simp: ota_serve_def Post_release malformed_def post_release_def bind_result_def split: sum.splits prod.splits) (metis snd_conv)
next
  case Post_promote
  assume "rs_inv s"
  then show ?thesis using rs_promote_inv [OF \<open>rs_inv s\<close>]
    by (auto simp: ota_serve_def Post_promote malformed_def post_promote_def bind_result_def split: sum.splits prod.splits) (metis snd_conv)
qed (simp add: ota_serve_def rs_eligible_def Let_def rs_audit_inv)

lemma rs_reach_inv: "rs_reach ext token s \<Longrightarrow> rs_inv s"
  by (induction rule: rs_reach.induct) (simp_all add: rs_serve_inv, simp add: rs_inv_def ReleaseService_new_def)

definition of_channel :: "string \<Rightarrow> (_ \<times> SignedReleaseManifest) list \<Rightarrow> SignedReleaseManifest list" where
  "of_channel channel ms = filter (\<lambda>m. sm_channel m = channel) (map snd ms)"

lemma newest_loop_max:
  assumes "\<forall>m\<in>set (of_channel channel ms). sm_version m \<noteq> []"
  shows "newest_loop channel ms best \<in> insert best (set (of_channel channel ms)) \<and> sm_version best \<le> sm_version (newest_loop channel ms best) \<and>
    (\<forall>m\<in>set (of_channel channel ms). sm_version m \<le> sm_version (newest_loop channel ms best))"
  using assms
proof (induction ms arbitrary: best)
  case (Cons km ms)
  obtain k m where km: "km = (k, m)" by fastforce
  let ?b = "if sm_channel m \<noteq> channel then best else if sm_version best = [] \<or> sm_version m > sm_version best then m else best"
  have IH: "newest_loop channel ms ?b \<in> insert ?b (set (of_channel channel ms))" "sm_version ?b \<le> sm_version (newest_loop channel ms ?b)"
    "\<forall>m\<in>set (of_channel channel ms). sm_version m \<le> sm_version (newest_loop channel ms ?b)"
    using Cons.IH [of ?b] Cons.prems by (auto simp: of_channel_def)
  have b: "sm_version best \<le> sm_version ?b" "sm_channel m = channel \<Longrightarrow> sm_version m \<le> sm_version ?b" "?b = best \<or> sm_channel m = channel \<and> ?b = m"
    by (auto simp: not_less)
  have loop: "newest_loop channel (km # ms) best = newest_loop channel ms ?b" by (simp add: km)
  define r where "r = newest_loop channel ms ?b"
  have r: "sm_version best \<le> sm_version r" "sm_channel m = channel \<Longrightarrow> sm_version m \<le> sm_version r"
    using b(1,2) IH(2) order_trans unfolding r_def by blast+
  have ch: "set (of_channel channel (km # ms)) = (if sm_channel m = channel then insert m (set (of_channel channel ms)) else set (of_channel channel ms))"
    by (simp add: of_channel_def km)
  have "r \<in> insert best (set (of_channel channel (km # ms)))" using IH(1) b(3) unfolding r_def [symmetric] ch by auto
  moreover have "\<forall>m\<in>set (of_channel channel (km # ms)). sm_version m \<le> sm_version r" using r(2) IH(3) unfolding r_def [symmetric] ch by auto
  ultimately show ?case unfolding loop r_def [symmetric] using r(1) by blast
qed (simp add: of_channel_def)

lemma rs_inv_get:
  assumes "rs_inv s" "distinct (map fst (rs_releases s))"
  shows "m \<in> set (of_channel ch (rs_releases s)) \<longleftrightarrow> get (rs_releases s) (ch, sm_version m) = Some m \<and> sm_channel m = ch"
proof
  assume "m \<in> set (of_channel ch (rs_releases s))"
  then obtain k where k: "(k, m) \<in> set (rs_releases s)" "sm_channel m = ch" by (auto simp: of_channel_def)
  then have "k = (ch, sm_version m)" using assms(1) by (auto simp: rs_inv_def)
  then show "get (rs_releases s) (ch, sm_version m) = Some m \<and> sm_channel m = ch" using k in_set_get [OF assms(2)] by auto
next
  assume "get (rs_releases s) (ch, sm_version m) = Some m \<and> sm_channel m = ch"
  then show "m \<in> set (of_channel ch (rs_releases s))" by (force simp: of_channel_def dest: get_in_set)
qed

lemma distinct_sput: "sorted (map fst m) \<Longrightarrow> distinct (map fst m) \<Longrightarrow> distinct (map fst (sput k v m))"
proof (induction k v m rule: sput.induct)
  case (2 k v k' v' m)
  then show ?case using keys_sput [of k v m] by (auto simp: not_less image_iff)
qed simp

lemma rs_reach_distinct: "rs_reach ext token s \<Longrightarrow> distinct (map fst (rs_releases s))"
proof (induction rule: rs_reach.induct)
  case (rs_request s r req)
  have sorted: "sorted (map fst (rs_releases s))" using rs_reach_inv [OF rs_request.hyps] by (simp add: rs_inv_def)
  have pub: "distinct (map fst (rs_releases (snd (rs_publish m s))))" for m
    using distinct_sput [OF sorted rs_request.IH] rs_request.IH by (simp add: rs_publish_def Let_def)
  then have pro: "distinct (map fst (rs_releases (snd (rs_promote v f t s))))" for v f t
    using rs_request.IH by (simp add: rs_promote_def split: option.split)
  show ?case
  proof (cases r)
    case (Get_eligible ch)
    then show ?thesis using rs_request.IH by (simp add: ota_serve_def rs_eligible_def Let_def rs_audit_def)
  next
    case Post_release
    then show ?thesis using rs_request.IH pub
      by (auto simp: ota_serve_def malformed_def post_release_def bind_result_def split: sum.splits prod.splits) (metis snd_conv)
  next
    case Post_promote
    then show ?thesis using rs_request.IH pro
      by (auto simp: ota_serve_def malformed_def post_promote_def bind_result_def split: sum.splits prod.splits) (metis snd_conv)
  qed
qed (simp add: ReleaseService_new_def)

text \<open>A release of the channel that no other release of it exceeds in text order.\<close>

definition newest :: "string \<Rightarrow> SignedReleaseManifest \<Rightarrow> ReleaseService \<Rightarrow> bool" where
  "newest channel m s \<longleftrightarrow> sm_channel m = channel \<and> get (rs_releases s) (channel, sm_version m) = Some m \<and>
     (\<forall>m'\<in>set (of_channel channel (rs_releases s)). sm_version m' \<le> sm_version m)"

text \<open>
  The update a device is offered, in every state the release service reaches through its routes: the newest release (in text
  order) of the channel asked for, exactly when there is one, it does not name the device as revoked, is above the device's
  version, does not demand a later one, and its rollout percentage is above the device's bucket. Every release
  stored has a supported channel, a version, a digest and a percentage between 0 and 100; a decision changes nothing but the
  audit log, which gains one record.
\<close>

theorem update_offer_iff:
  assumes "rs_reach ext token s" "rs_eligible ext dev ch cur s = (d, s')"
  shows "(ed_eligible d \<longleftrightarrow> (\<exists>m. newest ch m s \<and> dev \<notin> set (sm_revoked_devices m) \<and> cur < sm_version m \<and>
      (sm_min_version m = [] \<or> sm_min_version m \<le> cur) \<and> hash_device ext dev < sm_rollout_percent m \<and> ed_manifest d = m)) \<and>
    (\<forall>k m. get (rs_releases s) k = Some m \<longrightarrow> manifest_ok m \<and> k = (sm_channel m, sm_version m)) \<and>
    rs_releases s' = rs_releases s \<and> rs_audit_log s' = rs_audit_log s @ [audit_json d]"
proof -
  note inv = rs_reach_inv [OF assms(1)] and dist = rs_reach_distinct [OF assms(1)]
  let ?ms = "of_channel ch (rs_releases s)"
  define m where "m = newest_loop ch (rs_releases s) SignedReleaseManifest_default"
  have vs: "\<forall>m\<in>set ?ms. sm_version m \<noteq> []" using inv by (auto simp: rs_inv_def of_channel_def manifest_ok_def)
  have max: "m = SignedReleaseManifest_default \<or> m \<in> set ?ms" "\<forall>m'\<in>set ?ms. sm_version m' \<le> sm_version m"
    using newest_loop_max [OF vs, of SignedReleaseManifest_default] by (auto simp: m_def)
  have new: "newest ch m s \<longleftrightarrow> sm_version m \<noteq> []"
  proof
    assume "sm_version m \<noteq> []"
    then have "m \<in> set ?ms" using max(1) by (auto simp: SignedReleaseManifest_default_def)
    then show "newest ch m s" using max(2) rs_inv_get [OF inv dist] by (auto simp: newest_def)
  qed (use vs rs_inv_get [OF inv dist] in \<open>auto simp: newest_def\<close>)
  let ?d0 = "EligibilityDecision_default\<lparr>ed_manifest := m\<rparr>"
  have d: "d = (if sm_version m = [] then ?d0\<lparr>ed_reason := ''no_release''\<rparr>
      else if dev \<in> set (sm_revoked_devices m) then ?d0\<lparr>ed_reason := ''revoked''\<rparr>
      else if sm_version m \<le> cur then ?d0\<lparr>ed_reason := ''stale_version''\<rparr>
      else if sm_min_version m \<noteq> [] \<and> cur < sm_min_version m then ?d0\<lparr>ed_reason := ''rollback_protection''\<rparr>
      else if \<not> allow (hash_device ext dev) (sm_rollout_percent m) then ?d0\<lparr>ed_reason := ''rollout''\<rparr>
      else ?d0\<lparr>ed_eligible := True, ed_reason := ''eligible''\<rparr>)" 
    using arg_cong [OF assms(2), of fst] unfolding rs_eligible_def m_def Let_def fst_conv by (rule sym)
  have s': "s' = rs_audit d s"
    using arg_cong [OF assms(2), of fst] arg_cong [OF assms(2), of snd] unfolding rs_eligible_def Let_def fst_conv snd_conv by (simp only:)
  have "ed_manifest d = m" unfolding d by simp
  moreover have "ed_eligible d \<longleftrightarrow> sm_version m \<noteq> [] \<and> dev \<notin> set (sm_revoked_devices m) \<and> cur < sm_version m \<and>
      (sm_min_version m = [] \<or> sm_min_version m \<le> cur) \<and> hash_device ext dev < sm_rollout_percent m"
    unfolding d by (simp add: EligibilityDecision_default_def allow_def not_less not_le)
  moreover have "manifest_ok m' \<and> k = (sm_channel m', sm_version m')" if "get (rs_releases s) k = Some m'" for k m'
    using get_in_set [OF that] inv by (auto simp: rs_inv_def)
  ultimately show ?thesis using new s' by (auto simp: rs_audit_def)
qed

text \<open>Text order is not the order of versions: with 1.9.0 and 1.10.0 on a channel, 1.9.0 is what devices are offered.\<close>

theorem textual_version_order:
  assumes "rs_releases s = [((''stable'', ''1.10.0''), a), ((''stable'', ''1.9.0''), b)]" "sm_channel a = ''stable''" "sm_channel b = ''stable''"
    "sm_version a = ''1.10.0''" "sm_version b = ''1.9.0''"
  shows "ed_manifest (fst (rs_eligible ext dev ''stable'' cur s)) = b"
  using assms by (simp add: rs_eligible_def Let_def EligibilityDecision_default_def SignedReleaseManifest_default_def)

definition sample_manifest :: SignedReleaseManifest where
  "sample_manifest = SignedReleaseManifest_default\<lparr>sm_version := ''2.0'', sm_sha256 := ''ab''\<rparr>"

definition sample_releases :: ReleaseService where
  "sample_releases = snd (ota_serve (sample_extern\<lparr>parse := (\<lambda>_. Inr (manifest_to_json sample_manifest))\<rparr>) [] Post_release
     \<lparr>or_Authorization = [], or_device_id = [], or_current_version = [], or_body = []\<rparr> ReleaseService_new)"

lemma sample_releases_eq: "sample_releases = \<lparr>rs_audit_log = [], rs_releases = [((''dev'', ''2.0''), sample_manifest)]\<rparr>"
proof -
  let ?ext = "sample_extern\<lparr>parse := (\<lambda>_. Inr (manifest_to_json sample_manifest))\<rparr>"
  have "value_laws ?ext" using sample_value_laws by (simp add: value_laws_def)
  then have "manifest_from_json ?ext (manifest_to_json sample_manifest) v = Inr sample_manifest" for v by (rule manifest_json_roundtrip)
  then show ?thesis
    by (simp add: sample_releases_def ota_serve_def authorized_def malformed_def post_release_def rs_publish_def supported_channel_def
        sample_manifest_def SignedReleaseManifest_default_def ReleaseService_new_def)
qed

theorem update_offer_iff_witness:
  "ed_eligible (fst (rs_eligible (sample_extern\<lparr>parse := (\<lambda>_. Inr (manifest_to_json sample_manifest))\<rparr>) ''reg-1'' ''dev'' ''1.0'' sample_releases)) \<and>
   ed_manifest (fst (rs_eligible (sample_extern\<lparr>parse := (\<lambda>_. Inr (manifest_to_json sample_manifest))\<rparr>) ''reg-1'' ''dev'' ''1.0'' sample_releases)) = sample_manifest"
proof -
  let ?ext = "sample_extern\<lparr>parse := (\<lambda>_. Inr (manifest_to_json sample_manifest))\<rparr>"
  define x where "x = rs_eligible ?ext ''reg-1'' ''dev'' ''1.0'' sample_releases"
  have r: "rs_reach ?ext [] sample_releases" unfolding sample_releases_def by (rule rs_request [OF rs_start])
  have n: "newest ''dev'' sample_manifest sample_releases"
    by (simp add: newest_def sample_releases_eq of_channel_def) (simp add: sample_manifest_def SignedReleaseManifest_default_def)
  have e: "ed_manifest (fst x) = sample_manifest"
    by (simp add: x_def rs_eligible_def Let_def sample_releases_eq EligibilityDecision_default_def)
       (simp add: sample_manifest_def SignedReleaseManifest_default_def)
  have "''reg-1'' \<notin> set (sm_revoked_devices sample_manifest)" "''1.0'' < sm_version sample_manifest" "sm_min_version sample_manifest = []"
    "hash_device ?ext ''reg-1'' < sm_rollout_percent sample_manifest"
    by (simp_all add: sample_manifest_def SignedReleaseManifest_default_def hash_device_def sample_extern_def)
  then show ?thesis using update_offer_iff [OF r, of "''reg-1''" "''dev''" "''1.0''" "fst x" "snd x"] n e by (auto simp: x_def)
qed

end
