(* ===== verification/Ota_Agent.thy ===== *)
theory Ota_Agent
  imports Ota_Release Persist
begin

text \<open>
  The update agent and the health check after an update (\<^verbatim>\<open>src/ota/agent.cpp\<close>, \<^verbatim>\<open>healthd.cpp\<close>) with the local backend. The
  agent reads the manifest by searching its text, as the code does; the signature check of OpenSSL (\<open>verify_pem\<close>), the other files it reads
  (feed, key, artifact: \<open>files\<close>, empty when missing) and the answer of the health endpoint are inputs. A directory the
  code creates is taken to exist; whether the state file can be opened is an input. Metrics and the operational status are not modelled.
\<close>

section \<open>State and configuration\<close>

record OtaState =
  st_current_version :: string
  st_pending_version :: string
  st_boot_pending :: bool
  st_last_bad :: "string list"

definition OtaState_default :: OtaState where
  "OtaState_default = \<lparr>st_current_version = ''0.0.0'', st_pending_version = [], st_boot_pending = False, st_last_bad = []\<rparr>"

record OtaResult =
  ot_ok :: bool
  ot_reason :: string

record Ota_cfg =
  oc_enable :: bool
  oc_feed_url :: string
  oc_channel :: string
  oc_key_pub :: string
  oc_require_signed :: bool
  oc_thing_name :: string
  oc_client_id :: string

text \<open>The files the agent and the health check write below the state directory.\<close>

record ota_disk =
  od_state :: "string option"
  od_boot_pending :: bool
  od_artifact :: "string option"

text \<open>\<^verbatim>\<open>IOtaBackend\<close>; \<open>ob_install_bundle\<close> gets the bytes of the bundle.\<close>

record 'b IOtaBackend =
  ob_install_bundle :: "string \<Rightarrow> 'b \<Rightarrow> OtaResult \<times> 'b"
  ob_mark_boot_ok :: "'b \<Rightarrow> OtaResult \<times> 'b"
  ob_mark_boot_fail :: "'b \<Rightarrow> OtaResult \<times> 'b"
  ob_boot_env :: "'b \<Rightarrow> string \<times> bool"

text \<open>\<^verbatim>\<open>backend_local.cpp\<close>: the state is the file \<^verbatim>\<open>installed\<close>.\<close>

definition local_backend :: "string option IOtaBackend" where
  "local_backend = \<lparr>ob_install_bundle = (\<lambda>bytes _. (\<lparr>ot_ok = True, ot_reason = []\<rparr>, Some bytes)),
     ob_mark_boot_ok = (\<lambda>b. (\<lparr>ot_ok = True, ot_reason = []\<rparr>, b)), ob_mark_boot_fail = (\<lambda>_. (\<lparr>ot_ok = True, ot_reason = []\<rparr>, None)),
     ob_boot_env = (\<lambda>b. (''A'', b \<noteq> None))\<rparr>"

text \<open>\<^verbatim>\<open>backend_rauc.cpp\<close>: nothing is ever installed.\<close>

definition rauc_backend :: "unit IOtaBackend" where
  "rauc_backend = \<lparr>ob_install_bundle = (\<lambda>_ b. (\<lparr>ot_ok = False, ot_reason = ''rauc not installed''\<rparr>, b)),
     ob_mark_boot_ok = (\<lambda>b. (\<lparr>ot_ok = True, ot_reason = []\<rparr>, b)), ob_mark_boot_fail = (\<lambda>b. (\<lparr>ot_ok = True, ot_reason = []\<rparr>, b)),
     ob_boot_env = (\<lambda>_. ([], False))\<rparr>"

section \<open>The state file\<close>

fun split_at :: "char \<Rightarrow> string \<Rightarrow> string \<Rightarrow> string list" where
  "split_at d acc [] = [rev acc]"
| "split_at d acc (c # cs) = (if c = d then rev acc # split_at d [] cs else split_at d (c # acc) cs)"

definition load_state :: "ota_disk \<Rightarrow> OtaState" where
  "load_state disk =
     (let kv = snd (load_kv (od_state disk) []); s = OtaState_default;
          s1 = (case get kv ''current_version'' of Some v \<Rightarrow> s\<lparr>st_current_version := v\<rparr> | None \<Rightarrow> s);
          s2 = (case get kv ''pending_version'' of Some v \<Rightarrow> s1\<lparr>st_pending_version := v\<rparr> | None \<Rightarrow> s1);
          s3 = (case get kv ''boot_pending'' of Some v \<Rightarrow> s2\<lparr>st_boot_pending := (v = ''1'')\<rparr> | None \<Rightarrow> s2)
      in case get kv ''last_bad'' of Some v \<Rightarrow> s3\<lparr>st_last_bad := st_last_bad s3 @ filter (\<lambda>x. x \<noteq> []) (split_at CHR '','' [] v)\<rparr> | None \<Rightarrow> s3)"

fun join_bad :: "string list \<Rightarrow> string" where
  "join_bad [] = []"
| "join_bad [b] = b"
| "join_bad (b # b' # bs) = b @ '','' @ join_bad (b' # bs)"

definition state_kv :: "OtaState \<Rightarrow> kv" where
  "state_kv s = [(''boot_pending'', if st_boot_pending s then ''1'' else ''0''), (''current_version'', st_current_version s),
     (''last_bad'', join_bad (st_last_bad s)), (''pending_version'', st_pending_version s)]"

definition save_state :: "bool \<Rightarrow> OtaState \<Rightarrow> ota_disk \<Rightarrow> ota_disk" where
  "save_state openable s disk = disk\<lparr>od_state := snd (save_kv openable (od_state disk) (state_kv s))\<rparr>"

section \<open>Reading the manifest\<close>

text \<open>The suffix of a text that starts with the first occurrence of \<open>p\<close>.\<close>

fun found_at :: "string \<Rightarrow> string \<Rightarrow> string option" where
  "found_at p [] = (if p = [] then Some [] else None)"
| "found_at p (c # cs) = (if prefix p (c # cs) then Some (c # cs) else found_at p cs)"

definition extract_string :: "string \<Rightarrow> string \<Rightarrow> string" where
  "extract_string j key = (case found_at (quoted key) j of None \<Rightarrow> [] | Some s1 \<Rightarrow>
     (case found_at '':'' s1 of None \<Rightarrow> [] | Some s2 \<Rightarrow>
     (case found_at [dquote] s2 of None \<Rightarrow> [] | Some s3 \<Rightarrow>
       if dquote \<in> set (tl s3) then takeWhile (\<lambda>c. c \<noteq> dquote) (tl s3) else [])))"

definition extract_stage :: "string \<Rightarrow> string \<Rightarrow> int result" where
  "extract_stage j key = (case found_at (quoted key) j of None \<Rightarrow> Inr 100 | Some s1 \<Rightarrow>
     (case found_at '':'' s1 of None \<Rightarrow> Inr 100 | Some s2 \<Rightarrow> stoi (takeWhile is_digit (tl s2))))"

definition contains_token :: "string \<Rightarrow> string \<Rightarrow> string \<Rightarrow> bool" where
  "contains_token j key token = (token \<noteq> [] \<and> (case found_at (quoted key) j of None \<Rightarrow> False | Some s1 \<Rightarrow>
     if CHR '']'' \<in> set s1 then contains token (takeWhile (\<lambda>c. c \<noteq> CHR '']'') s1)
     else if CHR ''}'' \<in> set s1 then contains token (takeWhile (\<lambda>c. c \<noteq> CHR ''}'') s1) else False))"

text \<open>What is verified: the manifest without its signature member, from the key to the next comma, or to the last brace.\<close>

definition verify_payload :: "string \<Rightarrow> string" where
  "verify_payload manifest = (case found_at (quoted ''sig_ed25519'') manifest of None \<Rightarrow> manifest
     | Some s1 \<Rightarrow>
       let pre = take (length manifest - length s1) manifest in
       if CHR '','' \<in> set s1 then pre @ dropWhile (\<lambda>c. c \<noteq> CHR '','') s1
       else if CHR ''}'' \<in> set s1 then pre @ CHR ''}'' # rev (takeWhile (\<lambda>c. c \<noteq> CHR ''}'') (rev s1)) else pre)"

text \<open>\<^verbatim>\<open>FileManifestFetcher\<close>; another fetcher may be given to the agent.\<close>

definition file_fetch :: "(string \<Rightarrow> string) \<Rightarrow> string \<Rightarrow> OtaResult \<times> string" where
  "file_fetch files url = (if \<not> prefix ''file://'' url then (\<lparr>ot_ok = False, ot_reason = ''bad feed''\<rparr>, [])
     else let manifest = files (drop 7 url) in
       (if manifest = [] then \<lparr>ot_ok = False, ot_reason = ''bad feed''\<rparr> else \<lparr>ot_ok = True, ot_reason = []\<rparr>, manifest))"

definition hex_sha256 :: "extern \<Rightarrow> string \<Rightarrow> string" where
  "hex_sha256 ext data = concat (map hex_byte (SHA256 ext data))"

section \<open>The agent\<close>

record ota_world =
  ow_files :: "string \<Rightarrow> string"
  ow_fetch :: "string \<Rightarrow> OtaResult \<times> string"
  ow_verify_pem :: "string \<Rightarrow> string \<Rightarrow> string \<Rightarrow> bool"
  ow_state_openable :: bool

definition ota_rejected :: "string \<Rightarrow> ota_disk \<times> 'b \<Rightarrow> OtaResult result \<times> ota_disk \<times> 'b" where
  "ota_rejected reason db = (Inr \<lparr>ot_ok = False, ot_reason = reason\<rparr>, db)"

definition device_of :: "Ota_cfg \<Rightarrow> string" where
  "device_of c = (if oc_thing_name c = [] then oc_client_id c else oc_thing_name c)"

definition agent_install ::
  "extern \<Rightarrow> 'b IOtaBackend \<Rightarrow> Ota_cfg \<Rightarrow> ota_world \<Rightarrow> string \<Rightarrow> OtaState \<Rightarrow> ota_disk \<Rightarrow> 'b \<Rightarrow> OtaResult result \<times> ota_disk \<times> 'b" where
  "agent_install ext be c w manifest st disk b =
     (let artifact = extract_string manifest ''artifact_url'' in
      if length artifact < 7 then (Inl Out_of_range, disk, b)
      else
        let data = ow_files w (drop 7 artifact) in
        if hex_sha256 ext data \<noteq> extract_string manifest ''sha256'' then ota_rejected ''sha'' (disk, b)
        else
          let disk1 = disk\<lparr>od_artifact := Some data\<rparr>; (res, b1) = ob_install_bundle be data b in
          if \<not> ot_ok res then ota_rejected (ot_reason res) (disk1, b1)
          else
            let st1 = st\<lparr>st_pending_version := extract_string manifest ''version'', st_boot_pending := True\<rparr>;
                disk2 = (save_state (ow_state_openable w) st1 disk1)\<lparr>od_boot_pending := True\<rparr>
            in (Inr \<lparr>ot_ok = True, ot_reason = []\<rparr>, disk2, b1))"

definition agent_run ::
  "extern \<Rightarrow> 'b IOtaBackend \<Rightarrow> Ota_cfg \<Rightarrow> ota_world \<Rightarrow> ota_disk \<Rightarrow> 'b \<Rightarrow> OtaResult result \<times> ota_disk \<times> 'b" where
  "agent_run ext be c w disk b =
     (if \<not> oc_enable c then ota_rejected ''disabled'' (disk, b)
      else
        let st = load_state disk; (fres, manifest) = ow_fetch w (oc_feed_url c) in
        if \<not> ot_ok fres then ota_rejected (ot_reason fres) (disk, b)
        else
          let channel = extract_string manifest ''channel'' in
          if \<not> supported_channel channel then ota_rejected ''channel'' (disk, b)
          else if channel \<noteq> oc_channel c then ota_rejected ''channel'' (disk, b)
          else if extract_string manifest ''version'' \<le> st_current_version st then ota_rejected ''version'' (disk, b)
          else if contains_token manifest ''revoked_devices'' (device_of c) then ota_rejected ''revoked'' (disk, b)
          else case extract_stage manifest ''rollout_percent'' of
            Inl e \<Rightarrow> (Inl e, disk, b)
          | Inr rollout \<Rightarrow>
            if \<not> allow (hash_device ext (device_of c)) rollout then ota_rejected ''rollout'' (disk, b)
            else if extract_string manifest ''sha256'' = [] then ota_rejected ''sha'' (disk, b)
            else if oc_require_signed c \<and> oc_key_pub c = [] then ota_rejected ''sig_key'' (disk, b)
            else if oc_require_signed c \<and> oc_key_pub c \<noteq> [] \<and>
              \<not> ow_verify_pem w (ow_files w (oc_key_pub c)) (verify_payload manifest) (extract_string manifest ''sig_ed25519'')
            then ota_rejected ''sig'' (disk, b)
            else agent_install ext be c w manifest st disk b)"

section \<open>The health check\<close>

text \<open>\<open>answer\<close> is the status and body of \<^verbatim>\<open>GET /healthz\<close>, \<open>None\<close> when there is none. A port in the URL that is not a number
  makes the check throw before it asks.\<close>

definition url_port :: "string \<Rightarrow> int result" where
  "url_port url = (let host = (case after ''://'' url of Some h \<Rightarrow> h | None \<Rightarrow> url) in case after '':'' host of None \<Rightarrow> Inr 80 | Some p \<Rightarrow> stoi p)"

definition healthy :: "(int \<times> string) option \<Rightarrow> bool" where
  "healthy answer = (case answer of None \<Rightarrow> False | Some (status, body) \<Rightarrow> status = 200 \<and> contains (quoted ''ok'' @ '':true'') body)"

definition healthd_run ::
  "'b IOtaBackend \<Rightarrow> bool \<Rightarrow> string \<Rightarrow> (int \<times> string) option \<Rightarrow> ota_disk \<Rightarrow> 'b \<Rightarrow> OtaResult result \<times> ota_disk \<times> 'b" where
  "healthd_run be openable url answer disk b =
     (let st = load_state disk in
      if \<not> st_boot_pending st then (Inr \<lparr>ot_ok = True, ot_reason = ''no pending''\<rparr>, disk, b)
      else case url_port url of Inl e \<Rightarrow> (Inl e, disk, b)
      | Inr _ \<Rightarrow>
        if healthy answer then
          let b1 = snd (ob_mark_boot_ok be b);
              st1 = st\<lparr>st_current_version := st_pending_version st, st_pending_version := [], st_boot_pending := False\<rparr>
          in (Inr \<lparr>ot_ok = True, ot_reason = []\<rparr>, (save_state openable st1 disk)\<lparr>od_boot_pending := False\<rparr>, b1)
        else
          let b1 = snd (ob_mark_boot_fail be b);
              st1 = (if st_pending_version st \<noteq> [] then st\<lparr>st_last_bad := st_last_bad st @ [st_pending_version st]\<rparr> else st);
              st2 = st1\<lparr>st_pending_version := [], st_boot_pending := False\<rparr>
          in (Inr \<lparr>ot_ok = False, ot_reason = ''fail''\<rparr>, (save_state openable st2 disk)\<lparr>od_boot_pending := False\<rparr>, b1))"

section \<open>What the agent installs\<close>

text \<open>The gates an update passes; \<open>manifest\<close> is what the fetcher returned.\<close>

definition signature_ok :: "Ota_cfg \<Rightarrow> ota_world \<Rightarrow> string \<Rightarrow> bool" where
  "signature_ok c w manifest \<longleftrightarrow> (oc_require_signed c \<longrightarrow> oc_key_pub c \<noteq> [] \<and>
     ow_verify_pem w (ow_files w (oc_key_pub c)) (verify_payload manifest) (extract_string manifest ''sig_ed25519''))"

definition may_install :: "extern \<Rightarrow> Ota_cfg \<Rightarrow> ota_world \<Rightarrow> ota_disk \<Rightarrow> string \<Rightarrow> bool" where
  "may_install ext c w disk manifest \<longleftrightarrow> oc_enable c \<and> supported_channel (oc_channel c) \<and> extract_string manifest ''channel'' = oc_channel c \<and>
     st_current_version (load_state disk) < extract_string manifest ''version'' \<and> \<not> contains_token manifest ''revoked_devices'' (device_of c) \<and>
     (\<exists>p. extract_stage manifest ''rollout_percent'' = Inr p \<and> hash_device ext (device_of c) < p) \<and>
     signature_ok c w manifest \<and> 7 \<le> length (extract_string manifest ''artifact_url'') \<and> extract_string manifest ''sha256'' \<noteq> [] \<and>
     hex_sha256 ext (ow_files w (drop 7 (extract_string manifest ''artifact_url''))) = extract_string manifest ''sha256''"

lemma agent_install_refused:
  assumes "\<not> (7 \<le> length (extract_string manifest ''artifact_url'') \<and>
    hex_sha256 ext (ow_files w (drop 7 (extract_string manifest ''artifact_url''))) = extract_string manifest ''sha256'')"
    "agent_install ext be c w manifest st disk b = (r, disk', b')"
  shows "disk' = disk \<and> b' = b \<and> r \<noteq> Inr \<lparr>ot_ok = True, ot_reason = []\<rparr>"
  using assms by (auto simp: agent_install_def ota_rejected_def Let_def split: if_splits)

lemma agent_run_stages:
  assumes "ow_fetch w (oc_feed_url c) = (fres, manifest)" "ot_ok fres"
  shows "agent_run ext be c w disk b = agent_install ext be c w manifest (load_state disk) disk b \<and> oc_enable c \<and> supported_channel (oc_channel c) \<and>
      extract_string manifest ''channel'' = oc_channel c \<and> st_current_version (load_state disk) < extract_string manifest ''version'' \<and>
      \<not> contains_token manifest ''revoked_devices'' (device_of c) \<and>
      (\<exists>p. extract_stage manifest ''rollout_percent'' = Inr p \<and> hash_device ext (device_of c) < p) \<and> signature_ok c w manifest \<and>
      extract_string manifest ''sha256'' \<noteq> [] \<or>
    (\<exists>r. agent_run ext be c w disk b = (r, disk, b) \<and> r \<noteq> Inr \<lparr>ot_ok = True, ot_reason = []\<rparr> \<and> \<not> may_install ext c w disk manifest)"
proof (cases "oc_enable c \<and> supported_channel (oc_channel c) \<and> extract_string manifest ''channel'' = oc_channel c \<and>
    st_current_version (load_state disk) < extract_string manifest ''version'' \<and> \<not> contains_token manifest ''revoked_devices'' (device_of c)")
  case True
  show ?thesis
  proof (cases "extract_stage manifest ''rollout_percent''")
    case (Inl e)
    then show ?thesis using True assms by (simp add: agent_run_def may_install_def not_le [symmetric])
  next
    case (Inr p)
    then have "agent_run ext be c w disk b =
      (if \<not> hash_device ext (device_of c) < p then ota_rejected ''rollout'' (disk, b)
       else if extract_string manifest ''sha256'' = [] then ota_rejected ''sha'' (disk, b)
       else if oc_require_signed c \<and> oc_key_pub c = [] then ota_rejected ''sig_key'' (disk, b)
       else if \<not> signature_ok c w manifest then ota_rejected ''sig'' (disk, b)
       else agent_install ext be c w manifest (load_state disk) disk b)"
      using True assms by (simp add: agent_run_def allow_def signature_ok_def not_le [symmetric])
    then show ?thesis using True Inr by (auto simp: ota_rejected_def may_install_def signature_ok_def)
  qed
next
  case False
  then have "agent_run ext be c w disk b = ota_rejected (if \<not> oc_enable c then ''disabled''
      else if \<not> supported_channel (extract_string manifest ''channel'') \<or> extract_string manifest ''channel'' \<noteq> oc_channel c then ''channel''
      else if extract_string manifest ''version'' \<le> st_current_version (load_state disk) then ''version'' else ''revoked'') (disk, b)"
    using assms by (simp add: agent_run_def Let_def)
  moreover have "\<not> may_install ext c w disk manifest" using False by (auto simp: may_install_def)
  ultimately show ?thesis by (simp add: ota_rejected_def)
qed

text \<open>
  C15. What the update agent installs, for a manifest its fetcher delivered: when updates are enabled, the manifest is for the
  configured channel, its version is above the current one (in text order), it does not revoke the device, its rollout percentage is above
  the device's bucket, its signature is valid (where one is required) and the artifact has the digest it names,
  then the backend is given exactly that artifact, and on its success the version is recorded as pending; in every other case
  the backend is not called, no file is written and the answer is not success.
\<close>

theorem agent_gates:
  assumes "ow_fetch w (oc_feed_url c) = (fres, manifest)" "ot_ok fres" "agent_run ext be c w disk b = (r, disk', b')"
  shows "if may_install ext c w disk manifest
    then (case ob_install_bundle be (ow_files w (drop 7 (extract_string manifest ''artifact_url''))) b of (res, b1) \<Rightarrow>
      b' = b1 \<and> (r = Inr \<lparr>ot_ok = True, ot_reason = []\<rparr> \<longleftrightarrow> ot_ok res) \<and>
      (ot_ok res \<and> ow_state_openable w \<longrightarrow> od_boot_pending disk' \<and>
        od_state disk' = Some (kv_text (state_kv ((load_state disk)\<lparr>st_pending_version := extract_string manifest ''version'', st_boot_pending := True\<rparr>)))) \<and>
      (\<not> ot_ok res \<longrightarrow> od_state disk' = od_state disk))
    else disk' = disk \<and> b' = b \<and> r \<noteq> Inr \<lparr>ot_ok = True, ot_reason = []\<rparr>"
proof (cases "may_install ext c w disk manifest")
  case True
  then have "agent_install ext be c w manifest (load_state disk) disk b = (r, disk', b')"
    using agent_run_stages [OF assms(1,2), of ext be disk b] assms(3) by auto
  moreover obtain res b1 where i: "ob_install_bundle be (ow_files w (drop 7 (extract_string manifest ''artifact_url''))) b = (res, b1)" by fastforce
  moreover have "7 \<le> length (extract_string manifest ''artifact_url'')"
    "hex_sha256 ext (ow_files w (drop 7 (extract_string manifest ''artifact_url''))) = extract_string manifest ''sha256''"
    using True by (simp_all add: may_install_def)
  ultimately show ?thesis using True
    by (cases "ot_ok res") (auto simp: agent_install_def ota_rejected_def save_state_def save_kv_def not_less Let_def)
next
  case False
  then show ?thesis
    using agent_run_stages [OF assms(1,2), of ext be disk b] agent_install_refused [of manifest ext w be c "load_state disk" disk b r disk' b'] assms(3)
    by (auto simp: may_install_def)
qed

section \<open>The state over updates\<close>

definition one_line :: "string \<Rightarrow> bool" where
  "one_line v \<longleftrightarrow> CHR 0x0A \<notin> set v"

definition state_ok :: "OtaState \<Rightarrow> bool" where
  "state_ok s \<longleftrightarrow> one_line (st_current_version s) \<and> one_line (st_pending_version s) \<and> list_all one_line (st_last_bad s)"

lemma one_line_join: "list_all one_line bs \<Longrightarrow> one_line (join_bad bs)"
  by (induction bs rule: join_bad.induct) (auto simp: one_line_def)

lemma one_line_split: "one_line acc \<Longrightarrow> one_line v \<Longrightarrow> list_all one_line (split_at d acc v)"
  by (induction d acc v rule: split_at.induct) (auto simp: one_line_def)

lemma one_line_Nil [simp]: "one_line []"
  by (simp add: one_line_def)

lemma one_line_flag: "one_line ''1''" "one_line ''0''"
  by (simp_all add: one_line_def)

text \<open>What is read from a file never holds a line break.\<close>

lemma file_lines_one_line: "one_line acc \<Longrightarrow> list_all one_line (file_lines acc s)"
  by (induction acc s rule: file_lines.induct) (auto simp: one_line_def)

lemma kv_line_one_line: "kv_line l = Some (k, v) \<Longrightarrow> one_line l \<Longrightarrow> one_line v"
  unfolding kv_line_def one_line_def by (auto split: list.splits) (metis list.set_intros(2) set_dropWhileD)

lemma load_lines_one_line:
  "list_all one_line ls \<Longrightarrow> \<forall>k v. get out k = Some v \<longrightarrow> one_line v \<Longrightarrow> get (load_lines ls out) k = Some v \<Longrightarrow> one_line v"
proof (induction ls arbitrary: out)
  case (Cons l ls)
  show ?case
  proof (cases "kv_line l")
    case None
    then show ?thesis using Cons by simp
  next
    case (Some kv)
    obtain k' v' where kv: "kv = (k', v')" by fastforce
    have "one_line v'" using kv_line_one_line [of l k' v'] Some Cons.prems(1) by (simp add: kv)
    then show ?thesis using Cons.IH [of "put k' v' out"] Cons.prems Some by (auto simp: kv split: if_splits)
  qed
qed auto

lemma loaded_one_line: "get (snd (load_kv file [])) k = Some v \<Longrightarrow> one_line v"
  using load_lines_one_line [OF file_lines_one_line, of "[]" "[]"] by (auto simp: load_kv_def split: option.splits)

lemma load_state_ok: "state_ok (load_state disk)"
proof -
  have "list_all one_line (filter (\<lambda>x. x \<noteq> []) (split_at CHR '','' [] v))" if "one_line v" for v
    using one_line_split [OF _ that, of "[]" "CHR '',''"] by (auto simp: list_all_iff)
  then show ?thesis
    using loaded_one_line [of "od_state disk"]
    by (auto simp: load_state_def state_ok_def OtaState_default_def Let_def one_line_def split: option.splits)
qed

lemma load_saved:
  assumes "state_ok s"
  shows "st_current_version (load_state (save_state True s disk)) = st_current_version s"
    "st_pending_version (load_state (save_state True s disk)) = st_pending_version s"
    "st_boot_pending (load_state (save_state True s disk)) = st_boot_pending s"
proof -
  have ok: "kv_ok (state_kv s)"
    using assms one_line_join one_line_flag by (auto simp: kv_ok_def state_kv_def state_ok_def one_line_def)
  have g: "get (snd (load_kv (Some (kv_text (state_kv s))) [])) k = get (state_kv s) k" for k
    using load_lines_kv_text [of "state_kv s" "[]"] get_foldl_put [of "state_kv s" "[]" k] ok
    by (auto simp: kv_ok_def load_kv_def split: option.splits)
  define kv where "kv = snd (load_kv (od_state (save_state True s disk)) [])"
  have "kv = snd (load_kv (Some (kv_text (state_kv s))) [])" by (simp add: kv_def save_state_def save_kv_def)
  then have kv: "get kv ''current_version'' = Some (st_current_version s)" "get kv ''pending_version'' = Some (st_pending_version s)"
    "get kv ''boot_pending'' = Some (if st_boot_pending s then ''1'' else ''0'')" "get kv ''last_bad'' = Some (join_bad (st_last_bad s))"
    using g by (simp_all add: state_kv_def)
  show "st_current_version (load_state (save_state True s disk)) = st_current_version s"
    "st_pending_version (load_state (save_state True s disk)) = st_pending_version s"
    "st_boot_pending (load_state (save_state True s disk)) = st_boot_pending s"
    unfolding load_state_def kv_def [symmetric] by (simp_all add: kv Let_def)
qed

lemma load_state_cong: "od_state d = od_state d' \<Longrightarrow> load_state d = load_state d'"
  by (simp add: load_state_def)

lemma load_state_unsaved: "load_state (save_state False s disk) = load_state disk"
  by (rule load_state_cong) (simp add: save_state_def save_kv_def)

lemma load_state_flags [simp]: "load_state (disk\<lparr>od_boot_pending := p\<rparr>) = load_state disk" "load_state (disk\<lparr>od_artifact := a\<rparr>) = load_state disk"
  by (rule load_state_cong, simp)+

text \<open>An update waits for its first start only if it is above the running version.\<close>

definition climbing :: "ota_disk \<Rightarrow> bool" where
  "climbing disk \<longleftrightarrow> (st_boot_pending (load_state disk) \<longrightarrow> st_current_version (load_state disk) < st_pending_version (load_state disk))"

definition version_of_feed :: "ota_world \<Rightarrow> Ota_cfg \<Rightarrow> string" where
  "version_of_feed w c = extract_string (snd (ow_fetch w (oc_feed_url c))) ''version''"

lemma agent_run_climbs:
  assumes "climbing disk" "one_line (version_of_feed w c)" "agent_run ext be c w disk b = (r, disk', b')"
  shows "climbing disk' \<and> st_current_version (load_state disk') = st_current_version (load_state disk)"
proof -
  obtain fres manifest where f: "ow_fetch w (oc_feed_url c) = (fres, manifest)" by fastforce
  show ?thesis
  proof (cases "ot_ok fres \<and> may_install ext c w disk manifest")
    case True
    let ?st = "(load_state disk)\<lparr>st_pending_version := extract_string manifest ''version'', st_boot_pending := True\<rparr>"
    have ok: "state_ok ?st" using load_state_ok [of disk] assms(2) f by (simp add: state_ok_def version_of_feed_def)
    have run: "agent_install ext be c w manifest (load_state disk) disk b = (r, disk', b')"
      using agent_run_stages [OF f, of ext be disk b] assms(3) True by auto
    obtain res b1 where i: "ob_install_bundle be (ow_files w (drop 7 (extract_string manifest ''artifact_url''))) b = (res, b1)" by fastforce
    have "disk' = disk\<lparr>od_artifact := Some (ow_files w (drop 7 (extract_string manifest ''artifact_url'')))\<rparr> \<or>
      disk' = (save_state (ow_state_openable w) ?st (disk\<lparr>od_artifact := Some (ow_files w (drop 7 (extract_string manifest ''artifact_url'')))\<rparr>))\<lparr>od_boot_pending := True\<rparr>"
      using run i True by (cases "ot_ok res") (auto simp: agent_install_def ota_rejected_def Let_def may_install_def)
    moreover have "st_current_version (load_state disk) < extract_string manifest ''version''" using True by (simp add: may_install_def)
    ultimately show ?thesis
      using assms(1) load_saved [OF ok] by (cases "ow_state_openable w") (auto simp: climbing_def load_state_unsaved)
  next
    case False
    then have "disk' = disk"
      using agent_gates [OF f _ assms(3)] assms(3) f by (cases "ot_ok fres") (auto simp: agent_run_def ota_rejected_def split: if_splits)
    then show ?thesis using assms(1) by simp
  qed
qed

lemma healthd_run_climbs:
  assumes "climbing disk" "healthd_run be openable url answer disk b = (r, disk', b')"
  shows "climbing disk' \<and> st_current_version (load_state disk) \<le> st_current_version (load_state disk')"
proof -
  let ?st = "load_state disk"
  let ?up = "?st\<lparr>st_current_version := st_pending_version ?st, st_pending_version := [], st_boot_pending := False\<rparr>"
  let ?bad = "(if st_pending_version ?st \<noteq> [] then ?st\<lparr>st_last_bad := st_last_bad ?st @ [st_pending_version ?st]\<rparr> else ?st)
    \<lparr>st_pending_version := [], st_boot_pending := False\<rparr>"
  have ok: "state_ok ?up" "state_ok ?bad" using load_state_ok [of disk] by (auto simp: state_ok_def)
  consider "disk' = disk" | "st_boot_pending ?st" "disk' = (save_state openable ?up disk)\<lparr>od_boot_pending := False\<rparr>"
    | "disk' = (save_state openable ?bad disk)\<lparr>od_boot_pending := False\<rparr>"
    using assms(2) unfolding healthd_run_def Let_def by (auto split: if_splits sum.splits)
  then show ?thesis
  proof cases
    case 2
    then show ?thesis using assms(1) load_saved [OF ok(1)] by (cases openable) (auto simp: climbing_def load_state_unsaved)
  next
    case 3
    then show ?thesis using assms(1) load_saved [OF ok(2)] by (cases openable) (auto simp: climbing_def load_state_unsaved)
  qed (use assms(1) in simp)
qed

datatype ota_op = Run_agent Ota_cfg ota_world | Run_healthd bool string "(int \<times> string) option"

fun ota_step :: "extern \<Rightarrow> 'b IOtaBackend \<Rightarrow> ota_op \<Rightarrow> ota_disk \<times> 'b \<Rightarrow> ota_disk \<times> 'b" where
  "ota_step ext be (Run_agent c w) (disk, b) = snd (agent_run ext be c w disk b)"
| "ota_step ext be (Run_healthd openable url answer) (disk, b) = snd (healthd_run be openable url answer disk b)"

fun ota_op_ok :: "ota_op \<Rightarrow> bool" where
  "ota_op_ok (Run_agent c w) \<longleftrightarrow> one_line (version_of_feed w c)"
| "ota_op_ok (Run_healthd openable url answer) \<longleftrightarrow> True"

text \<open>
  An installed device never goes back: over any sequence of agent and health check runs, with whatever feeds, answers and
  failures to write the state file, from a state in which no lower version waits to be started (such as no state file at
  all), the current version read from the state file only grows in text order, provided the versions the feeds
  name hold no line break.
\<close>

theorem versions_never_decrease:
  assumes "climbing disk" "list_all ota_op_ok ops" "fold (ota_step ext be) ops (disk, b) = (disk', b')"
  shows "climbing disk' \<and> st_current_version (load_state disk) \<le> st_current_version (load_state disk')"
  using assms
proof (induction ops arbitrary: disk b)
  case (Cons p ops)
  obtain d1 b1 where s: "ota_step ext be p (disk, b) = (d1, b1)" by fastforce
  have "climbing d1 \<and> st_current_version (load_state disk) \<le> st_current_version (load_state d1)"
  proof (cases p)
    case (Run_agent c w)
    then show ?thesis using agent_run_climbs [OF Cons.prems(1), of w c ext be b "fst (agent_run ext be c w disk b)" d1 b1] s Cons.prems(2)
      by (simp add: prod_eq_iff)
  next
    case (Run_healthd openable url answer)
    then show ?thesis
      using healthd_run_climbs [OF Cons.prems(1), of be openable url answer b "fst (healthd_run be openable url answer disk b)" d1 b1] s
      by (simp add: prod_eq_iff)
  qed
  then show ?case using Cons.IH [of d1 b1] Cons.prems s by (auto intro: order_trans)
qed simp

section \<open>What the agent does not protect\<close>

lemma found_skip_char: "x \<noteq> dquote \<Longrightarrow> found_at (quoted k) (x # s) = found_at (quoted k) s"
  by (simp add: quoted_def)

lemma found_skip_plain: "dquote \<notin> set v \<Longrightarrow> found_at (quoted k) (v @ s) = found_at (quoted k) s"
proof (induction v)
  case (Cons x v)
  then show ?case using found_skip_char [of x k "v @ s"] by (auto simp del: found_at.simps)
qed simp

lemma quoted_prefix: "dquote \<notin> set k \<Longrightarrow> dquote \<notin> set v \<Longrightarrow> prefix (k @ [dquote]) (v @ dquote # s) \<longleftrightarrow> k = v"
proof (induction k arbitrary: v)
  case Nil
  then show ?case by (cases v) auto
next
  case (Cons c k)
  then show ?case by (cases v) auto
qed

lemma found_skip_text:
  assumes "dquote \<notin> set k" "dquote \<notin> set v" "v \<noteq> k" "k \<noteq> []" "x \<noteq> dquote" "x \<noteq> hd k"
  shows "found_at (quoted k) (quoted v @ x # s) = found_at (quoted k) s"
proof -
  have "\<not> prefix (quoted k) (dquote # v @ dquote # x # s)"
    using quoted_prefix [OF assms(1,2), of "x # s"] assms(3) by (simp add: quoted_def)
  moreover have "\<not> prefix (quoted k) (dquote # x # s)" using assms(4,6) by (cases k) (auto simp: quoted_def)
  ultimately show ?thesis
    using found_skip_plain [OF assms(2), of k "dquote # x # s"] assms(5) by (simp add: quoted_def found_skip_char)
qed

lemma found_key: "found_at (quoted k) (quoted k @ s) = Some (quoted k @ s)"
  by (simp add: quoted_def)

lemma found_char: "c \<notin> set u \<Longrightarrow> found_at [c] (u @ c # s) = Some (c # s)"
  by (induction u) auto

lemma extract_hit:
  assumes "found_at (quoted k) j = Some (quoted k @ CHR '':'' # quoted v @ s)" "CHR '':'' \<notin> set k" "dquote \<notin> set v"
  shows "extract_string j k = v"
proof -
  have "found_at '':'' (quoted k @ CHR '':'' # quoted v @ s) = Some (CHR '':'' # quoted v @ s)"
    using assms(2) by (intro found_char) (simp add: quoted_def)
  moreover have "found_at [dquote] (CHR '':'' # quoted v @ s) = Some (dquote # v @ dquote # s)" by (simp add: quoted_def)
  moreover have "takeWhile (\<lambda>c. c \<noteq> dquote) (v @ dquote # s) = v" using assms(3) by (induction v) auto
  ultimately show ?thesis using assms(1) by (simp add: extract_string_def)
qed

lemma payload_cut:
  assumes "CHR '','' \<notin> set u"
  shows "verify_payload (''{'' @ quoted ''sig_ed25519'' @ u @ CHR '','' # rest) = ''{'' @ CHR '','' # rest"
proof -
  have f: "found_at (quoted ''sig_ed25519'') (''{'' @ quoted ''sig_ed25519'' @ u @ CHR '','' # rest) = Some (quoted ''sig_ed25519'' @ u @ CHR '','' # rest)"
    by (simp add: quoted_def)
  have "CHR '','' \<notin> set (quoted ''sig_ed25519'' @ u)" using assms by (simp add: quoted_def)
  then have "dropWhile (\<lambda>c. c \<noteq> CHR '','') ((quoted ''sig_ed25519'' @ u) @ CHR '','' # rest) = CHR '','' # rest"
    by (subst dropWhile_append2) auto
  then show ?thesis using f by (simp add: verify_payload_def Let_def)
qed

definition signed_manifest :: "string \<Rightarrow> string \<Rightarrow> string" where
  "signed_manifest sig rest = ''{'' @ quoted ''sig_ed25519'' @ CHR '':'' # quoted sig @ CHR '','' # rest"

definition forged_manifest :: "string \<Rightarrow> string \<Rightarrow> string \<Rightarrow> string \<Rightarrow> string \<Rightarrow> string" where
  "forged_manifest sig version url sha rest = ''{'' @ quoted ''sig_ed25519'' @ CHR '':'' # quoted sig @ CHR '' '' #
     quoted ''version'' @ CHR '':'' # quoted version @ CHR '' '' # quoted ''artifact_url'' @ CHR '':'' # quoted url @ CHR '' '' #
     quoted ''sha256'' @ CHR '':'' # quoted sha @ CHR '','' # rest"

definition token :: "string \<Rightarrow> bool" where
  "token v \<longleftrightarrow> dquote \<notin> set v \<and> CHR '','' \<notin> set v \<and> v \<notin> {''version'', ''artifact_url'', ''sha256''}"

text \<open>
  The signature does not bind the manifest. From a manifest that begins with its signature, anybody can make one by
  inserting, before the first comma, a version, an artifact address and a digest of his own choice: the text whose signature is checked and
  the signature stay the same, but the agent reads the inserted version, address and digest.
\<close>

theorem signature_not_binding:
  assumes "token sig" "token version" "token url" "token sha"
  shows "verify_payload (forged_manifest sig version url sha rest) = verify_payload (signed_manifest sig rest) \<and>
    extract_string (forged_manifest sig version url sha rest) ''sig_ed25519'' = extract_string (signed_manifest sig rest) ''sig_ed25519'' \<and>
    extract_string (forged_manifest sig version url sha rest) ''version'' = version \<and>
    extract_string (forged_manifest sig version url sha rest) ''artifact_url'' = url \<and>
    extract_string (forged_manifest sig version url sha rest) ''sha256'' = sha"
proof -
  note t = assms [unfolded token_def]
  let ?f = "forged_manifest sig version url sha rest"
  have "verify_payload ?f = ''{'' @ CHR '','' # rest" "verify_payload (signed_manifest sig rest) = ''{'' @ CHR '','' # rest"
    using t payload_cut [of "CHR '':'' # quoted sig" rest]
      payload_cut [of "CHR '':'' # quoted sig @ CHR '' '' # quoted ''version'' @ CHR '':'' # quoted version @ CHR '' '' #
        quoted ''artifact_url'' @ CHR '':'' # quoted url @ CHR '' '' # quoted ''sha256'' @ CHR '':'' # quoted sha" rest]
    by (simp_all add: forged_manifest_def signed_manifest_def quoted_def)
  moreover have sig: "found_at (quoted ''sig_ed25519'') (CHR ''{'' # quoted ''sig_ed25519'' @ x) = Some (quoted ''sig_ed25519'' @ x)" for x
    by (simp add: found_skip_char found_key del: found_at.simps)
  have "extract_string ?f ''sig_ed25519'' = sig" "extract_string (signed_manifest sig rest) ''sig_ed25519'' = sig"
    using t extract_hit [OF sig [of "CHR '':'' # quoted sig @ _"]] by (simp_all add: forged_manifest_def signed_manifest_def)
  moreover note skip = found_skip_char found_skip_text found_key
  have "found_at (quoted ''version'') ?f = Some (quoted ''version'' @ CHR '':'' # quoted version @ CHR '' '' #
      quoted ''artifact_url'' @ CHR '':'' # quoted url @ CHR '' '' # quoted ''sha256'' @ CHR '':'' # quoted sha @ CHR '','' # rest)"
    "found_at (quoted ''artifact_url'') ?f = Some (quoted ''artifact_url'' @ CHR '':'' # quoted url @ CHR '' '' #
      quoted ''sha256'' @ CHR '':'' # quoted sha @ CHR '','' # rest)"
    "found_at (quoted ''sha256'') ?f = Some (quoted ''sha256'' @ CHR '':'' # quoted sha @ CHR '','' # rest)"
    using t by (simp_all add: forged_manifest_def skip del: found_at.simps)
  then have "extract_string ?f ''version'' = version" "extract_string ?f ''artifact_url'' = url" "extract_string ?f ''sha256'' = sha"
    using t by (auto intro: extract_hit)
  ultimately show ?thesis by simp
qed

text \<open>The list of bad versions survives the state file.\<close>

definition bad_ok :: "string \<Rightarrow> bool" where
  "bad_ok v \<longleftrightarrow> v \<noteq> [] \<and> CHR '','' \<notin> set v"

lemma split_at_plain: "d \<notin> set v \<Longrightarrow> split_at d acc (v @ d # s) = (rev acc @ v) # split_at d [] s" "d \<notin> set v \<Longrightarrow> split_at d acc v = [rev acc @ v]"
  by (induction v arbitrary: acc) auto

lemma split_no_comma: "x \<in> set (split_at d acc v) \<Longrightarrow> d \<notin> set acc \<Longrightarrow> d \<notin> set x"
  by (induction d acc v arbitrary: x rule: split_at.induct) (auto split: if_splits)

lemma split_join: "bs \<noteq> [] \<Longrightarrow> list_all bad_ok bs \<Longrightarrow> split_at CHR '','' [] (join_bad bs) = bs"
  by (induction bs rule: join_bad.induct) (auto simp: bad_ok_def split_at_plain)

lemma loaded_bad_ok: "list_all bad_ok (st_last_bad (load_state disk))"
proof -
  have "list_all bad_ok (filter (\<lambda>x. x \<noteq> []) (split_at CHR '','' [] v))" for v
    using split_no_comma [of _ "CHR '',''" "[]" v] by (auto simp: list_all_iff bad_ok_def)
  then show ?thesis by (auto simp: load_state_def OtaState_default_def Let_def split: option.splits)
qed

lemma load_saved_bad:
  assumes "state_ok s" "list_all bad_ok (st_last_bad s)"
  shows "st_last_bad (load_state (save_state True s disk)) = st_last_bad s"
proof -
  have ok: "kv_ok (state_kv s)"
    using assms(1) one_line_join one_line_flag by (auto simp: kv_ok_def state_kv_def state_ok_def one_line_def)
  define kv where "kv = snd (load_kv (od_state (save_state True s disk)) [])"
  have "get kv ''last_bad'' = Some (join_bad (st_last_bad s))"
    using load_lines_kv_text [of "state_kv s" "[]"] get_foldl_put [of "state_kv s" "[]" "''last_bad''"] ok
    by (auto simp: kv_ok_def load_kv_def kv_def save_state_def save_kv_def split: option.splits) (simp_all add: state_kv_def)
  moreover have "filter (\<lambda>x. x \<noteq> []) (split_at CHR '','' [] (join_bad (st_last_bad s))) = st_last_bad s"
  proof (cases "st_last_bad s = []")
    case False
    then show ?thesis using split_join [OF False assms(2)] assms(2) by (auto simp: list_all_iff bad_ok_def filter_id_conv)
  qed simp
  ultimately show ?thesis
    unfolding load_state_def kv_def [symmetric] by (auto simp: Let_def OtaState_default_def split: option.split)
qed

text \<open>
  A bad update is installed again: when an update was installed and its first start failed the health check, its version is
  in the list of bad versions, and yet the next run of the agent with the same feed passes all gates and installs it again.
\<close>

theorem bad_version_reinstalled:
  assumes "ow_fetch w (oc_feed_url c) = (fres, manifest)" "ot_ok fres" "may_install ext c w disk manifest" "ow_state_openable w"
    "one_line (extract_string manifest ''version'')" "bad_ok (extract_string manifest ''version'')"
    "agent_run ext be c w disk b = (Inr \<lparr>ot_ok = True, ot_reason = []\<rparr>, disk1, b1)"
    "healthd_run be True url None disk1 b1 = (r, disk2, b2)" "url_port url = Inr port"
  shows "extract_string manifest ''version'' \<in> set (st_last_bad (load_state disk2)) \<and> may_install ext c w disk2 manifest"
proof -
  let ?v = "extract_string manifest ''version''"
  let ?st = "(load_state disk)\<lparr>st_pending_version := ?v, st_boot_pending := True\<rparr>"
  let ?data = "ow_files w (drop 7 (extract_string manifest ''artifact_url''))"
  have ok: "state_ok ?st" using load_state_ok [of disk] assms(5) by (simp add: state_ok_def)
  have bad: "list_all bad_ok (st_last_bad ?st)" using loaded_bad_ok [of disk] by simp
  have "agent_install ext be c w manifest (load_state disk) disk b = (Inr \<lparr>ot_ok = True, ot_reason = []\<rparr>, disk1, b1)"
    using agent_run_stages [OF assms(1,2), of ext be disk b] assms(3,7) by auto
  then have "disk1 = (save_state True ?st (disk\<lparr>od_artifact := Some ?data\<rparr>))\<lparr>od_boot_pending := True\<rparr>"
    using assms(3,4) by (auto simp: agent_install_def ota_rejected_def Let_def may_install_def split: prod.splits if_splits)
  then have l1: "st_current_version (load_state disk1) = st_current_version (load_state disk)" "st_pending_version (load_state disk1) = ?v"
    "st_boot_pending (load_state disk1)" using load_saved [OF ok] by simp_all
  let ?st2 = "(load_state disk1)\<lparr>st_last_bad := st_last_bad (load_state disk1) @ [?v], st_pending_version := [], st_boot_pending := False\<rparr>"
  have "disk2 = (save_state True ?st2 disk1)\<lparr>od_boot_pending := False\<rparr>"
    using assms(6,8,9) l1 by (auto simp: healthd_run_def healthy_def Let_def bad_ok_def)
  moreover have ok2: "state_ok ?st2" using load_state_ok [of disk1] assms(5) by (simp add: state_ok_def)
  moreover have "list_all bad_ok (st_last_bad ?st2)" using loaded_bad_ok [of disk1] assms(6) by simp
  ultimately have "st_current_version (load_state disk2) = st_current_version (load_state disk)" "st_last_bad (load_state disk2) = st_last_bad ?st2"
    using load_saved [OF ok2] load_saved_bad [OF ok2] l1 by simp_all
  then show ?thesis using assms(3) by (simp add: may_install_def)
qed

section \<open>Examples\<close>

definition member :: "string \<Rightarrow> string \<Rightarrow> string" where
  "member k v = quoted k @ '':'' @ quoted v"

definition sample_feed :: string where
  "sample_feed = ''{'' @ member ''channel'' ''dev'' @ '','' @ member ''version'' ''1.0'' @ '','' @ member ''artifact_url'' ''file:///a'' @ '','' @
     member ''sha256'' ''01'' @ ''}''"

definition sample_ota_cfg :: Ota_cfg where
  "sample_ota_cfg = \<lparr>oc_enable = True, oc_feed_url = ''file:///feed'', oc_channel = ''dev'', oc_key_pub = [], oc_require_signed = False,
     oc_thing_name = ''reg'', oc_client_id = []\<rparr>"

definition sample_files :: "string \<Rightarrow> string" where
  "sample_files p = (if p = ''/feed'' then sample_feed else ''x'')"

definition sample_world :: ota_world where
  "sample_world = \<lparr>ow_files = sample_files, ow_fetch = file_fetch sample_files, ow_verify_pem = (\<lambda>_ _ _. False), ow_state_openable = True\<rparr>"

definition empty_disk :: ota_disk where
  "empty_disk = \<lparr>od_state = None, od_boot_pending = False, od_artifact = None\<rparr>"

lemma sample_extracts:
  "extract_string sample_feed ''channel'' = ''dev''" "extract_string sample_feed ''version'' = ''1.0''"
  "extract_string sample_feed ''artifact_url'' = ''file:///a''" "extract_string sample_feed ''sha256'' = ''01''"
  "\<not> contains_token sample_feed ''revoked_devices'' ''reg''" "extract_stage sample_feed ''rollout_percent'' = Inr 100"
  by code_simp+

lemma sample_may_install: "may_install sample_extern sample_ota_cfg sample_world empty_disk sample_feed"
proof -
  have "st_current_version (load_state empty_disk) = ''0.0.0''" by (simp add: load_state_def empty_disk_def load_kv_def OtaState_default_def)
  moreover have "hex_sha256 sample_extern ''x'' = ''01''" by (simp add: hex_sha256_def sample_extern_def hex_byte_def hex_digit_def, code_simp)
  ultimately show ?thesis
    by (simp add: may_install_def sample_ota_cfg_def sample_extracts supported_channel_def device_of_def signature_ok_def sample_world_def
        sample_files_def hash_device_def)
qed

lemma sample_fetch: "ow_fetch sample_world (oc_feed_url sample_ota_cfg) = (\<lparr>ot_ok = True, ot_reason = []\<rparr>, sample_feed)"
proof -
  have "sample_feed \<noteq> []" by (simp add: sample_feed_def)
  then show ?thesis by (simp add: sample_world_def sample_ota_cfg_def file_fetch_def sample_files_def)
qed

theorem agent_gates_witness:
  "snd (snd (agent_run sample_extern local_backend sample_ota_cfg sample_world empty_disk None)) = Some ''x''"
proof -
  obtain r disk' b' where a: "agent_run sample_extern local_backend sample_ota_cfg sample_world empty_disk None = (r, disk', b')" by (metis prod_cases3)
  show ?thesis
    using agent_gates [OF sample_fetch _ a] sample_may_install a
    by (simp add: local_backend_def sample_extracts sample_world_def sample_files_def)
qed

theorem versions_never_decrease_witness:
  "st_current_version (load_state empty_disk) \<le> st_current_version (load_state (fst (fold (ota_step sample_extern local_backend)
     [Run_agent sample_ota_cfg sample_world, Run_healthd True ''h'' (Some (200, ''ok''))] (empty_disk, None))))"
proof -
  let ?ops = "[Run_agent sample_ota_cfg sample_world, Run_healthd True ''h'' (Some (200, ''ok''))]"
  obtain d b where f: "fold (ota_step sample_extern local_backend) ?ops (empty_disk, None) = (d, b)" by fastforce
  have "climbing empty_disk" by (simp add: climbing_def load_state_def empty_disk_def load_kv_def OtaState_default_def)
  moreover have "list_all ota_op_ok ?ops" using sample_fetch sample_extracts by (simp add: version_of_feed_def one_line_def)
  ultimately show ?thesis using versions_never_decrease [OF _ _ f] f by simp
qed

theorem signature_not_binding_witness:
  "extract_string (forged_manifest ''c2ln'' ''9.9'' ''file:///evil'' ''00'' ''rest'') ''artifact_url'' = ''file:///evil'' \<and>
   verify_payload (forged_manifest ''c2ln'' ''9.9'' ''file:///evil'' ''00'' ''rest'') = verify_payload (signed_manifest ''c2ln'' ''rest'')"
  using signature_not_binding [of "''c2ln''" "''9.9''" "''file:///evil''" "''00''" "''rest''"] by (simp add: token_def)

end
