(* ===== verification/Twin_Models.thy ===== *)
theory Twin_Models
  imports Fleet_Models
begin

text \<open>
  The device twin (\<^verbatim>\<open>src/cloud/device_twin/models.hpp\<close>): what the cloud knows of a drawer, with its JSON (\<^verbatim>\<open>models.cpp\<close>) and the
  round trip of a whole twin. Doubles are reals.
\<close>

section \<open>Data\<close>

record FirmwareState =
  tfw_current_version :: string
  tfw_target_version :: string
  tfw_hardware_revision :: string
  tfw_update_state :: string

definition FirmwareState_default :: FirmwareState where
  "FirmwareState_default = \<lparr>tfw_current_version = ''1.0.0'', tfw_target_version = ''1.0.0'',
     tfw_hardware_revision = ''revA'', tfw_update_state = ''idle''\<rparr>"

record DrawerHealth =
  thl_score :: int
  thl_jam_count :: int
  thl_dispense_failures :: int
  thl_scale_drift_g :: real
  thl_self_test_failures :: int
  thl_communication_outages :: int
  thl_hopper_depletion_events :: int
  thl_motor_cycles :: int
  thl_transaction_latency_ms :: real
  thl_uptime_percent :: real
  thl_reasons :: "string list"

definition DrawerHealth_default :: DrawerHealth where
  "DrawerHealth_default = \<lparr>thl_score = 100, thl_jam_count = 0, thl_dispense_failures = 0,
     thl_scale_drift_g = 0, thl_self_test_failures = 0, thl_communication_outages = 0,
     thl_hopper_depletion_events = 0, thl_motor_cycles = 0, thl_transaction_latency_ms = 0, thl_uptime_percent = 100,
     thl_reasons = []\<rparr>"

record TwinDenomination =
  tdn_denomination :: string
  tdn_currency_code :: string
  tdn_quantity :: int
  tdn_capacity :: int
  tdn_consumption_per_hour :: real
  tdn_last_refill_at :: string

definition TwinDenomination_default :: TwinDenomination where
  "TwinDenomination_default = \<lparr>tdn_denomination = [], tdn_currency_code = ''USD'', tdn_quantity = 0,
     tdn_capacity = 0, tdn_consumption_per_hour = 0, tdn_last_refill_at = []\<rparr>"

record FaultEvent =
  tfe_id :: string
  tfe_type :: string
  tfe_severity :: string
  tfe_message :: string
  tfe_occurred_at :: string
  tfe_resolved :: bool

definition FaultEvent_default :: FaultEvent where
  "FaultEvent_default = \<lparr>tfe_id = [], tfe_type = [], tfe_severity = ''warning'', tfe_message = [],
     tfe_occurred_at = [], tfe_resolved = False\<rparr>"

record MaintenanceRecord =
  tmr_id :: string
  tmr_type :: string
  tmr_notes :: string
  tmr_performed_by :: string
  tmr_performed_at :: string

definition MaintenanceRecord_default :: MaintenanceRecord where
  "MaintenanceRecord_default = \<lparr>tmr_id = [], tmr_type = [], tmr_notes = [], tmr_performed_by = [],
     tmr_performed_at = []\<rparr>"

record MaintenanceAssessment =
  tma_predicted_failure_probability :: real
  tma_recommended_service_date :: string
  tma_maintenance_priority :: string
  tma_drivers :: "string list"

definition MaintenanceAssessment_default :: MaintenanceAssessment where
  "MaintenanceAssessment_default = \<lparr>tma_predicted_failure_probability = 0, tma_recommended_service_date = [],
     tma_maintenance_priority = ''low'', tma_drivers = []\<rparr>"

record InventoryForecast =
  tif_hours_until_empty :: real
  tif_refill_recommendations :: "string list"
  tif_depletion_trends :: "string list"

definition InventoryForecast_default :: InventoryForecast where
  "InventoryForecast_default = \<lparr>tif_hours_until_empty = 0, tif_refill_recommendations = [],
     tif_depletion_trends = []\<rparr>"

record TwinAlert =
  tal_id :: string
  tal_type :: string
  tal_severity :: string
  tal_message :: string
  tal_created_at :: string

definition TwinAlert_default :: TwinAlert where
  "TwinAlert_default = \<lparr>tal_id = [], tal_type = [], tal_severity = ''warning'', tal_message = [],
     tal_created_at = []\<rparr>"

record HistoryEvent =
  thv_id :: string
  thv_type :: string
  thv_summary :: string
  thv_occurred_at :: string
  thv_metadata :: json

definition HistoryEvent_default :: HistoryEvent where
  "HistoryEvent_default = \<lparr>thv_id = [], thv_type = [], thv_summary = [], thv_occurred_at = [],
     thv_metadata = JObj []\<rparr>"

record InventoryState =
  tin_currency_code :: string
  tin_country_code :: string
  tin_region :: string
  tin_compliance_tags :: "string list"
  tin_denominations :: "(string, TwinDenomination) amap"

definition InventoryState_default :: InventoryState where
  "InventoryState_default = \<lparr>tin_currency_code = ''USD'', tin_country_code = [], tin_region = [], tin_compliance_tags = [],
     tin_denominations = []\<rparr>"

record DrawerTwin =
  tw_drawer_id :: string
  tw_device_id :: string
  tw_merchant_id :: string
  tw_region :: string
  tw_environment :: string
  tw_deployment_channel :: string
  tw_country_code :: string
  tw_compliance_tags :: "string list"
  tw_enrolled :: bool
  tw_disabled :: bool
  tw_enrollment_state :: string
  tw_enrollment_token_hash :: string
  tw_sync_status :: string
  tw_last_synced_at :: string
  tw_revision :: int
  tw_remote_revision :: int
  tw_conflict :: bool
  tw_conflict_reason :: string
  tw_firmware :: FirmwareState
  tw_health :: DrawerHealth
  tw_inventory :: InventoryState
  tw_fault_history :: "FaultEvent list"
  tw_maintenance_history :: "MaintenanceRecord list"
  tw_connectivity_status :: string
  tw_first_seen_at :: string
  tw_last_telemetry_at :: string
  tw_history :: "HistoryEvent list"
  tw_maintenance :: MaintenanceAssessment
  tw_inventory_forecast :: InventoryForecast
  tw_alerts :: "TwinAlert list"

definition DrawerTwin_default :: DrawerTwin where
  "DrawerTwin_default = \<lparr>tw_drawer_id = [], tw_device_id = [], tw_merchant_id = [], tw_region = [],
     tw_environment = ''development'', tw_deployment_channel = ''dev'', tw_country_code = [], tw_compliance_tags = [],
     tw_enrolled = False, tw_disabled = False, tw_enrollment_state = ''local'', tw_enrollment_token_hash = [],
     tw_sync_status = ''local'', tw_last_synced_at = [], tw_revision = 0, tw_remote_revision = 0, tw_conflict = False,
     tw_conflict_reason = [], tw_firmware = FirmwareState_default, tw_health = DrawerHealth_default,
     tw_inventory = InventoryState_default, tw_fault_history = [], tw_maintenance_history = [],
     tw_connectivity_status = ''offline'', tw_first_seen_at = [], tw_last_telemetry_at = [], tw_history = [],
     tw_maintenance = MaintenanceAssessment_default, tw_inventory_forecast = InventoryForecast_default,
     tw_alerts = []\<rparr>"

definition valid_currency_code :: "string \<Rightarrow> bool" where
  "valid_currency_code code \<longleftrightarrow> length code = 3 \<and> list_all (\<lambda>c. \<not> (c < CHR ''A'' \<or> c > CHR ''Z'')) code"

section \<open>JSON\<close>

definition firmware_to_json :: "FirmwareState \<Rightarrow> json" where
  "firmware_to_json v = JObj [(''current_version'', JStr (tfw_current_version v)), (''target_version'', JStr (tfw_target_version v)),
     (''hardware_revision'', JStr (tfw_hardware_revision v)), (''update_state'', JStr (tfw_update_state v)),
     (''firmware_mismatch'', JBool (tfw_current_version v \<noteq> tfw_target_version v))]"

definition firmware_from_json :: "extern \<Rightarrow> json \<Rightarrow> FirmwareState \<Rightarrow> FirmwareState result" where
  "firmware_from_json ext j v =
     bind_result (value_str ext j ''current_version'' (tfw_current_version v)) (\<lambda>a1.
     bind_result (value_str ext j ''target_version'' (tfw_target_version v)) (\<lambda>a2.
     bind_result (value_str ext j ''hardware_revision'' (tfw_hardware_revision v)) (\<lambda>a3.
     bind_result (value_str ext j ''update_state'' (tfw_update_state v)) (\<lambda>a4.
     Inr \<lparr>tfw_current_version = a1, tfw_target_version = a2, tfw_hardware_revision = a3,
       tfw_update_state = a4\<rparr>))))"

definition drawer_health_to_json :: "DrawerHealth \<Rightarrow> json" where
  "drawer_health_to_json v = JObj [(''score'', JInt (thl_score v)), (''jam_count'', JInt (thl_jam_count v)),
     (''dispense_failures'', JInt (thl_dispense_failures v)), (''scale_drift_g'', JReal (thl_scale_drift_g v)),
     (''self_test_failures'', JInt (thl_self_test_failures v)),
     (''communication_outages'', JInt (thl_communication_outages v)),
     (''hopper_depletion_events'', JInt (thl_hopper_depletion_events v)),
     (''motor_cycles'', JInt (thl_motor_cycles v)),
     (''transaction_latency_ms'', JReal (thl_transaction_latency_ms v)),
     (''uptime_percent'', JReal (thl_uptime_percent v)), (''reasons'', JArr (map JStr (thl_reasons v)))]"

definition drawer_health_from_json :: "extern \<Rightarrow> json \<Rightarrow> DrawerHealth \<Rightarrow> DrawerHealth result" where
  "drawer_health_from_json ext j v =
     bind_result (value_int ext j ''score'' (thl_score v)) (\<lambda>a1.
     bind_result (value_int ext j ''jam_count'' (thl_jam_count v)) (\<lambda>a2.
     bind_result (value_int ext j ''dispense_failures'' (thl_dispense_failures v)) (\<lambda>a3.
     bind_result (value_real ext j ''scale_drift_g'' (thl_scale_drift_g v)) (\<lambda>a4.
     bind_result (value_int ext j ''self_test_failures'' (thl_self_test_failures v)) (\<lambda>a5.
     bind_result (value_int ext j ''communication_outages'' (thl_communication_outages v)) (\<lambda>a6.
     bind_result (value_int ext j ''hopper_depletion_events'' (thl_hopper_depletion_events v)) (\<lambda>a7.
     bind_result (value_int ext j ''motor_cycles'' (thl_motor_cycles v)) (\<lambda>a8.
     bind_result (value_real ext j ''transaction_latency_ms'' (thl_transaction_latency_ms v)) (\<lambda>a9.
     bind_result (value_real ext j ''uptime_percent'' (thl_uptime_percent v)) (\<lambda>b1.
     bind_result (value_strs ext j ''reasons'' (thl_reasons v)) (\<lambda>b2.
     Inr \<lparr>thl_score = a1, thl_jam_count = a2, thl_dispense_failures = a3, thl_scale_drift_g = a4,
       thl_self_test_failures = a5, thl_communication_outages = a6, thl_hopper_depletion_events = a7,
       thl_motor_cycles = a8, thl_transaction_latency_ms = a9, thl_uptime_percent = b1,
       thl_reasons = b2\<rparr>)))))))))))"

definition denomination_to_json :: "TwinDenomination \<Rightarrow> json" where
  "denomination_to_json v = JObj [(''denomination'', JStr (tdn_denomination v)),
     (''currency_code'', JStr (tdn_currency_code v)), (''quantity'', JInt (tdn_quantity v)),
     (''capacity'', JInt (tdn_capacity v)), (''consumption_per_hour'', JReal (tdn_consumption_per_hour v)),
     (''last_refill_at'', JStr (tdn_last_refill_at v))]"

definition denomination_from_json :: "extern \<Rightarrow> json \<Rightarrow> TwinDenomination \<Rightarrow> TwinDenomination result" where
  "denomination_from_json ext j v =
     bind_result (value_str ext j ''denomination'' (tdn_denomination v)) (\<lambda>a1.
     bind_result (value_str ext j ''currency_code'' (tdn_currency_code v)) (\<lambda>a2.
     bind_result (value_int ext j ''quantity'' (tdn_quantity v)) (\<lambda>a3.
     bind_result (value_int ext j ''capacity'' (tdn_capacity v)) (\<lambda>a4.
     bind_result (value_real ext j ''consumption_per_hour'' (tdn_consumption_per_hour v)) (\<lambda>a5.
     bind_result (value_str ext j ''last_refill_at'' (tdn_last_refill_at v)) (\<lambda>a6.
     Inr \<lparr>tdn_denomination = a1, tdn_currency_code = a2, tdn_quantity = a3, tdn_capacity = a4,
       tdn_consumption_per_hour = a5, tdn_last_refill_at = a6\<rparr>))))))"

definition fault_event_to_json :: "FaultEvent \<Rightarrow> json" where
  "fault_event_to_json v = JObj [(''id'', JStr (tfe_id v)), (''type'', JStr (tfe_type v)),
     (''severity'', JStr (tfe_severity v)), (''message'', JStr (tfe_message v)),
     (''occurred_at'', JStr (tfe_occurred_at v)), (''resolved'', JBool (tfe_resolved v))]"

definition fault_event_from_json :: "extern \<Rightarrow> json \<Rightarrow> FaultEvent \<Rightarrow> FaultEvent result" where
  "fault_event_from_json ext j v =
     bind_result (value_str ext j ''id'' (tfe_id v)) (\<lambda>a1.
     bind_result (value_str ext j ''type'' (tfe_type v)) (\<lambda>a2.
     bind_result (value_str ext j ''severity'' (tfe_severity v)) (\<lambda>a3.
     bind_result (value_str ext j ''message'' (tfe_message v)) (\<lambda>a4.
     bind_result (value_str ext j ''occurred_at'' (tfe_occurred_at v)) (\<lambda>a5.
     bind_result (value_bool ext j ''resolved'' (tfe_resolved v)) (\<lambda>a6.
     Inr \<lparr>tfe_id = a1, tfe_type = a2, tfe_severity = a3, tfe_message = a4, tfe_occurred_at = a5,
       tfe_resolved = a6\<rparr>))))))"

definition maintenance_record_to_json :: "MaintenanceRecord \<Rightarrow> json" where
  "maintenance_record_to_json v = JObj [(''id'', JStr (tmr_id v)), (''type'', JStr (tmr_type v)),
     (''notes'', JStr (tmr_notes v)), (''performed_by'', JStr (tmr_performed_by v)),
     (''performed_at'', JStr (tmr_performed_at v))]"

definition maintenance_record_from_json :: "extern \<Rightarrow> json \<Rightarrow> MaintenanceRecord \<Rightarrow> MaintenanceRecord result" where
  "maintenance_record_from_json ext j v =
     bind_result (value_str ext j ''id'' (tmr_id v)) (\<lambda>a1.
     bind_result (value_str ext j ''type'' (tmr_type v)) (\<lambda>a2.
     bind_result (value_str ext j ''notes'' (tmr_notes v)) (\<lambda>a3.
     bind_result (value_str ext j ''performed_by'' (tmr_performed_by v)) (\<lambda>a4.
     bind_result (value_str ext j ''performed_at'' (tmr_performed_at v)) (\<lambda>a5.
     Inr \<lparr>tmr_id = a1, tmr_type = a2, tmr_notes = a3, tmr_performed_by = a4,
       tmr_performed_at = a5\<rparr>)))))"

definition assessment_to_json :: "MaintenanceAssessment \<Rightarrow> json" where
  "assessment_to_json v = JObj [(''predicted_failure_probability'', JReal (tma_predicted_failure_probability v)),
     (''recommended_service_date'', JStr (tma_recommended_service_date v)),
     (''maintenance_priority'', JStr (tma_maintenance_priority v)), (''drivers'', JArr (map JStr (tma_drivers v)))]"

definition assessment_from_json :: "extern \<Rightarrow> json \<Rightarrow> MaintenanceAssessment \<Rightarrow> MaintenanceAssessment result" where
  "assessment_from_json ext j v =
     bind_result (value_real ext j ''predicted_failure_probability'' (tma_predicted_failure_probability v)) (\<lambda>a1.
     bind_result (value_str ext j ''recommended_service_date'' (tma_recommended_service_date v)) (\<lambda>a2.
     bind_result (value_str ext j ''maintenance_priority'' (tma_maintenance_priority v)) (\<lambda>a3.
     bind_result (value_strs ext j ''drivers'' (tma_drivers v)) (\<lambda>a4.
     Inr \<lparr>tma_predicted_failure_probability = a1, tma_recommended_service_date = a2,
       tma_maintenance_priority = a3, tma_drivers = a4\<rparr>))))"

definition inventory_forecast_to_json :: "InventoryForecast \<Rightarrow> json" where
  "inventory_forecast_to_json v = JObj [(''hours_until_empty'', JReal (tif_hours_until_empty v)),
     (''refill_recommendations'', JArr (map JStr (tif_refill_recommendations v))),
     (''depletion_trends'', JArr (map JStr (tif_depletion_trends v)))]"

definition inventory_forecast_from_json :: "extern \<Rightarrow> json \<Rightarrow> InventoryForecast \<Rightarrow> InventoryForecast result" where
  "inventory_forecast_from_json ext j v =
     bind_result (value_real ext j ''hours_until_empty'' (tif_hours_until_empty v)) (\<lambda>a1.
     bind_result (value_strs ext j ''refill_recommendations'' (tif_refill_recommendations v)) (\<lambda>a2.
     bind_result (value_strs ext j ''depletion_trends'' (tif_depletion_trends v)) (\<lambda>a3.
     Inr \<lparr>tif_hours_until_empty = a1, tif_refill_recommendations = a2, tif_depletion_trends = a3\<rparr>)))"

definition twin_alert_to_json :: "TwinAlert \<Rightarrow> json" where
  "twin_alert_to_json v = JObj [(''id'', JStr (tal_id v)), (''type'', JStr (tal_type v)),
     (''severity'', JStr (tal_severity v)), (''message'', JStr (tal_message v)),
     (''created_at'', JStr (tal_created_at v))]"

definition twin_alert_from_json :: "extern \<Rightarrow> json \<Rightarrow> TwinAlert \<Rightarrow> TwinAlert result" where
  "twin_alert_from_json ext j v =
     bind_result (value_str ext j ''id'' (tal_id v)) (\<lambda>a1.
     bind_result (value_str ext j ''type'' (tal_type v)) (\<lambda>a2.
     bind_result (value_str ext j ''severity'' (tal_severity v)) (\<lambda>a3.
     bind_result (value_str ext j ''message'' (tal_message v)) (\<lambda>a4.
     bind_result (value_str ext j ''created_at'' (tal_created_at v)) (\<lambda>a5.
     Inr \<lparr>tal_id = a1, tal_type = a2, tal_severity = a3, tal_message = a4, tal_created_at = a5\<rparr>)))))"

definition history_event_to_json :: "HistoryEvent \<Rightarrow> json" where
  "history_event_to_json v = JObj [(''id'', JStr (thv_id v)), (''type'', JStr (thv_type v)),
     (''summary'', JStr (thv_summary v)), (''occurred_at'', JStr (thv_occurred_at v)),
     (''metadata'', thv_metadata v)]"

definition history_event_from_json :: "extern \<Rightarrow> json \<Rightarrow> HistoryEvent \<Rightarrow> HistoryEvent result" where
  "history_event_from_json ext j v =
     bind_result (value_str ext j ''id'' (thv_id v)) (\<lambda>a1.
     bind_result (value_str ext j ''type'' (thv_type v)) (\<lambda>a2.
     bind_result (value_str ext j ''summary'' (thv_summary v)) (\<lambda>a3.
     bind_result (value_str ext j ''occurred_at'' (thv_occurred_at v)) (\<lambda>a4.
     bind_result (value_json ext j ''metadata'' (JObj [])) (\<lambda>a5.
     Inr \<lparr>thv_id = a1, thv_type = a2, thv_summary = a3, thv_occurred_at = a4, thv_metadata = a5\<rparr>)))))"

text \<open>The denominations are a \<^verbatim>\<open>std::map\<close>, written in the order of its keys.\<close>

definition inventory_state_to_json :: "InventoryState \<Rightarrow> json" where
  "inventory_state_to_json v = JObj [(''currency_code'', JStr (tin_currency_code v)), (''country_code'', JStr (tin_country_code v)),
     (''region'', JStr (tin_region v)), (''compliance_tags'', JArr (map JStr (tin_compliance_tags v))),
     (''denominations'', JObj (map (\<lambda>(k, d). (k, denomination_to_json d)) (tin_denominations v)))]"

fun read_denominations :: "extern \<Rightarrow> string \<Rightarrow> (string \<times> json) list \<Rightarrow> (string, TwinDenomination) amap \<Rightarrow> (string, TwinDenomination) amap result" where
  "read_denominations ext currency [] ds = Inr ds"
| "read_denominations ext currency ((k, j) # rest) ds =
     (if k = ''currency_code'' \<or> k = ''country_code'' \<or> k = ''region'' \<or> k = ''compliance_tags'' then read_denominations ext currency rest ds
      else bind_result (denomination_from_json ext j TwinDenomination_default) (\<lambda>d.
        read_denominations ext currency rest (sput k (if tdn_currency_code d = [] then d\<lparr>tdn_currency_code := currency\<rparr> else d) ds)))"

definition inventory_state_from_json :: "extern \<Rightarrow> json \<Rightarrow> InventoryState \<Rightarrow> InventoryState result" where
  "inventory_state_from_json ext j v0 =
     (let v = v0\<lparr>tin_denominations := []\<rparr> in
      if \<not> is_object ext j then Inr v
      else
     bind_result (value_str ext j ''currency_code'' (tin_currency_code v)) (\<lambda>a1.
     bind_result (value_str ext j ''country_code'' (tin_country_code v)) (\<lambda>a2.
     bind_result (value_str ext j ''region'' (tin_region v)) (\<lambda>a3.
     bind_result (value_strs ext j ''compliance_tags'' (tin_compliance_tags v)) (\<lambda>a4.
     bind_result (if has_key ext j ''denominations'' then at_key ext j ''denominations'' else Inr j) (\<lambda>denoms.
     bind_result (obj_items ext denoms) (\<lambda>kvs.
     bind_result (read_denominations ext a1 kvs []) (\<lambda>ds.
     Inr \<lparr>tin_currency_code = a1, tin_country_code = a2, tin_region = a3, tin_compliance_tags = a4, tin_denominations = ds\<rparr>))))))))"

text \<open>\<^verbatim>\<open>if (j.contains(k)) v = j.at(k).get<T>()\<close>.\<close>

definition member_of :: "extern \<Rightarrow> (json \<Rightarrow> 'a result) \<Rightarrow> json \<Rightarrow> string \<Rightarrow> 'a \<Rightarrow> 'a result" where
  "member_of ext conv j k d = (if has_key ext j k then bind_result (at_key ext j k) conv else Inr d)"

definition twin_to_json :: "DrawerTwin \<Rightarrow> json" where
  "twin_to_json v = JObj [(''drawer_id'', JStr (tw_drawer_id v)), (''device_id'', JStr (tw_device_id v)),
     (''merchant_id'', JStr (tw_merchant_id v)), (''region'', JStr (tw_region v)),
     (''environment'', JStr (tw_environment v)), (''deployment_channel'', JStr (tw_deployment_channel v)),
     (''country_code'', JStr (tw_country_code v)), (''compliance_tags'', JArr (map JStr (tw_compliance_tags v))),
     (''enrolled'', JBool (tw_enrolled v)), (''disabled'', JBool (tw_disabled v)),
     (''enrollment_state'', JStr (tw_enrollment_state v)),
     (''enrollment_token_hash'', JStr (tw_enrollment_token_hash v)), (''sync_status'', JStr (tw_sync_status v)),
     (''last_synced_at'', JStr (tw_last_synced_at v)), (''revision'', JInt (tw_revision v)),
     (''remote_revision'', JInt (tw_remote_revision v)), (''conflict'', JBool (tw_conflict v)),
     (''conflict_reason'', JStr (tw_conflict_reason v)), (''firmware'', firmware_to_json (tw_firmware v)),
     (''hardware_revision'', JStr (tfw_hardware_revision (tw_firmware v))),
     (''health'', drawer_health_to_json (tw_health v)), (''inventory'', inventory_state_to_json (tw_inventory v)),
     (''fault_history'', JArr (map fault_event_to_json (tw_fault_history v))),
     (''maintenance_history'', JArr (map maintenance_record_to_json (tw_maintenance_history v))),
     (''connectivity_status'', JStr (tw_connectivity_status v)), (''first_seen_at'', JStr (tw_first_seen_at v)),
     (''last_telemetry_at'', JStr (tw_last_telemetry_at v)),
     (''history'', JArr (map history_event_to_json (tw_history v))),
     (''maintenance'', assessment_to_json (tw_maintenance v)),
     (''inventory_forecast'', inventory_forecast_to_json (tw_inventory_forecast v)),
     (''alerts'', JArr (map twin_alert_to_json (tw_alerts v)))]"

definition twin_from_json :: "extern \<Rightarrow> json \<Rightarrow> DrawerTwin \<Rightarrow> DrawerTwin result" where
  "twin_from_json ext j v =
     bind_result (value_str ext j ''drawer_id'' (tw_drawer_id v)) (\<lambda>a1.
     bind_result (value_str ext j ''device_id'' (tw_device_id v)) (\<lambda>a2.
     bind_result (value_str ext j ''merchant_id'' (tw_merchant_id v)) (\<lambda>a3.
     bind_result (value_str ext j ''region'' (tw_region v)) (\<lambda>a4.
     bind_result (value_str ext j ''environment'' (tw_environment v)) (\<lambda>a5.
     bind_result (value_str ext j ''deployment_channel'' (tw_deployment_channel v)) (\<lambda>a6.
     bind_result (value_str ext j ''country_code'' (tw_country_code v)) (\<lambda>a7.
     bind_result (value_strs ext j ''compliance_tags'' (tw_compliance_tags v)) (\<lambda>a8.
     bind_result (value_bool ext j ''enrolled'' (tw_enrolled v)) (\<lambda>a9.
     bind_result (value_bool ext j ''disabled'' (tw_disabled v)) (\<lambda>b1.
     bind_result (value_str ext j ''enrollment_state'' (tw_enrollment_state v)) (\<lambda>b2.
     bind_result (value_str ext j ''enrollment_token_hash'' (tw_enrollment_token_hash v)) (\<lambda>b3.
     bind_result (value_str ext j ''sync_status'' (tw_sync_status v)) (\<lambda>b4.
     bind_result (value_str ext j ''last_synced_at'' (tw_last_synced_at v)) (\<lambda>b5.
     bind_result (value_int ext j ''revision'' (tw_revision v)) (\<lambda>b6.
     bind_result (value_int ext j ''remote_revision'' (tw_remote_revision v)) (\<lambda>b7.
     bind_result (value_bool ext j ''conflict'' (tw_conflict v)) (\<lambda>b8.
     bind_result (value_str ext j ''conflict_reason'' (tw_conflict_reason v)) (\<lambda>b9.
     bind_result (member_of ext (\<lambda>j. firmware_from_json ext j FirmwareState_default) j ''firmware'' (tw_firmware v)) (\<lambda>c1.
     bind_result (member_of ext (\<lambda>j. drawer_health_from_json ext j DrawerHealth_default) j ''health'' (tw_health v)) (\<lambda>c2.
     bind_result (member_of ext (\<lambda>j. inventory_state_from_json ext j InventoryState_default) j ''inventory'' (tw_inventory v)) (\<lambda>c3.
     bind_result (value_with ext (\<lambda>j. fault_event_from_json ext j FaultEvent_default) j ''fault_history'' (tw_fault_history v)) (\<lambda>c4.
     bind_result (value_with ext (\<lambda>j. maintenance_record_from_json ext j MaintenanceRecord_default) j ''maintenance_history'' (tw_maintenance_history v)) (\<lambda>c5.
     bind_result (value_str ext j ''connectivity_status'' (tw_connectivity_status v)) (\<lambda>c6.
     bind_result (value_str ext j ''first_seen_at'' (tw_first_seen_at v)) (\<lambda>c7.
     bind_result (value_str ext j ''last_telemetry_at'' (tw_last_telemetry_at v)) (\<lambda>c8.
     bind_result (value_with ext (\<lambda>j. history_event_from_json ext j HistoryEvent_default) j ''history'' (tw_history v)) (\<lambda>c9.
     bind_result (member_of ext (\<lambda>j. assessment_from_json ext j MaintenanceAssessment_default) j ''maintenance'' (tw_maintenance v)) (\<lambda>d1.
     bind_result (member_of ext (\<lambda>j. inventory_forecast_from_json ext j InventoryForecast_default) j ''inventory_forecast'' (tw_inventory_forecast v)) (\<lambda>d2.
     bind_result (value_with ext (\<lambda>j. twin_alert_from_json ext j TwinAlert_default) j ''alerts'' (tw_alerts v)) (\<lambda>d3.
     Inr \<lparr>tw_drawer_id = a1, tw_device_id = a2, tw_merchant_id = a3, tw_region = a4, tw_environment = a5,
       tw_deployment_channel = a6, tw_country_code = a7, tw_compliance_tags = a8, tw_enrolled = a9, tw_disabled = b1,
       tw_enrollment_state = b2, tw_enrollment_token_hash = b3, tw_sync_status = b4, tw_last_synced_at = b5,
       tw_revision = b6, tw_remote_revision = b7, tw_conflict = b8, tw_conflict_reason = b9, tw_firmware = c1,
       tw_health = c2, tw_inventory = c3, tw_fault_history = c4, tw_maintenance_history = c5,
       tw_connectivity_status = c6, tw_first_seen_at = c7, tw_last_telemetry_at = c8, tw_history = c9,
       tw_maintenance = d1, tw_inventory_forecast = d2, tw_alerts = d3\<rparr>))))))))))))))))))))))))))))))"

section \<open>Round trips\<close>

lemma firmware_json_roundtrip: "value_laws ext \<Longrightarrow> firmware_from_json ext (firmware_to_json x) v = Inr x"
  by (simp add: firmware_from_json_def firmware_to_json_def value_back)

lemma drawer_health_json_roundtrip: "value_laws ext \<Longrightarrow> drawer_health_from_json ext (drawer_health_to_json x) v = Inr x"
  by (simp add: drawer_health_from_json_def drawer_health_to_json_def value_back)

lemma denomination_json_roundtrip: "value_laws ext \<Longrightarrow> denomination_from_json ext (denomination_to_json x) v = Inr x"
  by (simp add: denomination_from_json_def denomination_to_json_def value_back)

lemma fault_event_json_roundtrip: "value_laws ext \<Longrightarrow> fault_event_from_json ext (fault_event_to_json x) v = Inr x"
  by (simp add: fault_event_from_json_def fault_event_to_json_def value_back)

lemma maintenance_record_json_roundtrip: "value_laws ext \<Longrightarrow> maintenance_record_from_json ext (maintenance_record_to_json x) v = Inr x"
  by (simp add: maintenance_record_from_json_def maintenance_record_to_json_def value_back)

lemma assessment_json_roundtrip: "value_laws ext \<Longrightarrow> assessment_from_json ext (assessment_to_json x) v = Inr x"
  by (simp add: assessment_from_json_def assessment_to_json_def value_back)

lemma inventory_forecast_json_roundtrip: "value_laws ext \<Longrightarrow> inventory_forecast_from_json ext (inventory_forecast_to_json x) v = Inr x"
  by (simp add: inventory_forecast_from_json_def inventory_forecast_to_json_def value_back)

lemma twin_alert_json_roundtrip: "value_laws ext \<Longrightarrow> twin_alert_from_json ext (twin_alert_to_json x) v = Inr x"
  by (simp add: twin_alert_from_json_def twin_alert_to_json_def value_back)

lemma history_event_json_roundtrip: "value_laws ext \<Longrightarrow> history_event_from_json ext (history_event_to_json x) v = Inr x"
  by (simp add: history_event_from_json_def history_event_to_json_def value_back)

lemma value_member:
  assumes "value_laws ext" "map_of kvs k = Some v"
  shows "member_of ext conv (JObj kvs) k d = conv v"
  using assms by (simp add: member_of_def value_laws_def json_has_def obj_get_def)

text \<open>An inventory that comes back as it was: its denominations in the order of their names, none under the name of another
  member, each with a currency.\<close>

definition inventory_ok :: "InventoryState \<Rightarrow> bool" where
  "inventory_ok v \<longleftrightarrow> sorted (map fst (tin_denominations v)) \<and> distinct (map fst (tin_denominations v)) \<and>
     list_all (\<lambda>(k, d). k \<notin> {''currency_code'', ''country_code'', ''region'', ''compliance_tags''} \<and> tdn_currency_code d \<noteq> []) (tin_denominations v)"

lemma sput_last: "sorted (map fst (m @ [(k, v)])) \<Longrightarrow> k \<notin> set (map fst m) \<Longrightarrow> sput k v m = m @ [(k, v)]"
proof (induction k v m rule: sput.induct)
  case (2 k v k' v' m)
  then show ?case by (auto simp: sorted_append) 
qed simp

lemma read_denominations_back:
  assumes "value_laws ext" "sorted (map fst (ds @ kvs))" "distinct (map fst (ds @ kvs))"
    "list_all (\<lambda>(k, d). k \<notin> {''currency_code'', ''country_code'', ''region'', ''compliance_tags''} \<and> tdn_currency_code d \<noteq> []) kvs"
  shows "read_denominations ext c (map (\<lambda>(k, d). (k, denomination_to_json d)) kvs) ds = Inr (ds @ kvs)"
  using assms
proof (induction kvs arbitrary: ds)
  case (Cons kd kvs)
  obtain k d where kd: "kd = (k, d)" by fastforce
  have "sput k d ds = ds @ [(k, d)]" using Cons.prems(2,3) by (intro sput_last) (auto simp: kd sorted_append)
  then show ?case
    using Cons.IH [of "ds @ [(k, d)]"] Cons.prems denomination_json_roundtrip [OF assms(1)] by (simp add: kd)
qed simp

lemma inventory_state_json_roundtrip:
  assumes "value_laws ext" "inventory_ok x"
  shows "inventory_state_from_json ext (inventory_state_to_json x) v = Inr x"
proof -
  let ?m = "map (\<lambda>(k, d). (k, denomination_to_json d)) (tin_denominations x)"
  have "map_result (\<lambda>(k, v). bind_result (Inr v) (\<lambda>x. Inr (k, x))) m = Inr m" for m :: "(string \<times> json) list"
    by (induction m) auto
  then have "obj_items ext (JObj ?m) = Inr ?m" using assms(1) by (simp add: value_laws_def json_map_def)
  moreover have "read_denominations ext c ?m [] = Inr (tin_denominations x)" for c
    using read_denominations_back [OF assms(1), of "[]"] assms(2) by (simp add: inventory_ok_def)
  moreover have "is_object ext = json_is_object" "has_key ext = json_has" "at_key ext = obj_get" using assms(1) by (simp_all add: value_laws_def)
  ultimately show ?thesis
    using assms(1) by (simp add: inventory_state_from_json_def inventory_state_to_json_def value_back json_is_object_def json_has_def obj_get_def)
qed

lemma twin_json_back:
  assumes "value_laws ext" "inventory_ok (tw_inventory x)"
  shows "twin_from_json ext (twin_to_json x) v = Inr x"
  using assms(1) inventory_state_json_roundtrip [OF assms]
  by (simp add: twin_from_json_def twin_to_json_def value_back value_member firmware_json_roundtrip drawer_health_json_roundtrip
      assessment_json_roundtrip inventory_forecast_json_roundtrip map_result_back fault_event_json_roundtrip maintenance_record_json_roundtrip
      history_event_json_roundtrip twin_alert_json_roundtrip)

text \<open>
  A twin that is written as JSON and read back is the same twin, when its denominations are named in order, apart from the
  names of the other members, and have a currency, and when the JSON accessors behave as documented.
\<close>

theorem twin_json_roundtrip:
  assumes "value_laws ext" "inventory_ok (tw_inventory x)"
  shows "twin_from_json ext (twin_to_json x) v = Inr x"
  using assms by (rule twin_json_back)

theorem twin_json_roundtrip_witness:
  "twin_from_json sample_extern (twin_to_json DrawerTwin_default) DrawerTwin_default = Inr DrawerTwin_default"
  by (rule twin_json_roundtrip [OF sample_value_laws]) (simp add: inventory_ok_def DrawerTwin_default_def InventoryState_default_def)

end
