(* ===== verification/Twin_Analytics.thy ===== *)
theory Twin_Analytics
  imports Twin_Models
begin

text \<open>
  The analytics of the fleet manager (\<^verbatim>\<open>src/cloud/analytics\<close>): health score, maintenance forecast, inventory forecast and
  alerts of a twin. Doubles are reals, with the rounding functions the code calls; the dates and the text of a double are
  inputs. The results are the ranges of score and probability and when an alert of each kind is raised.
\<close>

section \<open>Health score\<close>

text \<open>The lambda \<^verbatim>\<open>add\<close>: penalty so far and reasons so far.\<close>

definition add_penalty :: "int \<Rightarrow> int \<Rightarrow> string \<Rightarrow> int \<times> string list \<Rightarrow> int \<times> string list" where
  "add_penalty v cap reason = (\<lambda>(penalty, reasons). let applied = min v cap in
     if applied > 0 then (penalty + applied, reasons @ [reason]) else (penalty, reasons))"

definition health_penalty :: "DrawerHealth \<Rightarrow> int \<times> string list" where
  "health_penalty h =
     (let x1 = add_penalty (thl_jam_count h * 4) 20 ''jam_count'' (0, []);
          x2 = add_penalty (thl_dispense_failures h * 6) 24 ''dispense_failures'' x1;
          x3 = add_penalty \<lceil>\<bar>thl_scale_drift_g h\<bar> * 3\<rceil> 15 ''scale_drift'' x2;
          x4 = add_penalty (thl_self_test_failures h * 10) 20 ''self_test_failures'' x3;
          x5 = add_penalty (thl_communication_outages h * 5) 15 ''communication_outages'' x4;
          x6 = add_penalty (thl_hopper_depletion_events h * 4) 12 ''hopper_depletion_frequency'' x5
      in if thl_uptime_percent h < 99 then add_penalty \<lceil>(99 - thl_uptime_percent h) * 2\<rceil> 10 ''low_uptime'' x6 else x6)"

definition score_health :: "DrawerHealth \<Rightarrow> DrawerHealth" where
  "score_health h = (case health_penalty h of (penalty, reasons) \<Rightarrow> h\<lparr>thl_reasons := reasons, thl_score := max 0 (min 100 (100 - penalty))\<rparr>)"

section \<open>Predictive maintenance\<close>

definition clamp01 :: "real \<Rightarrow> real" where
  "clamp01 v = max 0 (min 1 v)"

text \<open>\<open>service_date\<close> stands for \<^verbatim>\<open>iso_days_from_now\<close>.\<close>

definition failure_probability :: "DrawerHealth \<Rightarrow> real" where
  "failure_probability h = clamp01 (clamp01 (of_int (thl_motor_cycles h) / 250000) * 0.25 + clamp01 (of_int (thl_jam_count h) / 12) * 0.25 +
     clamp01 (\<bar>thl_scale_drift_g h\<bar> / 5) * 0.20 + clamp01 (thl_transaction_latency_ms h / 5000) * 0.15 +
     clamp01 ((100 - thl_uptime_percent h) / 10) * 0.15)"

definition driver_if :: "bool \<Rightarrow> string \<Rightarrow> string list" where
  "driver_if b d = (if b then [d] else [])"

definition evaluate_maintenance :: "(int \<Rightarrow> string) \<Rightarrow> DrawerHealth \<Rightarrow> MaintenanceAssessment" where
  "evaluate_maintenance service_date h =
     (let p = failure_probability h in
      \<lparr>tma_predicted_failure_probability = of_int \<lfloor>p * 1000 + 1 / 2\<rfloor> / 1000,
       tma_recommended_service_date = (if p \<ge> 0.70 then service_date 1 else if p \<ge> 0.40 then service_date 7 else service_date 30),
       tma_maintenance_priority = (if p \<ge> 0.70 then ''critical'' else if p \<ge> 0.40 then ''warning'' else ''low''),
       tma_drivers = driver_if (clamp01 (of_int (thl_motor_cycles h) / 250000) \<ge> 0.5) ''motor_wear'' @
         driver_if (clamp01 (of_int (thl_jam_count h) / 12) \<ge> 0.5) ''jam_frequency'' @
         driver_if (clamp01 (\<bar>thl_scale_drift_g h\<bar> / 5) \<ge> 0.5) ''scale_calibration_drift'' @
         driver_if (clamp01 (thl_transaction_latency_ms h / 5000) \<ge> 0.5) ''transaction_latency'' @
         driver_if (clamp01 ((100 - thl_uptime_percent h) / 10) \<ge> 0.2) ''uptime_percentage''\<rparr>)"

section \<open>Inventory forecast\<close>

text \<open>The loop over the denominations; \<open>None\<close> is the initial infinity of \<^verbatim>\<open>min_hours\<close>, \<open>show_double\<close> the stream insertion of a double. A
  capacity is cut to an integer after the multiplication.\<close>

fun forecast_loop :: "(real \<Rightarrow> string) \<Rightarrow> (string \<times> TwinDenomination) list \<Rightarrow> real option \<times> InventoryForecast \<Rightarrow> real option \<times> InventoryForecast" where
  "forecast_loop show_double [] x = x"
| "forecast_loop show_double ((k, d) # rest) (min_hours, out) =
     (let (mh, o1) = (if tdn_consumption_per_hour d > 0 then
            let hours = of_int (max 0 (tdn_quantity d)) / tdn_consumption_per_hour d;
                rec = (if hours \<le> 12 then [''refill '' @ tdn_denomination d @ '' within 12 hours'']
                  else if hours \<le> 24 then [''schedule '' @ tdn_denomination d @ '' refill''] else [])
            in (Some (case min_hours of None \<Rightarrow> hours | Some m \<Rightarrow> min m hours),
                out\<lparr>tif_refill_recommendations := tif_refill_recommendations out @ rec,
                  tif_depletion_trends := tif_depletion_trends out @ [tdn_denomination d @ '' depletion at '' @ show_double (tdn_consumption_per_hour d) @ ''/hour'']\<rparr>)
            else (min_hours, out));
          o2 = (if tdn_capacity d > 0 \<and> tdn_quantity d < \<lfloor>of_int (tdn_capacity d) * (0.15 :: real)\<rfloor>
            then o1\<lparr>tif_refill_recommendations := tif_refill_recommendations o1 @ [''top off low '' @ tdn_denomination d @ '' hopper'']\<rparr> else o1)
      in forecast_loop show_double rest (mh, o2))"

definition forecast_inventory :: "(real \<Rightarrow> string) \<Rightarrow> InventoryState \<Rightarrow> InventoryForecast" where
  "forecast_inventory show_double stock =
     (let (mh, out) = forecast_loop show_double (tin_denominations stock) (None, InventoryForecast_default)
      in out\<lparr>tif_hours_until_empty := (case mh of None \<Rightarrow> 0 | Some h \<Rightarrow> h)\<rparr>)"

section \<open>Alerts\<close>

definition alert_if :: "bool \<Rightarrow> DrawerTwin \<Rightarrow> string \<Rightarrow> string \<Rightarrow> bool \<Rightarrow> string \<Rightarrow> TwinAlert list" where
  "alert_if b twin ts type critical message = (if b then [\<lparr>tal_id = ''alert-'' @ tw_drawer_id twin @ ''-'' @ type, tal_type = type,
     tal_severity = (if critical then ''critical'' else ''warning''), tal_message = message, tal_created_at = ts\<rparr>] else [])"

definition evaluate_alerts :: "DrawerTwin \<Rightarrow> string \<Rightarrow> TwinAlert list" where
  "evaluate_alerts twin ts =
     (let h = tw_health twin; hours = tif_hours_until_empty (tw_inventory_forecast twin) in
      alert_if (thl_jam_count h \<ge> 6) twin ts ''repeated_jams'' (thl_jam_count h \<ge> 10) ''jam frequency exceeds fleet threshold'' @
      alert_if (thl_communication_outages h \<ge> 3 \<or> tw_connectivity_status twin \<noteq> ''online'') twin ts ''communication_failure''
        (thl_communication_outages h \<ge> 5 \<or> tw_connectivity_status twin = ''offline'') ''device connectivity is degraded'' @
      alert_if (thl_self_test_failures h > 0) twin ts ''self_test_failure'' (thl_self_test_failures h \<ge> 2) ''recent self-test failure reported'' @
      alert_if (tfw_current_version (tw_firmware twin) \<noteq> tfw_target_version (tw_firmware twin)) twin ts ''firmware_mismatch'' False
        ''firmware does not match target version'' @
      alert_if (hours > 0 \<and> hours \<le> 24) twin ts ''low_inventory'' (hours \<le> 8) ''one or more denominations are approaching depletion'')"

section \<open>Properties\<close>

lemma add_penalty_mono: "fst x \<le> fst (add_penalty v cap r x)"
  by (auto simp: add_penalty_def Let_def split: prod.splits)

lemma add_penalty_bound: "fst x \<le> b \<Longrightarrow> 0 \<le> cap \<Longrightarrow> fst (add_penalty v cap r x) \<le> b + cap"
  by (auto simp: add_penalty_def Let_def split: prod.splits)

lemma add_penalty_same: "0 < cap \<Longrightarrow> fst (add_penalty v cap r x) = fst x \<longleftrightarrow> v \<le> 0"
  by (auto simp: add_penalty_def Let_def split: prod.splits)

definition faultless :: "DrawerHealth \<Rightarrow> bool" where
  "faultless h \<longleftrightarrow> thl_jam_count h \<le> 0 \<and> thl_dispense_failures h \<le> 0 \<and> thl_scale_drift_g h = 0 \<and> thl_self_test_failures h \<le> 0 \<and>
     thl_communication_outages h \<le> 0 \<and> thl_hopper_depletion_events h \<le> 0 \<and> thl_uptime_percent h \<ge> 99"

lemma health_penalty_steps:
  "\<exists>x1 x2 x3 x4 x5 x6. x1 = add_penalty (thl_jam_count h * 4) 20 ''jam_count'' (0, []) \<and>
     x2 = add_penalty (thl_dispense_failures h * 6) 24 ''dispense_failures'' x1 \<and> x3 = add_penalty \<lceil>\<bar>thl_scale_drift_g h\<bar> * 3\<rceil> 15 ''scale_drift'' x2 \<and>
     x4 = add_penalty (thl_self_test_failures h * 10) 20 ''self_test_failures'' x3 \<and>
     x5 = add_penalty (thl_communication_outages h * 5) 15 ''communication_outages'' x4 \<and>
     x6 = add_penalty (thl_hopper_depletion_events h * 4) 12 ''hopper_depletion_frequency'' x5 \<and>
     health_penalty h = (if thl_uptime_percent h < 99 then add_penalty \<lceil>(99 - thl_uptime_percent h) * 2\<rceil> 10 ''low_uptime'' x6 else x6)"
  by (simp add: health_penalty_def Let_def)

lemma penalty_range: "0 \<le> fst (health_penalty h) \<and> fst (health_penalty h) \<le> 116 \<and> (fst (health_penalty h) = 0 \<longleftrightarrow> faultless h)"
proof -
  obtain x1 x2 x3 x4 x5 x6 where x: "x1 = add_penalty (thl_jam_count h * 4) 20 ''jam_count'' (0, [])"
     "x2 = add_penalty (thl_dispense_failures h * 6) 24 ''dispense_failures'' x1" "x3 = add_penalty \<lceil>\<bar>thl_scale_drift_g h\<bar> * 3\<rceil> 15 ''scale_drift'' x2"
     "x4 = add_penalty (thl_self_test_failures h * 10) 20 ''self_test_failures'' x3"
     "x5 = add_penalty (thl_communication_outages h * 5) 15 ''communication_outages'' x4"
     "x6 = add_penalty (thl_hopper_depletion_events h * 4) 12 ''hopper_depletion_frequency'' x5"
     "health_penalty h = (if thl_uptime_percent h < 99 then add_penalty \<lceil>(99 - thl_uptime_percent h) * 2\<rceil> 10 ''low_uptime'' x6 else x6)"
    using health_penalty_steps [of h] by blast
  have mono: "0 \<le> fst x1" "fst x1 \<le> fst x2" "fst x2 \<le> fst x3" "fst x3 \<le> fst x4" "fst x4 \<le> fst x5" "fst x5 \<le> fst x6" "fst x6 \<le> fst (health_penalty h)"
    using add_penalty_mono [of "(0, [])"] add_penalty_mono [of x1] add_penalty_mono [of x2] add_penalty_mono [of x3] add_penalty_mono [of x4]
      add_penalty_mono [of x5] add_penalty_mono [of x6] x by simp_all
  have up: "fst x1 \<le> 20" "fst x2 \<le> 44" "fst x3 \<le> 59" "fst x4 \<le> 79" "fst x5 \<le> 94" "fst x6 \<le> 106"
    using add_penalty_bound [of "(0, [])" 0 20] add_penalty_bound [of x1 20 24] add_penalty_bound [of x2 44 15] add_penalty_bound [of x3 59 20]
      add_penalty_bound [of x4 79 15] add_penalty_bound [of x5 94 12] x(1-6) by simp_all
  then have top: "fst (health_penalty h) \<le> 116" using add_penalty_bound [of x6 106 10] x(7) by simp
  have ceil: "\<lceil>\<bar>thl_scale_drift_g h\<bar> * 3\<rceil> \<le> 0 \<longleftrightarrow> thl_scale_drift_g h = 0" "\<lceil>(99 - thl_uptime_percent h) * 2\<rceil> \<le> 0 \<longleftrightarrow> 99 \<le> thl_uptime_percent h"
    by (simp_all add: ceiling_le_iff)
  have e1: "fst x1 = 0 \<longleftrightarrow> thl_jam_count h \<le> 0" using add_penalty_same [of 20 _ _ "(0, [])"] x(1) by simp
  have e2: "fst x2 = fst x1 \<longleftrightarrow> thl_dispense_failures h \<le> 0" using add_penalty_same [of 24 _ _ x1] x(2) by simp
  have e3: "fst x3 = fst x2 \<longleftrightarrow> thl_scale_drift_g h = 0" using add_penalty_same [of 15 _ _ x2] x(3) ceil(1) by simp
  have e4: "fst x4 = fst x3 \<longleftrightarrow> thl_self_test_failures h \<le> 0" using add_penalty_same [of 20 _ _ x3] x(4) by simp
  have e5: "fst x5 = fst x4 \<longleftrightarrow> thl_communication_outages h \<le> 0" using add_penalty_same [of 15 _ _ x4] x(5) by simp
  have e6: "fst x6 = fst x5 \<longleftrightarrow> thl_hopper_depletion_events h \<le> 0" using add_penalty_same [of 12 _ _ x5] x(6) by simp
  have e7: "fst (health_penalty h) = fst x6 \<longleftrightarrow> thl_uptime_percent h \<ge> 99"
    using add_penalty_same [of 10 _ _ x6] x(7) ceil(2) by (simp split: if_splits)
  have "fst (health_penalty h) = 0 \<longleftrightarrow> fst x1 = 0 \<and> fst x2 = fst x1 \<and> fst x3 = fst x2 \<and> fst x4 = fst x3 \<and> fst x5 = fst x4 \<and> fst x6 = fst x5 \<and>
    fst (health_penalty h) = fst x6" using mono by linarith
  then have "fst (health_penalty h) = 0 \<longleftrightarrow> faultless h" unfolding e1 e2 e3 e4 e5 e6 e7 faultless_def by blast
  moreover have "0 \<le> fst (health_penalty h)" using mono by linarith
  ultimately show ?thesis using top by blast
qed

text \<open>
  The health score of a drawer lies between 0 and 100 and is 100 exactly for a drawer without jams, failures, drift, outages and
  depletions and with an uptime of at least 99 percent. The predicted failure probability lies between 0 and 1. An alert
  of each kind is raised exactly on its condition.
\<close>

theorem twin_analytics_ranges:
  "0 \<le> thl_score (score_health h) \<and> thl_score (score_health h) \<le> 100 \<and> (thl_score (score_health h) = 100 \<longleftrightarrow> faultless h) \<and>
   0 \<le> tma_predicted_failure_probability (evaluate_maintenance date h) \<and> tma_predicted_failure_probability (evaluate_maintenance date h) \<le> 1 \<and>
   ((\<exists>a\<in>set (evaluate_alerts twin ts). tal_type a = ''repeated_jams'') \<longleftrightarrow> thl_jam_count (tw_health twin) \<ge> 6) \<and>
   ((\<exists>a\<in>set (evaluate_alerts twin ts). tal_type a = ''communication_failure'') \<longleftrightarrow>
     \<not> (thl_communication_outages (tw_health twin) < 3 \<and> tw_connectivity_status twin = ''online'')) \<and>
   ((\<exists>a\<in>set (evaluate_alerts twin ts). tal_type a = ''self_test_failure'') \<longleftrightarrow> thl_self_test_failures (tw_health twin) > 0) \<and>
   ((\<exists>a\<in>set (evaluate_alerts twin ts). tal_type a = ''low_inventory'') \<longleftrightarrow>
     tif_hours_until_empty (tw_inventory_forecast twin) > 0 \<and> tif_hours_until_empty (tw_inventory_forecast twin) \<le> 24)"
proof -
  have p: "0 \<le> failure_probability h" "failure_probability h \<le> 1" by (simp_all add: failure_probability_def clamp01_def)
  have "0 \<le> \<lfloor>failure_probability h * 1000 + 1 / 2\<rfloor>" using p(1) by simp
  moreover have "\<lfloor>failure_probability h * 1000 + 1 / 2\<rfloor> \<le> 1000" using p(2) by (simp add: floor_le_iff)
  moreover have "thl_score (score_health h) = max 0 (min 100 (100 - fst (health_penalty h)))" by (simp add: score_health_def split: prod.split)
  moreover have "(\<exists>a\<in>set (alert_if b twin ts t c m). tal_type a = k) \<longleftrightarrow> b \<and> t = k" for b t c m k by (simp add: alert_if_def)
  ultimately show ?thesis
    using penalty_range [of h] by (auto simp: evaluate_maintenance_def Let_def evaluate_alerts_def bex_Un)
qed


text \<open>
  A drawer whose only denomination is used up, and still asked for, has an hour count of 0: the same as a drawer nothing is
  taken from, so that its depletion raises no alert.
\<close>

lemma empty_drawer_no_alert:
  assumes "tdn_consumption_per_hour d > 0" "tdn_quantity d \<le> 0" "tw_inventory twin = InventoryState_default\<lparr>tin_denominations := [(k, d)]\<rparr>"
    "tw_inventory_forecast twin = forecast_inventory show_double (tw_inventory twin)"
  shows "\<not> (\<exists>a\<in>set (evaluate_alerts twin ts). tal_type a = ''low_inventory'')"
proof -
  have "tif_hours_until_empty (tw_inventory_forecast twin) = 0"
    using assms by (auto simp: forecast_inventory_def Let_def InventoryState_default_def split: prod.splits if_splits)
  then show ?thesis by (auto simp: evaluate_alerts_def Let_def alert_if_def)
qed

end
