(* ===== verification/Twin_Server.thy ===== *)
theory Twin_Server
  imports Twin_Models
begin

text \<open>
  The control plane's side of device twins: the contract server that keeps them (\<^verbatim>\<open>src/cloud/control_plane/twin_contract_server.cpp\<close>) and
  the enrollment service (\<^verbatim>\<open>enrollment_service.cpp\<close>), each with its routes. The current time is an input; metrics and the
  operational status are not modelled. The results are that revisions only grow and disabled twins stay disabled for requests whose
  path names the twin they carry, that other requests break this, and that an enrollment token is good for one enrollment.
\<close>

section \<open>The contract server\<close>

record TwinContractServer =
  cs_twins :: "(string, DrawerTwin) amap"

record twin_request =
  tq_Authorization :: string
  tq_body :: string

datatype twin_route = Post_twin string | Get_twin string | Get_device_status string

definition bearer_ok :: "string \<Rightarrow> twin_request \<Rightarrow> bool" where
  "bearer_ok token req \<longleftrightarrow> token = [] \<or> tq_Authorization req = ''Bearer '' @ token"

definition refusal :: "int \<Rightarrow> string \<Rightarrow> int \<times> json" where
  "refusal status reason = (status, JObj [(''ok'', JBool False), (''reason'', JStr reason)])"

definition cs_upsert :: "DrawerTwin \<Rightarrow> TwinContractServer \<Rightarrow> TwinContractServer" where
  "cs_upsert twin s = s\<lparr>cs_twins := put (tw_drawer_id twin) twin (cs_twins s)\<rparr>"

definition disabled_twin :: "DrawerTwin \<Rightarrow> DrawerTwin" where
  "disabled_twin t = t\<lparr>tw_disabled := True, tw_sync_status := ''disabled''\<rparr>"

definition cs_disable_device :: "string \<Rightarrow> TwinContractServer \<Rightarrow> TwinContractServer" where
  "cs_disable_device device_id s = s\<lparr>cs_twins := map (\<lambda>(k, t). (k, if tw_device_id t = device_id then disabled_twin t else t)) (cs_twins s)\<rparr>"

definition accept_push :: "string \<Rightarrow> DrawerTwin \<Rightarrow> TwinContractServer \<Rightarrow> (int \<times> json) \<times> TwinContractServer" where
  "accept_push path incoming s =
     (let it = get (cs_twins s) path in
      if tw_disabled incoming \<or> (case it of Some t \<Rightarrow> tw_disabled t | None \<Rightarrow> False) then (refusal 423 ''device_disabled'', s)
      else case it of
        Some t \<Rightarrow> if tw_revision incoming \<le> tw_revision t
          then ((409, JObj [(''ok'', JBool False), (''reason'', JStr ''remote_revision_conflict''), (''twin'', twin_to_json t)]), s)
          else let t1 = incoming\<lparr>tw_remote_revision := tw_revision incoming, tw_sync_status := ''synced''\<rparr>
            in ((200, JObj [(''ok'', JBool True), (''twin'', twin_to_json t1)]), s\<lparr>cs_twins := put (tw_drawer_id t1) t1 (cs_twins s)\<rparr>)
      | None \<Rightarrow> let t1 = incoming\<lparr>tw_remote_revision := tw_revision incoming, tw_sync_status := ''synced''\<rparr>
            in ((200, JObj [(''ok'', JBool True), (''twin'', twin_to_json t1)]), s\<lparr>cs_twins := put (tw_drawer_id t1) t1 (cs_twins s)\<rparr>))"

definition incoming_twin :: "extern \<Rightarrow> string \<Rightarrow> DrawerTwin result" where
  "incoming_twin ext body = bind_result (parse ext body) (\<lambda>j. bind_result (at_key ext j ''twin'') (\<lambda>t. twin_from_json ext t DrawerTwin_default))"

definition cs_serve :: "extern \<Rightarrow> string \<Rightarrow> twin_route \<Rightarrow> twin_request \<Rightarrow> TwinContractServer \<Rightarrow> (int \<times> json) \<times> TwinContractServer" where
  "cs_serve ext token r req s = (if \<not> bearer_ok token req then (refusal 401 ''unauthorized'', s)
     else case r of
       Post_twin path \<Rightarrow> (case incoming_twin ext (tq_body req) of Inl _ \<Rightarrow> (refusal 400 ''malformed_payload'', s)
         | Inr incoming \<Rightarrow> accept_push path incoming s)
     | Get_twin path \<Rightarrow> (case get (cs_twins s) path of None \<Rightarrow> (refusal 404 ''not_found'', s)
         | Some t \<Rightarrow> ((200, JObj [(''ok'', JBool True), (''twin'', twin_to_json t)]), s))
     | Get_device_status device_id \<Rightarrow>
         let disabled = list_ex (\<lambda>t. tw_device_id t = device_id \<and> tw_disabled t) (vals (cs_twins s))
         in ((if disabled then 423 else 200, JObj [(''disabled'', JBool disabled)]), s))"

section \<open>Enrollment\<close>

record EnrollmentRequest =
  er_device_id :: string
  er_merchant_id :: string
  er_region :: string
  er_environment :: string
  er_deployment_channel :: string
  er_enrollment_token :: string

record EnrollmentResult =
  en_ok :: bool
  en_disabled :: bool
  en_reason :: string
  en_twin :: DrawerTwin

definition EnrollmentResult_default :: EnrollmentResult where
  "EnrollmentResult_default = \<lparr>en_ok = False, en_disabled = False, en_reason = [], en_twin = DrawerTwin_default\<rparr>"

record EnrollmentTokenRecord =
  et_token :: string
  et_device_id :: string
  et_merchant_id :: string
  et_region :: string
  et_environment :: string
  et_deployment_channel :: string
  et_expires_at_epoch :: int
  et_used :: bool
  et_revoked :: bool

definition EnrollmentTokenRecord_default :: EnrollmentTokenRecord where
  "EnrollmentTokenRecord_default = \<lparr>et_token = [], et_device_id = [], et_merchant_id = [], et_region = [],
     et_environment = [], et_deployment_channel = [], et_expires_at_epoch = 0, et_used = False,
     et_revoked = False\<rparr>"

definition token_record_to_json :: "EnrollmentTokenRecord \<Rightarrow> json" where
  "token_record_to_json v = JObj [(''token'', JStr (et_token v)), (''device_id'', JStr (et_device_id v)),
     (''merchant_id'', JStr (et_merchant_id v)), (''region'', JStr (et_region v)),
     (''environment'', JStr (et_environment v)), (''deployment_channel'', JStr (et_deployment_channel v)),
     (''expires_at_epoch'', JInt (et_expires_at_epoch v)), (''used'', JBool (et_used v)),
     (''revoked'', JBool (et_revoked v))]"

definition token_record_from_json :: "extern \<Rightarrow> json \<Rightarrow> EnrollmentTokenRecord \<Rightarrow> EnrollmentTokenRecord result" where
  "token_record_from_json ext j v =
     bind_result (value_str ext j ''token'' (et_token v)) (\<lambda>a1.
     bind_result (value_str ext j ''device_id'' (et_device_id v)) (\<lambda>a2.
     bind_result (value_str ext j ''merchant_id'' (et_merchant_id v)) (\<lambda>a3.
     bind_result (value_str ext j ''region'' (et_region v)) (\<lambda>a4.
     bind_result (value_str ext j ''environment'' (et_environment v)) (\<lambda>a5.
     bind_result (value_str ext j ''deployment_channel'' (et_deployment_channel v)) (\<lambda>a6.
     bind_result (value_int ext j ''expires_at_epoch'' (et_expires_at_epoch v)) (\<lambda>a7.
     bind_result (value_bool ext j ''used'' (et_used v)) (\<lambda>a8.
     bind_result (value_bool ext j ''revoked'' (et_revoked v)) (\<lambda>a9.
     Inr \<lparr>et_token = a1, et_device_id = a2, et_merchant_id = a3, et_region = a4, et_environment = a5,
       et_deployment_channel = a6, et_expires_at_epoch = a7, et_used = a8, et_revoked = a9\<rparr>)))))))))"

record EnrollmentService =
  es_store_path :: string
  es_file :: "json option"
  es_tokens :: "(string, EnrollmentTokenRecord) amap"
  es_identities :: "(string, DrawerTwin) amap"

definition malformed_token :: "string \<Rightarrow> bool" where
  "malformed_token token \<longleftrightarrow> length token < 12 \<or> length token > 256 \<or>
     \<not> list_all (\<lambda>c. (CHR ''A'' \<le> c \<and> c \<le> CHR ''Z'') \<or> (CHR ''a'' \<le> c \<and> c \<le> CHR ''z'') \<or> (CHR ''0'' \<le> c \<and> c \<le> CHR ''9'') \<or>
        c = CHR ''-'' \<or> c = CHR ''_'' \<or> c = CHR ''.'') token"

text \<open>\<^verbatim>\<open>make_local_default_twin\<close> of \<^verbatim>\<open>fleet_manager.cpp\<close>; \<open>ts\<close> is \<^verbatim>\<open>now_iso()\<close>.\<close>

definition default_coin :: "string \<Rightarrow> int \<Rightarrow> int \<Rightarrow> real \<Rightarrow> string \<Rightarrow> TwinDenomination" where
  "default_coin name quantity capacity rate ts = \<lparr>tdn_denomination = name, tdn_currency_code = ''USD'', tdn_quantity = quantity,
     tdn_capacity = capacity, tdn_consumption_per_hour = rate, tdn_last_refill_at = ts\<rparr>"

definition make_local_default_twin :: "string \<Rightarrow> DrawerTwin" where
  "make_local_default_twin ts = DrawerTwin_default\<lparr>tw_drawer_id := ''local-drawer'', tw_device_id := ''local-device'',
     tw_merchant_id := ''local-merchant'', tw_region := ''local'', tw_environment := ''development'', tw_deployment_channel := ''dev'',
     tw_country_code := ''US'', tw_enrolled := True, tw_enrollment_state := ''local'',
     tw_inventory := InventoryState_default\<lparr>tin_currency_code := ''USD'', tin_country_code := ''US'', tin_region := ''local'',
       tin_denominations := sput ''penny'' (default_coin ''penny'' 300 500 6 ts) (sput ''nickel'' (default_coin ''nickel'' 150 250 2 ts)
         (sput ''dime'' (default_coin ''dime'' 180 300 4 ts) (sput ''quarter'' (default_coin ''quarter'' 220 400 12 ts) [])))\<rparr>,
     tw_firmware := FirmwareState_default\<lparr>tfw_current_version := ''1.0.0'', tfw_target_version := ''1.0.0'', tfw_hardware_revision := ''revA''\<rparr>,
     tw_connectivity_status := ''online'', tw_first_seen_at := ts, tw_last_telemetry_at := ts,
     tw_health := DrawerHealth_default\<lparr>thl_motor_cycles := 2500, thl_transaction_latency_ms := 450, thl_uptime_percent := 99.9\<rparr>,
     tw_history := [\<lparr>thv_id = ''hist-local-drawer-1'', thv_type = ''telemetry'', thv_summary = ''device twin initialized'',
       thv_occurred_at = ts, thv_metadata = JObj [(''source'', JStr ''local_runtime'')]\<rparr>]\<rparr>"

definition es_save_locked :: "EnrollmentService \<Rightarrow> EnrollmentService" where
  "es_save_locked s = (if es_store_path s = [] then s else s\<lparr>es_file := Some (JObj [(''schema'', JInt 1),
     (''tokens'', JArr (map token_record_to_json (vals (es_tokens s)))), (''identities'', JArr (map twin_to_json (vals (es_identities s))))])\<rparr>)"

text \<open>The loading loops: an exception ends the loading, what was read before it stays.\<close>

fun load_until :: "(json \<Rightarrow> 'a result) \<Rightarrow> ('a \<Rightarrow> string) \<Rightarrow> json list \<Rightarrow> (string, 'a) amap \<Rightarrow> bool \<times> (string, 'a) amap" where
  "load_until conv key [] m = (True, m)"
| "load_until conv key (j # js) m = (case conv j of Inl _ \<Rightarrow> (False, m) | Inr x \<Rightarrow> load_until conv key js (put (key x) x m))"

definition es_load :: "extern \<Rightarrow> EnrollmentService \<Rightarrow> EnrollmentService" where
  "es_load ext s = (if es_store_path s = [] then s else case es_file s of None \<Rightarrow> s
     | Some j \<Rightarrow> (case value_arr ext j ''tokens'' [] of Inl _ \<Rightarrow> s
       | Inr ts \<Rightarrow>
         let (ok, toks) = load_until (\<lambda>j. token_record_from_json ext j EnrollmentTokenRecord_default) et_token ts (es_tokens s);
             s1 = s\<lparr>es_tokens := toks\<rparr>
         in if \<not> ok then s1 else case value_arr ext j ''identities'' [] of Inl _ \<Rightarrow> s1
            | Inr ds \<Rightarrow> s1\<lparr>es_identities := snd (load_until (\<lambda>j. twin_from_json ext j DrawerTwin_default) tw_device_id ds (es_identities s1))\<rparr>))"

definition EnrollmentService_new :: "extern \<Rightarrow> string \<Rightarrow> json option \<Rightarrow> EnrollmentService" where
  "EnrollmentService_new ext path file = es_load ext \<lparr>es_store_path = path, es_file = file, es_tokens = [], es_identities = []\<rparr>"

definition es_add_token :: "EnrollmentTokenRecord \<Rightarrow> EnrollmentService \<Rightarrow> EnrollmentService" where
  "es_add_token r s = es_save_locked (s\<lparr>es_tokens := put (et_token r) r (es_tokens s)\<rparr>)"

definition es_revoke_token :: "string \<Rightarrow> EnrollmentService \<Rightarrow> EnrollmentService" where
  "es_revoke_token token s = es_save_locked (case get (es_tokens s) token of None \<Rightarrow> s
     | Some r \<Rightarrow> s\<lparr>es_tokens := put token (r\<lparr>et_revoked := True\<rparr>) (es_tokens s)\<rparr>)"

definition or_else :: "string \<Rightarrow> string \<Rightarrow> string" where
  "or_else v d = (if v = [] then d else v)"

definition enrolled_twin :: "string \<Rightarrow> EnrollmentRequest \<Rightarrow> EnrollmentTokenRecord \<Rightarrow> DrawerTwin" where
  "enrolled_twin ts q r = (make_local_default_twin ts)\<lparr>tw_drawer_id := er_device_id q, tw_device_id := er_device_id q,
     tw_merchant_id := or_else (er_merchant_id q) (et_merchant_id r), tw_region := or_else (er_region q) (et_region r),
     tw_environment := or_else (er_environment q) (et_environment r),
     tw_deployment_channel := or_else (er_deployment_channel q) (et_deployment_channel r), tw_enrolled := True,
     tw_enrollment_state := ''enrolled'', tw_sync_status := ''synced'', tw_revision := 1\<rparr>"

definition es_enroll :: "string \<Rightarrow> EnrollmentRequest \<Rightarrow> int \<Rightarrow> EnrollmentService \<Rightarrow> EnrollmentResult \<times> EnrollmentService" where
  "es_enroll ts q now s =
     (let failed = (\<lambda>reason. (EnrollmentResult_default\<lparr>en_reason := reason\<rparr>, s)) in
      if malformed_token (er_enrollment_token q) then failed ''malformed_token''
      else case get (es_tokens s) (er_enrollment_token q) of
        None \<Rightarrow> failed ''unknown_token''
      | Some r \<Rightarrow>
          if et_revoked r then failed ''revoked_token''
          else if et_used r then failed ''reused_token''
          else if et_expires_at_epoch r > 0 \<and> et_expires_at_epoch r < now then failed ''expired_token''
          else if et_device_id r \<noteq> er_device_id q then failed ''device_mismatch''
          else let twin = enrolled_twin ts q r
            in (\<lparr>en_ok = True, en_disabled = False, en_reason = [], en_twin = twin\<rparr>,
                es_save_locked (s\<lparr>es_tokens := put (er_enrollment_token q) (r\<lparr>et_used := True\<rparr>) (es_tokens s),
                  es_identities := put (tw_device_id twin) twin (es_identities s)\<rparr>)))"

definition es_identity :: "string \<Rightarrow> EnrollmentService \<Rightarrow> DrawerTwin option" where
  "es_identity device_id s = get (es_identities s) device_id"

definition es_is_disabled :: "string \<Rightarrow> EnrollmentService \<Rightarrow> bool" where
  "es_is_disabled device_id s = (case get (es_identities s) device_id of None \<Rightarrow> False | Some t \<Rightarrow> tw_disabled t)"

definition es_disable_device :: "string \<Rightarrow> EnrollmentService \<Rightarrow> EnrollmentService" where
  "es_disable_device device_id s = es_save_locked (case get (es_identities s) device_id of None \<Rightarrow> s
     | Some t \<Rightarrow> s\<lparr>es_identities := put device_id (disabled_twin t) (es_identities s)\<rparr>)"

datatype enroll_route = Post_enroll | Get_enroll_status string

definition post_enroll :: "extern \<Rightarrow> string \<Rightarrow> int \<Rightarrow> string \<Rightarrow> EnrollmentService \<Rightarrow> ((int \<times> json) \<times> EnrollmentService) result" where
  "post_enroll ext ts now body s =
     bind_result (parse ext body) (\<lambda>j.
     bind_result (value_str ext j ''device_id'' []) (\<lambda>a1. bind_result (value_str ext j ''merchant_id'' []) (\<lambda>a2.
     bind_result (value_str ext j ''region'' []) (\<lambda>a3. bind_result (value_str ext j ''environment'' []) (\<lambda>a4.
     bind_result (value_str ext j ''deployment_channel'' []) (\<lambda>a5. bind_result (value_str ext j ''enrollment_token'' []) (\<lambda>a6.
       let (r, s1) = es_enroll ts \<lparr>er_device_id = a1, er_merchant_id = a2, er_region = a3, er_environment = a4, er_deployment_channel = a5,
             er_enrollment_token = a6\<rparr> now s
       in Inr ((if en_disabled r then 423 else if en_ok r then 200 else 400,
            JObj [(''ok'', JBool (en_ok r)), (''reason'', JStr (en_reason r)), (''twin'', twin_to_json (en_twin r))]), s1))))))))"

definition es_serve :: "extern \<Rightarrow> string \<Rightarrow> string \<Rightarrow> int \<Rightarrow> enroll_route \<Rightarrow> twin_request \<Rightarrow> EnrollmentService \<Rightarrow> (int \<times> json) \<times> EnrollmentService" where
  "es_serve ext token ts now r req s = (if \<not> bearer_ok token req then (refusal 401 ''unauthorized'', s)
     else case r of
       Post_enroll \<Rightarrow> (case post_enroll ext ts now (tq_body req) s of Inr x \<Rightarrow> x | Inl _ \<Rightarrow> (refusal 400 ''malformed_payload'', s))
     | Get_enroll_status device_id \<Rightarrow> let disabled = es_is_disabled device_id s
         in ((if disabled then 423 else 200, JObj [(''disabled'', JBool disabled)]), s))"

lemma token_record_json_roundtrip: "value_laws ext \<Longrightarrow> token_record_from_json ext (token_record_to_json x) v = Inr x"
  by (simp add: token_record_from_json_def token_record_to_json_def value_back)


section \<open>Revisions at the contract server\<close>

text \<open>What happens to the server: a request, or the operator disabling a device.\<close>

datatype server_step = Serve twin_route twin_request | Disable string

fun cs_step :: "extern \<Rightarrow> string \<Rightarrow> server_step \<Rightarrow> TwinContractServer \<Rightarrow> TwinContractServer" where
  "cs_step ext token (Serve r req) s = snd (cs_serve ext token r req s)"
| "cs_step ext token (Disable device_id) s = cs_disable_device device_id s"

text \<open>A push whose path names the twin in its body.\<close>

fun names_its_twin :: "extern \<Rightarrow> server_step \<Rightarrow> bool" where
  "names_its_twin ext (Serve (Post_twin path) req) = (case incoming_twin ext (tq_body req) of Inr t \<Rightarrow> tw_drawer_id t = path | Inl _ \<Rightarrow> True)"
| "names_its_twin ext _ = True"

text \<open>How a stored twin may change: not at all, by being disabled, or, unless it is disabled, by a twin with a larger revision.\<close>

definition supersedes :: "DrawerTwin \<Rightarrow> DrawerTwin \<Rightarrow> bool" where
  "supersedes t t' \<longleftrightarrow> t' = t \<or> t' = disabled_twin t \<or> (\<not> tw_disabled t \<and> tw_revision t < tw_revision t')"

lemma disabled_twin_simps [simp]:
  "tw_disabled (disabled_twin t)" "tw_revision (disabled_twin t) = tw_revision t" "tw_device_id (disabled_twin t) = tw_device_id t"
  "tw_drawer_id (disabled_twin t) = tw_drawer_id t" "tw_inventory (disabled_twin t) = tw_inventory t" "disabled_twin (disabled_twin t) = disabled_twin t"
  by (simp_all add: disabled_twin_def)

lemma supersedes_refl: "supersedes t t"
  by (simp add: supersedes_def)

lemma supersedes_trans: "supersedes a b \<Longrightarrow> supersedes b c \<Longrightarrow> supersedes a c"
  by (auto simp: supersedes_def)

lemma get_disable: "get (cs_twins (cs_disable_device device_id s)) k =
    map_option (\<lambda>t. if tw_device_id t = device_id then disabled_twin t else t) (get (cs_twins s) k)"
  using get_map_vals [of "\<lambda>k t. if tw_device_id t = device_id then disabled_twin t else t"] by (simp add: cs_disable_device_def)

lemma accept_push_supersedes:
  assumes "tw_drawer_id incoming = path" "get (cs_twins s) d = Some t"
  shows "\<exists>t'. get (cs_twins (snd (accept_push path incoming s))) d = Some t' \<and> supersedes t t'"
  using assms by (auto simp: accept_push_def supersedes_def Let_def split: option.split)

lemma cs_step_supersedes:
  assumes "names_its_twin ext x" "get (cs_twins s) d = Some t"
  shows "\<exists>t'. get (cs_twins (cs_step ext token x s)) d = Some t' \<and> supersedes t t'"
proof (cases x)
  case (Disable device_id)
  then show ?thesis using assms(2) by (auto simp: get_disable supersedes_def)
next
  case (Serve r req)
  show ?thesis
  proof (cases "\<exists>path t'. r = Post_twin path \<and> bearer_ok token req \<and> incoming_twin ext (tq_body req) = Inr t'")
    case True
    then obtain path t' where r: "r = Post_twin path" "bearer_ok token req" "incoming_twin ext (tq_body req) = Inr t'" by blast
    then show ?thesis using accept_push_supersedes [of t' path s d t] assms Serve by (simp add: cs_serve_def)
  next
    case False
    then have "snd (cs_serve ext token r req s) = s"
      by (cases r) (auto simp: cs_serve_def Let_def split: sum.split option.split)
    then show ?thesis using assms(2) Serve supersedes_refl by simp
  qed
qed

text \<open>
  C18. However the server is used, as long as every push goes to the path of the twin it carries, a stored twin stays stored, is
  only replaced by one with a larger revision, and is not replaced at all once its device was disabled.
\<close>

theorem server_revisions:
  assumes "list_all (names_its_twin ext) xs" "get (cs_twins s) d = Some t"
  shows "\<exists>t'. get (cs_twins (fold (cs_step ext token) xs s)) d = Some t' \<and> supersedes t t'"
  using assms
proof (induction xs arbitrary: s t)
  case Nil
  then show ?case using supersedes_refl by simp
next
  case (Cons x xs)
  obtain t1 where t1: "get (cs_twins (cs_step ext token x s)) d = Some t1" "supersedes t t1"
    using cs_step_supersedes [of ext x s d t token] Cons.prems by auto
  then obtain t' where "get (cs_twins (fold (cs_step ext token) xs (cs_step ext token x s))) d = Some t'" "supersedes t1 t'"
    using Cons.IH [of "cs_step ext token x s" t1] Cons.prems(1) by auto
  then show ?case using supersedes_trans [OF t1(2)] by auto
qed

text \<open>
  A push whose path names no stored twin is accepted whatever the twin in its body is: it replaces that twin, also a disabled
  one and also by a smaller revision.
\<close>

theorem mismatched_push_overwrites:
  assumes "bearer_ok token req" "incoming_twin ext (tq_body req) = Inr t" "\<not> tw_disabled t" "get (cs_twins s) path = None"
    and "get (cs_twins s) (tw_drawer_id t) = Some old" "tw_revision t < tw_revision old"
  shows "\<exists>res s' t'. cs_serve ext token (Post_twin path) req s = ((200, res), s') \<and>
    get (cs_twins s') (tw_drawer_id t) = Some t' \<and> \<not> tw_disabled t' \<and> \<not> supersedes old t'"
proof -
  let ?t1 = "t\<lparr>tw_remote_revision := tw_revision t, tw_sync_status := ''synced''\<rparr>"
  have "?t1 \<noteq> old" "?t1 \<noteq> disabled_twin old" using assms(6) by (auto dest: arg_cong [of _ _ tw_revision])
  then show ?thesis using assms by (simp add: cs_serve_def accept_push_def Let_def supersedes_def)
qed

section \<open>Enrollment tokens\<close>

text \<open>The service's history: requests and operator actions, and restarts that read the file back.\<close>

datatype es_step_kind = Enroll string EnrollmentRequest int | Add_token EnrollmentTokenRecord | Revoke string | Disable_id string | Restart

fun es_step :: "extern \<Rightarrow> es_step_kind \<Rightarrow> EnrollmentService \<Rightarrow> EnrollmentResult \<times> EnrollmentService" where
  "es_step ext (Enroll ts q now) s = es_enroll ts q now s"
| "es_step ext (Add_token r) s = (EnrollmentResult_default, es_add_token r s)"
| "es_step ext (Revoke token) s = (EnrollmentResult_default, es_revoke_token token s)"
| "es_step ext (Disable_id d) s = (EnrollmentResult_default, es_disable_device d s)"
| "es_step ext Restart s = (EnrollmentResult_default, EnrollmentService_new ext (es_store_path s) (es_file s))"

fun es_run :: "extern \<Rightarrow> es_step_kind list \<Rightarrow> EnrollmentService \<Rightarrow> EnrollmentResult list" where
  "es_run ext [] s = []"
| "es_run ext (x # xs) s = (let (r, s1) = es_step ext x s in r # es_run ext xs s1)"

fun enrolls_with :: "string \<Rightarrow> es_step_kind \<Rightarrow> bool" where
  "enrolls_with token (Enroll ts q now) = (er_enrollment_token q = token)"
| "enrolls_with token _ = False"

fun issues :: "string \<Rightarrow> es_step_kind \<Rightarrow> bool" where
  "issues token (Add_token r) = (et_token r = token)"
| "issues token _ = False"

definition enrolled_with :: "string \<Rightarrow> es_step_kind list \<Rightarrow> EnrollmentResult list \<Rightarrow> nat" where
  "enrolled_with token xs rs = length (filter (\<lambda>(x, r). enrolls_with token x \<and> en_ok r) (zip xs rs))"

text \<open>The invariant: keys agree with the records, the identities survive the file, and the file is the state.\<close>

definition es_store_json :: "EnrollmentService \<Rightarrow> json" where
  "es_store_json s = JObj [(''schema'', JInt 1),
     (''tokens'', JArr (map token_record_to_json (vals (es_tokens s)))), (''identities'', JArr (map twin_to_json (vals (es_identities s))))]"

definition es_ok :: "EnrollmentService \<Rightarrow> bool" where
  "es_ok s \<longleftrightarrow> keyed et_token (es_tokens s) \<and> keyed tw_device_id (es_identities s) \<and>
     list_all (\<lambda>(k, t). inventory_ok (tw_inventory t)) (es_identities s)"

definition es_synced :: "EnrollmentService \<Rightarrow> bool" where
  "es_synced s \<longleftrightarrow> (if es_store_path s = [] then True
     else case es_file s of Some j \<Rightarrow> j = es_store_json s | None \<Rightarrow> es_tokens s = [] \<and> es_identities s = [])"

lemma in_put: "(k', v') \<in> set (put k v m) \<Longrightarrow> (k', v') = (k, v) \<or> (k', v') \<in> set m"
  unfolding put_def by (induction m) (auto split: if_splits)

lemma load_until_back:
  assumes "\<And>k x. (k, x) \<in> set m \<Longrightarrow> conv (f x) = Inr x" "distinct (map fst (m0 @ m))" "\<forall>(k, x)\<in>set m. key x = k"
  shows "load_until conv key (map f (vals m)) m0 = (True, m0 @ m)"
  using assms
proof (induction m arbitrary: m0)
  case (Cons kx m)
  obtain k x where kx: "kx = (k, x)" by fastforce
  have "put k x m0 = m0 @ [(k, x)]" using Cons.prems(2) by (intro put_new) (simp add: kx)
  moreover have "load_until conv key (map f (vals m)) (m0 @ [(k, x)]) = (True, (m0 @ [(k, x)]) @ m)"
    by (rule Cons.IH) (use Cons.prems in \<open>auto simp: kx\<close>)
  moreover have "conv (f x) = Inr x" by (rule Cons.prems(1) [of k]) (simp add: kx)
  ultimately show ?case using Cons.prems(3) by (simp add: kx vals_def)
qed (simp add: vals_def)

text \<open>A restart brings back what was saved.\<close>

lemma es_restart:
  assumes "value_laws ext" "es_ok s" "es_synced s" "es_store_path s \<noteq> []"
  shows "EnrollmentService_new ext (es_store_path s) (es_file s) = s"
proof (cases "es_file s")
  case None
  then show ?thesis using assms by (cases s) (simp add: EnrollmentService_new_def es_load_def es_synced_def)
next
  case (Some j)
  with assms(3,4) have j: "j = es_store_json s" by (simp add: es_synced_def)
  let ?s0 = "\<lparr>es_store_path = es_store_path s, es_file = es_file s, es_tokens = [], es_identities = []\<rparr>"
  have "load_until (\<lambda>j. token_record_from_json ext j EnrollmentTokenRecord_default) et_token (map token_record_to_json (vals (es_tokens s))) [] =
      (True, [] @ es_tokens s)"
    by (rule load_until_back) (use assms(1,2) in \<open>auto simp: es_ok_def keyed_def token_record_json_roundtrip\<close>)
  moreover have "load_until (\<lambda>j. twin_from_json ext j DrawerTwin_default) tw_device_id (map twin_to_json (vals (es_identities s))) [] =
      (True, [] @ es_identities s)"
    by (rule load_until_back) (use assms(1,2) in \<open>auto simp: es_ok_def keyed_def list_all_iff twin_json_back\<close>)
  ultimately show ?thesis using assms(1,4) j Some
    by (cases s) (simp add: EnrollmentService_new_def es_load_def es_store_json_def value_back)
qed

lemma inventory_ok_enrolled: "inventory_ok (tw_inventory (enrolled_twin ts q r))"
  by (simp add: enrolled_twin_def make_local_default_twin_def inventory_ok_def default_coin_def InventoryState_default_def)

lemma es_save_synced: "es_synced (es_save_locked s)"
  by (simp add: es_save_locked_def es_synced_def es_store_json_def)

lemma es_save_fields [simp]:
  "es_tokens (es_save_locked s) = es_tokens s" "es_identities (es_save_locked s) = es_identities s"
  "es_store_path (es_save_locked s) = es_store_path s"
  by (simp_all add: es_save_locked_def)

lemma es_enroll_cases:
  obtains "\<not> en_ok (fst (es_enroll ts q now s))" "snd (es_enroll ts q now s) = s"
  | r where "get (es_tokens s) (er_enrollment_token q) = Some r" "\<not> et_used r" "en_ok (fst (es_enroll ts q now s))"
      "snd (es_enroll ts q now s) = es_save_locked (s\<lparr>es_tokens := put (er_enrollment_token q) (r\<lparr>et_used := True\<rparr>) (es_tokens s),
         es_identities := put (er_device_id q) (enrolled_twin ts q r) (es_identities s)\<rparr>)"
proof (cases "en_ok (fst (es_enroll ts q now s))")
  case True
  then show ?thesis using that(2)
    by (auto simp: es_enroll_def Let_def EnrollmentResult_default_def enrolled_twin_def split: option.splits if_splits)
next
  case False
  then show ?thesis using that(1)
    by (auto simp: es_enroll_def Let_def split: option.splits if_splits)
qed

lemma es_ok_put_token: "es_ok s \<Longrightarrow> et_token r = k \<Longrightarrow> es_ok (s\<lparr>es_tokens := put k r (es_tokens s)\<rparr>)"
  by (simp add: es_ok_def keyed_put)

lemma es_ok_put_identity:
  "es_ok s \<Longrightarrow> tw_device_id t = k \<Longrightarrow> inventory_ok (tw_inventory t) \<Longrightarrow> es_ok (s\<lparr>es_identities := put k t (es_identities s)\<rparr>)"
  by (auto simp: es_ok_def keyed_put list_all_iff dest!: in_put)

lemma es_ok_save [simp]: "es_ok (es_save_locked s) = es_ok s"
  by (simp add: es_ok_def)

lemma es_step_ok:
  assumes "value_laws ext" "es_ok s" "es_synced s"
  shows "es_ok (snd (es_step ext x s))" and "es_synced (snd (es_step ext x s))"
proof -
  have keys: "get (es_tokens s) k = Some r \<Longrightarrow> et_token r = k" "get (es_identities s) k = Some t \<Longrightarrow> tw_device_id t = k"
    "get (es_identities s) k = Some t \<Longrightarrow> inventory_ok (tw_inventory t)" for k r t
    using assms(2) by (auto simp: es_ok_def list_all_iff dest: keyed_get get_in_set)
  have "es_ok (snd (es_step ext x s)) \<and> es_synced (snd (es_step ext x s))"
  proof (cases x)
    case (Enroll ts q now)
    show ?thesis
    proof (cases ts q now s rule: es_enroll_cases)
      case 1
      then show ?thesis using assms Enroll by simp
    next
      case (2 r)
      have "es_ok (s\<lparr>es_tokens := put (er_enrollment_token q) (r\<lparr>et_used := True\<rparr>) (es_tokens s)\<rparr>)"
        using assms(2) keys 2 by (intro es_ok_put_token) auto
      from es_ok_put_identity [OF this _ inventory_ok_enrolled, of ts q r "er_device_id q"] show ?thesis
        using 2 Enroll es_save_synced by (simp add: enrolled_twin_def)
    qed
  next
    case (Add_token r)
    then show ?thesis using assms(2) es_save_synced by (simp add: es_add_token_def es_ok_put_token)
  next
    case (Revoke token)
    then show ?thesis using assms(2) keys es_save_synced by (auto simp: es_revoke_token_def es_ok_put_token split: option.split)
  next
    case (Disable_id d)
    then show ?thesis using assms(2) keys es_save_synced by (auto simp: es_disable_device_def es_ok_put_identity split: option.split)
  next
    case Restart
    show ?thesis
    proof (cases "es_store_path s = []")
      case True
      then show ?thesis using Restart by (simp add: EnrollmentService_new_def es_load_def es_ok_def es_synced_def keyed_def)
    next
      case False
      then show ?thesis using Restart es_restart [OF assms] assms by simp
    qed
  qed
  then show "es_ok (snd (es_step ext x s))" "es_synced (snd (es_step ext x s))" by simp_all
qed

text \<open>How many enrollments a token is still good for.\<close>

definition credit :: "string \<Rightarrow> EnrollmentService \<Rightarrow> nat" where
  "credit token s = (case get (es_tokens s) token of Some r \<Rightarrow> if et_used r then 0 else 1 | None \<Rightarrow> 0)"

lemma es_step_credit:
  assumes "value_laws ext" "es_ok s" "es_synced s"
  shows "(if enrolls_with token x \<and> en_ok (fst (es_step ext x s)) then 1 else 0) + credit token (snd (es_step ext x s))
    \<le> credit token s + (if issues token x then 1 else 0)"
proof (cases x)
  case (Enroll ts q now)
  then show ?thesis by (cases ts q now s rule: es_enroll_cases) (auto simp: credit_def)
next
  case (Add_token r)
  then show ?thesis by (simp add: es_add_token_def credit_def EnrollmentResult_default_def split: option.split)
next
  case (Revoke t)
  then show ?thesis by (auto simp: es_revoke_token_def credit_def EnrollmentResult_default_def split: option.split)
next
  case (Disable_id d)
  then show ?thesis by (auto simp: es_disable_device_def credit_def split: option.split)
next
  case Restart
  then show ?thesis using es_restart [OF assms]
    by (cases "es_store_path s = []") (simp_all add: EnrollmentService_new_def es_load_def credit_def)
qed

lemma es_run_credit:
  assumes "value_laws ext" "es_ok s" "es_synced s"
  shows "enrolled_with token xs (es_run ext xs s) \<le> credit token s + length (filter (issues token) xs)"
  using assms(2,3)
proof (induction xs arbitrary: s)
  case (Cons x xs)
  obtain r s1 where r: "es_step ext x s = (r, s1)" by fastforce
  have "es_ok s1" "es_synced s1" using es_step_ok [OF assms(1) Cons.prems, of x] r by simp_all
  from Cons.IH [OF this] show ?case using es_step_credit [OF assms(1) Cons.prems, of token x] r
    by (auto simp: enrolled_with_def split: if_splits)
qed (simp add: enrolled_with_def)


text \<open>
  A device that was disabled is enabled again by enrolling it with another token.
\<close>

theorem reenrollment_enables:
  assumes "en_ok (fst (es_enroll ts q now s))"
  shows "\<not> es_is_disabled (er_device_id q) (snd (es_enroll ts q now s))"
  using assms
  by (cases ts q now s rule: es_enroll_cases) (simp_all add: es_is_disabled_def enrolled_twin_def make_local_default_twin_def DrawerTwin_default_def)

section \<open>Examples\<close>

definition pushes :: "extern" where
  "pushes = sample_extern\<lparr>parse := (\<lambda>b. Inr (JObj [(''twin'', twin_to_json (DrawerTwin_default\<lparr>tw_drawer_id := b, tw_revision := 2\<rparr>))]))\<rparr>"

lemma pushes_incoming: "incoming_twin pushes b = Inr (DrawerTwin_default\<lparr>tw_drawer_id := b, tw_revision := 2\<rparr>)"
proof -
  have "value_laws pushes" by (simp add: pushes_def value_laws_def sample_extern_def)
  moreover have "parse pushes b = Inr (JObj [(''twin'', twin_to_json (DrawerTwin_default\<lparr>tw_drawer_id := b, tw_revision := 2\<rparr>))])"
    by (simp add: pushes_def)
  moreover have "at_key pushes = obj_get" by (simp add: pushes_def sample_extern_def)
  moreover have "inventory_ok (tw_inventory (DrawerTwin_default\<lparr>tw_drawer_id := b, tw_revision := 2\<rparr>))"
    by (simp add: inventory_ok_def DrawerTwin_default_def InventoryState_default_def)
  ultimately show ?thesis using twin_json_back by (simp add: incoming_twin_def obj_get_def)
qed

definition one_twin :: TwinContractServer where
  "one_twin = \<lparr>cs_twins = [(''d'', DrawerTwin_default\<lparr>tw_drawer_id := ''d'', tw_revision := 1\<rparr>)]\<rparr>"

definition no_auth :: "string \<Rightarrow> twin_request" where
  "no_auth b = \<lparr>tq_Authorization = [], tq_body = b\<rparr>"

theorem server_revisions_witness:
  "\<exists>t'. get (cs_twins (fold (cs_step pushes []) [Serve (Post_twin ''d'') (no_auth ''d''), Disable ''x'', Serve (Get_twin ''d'') (no_auth [])] one_twin)) ''d'' = Some t' \<and>
     supersedes (DrawerTwin_default\<lparr>tw_drawer_id := ''d'', tw_revision := 1\<rparr>) t'"
  by (rule server_revisions) (simp_all add: pushes_incoming no_auth_def one_twin_def)

definition disabled_server :: TwinContractServer where
  "disabled_server = \<lparr>cs_twins = [(''d'', disabled_twin (DrawerTwin_default\<lparr>tw_drawer_id := ''d'', tw_revision := 7\<rparr>))]\<rparr>"

theorem mismatched_push_overwrites_witness:
  "\<exists>res s' t'. cs_serve pushes [] (Post_twin ''nowhere'') (no_auth ''d'') disabled_server = ((200, res), s') \<and>
    get (cs_twins s') ''d'' = Some t' \<and> \<not> tw_disabled t' \<and>
    \<not> supersedes (disabled_twin (DrawerTwin_default\<lparr>tw_drawer_id := ''d'', tw_revision := 7\<rparr>)) t'"
  using mismatched_push_overwrites [of "[]" "no_auth ''d''" pushes "DrawerTwin_default\<lparr>tw_drawer_id := ''d'', tw_revision := 2\<rparr>" disabled_server "''nowhere''"
      "disabled_twin (DrawerTwin_default\<lparr>tw_drawer_id := ''d'', tw_revision := 7\<rparr>)"] pushes_incoming [of "''d''"]
  by (simp add: no_auth_def bearer_ok_def disabled_server_def DrawerTwin_default_def)

definition token_history :: "es_step_kind list" where
  "token_history = (let q = \<lparr>er_device_id = ''dev'', er_merchant_id = [], er_region = [], er_environment = [], er_deployment_channel = [],
       er_enrollment_token = ''token-0000-1''\<rparr> in
     [Add_token (EnrollmentTokenRecord_default\<lparr>et_token := ''token-0000-1'', et_device_id := ''dev''\<rparr>), Enroll [] q 5, Restart, Enroll [] q 6])"


end
