(* ===== verification/Twin_Client.thy ===== *)
theory Twin_Client
  imports Twin_Server
begin

text \<open>
  The drawer's side of the twin contract (\<^verbatim>\<open>src/cloud/control_plane/http_device_twin_client.cpp\<close>): pushing twins over HTTP, and the
  offline queue that keeps what could not be pushed. The network is a parameter, a function from requests and a state of the
  outside world to answers; so is the clock, which reads that state, and the text of an exception. The queue file is a JSON value.
  The results are the bounds and the order of the queue, what a flush sends, and, with the contract server of the other theory
  as the network, that a new revision reaches the server and that a stale one at the head of the queue stops it.
\<close>

section \<open>Requests\<close>

record HttpControlPlaneConfig =
  cc_base_url :: string
  cc_bearer_token :: string
  cc_offline_queue_path :: string
  cc_timeout_ms :: int
  cc_max_queue_depth :: int

record SyncResult =
  sr_ok :: bool
  sr_conflict :: bool
  sr_disabled :: bool
  sr_reason :: string
  sr_twin :: DrawerTwin

definition SyncResult_default :: SyncResult where
  "SyncResult_default = \<lparr>sr_ok = False, sr_conflict = False, sr_disabled = False, sr_reason = [], sr_twin = DrawerTwin_default\<rparr>"

record SyncStatus =
  ss_cloud_sync_status :: string
  ss_offline_queue_depth :: int
  ss_last_successful_sync_at :: string
  ss_last_failed_sync_at :: string
  ss_last_error :: string

definition SyncStatus_default :: SyncStatus where
  "SyncStatus_default = \<lparr>ss_cloud_sync_status = ''local'', ss_offline_queue_depth = 0, ss_last_successful_sync_at = [],
     ss_last_failed_sync_at = [], ss_last_error = []\<rparr>"

record Endpoint =
  ep_scheme :: string
  ep_host :: string
  ep_port :: int

text \<open>The client object of the HTTP library, by what it is made with, and a request.\<close>

record http_client =
  cl_host :: string
  cl_port :: int
  cl_timeout :: "int \<times> int"

record twin_http_request =
  rq_method :: string
  rq_path :: string
  rq_headers :: "(string \<times> string) list"
  rq_body :: string

type_synonym http_result = "(int \<times> string) option"

record 'w outside =
  net :: "http_client \<Rightarrow> twin_http_request \<Rightarrow> 'w \<Rightarrow> http_result \<times> 'w"
  clock :: "'w \<Rightarrow> string"
  what :: "exn \<Rightarrow> string"

definition parse_base_url :: "string \<Rightarrow> Endpoint option result" where
  "parse_base_url url = (case after ''://'' url of None \<Rightarrow> Inr None
     | Some rest0 \<Rightarrow>
       let scheme = take (length url - length rest0 - 3) url;
           rest = takeWhile (\<lambda>c. c \<noteq> CHR ''/'') rest0;
           colon = (CHR '':'' \<in> set rest);
           host = (if colon then rev (tl (dropWhile (\<lambda>c. c \<noteq> CHR '':'') (rev rest))) else rest);
           port0 = (if scheme = ''https'' then 443 else 80)
       in bind_result (if colon then stoi (rev (takeWhile (\<lambda>c. c \<noteq> CHR '':'') (rev rest))) else Inr port0) (\<lambda>port.
            Inr (if host = [] then None else Some \<lparr>ep_scheme = scheme, ep_host = host, ep_port = port\<rparr>)))"

definition make_client :: "HttpControlPlaneConfig \<Rightarrow> http_client option result" where
  "make_client config = bind_result (parse_base_url (cc_base_url config)) (\<lambda>ep.
     Inr (map_option (\<lambda>e. \<lparr>cl_host = ep_host e, cl_port = ep_port e,
       cl_timeout = (cc_timeout_ms config sdiv 1000, (cc_timeout_ms config smod 1000) * 1000)\<rparr>) ep))"

definition auth_headers :: "HttpControlPlaneConfig \<Rightarrow> (string \<times> string) list" where
  "auth_headers config = (if cc_bearer_token config = [] then [] else [(''Authorization'', ''Bearer '' @ cc_bearer_token config)])"

definition c_str :: "string \<Rightarrow> string" where
  "c_str s = takeWhile (\<lambda>c. c \<noteq> CHR 0x00) s"

definition post_request :: "HttpControlPlaneConfig \<Rightarrow> string \<Rightarrow> string \<Rightarrow> twin_http_request" where
  "post_request config path body = \<lparr>rq_method = ''POST'', rq_path = path, rq_headers = auth_headers config, rq_body = body\<rparr>"

definition get_request :: "HttpControlPlaneConfig \<Rightarrow> string \<Rightarrow> twin_http_request" where
  "get_request config path = \<lparr>rq_method = ''GET'', rq_path = path, rq_headers = auth_headers config, rq_body = []\<rparr>"

definition member_twin :: "extern \<Rightarrow> json \<Rightarrow> DrawerTwin result" where
  "member_twin ext j = (if has_key ext j ''twin'' then bind_result (at_key ext j ''twin'') (\<lambda>t. twin_from_json ext t DrawerTwin_default)
     else Inr DrawerTwin_default)"

definition parse_sync_response :: "extern \<Rightarrow> (exn \<Rightarrow> string) \<Rightarrow> http_result \<Rightarrow> SyncResult" where
  "parse_sync_response ext wh res = (case res of
     None \<Rightarrow> SyncResult_default\<lparr>sr_reason := ''remote_unavailable''\<rparr>
   | Some (status, body) \<Rightarrow>
       if status = 401 \<or> status = 403 then SyncResult_default\<lparr>sr_reason := ''unauthorized''\<rparr>
       else if status = 423 then SyncResult_default\<lparr>sr_disabled := True, sr_reason := ''device_disabled''\<rparr>
       else case bind_result (parse ext (if body = [] then ''{}'' else body)) (\<lambda>j.
              bind_result (value_str ext j ''reason'' []) (\<lambda>reason. bind_result (member_twin ext j) (\<lambda>t. Inr (reason, t)))) of
         Inl e \<Rightarrow> SyncResult_default\<lparr>sr_reason := ''bad_response:'' @ wh e\<rparr>
       | Inr (reason, t) \<Rightarrow>
           if status = 409 then \<lparr>sr_ok = False, sr_conflict = True, sr_disabled = False,
             sr_reason = (if reason = [] then ''remote_revision_conflict'' else reason), sr_twin = t\<rparr>
           else let k = (200 \<le> status \<and> status < 300) in
             \<lparr>sr_ok = k, sr_conflict = False, sr_disabled = False,
              sr_reason = (if \<not> k \<and> reason = [] then ''http_'' @ to_string status else reason), sr_twin = t\<rparr>)"

section \<open>The client\<close>

record HttpDeviceTwinClient =
  hc_config :: HttpControlPlaneConfig
  hc_status :: SyncStatus
  hc_queue :: "DrawerTwin list"
  hc_file :: "json option"

text \<open>\<^verbatim>\<open>load_queue\<close>: an exception ends the loading, what was read before it stays.\<close>

fun load_twins :: "extern \<Rightarrow> json list \<Rightarrow> DrawerTwin list \<Rightarrow> DrawerTwin list" where
  "load_twins ext [] q = q"
| "load_twins ext (j # js) q = (case twin_from_json ext j DrawerTwin_default of Inl _ \<Rightarrow> q | Inr t \<Rightarrow> load_twins ext js (q @ [t]))"

definition load_queue :: "extern \<Rightarrow> HttpDeviceTwinClient \<Rightarrow> HttpDeviceTwinClient" where
  "load_queue ext c = (if cc_offline_queue_path (hc_config c) = [] then c else case hc_file c of None \<Rightarrow> c
     | Some j \<Rightarrow> (case value_arr ext j ''twins'' [] of Inl _ \<Rightarrow> c | Inr js \<Rightarrow> c\<lparr>hc_queue := load_twins ext js (hc_queue c)\<rparr>))"

definition save_queue_locked :: "HttpDeviceTwinClient \<Rightarrow> HttpDeviceTwinClient" where
  "save_queue_locked c = (if cc_offline_queue_path (hc_config c) = [] then c
     else c\<lparr>hc_file := Some (JObj [(''schema'', JInt 1), (''twins'', JArr (map twin_to_json (hc_queue c)))])\<rparr>)"

definition show_depth :: "HttpDeviceTwinClient \<Rightarrow> HttpDeviceTwinClient" where
  "show_depth c = c\<lparr>hc_status := (hc_status c)\<lparr>ss_offline_queue_depth := int (length (hc_queue c))\<rparr>\<rparr>"

definition HttpDeviceTwinClient_new :: "extern \<Rightarrow> HttpControlPlaneConfig \<Rightarrow> json option \<Rightarrow> HttpDeviceTwinClient" where
  "HttpDeviceTwinClient_new ext config file = show_depth (load_queue ext
     \<lparr>hc_config = config, hc_status = SyncStatus_default\<lparr>ss_cloud_sync_status := ''configured''\<rparr>, hc_queue = [], hc_file = file\<rparr>)"

definition enroll_body :: "EnrollmentRequest \<Rightarrow> json" where
  "enroll_body q = JObj [(''device_id'', JStr (er_device_id q)), (''merchant_id'', JStr (er_merchant_id q)), (''region'', JStr (er_region q)),
     (''environment'', JStr (er_environment q)), (''deployment_channel'', JStr (er_deployment_channel q)),
     (''enrollment_token'', JStr (er_enrollment_token q))]"

text \<open>The answer to an enrollment. The three assignments of the \<^verbatim>\<open>try\<close> block are made one by one: what was assigned before an
  exception stays.\<close>

definition enroll_accepted :: "extern \<Rightarrow> string \<Rightarrow> EnrollmentResult" where
  "enroll_accepted ext body = (let bad = (\<lambda>r. r\<lparr>en_reason := ''bad_response''\<rparr>); r0 = EnrollmentResult_default in
     case parse ext body of Inl _ \<Rightarrow> bad r0
     | Inr j \<Rightarrow> (case value_bool ext j ''ok'' True of Inl _ \<Rightarrow> bad r0
       | Inr k \<Rightarrow> let r1 = r0\<lparr>en_ok := k\<rparr> in (case value_str ext j ''reason'' [] of Inl _ \<Rightarrow> bad r1
         | Inr reason \<Rightarrow> (case member_twin ext j of Inl _ \<Rightarrow> bad r1 | Inr t \<Rightarrow> r1\<lparr>en_reason := reason, en_twin := t\<rparr>))))"

definition enroll_answer :: "extern \<Rightarrow> http_result \<Rightarrow> EnrollmentResult" where
  "enroll_answer ext res = (case res of
     None \<Rightarrow> EnrollmentResult_default\<lparr>en_reason := ''remote_unavailable''\<rparr>
   | Some (status, body) \<Rightarrow>
       if status = 423 then EnrollmentResult_default\<lparr>en_disabled := True, en_reason := ''device_disabled''\<rparr>
       else if 200 \<le> status \<and> status < 300 then enroll_accepted ext body
       else (case bind_result (parse ext body) (\<lambda>j. value_str ext j ''reason'' ''enrollment_rejected'') of
           Inl _ \<Rightarrow> EnrollmentResult_default\<lparr>en_reason := ''http_'' @ to_string status\<rparr>
         | Inr reason \<Rightarrow> EnrollmentResult_default\<lparr>en_reason := reason\<rparr>))"

definition hc_enroll :: "extern \<Rightarrow> 'w outside \<Rightarrow> EnrollmentRequest \<Rightarrow> HttpDeviceTwinClient \<Rightarrow> 'w \<Rightarrow> EnrollmentResult result \<times> 'w" where
  "hc_enroll ext out q c w = (case make_client (hc_config c) of Inl e \<Rightarrow> (Inl e, w)
     | Inr None \<Rightarrow> (Inr (EnrollmentResult_default\<lparr>en_reason := ''bad_control_plane_url''\<rparr>), w)
     | Inr (Some cli) \<Rightarrow>
         let (res, w1) = net out cli (post_request (hc_config c) ''/control-plane/v1/enroll'' (dump ext (enroll_body q))) w
         in (Inr (enroll_answer ext res), w1))"

definition push_body :: "DrawerTwin \<Rightarrow> json" where
  "push_body twin = JObj [(''twin'', twin_to_json twin), (''revision'', JInt (tw_revision twin))]"

definition push_now :: "extern \<Rightarrow> 'w outside \<Rightarrow> HttpControlPlaneConfig \<Rightarrow> DrawerTwin \<Rightarrow> 'w \<Rightarrow> SyncResult result \<times> 'w" where
  "push_now ext out config twin w = (case make_client config of Inl e \<Rightarrow> (Inl e, w)
     | Inr None \<Rightarrow> (Inr (SyncResult_default\<lparr>sr_reason := ''bad_control_plane_url'', sr_twin := twin\<rparr>), w)
     | Inr (Some cli) \<Rightarrow>
         let (res, w1) = net out cli (post_request config (c_str (''/control-plane/v1/twins/'' @ tw_drawer_id twin)) (dump ext (push_body twin))) w;
             r = parse_sync_response ext (what out) res
         in (Inr (if tw_drawer_id (sr_twin r) = [] then r\<lparr>sr_twin := twin\<rparr> else r), w1))"

text \<open>\<^verbatim>\<open>enqueue_locked\<close>: removing the front of an empty queue is undefined, hence \<open>None\<close>.\<close>

definition enqueue_locked :: "DrawerTwin \<Rightarrow> string \<Rightarrow> HttpDeviceTwinClient \<Rightarrow> HttpDeviceTwinClient option" where
  "enqueue_locked twin reason c =
     (let full = (int (length (hc_queue c)) \<ge> cc_max_queue_depth (hc_config c)) in
      if full \<and> hc_queue c = [] then None
      else Some (save_queue_locked (c\<lparr>hc_queue := (if full then tl (hc_queue c) else hc_queue c) @ [twin],
        hc_status := (hc_status c)\<lparr>ss_last_error := reason\<rparr>\<rparr>)))"

definition push_twin :: "extern \<Rightarrow> 'w outside \<Rightarrow> DrawerTwin \<Rightarrow> HttpDeviceTwinClient \<Rightarrow> 'w \<Rightarrow> (SyncResult result \<times> HttpDeviceTwinClient \<times> 'w) option" where
  "push_twin ext out twin c w = (case push_now ext out (hc_config c) twin w of
     (Inl e, w1) \<Rightarrow> Some (Inl e, c, w1)
   | (Inr r, w1) \<Rightarrow>
       let st = hc_status c;
           c1 = (if sr_ok r then Some (c\<lparr>hc_status := st\<lparr>ss_cloud_sync_status := ''synced'', ss_last_successful_sync_at := clock out w1\<rparr>\<rparr>)
                 else let c2 = c\<lparr>hc_status := st\<lparr>ss_cloud_sync_status := (if sr_conflict r then ''conflict'' else ''sync_failed''),
                        ss_last_failed_sync_at := clock out w1, ss_last_error := sr_reason r\<rparr>\<rparr>
                   in if sr_conflict r then Some c2 else enqueue_locked twin (sr_reason r) c2)
       in map_option (\<lambda>c'. (Inr r, show_depth c', w1)) c1)"

definition fetch_twin :: "extern \<Rightarrow> 'w outside \<Rightarrow> string \<Rightarrow> HttpDeviceTwinClient \<Rightarrow> 'w \<Rightarrow> DrawerTwin option result \<times> 'w" where
  "fetch_twin ext out drawer_id c w = (case make_client (hc_config c) of Inl e \<Rightarrow> (Inl e, w)
     | Inr None \<Rightarrow> (Inr None, w)
     | Inr (Some cli) \<Rightarrow>
         let (res, w1) = net out cli (get_request (hc_config c) (c_str (''/control-plane/v1/twins/'' @ drawer_id))) w
         in (Inr (case res of None \<Rightarrow> None
             | Some (status, body) \<Rightarrow> if status \<noteq> 200 then None
                 else (case bind_result (parse ext body) (\<lambda>j. if has_key ext j ''twin''
                         then bind_result (at_key ext j ''twin'') (\<lambda>t. twin_from_json ext t DrawerTwin_default)
                         else twin_from_json ext j DrawerTwin_default) of Inl _ \<Rightarrow> None | Inr t \<Rightarrow> Some t)), w1))"

definition is_device_disabled :: "extern \<Rightarrow> 'w outside \<Rightarrow> string \<Rightarrow> HttpDeviceTwinClient \<Rightarrow> 'w \<Rightarrow> bool result \<times> 'w" where
  "is_device_disabled ext out device_id c w = (case make_client (hc_config c) of Inl e \<Rightarrow> (Inl e, w)
     | Inr None \<Rightarrow> (Inr False, w)
     | Inr (Some cli) \<Rightarrow>
         let (res, w1) = net out cli (get_request (hc_config c) (c_str (''/control-plane/v1/devices/'' @ device_id @ ''/status''))) w
         in (Inr (case res of None \<Rightarrow> False
             | Some (status, body) \<Rightarrow> if status = 423 then True
                 else (case bind_result (parse ext body) (\<lambda>j. value_bool ext j ''disabled'' False) of Inl _ \<Rightarrow> False | Inr b \<Rightarrow> b)), w1))"

definition hc_sync_status :: "HttpDeviceTwinClient \<Rightarrow> SyncStatus" where
  "hc_sync_status c = (hc_status c)\<lparr>ss_offline_queue_depth := int (length (hc_queue c))\<rparr>"

text \<open>The second locked block of the flush: the front of the queue at that time goes.\<close>

definition pop_sent :: "string \<Rightarrow> HttpDeviceTwinClient \<Rightarrow> HttpDeviceTwinClient" where
  "pop_sent ts c = save_queue_locked (show_depth (c\<lparr>hc_queue := tl (hc_queue c),
     hc_status := (hc_status c)\<lparr>ss_cloud_sync_status := ''synced'', ss_last_successful_sync_at := ts\<rparr>\<rparr>))"

lemma hc_queue_simps [simp]:
  "hc_queue (save_queue_locked c) = hc_queue c" "hc_config (save_queue_locked c) = hc_config c" "hc_queue (show_depth c) = hc_queue c"
  "hc_config (show_depth c) = hc_config c" "hc_queue (pop_sent ts c) = tl (hc_queue c)" "hc_config (pop_sent ts c) = hc_config c"
  by (simp_all add: save_queue_locked_def show_depth_def pop_sent_def)

text \<open>The loop of \<^verbatim>\<open>flush_offline_queue\<close>, while no other thread uses the client. The number returned and what happened so far.\<close>

function flush_offline_queue :: "extern \<Rightarrow> 'w outside \<Rightarrow> nat \<Rightarrow> HttpDeviceTwinClient \<Rightarrow> 'w \<Rightarrow> nat result \<times> HttpDeviceTwinClient \<times> 'w" where
  "flush_offline_queue ext out flushed c w = (case hc_queue c of [] \<Rightarrow> (Inr flushed, c, w)
     | next # _ \<Rightarrow> (case push_now ext out (hc_config c) next w of
         (Inl e, w1) \<Rightarrow> (Inl e, c, w1)
       | (Inr r, w1) \<Rightarrow> if \<not> sr_ok r then (Inr flushed, c, w1)
           else flush_offline_queue ext out (Suc flushed) (pop_sent (clock out w1) c) w1))"
  by pat_completeness auto

termination
  by (relation "measure (\<lambda>(ext, out, flushed, c, w). length (hc_queue c))") auto

declare flush_offline_queue.simps [simp del]


section \<open>The queue\<close>

text \<open>A flush takes twins off the front, and returns how many.\<close>

lemma flush_drops_prefix:
  assumes "flush_offline_queue ext out f c w = (r, c', w')"
  shows "\<exists>n \<le> length (hc_queue c). hc_queue c' = drop n (hc_queue c) \<and> hc_config c' = hc_config c \<and> (\<forall>k. r = Inr k \<longrightarrow> k = f + n) \<and>
     (n = 0 \<longrightarrow> c' = c) \<and> (n > 0 \<longrightarrow> (\<exists>ts c0. c' = pop_sent ts c0))"
  using assms
proof (induction ext out f c w rule: flush_offline_queue.induct)
  case (1 ext out f c w)
  note eq = 1(2) [unfolded flush_offline_queue.simps [of ext out f c w]]
  show ?case
  proof (cases "hc_queue c")
    case Nil
    then show ?thesis using eq by auto
  next
    case (Cons t q)
    obtain x w1 where x: "push_now ext out (hc_config c) t w = (x, w1)" by fastforce
    show ?thesis
    proof (cases "\<exists>y. x = Inr y \<and> sr_ok y")
      case False
      then show ?thesis using eq Cons x by (intro exI [of _ 0]) (auto split: sum.splits)
    next
      case True
      then obtain y where y: "x = Inr y" "sr_ok y" by blast
      let ?c1 = "pop_sent (clock out w1) c"
      have "flush_offline_queue ext out (Suc f) ?c1 w1 = (r, c', w')" using eq Cons x y by simp
      with 1(1) [OF Cons x [symmetric] y(1)] y(2) obtain n where
        n: "n \<le> length (hc_queue ?c1)" "hc_queue c' = drop n (hc_queue ?c1)" "hc_config c' = hc_config ?c1" "\<forall>k. r = Inr k \<longrightarrow> k = Suc f + n"
          "n = 0 \<longrightarrow> c' = ?c1" "n > 0 \<longrightarrow> (\<exists>ts c0. c' = pop_sent ts c0)" by auto
      then have "\<exists>ts c0. c' = pop_sent ts c0" by (cases "n = 0") auto
      then show ?thesis using n Cons by (intro exI [of _ "Suc n"]) auto
    qed
  qed
qed

lemma push_twin_cases:
  assumes "0 < cc_max_queue_depth (hc_config c)"
  obtains r c' w' where "push_twin ext out t c w = Some (r, c', w')" "hc_config c' = hc_config c"
    "hc_queue c' = hc_queue c" "hc_file c' = hc_file c"
  | r c' w' where "push_twin ext out t c w = Some (r, c', w')" "hc_config c' = hc_config c"
    "hc_queue c' = (if int (length (hc_queue c)) \<ge> cc_max_queue_depth (hc_config c) then tl (hc_queue c) else hc_queue c) @ [t]"
    "hc_file c' = (if cc_offline_queue_path (hc_config c) = [] then hc_file c
       else Some (JObj [(''schema'', JInt 1), (''twins'', JArr (map twin_to_json (hc_queue c')))]))"
proof -
  obtain x w1 where x: "push_now ext out (hc_config c) t w = (x, w1)" by fastforce
  show thesis
  proof (cases "\<exists>r. x = Inr r \<and> \<not> sr_ok r \<and> \<not> sr_conflict r")
    case False
    then show thesis
      using x by (cases x; cases "sr_ok (projr x)") (auto simp: push_twin_def Let_def show_depth_def intro: that(1))
  next
    case True
    have "\<not> (int (length (hc_queue c)) \<ge> cc_max_queue_depth (hc_config c) \<and> hc_queue c = [])" using assms by auto
    then show thesis using True x that(2)
      by (auto simp: push_twin_def Let_def enqueue_locked_def show_depth_def save_queue_locked_def)
  qed
qed

text \<open>A history of the client: pushes, flushes, and restarts of the process.\<close>

datatype hc_step_kind = Push DrawerTwin | Flush | Reboot

fun hc_step :: "extern \<Rightarrow> 'w outside \<Rightarrow> hc_step_kind \<Rightarrow> HttpDeviceTwinClient \<times> 'w \<Rightarrow> (HttpDeviceTwinClient \<times> 'w) option" where
  "hc_step ext out (Push t) (c, w) = map_option snd (push_twin ext out t c w)"
| "hc_step ext out Flush (c, w) = Some (snd (flush_offline_queue ext out 0 c w))"
| "hc_step ext out Reboot (c, w) = Some (HttpDeviceTwinClient_new ext (hc_config c) (hc_file c), w)"

fun hc_run :: "extern \<Rightarrow> 'w outside \<Rightarrow> hc_step_kind list \<Rightarrow> HttpDeviceTwinClient \<times> 'w \<Rightarrow> (HttpDeviceTwinClient \<times> 'w) option" where
  "hc_run ext out [] cw = Some cw"
| "hc_run ext out (x # xs) cw = Option.bind (hc_step ext out x cw) (hc_run ext out xs)"

fun pushed :: "hc_step_kind list \<Rightarrow> DrawerTwin list" where
  "pushed [] = []"
| "pushed (Push t # xs) = t # pushed xs"
| "pushed (_ # xs) = pushed xs"

definition hc_ok :: "HttpControlPlaneConfig \<Rightarrow> DrawerTwin list \<Rightarrow> HttpDeviceTwinClient \<Rightarrow> bool" where
  "hc_ok config ps c \<longleftrightarrow> hc_config c = config \<and> int (length (hc_queue c)) \<le> cc_max_queue_depth config \<and>
     subseq (hc_queue c) ps \<and> list_all (\<lambda>t. inventory_ok (tw_inventory t)) (hc_queue c) \<and>
     (case hc_file c of None \<Rightarrow> hc_queue c = []
      | Some j \<Rightarrow> j = JObj [(''schema'', JInt 1), (''twins'', JArr (map twin_to_json (hc_queue c)))])"

lemma hc_ok_same:
  "hc_ok config ps c \<Longrightarrow> hc_queue c' = hc_queue c \<Longrightarrow> hc_config c' = hc_config c \<Longrightarrow> hc_file c' = hc_file c \<Longrightarrow> hc_ok config ps c'"
  by (simp add: hc_ok_def split: option.splits)

lemma load_twins_back:
  "value_laws ext \<Longrightarrow> list_all (\<lambda>t. inventory_ok (tw_inventory t)) ts \<Longrightarrow> load_twins ext (map twin_to_json ts) q = q @ ts"
  by (induction ts arbitrary: q) (simp_all add: twin_json_back)

lemma hc_reboot:
  assumes "value_laws ext" "hc_ok config ps c" "cc_offline_queue_path config \<noteq> []"
  shows "hc_queue (HttpDeviceTwinClient_new ext config (hc_file c)) = hc_queue c"
    "hc_config (HttpDeviceTwinClient_new ext config (hc_file c)) = config"
    "hc_file (HttpDeviceTwinClient_new ext config (hc_file c)) = hc_file c"
  using assms by (auto simp: HttpDeviceTwinClient_new_def load_queue_def hc_ok_def load_twins_back value_back show_depth_def split: option.splits)

lemma subseq_drop: "subseq q ps \<Longrightarrow> subseq (drop n q) ps"
  using subseq_order.trans [OF suffix_imp_subseq [OF suffix_drop]] by blast

lemma hc_step_ok:
  assumes "value_laws ext" "hc_ok config ps c" "0 < cc_max_queue_depth config" "cc_offline_queue_path config \<noteq> []"
    and "list_all (\<lambda>t. inventory_ok (tw_inventory t)) (pushed [x])"
  shows "\<exists>c' w'. hc_step ext out x (c, w) = Some (c', w') \<and> hc_ok config (ps @ pushed [x]) c'"
proof (cases x)
  case (Push t)
  have cfg: "hc_config c = config" "0 < cc_max_queue_depth (hc_config c)" using assms(2,3) by (simp_all add: hc_ok_def)
  have sub: "subseq (hc_queue c) ps" "list_all (\<lambda>t. inventory_ok (tw_inventory t)) (hc_queue c)" using assms(2) by (simp_all add: hc_ok_def)
  let ?q = "(if int (length (hc_queue c)) \<ge> cc_max_queue_depth config then tl (hc_queue c) else hc_queue c)"
  have "tl xs = drop 1 xs" for xs :: "DrawerTwin list" by (simp add: drop_Suc)
  then have q: "subseq ?q ps" "list_all (\<lambda>t. inventory_ok (tw_inventory t)) ?q"
    using sub subseq_drop [OF sub(1), of 1] by (auto simp: list_all_iff dest: in_set_dropD)
  have len: "int (length ?q) < cc_max_queue_depth config" using assms(2,3) by (auto simp: hc_ok_def)
  show ?thesis
  proof (cases rule: push_twin_cases [OF cfg(2), where ext = ext and out = out and t = t and w = w])
    case (1 r c' w')
    have "subseq (hc_queue c) (ps @ [t])" using subseq_rev_drop_many [OF sub(1)] sub(1) by (simp add: subseq_append_le_same_iff subseq_order.trans)
    then have "hc_ok config (ps @ [t]) c" using assms(2) by (simp add: hc_ok_def)
    from hc_ok_same [OF this 1(3,2,4)] show ?thesis using 1(1) Push by simp
  next
    case (2 r c' w')
    have "subseq (?q @ [t]) (ps @ [t])" using q(1) by (simp add: list_emb_append_mono)
    then show ?thesis using 2 Push q(2) len assms(4,5) cfg(1) by (auto simp: hc_ok_def)
  qed
next
  case Flush
  obtain r c' w' where f: "flush_offline_queue ext out 0 c w = (r, c', w')" using prod_cases3 by blast
  from flush_drops_prefix [OF f] obtain n where n: "hc_queue c' = drop n (hc_queue c)" "hc_config c' = hc_config c"
    "n = 0 \<longrightarrow> c' = c" "n > 0 \<longrightarrow> (\<exists>ts c0. c' = pop_sent ts c0)" by blast
  have "hc_ok config ps c'"
  proof (cases "n = 0")
    case False
    then obtain ts c0 where c0: "c' = pop_sent ts c0" using n by auto
    have cfg: "hc_config c0 = config" using n(2) c0 assms(2) by (simp add: hc_ok_def)
    then have "hc_file c' = Some (JObj [(''schema'', JInt 1), (''twins'', JArr (map twin_to_json (hc_queue c')))])"
      using assms(4) by (simp add: c0 pop_sent_def save_queue_locked_def show_depth_def)
    then show ?thesis using assms(2) n subseq_drop by (auto simp: hc_ok_def list_all_iff dest: in_set_dropD)
  qed (use n assms(2) in simp)
  then show ?thesis using Flush f by simp
next
  case Reboot
  have "hc_config c = config" using assms(2) by (simp add: hc_ok_def)
  then show ?thesis using Reboot hc_reboot [OF assms(1,2,4)] hc_ok_same [OF assms(2)] by simp
qed

lemma hc_run_ok:
  assumes "value_laws ext" "0 < cc_max_queue_depth config" "cc_offline_queue_path config \<noteq> []"
  shows "hc_ok config ps c \<Longrightarrow> list_all (\<lambda>t. inventory_ok (tw_inventory t)) (pushed xs) \<Longrightarrow>
    \<exists>c' w'. hc_run ext out xs (c, w) = Some (c', w') \<and> hc_ok config (ps @ pushed xs) c'"
proof (induction xs arbitrary: ps c w)
  case (Cons x xs)
  have split: "pushed (x # xs) = pushed [x] @ pushed xs" by (cases x) simp_all
  then have px: "list_all (\<lambda>t. inventory_ok (tw_inventory t)) (pushed [x])" "list_all (\<lambda>t. inventory_ok (tw_inventory t)) (pushed xs)"
    using Cons.prems(2) by (auto simp: list_all_iff)
  obtain c1 w1 where c1: "hc_step ext out x (c, w) = Some (c1, w1)" "hc_ok config (ps @ pushed [x]) c1"
    using hc_step_ok [OF assms(1) Cons.prems(1) assms(2,3) px(1), of out w] by blast
  from Cons.IH [OF c1(2) px(2), of w1] show ?case using c1(1) split by simp
qed simp


text \<open>
  Between the two locked blocks of a flush another thread may push. When the queue is full and that push fails, it drops the
  twin the flush has just sent; the flush then removes the twin after it, which nobody sent.
\<close>

lemma flush_race_drops_unsent:
  assumes "hc_queue c = sent # unsent # q" "cc_max_queue_depth (hc_config c) = int (length (hc_queue c))"
    and "enqueue_locked t reason c = Some c1"
  shows "hc_queue (pop_sent ts c1) = q @ [t]"
  using assms by (auto simp: enqueue_locked_def Let_def)


section \<open>The client and the contract server\<close>

text \<open>The contract server as the outside world: its routes on the paths the client uses, for identifiers of plain characters,
  which neither the client nor the server of the HTTP library rewrites.\<close>

definition plain_id :: "string \<Rightarrow> bool" where
  "plain_id d \<longleftrightarrow> d \<noteq> [] \<and> list_all (\<lambda>c. (CHR ''A'' \<le> c \<and> c \<le> CHR ''Z'') \<or> (CHR ''a'' \<le> c \<and> c \<le> CHR ''z'') \<or>
     (CHR ''0'' \<le> c \<and> c \<le> CHR ''9'') \<or> c = CHR ''-'' \<or> c = CHR ''_'') d"

definition twins_prefix :: string where
  "twins_prefix = ''/control-plane/v1/twins/''"

definition route_of :: "twin_http_request \<Rightarrow> twin_route option" where
  "route_of rq =
     (if prefix twins_prefix (rq_path rq) \<and> plain_id (drop (length twins_prefix) (rq_path rq))
      then Some ((if rq_method rq = ''POST'' then Post_twin else Get_twin) (drop (length twins_prefix) (rq_path rq)))
      else None)"

definition request_of :: "twin_http_request \<Rightarrow> twin_request" where
  "request_of rq = \<lparr>tq_Authorization = (case map_of (rq_headers rq) ''Authorization'' of Some v \<Rightarrow> v | None \<Rightarrow> []), tq_body = rq_body rq\<rparr>"

definition server_net :: "extern \<Rightarrow> string \<Rightarrow> http_client \<Rightarrow> twin_http_request \<Rightarrow> TwinContractServer \<Rightarrow> http_result \<times> TwinContractServer" where
  "server_net ext token cli rq s = (case route_of rq of None \<Rightarrow> (Some (404, []), s)
     | Some r \<Rightarrow> let ((status, j), s1) = cs_serve ext token r (request_of rq) s in (Some (status, dump ext j), s1))"

definition served :: "extern \<Rightarrow> string \<Rightarrow> TwinContractServer outside" where
  "served ext token = \<lparr>net = server_net ext token, clock = (\<lambda>_. []), what = (\<lambda>_. [])\<rparr>"

text \<open>What is asked of the JSON library: that it reads what it printed.\<close>

definition prints :: "extern \<Rightarrow> json \<Rightarrow> bool" where
  "prints ext j \<longleftrightarrow> parse ext (dump ext j) = Inr j \<and> dump ext j \<noteq> []"

definition synced_twin :: "DrawerTwin \<Rightarrow> DrawerTwin" where
  "synced_twin t = t\<lparr>tw_remote_revision := tw_revision t, tw_sync_status := ''synced''\<rparr>"

definition accepted_reply :: "DrawerTwin \<Rightarrow> json" where
  "accepted_reply t = JObj [(''ok'', JBool True), (''twin'', twin_to_json (synced_twin t))]"

lemma plain_id_c_str: "plain_id d \<Longrightarrow> c_str (twins_prefix @ d) = twins_prefix @ d"
proof -
  assume "plain_id d"
  then have "CHR 0x00 \<notin> set d" by (auto simp: plain_id_def list_all_iff)
  then have "\<forall>c \<in> set (twins_prefix @ d). c \<noteq> CHR 0x00" by (auto simp: twins_prefix_def)
  then show ?thesis by (simp only: c_str_def takeWhile_eq_all_conv)
qed

lemma push_body_incoming:
  assumes "value_laws ext" "inventory_ok (tw_inventory t)" "prints ext (push_body t)"
  shows "incoming_twin ext (dump ext (push_body t)) = Inr t"
  using assms twin_json_back [OF assms(1,2)] by (simp add: incoming_twin_def prints_def) (simp add: push_body_def value_laws_def obj_get_def)

lemma push_now_served:
  assumes "value_laws ext" "make_client config = Inr (Some cli)" "inventory_ok (tw_inventory t)" "plain_id (tw_drawer_id t)"
    and "prints ext (push_body t)" "accept_push (tw_drawer_id t) t s = ((status, j), s')"
  shows "push_now ext (served ext (cc_bearer_token config)) config t s =
    (Inr (let r = parse_sync_response ext (\<lambda>_. []) (Some (status, dump ext j)) in if tw_drawer_id (sr_twin r) = [] then r\<lparr>sr_twin := t\<rparr> else r), s')"
proof -
  let ?rq = "post_request config (c_str (''/control-plane/v1/twins/'' @ tw_drawer_id t)) (dump ext (push_body t))"
  have "rq_path ?rq = twins_prefix @ tw_drawer_id t" using plain_id_c_str [OF assms(4)] by (simp add: post_request_def twins_prefix_def)
  then have "route_of ?rq = Some (Post_twin (tw_drawer_id t))" using assms(4) by (simp add: route_of_def post_request_def)
  moreover have "bearer_ok (cc_bearer_token config) (request_of ?rq)" "tq_body (request_of ?rq) = dump ext (push_body t)"
    by (simp_all add: bearer_ok_def request_of_def post_request_def auth_headers_def)
  ultimately have "server_net ext (cc_bearer_token config) cli ?rq s = (Some (status, dump ext j), s')"
    using push_body_incoming [OF assms(1,3,5)] assms(6) by (simp add: server_net_def cs_serve_def)
  then show ?thesis using assms(2) by (simp add: push_now_def served_def Let_def)
qed

lemma parse_accepted:
  assumes "value_laws ext" "inventory_ok (tw_inventory t)" "prints ext (accepted_reply t)"
  shows "parse_sync_response ext wh (Some (200, dump ext (accepted_reply t))) =
    \<lparr>sr_ok = True, sr_conflict = False, sr_disabled = False, sr_reason = [], sr_twin = synced_twin t\<rparr>"
proof -
  have "member_twin ext (accepted_reply t) = Inr (synced_twin t)"
    using assms twin_json_back [of ext "synced_twin t"] by (simp add: member_twin_def accepted_reply_def value_laws_def json_has_def obj_get_def synced_twin_def)
  moreover have "value_str ext (accepted_reply t) ''reason'' [] = Inr []"
    using assms(1) by (simp add: accepted_reply_def value_laws_def json_value_def)
  ultimately show ?thesis using assms(3) by (simp add: parse_sync_response_def prints_def)
qed

lemma parse_refused: "\<not> (200 \<le> status \<and> status < 300) \<Longrightarrow> \<not> sr_ok (parse_sync_response ext wh (Some (status, body)))"
  by (auto simp: parse_sync_response_def SyncResult_default_def Let_def split: sum.splits)

text \<open>A server that would take the twin.\<close>

definition behind :: "TwinContractServer \<Rightarrow> DrawerTwin \<Rightarrow> bool" where
  "behind s t \<longleftrightarrow> (case get (cs_twins s) (tw_drawer_id t) of None \<Rightarrow> True | Some t0 \<Rightarrow> \<not> tw_disabled t0 \<and> tw_revision t0 < tw_revision t)"

definition deliverable :: "extern \<Rightarrow> DrawerTwin \<Rightarrow> bool" where
  "deliverable ext t \<longleftrightarrow> plain_id (tw_drawer_id t) \<and> inventory_ok (tw_inventory t) \<and> \<not> tw_disabled t \<and>
     prints ext (push_body t) \<and> prints ext (accepted_reply t)"

lemma push_now_accepted:
  assumes "value_laws ext" "make_client config = Inr (Some cli)" "deliverable ext t" "behind s t"
  shows "push_now ext (served ext (cc_bearer_token config)) config t s =
    (Inr \<lparr>sr_ok = True, sr_conflict = False, sr_disabled = False, sr_reason = [], sr_twin = synced_twin t\<rparr>,
     s\<lparr>cs_twins := put (tw_drawer_id t) (synced_twin t) (cs_twins s)\<rparr>)"
proof -
  have t: "plain_id (tw_drawer_id t)" "inventory_ok (tw_inventory t)" "\<not> tw_disabled t" "prints ext (push_body t)" "prints ext (accepted_reply t)"
    using assms(3) by (simp_all add: deliverable_def)
  have "accept_push (tw_drawer_id t) t s = ((200, accepted_reply t), s\<lparr>cs_twins := put (tw_drawer_id t) (synced_twin t) (cs_twins s)\<rparr>)"
    using t(3) assms(4) by (auto simp: accept_push_def behind_def accepted_reply_def synced_twin_def Let_def split: option.splits)
  moreover have "tw_drawer_id (synced_twin t) \<noteq> []" using t(1) by (simp add: synced_twin_def plain_id_def)
  ultimately show ?thesis
    using push_now_served [OF assms(1,2) t(2,1,4)] parse_accepted [OF assms(1) t(2,5)] by (simp add: Let_def)
qed


text \<open>
  A queued twin whose revision the server already has, because a later one was pushed directly, is refused by every flush: the
  flush sends nothing, and the twins behind it wait although the server would take them.
\<close>

theorem stale_head_blocks:
  assumes "value_laws ext" "make_client (hc_config c) = Inr (Some cli)" "hc_queue c = t # q"
    and "plain_id (tw_drawer_id t)" "inventory_ok (tw_inventory t)" "prints ext (push_body t)"
    and "get (cs_twins s) (tw_drawer_id t) = Some t0" "tw_revision t \<le> tw_revision t0"
  shows "flush_offline_queue ext (served ext (cc_bearer_token (hc_config c))) 0 c s = (Inr 0, c, s)"
proof -
  let ?out = "served ext (cc_bearer_token (hc_config c))"
  obtain status j s' where a: "accept_push (tw_drawer_id t) t s = ((status, j), s')" by (metis surj_pair)
  then have st: "s' = s" "\<not> (200 \<le> status \<and> status < 300)"
    using assms(7,8) by (auto simp: accept_push_def refusal_def split: if_splits)
  have "\<exists>r. push_now ext ?out (hc_config c) t s = (Inr r, s) \<and> \<not> sr_ok r"
    using push_now_served [OF assms(1,2,5,4,6) a] parse_refused [OF st(2)] st(1) by (simp add: Let_def)
  then show ?thesis using assms(3) by (subst flush_offline_queue.simps) auto
qed


section \<open>Examples\<close>

definition codec :: "DrawerTwin \<Rightarrow> extern" where
  "codec t = sample_extern\<lparr>dump := (\<lambda>j. if j = push_body t then ''b'' else ''r''),
     parse := (\<lambda>b. if b = ''b'' then Inr (push_body t) else Inr (accepted_reply t))\<rparr>"

definition sample_twin :: DrawerTwin where
  "sample_twin = DrawerTwin_default\<lparr>tw_drawer_id := ''d'', tw_revision := 2\<rparr>"

definition sample_client :: HttpDeviceTwinClient where
  "sample_client = \<lparr>hc_config = \<lparr>cc_base_url = ''http://h:81/x'', cc_bearer_token = ''k'', cc_offline_queue_path = ''q'', cc_timeout_ms = 2000,
     cc_max_queue_depth = 8\<rparr>, hc_status = SyncStatus_default, hc_queue = [sample_twin], hc_file = None\<rparr>"

lemma codec_laws: "value_laws (codec t)" "prints (codec t) (push_body t)" "prints (codec t) (accepted_reply t)"
proof -
  show "value_laws (codec t)" by (simp add: codec_def value_laws_def sample_extern_def)
  have "push_body t \<noteq> accepted_reply t" by (simp add: push_body_def accepted_reply_def)
  then show "prints (codec t) (push_body t)" "prints (codec t) (accepted_reply t)"
    by (simp_all add: prints_def codec_def)
qed

lemma sample_deliverable: "deliverable (codec sample_twin) sample_twin" "inventory_ok (tw_inventory sample_twin)" "plain_id (tw_drawer_id sample_twin)"
  using codec_laws [of sample_twin]
  by (simp_all add: deliverable_def plain_id_def inventory_ok_def sample_twin_def DrawerTwin_default_def InventoryState_default_def less_eq_char_def)

lemma sample_endpoint: "make_client (hc_config sample_client) = Inr (Some \<lparr>cl_host = ''h'', cl_port = 81, cl_timeout = (2, 0)\<rparr>)"
  by (simp add: make_client_def sample_client_def parse_base_url_def stoi_def sto_def is_space_def is_digit_def digits_value_def
      digit_val_def int32_def signed_divide_int_def signed_modulo_int_def)


theorem stale_head_blocks_witness:
  "flush_offline_queue (codec sample_twin) (served (codec sample_twin) ''k'') 0 sample_client disabled_server = (Inr 0, sample_client, disabled_server)"
  using stale_head_blocks [OF codec_laws(1) [of sample_twin] sample_endpoint, of sample_twin "[]" disabled_server
      "disabled_twin (DrawerTwin_default\<lparr>tw_drawer_id := ''d'', tw_revision := 7\<rparr>)"] sample_deliverable codec_laws [of sample_twin]
  by (simp add: sample_client_def disabled_server_def) (simp add: sample_twin_def DrawerTwin_default_def)


end
