(* ===== verification/Fleet_Manager.thy ===== *)
theory Fleet_Manager
  imports Twin_Analytics Twin_Client
begin

text \<open>
  The fleet manager of the appliance (\<^verbatim>\<open>src/cloud/fleet_manager\<close>) with its store, its metrics and its routes, and the operational status
  (\<^verbatim>\<open>src/ops/operational_status.cpp\<close>). The control plane is an interface of the code and a parameter here; the HTTP client of
  \<open>Twin_Client\<close> is one instance. Clock readings are inputs. The results are what an accepted update stores, that every
  stored twin carries its own analytics, and that the metrics are the counts they claim to be.
\<close>

section \<open>Operational status\<close>

record OperationalStatus =
  os_cloud_sync_status :: string
  os_enrollment_status :: string
  os_ota_update_status :: string
  os_cert_identity_status :: string
  os_offline_queue_depth :: int
  os_last_successful_sync_at :: string
  os_last_failed_sync_at :: string

definition OperationalStatus_default :: OperationalStatus where
  "OperationalStatus_default = \<lparr>os_cloud_sync_status = ''local'', os_enrollment_status = ''local'', os_ota_update_status = ''idle'',
     os_cert_identity_status = ''unknown'', os_offline_queue_depth = 0, os_last_successful_sync_at = [], os_last_failed_sync_at = []\<rparr>"

definition update_cloud_sync :: "string \<Rightarrow> int \<Rightarrow> string \<Rightarrow> string \<Rightarrow> OperationalStatus \<Rightarrow> OperationalStatus" where
  "update_cloud_sync status queue_depth ok_at failed_at s =
     (let s1 = s\<lparr>os_cloud_sync_status := status, os_offline_queue_depth := queue_depth\<rparr>;
          s2 = (if ok_at \<noteq> [] then s1\<lparr>os_last_successful_sync_at := ok_at\<rparr> else s1)
      in if failed_at \<noteq> [] then s2\<lparr>os_last_failed_sync_at := failed_at\<rparr> else s2)"

definition update_enrollment :: "string \<Rightarrow> OperationalStatus \<Rightarrow> OperationalStatus" where
  "update_enrollment status s = s\<lparr>os_enrollment_status := status\<rparr>"

definition update_ota :: "string \<Rightarrow> OperationalStatus \<Rightarrow> OperationalStatus" where
  "update_ota status s = s\<lparr>os_ota_update_status := status\<rparr>"

definition update_cert_identity :: "string \<Rightarrow> OperationalStatus \<Rightarrow> OperationalStatus" where
  "update_cert_identity status s = s\<lparr>os_cert_identity_status := status\<rparr>"

definition operational_status_to_json :: "OperationalStatus \<Rightarrow> json" where
  "operational_status_to_json s = JObj [(''cloud_sync_status'', JStr (os_cloud_sync_status s)), (''enrollment_status'', JStr (os_enrollment_status s)),
     (''ota_update_status'', JStr (os_ota_update_status s)), (''cert_identity_status'', JStr (os_cert_identity_status s)),
     (''offline_queue_depth'', JInt (os_offline_queue_depth s)), (''last_successful_sync_at'', JStr (os_last_successful_sync_at s)),
     (''last_failed_sync_at'', JStr (os_last_failed_sync_at s))]"

section \<open>The manager\<close>

text \<open>The interface \<^verbatim>\<open>DeviceTwinControlPlane\<close>: its methods on a state of the implementation. \<open>None\<close> is undefined behaviour.\<close>

record 'c DeviceTwinControlPlane =
  cp_enroll :: "EnrollmentRequest \<Rightarrow> 'c \<Rightarrow> EnrollmentResult result \<times> 'c"
  cp_push_twin :: "DrawerTwin \<Rightarrow> 'c \<Rightarrow> (SyncResult result \<times> 'c) option"
  cp_is_device_disabled :: "string \<Rightarrow> 'c \<Rightarrow> bool result \<times> 'c"
  cp_status :: "'c \<Rightarrow> SyncStatus"

definition http_control_plane :: "extern \<Rightarrow> 'w outside \<Rightarrow> (HttpDeviceTwinClient \<times> 'w) DeviceTwinControlPlane" where
  "http_control_plane ext out = \<lparr>
     cp_enroll = (\<lambda>q (c, w). let (r, w1) = hc_enroll ext out q c w in (r, c, w1)),
     cp_push_twin = (\<lambda>t (c, w). push_twin ext out t c w),
     cp_is_device_disabled = (\<lambda>d (c, w). let (r, w1) = is_device_disabled ext out d c w in (r, c, w1)),
     cp_status = (\<lambda>(c, w). hc_sync_status c)\<rparr>"

record TwinFleetMetrics =
  fx_total_drawers :: int
  fx_online_drawers :: int
  fx_unhealthy_drawers :: int
  fx_firmware_distribution :: "(string, int) amap"
  fx_average_health_score :: real
  fx_active_alarms :: int

definition TwinFleetMetrics_default :: TwinFleetMetrics where
  "TwinFleetMetrics_default = \<lparr>fx_total_drawers = 0, fx_online_drawers = 0, fx_unhealthy_drawers = 0, fx_firmware_distribution = [],
     fx_average_health_score = 0, fx_active_alarms = 0\<rparr>"

definition twin_metrics_to_json :: "TwinFleetMetrics \<Rightarrow> json" where
  "twin_metrics_to_json v = JObj [(''total_drawers'', JInt (fx_total_drawers v)), (''online_drawers'', JInt (fx_online_drawers v)),
     (''unhealthy_drawers'', JInt (fx_unhealthy_drawers v)), (''firmware_distribution'', counts_json (fx_firmware_distribution v)),
     (''average_health_score'', JReal (fx_average_health_score v)), (''active_alarms'', JInt (fx_active_alarms v))]"

text \<open>The manager's members, the file of the store, the process's operational status, and the gauges by name and labels.\<close>

type_synonym gauge_key = "string \<times> (string \<times> string) list"

record FleetManager =
  fm_twins :: "(string, DrawerTwin) amap"
  fm_store_path :: string
  fm_file :: "json option"
  fm_ops :: OperationalStatus
  fm_gauges :: "(gauge_key, real) amap"

text \<open>A reading of the clock: the time, and the date some days ahead. \<open>show_double\<close> is the stream insertion of a double.\<close>

record moment =
  mo_now :: string
  mo_date :: "int \<Rightarrow> string"

definition enrich :: "(real \<Rightarrow> string) \<Rightarrow> moment \<Rightarrow> DrawerTwin \<Rightarrow> DrawerTwin" where
  "enrich show_double mo twin =
     (let t1 = twin\<lparr>tw_health := score_health (tw_health twin)\<rparr>;
          t2 = t1\<lparr>tw_maintenance := evaluate_maintenance (mo_date mo) (tw_health t1)\<rparr>;
          t3 = t2\<lparr>tw_inventory_forecast := forecast_inventory show_double (tw_inventory t2)\<rparr>
      in t3\<lparr>tw_alerts := evaluate_alerts t3 (mo_now mo)\<rparr>)"

text \<open>\<^verbatim>\<open>load_store\<close>: an exception ends the loading; \<open>mos\<close> are the clock readings, one per twin.\<close>

fun load_fleet :: "extern \<Rightarrow> (real \<Rightarrow> string) \<Rightarrow> (nat \<Rightarrow> moment) \<Rightarrow> nat \<Rightarrow> json list \<Rightarrow> (string, DrawerTwin) amap \<Rightarrow> (string, DrawerTwin) amap" where
  "load_fleet ext sd mos n [] m = m"
| "load_fleet ext sd mos n (j # js) m = (case twin_from_json ext j DrawerTwin_default of Inl _ \<Rightarrow> m
     | Inr t0 \<Rightarrow> let t = enrich sd (mos n) t0 in load_fleet ext sd mos (Suc n) js (if tw_drawer_id t \<noteq> [] then put (tw_drawer_id t) t m else m))"

definition fm_load_store :: "extern \<Rightarrow> (real \<Rightarrow> string) \<Rightarrow> (nat \<Rightarrow> moment) \<Rightarrow> FleetManager \<Rightarrow> FleetManager" where
  "fm_load_store ext sd mos m = (if fm_store_path m = [] then m else case fm_file m of None \<Rightarrow> m
     | Some doc \<Rightarrow> if \<not> has_key ext doc ''twins'' then m
         else (case bind_result (at_key ext doc ''twins'') (as_arr ext) of Inl _ \<Rightarrow> m
           | Inr js \<Rightarrow> m\<lparr>fm_twins := load_fleet ext sd mos 0 js (fm_twins m)\<rparr>))"

definition FleetManager_new :: "extern \<Rightarrow> (real \<Rightarrow> string) \<Rightarrow> (nat \<Rightarrow> moment) \<Rightarrow> string \<Rightarrow> json option \<Rightarrow> FleetManager" where
  "FleetManager_new ext sd mos path file = fm_load_store ext sd mos \<lparr>fm_twins = [], fm_store_path = path, fm_file = file,
     fm_ops = OperationalStatus_default, fm_gauges = []\<rparr>"

definition save_store_locked :: "FleetManager \<Rightarrow> FleetManager" where
  "save_store_locked m = (if fm_store_path m = [] then m
     else m\<lparr>fm_file := Some (JObj [(''schema'', JInt 1), (''twins'', JArr (map twin_to_json (vals (fm_twins m))))])\<rparr>)"

definition alarm :: "TwinAlert \<Rightarrow> bool" where
  "alarm a \<longleftrightarrow> tal_severity a = ''warning'' \<or> tal_severity a = ''critical''"

fun metrics_loop :: "DrawerTwin list \<Rightarrow> TwinFleetMetrics \<times> int \<Rightarrow> TwinFleetMetrics \<times> int" where
  "metrics_loop [] x = x"
| "metrics_loop (twin # rest) (v, health_sum) = metrics_loop rest
     (v\<lparr>fx_online_drawers := fx_online_drawers v + (if tw_connectivity_status twin = ''online'' then 1 else 0),
        fx_unhealthy_drawers := fx_unhealthy_drawers v + (if thl_score (tw_health twin) < 70 then 1 else 0),
        fx_firmware_distribution := sput (tfw_current_version (tw_firmware twin))
          (count_at (fx_firmware_distribution v) (tfw_current_version (tw_firmware twin)) + 1) (fx_firmware_distribution v),
        fx_active_alarms := fx_active_alarms v + int (length (filter alarm (tw_alerts twin)))\<rparr>,
      health_sum + thl_score (tw_health twin))"

definition metrics_locked :: "FleetManager \<Rightarrow> TwinFleetMetrics" where
  "metrics_locked m =
     (let n = int (length (fm_twins m));
          (v, health_sum) = metrics_loop (vals (fm_twins m)) (TwinFleetMetrics_default\<lparr>fx_total_drawers := n\<rparr>, 0)
      in v\<lparr>fx_average_health_score := (if n = 0 then 0 else of_int health_sum / of_int n)\<rparr>)"

definition alert_counts :: "FleetManager \<Rightarrow> (string \<times> string, int) amap" where
  "alert_counts m = fold (\<lambda>a cs. put (tal_severity a, tal_type a) (count_at cs (tal_severity a, tal_type a) + 1) cs)
     (concat (map tw_alerts (vals (fm_twins m)))) []"

definition publish_metrics_locked :: "TwinFleetMetrics \<Rightarrow> FleetManager \<Rightarrow> FleetManager" where
  "publish_metrics_locked v m = m\<lparr>fm_gauges :=
     fold (\<lambda>((sev, ty), n) g. put (''register_fleet_alerts'', [(''severity'', sev), (''type'', ty)]) (of_int n) g) (alert_counts m)
       (put (''register_fleet_active_alarms'', []) (of_int (fx_active_alarms v))
       (put (''register_fleet_average_health_score'', []) (fx_average_health_score v)
       (put (''register_fleet_unhealthy_drawers'', []) (of_int (fx_unhealthy_drawers v))
       (put (''register_fleet_online_drawers'', []) (of_int (fx_online_drawers v))
       (put (''register_fleet_total_drawers'', []) (of_int (fx_total_drawers v)) (fm_gauges m))))))\<rparr>"

text \<open>The end of every writing operation: store, save, publish.\<close>

definition store_twin :: "DrawerTwin \<Rightarrow> FleetManager \<Rightarrow> FleetManager" where
  "store_twin t m = (let m1 = save_store_locked (m\<lparr>fm_twins := put (tw_drawer_id t) t (fm_twins m)\<rparr>) in publish_metrics_locked (metrics_locked m1) m1)"

definition marked_disabled :: "DrawerTwin \<Rightarrow> DrawerTwin" where
  "marked_disabled t = t\<lparr>tw_disabled := True, tw_sync_status := ''disabled'', tw_conflict := False, tw_conflict_reason := []\<rparr>"

definition after_sync :: "string \<Rightarrow> SyncResult \<Rightarrow> DrawerTwin \<Rightarrow> DrawerTwin" where
  "after_sync now sync t =
     (if sr_disabled sync then marked_disabled t
      else if sr_conflict sync then t\<lparr>tw_sync_status := ''conflict'', tw_conflict := True,
        tw_conflict_reason := (if sr_reason sync = [] then ''remote_revision_conflict'' else sr_reason sync), tw_remote_revision := tw_revision (sr_twin sync)\<rparr>
      else if sr_ok sync then t\<lparr>tw_sync_status := ''synced'', tw_last_synced_at := now, tw_conflict := False, tw_conflict_reason := [],
        tw_remote_revision := tw_revision (sr_twin sync)\<rparr>
      else t\<lparr>tw_sync_status := ''sync_failed'', tw_conflict := False, tw_conflict_reason := sr_reason sync\<rparr>)"

text \<open>The part of \<^verbatim>\<open>submit_update\<close> after the check of the device; \<open>now\<close> is the second reading of the clock.\<close>

definition submit_enriched :: "'c DeviceTwinControlPlane option \<Rightarrow> string \<Rightarrow> DrawerTwin \<Rightarrow> FleetManager \<Rightarrow> 'c \<Rightarrow> (bool result \<times> FleetManager \<times> 'c) option" where
  "submit_enriched cp now enriched m c =
     (if tw_disabled enriched then Some (Inr False, m, c)
      else let t = enriched\<lparr>tw_revision := tw_revision enriched + 1\<rparr>
        in case cp of
          None \<Rightarrow> Some (Inr (\<not> tw_disabled t \<and> \<not> tw_conflict t), store_twin t m, c)
        | Some p \<Rightarrow> (case cp_push_twin p t c of None \<Rightarrow> None
            | Some (Inl e, c1) \<Rightarrow> Some (Inl e, m, c1)
            | Some (Inr sync, c1) \<Rightarrow>
                let t1 = after_sync now sync t; st = cp_status p c1;
                    m1 = m\<lparr>fm_ops := update_cloud_sync (tw_sync_status t1) (ss_offline_queue_depth st) (tw_last_synced_at t1) (ss_last_failed_sync_at st) (fm_ops m)\<rparr>
                in Some (Inr (\<not> tw_disabled t1 \<and> \<not> tw_conflict t1), store_twin t1 m1, c1)))"

definition submit_update :: "'c DeviceTwinControlPlane option \<Rightarrow> (real \<Rightarrow> string) \<Rightarrow> moment \<Rightarrow> string \<Rightarrow> DrawerTwin \<Rightarrow> FleetManager \<Rightarrow> 'c \<Rightarrow> (bool result \<times> FleetManager \<times> 'c) option" where
  "submit_update cp sd mo now twin m c =
     (if tw_drawer_id twin = [] then Some (Inr False, m, c)
      else let (dis, c1) = (case cp of Some p \<Rightarrow> if tw_device_id twin \<noteq> [] then cp_is_device_disabled p (tw_device_id twin) c else (Inr False, c) | None \<Rightarrow> (Inr False, c))
        in case dis of Inl e \<Rightarrow> Some (Inl e, m, c1)
         | Inr True \<Rightarrow>
             let st = (case cp of Some p \<Rightarrow> cp_status p c1 | None \<Rightarrow> SyncStatus_default);
                 m1 = store_twin (marked_disabled (enrich sd mo twin)) m
             in Some (Inr False, m1\<lparr>fm_ops := update_cloud_sync ''disabled'' (ss_offline_queue_depth st) (ss_last_successful_sync_at st) (ss_last_failed_sync_at st) (fm_ops m1)\<rparr>, c1)
         | Inr False \<Rightarrow> submit_enriched cp now (enrich sd mo twin) m c1)"

definition fm_upsert :: "(real \<Rightarrow> string) \<Rightarrow> moment \<Rightarrow> DrawerTwin \<Rightarrow> FleetManager \<Rightarrow> FleetManager" where
  "fm_upsert sd mo twin m = (if tw_drawer_id twin = [] then m else store_twin (enrich sd mo twin) m)"

definition fm_enroll :: "'c DeviceTwinControlPlane option \<Rightarrow> (real \<Rightarrow> string) \<Rightarrow> moment \<Rightarrow> EnrollmentRequest \<Rightarrow> FleetManager \<Rightarrow> 'c \<Rightarrow> EnrollmentResult result \<times> FleetManager \<times> 'c" where
  "fm_enroll cp sd mo q m c = (case cp of
     None \<Rightarrow> (Inr (EnrollmentResult_default\<lparr>en_reason := ''control_plane_unavailable''\<rparr>), m, c)
   | Some p \<Rightarrow> (case cp_enroll p q c of (Inl e, c1) \<Rightarrow> (Inl e, m, c1)
       | (Inr r, c1) \<Rightarrow> let m1 = (if en_ok r then fm_upsert sd mo (en_twin r) m else m)
           in (Inr r, m1\<lparr>fm_ops := update_enrollment (if en_ok r then ''enrolled'' else en_reason r) (fm_ops m1)\<rparr>, c1)))"

definition fm_sync_status :: "'c DeviceTwinControlPlane option \<Rightarrow> 'c \<Rightarrow> SyncStatus" where
  "fm_sync_status cp c = (case cp of None \<Rightarrow> SyncStatus_default | Some p \<Rightarrow> cp_status p c)"

definition fm_list :: "FleetManager \<Rightarrow> DrawerTwin list" where
  "fm_list m = vals (fm_twins m)"

definition fm_get :: "string \<Rightarrow> FleetManager \<Rightarrow> DrawerTwin option" where
  "fm_get drawer_id m = get (fm_twins m) drawer_id"

definition fm_metrics :: "FleetManager \<Rightarrow> TwinFleetMetrics \<times> FleetManager" where
  "fm_metrics m = (let v = metrics_locked m in (v, publish_metrics_locked v m))"

definition record_history :: "string \<Rightarrow> string \<Rightarrow> HistoryEvent \<Rightarrow> FleetManager \<Rightarrow> FleetManager" where
  "record_history now drawer_id event m = (case get (fm_twins m) drawer_id of None \<Rightarrow> m
     | Some t \<Rightarrow>
         let e1 = (if thv_id event = [] then event\<lparr>thv_id := ''hist-'' @ drawer_id @ ''-'' @ to_string (int (length (tw_history t) + 1))\<rparr> else event);
             e2 = (if thv_occurred_at e1 = [] then e1\<lparr>thv_occurred_at := now\<rparr> else e1);
             m1 = save_store_locked (m\<lparr>fm_twins := put drawer_id (t\<lparr>tw_history := tw_history t @ [e2]\<rparr>) (fm_twins m)\<rparr>)
         in publish_metrics_locked (metrics_locked m1) m1)"

text \<open>\<^verbatim>\<open>default_manager\<close>: \<open>env\<close> is the value of the environment variable.\<close>

definition default_manager :: "extern \<Rightarrow> (real \<Rightarrow> string) \<Rightarrow> (nat \<Rightarrow> moment) \<Rightarrow> moment \<Rightarrow> string option \<Rightarrow> (string \<Rightarrow> json option) \<Rightarrow> FleetManager" where
  "default_manager ext sd mos mo env files =
     (let path = (case env of Some p \<Rightarrow> if p \<noteq> [] then p else ''data/device_twin.json'' | None \<Rightarrow> ''data/device_twin.json'');
          m = FleetManager_new ext sd mos path (files path)
      in if fm_list m = [] then fm_upsert sd mo (make_local_default_twin (mo_now mo)) m else m)"

section \<open>Routes\<close>

datatype fleet_route = Fleet_devices | Fleet_device string | Fleet_health string | Fleet_history string | Fleet_inventory string | Fleet_metrics

definition device_summary :: "DrawerTwin \<Rightarrow> json" where
  "device_summary t = JObj [(''drawer_id'', JStr (tw_drawer_id t)), (''merchant_id'', JStr (tw_merchant_id t)),
     (''firmware_version'', JStr (tfw_current_version (tw_firmware t))), (''hardware_revision'', JStr (tfw_hardware_revision (tw_firmware t))),
     (''health_score'', JInt (thl_score (tw_health t))), (''connectivity_status'', JStr (tw_connectivity_status t)),
     (''last_telemetry_at'', JStr (tw_last_telemetry_at t)), (''active_alerts'', JInt (int (length (tw_alerts t))))]"

definition not_found :: "string \<Rightarrow> int \<times> json" where
  "not_found drawer_id = (404, JObj [(''error'', JStr ''device_not_found''), (''drawer_id'', JStr drawer_id)])"

definition on_device :: "FleetManager \<Rightarrow> string \<Rightarrow> (DrawerTwin \<Rightarrow> json) \<Rightarrow> int \<times> json" where
  "on_device m drawer_id view = (case fm_get drawer_id m of None \<Rightarrow> not_found drawer_id | Some t \<Rightarrow> (200, view t))"

text \<open>\<open>denied\<close> is the response of the access check when it refuses the request.\<close>

definition fleet_serve :: "(int \<times> json) option \<Rightarrow> fleet_route \<Rightarrow> FleetManager \<Rightarrow> (int \<times> json) \<times> FleetManager" where
  "fleet_serve denied r m = (case denied of Some res \<Rightarrow> (res, m) | None \<Rightarrow> (case r of
     Fleet_devices \<Rightarrow> ((200, JObj [(''devices'', JArr (map device_summary (fm_list m)))]), m)
   | Fleet_device d \<Rightarrow> (on_device m d twin_to_json, m)
   | Fleet_health d \<Rightarrow> (on_device m d (\<lambda>t. JObj [(''drawer_id'', JStr (tw_drawer_id t)), (''health'', drawer_health_to_json (tw_health t)),
       (''maintenance'', assessment_to_json (tw_maintenance t)), (''alerts'', JArr (map twin_alert_to_json (tw_alerts t)))]), m)
   | Fleet_history d \<Rightarrow> (on_device m d (\<lambda>t. JObj [(''drawer_id'', JStr (tw_drawer_id t)), (''fault_history'', JArr (map fault_event_to_json (tw_fault_history t))),
       (''maintenance_history'', JArr (map maintenance_record_to_json (tw_maintenance_history t))), (''timeline'', JArr (map history_event_to_json (tw_history t)))]), m)
   | Fleet_inventory d \<Rightarrow> (on_device m d (\<lambda>t. JObj [(''drawer_id'', JStr (tw_drawer_id t)), (''inventory'', inventory_state_to_json (tw_inventory t)),
       (''forecast'', inventory_forecast_to_json (tw_inventory_forecast t))]), m)
   | Fleet_metrics \<Rightarrow> let (v, m1) = fm_metrics m in ((200, twin_metrics_to_json v), m1)))"


section \<open>Submitting an update\<close>

text \<open>What the manager relies on: a push that is defined, and an answer that is not both an acceptance and a refusal.\<close>

locale twin_control_plane =
  fixes cp :: "'c DeviceTwinControlPlane"
    and usable :: "'c \<Rightarrow> bool"
  assumes push_defined: "usable c \<Longrightarrow> \<exists>r c'. cp_push_twin cp t c = Some (r, c') \<and> usable c'"
    and push_exclusive: "cp_push_twin cp t c = Some (Inr r, c') \<Longrightarrow> sr_ok r \<Longrightarrow> \<not> sr_conflict r \<and> \<not> sr_disabled r"
    and check_keeps: "usable c \<Longrightarrow> usable (snd (cp_is_device_disabled cp d c))"
begin

lemma submit_returns:
  assumes "usable c"
  shows "\<exists>r m' c'. submit_update (Some cp) sd mo now twin m c = Some (r, m', c') \<and> usable c'"
proof -
  obtain dis c1 where d: "(if tw_device_id twin \<noteq> [] then cp_is_device_disabled cp (tw_device_id twin) c else (Inr False, c)) = (dis, c1)" by fastforce
  have u: "usable c1" using assms check_keeps [OF assms, of "tw_device_id twin"] d by (auto split: if_splits)
  have "\<exists>r m' c'. submit_enriched (Some cp) now (enrich sd mo twin) m c1 = Some (r, m', c') \<and> usable c'"
  proof -
    obtain r c2 where "cp_push_twin cp ((enrich sd mo twin)\<lparr>tw_revision := tw_revision (enrich sd mo twin) + 1\<rparr>) c1 = Some (r, c2)" "usable c2"
      using push_defined [OF u] by blast
    then show ?thesis using u by (cases r) (simp_all add: submit_enriched_def Let_def)
  qed
  then show ?thesis using assms u d by (auto simp: submit_update_def Let_def split: sum.split bool.split)
qed

text \<open>An accepted push and a failed one are told apart by the twin that is stored.\<close>

lemma stored_status:
  assumes "cp_push_twin cp t c = Some (Inr r, c')"
  shows "tw_sync_status (after_sync now r t) = ''synced'' \<longleftrightarrow> sr_ok r"
  using push_exclusive [OF assms] by (auto simp: after_sync_def marked_disabled_def)

end

lemma parse_sync_exclusive: "sr_ok (parse_sync_response ext wh res) \<Longrightarrow> \<not> sr_conflict (parse_sync_response ext wh res) \<and> \<not> sr_disabled (parse_sync_response ext wh res)"
  by (cases res) (auto simp: parse_sync_response_def SyncResult_default_def Let_def split: sum.splits if_splits)

lemma push_now_exclusive:
  assumes "push_now ext out config t w = (Inr r, w')" "sr_ok r"
  shows "\<not> sr_conflict r \<and> \<not> sr_disabled r"
proof -
  obtain cli where cli: "make_client config = Inr (Some cli)"
    using assms by (auto simp: push_now_def SyncResult_default_def split: sum.splits option.splits)
  obtain res w1 where n: "net out cli (post_request config (c_str (''/control-plane/v1/twins/'' @ tw_drawer_id t)) (dump ext (push_body t))) w = (res, w1)" by fastforce
  show ?thesis using assms cli n parse_sync_exclusive [of ext "what out" res] by (auto simp: push_now_def Let_def split: if_splits)
qed

interpretation hcp: twin_control_plane "http_control_plane ext out" "\<lambda>(c, w). 0 < cc_max_queue_depth (hc_config c)" for ext and out :: "'w outside"
proof
  fix c :: "HttpDeviceTwinClient \<times> 'w" and t
  assume u: "case c of (c, w) \<Rightarrow> 0 < cc_max_queue_depth (hc_config c)"
  obtain h w where c: "c = (h, w)" by fastforce
  have h: "0 < cc_max_queue_depth (hc_config h)" using u c by simp
  then show "\<exists>r c'. cp_push_twin (http_control_plane ext out) t c = Some (r, c') \<and> (case c' of (c, w) \<Rightarrow> 0 < cc_max_queue_depth (hc_config c))"
    by (cases rule: push_twin_cases [where ext = ext and out = out and t = t and w = w])
      (use h in \<open>auto simp: http_control_plane_def c\<close>)
next
  fix c :: "HttpDeviceTwinClient \<times> 'w" and t r c'
  assume p: "cp_push_twin (http_control_plane ext out) t c = Some (Inr r, c')" "sr_ok r"
  obtain h w where c: "c = (h, w)" by fastforce
  obtain x w1 where x: "push_now ext out (hc_config h) t w = (x, w1)" by fastforce
  have "x = Inr r" using p(1) x by (cases x) (auto simp: http_control_plane_def c push_twin_def Let_def)
  with x have "push_now ext out (hc_config h) t w = (Inr r, w1)" by simp
  then show "\<not> sr_conflict r \<and> \<not> sr_disabled r" using p(2) by (rule push_now_exclusive)
next
  fix c :: "HttpDeviceTwinClient \<times> 'w" and d
  assume "case c of (c, w) \<Rightarrow> 0 < cc_max_queue_depth (hc_config c)"
  then show "case snd (cp_is_device_disabled (http_control_plane ext out) d c) of (c, w) \<Rightarrow> 0 < cc_max_queue_depth (hc_config c)"
    by (auto simp: http_control_plane_def split: prod.splits)
qed

lemma store_twin_simps [simp]:
  "fm_twins (store_twin t m) = put (tw_drawer_id t) t (fm_twins m)" "fm_store_path (store_twin t m) = fm_store_path m"
  "fm_twins (save_store_locked m) = fm_twins m" "fm_store_path (save_store_locked m) = fm_store_path m"
  "fm_twins (publish_metrics_locked v m) = fm_twins m"
  by (simp_all add: store_twin_def Let_def publish_metrics_locked_def save_store_locked_def)

lemma enrich_simps [simp]:
  "tw_drawer_id (enrich sd mo t) = tw_drawer_id t" "tw_disabled (enrich sd mo t) = tw_disabled t" "tw_revision (enrich sd mo t) = tw_revision t"
  "tw_device_id (enrich sd mo t) = tw_device_id t" "tw_conflict (enrich sd mo t) = tw_conflict t"
  by (simp_all add: enrich_def Let_def)

lemma after_sync_simps [simp]:
  "tw_drawer_id (after_sync now r t) = tw_drawer_id t" "tw_revision (after_sync now r t) = tw_revision t"
  "tw_drawer_id (marked_disabled t) = tw_drawer_id t" "tw_disabled (marked_disabled t)"
  by (simp_all add: after_sync_def marked_disabled_def)

text \<open>What a stored update looks like for each answer.\<close>

definition update_stored :: "DrawerTwin \<Rightarrow> bool \<Rightarrow> DrawerTwin \<Rightarrow> bool" where
  "update_stored twin b t \<longleftrightarrow> tw_drawer_id t = tw_drawer_id twin \<and>
     (if b then tw_revision t = tw_revision twin + 1 \<and> \<not> tw_disabled t \<and> \<not> tw_conflict t \<and> (tw_sync_status t = ''synced'' \<or> tw_sync_status t = ''sync_failed'')
      else tw_disabled t \<or> (tw_conflict t \<and> tw_revision t = tw_revision twin + 1 \<and> tw_sync_status t = ''conflict''))"

text \<open>The ends of \<open>submit_enriched\<close>.\<close>

lemma submit_enriched_cases:
  assumes "submit_enriched (Some p) now t m c = Some (r, m', c')"
  obtains "tw_disabled t" "r = Inr False" "m' = m"
  | e where "r = Inl e" "m' = m"
  | sync where "\<not> tw_disabled t" "fm_twins m' = put (tw_drawer_id t) (after_sync now sync (t\<lparr>tw_revision := tw_revision t + 1\<rparr>)) (fm_twins m)"
      "r = Inr (\<not> tw_disabled (after_sync now sync (t\<lparr>tw_revision := tw_revision t + 1\<rparr>)) \<and>
         \<not> tw_conflict (after_sync now sync (t\<lparr>tw_revision := tw_revision t + 1\<rparr>)))"
proof (cases "tw_disabled t")
  case True
  then show thesis using assms that(1) by (simp add: submit_enriched_def)
next
  case False
  let ?t = "t\<lparr>tw_revision := tw_revision t + 1\<rparr>"
  consider "cp_push_twin p ?t c = None" | e c1 where "cp_push_twin p ?t c = Some (Inl e, c1)" | sync c1 where "cp_push_twin p ?t c = Some (Inr sync, c1)"
    by (cases "cp_push_twin p ?t c"; cases "fst (the (cp_push_twin p ?t c))") (auto simp: prod_eq_iff)
  then show thesis
  proof cases
    case (2 e c1)
    then show thesis using assms False that(2) [of e] by (auto simp: submit_enriched_def)
  next
    case (3 sync c1)
    then show thesis using assms False that(3) [of sync] by (auto simp: submit_enriched_def Let_def)
  qed (use assms False in \<open>simp add: submit_enriched_def\<close>)
qed

lemma submit_cases:
  assumes "submit_update (Some cp) sd mo now twin m c = Some (r, m', c')" "tw_drawer_id twin \<noteq> []"
  obtains e where "r = Inl e" "m' = m"
  | "r = Inr False" "m' = m" "tw_disabled twin"
  | b t where "r = Inr b" "fm_twins m' = put (tw_drawer_id twin) t (fm_twins m)" "update_stored twin b t"
proof -
  obtain dis c1 where d: "(if tw_device_id twin \<noteq> [] then cp_is_device_disabled cp (tw_device_id twin) c else (Inr False, c)) = (dis, c1)" by fastforce
  consider e where "dis = Inl e" | "dis = Inr True" | "dis = Inr False" by (cases dis; cases "projr dis") auto
  then show thesis
  proof cases
    case (1 e)
    then show thesis using assms d that(1) [of e] by (auto simp: submit_update_def)
  next
    case 2
    have "update_stored twin False (marked_disabled (enrich sd mo twin))" by (simp add: update_stored_def)
    then show thesis using assms d 2 that(3) [of False "marked_disabled (enrich sd mo twin)"] by (auto simp: submit_update_def Let_def)
  next
    case 3
    then have e: "submit_enriched (Some cp) now (enrich sd mo twin) m c1 = Some (r, m', c')" using assms d by (simp add: submit_update_def)
    from e show thesis
    proof (cases rule: submit_enriched_cases)
      case 1
      then show thesis using that(2) by simp
    next
      case (2 e')
      then show thesis using that(1) by simp
    next
      case (3 sync)
      let ?t1 = "after_sync now sync ((enrich sd mo twin)\<lparr>tw_revision := tw_revision (enrich sd mo twin) + 1\<rparr>)"
      have "update_stored twin (\<not> tw_disabled ?t1 \<and> \<not> tw_conflict ?t1) ?t1"
        using 3(1) by (auto simp: update_stored_def after_sync_def marked_disabled_def)
      then show thesis using 3(2,3) that(3) [of "\<not> tw_disabled ?t1 \<and> \<not> tw_conflict ?t1" ?t1] by simp
    qed
  qed
qed

text \<open>
  With the HTTP control plane and a positive bound on its queue, submitting an update always returns. When it throws, or refuses a
  twin that says it is disabled, nothing is stored; otherwise exactly this drawer's twin is replaced: the answer is true for a
  twin with the next revision that is neither disabled nor in conflict, also when it could not be pushed, and false for one that
  is disabled or carries the conflict.
\<close>

theorem submit_update_outcome:
  assumes "tw_drawer_id twin \<noteq> []" "0 < cc_max_queue_depth (hc_config c)"
  shows "\<exists>r m' c' w'. submit_update (Some (http_control_plane ext out)) sd mo now twin m (c, w) = Some (r, m', (c', w')) \<and>
    ((\<exists>e. r = Inl e) \<and> m' = m \<or> r = Inr False \<and> m' = m \<and> tw_disabled twin \<or>
     (\<exists>b t. r = Inr b \<and> fm_twins m' = put (tw_drawer_id twin) t (fm_twins m) \<and> update_stored twin b t))"
proof -
  obtain r m' c' w' where s: "submit_update (Some (http_control_plane ext out)) sd mo now twin m (c, w) = Some (r, m', (c', w'))"
    using hcp.submit_returns [of "(c, w)" ext out sd mo now twin m] assms(2) by auto
  from s assms(1) show ?thesis by (cases rule: submit_cases) (auto simp: s)
qed

section \<open>The fleet's invariant and metrics\<close>

text \<open>A twin that carries the analytics of its own data.\<close>

definition analysed :: "DrawerTwin \<Rightarrow> bool" where
  "analysed t \<longleftrightarrow> score_health (tw_health t) = tw_health t \<and>
     (\<exists>sd (mo :: moment). tw_maintenance t = evaluate_maintenance (mo_date mo) (tw_health t) \<and> tw_inventory_forecast t = forecast_inventory sd (tw_inventory t) \<and>
        tw_alerts t = evaluate_alerts t (mo_now mo))"

lemma score_health_idem: "score_health (score_health h) = score_health h"
proof -
  have "health_penalty (h\<lparr>thl_reasons := a, thl_score := b\<rparr>) = health_penalty h" for a b by (simp add: health_penalty_def Let_def)
  then show ?thesis by (auto simp: score_health_def split: prod.splits)
qed

lemma evaluate_alerts_cong:
  assumes "tw_drawer_id t = tw_drawer_id t'" "tw_health t = tw_health t'" "tw_inventory_forecast t = tw_inventory_forecast t'"
    "tw_connectivity_status t = tw_connectivity_status t'" "tw_firmware t = tw_firmware t'"
  shows "evaluate_alerts t ts = evaluate_alerts t' ts"
  using assms by (simp add: evaluate_alerts_def alert_if_def Let_def)

lemma analysed_enrich: "analysed (enrich sd mo t)"
proof -
  let ?e = "enrich sd mo t"
  have "score_health (tw_health ?e) = tw_health ?e" by (simp add: enrich_def Let_def score_health_idem)
  moreover have "tw_maintenance ?e = evaluate_maintenance (mo_date mo) (tw_health ?e)" "tw_inventory_forecast ?e = forecast_inventory sd (tw_inventory ?e)"
    by (simp_all add: enrich_def Let_def)
  moreover have "tw_alerts ?e = evaluate_alerts ?e (mo_now mo)" unfolding enrich_def Let_def by simp (rule evaluate_alerts_cong; simp)
  ultimately show ?thesis unfolding analysed_def by blast
qed

lemma analysed_cong:
  assumes "analysed t'" "tw_drawer_id t = tw_drawer_id t'" "tw_health t = tw_health t'" "tw_inventory_forecast t = tw_inventory_forecast t'"
    "tw_connectivity_status t = tw_connectivity_status t'" "tw_firmware t = tw_firmware t'" "tw_alerts t = tw_alerts t'"
    "tw_maintenance t = tw_maintenance t'" "tw_inventory t = tw_inventory t'"
  shows "analysed t"
  using assms evaluate_alerts_cong [of t t'] unfolding analysed_def by auto

definition fm_ok :: "FleetManager \<Rightarrow> bool" where
  "fm_ok m \<longleftrightarrow> keyed tw_drawer_id (fm_twins m) \<and> list_all (\<lambda>(k, t). k \<noteq> [] \<and> analysed t) (fm_twins m)"

lemma fm_ok_put:
  assumes "fm_ok m" "fm_twins m' = put k t (fm_twins m)" "tw_drawer_id t = k" "k \<noteq> []" "analysed t"
  shows "fm_ok m'"
  using assms by (auto simp: fm_ok_def keyed_put list_all_iff dest!: in_put)

lemma fm_ok_store: "fm_ok m \<Longrightarrow> tw_drawer_id t \<noteq> [] \<Longrightarrow> analysed t \<Longrightarrow> fm_ok (store_twin t m)"
  by (rule fm_ok_put) auto

lemma fm_ok_cong: "fm_ok m \<Longrightarrow> fm_twins m' = fm_twins m \<Longrightarrow> fm_ok m'"
  by (simp add: fm_ok_def)

lemma analysed_after_sync:
  assumes "analysed t"
  shows "analysed (after_sync now r (t\<lparr>tw_revision := n\<rparr>))" "analysed (marked_disabled t)" "analysed (t\<lparr>tw_revision := n\<rparr>)"
    "analysed (t\<lparr>tw_history := h\<rparr>)"
  by (rule analysed_cong [OF assms]; simp add: after_sync_def marked_disabled_def)+

lemma fm_ok_load: "fm_ok (m\<lparr>fm_twins := ts\<rparr>) \<Longrightarrow> fm_ok (m\<lparr>fm_twins := load_fleet ext sd mos n js ts\<rparr>)"
proof (induction ext sd mos n js ts rule: load_fleet.induct)
  case (2 ext sd mos n j js ts)
  show ?case
  proof (cases "twin_from_json ext j DrawerTwin_default")
    case (Inr t0)
    let ?t = "enrich sd (mos n) t0"
    have "fm_ok (m\<lparr>fm_twins := (if tw_drawer_id ?t \<noteq> [] then put (tw_drawer_id ?t) ?t ts else ts)\<rparr>)"
      using fm_ok_put [OF 2(2), of "m\<lparr>fm_twins := put (tw_drawer_id ?t) ?t ts\<rparr>" "tw_drawer_id ?t" ?t] analysed_enrich 2(2) by simp
    then show ?thesis using 2(1) [OF Inr refl] Inr by (simp add: Let_def)
  qed (use 2 in simp)
qed simp

lemma fm_ok_new: "fm_ok (FleetManager_new ext sd mos path file)"
proof -
  have "fm_ok (\<lparr>fm_twins = [], fm_store_path = path, fm_file = file, fm_ops = OperationalStatus_default, fm_gauges = []\<rparr>\<lparr>fm_twins := []\<rparr>)"
    by (simp add: fm_ok_def keyed_def)
  from fm_ok_load [OF this] show ?thesis
    by (auto simp: FleetManager_new_def fm_load_store_def fm_ok_def keyed_def split: option.split sum.split)
qed


text \<open>The states a manager can reach with a control plane \<open>cp\<close>.\<close>

inductive fleet_reach :: "extern \<Rightarrow> (real \<Rightarrow> string) \<Rightarrow> 'c DeviceTwinControlPlane option \<Rightarrow> FleetManager \<Rightarrow> 'c \<Rightarrow> bool"
  for ext sd cp where
  start: "fleet_reach ext sd cp (FleetManager_new ext sd mos path file) c"
| submit: "fleet_reach ext sd cp m c \<Longrightarrow> submit_update cp sd mo now t m c = Some (r, m', c') \<Longrightarrow> fleet_reach ext sd cp m' c'"
| insert: "fleet_reach ext sd cp m c \<Longrightarrow> fleet_reach ext sd cp (fm_upsert sd mo t m) c"
| enroll: "fleet_reach ext sd cp m c \<Longrightarrow> fm_enroll cp sd mo q m c = (r, m', c') \<Longrightarrow> fleet_reach ext sd cp m' c'"
| history: "fleet_reach ext sd cp m c \<Longrightarrow> fleet_reach ext sd cp (record_history now d e m) c"
| serve: "fleet_reach ext sd cp m c \<Longrightarrow> fleet_serve denied r m = (res, m') \<Longrightarrow> fleet_reach ext sd cp m' c"

lemma fm_ok_upsert: "fm_ok m \<Longrightarrow> fm_ok (fm_upsert sd mo t m)"
  by (simp add: fm_upsert_def fm_ok_store analysed_enrich)

lemma fm_ok_submit_enriched:
  assumes "fm_ok m" "analysed t" "tw_drawer_id t \<noteq> []" "submit_enriched cp now t m c = Some (r, m', c')"
  shows "fm_ok m'"
proof (cases cp)
  case None
  then show ?thesis using assms fm_ok_store [OF assms(1)] analysed_after_sync(3) [OF assms(2)] by (auto simp: submit_enriched_def Let_def split: if_splits)
next
  case (Some p)
  with assms(4) have "submit_enriched (Some p) now t m c = Some (r, m', c')" by simp
  then show ?thesis
  proof (cases rule: submit_enriched_cases)
    case (3 sync)
    from fm_ok_put [OF assms(1) 3(2)] show ?thesis using assms(2,3) analysed_after_sync(1) by simp
  qed (use assms(1) in simp_all)
qed

lemma fm_ok_submit:
  assumes "fm_ok m" "submit_update cp sd mo now twin m c = Some (r, m', c')"
  shows "fm_ok m'"
proof (cases "tw_drawer_id twin = []")
  case True
  then show ?thesis using assms by (simp add: submit_update_def)
next
  case False
  obtain dis c1 where d: "(case cp of Some p \<Rightarrow> if tw_device_id twin \<noteq> [] then cp_is_device_disabled p (tw_device_id twin) c else (Inr False, c)
      | None \<Rightarrow> (Inr False, c)) = (dis, c1)" by fastforce
  consider e where "dis = Inl e" | "dis = Inr True" | "dis = Inr False" by (cases dis; cases "projr dis") auto
  then show ?thesis
  proof cases
    case (1 e)
    then show ?thesis using assms d False by (auto simp: submit_update_def)
  next
    case 2
    then have "fm_twins m' = put (tw_drawer_id twin) (marked_disabled (enrich sd mo twin)) (fm_twins m)"
      using assms(2) d False by (auto simp: submit_update_def Let_def)
    from fm_ok_put [OF assms(1) this] show ?thesis using False analysed_after_sync(2) [OF analysed_enrich] by simp
  next
    case 3
    then have "submit_enriched cp now (enrich sd mo twin) m c1 = Some (r, m', c')" using assms(2) d False by (simp add: submit_update_def)
    from fm_ok_submit_enriched [OF assms(1) analysed_enrich _ this] show ?thesis using False by simp
  qed
qed

lemma fm_ok_history: 
  assumes "fm_ok m"
  shows "fm_ok (record_history now d e m)"
proof (cases "get (fm_twins m) d")
  case None
  then show ?thesis using assms by (simp add: record_history_def)
next
  case (Some t)
  have t: "tw_drawer_id t = d" "d \<noteq> []" "analysed t"
    using assms Some by (auto simp: fm_ok_def list_all_iff dest: keyed_get get_in_set)
  obtain h where "fm_twins (record_history now d e m) = put d (t\<lparr>tw_history := h\<rparr>) (fm_twins m)"
    using Some by (auto simp: record_history_def Let_def)
  from fm_ok_put [OF assms this] show ?thesis using t analysed_after_sync(4) by simp
qed

lemma fleet_reach_ok: "fleet_reach ext sd cp m c \<Longrightarrow> fm_ok m"
proof (induction rule: fleet_reach.induct)
  case (enroll m c mo q r m' c')
  show ?case
  proof (cases cp)
    case None
    then show ?thesis using enroll by (simp add: fm_enroll_def)
  next
    case (Some p)
    obtain x c1 where "cp_enroll p q c = (x, c1)" by fastforce
    then have "fm_twins m' = fm_twins m \<or> (\<exists>t. fm_twins m' = fm_twins (fm_upsert sd mo t m))"
      using enroll.hyps(2) Some by (cases x) (auto simp: fm_enroll_def Let_def split: if_splits)
    then show ?thesis using enroll.IH fm_ok_upsert fm_ok_cong by blast
  qed
next
  case (serve m c denied r res m')
  then have "fm_twins m' = fm_twins m"
    by (auto simp: fleet_serve_def fm_metrics_def Let_def split: option.splits fleet_route.splits)
  then show ?case using serve fm_ok_cong by blast
qed (auto intro: fm_ok_new fm_ok_submit fm_ok_upsert fm_ok_history)

lemma metrics_loop_counts:
  assumes "metrics_loop ts (v, n) = (v', n')"
  shows "fx_online_drawers v' = fx_online_drawers v + int (length (filter (\<lambda>t. tw_connectivity_status t = ''online'') ts))"
    and "fx_unhealthy_drawers v' = fx_unhealthy_drawers v + int (length (filter (\<lambda>t. thl_score (tw_health t) < 70) ts))"
    and "fx_active_alarms v' = fx_active_alarms v + int (length (filter alarm (concat (map tw_alerts ts))))"
    and "n' = n + (\<Sum>t\<leftarrow>ts. thl_score (tw_health t))" and "fx_total_drawers v' = fx_total_drawers v"
    and "count_at (fx_firmware_distribution v') k = count_at (fx_firmware_distribution v) k + int (length (filter (\<lambda>t. tfw_current_version (tw_firmware t) = k) ts))"
  using assms by (induction ts "(v, n)" arbitrary: v n rule: metrics_loop.induct) (auto simp: count_at_def)

lemma sum_scores_range:
  assumes "\<And>t. t \<in> set ts \<Longrightarrow> 0 \<le> thl_score (tw_health t) \<and> thl_score (tw_health t) \<le> 100"
  shows "0 \<le> (\<Sum>t\<leftarrow>ts. thl_score (tw_health t)) \<and> (\<Sum>t\<leftarrow>ts. thl_score (tw_health t)) \<le> 100 * int (length ts)"
  using assms by (induction ts) (force simp: algebra_simps)+

lemma score_range: "0 \<le> thl_score (score_health h) \<and> thl_score (score_health h) \<le> 100"
  by (simp add: score_health_def split: prod.split)

text \<open>
  C40. In every reachable state each drawer's twin stands under its own nonempty name and carries the analytics of its own data; the
  fleet's metrics count what they name, the versions in the firmware distribution add up drawer by drawer, and the average score
  lies between 0 and 100.
\<close>

theorem fleet_metrics_sound:
  assumes "fleet_reach ext sd cp m c"
  shows "list_all (\<lambda>(k, t). k \<noteq> [] \<and> tw_drawer_id t = k \<and> analysed t) (fm_twins m) \<and>
    fx_total_drawers (metrics_locked m) = int (length (fm_list m)) \<and>
    fx_online_drawers (metrics_locked m) = int (length (filter (\<lambda>t. tw_connectivity_status t = ''online'') (fm_list m))) \<and>
    fx_unhealthy_drawers (metrics_locked m) = int (length (filter (\<lambda>t. thl_score (tw_health t) < 70) (fm_list m))) \<and>
    fx_active_alarms (metrics_locked m) = int (length (filter alarm (concat (map tw_alerts (fm_list m))))) \<and>
    count_at (fx_firmware_distribution (metrics_locked m)) ver = int (length (filter (\<lambda>t. tfw_current_version (tw_firmware t) = ver) (fm_list m))) \<and>
    0 \<le> fx_average_health_score (metrics_locked m) \<and> fx_average_health_score (metrics_locked m) \<le> 100"
proof -
  have ok: "fm_ok m" using assms by (rule fleet_reach_ok)
  obtain v n where l: "metrics_loop (vals (fm_twins m)) (TwinFleetMetrics_default\<lparr>fx_total_drawers := int (length (fm_twins m))\<rparr>, 0) = (v, n)" by fastforce
  note counts = metrics_loop_counts [OF l]
  have "0 \<le> thl_score (tw_health t) \<and> thl_score (tw_health t) \<le> 100" if "t \<in> set (vals (fm_twins m))" for t
  proof -
    have "analysed t" using that ok by (auto simp: fm_ok_def list_all_iff vals_def)
    then show ?thesis using score_range [of "tw_health t"] by (simp add: analysed_def)
  qed
  then have n: "0 \<le> n" "n \<le> 100 * int (length (fm_twins m))" using sum_scores_range [of "vals (fm_twins m)"] counts(4) by (simp_all add: vals_def)
  let ?len = "real (length (fm_twins m))"
  have "real_of_int n \<le> 100 * ?len" using n(2) by (metis of_int_le_iff of_int_mult of_int_numeral of_int_of_nat_eq)
  then have avg: "fm_twins m \<noteq> [] \<longrightarrow> 0 \<le> real_of_int n / ?len \<and> real_of_int n / ?len \<le> 100"
    using n(1) by (simp add: divide_le_eq)
  have "list_all (\<lambda>(k, t). k \<noteq> [] \<and> tw_drawer_id t = k \<and> analysed t) (fm_twins m)" using ok by (auto simp: fm_ok_def keyed_def list_all_iff)
  then show ?thesis using counts(1-3,5) counts(6) [of ver] avg l
    by (simp add: metrics_locked_def fm_list_def Let_def TwinFleetMetrics_default_def count_at_def vals_def)
qed


text \<open>
  An alert that is no longer raised keeps its gauge: publishing sets the gauges of the present alerts and leaves the others as
  they were.
\<close>

lemma alert_gauge_kept:
  assumes "list_all (\<lambda>t. tw_alerts t = []) (vals (fm_twins m))"
  shows "get (fm_gauges (publish_metrics_locked v m)) (''register_fleet_alerts'', l) = get (fm_gauges m) (''register_fleet_alerts'', l)"
proof -
  have none: "concat (map tw_alerts (vals (fm_twins m))) = []" using assms by (auto simp: list_all_iff)
  have "alert_counts m = []" unfolding alert_counts_def none by simp
  then show ?thesis by (simp add: publish_metrics_locked_def)
qed

section \<open>Examples\<close>

definition sample_moment :: moment where
  "sample_moment = \<lparr>mo_now = ''t'', mo_date = (\<lambda>_. ''d'')\<rparr>"

definition sample_manager :: FleetManager where
  "sample_manager = fm_upsert (\<lambda>_. []) sample_moment (make_local_default_twin ''t'') (FleetManager_new sample_extern (\<lambda>_. []) (\<lambda>_. sample_moment) [] None)"

theorem fleet_metrics_sound_witness:
  "fx_total_drawers (metrics_locked sample_manager) = int (length (fm_list sample_manager)) \<and> fx_average_health_score (metrics_locked sample_manager) \<le> 100"
proof -
  have "fleet_reach sample_extern (\<lambda>_. []) (None :: unit DeviceTwinControlPlane option) sample_manager ()"
    unfolding sample_manager_def by (rule fleet_reach.insert) (rule fleet_reach.start)
  from fleet_metrics_sound [OF this] show ?thesis by blast
qed

theorem submit_update_outcome_witness:
  "\<exists>r m' c' w'. submit_update (Some (http_control_plane sample_extern (served sample_extern []))) (\<lambda>_. []) sample_moment ''u'' sample_twin sample_manager
      (sample_client, one_twin) = Some (r, m', (c', w')) \<and>
    ((\<exists>e. r = Inl e) \<and> m' = sample_manager \<or> r = Inr False \<and> m' = sample_manager \<and> tw_disabled sample_twin \<or>
     (\<exists>b t. r = Inr b \<and> fm_twins m' = put (tw_drawer_id sample_twin) t (fm_twins sample_manager) \<and> update_stored sample_twin b t))"
  by (rule submit_update_outcome) (simp_all add: sample_twin_def sample_client_def)

end
