(* ===== verification/Http_Server.thy ===== *)
theory Http_Server
  imports Txn_Engine Fleet_Manager
begin

text \<open>
  The register's HTTP server (\<^verbatim>\<open>src/server/http_server.cpp\<close>, \<^verbatim>\<open>version_endpoint.cpp\<close>): when it starts, who may call it, its rate limits, and
  the routes for purchases, commands and the status. The steady clock, the environment and the outcome of binding the port are
  inputs; routes of other components are left to them. The results are that nothing moves without credentials, that a
  purchase excludes every other movement but closing the shutter, how many requests the limits let through, and that the
  base64 encoder agrees with the standard.
\<close>

section \<open>The base64 encoder\<close>

definition b64_table :: string where
  "b64_table = ''ABCDEFGHIJKLMNOPQRSTUVWXYZabcdefghijklmnopqrstuvwxyz0123456789+/''"

text \<open>The 32-bit accumulator \<^verbatim>\<open>val\<close> keeps the bits that fit.\<close>

definition wrap32 :: "int \<Rightarrow> int" where
  "wrap32 x = (x + 2 ^ 31) mod 2 ^ 32 - 2 ^ 31"

definition sextet :: "int \<Rightarrow> int \<Rightarrow> char" where
  "sextet val k = b64_table ! nat ((val div 2 ^ nat k) mod 64)"

text \<open>The inner loop, then the loop over the bytes.\<close>

function b64_emit :: "int \<Rightarrow> int \<Rightarrow> string \<Rightarrow> int \<times> string" where
  "b64_emit val valb out = (if valb \<ge> 0 then b64_emit val (valb - 6) (out @ [sextet val valb]) else (valb, out))"
  by pat_completeness auto

termination
  by (relation "measure (\<lambda>(val, valb, out). nat (valb + 1))") auto

declare b64_emit.simps [simp del]

fun b64_loop :: "int list \<Rightarrow> int \<Rightarrow> int \<Rightarrow> string \<Rightarrow> int \<times> int \<times> string" where
  "b64_loop [] val valb out = (val, valb, out)"
| "b64_loop (c # cs) val valb out =
     (let val1 = wrap32 (wrap32 (val * 2 ^ 8) + c); (valb1, out1) = b64_emit val1 (valb + 8) out in b64_loop cs val1 valb1 out1)"

definition b64_pad :: "string \<Rightarrow> string" where
  "b64_pad out = out @ replicate ((4 - length out mod 4) mod 4) (CHR ''='')"

definition base64 :: "string \<Rightarrow> string" where
  "base64 s = (let (val, valb, out) = b64_loop (map of_char s) 0 (- 6) [] in
     b64_pad (if valb > - 6 then out @ [sextet (wrap32 (val * 2 ^ 8)) (valb + 8)] else out))"

text \<open>The encoding of RFC 4648: three bytes become four characters, a rest of one or two bytes is padded.\<close>

definition b64_char :: "int \<Rightarrow> char" where
  "b64_char i = b64_table ! nat i"

fun b64_spec :: "int list \<Rightarrow> string" where
  "b64_spec [] = []"
| "b64_spec [a] = [b64_char (a div 4), b64_char ((a mod 4) * 16), CHR ''='', CHR ''='']"
| "b64_spec [a, b] = [b64_char (a div 4), b64_char ((a mod 4) * 16 + b div 16), b64_char ((b mod 16) * 4), CHR ''='']"
| "b64_spec (a # b # c # cs) =
     b64_char (a div 4) # b64_char ((a mod 4) * 16 + b div 16) # b64_char ((b mod 16) * 4 + c div 64) # b64_char (c mod 64) # b64_spec cs"

section \<open>Rate limits\<close>

record RateLimiter =
  rl_capacity :: real
  rl_tokens :: real
  rl_refill_per_sec :: real
  rl_last :: real

definition RateLimiter_new :: "real \<Rightarrow> real \<Rightarrow> real \<Rightarrow> RateLimiter" where
  "RateLimiter_new cap refill now = \<lparr>rl_capacity = cap, rl_tokens = cap, rl_refill_per_sec = refill, rl_last = now\<rparr>"

text \<open>\<open>now\<close>: the steady clock in seconds.\<close>

definition rl_allow :: "real \<Rightarrow> RateLimiter \<Rightarrow> bool \<times> RateLimiter" where
  "rl_allow now l = (let elapsed = now - rl_last l; tokens = min (rl_capacity l) (rl_tokens l + elapsed * rl_refill_per_sec l) in
     if tokens \<ge> 1 then (True, l\<lparr>rl_tokens := tokens - 1, rl_last := now\<rparr>) else (False, l\<lparr>rl_tokens := tokens, rl_last := now\<rparr>))"

section \<open>The server\<close>

text \<open>The server's members with the journal and the world of the engine, and the default fleet manager.\<close>

record 'w HttpServer =
  hs_running :: bool
  hs_auth_key :: string
  hs_port :: int
  hs_allow_unauth_loopback :: bool
  hs_in_progress :: bool
  hs_txn_limiter :: RateLimiter
  hs_cmd_limiter :: RateLimiter
  hs_fleet :: FleetManager
  hs_journal :: journal
  hs_world :: 'w

definition HttpServer_new :: "real \<Rightarrow> FleetManager \<Rightarrow> journal \<Rightarrow> 'w \<Rightarrow> 'w HttpServer" where
  "HttpServer_new now fleet j w = \<lparr>hs_running = False, hs_auth_key = [], hs_port = 8080, hs_allow_unauth_loopback = False, hs_in_progress = False,
     hs_txn_limiter = RateLimiter_new 4 0.1 now, hs_cmd_limiter = RateLimiter_new 4 0.1 now, hs_fleet = fleet, hs_journal = j, hs_world = w\<rparr>"

type_synonym getenv = "string \<Rightarrow> string option"

definition env_true :: "getenv \<Rightarrow> string \<Rightarrow> bool" where
  "env_true env name = (case env name of None \<Rightarrow> False | Some v \<Rightarrow> v = ''1'' \<or> v = ''true'' \<or> v = ''TRUE'' \<or> v = ''yes'')"

definition production_mode :: "getenv \<Rightarrow> bool" where
  "production_mode env \<longleftrightarrow> env_true env ''REGISTER_MVP_PRODUCTION'' \<or> env ''REGISTER_MVP_ENV'' = Some ''production'' \<or>
     env ''NODE_ENV'' = Some ''production''"

definition is_loopback_bind :: "string \<Rightarrow> bool" where
  "is_loopback_bind bind \<longleftrightarrow> bind = [] \<or> bind = ''127.0.0.1'' \<or> bind = ''localhost'' \<or> bind = ''::1''"

definition is_protected_path :: "string \<Rightarrow> bool" where
  "is_protected_path path \<longleftrightarrow> path \<noteq> ''/healthz''"

definition effective_token :: "getenv \<Rightarrow> string \<Rightarrow> string" where
  "effective_token env token = (if token = [] then case env ''REGISTER_MVP_API_TOKEN'' of Some t \<Rightarrow> t | None \<Rightarrow> [] else token)"

text \<open>\<open>bound\<close>: the port \<^verbatim>\<open>bind_to_any_port\<close> returned, or whether \<^verbatim>\<open>bind_to_port\<close> succeeded.\<close>

definition hs_start :: "getenv \<Rightarrow> int \<times> bool \<Rightarrow> string \<Rightarrow> int \<Rightarrow> string \<Rightarrow> 'w HttpServer \<Rightarrow> bool \<times> 'w HttpServer" where
  "hs_start env bound bind port token s =
     (if hs_running s then (False, s)
      else let key = effective_token env token; has_auth = (key \<noteq> []); loopback = is_loopback_bind bind; prod = production_mode env;
               s1 = s\<lparr>hs_auth_key := key, hs_allow_unauth_loopback := \<not> has_auth \<and> loopback \<and> \<not> prod\<rparr>
        in if \<not> has_auth \<and> (prod \<or> \<not> loopback) then (False, s1)
           else if port = 0 then if fst bound \<le> 0 then (False, s1) else (True, s1\<lparr>hs_port := fst bound, hs_running := True\<rparr>)
           else if \<not> snd bound then (False, s1) else (True, s1\<lparr>hs_port := port, hs_running := True\<rparr>))"

definition hs_stop :: "'w HttpServer \<Rightarrow> 'w HttpServer" where
  "hs_stop s = s\<lparr>hs_running := False\<rparr>"

definition busy_try_acquire :: "'w HttpServer \<Rightarrow> bool \<times> 'w HttpServer" where
  "busy_try_acquire s = (\<not> hs_in_progress s, s\<lparr>hs_in_progress := True\<rparr>)"

definition busy_release :: "'w HttpServer \<Rightarrow> 'w HttpServer" where
  "busy_release s = s\<lparr>hs_in_progress := False\<rparr>"

record hs_request =
  hq_method :: string
  hq_path :: string
  hq_Authorization :: string
  hq_body :: string

type_synonym hs_response = "int \<times> string"

definition basic_credentials :: "string \<Rightarrow> string" where
  "basic_credentials token = (if token = [] then [] else ''Basic '' @ base64 ('':'' @ token))"

definition authorize :: "'w HttpServer \<Rightarrow> hs_request \<Rightarrow> bool" where
  "authorize s q \<longleftrightarrow> \<not> is_protected_path (hq_path q) \<or> hs_allow_unauth_loopback s \<or>
     (hs_auth_key s \<noteq> [] \<and> (hq_Authorization q = ''Bearer '' @ hs_auth_key s \<or> hq_Authorization q = basic_credentials (hs_auth_key s)))"

definition limit :: "real \<Rightarrow> string \<Rightarrow> 'w HttpServer \<Rightarrow> bool \<times> 'w HttpServer" where
  "limit now path s =
     (if path = ''/txn'' then (case rl_allow now (hs_txn_limiter s) of (ok, l) \<Rightarrow> (ok, s\<lparr>hs_txn_limiter := l\<rparr>))
      else if path = ''/command'' then (case rl_allow now (hs_cmd_limiter s) of (ok, l) \<Rightarrow> (ok, s\<lparr>hs_cmd_limiter := l\<rparr>))
      else (True, s))"

definition json_error :: "string \<Rightarrow> string" where
  "json_error e = ''{'' @ quoted ''error'' @ '':'' @ quoted e @ ''}''"

definition local_disabled :: "'w HttpServer \<Rightarrow> bool" where
  "local_disabled s = (case fm_get ''local-drawer'' (hs_fleet s) of Some t \<Rightarrow> tw_disabled t | None \<Rightarrow> False)"

text \<open>The pre-routing handler: a response when it handles the request itself.\<close>

definition pre_route :: "real \<Rightarrow> hs_request \<Rightarrow> 'w HttpServer \<Rightarrow> hs_response option \<times> 'w HttpServer" where
  "pre_route now q s =
     (let (ok, s1) = limit now (hq_path q) s in
      if \<not> ok then (Some (429, json_error ''rate''), s1)
      else if (hq_path q = ''/txn'' \<or> hq_path q = ''/command'') \<and> local_disabled s1 then (Some (423, json_error ''device_disabled''), s1)
      else if \<not> authorize s1 q then (Some (401, json_error ''unauthorized''), s1)
      else (None, s1))"

definition clamp :: "int \<Rightarrow> int \<Rightarrow> int \<Rightarrow> int" where
  "clamp v lo hi = (if v < lo then lo else if hi < v then hi else v)"

definition txn_amounts :: "extern \<Rightarrow> string \<Rightarrow> (int \<times> int) result" where
  "txn_amounts ext body = bind_result (parse ext body) (\<lambda>j.
     bind_result (bind_result (at_key ext j ''price'') (as_int ext)) (\<lambda>price.
     bind_result (bind_result (at_key ext j ''deposit'') (as_int ext)) (\<lambda>deposit. Inr (price, deposit))))"

definition txn_reply :: "Txn \<Rightarrow> string" where
  "txn_reply t = ''{'' @ quoted ''id'' @ '':'' @ quoted (t_id t) @ '','' @ quoted ''price'' @ '':'' @ to_string (t_price t) @ '','' @
     quoted ''deposit'' @ '':'' @ to_string (t_deposit t) @ '','' @ quoted ''change'' @ '':'' @ to_string (t_change t) @ '','' @
     quoted ''quarters'' @ '':'' @ to_string (t_quarters t) @ '','' @ quoted ''status'' @ '':'' @
     quoted (if t_phase t = ''DONE'' then ''OK'' else ''VOID'') @ '','' @ quoted ''reason'' @ '':'' @ quoted (t_reason t) @ ''}''"

text \<open>\<^verbatim>\<open>POST /txn\<close>. The guard's destructor releases the flag on every way out, but only if the guard set it. \<open>None\<close>: the
  dispenser waits for ever.\<close>

definition hs_post_txn :: "extern \<Rightarrow> 'w TxnEngine \<Rightarrow> int \<Rightarrow> string \<Rightarrow> 'w HttpServer \<Rightarrow> (hs_response \<times> 'w HttpServer) option" where
  "hs_post_txn ext en now_ns body s =
     (let (ok, s1) = busy_try_acquire s in
      if \<not> ok then Some ((409, json_error ''busy''), s1)
      else case txn_amounts ext body of Inl _ \<Rightarrow> Some ((400, json_error ''bad''), busy_release s1)
      | Inr (price, deposit) \<Rightarrow>
          (case run_purchase en now_ns (clamp price 0 100000) (clamp deposit 0 100000) (hs_journal s1) (hs_world s1) of None \<Rightarrow> None
           | Some (t, j, w) \<Rightarrow> Some ((200, txn_reply t), busy_release (s1\<lparr>hs_journal := j, hs_world := w\<rparr>))))"

definition cmd_bad :: hs_response where
  "cmd_bad = (400, ''{'' @ quoted ''ok'' @ '':false,'' @ quoted ''reason'' @ '':'' @ quoted ''bad'' @ ''}'')"

definition hs_cmd_ok :: hs_response where
  "hs_cmd_ok = (200, ''{'' @ quoted ''ok'' @ '':true}'')"

definition cmd_arg :: "extern \<Rightarrow> json \<Rightarrow> string \<Rightarrow> int result" where
  "cmd_arg ext j k = bind_result (bind_result (at_key ext j k) (as_int ext)) (\<lambda>v. Inr (clamp v 0 1000))"

definition hs_post_command :: "extern \<Rightarrow> 'w TxnEngine \<Rightarrow> string \<Rightarrow> 'w HttpServer \<Rightarrow> (hs_response \<times> 'w HttpServer) option" where
  "hs_post_command ext en body s = (case parse ext body of Inl _ \<Rightarrow> Some (cmd_bad, s)
     | Inr j \<Rightarrow>
       if has_key ext j ''close'' then (case cmd_arg ext j ''close'' of Inl _ \<Rightarrow> Some (cmd_bad, s)
         | Inr v \<Rightarrow> (case sh_close_mm (en_sh en) v [] (hs_world s) of (_, _, w) \<Rightarrow> Some (hs_cmd_ok, s\<lparr>hs_world := w\<rparr>)))
       else if hs_in_progress s then Some ((409, json_error ''busy''), s)
       else if has_key ext j ''open'' then (case cmd_arg ext j ''open'' of Inl _ \<Rightarrow> Some (cmd_bad, s)
         | Inr v \<Rightarrow> (case sh_open_mm (en_sh en) v [] (hs_world s) of (_, _, w) \<Rightarrow> Some (hs_cmd_ok, s\<lparr>hs_world := w\<rparr>)))
       else if has_key ext j ''dispense'' then (case cmd_arg ext j ''dispense'' of Inl _ \<Rightarrow> Some (cmd_bad, s)
         | Inr v \<Rightarrow> (case en_disp en v (hs_world s) of None \<Rightarrow> None | Some (_, w) \<Rightarrow> Some (hs_cmd_ok, s\<lparr>hs_world := w\<rparr>)))
       else Some (cmd_bad, s))"

text \<open>\<^verbatim>\<open>GET /status\<close>; \<open>line\<close> is the printing \<^verbatim>\<open>journal::to_json\<close>. An exception of the journal or of the JSON library leaves the
  handler, which the HTTP library answers with status 500.\<close>

definition get_status :: "extern \<Rightarrow> (Txn \<Rightarrow> string) \<Rightarrow> 'w HttpServer \<Rightarrow> hs_response" where
  "get_status ext line s =
     (case bind_result (load_last (jn_file (hs_journal s)) Txn_default) (\<lambda>(_, t).
        bind_result (if t_id t = [] then Inr (JObj []) else parse ext (line t)) (\<lambda>j.
        set_member ext (JObj [(''in_progress'', JBool (hs_in_progress s)), (''last'', j), (''version'', JStr ''1.0-s7'')]) ''operational''
          (operational_status_to_json (fm_ops (hs_fleet s))))) of
      Inl _ \<Rightarrow> (500, []) | Inr j \<Rightarrow> (200, dump ext j))"

text \<open>A request to one of the server's own routes; \<open>None\<close> inside stands for a route of another component.\<close>

definition hs_serve :: "extern \<Rightarrow> 'w TxnEngine \<Rightarrow> (Txn \<Rightarrow> string) \<Rightarrow> real \<Rightarrow> int \<Rightarrow> hs_request \<Rightarrow> 'w HttpServer \<Rightarrow> (hs_response option \<times> 'w HttpServer) option" where
  "hs_serve ext en line now now_ns q s =
     (case pre_route now q s of (Some r, s1) \<Rightarrow> Some (Some r, s1)
      | (None, s1) \<Rightarrow>
          if hq_method q = ''POST'' \<and> hq_path q = ''/txn'' then map_option (\<lambda>(r, s2). (Some r, s2)) (hs_post_txn ext en now_ns (hq_body q) s1)
          else if hq_method q = ''POST'' \<and> hq_path q = ''/command'' then map_option (\<lambda>(r, s2). (Some r, s2)) (hs_post_command ext en (hq_body q) s1)
          else if hq_method q = ''GET'' \<and> hq_path q = ''/status'' then Some (Some (get_status ext line s1), s1)
          else if hq_method q = ''GET'' \<and> hq_path q = ''/healthz'' then Some (Some hs_cmd_ok, s1)
          else Some (None, s1))"


section \<open>The encoder agrees with the standard\<close>

lemma wrap32_shift: "\<exists>q. wrap32 x = x + 4294967296 * q"
proof
  have "wrap32 x = x + 2 ^ 31 - 2 ^ 32 * ((x + 2 ^ 31) div 2 ^ 32) - 2 ^ 31" unfolding wrap32_def by (simp add: minus_mult_div_eq_mod [symmetric])
  then show "wrap32 x = x + 4294967296 * (- ((x + 2 ^ 31) div 2 ^ 32))" by simp
qed

text \<open>Six bits below bit 26 do not depend on what is added above bit 32.\<close>

lemma high_bits:
  assumes "64 * m dvd n" "m > 0"
  shows "(x + n * (q::int)) div m mod 64 = x div m mod 64"
proof -
  obtain d where "n = 64 * m * d" using assms(1) by (auto elim: dvdE)
  then have "x + n * q = x + m * (64 * (d * q))" by simp
  then have "(x + n * q) div m = 64 * (d * q) + x div m" using assms(2) by (simp only: div_mult_self2)
  then show ?thesis by simp
qed

lemma low_bits:
  assumes "0 \<le> y" "y < k" "m > 0"
  shows "(a * k + y) mod (m * k) = (a mod m) * k + (y::int)"
proof -
  have "a * k = (m * (a div m) + a mod m) * k" by simp
  then have "(a * k + y) mod (m * k) = ((a mod m) * k + y + (m * k) * (a div m)) mod (m * k)" by (simp only: algebra_simps)
  also have "\<dots> = ((a mod m) * k + y) mod (m * k)" by (rule mod_mult_self2)
  finally have "(a * k + y) mod (m * k) = ((a mod m) * k + y) mod (m * k)" .
  moreover have "0 \<le> (a mod m) * k + y" using assms by simp
  moreover have "(a mod m) * k + y < m * k"
  proof -
    have "a mod m \<le> m - 1" using assms(3) by simp
    then have "(a mod m) * k \<le> (m - 1) * k" using assms(1,2) by (intro mult_right_mono) auto
    then show ?thesis using assms(2) by (simp add: left_diff_distrib)
  qed
  ultimately show ?thesis by simp
qed

lemma accumulate: "\<exists>q. wrap32 (wrap32 (v * 2 ^ 8) + c) = v * 256 + c + 4294967296 * q"
proof -
  obtain q where "wrap32 (v * 2 ^ 8) = v * 2 ^ 8 + 4294967296 * q" using wrap32_shift by blast
  moreover obtain q' where "wrap32 (wrap32 (v * 2 ^ 8) + c) = wrap32 (v * 2 ^ 8) + c + 4294967296 * q'" using wrap32_shift by blast
  ultimately show ?thesis by (intro exI [of _ "q + q'"]) (simp add: algebra_simps)
qed

lemma b64_emit_simps:
  "b64_emit val 2 out = (- 4, out @ [sextet val 2])" "b64_emit val 4 out = (- 2, out @ [sextet val 4])"
  "b64_emit val 6 out = (- 6, out @ [sextet val 6, sextet val 0])"
  by (simp_all add: b64_emit.simps)

lemma sextets:
  assumes "0 \<le> a" "a < 256"
  shows "sextet (v * 256 + a + 4294967296 * q) 2 = b64_char (a div 4)"
    and "0 \<le> b \<Longrightarrow> b < 256 \<Longrightarrow> sextet (v * 65536 + a * 256 + b + 4294967296 * q) 4 = b64_char ((a mod 4) * 16 + b div 16)"
    and "0 \<le> c \<Longrightarrow> c < 256 \<Longrightarrow> 0 \<le> b \<Longrightarrow> b < 256 \<Longrightarrow>
       sextet (v * 16777216 + a * 65536 + b * 256 + c + 4294967296 * q) 6 = b64_char ((b mod 16) * 4 + c div 64)"
    and "0 \<le> c \<Longrightarrow> c < 256 \<Longrightarrow> sextet (v * 16777216 + a * 65536 + b * 256 + c + 4294967296 * q) 0 = b64_char (c mod 64)"
proof -
  have "(a + 256 * v) div 4 mod 64 = a div 4 mod 64" by (rule high_bits) auto
  then have "(a + 256 * v + 4294967296 * q) div 4 mod 64 = a div 4" using high_bits [of 4 4294967296 "a + 256 * v" q] assms by simp
  note fact = this
  have eq: "v * 256 + a + 4294967296 * q = a + 256 * v + 4294967296 * q" by simp
  show "sextet (v * 256 + a + 4294967296 * q) 2 = b64_char (a div 4)" using fact unfolding eq sextet_def b64_char_def by simp
next
  assume b: "0 \<le> b" "b < 256"
  have "(b + a * 256 + 65536 * v + 4294967296 * q) div 16 mod 64 = (b + a * 256) div 16 mod 64"
    by (rule trans [OF high_bits high_bits]) simp_all
  also have "(b + a * 256) div 16 = a * 16 + b div 16" using div_mult_self1 [of 16 b "a * 16"] by simp
  also have "(a * 16 + b div 16) mod 64 = (a mod 4) * 16 + b div 16" using low_bits [of "b div 16" 16 4 a] b by simp
  finally have "(b + a * 256 + 65536 * v + 4294967296 * q) div 16 mod 64 = (a mod 4) * 16 + b div 16" .
  note fact = this
  have eq: "v * 65536 + a * 256 + b + 4294967296 * q = b + a * 256 + 65536 * v + 4294967296 * q" by simp
  show "sextet (v * 65536 + a * 256 + b + 4294967296 * q) 4 = b64_char ((a mod 4) * 16 + b div 16)" using fact unfolding eq sextet_def b64_char_def by simp
next
  assume c: "0 \<le> c" "c < 256" "0 \<le> b" "b < 256"
  have "(c + b * 256 + 65536 * a + 16777216 * v + 4294967296 * q) div 64 mod 64 = (c + b * 256) div 64 mod 64"
    by (rule trans [OF high_bits trans [OF high_bits high_bits]]) simp_all
  also have "(c + b * 256) div 64 = b * 4 + c div 64" using div_mult_self1 [of 64 c "b * 4"] by simp
  also have "(b * 4 + c div 64) mod 64 = (b mod 16) * 4 + c div 64" using low_bits [of "c div 64" 4 16 b] c by simp
  finally have "(c + b * 256 + 65536 * a + 16777216 * v + 4294967296 * q) div 64 mod 64 = (b mod 16) * 4 + c div 64" .
  note fact = this
  have eq: "v * 16777216 + a * 65536 + b * 256 + c + 4294967296 * q = c + b * 256 + 65536 * a + 16777216 * v + 4294967296 * q" by simp
  show "sextet (v * 16777216 + a * 65536 + b * 256 + c + 4294967296 * q) 6 = b64_char ((b mod 16) * 4 + c div 64)" using fact unfolding eq sextet_def b64_char_def by simp
next
  assume c: "0 \<le> c" "c < 256"
  have "(c + 64 * (4 * b + 1024 * a + 262144 * v + 67108864 * q)) mod 64 = c mod 64" by (rule mod_mult_self2)
  note fact = this
  have eq: "v * 16777216 + a * 65536 + b * 256 + c + 4294967296 * q = c + 64 * (4 * b + 1024 * a + 262144 * v + 67108864 * q)" by simp
  show "sextet (v * 16777216 + a * 65536 + b * 256 + c + 4294967296 * q) 0 = b64_char (c mod 64)"
    unfolding eq sextet_def b64_char_def nat_0 power_0 div_by_1 fact ..
qed

text \<open>The accumulator after one, two and three bytes.\<close>

lemma accumulators:
  obtains q1 q2 q3 where
    "wrap32 (wrap32 (v * 2 ^ 8) + a) = v * 256 + a + 4294967296 * q1"
    "wrap32 (wrap32 (wrap32 (wrap32 (v * 2 ^ 8) + a) * 2 ^ 8) + b) = v * 65536 + a * 256 + b + 4294967296 * q2"
    "wrap32 (wrap32 (wrap32 (wrap32 (wrap32 (wrap32 (v * 2 ^ 8) + a) * 2 ^ 8) + b) * 2 ^ 8) + c) =
       v * 16777216 + a * 65536 + b * 256 + c + 4294967296 * q3"
proof -
  let ?v1 = "wrap32 (wrap32 (v * 2 ^ 8) + a)" let ?v2 = "wrap32 (wrap32 (?v1 * 2 ^ 8) + b)"
  obtain q1 where q1: "?v1 = v * 256 + a + 4294967296 * q1" using accumulate by blast
  obtain q2 where q2: "?v2 = ?v1 * 256 + b + 4294967296 * q2" using accumulate by blast
  obtain q3 where q3: "wrap32 (wrap32 (?v2 * 2 ^ 8) + c) = ?v2 * 256 + c + 4294967296 * q3" using accumulate by blast
  have "?v2 = v * 65536 + a * 256 + b + 4294967296 * (q1 * 256 + q2)" unfolding q2 unfolding q1 by (simp add: algebra_simps)
  moreover from this have "wrap32 (wrap32 (?v2 * 2 ^ 8) + c) = v * 16777216 + a * 65536 + b * 256 + c + 4294967296 * ((q1 * 256 + q2) * 256 + q3)"
    unfolding q3 by (simp add: algebra_simps)
  ultimately show thesis using q1 that by blast
qed

lemma b64_step3:
  assumes "0 \<le> a" "a < 256" "0 \<le> b" "b < 256" "0 \<le> c" "c < 256"
  shows "\<exists>v'. b64_loop (a # b # c # cs) v (- 6) out = b64_loop cs v' (- 6) (out @ [b64_char (a div 4), b64_char ((a mod 4) * 16 + b div 16),
    b64_char ((b mod 16) * 4 + c div 64), b64_char (c mod 64)])"
proof -
  obtain q1 q2 q3 where q: "wrap32 (wrap32 (v * 2 ^ 8) + a) = v * 256 + a + 4294967296 * q1"
    "wrap32 (wrap32 (wrap32 (wrap32 (v * 2 ^ 8) + a) * 2 ^ 8) + b) = v * 65536 + a * 256 + b + 4294967296 * q2"
    "wrap32 (wrap32 (wrap32 (wrap32 (wrap32 (wrap32 (v * 2 ^ 8) + a) * 2 ^ 8) + b) * 2 ^ 8) + c) =
       v * 16777216 + a * 65536 + b * 256 + c + 4294967296 * q3" by (rule accumulators)
  show ?thesis unfolding b64_loop.simps Let_def q(1)
    using q sextets [OF assms(1,2)] assms by (simp add: b64_emit_simps Let_def) (metis append_Nil2)
qed


definition b64_finish :: "int \<times> int \<times> string \<Rightarrow> string" where
  "b64_finish = (\<lambda>(val, valb, out). b64_pad (if valb > - 6 then out @ [sextet (wrap32 (val * 2 ^ 8)) (valb + 8)] else out))"

lemma b64_pad_simps:
  assumes "length out mod 4 = 0"
  shows "b64_pad out = out" "b64_pad (out @ [x, y]) = out @ [x, y, CHR ''='', CHR ''='']" "b64_pad (out @ [x, y, z]) = out @ [x, y, z, CHR ''='']"
proof -
  obtain k where k: "length out = 4 * k" using assms by auto
  have "(4 * k + 2) mod 4 = 2" "(4 * k + 3) mod 4 = 3" by presburger+
  then have "length (out @ [x, y]) mod 4 = 2" "length (out @ [x, y, z]) mod 4 = 3" using k by simp_all
  moreover have "replicate ((4 - 2) mod 4) (CHR ''='') = [CHR ''='', CHR ''='']" "replicate ((4 - 3) mod 4) (CHR ''='') = [CHR ''='']"
    by (simp_all add: numeral_2_eq_2)
  ultimately show "b64_pad (out @ [x, y]) = out @ [x, y, CHR ''='', CHR ''='']" "b64_pad (out @ [x, y, z]) = out @ [x, y, z, CHR ''='']"
    unfolding b64_pad_def by (simp_all del: length_append)
  show "b64_pad out = out" using assms by (simp add: b64_pad_def)
qed

lemma b64_finish_1:
  assumes "0 \<le> a" "a < 256" "length out mod 4 = 0"
  shows "b64_finish (b64_loop [a] v (- 6) out) = out @ b64_spec [a]"
proof -
  obtain q where q: "wrap32 (wrap32 (v * 2 ^ 8) + a) = v * 256 + a + 4294967296 * q" using accumulate by blast
  obtain q' where q': "wrap32 ((v * 256 + a + 4294967296 * q) * 2 ^ 8) = (v * 256 + a + 4294967296 * q) * 2 ^ 8 + 4294967296 * q'" using wrap32_shift by blast
  have w: "wrap32 ((v * 256 + a + 4294967296 * q) * 2 ^ 8) = v * 65536 + a * 256 + 0 + 4294967296 * (256 * q + q')" unfolding q' by (simp add: algebra_simps)
  have "sextet (wrap32 ((v * 256 + a + 4294967296 * q) * 2 ^ 8)) 4 = b64_char ((a mod 4) * 16)"
    unfolding w using sextets(2) [OF assms(1,2), of 0 v "256 * q + q'"] by simp
  moreover have "b64_loop [a] v (- 6) out = (v * 256 + a + 4294967296 * q, - 4, out @ [b64_char (a div 4)])"
    unfolding b64_loop.simps Let_def q using sextets(1) [OF assms(1,2)] by (simp add: b64_emit_simps)
  ultimately show ?thesis by (simp add: b64_finish_def b64_pad_simps [OF assms(3)])
qed

lemma b64_finish_2:
  assumes "0 \<le> a" "a < 256" "0 \<le> b" "b < 256" "length out mod 4 = 0"
  shows "b64_finish (b64_loop [a, b] v (- 6) out) = out @ b64_spec [a, b]"
proof -
  obtain q1 q2 q3 where q: "wrap32 (wrap32 (v * 2 ^ 8) + a) = v * 256 + a + 4294967296 * q1"
    "wrap32 (wrap32 (wrap32 (wrap32 (v * 2 ^ 8) + a) * 2 ^ 8) + b) = v * 65536 + a * 256 + b + 4294967296 * q2"
    by (rule accumulators [of v a b])
  let ?v2 = "v * 65536 + a * 256 + b + 4294967296 * q2"
  obtain q' where q': "wrap32 (?v2 * 2 ^ 8) = ?v2 * 2 ^ 8 + 4294967296 * q'" using wrap32_shift by blast
  have w: "wrap32 (?v2 * 2 ^ 8) = v * 16777216 + a * 65536 + b * 256 + 0 + 4294967296 * (256 * q2 + q')" unfolding q' by (simp add: algebra_simps)
  have "sextet (wrap32 (?v2 * 2 ^ 8)) 6 = b64_char ((b mod 16) * 4)"
    unfolding w using sextets(3) [OF assms(1,2), of 0 b v "256 * q2 + q'"] assms(3,4) by simp
  moreover have "b64_loop [a, b] v (- 6) out = (?v2, - 2, out @ [b64_char (a div 4), b64_char ((a mod 4) * 16 + b div 16)])"
    using q sextets(1,2) [OF assms(1,2)] assms by (simp add: Let_def b64_emit_simps)
  ultimately show ?thesis by (simp add: b64_finish_def b64_pad_simps [OF assms(5)])
qed

lemma b64_agrees:
  assumes "list_all (\<lambda>c. 0 \<le> c \<and> c < 256) bs" "length out mod 4 = 0"
  shows "b64_finish (b64_loop bs v (- 6) out) = out @ b64_spec bs"
  using assms
proof (induction bs arbitrary: v out rule: b64_spec.induct)
  case 1
  then show ?case by (simp add: b64_finish_def b64_pad_simps)
next
  case (2 a)
  then show ?case by (intro b64_finish_1) simp_all
next
  case (3 a b)
  then show ?case by (intro b64_finish_2) simp_all
next
  case (4 a b c cs)
  let ?four = "[b64_char (a div 4), b64_char ((a mod 4) * 16 + b div 16), b64_char ((b mod 16) * 4 + c div 64), b64_char (c mod 64)]"
  obtain v' where "b64_loop (a # b # c # cs) v (- 6) out = b64_loop cs v' (- 6) (out @ ?four)"
    using b64_step3 [of a b c cs v out] 4(2) by auto
  moreover have "length (out @ ?four) mod 4 = 0" using 4(3) by simp
  ultimately show ?case using 4(1) [of "out @ ?four" v'] 4(2) by simp
qed

lemma base64_standard_form: "base64 s = b64_spec (map of_char s)"
proof -
  have "list_all (\<lambda>c. 0 \<le> c \<and> c < 256) (map (of_char :: char \<Rightarrow> int) s)" by (auto simp: list_all_iff of_char_def)
  from b64_agrees [OF this, of "[]" 0] show ?thesis by (simp add: base64_def b64_finish_def split: prod.splits)
qed

text \<open>
  C25. The server's base64 encoder, which keeps its bits in a 32-bit integer that overflows on every longer token, computes the
  encoding of RFC 4648 for every text.
\<close>

theorem base64_standard: "base64 s = b64_spec (map of_char s)"
  by (rule base64_standard_form)

section \<open>What the rate limits let through\<close>

fun rl_run :: "real list \<Rightarrow> RateLimiter \<Rightarrow> bool list" where
  "rl_run [] l = []"
| "rl_run (t # ts) l = (case rl_allow t l of (ok, l1) \<Rightarrow> ok # rl_run ts l1)"

definition rl_ok :: "RateLimiter \<Rightarrow> bool" where
  "rl_ok l \<longleftrightarrow> 0 \<le> rl_tokens l \<and> rl_tokens l \<le> rl_capacity l \<and> 0 \<le> rl_refill_per_sec l"

lemma rl_allow_step:
  assumes "rl_ok l" "rl_last l \<le> t" "rl_allow t l = (ok, l')"
  shows "rl_ok l'" "rl_last l' = t" "rl_capacity l' = rl_capacity l" "rl_refill_per_sec l' = rl_refill_per_sec l"
    "(if ok then 1 else 0) + rl_tokens l' \<le> rl_tokens l + rl_refill_per_sec l * (t - rl_last l)"
    "(if ok then 1 else 0) + rl_tokens l' \<le> rl_capacity l"
proof -
  let ?tok = "min (rl_capacity l) (rl_tokens l + (t - rl_last l) * rl_refill_per_sec l)"
  have "0 \<le> (t - rl_last l) * rl_refill_per_sec l" using assms(1,2) by (simp add: rl_ok_def)
  then have tok: "0 \<le> ?tok" "?tok \<le> rl_capacity l" using assms(1) by (auto simp: rl_ok_def)
  have l': "l' = l\<lparr>rl_tokens := ?tok - (if ok then 1 else 0), rl_last := t\<rparr>" "ok \<longleftrightarrow> ?tok \<ge> 1"
    using assms(3) by (auto simp: rl_allow_def Let_def split: if_splits)
  then have "0 \<le> rl_tokens l'" using tok by (cases ok) auto
  then show "rl_ok l'" using l'(1) tok(2) assms(1) by (auto simp: rl_ok_def)
  show "rl_last l' = t" "rl_capacity l' = rl_capacity l" "rl_refill_per_sec l' = rl_refill_per_sec l" using l'(1) by simp_all
  have "(if ok then 1 else 0) + rl_tokens l' = ?tok" using l'(1) by simp
  then show "(if ok then 1 else 0) + rl_tokens l' \<le> rl_tokens l + rl_refill_per_sec l * (t - rl_last l)"
    "(if ok then 1 else 0) + rl_tokens l' \<le> rl_capacity l" using tok(2) by (auto simp: mult.commute)
qed

lemma rl_run_tokens:
  assumes "rl_ok l" "sorted (rl_last l # ts)"
  shows "real (length (filter (\<lambda>ok. ok) (rl_run ts l))) \<le> rl_tokens l + rl_refill_per_sec l * (last (rl_last l # ts) - rl_last l)"
  using assms
proof (induction ts arbitrary: l)
  case Nil
  then show ?case by (simp add: rl_ok_def)
next
  case (Cons t ts)
  obtain ok l1 where a: "rl_allow t l = (ok, l1)" by fastforce
  have t: "rl_last l \<le> t" using Cons.prems(2) by simp
  note st = rl_allow_step [OF Cons.prems(1) t a]
  have "sorted (rl_last l1 # ts)" using Cons.prems(2) st(2) by simp
  from Cons.IH [OF st(1) this] have ih: "real (length (filter (\<lambda>ok. ok) (rl_run ts l1))) \<le> rl_tokens l1 + rl_refill_per_sec l * (last (t # ts) - t)"
    using st(2,4) by (simp del: last.simps)
  have "rl_refill_per_sec l * (last (t # ts) - rl_last l) = rl_refill_per_sec l * (last (t # ts) - t) + rl_refill_per_sec l * (t - rl_last l)"
    by (simp add: algebra_simps)
  moreover have "real (length (filter (\<lambda>ok. ok) (rl_run (t # ts) l))) = (if ok then 1 else 0) + real (length (filter (\<lambda>ok. ok) (rl_run ts l1)))" using a by simp
  moreover have "last (rl_last l # t # ts) = last (t # ts)" by simp
  ultimately show ?case using ih st(5) by (simp del: last.simps)
qed

text \<open>
  C26. Of requests at increasing times a limiter lets through at most as many as it can hold, plus what is refilled between the first
  and the last of them: for the server's limits, four and one for every ten seconds.
\<close>

theorem rate_limit_bound:
  assumes "rl_ok l" "rl_last l \<le> t" "sorted (t # ts)"
  shows "real (length (filter (\<lambda>ok. ok) (rl_run (t # ts) l))) \<le> rl_capacity l + rl_refill_per_sec l * (last (t # ts) - t)"
proof -
  obtain ok l1 where a: "rl_allow t l = (ok, l1)" by fastforce
  note st = rl_allow_step [OF assms(1,2) a]
  have "sorted (rl_last l1 # ts)" using assms(3) st(2) by simp
  from rl_run_tokens [OF st(1) this] show ?thesis using a st(2,4,6) by (simp del: last.simps split: if_splits)
qed

section \<open>Who can move the machine\<close>

type_synonym timed_request = "real \<times> int \<times> hs_request"

fun hs_run :: "extern \<Rightarrow> 'w TxnEngine \<Rightarrow> (Txn \<Rightarrow> string) \<Rightarrow> timed_request list \<Rightarrow> 'w HttpServer \<Rightarrow> 'w HttpServer option" where
  "hs_run ext en line [] s = Some s"
| "hs_run ext en line ((now, ns, q) # qs) s = (case hs_serve ext en line now ns q s of None \<Rightarrow> None | Some (r, s1) \<Rightarrow> hs_run ext en line qs s1)"

lemma limit_keeps:
  assumes "limit now path s = (ok, s1)"
  shows "hs_world s1 = hs_world s" "hs_journal s1 = hs_journal s" "hs_auth_key s1 = hs_auth_key s" "hs_in_progress s1 = hs_in_progress s"
    "hs_allow_unauth_loopback s1 = hs_allow_unauth_loopback s" "hs_fleet s1 = hs_fleet s"
  using assms by (auto simp: limit_def split: if_splits prod.splits)

lemma pre_route_keeps:
  assumes "pre_route now q s = (r, s1)"
  shows "hs_world s1 = hs_world s" "hs_journal s1 = hs_journal s" "hs_auth_key s1 = hs_auth_key s" "hs_in_progress s1 = hs_in_progress s"
    "hs_allow_unauth_loopback s1 = hs_allow_unauth_loopback s" "hs_fleet s1 = hs_fleet s"
    "r = None \<Longrightarrow> authorize s1 q \<and> (hq_path q = ''/txn'' \<or> hq_path q = ''/command'' \<longrightarrow> \<not> local_disabled s)"
proof -
  obtain ok s' where l: "limit now (hq_path q) s = (ok, s')" by fastforce
  have "s1 = s'" using assms l by (auto simp: pre_route_def split: if_splits)
  then show "hs_world s1 = hs_world s" "hs_journal s1 = hs_journal s" "hs_auth_key s1 = hs_auth_key s" "hs_in_progress s1 = hs_in_progress s"
    "hs_allow_unauth_loopback s1 = hs_allow_unauth_loopback s" "hs_fleet s1 = hs_fleet s" using limit_keeps [OF l] by simp_all
  show "r = None \<Longrightarrow> authorize s1 q \<and> (hq_path q = ''/txn'' \<or> hq_path q = ''/command'' \<longrightarrow> \<not> local_disabled s)"
    using assms l limit_keeps(6) [OF l] by (auto simp: pre_route_def local_disabled_def split: if_splits)
qed

lemma hs_post_txn_keeps:
  assumes "hs_post_txn ext en ns body s = Some (r, s')"
  shows "hs_auth_key s' = hs_auth_key s" "hs_allow_unauth_loopback s' = hs_allow_unauth_loopback s"
    "hs_in_progress s \<Longrightarrow> hs_world s' = hs_world s \<and> hs_journal s' = hs_journal s \<and> hs_in_progress s'"
  using assms by (auto simp: hs_post_txn_def busy_try_acquire_def busy_release_def Let_def split: if_splits sum.splits option.splits prod.splits)

lemma hs_post_command_keeps:
  assumes "hs_post_command ext en body s = Some (r, s')"
  shows "hs_auth_key s' = hs_auth_key s" "hs_allow_unauth_loopback s' = hs_allow_unauth_loopback s" "hs_in_progress s' = hs_in_progress s"
    "hs_journal s' = hs_journal s"
    "hs_in_progress s \<Longrightarrow> hs_world s' \<noteq> hs_world s \<Longrightarrow> \<exists>j. parse ext body = Inr j \<and> has_key ext j ''close''"
  using assms by (auto simp: hs_post_command_def split: if_splits sum.splits option.splits prod.splits)

text \<open>A request that is served: refused before the routes, given to one of the two routes that act, or answered without effect.\<close>

lemma hs_serve_cases:
  assumes "hs_serve ext en line now ns q s = Some (r, s')"
  obtains s1 where "pre_route now q s = (None, s1)" "hq_path q = ''/txn''" "\<exists>r'. hs_post_txn ext en ns (hq_body q) s1 = Some (r', s')"
  | s1 where "pre_route now q s = (None, s1)" "hq_path q = ''/command''" "\<exists>r'. hs_post_command ext en (hq_body q) s1 = Some (r', s')"
  | x where "pre_route now q s = (x, s')"
proof -
  obtain x s1 where p: "pre_route now q s = (x, s1)" by fastforce
  show thesis
  proof (cases x)
    case (Some r0)
    then show thesis using assms p that(3) by (simp add: hs_serve_def)
  next
    case None
    then show thesis using assms p that by (auto simp: hs_serve_def split: if_splits)
  qed
qed

lemma hs_serve_keeps:
  assumes "hs_serve ext en line now ns q s = Some (r, s')"
  shows "hs_auth_key s' = hs_auth_key s \<and> hs_allow_unauth_loopback s' = hs_allow_unauth_loopback s"
  using assms
proof (cases rule: hs_serve_cases)
  case (1 s1)
  then show ?thesis using pre_route_keeps [OF 1(1)] hs_post_txn_keeps(1,2) by metis
next
  case (2 s1)
  then show ?thesis using pre_route_keeps [OF 2(1)] hs_post_command_keeps(1,2) by metis
next
  case (3 x)
  then show ?thesis using pre_route_keeps [OF 3] by simp
qed

lemma hs_run_keeps:
  "hs_run ext en line qs s = Some s' \<Longrightarrow> hs_auth_key s' = hs_auth_key s \<and> hs_allow_unauth_loopback s' = hs_allow_unauth_loopback s"
proof (induction ext en line qs s rule: hs_run.induct)
  case (2 ext en line now ns q qs s)
  then obtain r s1 where "hs_serve ext en line now ns q s = Some (r, s1)" "hs_run ext en line qs s1 = Some s'" by (auto split: option.splits)
  then show ?case using 2(1) hs_serve_keeps by fastforce
qed simp

definition credentials :: "string \<Rightarrow> hs_request \<Rightarrow> bool" where
  "credentials key q \<longleftrightarrow> key \<noteq> [] \<and> (hq_Authorization q = ''Bearer '' @ key \<or> hq_Authorization q = ''Basic '' @ b64_spec (map of_char ('':'' @ key)))"

lemma authorize_iff: "is_protected_path (hq_path q) \<Longrightarrow> authorize s q \<longleftrightarrow> hs_allow_unauth_loopback s \<or> credentials (hs_auth_key s) q"
  by (auto simp: authorize_def credentials_def basic_credentials_def base64_standard_form)

text \<open>
  C6. After a successful start, and whatever was requested before: a request that moves the machine or writes the journal carries the
  bearer token, or the token with an empty user name in the basic scheme; without a token in force this happens only on a loopback
  address outside production. A disabled register does neither.
\<close>

theorem only_authorized_requests_act:
  assumes "hs_start env bound bind port token s0 = (True, s)" "hs_run ext en line qs s = Some s1"
    and "hs_serve ext en line now ns q s1 = Some (r, s2)" "hs_world s2 \<noteq> hs_world s1 \<or> hs_journal s2 \<noteq> hs_journal s1"
  shows "(credentials (effective_token env token) q \<or> effective_token env token = [] \<and> is_loopback_bind bind \<and> \<not> production_mode env) \<and>
    \<not> local_disabled s1"
proof -
  have "hs_auth_key s = effective_token env token"
    "hs_allow_unauth_loopback s \<longrightarrow> effective_token env token = [] \<and> is_loopback_bind bind \<and> \<not> production_mode env"
    using assms(1) by (auto simp: hs_start_def Let_def split: if_splits)
  then have key: "hs_auth_key s1 = effective_token env token"
    "hs_allow_unauth_loopback s1 \<longrightarrow> effective_token env token = [] \<and> is_loopback_bind bind \<and> \<not> production_mode env"
    using hs_run_keeps [OF assms(2)] by simp_all
  from assms(3) obtain s' where p: "pre_route now q s1 = (None, s')" "hq_path q = ''/txn'' \<or> hq_path q = ''/command''"
  proof (cases rule: hs_serve_cases)
    case (3 x)
    then show thesis using pre_route_keeps(1,2) [OF 3] assms(4) by simp
  qed (use that in blast)+
  then have "authorize s' q" "\<not> local_disabled s1" using pre_route_keeps(7) [OF p(1)] by auto
  moreover have "is_protected_path (hq_path q)" using p(2) by (auto simp: is_protected_path_def)
  ultimately show ?thesis using authorize_iff [of q s'] pre_route_keeps(3,5) [OF p(1)] key by auto
qed


text \<open>
  The commands to open, close and dispense never ask the fault manager: their effect is the same whatever it says.
\<close>

lemma commands_ignore_faults: "hs_post_command ext (en\<lparr>en_fm := f\<rparr>) body s = hs_post_command ext en body s"
proof -
  have e: "en_sh (en\<lparr>en_fm := f\<rparr>) = en_sh en" "en_disp (en\<lparr>en_fm := f\<rparr>) = en_disp en" by simp_all
  show ?thesis unfolding hs_post_command_def e ..
qed


text \<open>
  The limits are charged before the credentials are looked at: after a token's worth of requests without credentials, a request
  with them is refused.
\<close>

lemma limit_before_credentials:
  assumes "hs_txn_limiter s = \<lparr>rl_capacity = cap, rl_tokens = 1, rl_refill_per_sec = r, rl_last = now\<rparr>" "1 \<le> cap"
    and "hq_path q = ''/txn''" "hq_path q' = ''/txn''"
  shows "fst (pre_route now q' (snd (pre_route now q s))) = Some (429, json_error ''rate'')"
  using assms by (auto simp: pre_route_def limit_def rl_allow_def Let_def)

section \<open>Examples\<close>

text \<open>A machine that counts its movements, and commands to close the shutter.\<close>

definition count_engine :: "nat TxnEngine" where
  "count_engine = \<lparr>en_sh = \<lparr>sh_home = (\<lambda>mm r w. (True, r, w + 1)), sh_open_mm = (\<lambda>mm r w. (True, r, w + 1)), sh_close_mm = (\<lambda>mm r w. (True, r, w + 1))\<rparr>,
     en_disp = (\<lambda>n w. None), en_cfg = TxnConfig_default, en_fm = None, en_sleep = (\<lambda>_ w. w)\<rparr>"

definition close_codec :: extern where
  "close_codec = sample_extern\<lparr>parse := (\<lambda>_. Inr (JObj [(''close'', JInt 40)]))\<rparr>"

definition sample_server :: "nat HttpServer" where
  "sample_server = HttpServer_new 0 \<lparr>fm_twins = [], fm_store_path = [], fm_file = None, fm_ops = OperationalStatus_default, fm_gauges = []\<rparr> empty_journal 0"

definition close_request :: hs_request where
  "close_request = \<lparr>hq_method = ''POST'', hq_path = ''/command'', hq_Authorization = ''Bearer k'', hq_body = []\<rparr>"

lemma close_served:
  assumes "hs_auth_key s = ''k''" "hs_world s = n" "rl_tokens (hs_cmd_limiter s) = 4" "rl_capacity (hs_cmd_limiter s) = 4" "rl_last (hs_cmd_limiter s) = 0"
    "fm_get ''local-drawer'' (hs_fleet s) = None"
  shows "\<exists>s'. hs_serve close_codec count_engine line 0 ns close_request s = Some (Some hs_cmd_ok, s') \<and> hs_world s' = n + 1"
proof -
  have "cmd_arg close_codec (JObj [(''close'', JInt 40)]) ''close'' = Inr 40"
    by (simp add: cmd_arg_def close_codec_def sample_extern_def obj_get_def clamp_def)
  moreover have "parse close_codec b = Inr (JObj [(''close'', JInt 40)])" "has_key close_codec = json_has" for b
    by (simp_all add: close_codec_def sample_extern_def)
  ultimately show ?thesis using assms
    by (simp add: hs_serve_def pre_route_def limit_def rl_allow_def close_request_def local_disabled_def authorize_def Let_def hs_post_command_def
        json_has_def count_engine_def)
qed

theorem only_authorized_requests_act_witness:
  "credentials ''k'' close_request"
proof -
  let ?s = "snd (hs_start (\<lambda>_. None) (0, True) ''0.0.0.0'' 8080 ''k'' sample_server)"
  have st: "hs_start (\<lambda>_. None) (0, True) ''0.0.0.0'' 8080 ''k'' sample_server = (True, ?s)" "hs_auth_key ?s = ''k''"
    "hs_world ?s = 0" "rl_tokens (hs_cmd_limiter ?s) = 4" "rl_capacity (hs_cmd_limiter ?s) = 4" "rl_last (hs_cmd_limiter ?s) = 0" "fm_get ''local-drawer'' (hs_fleet ?s) = None"
    by (simp_all add: hs_start_def sample_server_def HttpServer_new_def effective_token_def RateLimiter_new_def fm_get_def Let_def)
  obtain s' where "hs_serve close_codec count_engine (\<lambda>_. []) 0 0 close_request ?s = Some (Some hs_cmd_ok, s')" "hs_world s' = 1"
    using close_served [OF st(2-7), of "\<lambda>_. []" 0] by auto
  then show ?thesis using only_authorized_requests_act [OF st(1), of close_codec count_engine "\<lambda>_. []" "[]" ?s 0 0 close_request "Some hs_cmd_ok" s'] st(3)
    by (simp add: effective_token_def is_loopback_bind_def)
qed


theorem rate_limit_bound_witness:
  "real (length (filter (\<lambda>ok. ok) (rl_run [1, 1, 1, 1, 1, 11] (RateLimiter_new 4 0.1 0)))) \<le> 5"
  using rate_limit_bound [of "RateLimiter_new 4 0.1 0" 1 "[1, 1, 1, 1, 11]"] by (simp add: rl_ok_def RateLimiter_new_def)

end
