(* ===== verification/Config.thy ===== *)
theory Config
  imports Faults "HOL-Library.AList"
begin

text \<open>
  The configuration (\<^verbatim>\<open>src/config/config.hpp\<close>, \<^verbatim>\<open>config.cpp\<close>): a record per section, the built-in defaults, the setters the code
  makes by macros, one parser per section and \<^verbatim>\<open>load\<close>. The JSON library, the environment and the files are inputs. The results:
  a file is accepted exactly if it conforms to the schema of sections, keys and types; and every setting has the value the file
  gives it, converted as the code converts it, or else its default.
\<close>

section \<open>The sections\<close>

record SecretRef =
  secret_env :: string

record Pins =
  pins_step :: int
  pins_dir :: int
  pins_enable :: int
  pins_limit_open :: int
  pins_limit_closed :: int
  pins_hopper_en :: int
  pins_hopper_pulse :: int
  pins_hx_dt :: int
  pins_hx_sck :: int

record Mechanics =
  mech_steps_per_mm :: int
  mech_open_mm :: int
  mech_max_mm :: int

record HopperSection =
  hopper_pulses_per_coin :: int
  hopper_min_edge_interval_us :: int

record DispenseSection =
  disp_jam_ms :: int
  disp_settle_ms :: int
  disp_max_ms_per_coin :: int
  disp_hard_timeout_ms :: int

record AuditSection =
  audit_coin_mass_g :: real
  audit_tolerance_per_coin_g :: real
  audit_grams_per_raw :: real
  audit_tare_raw :: int
  audit_samples_pre :: int
  audit_samples_post :: int
  audit_settle_ms :: int
  audit_stuck_epsilon_raw :: int

record Presentation =
  pres_present_ms :: int

record SelfTestSection =
  selftest_enable_coin_test :: bool

record Aws =
  aws_enable :: bool
  aws_endpoint :: string
  aws_thing_name :: string
  aws_client_id :: string
  aws_root_ca :: SecretRef
  aws_cert :: SecretRef
  aws_key :: SecretRef
  aws_topic_prefix :: string
  aws_qos :: int
  aws_queue_dir :: string
  aws_max_queue_bytes :: int
  aws_use_tls_identity :: bool
  aws_rotation_check_minutes :: int

record Security =
  security_enable_ro_root :: bool
  security_ssh_keys_only :: bool
  security_firewall_enable :: bool
  security_allow_ssh_from :: string
  security_auditd_enable :: bool
  security_service_user :: string

record Identity =
  identity_use_tpm :: bool
  identity_tpm_parent_handle :: string
  identity_ca_endpoint :: string
  identity_cert_dir :: string
  identity_device_id_prefix :: string

record ServiceSection =
  service_enable :: bool
  service_pin_code :: string
  service_jam_clear_shutter_mm :: int
  service_jam_clear_cycles :: int
  service_hopper_nudge_ms :: int
  service_hopper_max_retries :: int
  service_audit_path :: string

record PosSection =
  pos_enable_http :: bool
  pos_port :: int
  pos_key :: string
  pos_tls_cert :: string
  pos_tls_key :: string

record OtaSection =
  ota_enable :: bool
  ota_backend :: string
  ota_feed_url :: string
  ota_channel :: string
  ota_ring :: string
  ota_poll_seconds :: int
  ota_state_dir :: string
  ota_key_pub :: string
  ota_health_grace_seconds :: int
  ota_require_signed :: bool

record Manufacturing =
  mfg_enable_first_boot_eol :: bool
  mfg_label_printer_uri :: string
  mfg_label_template :: string
  mfg_company_name :: string

record EolCfg =
  eol_weigh_tolerance_g :: real
  eol_coins_for_test :: int
  eol_open_mm :: int
  eol_present_ms :: int
  eol_retries :: int
  eol_min_success_txn_visible_seconds :: int
  eol_result_dir :: string

record BurnInCfg =
  burnin_cycles :: int
  burnin_rest_ms :: int
  burnin_abort_on_fault :: bool
  burnin_log_path :: string

record QuantSection =
  quant_enable :: bool
  quant_endpoint :: string
  quant_client_id :: string
  quant_hmac_key_hex :: string
  quant_topic :: string
  quant_queue_dir :: string
  quant_backoff_ms :: string
  quant_heartbeat_seconds :: int
  quant_reserve_floor_cents :: int
  quant_max_daily_outflow_cents :: int
  quant_min_step_change_cents :: int
  quant_max_update_rate_hz :: int
  quant_tolerance_cents :: int

record Config =
  c_pins :: Pins
  c_mech :: Mechanics
  c_hopper :: HopperSection
  c_disp :: DispenseSection
  c_audit :: AuditSection
  c_pres :: Presentation
  c_st :: SelfTestSection
  c_aws :: Aws
  c_security :: Security
  c_identity :: Identity
  c_safety :: Safety
  c_service :: ServiceSection
  c_pos :: PosSection
  c_ota :: OtaSection
  c_mfg :: Manufacturing
  c_eol :: EolCfg
  c_burnin :: BurnInCfg
  c_quant :: QuantSection
  c_source_path :: string

definition make_defaults :: Config where
  "make_defaults = \<lparr>c_pins = \<lparr>pins_step = 23, pins_dir = 24, pins_enable = 25, pins_limit_open = 26, pins_limit_closed = 27, pins_hopper_en = 5, pins_hopper_pulse = 6, pins_hx_dt = 19, pins_hx_sck = 13\<rparr>,
     c_mech = \<lparr>mech_steps_per_mm = 40, mech_open_mm = 40, mech_max_mm = 80\<rparr>,
     c_hopper = \<lparr>hopper_pulses_per_coin = 1, hopper_min_edge_interval_us = 2000\<rparr>,
     c_disp = \<lparr>disp_jam_ms = 600, disp_settle_ms = 120, disp_max_ms_per_coin = 300, disp_hard_timeout_ms = 5000\<rparr>,
     c_audit = \<lparr>audit_coin_mass_g = 5.670, audit_tolerance_per_coin_g = 0.35, audit_grams_per_raw = 0.001, audit_tare_raw = 0, audit_samples_pre = 8, audit_samples_post = 8, audit_settle_ms = 200, audit_stuck_epsilon_raw = 3\<rparr>,
     c_pres = \<lparr>pres_present_ms = 2000\<rparr>,
     c_st = \<lparr>selftest_enable_coin_test = True\<rparr>,
     c_aws = \<lparr>aws_enable = False, aws_endpoint = [], aws_thing_name = ''REG-01'', aws_client_id = ''REG-01'', aws_root_ca = \<lparr>secret_env = ''AWS_ROOT_CA''\<rparr>, aws_cert = \<lparr>secret_env = ''AWS_CERT''\<rparr>, aws_key = \<lparr>secret_env = ''AWS_KEY''\<rparr>, aws_topic_prefix = ''register/REG-01'', aws_qos = 1, aws_queue_dir = ''data/awsq'', aws_max_queue_bytes = 8 * 2 ^ 20, aws_use_tls_identity = False, aws_rotation_check_minutes = 60\<rparr>,
     c_security = \<lparr>security_enable_ro_root = True, security_ssh_keys_only = True, security_firewall_enable = True, security_allow_ssh_from = ''192.0.2.0/24'', security_auditd_enable = True, security_service_user = ''registermvp''\<rparr>,
     c_identity = \<lparr>identity_use_tpm = False, identity_tpm_parent_handle = ''0x81000001'', identity_ca_endpoint = ''http://ca.local/sign'', identity_cert_dir = ''/etc/register-mvp/certs'', identity_device_id_prefix = ''REG''\<rparr>,
     c_safety = \<lparr>estop_pin = - 1, lid_tamper_pin = - 1, overcurrent_pin = - 1, active_high = True, debounce_ms = 10\<rparr>,
     c_service = \<lparr>service_enable = True, service_pin_code = ''1234'', service_jam_clear_shutter_mm = 3, service_jam_clear_cycles = 3, service_hopper_nudge_ms = 150, service_hopper_max_retries = 2, service_audit_path = ''data/service.log''\<rparr>,
     c_pos = \<lparr>pos_enable_http = True, pos_port = 9090, pos_key = [], pos_tls_cert = [], pos_tls_key = []\<rparr>,
     c_ota = \<lparr>ota_enable = False, ota_backend = ''local'', ota_feed_url = [], ota_channel = ''stable'', ota_ring = ''default'', ota_poll_seconds = 300, ota_state_dir = ''/var/lib/register-mvp/ota'', ota_key_pub = [], ota_health_grace_seconds = 180, ota_require_signed = True\<rparr>,
     c_mfg = \<lparr>mfg_enable_first_boot_eol = True, mfg_label_printer_uri = ''file://stdout'', mfg_label_template = ''assets/labels/Device_Label.svg'', mfg_company_name = ''Acme Retail''\<rparr>,
     c_eol = \<lparr>eol_weigh_tolerance_g = 0.35, eol_coins_for_test = 3, eol_open_mm = 40, eol_present_ms = 1500, eol_retries = 1, eol_min_success_txn_visible_seconds = 10, eol_result_dir = ''/var/lib/register-mvp/eol''\<rparr>,
     c_burnin = \<lparr>burnin_cycles = 500, burnin_rest_ms = 250, burnin_abort_on_fault = True, burnin_log_path = ''/var/log/register-mvp/burnin.jsonl''\<rparr>,
     c_quant = \<lparr>quant_enable = False, quant_endpoint = [], quant_client_id = ''REG-CLIENT'', quant_hmac_key_hex = [], quant_topic = ''register/stream'', quant_queue_dir = ''/var/lib/register-mvp/quantq'', quant_backoff_ms = ''200,400,800,1600,3000'', quant_heartbeat_seconds = 15, quant_reserve_floor_cents = 2000, quant_max_daily_outflow_cents = 50000, quant_min_step_change_cents = 100, quant_max_update_rate_hz = 2, quant_tolerance_cents = 100\<rparr>,
     c_source_path = []\<rparr>"

text \<open>What the code uses of the JSON library; \<open>cj_read\<close> is the stream operator, with the message of its exception, \<open>cj_at\<close> the
  member of an object that contains it, and the \<open>cj_get\<close> functions are the conversions, used after the type tests.\<close>

record cfg_json =
  cj_read :: "string \<Rightarrow> string + json"
  cj_is_object :: "json \<Rightarrow> bool"
  cj_is_number_integer :: "json \<Rightarrow> bool"
  cj_is_number_unsigned :: "json \<Rightarrow> bool"
  cj_is_number :: "json \<Rightarrow> bool"
  cj_is_boolean :: "json \<Rightarrow> bool"
  cj_is_string :: "json \<Rightarrow> bool"
  cj_contains :: "json \<Rightarrow> string \<Rightarrow> bool"
  cj_at :: "json \<Rightarrow> string \<Rightarrow> json"
  cj_items :: "json \<Rightarrow> (string \<times> json) list"
  cj_get_int :: "json \<Rightarrow> int"
  cj_get_long :: "json \<Rightarrow> int"
  cj_get_uint64 :: "json \<Rightarrow> int"
  cj_get_double :: "json \<Rightarrow> real"
  cj_get_bool :: "json \<Rightarrow> bool"
  cj_get_string :: "json \<Rightarrow> string"

section \<open>Setters\<close>

type_synonym cfg_state = "Config \<times> string list"

type_synonym JSetter = "json \<Rightarrow> string \<Rightarrow> cfg_state \<Rightarrow> cfg_state"

definition INT_FIELD :: "cfg_json \<Rightarrow> (int \<Rightarrow> Config \<Rightarrow> Config) \<Rightarrow> JSetter" where
  "INT_FIELD cj upd v fk = (\<lambda>(c, e). if \<not> cj_is_number_integer cj v then (c, e @ [fk @ '' must be integer'']) else (upd (cj_get_int cj v) c, e))"

definition LONG_FIELD :: "cfg_json \<Rightarrow> (int \<Rightarrow> Config \<Rightarrow> Config) \<Rightarrow> JSetter" where
  "LONG_FIELD cj upd v fk = (\<lambda>(c, e). if \<not> cj_is_number_integer cj v then (c, e @ [fk @ '' must be integer'']) else (upd (cj_get_long cj v) c, e))"

definition UINT64_FIELD :: "cfg_json \<Rightarrow> (int \<Rightarrow> Config \<Rightarrow> Config) \<Rightarrow> JSetter" where
  "UINT64_FIELD cj upd v fk = (\<lambda>(c, e). if \<not> (cj_is_number_unsigned cj v \<or> cj_is_number_integer cj v) then (c, e @ [fk @ '' must be unsigned'']) else (upd (cj_get_uint64 cj v) c, e))"

definition DOUBLE_FIELD :: "cfg_json \<Rightarrow> (real \<Rightarrow> Config \<Rightarrow> Config) \<Rightarrow> JSetter" where
  "DOUBLE_FIELD cj upd v fk = (\<lambda>(c, e). if \<not> cj_is_number cj v then (c, e @ [fk @ '' must be number'']) else (upd (cj_get_double cj v) c, e))"

definition STRING_FIELD :: "cfg_json \<Rightarrow> (string \<Rightarrow> Config \<Rightarrow> Config) \<Rightarrow> JSetter" where
  "STRING_FIELD cj upd v fk = (\<lambda>(c, e). if \<not> cj_is_string cj v then (c, e @ [fk @ '' must be string'']) else (upd (cj_get_string cj v) c, e))"

definition BOOL_FIELD :: "cfg_json \<Rightarrow> (bool \<Rightarrow> Config \<Rightarrow> Config) \<Rightarrow> JSetter" where
  "BOOL_FIELD cj upd v fk = (\<lambda>(c, e). if cj_is_boolean cj v then (upd (cj_get_bool cj v) c, e)
     else if cj_is_number_integer cj v then (upd (cj_get_int cj v \<noteq> 0) c, e) else (c, e @ [fk @ '' must be bool'']))"

fun apply_items :: "string \<Rightarrow> (string \<times> JSetter) list \<Rightarrow> (string \<times> json) list \<Rightarrow> cfg_state \<Rightarrow> cfg_state" where
  "apply_items pfx m [] st = st"
| "apply_items pfx m ((k, v) # kvs) st = apply_items pfx m kvs
     (case map_of m k of None \<Rightarrow> (fst st, snd st @ [pfx @ k @ '' unknown'']) | Some setter \<Rightarrow> setter v (pfx @ k) st)"

definition apply_object :: "cfg_json \<Rightarrow> json \<Rightarrow> string \<Rightarrow> (string \<times> JSetter) list \<Rightarrow> cfg_state \<Rightarrow> cfg_state" where
  "apply_object cj obj pfx m st =
     (if \<not> cj_is_object cj obj then (fst st, snd st @ [butlast pfx @ '' must be object'']) else apply_items pfx m (cj_items cj obj) st)"

section \<open>Sections\<close>

text \<open>The tables of setters; the conversion to the member is the second argument of the macro.\<close>

definition pins_map :: "cfg_json \<Rightarrow> (string \<times> JSetter) list" where
  "pins_map cj =
    [(''step'', INT_FIELD cj (\<lambda>x. c_pins_update (pins_step_update (\<lambda>_. x)))),
     (''dir'', INT_FIELD cj (\<lambda>x. c_pins_update (pins_dir_update (\<lambda>_. x)))),
     (''enable'', INT_FIELD cj (\<lambda>x. c_pins_update (pins_enable_update (\<lambda>_. x)))),
     (''limit_open'', INT_FIELD cj (\<lambda>x. c_pins_update (pins_limit_open_update (\<lambda>_. x)))),
     (''limit_closed'', INT_FIELD cj (\<lambda>x. c_pins_update (pins_limit_closed_update (\<lambda>_. x)))),
     (''hopper_en'', INT_FIELD cj (\<lambda>x. c_pins_update (pins_hopper_en_update (\<lambda>_. x)))),
     (''hopper_pulse'', INT_FIELD cj (\<lambda>x. c_pins_update (pins_hopper_pulse_update (\<lambda>_. x)))),
     (''hx_dt'', INT_FIELD cj (\<lambda>x. c_pins_update (pins_hx_dt_update (\<lambda>_. x)))),
     (''hx_sck'', INT_FIELD cj (\<lambda>x. c_pins_update (pins_hx_sck_update (\<lambda>_. x))))]"

definition mech_map :: "cfg_json \<Rightarrow> (string \<times> JSetter) list" where
  "mech_map cj =
    [(''steps_per_mm'', INT_FIELD cj (\<lambda>x. c_mech_update (mech_steps_per_mm_update (\<lambda>_. x)))),
     (''open_mm'', INT_FIELD cj (\<lambda>x. c_mech_update (mech_open_mm_update (\<lambda>_. x)))),
     (''max_mm'', INT_FIELD cj (\<lambda>x. c_mech_update (mech_max_mm_update (\<lambda>_. x))))]"

definition hopper_map :: "cfg_json \<Rightarrow> (string \<times> JSetter) list" where
  "hopper_map cj =
    [(''pulses_per_coin'', INT_FIELD cj (\<lambda>x. c_hopper_update (hopper_pulses_per_coin_update (\<lambda>_. x)))),
     (''min_edge_interval_us'', INT_FIELD cj (\<lambda>x. c_hopper_update (hopper_min_edge_interval_us_update (\<lambda>_. x))))]"

definition disp_map :: "cfg_json \<Rightarrow> (string \<times> JSetter) list" where
  "disp_map cj =
    [(''jam_ms'', INT_FIELD cj (\<lambda>x. c_disp_update (disp_jam_ms_update (\<lambda>_. x)))),
     (''settle_ms'', INT_FIELD cj (\<lambda>x. c_disp_update (disp_settle_ms_update (\<lambda>_. x)))),
     (''max_ms_per_coin'', INT_FIELD cj (\<lambda>x. c_disp_update (disp_max_ms_per_coin_update (\<lambda>_. x)))),
     (''hard_timeout_ms'', INT_FIELD cj (\<lambda>x. c_disp_update (disp_hard_timeout_ms_update (\<lambda>_. x))))]"

definition audit_map :: "cfg_json \<Rightarrow> (string \<times> JSetter) list" where
  "audit_map cj =
    [(''coin_mass_g'', DOUBLE_FIELD cj (\<lambda>x. c_audit_update (audit_coin_mass_g_update (\<lambda>_. x)))),
     (''tolerance_per_coin_g'', DOUBLE_FIELD cj (\<lambda>x. c_audit_update (audit_tolerance_per_coin_g_update (\<lambda>_. x)))),
     (''grams_per_raw'', DOUBLE_FIELD cj (\<lambda>x. c_audit_update (audit_grams_per_raw_update (\<lambda>_. x)))),
     (''tare_raw'', LONG_FIELD cj (\<lambda>x. c_audit_update (audit_tare_raw_update (\<lambda>_. x)))),
     (''samples_pre'', INT_FIELD cj (\<lambda>x. c_audit_update (audit_samples_pre_update (\<lambda>_. x)))),
     (''samples_post'', INT_FIELD cj (\<lambda>x. c_audit_update (audit_samples_post_update (\<lambda>_. x)))),
     (''settle_ms'', INT_FIELD cj (\<lambda>x. c_audit_update (audit_settle_ms_update (\<lambda>_. x)))),
     (''stuck_epsilon_raw'', INT_FIELD cj (\<lambda>x. c_audit_update (audit_stuck_epsilon_raw_update (\<lambda>_. x))))]"

definition pres_map :: "cfg_json \<Rightarrow> (string \<times> JSetter) list" where
  "pres_map cj =
    [(''present_ms'', INT_FIELD cj (\<lambda>x. c_pres_update (pres_present_ms_update (\<lambda>_. x))))]"

definition selftest_map :: "cfg_json \<Rightarrow> (string \<times> JSetter) list" where
  "selftest_map cj =
    [(''enable_coin_test'', BOOL_FIELD cj (\<lambda>x. c_st_update (selftest_enable_coin_test_update (\<lambda>_. x))))]"

definition aws_map :: "cfg_json \<Rightarrow> (string \<times> JSetter) list" where
  "aws_map cj =
    [(''enable'', BOOL_FIELD cj (\<lambda>x. c_aws_update (aws_enable_update (\<lambda>_. x)))),
     (''endpoint'', STRING_FIELD cj (\<lambda>x. c_aws_update (aws_endpoint_update (\<lambda>_. x)))),
     (''thing_name'', STRING_FIELD cj (\<lambda>x. c_aws_update (aws_thing_name_update (\<lambda>_. x)))),
     (''client_id'', STRING_FIELD cj (\<lambda>x. c_aws_update (aws_client_id_update (\<lambda>_. x)))),
     (''root_ca_env'', STRING_FIELD cj (\<lambda>x. c_aws_update (aws_root_ca_update (secret_env_update (\<lambda>_. x))))),
     (''cert_env'', STRING_FIELD cj (\<lambda>x. c_aws_update (aws_cert_update (secret_env_update (\<lambda>_. x))))),
     (''key_env'', STRING_FIELD cj (\<lambda>x. c_aws_update (aws_key_update (secret_env_update (\<lambda>_. x))))),
     (''topic_prefix'', STRING_FIELD cj (\<lambda>x. c_aws_update (aws_topic_prefix_update (\<lambda>_. x)))),
     (''qos'', INT_FIELD cj (\<lambda>x. c_aws_update (aws_qos_update (\<lambda>_. x)))),
     (''queue_dir'', STRING_FIELD cj (\<lambda>x. c_aws_update (aws_queue_dir_update (\<lambda>_. x)))),
     (''max_queue_bytes'', UINT64_FIELD cj (\<lambda>x. c_aws_update (aws_max_queue_bytes_update (\<lambda>_. x)))),
     (''use_tls_identity'', BOOL_FIELD cj (\<lambda>x. c_aws_update (aws_use_tls_identity_update (\<lambda>_. x)))),
     (''rotation_check_minutes'', INT_FIELD cj (\<lambda>x. c_aws_update (aws_rotation_check_minutes_update (\<lambda>_. x))))]"

definition security_map :: "cfg_json \<Rightarrow> (string \<times> JSetter) list" where
  "security_map cj =
    [(''enable_ro_root'', BOOL_FIELD cj (\<lambda>x. c_security_update (security_enable_ro_root_update (\<lambda>_. x)))),
     (''ssh_keys_only'', BOOL_FIELD cj (\<lambda>x. c_security_update (security_ssh_keys_only_update (\<lambda>_. x)))),
     (''firewall_enable'', BOOL_FIELD cj (\<lambda>x. c_security_update (security_firewall_enable_update (\<lambda>_. x)))),
     (''allow_ssh_from'', STRING_FIELD cj (\<lambda>x. c_security_update (security_allow_ssh_from_update (\<lambda>_. x)))),
     (''auditd_enable'', BOOL_FIELD cj (\<lambda>x. c_security_update (security_auditd_enable_update (\<lambda>_. x)))),
     (''service_user'', STRING_FIELD cj (\<lambda>x. c_security_update (security_service_user_update (\<lambda>_. x))))]"

definition identity_map :: "cfg_json \<Rightarrow> (string \<times> JSetter) list" where
  "identity_map cj =
    [(''use_tpm'', BOOL_FIELD cj (\<lambda>x. c_identity_update (identity_use_tpm_update (\<lambda>_. x)))),
     (''tpm_parent_handle'', STRING_FIELD cj (\<lambda>x. c_identity_update (identity_tpm_parent_handle_update (\<lambda>_. x)))),
     (''ca_endpoint'', STRING_FIELD cj (\<lambda>x. c_identity_update (identity_ca_endpoint_update (\<lambda>_. x)))),
     (''cert_dir'', STRING_FIELD cj (\<lambda>x. c_identity_update (identity_cert_dir_update (\<lambda>_. x)))),
     (''device_id_prefix'', STRING_FIELD cj (\<lambda>x. c_identity_update (identity_device_id_prefix_update (\<lambda>_. x))))]"

definition safety_map :: "cfg_json \<Rightarrow> (string \<times> JSetter) list" where
  "safety_map cj =
    [(''estop_pin'', INT_FIELD cj (\<lambda>x. c_safety_update (estop_pin_update (\<lambda>_. x)))),
     (''lid_tamper_pin'', INT_FIELD cj (\<lambda>x. c_safety_update (lid_tamper_pin_update (\<lambda>_. x)))),
     (''overcurrent_pin'', INT_FIELD cj (\<lambda>x. c_safety_update (overcurrent_pin_update (\<lambda>_. x)))),
     (''active_high'', BOOL_FIELD cj (\<lambda>x. c_safety_update (active_high_update (\<lambda>_. x)))),
     (''debounce_ms'', INT_FIELD cj (\<lambda>x. c_safety_update (debounce_ms_update (\<lambda>_. x))))]"

definition service_map :: "cfg_json \<Rightarrow> (string \<times> JSetter) list" where
  "service_map cj =
    [(''enable'', BOOL_FIELD cj (\<lambda>x. c_service_update (service_enable_update (\<lambda>_. x)))),
     (''pin_code'', STRING_FIELD cj (\<lambda>x. c_service_update (service_pin_code_update (\<lambda>_. x)))),
     (''jam_clear_shutter_mm'', INT_FIELD cj (\<lambda>x. c_service_update (service_jam_clear_shutter_mm_update (\<lambda>_. x)))),
     (''jam_clear_cycles'', INT_FIELD cj (\<lambda>x. c_service_update (service_jam_clear_cycles_update (\<lambda>_. x)))),
     (''hopper_nudge_ms'', INT_FIELD cj (\<lambda>x. c_service_update (service_hopper_nudge_ms_update (\<lambda>_. x)))),
     (''hopper_max_retries'', INT_FIELD cj (\<lambda>x. c_service_update (service_hopper_max_retries_update (\<lambda>_. x)))),
     (''audit_path'', STRING_FIELD cj (\<lambda>x. c_service_update (service_audit_path_update (\<lambda>_. x))))]"

definition pos_map :: "cfg_json \<Rightarrow> (string \<times> JSetter) list" where
  "pos_map cj =
    [(''enable_http'', BOOL_FIELD cj (\<lambda>x. c_pos_update (pos_enable_http_update (\<lambda>_. x)))),
     (''port'', INT_FIELD cj (\<lambda>x. c_pos_update (pos_port_update (\<lambda>_. x)))),
     (''key'', STRING_FIELD cj (\<lambda>x. c_pos_update (pos_key_update (\<lambda>_. x)))),
     (''tls_cert'', STRING_FIELD cj (\<lambda>x. c_pos_update (pos_tls_cert_update (\<lambda>_. x)))),
     (''tls_key'', STRING_FIELD cj (\<lambda>x. c_pos_update (pos_tls_key_update (\<lambda>_. x))))]"

definition ota_map :: "cfg_json \<Rightarrow> (string \<times> JSetter) list" where
  "ota_map cj =
    [(''enable'', BOOL_FIELD cj (\<lambda>x. c_ota_update (ota_enable_update (\<lambda>_. x)))),
     (''backend'', STRING_FIELD cj (\<lambda>x. c_ota_update (ota_backend_update (\<lambda>_. x)))),
     (''feed_url'', STRING_FIELD cj (\<lambda>x. c_ota_update (ota_feed_url_update (\<lambda>_. x)))),
     (''channel'', STRING_FIELD cj (\<lambda>x. c_ota_update (ota_channel_update (\<lambda>_. x)))),
     (''ring'', STRING_FIELD cj (\<lambda>x. c_ota_update (ota_ring_update (\<lambda>_. x)))),
     (''poll_seconds'', INT_FIELD cj (\<lambda>x. c_ota_update (ota_poll_seconds_update (\<lambda>_. x)))),
     (''state_dir'', STRING_FIELD cj (\<lambda>x. c_ota_update (ota_state_dir_update (\<lambda>_. x)))),
     (''key_pub'', STRING_FIELD cj (\<lambda>x. c_ota_update (ota_key_pub_update (\<lambda>_. x)))),
     (''health_grace_seconds'', INT_FIELD cj (\<lambda>x. c_ota_update (ota_health_grace_seconds_update (\<lambda>_. x)))),
     (''require_signed'', BOOL_FIELD cj (\<lambda>x. c_ota_update (ota_require_signed_update (\<lambda>_. x))))]"

definition mfg_map :: "cfg_json \<Rightarrow> (string \<times> JSetter) list" where
  "mfg_map cj =
    [(''enable_first_boot_eol'', BOOL_FIELD cj (\<lambda>x. c_mfg_update (mfg_enable_first_boot_eol_update (\<lambda>_. x)))),
     (''label_printer_uri'', STRING_FIELD cj (\<lambda>x. c_mfg_update (mfg_label_printer_uri_update (\<lambda>_. x)))),
     (''label_template'', STRING_FIELD cj (\<lambda>x. c_mfg_update (mfg_label_template_update (\<lambda>_. x)))),
     (''company_name'', STRING_FIELD cj (\<lambda>x. c_mfg_update (mfg_company_name_update (\<lambda>_. x))))]"

definition eol_map :: "cfg_json \<Rightarrow> (string \<times> JSetter) list" where
  "eol_map cj =
    [(''weigh_tolerance_g'', DOUBLE_FIELD cj (\<lambda>x. c_eol_update (eol_weigh_tolerance_g_update (\<lambda>_. x)))),
     (''coins_for_test'', INT_FIELD cj (\<lambda>x. c_eol_update (eol_coins_for_test_update (\<lambda>_. x)))),
     (''open_mm'', INT_FIELD cj (\<lambda>x. c_eol_update (eol_open_mm_update (\<lambda>_. x)))),
     (''present_ms'', INT_FIELD cj (\<lambda>x. c_eol_update (eol_present_ms_update (\<lambda>_. x)))),
     (''retries'', INT_FIELD cj (\<lambda>x. c_eol_update (eol_retries_update (\<lambda>_. x)))),
     (''min_success_txn_visible_seconds'', INT_FIELD cj (\<lambda>x. c_eol_update (eol_min_success_txn_visible_seconds_update (\<lambda>_. x)))),
     (''result_dir'', STRING_FIELD cj (\<lambda>x. c_eol_update (eol_result_dir_update (\<lambda>_. x))))]"

definition burnin_map :: "cfg_json \<Rightarrow> (string \<times> JSetter) list" where
  "burnin_map cj =
    [(''cycles'', INT_FIELD cj (\<lambda>x. c_burnin_update (burnin_cycles_update (\<lambda>_. x)))),
     (''rest_ms'', INT_FIELD cj (\<lambda>x. c_burnin_update (burnin_rest_ms_update (\<lambda>_. x)))),
     (''abort_on_fault'', BOOL_FIELD cj (\<lambda>x. c_burnin_update (burnin_abort_on_fault_update (\<lambda>_. x)))),
     (''log_path'', STRING_FIELD cj (\<lambda>x. c_burnin_update (burnin_log_path_update (\<lambda>_. x))))]"

definition quant_map :: "cfg_json \<Rightarrow> (string \<times> JSetter) list" where
  "quant_map cj =
    [(''enable'', BOOL_FIELD cj (\<lambda>x. c_quant_update (quant_enable_update (\<lambda>_. x)))),
     (''endpoint'', STRING_FIELD cj (\<lambda>x. c_quant_update (quant_endpoint_update (\<lambda>_. x)))),
     (''client_id'', STRING_FIELD cj (\<lambda>x. c_quant_update (quant_client_id_update (\<lambda>_. x)))),
     (''hmac_key_hex'', STRING_FIELD cj (\<lambda>x. c_quant_update (quant_hmac_key_hex_update (\<lambda>_. x)))),
     (''topic'', STRING_FIELD cj (\<lambda>x. c_quant_update (quant_topic_update (\<lambda>_. x)))),
     (''queue_dir'', STRING_FIELD cj (\<lambda>x. c_quant_update (quant_queue_dir_update (\<lambda>_. x)))),
     (''backoff_ms'', STRING_FIELD cj (\<lambda>x. c_quant_update (quant_backoff_ms_update (\<lambda>_. x)))),
     (''heartbeat_seconds'', INT_FIELD cj (\<lambda>x. c_quant_update (quant_heartbeat_seconds_update (\<lambda>_. x)))),
     (''reserve_floor_cents'', INT_FIELD cj (\<lambda>x. c_quant_update (quant_reserve_floor_cents_update (\<lambda>_. x)))),
     (''max_daily_outflow_cents'', INT_FIELD cj (\<lambda>x. c_quant_update (quant_max_daily_outflow_cents_update (\<lambda>_. x)))),
     (''min_step_change_cents'', INT_FIELD cj (\<lambda>x. c_quant_update (quant_min_step_change_cents_update (\<lambda>_. x)))),
     (''max_update_rate_hz'', INT_FIELD cj (\<lambda>x. c_quant_update (quant_max_update_rate_hz_update (\<lambda>_. x)))),
     (''tolerance_cents'', INT_FIELD cj (\<lambda>x. c_quant_update (quant_tolerance_cents_update (\<lambda>_. x))))]"

fun io_unknown :: "(string \<times> json) list \<Rightarrow> string list \<Rightarrow> string list" where
  "io_unknown [] e = e"
| "io_unknown ((k, _) # kvs) e = io_unknown kvs (if k \<noteq> ''pins'' then e @ [''io.'' @ k @ '' unknown''] else e)"

definition parse_io :: "cfg_json \<Rightarrow> json \<Rightarrow> cfg_state \<Rightarrow> cfg_state" where
  "parse_io cj j st =
     (let (c, e) = if cj_contains cj j ''pins'' then apply_object cj (cj_at cj j ''pins'') ''io.pins.'' (pins_map cj) st else st
      in (c, io_unknown (cj_items cj j) e))"

definition parse_mechanics :: "cfg_json \<Rightarrow> json \<Rightarrow> cfg_state \<Rightarrow> cfg_state" where
  "parse_mechanics cj j = apply_object cj j ''mechanics.'' (mech_map cj)"

definition parse_hopper :: "cfg_json \<Rightarrow> json \<Rightarrow> cfg_state \<Rightarrow> cfg_state" where
  "parse_hopper cj j = apply_object cj j ''hopper.'' (hopper_map cj)"

definition parse_dispense :: "cfg_json \<Rightarrow> json \<Rightarrow> cfg_state \<Rightarrow> cfg_state" where
  "parse_dispense cj j = apply_object cj j ''dispense.'' (disp_map cj)"

definition parse_audit :: "cfg_json \<Rightarrow> json \<Rightarrow> cfg_state \<Rightarrow> cfg_state" where
  "parse_audit cj j = apply_object cj j ''audit.'' (audit_map cj)"

definition parse_presentation :: "cfg_json \<Rightarrow> json \<Rightarrow> cfg_state \<Rightarrow> cfg_state" where
  "parse_presentation cj j = apply_object cj j ''presentation.'' (pres_map cj)"

definition parse_selftest :: "cfg_json \<Rightarrow> json \<Rightarrow> cfg_state \<Rightarrow> cfg_state" where
  "parse_selftest cj j = apply_object cj j ''selftest.'' (selftest_map cj)"

definition parse_aws :: "cfg_json \<Rightarrow> json \<Rightarrow> cfg_state \<Rightarrow> cfg_state" where
  "parse_aws cj j = apply_object cj j ''aws.'' (aws_map cj)"

definition parse_security :: "cfg_json \<Rightarrow> json \<Rightarrow> cfg_state \<Rightarrow> cfg_state" where
  "parse_security cj j = apply_object cj j ''security.'' (security_map cj)"

definition parse_identity :: "cfg_json \<Rightarrow> json \<Rightarrow> cfg_state \<Rightarrow> cfg_state" where
  "parse_identity cj j = apply_object cj j ''identity.'' (identity_map cj)"

definition parse_safety :: "cfg_json \<Rightarrow> json \<Rightarrow> cfg_state \<Rightarrow> cfg_state" where
  "parse_safety cj j = apply_object cj j ''safety.'' (safety_map cj)"

definition parse_service :: "cfg_json \<Rightarrow> json \<Rightarrow> cfg_state \<Rightarrow> cfg_state" where
  "parse_service cj j = apply_object cj j ''service.'' (service_map cj)"

definition parse_pos :: "cfg_json \<Rightarrow> json \<Rightarrow> cfg_state \<Rightarrow> cfg_state" where
  "parse_pos cj j = apply_object cj j ''pos.'' (pos_map cj)"

definition parse_ota :: "cfg_json \<Rightarrow> json \<Rightarrow> cfg_state \<Rightarrow> cfg_state" where
  "parse_ota cj j = apply_object cj j ''ota.'' (ota_map cj)"

definition parse_manufacturing :: "cfg_json \<Rightarrow> json \<Rightarrow> cfg_state \<Rightarrow> cfg_state" where
  "parse_manufacturing cj j = apply_object cj j ''manufacturing.'' (mfg_map cj)"

definition parse_eol :: "cfg_json \<Rightarrow> json \<Rightarrow> cfg_state \<Rightarrow> cfg_state" where
  "parse_eol cj j = apply_object cj j ''eol.'' (eol_map cj)"

definition parse_burnin :: "cfg_json \<Rightarrow> json \<Rightarrow> cfg_state \<Rightarrow> cfg_state" where
  "parse_burnin cj j = apply_object cj j ''burnin.'' (burnin_map cj)"

definition parse_quant :: "cfg_json \<Rightarrow> json \<Rightarrow> cfg_state \<Rightarrow> cfg_state" where
  "parse_quant cj j = apply_object cj j ''quant.'' (quant_map cj)"

section \<open>Loading\<close>

definition cfg_sections :: "cfg_json \<Rightarrow> (string \<times> (json \<Rightarrow> cfg_state \<Rightarrow> cfg_state)) list" where
  "cfg_sections cj =
    [(''io'', parse_io cj),
     (''mechanics'', parse_mechanics cj),
     (''hopper'', parse_hopper cj),
     (''dispense'', parse_dispense cj),
     (''audit'', parse_audit cj),
     (''presentation'', parse_presentation cj),
     (''selftest'', parse_selftest cj),
     (''aws'', parse_aws cj),
     (''security'', parse_security cj),
     (''identity'', parse_identity cj),
     (''safety'', parse_safety cj),
     (''service'', parse_service cj),
     (''pos'', parse_pos cj),
     (''ota'', parse_ota cj),
     (''manufacturing'', parse_manufacturing cj),
     (''eol'', parse_eol cj),
     (''burnin'', parse_burnin cj),
     (''quant'', parse_quant cj)]"

fun load_sections :: "cfg_json \<Rightarrow> json \<Rightarrow> (string \<times> (json \<Rightarrow> cfg_state \<Rightarrow> cfg_state)) list \<Rightarrow> cfg_state \<Rightarrow> cfg_state" where
  "load_sections cj j [] st = st"
| "load_sections cj j ((n, p) # ps) st = load_sections cj j ps (if cj_contains cj j n then p (cj_at cj j n) st else st)"

definition known_sections :: "string list" where
  "known_sections = [''io'', ''mechanics'', ''hopper'', ''dispense'', ''audit'', ''presentation'', ''selftest'', ''aws'', ''security'', ''identity'', ''safety'', ''service'', ''pos'', ''ota'', ''manufacturing'', ''eol'', ''burnin'', ''quant'']"

fun unknown_sections :: "(string \<times> json) list \<Rightarrow> string list \<Rightarrow> string list" where
  "unknown_sections [] e = e"
| "unknown_sections ((k, _) # kvs) e = unknown_sections kvs (if k \<notin> set known_sections then e @ [''unknown section '' @ k] else e)"

record LoadResult =
  lr_config :: Config
  lr_errors :: "string list"

definition cfg_load :: "cfg_json \<Rightarrow> (string \<Rightarrow> string option) \<Rightarrow> (string \<Rightarrow> string option) \<Rightarrow> LoadResult" where
  "cfg_load cj env files = (case env ''REGISTER_MVP_CONFIG'' of None \<Rightarrow> \<lparr>lr_config = make_defaults, lr_errors = []\<rparr>
     | Some path \<Rightarrow>
         if path = [] then \<lparr>lr_config = make_defaults, lr_errors = []\<rparr>
         else case files path of None \<Rightarrow> \<lparr>lr_config = make_defaults, lr_errors = [''unable to open config file '' @ path]\<rparr>
         | Some text \<Rightarrow> (case cj_read cj text of Inl what \<Rightarrow> \<lparr>lr_config = make_defaults, lr_errors = [''invalid json: '' @ what]\<rparr>
           | Inr j \<Rightarrow> (case load_sections cj j (cfg_sections cj) (make_defaults\<lparr>c_source_path := path\<rparr>, []) of
               (c, e) \<Rightarrow> \<lparr>lr_config = c, lr_errors = unknown_sections (cj_items cj j) e\<rparr>)))"

text \<open>The secret a reference names, and the interval, in minutes, of the thread that reads the secrets again; \<open>None\<close>: no thread.\<close>

definition SecretRef_load :: "(string \<Rightarrow> string option) \<Rightarrow> SecretRef \<Rightarrow> string" where
  "SecretRef_load env r = (case env (secret_env r) of Some v \<Rightarrow> v | None \<Rightarrow> [])"

definition schedule_rotation :: "Aws \<Rightarrow> int option" where
  "schedule_rotation a = (if aws_rotation_check_minutes a \<le> 0 then None else Some (aws_rotation_check_minutes a))"

section \<open>The schema\<close>

text \<open>A key's type and where its value ends up.\<close>

datatype kind = KInt | KLong | KUint | KDouble | KBool | KString

datatype cval = VInt int | VReal real | VBool bool | VStr string

type_synonym field = "string \<times> kind \<times> (Config \<Rightarrow> cval)"

definition typed :: "cfg_json \<Rightarrow> kind \<Rightarrow> json \<Rightarrow> bool" where
  "typed cj kd v = (case kd of KInt \<Rightarrow> cj_is_number_integer cj v | KLong \<Rightarrow> cj_is_number_integer cj v
     | KUint \<Rightarrow> cj_is_number_unsigned cj v \<or> cj_is_number_integer cj v | KDouble \<Rightarrow> cj_is_number cj v
     | KBool \<Rightarrow> cj_is_boolean cj v \<or> cj_is_number_integer cj v | KString \<Rightarrow> cj_is_string cj v)"

definition converted :: "cfg_json \<Rightarrow> kind \<Rightarrow> json \<Rightarrow> cval" where
  "converted cj kd v = (case kd of KInt \<Rightarrow> VInt (cj_get_int cj v) | KLong \<Rightarrow> VInt (cj_get_long cj v) | KUint \<Rightarrow> VInt (cj_get_uint64 cj v)
     | KDouble \<Rightarrow> VReal (cj_get_double cj v) | KString \<Rightarrow> VStr (cj_get_string cj v)
     | KBool \<Rightarrow> VBool (if cj_is_boolean cj v then cj_get_bool cj v else cj_get_int cj v \<noteq> 0))"

definition pins_fields :: "field list" where
  "pins_fields =
    [(''step'', KInt, \<lambda>c. VInt (pins_step (c_pins c))),
     (''dir'', KInt, \<lambda>c. VInt (pins_dir (c_pins c))),
     (''enable'', KInt, \<lambda>c. VInt (pins_enable (c_pins c))),
     (''limit_open'', KInt, \<lambda>c. VInt (pins_limit_open (c_pins c))),
     (''limit_closed'', KInt, \<lambda>c. VInt (pins_limit_closed (c_pins c))),
     (''hopper_en'', KInt, \<lambda>c. VInt (pins_hopper_en (c_pins c))),
     (''hopper_pulse'', KInt, \<lambda>c. VInt (pins_hopper_pulse (c_pins c))),
     (''hx_dt'', KInt, \<lambda>c. VInt (pins_hx_dt (c_pins c))),
     (''hx_sck'', KInt, \<lambda>c. VInt (pins_hx_sck (c_pins c)))]"

definition mech_fields :: "field list" where
  "mech_fields =
    [(''steps_per_mm'', KInt, \<lambda>c. VInt (mech_steps_per_mm (c_mech c))),
     (''open_mm'', KInt, \<lambda>c. VInt (mech_open_mm (c_mech c))),
     (''max_mm'', KInt, \<lambda>c. VInt (mech_max_mm (c_mech c)))]"

definition hopper_fields :: "field list" where
  "hopper_fields =
    [(''pulses_per_coin'', KInt, \<lambda>c. VInt (hopper_pulses_per_coin (c_hopper c))),
     (''min_edge_interval_us'', KInt, \<lambda>c. VInt (hopper_min_edge_interval_us (c_hopper c)))]"

definition disp_fields :: "field list" where
  "disp_fields =
    [(''jam_ms'', KInt, \<lambda>c. VInt (disp_jam_ms (c_disp c))),
     (''settle_ms'', KInt, \<lambda>c. VInt (disp_settle_ms (c_disp c))),
     (''max_ms_per_coin'', KInt, \<lambda>c. VInt (disp_max_ms_per_coin (c_disp c))),
     (''hard_timeout_ms'', KInt, \<lambda>c. VInt (disp_hard_timeout_ms (c_disp c)))]"

definition audit_cfg_fields :: "field list" where
  "audit_cfg_fields =
    [(''coin_mass_g'', KDouble, \<lambda>c. VReal (audit_coin_mass_g (c_audit c))),
     (''tolerance_per_coin_g'', KDouble, \<lambda>c. VReal (audit_tolerance_per_coin_g (c_audit c))),
     (''grams_per_raw'', KDouble, \<lambda>c. VReal (audit_grams_per_raw (c_audit c))),
     (''tare_raw'', KLong, \<lambda>c. VInt (audit_tare_raw (c_audit c))),
     (''samples_pre'', KInt, \<lambda>c. VInt (audit_samples_pre (c_audit c))),
     (''samples_post'', KInt, \<lambda>c. VInt (audit_samples_post (c_audit c))),
     (''settle_ms'', KInt, \<lambda>c. VInt (audit_settle_ms (c_audit c))),
     (''stuck_epsilon_raw'', KInt, \<lambda>c. VInt (audit_stuck_epsilon_raw (c_audit c)))]"

definition pres_fields :: "field list" where
  "pres_fields =
    [(''present_ms'', KInt, \<lambda>c. VInt (pres_present_ms (c_pres c)))]"

definition selftest_fields :: "field list" where
  "selftest_fields =
    [(''enable_coin_test'', KBool, \<lambda>c. VBool (selftest_enable_coin_test (c_st c)))]"

definition aws_fields :: "field list" where
  "aws_fields =
    [(''enable'', KBool, \<lambda>c. VBool (aws_enable (c_aws c))),
     (''endpoint'', KString, \<lambda>c. VStr (aws_endpoint (c_aws c))),
     (''thing_name'', KString, \<lambda>c. VStr (aws_thing_name (c_aws c))),
     (''client_id'', KString, \<lambda>c. VStr (aws_client_id (c_aws c))),
     (''root_ca_env'', KString, \<lambda>c. VStr (secret_env (aws_root_ca (c_aws c)))),
     (''cert_env'', KString, \<lambda>c. VStr (secret_env (aws_cert (c_aws c)))),
     (''key_env'', KString, \<lambda>c. VStr (secret_env (aws_key (c_aws c)))),
     (''topic_prefix'', KString, \<lambda>c. VStr (aws_topic_prefix (c_aws c))),
     (''qos'', KInt, \<lambda>c. VInt (aws_qos (c_aws c))),
     (''queue_dir'', KString, \<lambda>c. VStr (aws_queue_dir (c_aws c))),
     (''max_queue_bytes'', KUint, \<lambda>c. VInt (aws_max_queue_bytes (c_aws c))),
     (''use_tls_identity'', KBool, \<lambda>c. VBool (aws_use_tls_identity (c_aws c))),
     (''rotation_check_minutes'', KInt, \<lambda>c. VInt (aws_rotation_check_minutes (c_aws c)))]"

definition security_fields :: "field list" where
  "security_fields =
    [(''enable_ro_root'', KBool, \<lambda>c. VBool (security_enable_ro_root (c_security c))),
     (''ssh_keys_only'', KBool, \<lambda>c. VBool (security_ssh_keys_only (c_security c))),
     (''firewall_enable'', KBool, \<lambda>c. VBool (security_firewall_enable (c_security c))),
     (''allow_ssh_from'', KString, \<lambda>c. VStr (security_allow_ssh_from (c_security c))),
     (''auditd_enable'', KBool, \<lambda>c. VBool (security_auditd_enable (c_security c))),
     (''service_user'', KString, \<lambda>c. VStr (security_service_user (c_security c)))]"

definition identity_fields :: "field list" where
  "identity_fields =
    [(''use_tpm'', KBool, \<lambda>c. VBool (identity_use_tpm (c_identity c))),
     (''tpm_parent_handle'', KString, \<lambda>c. VStr (identity_tpm_parent_handle (c_identity c))),
     (''ca_endpoint'', KString, \<lambda>c. VStr (identity_ca_endpoint (c_identity c))),
     (''cert_dir'', KString, \<lambda>c. VStr (identity_cert_dir (c_identity c))),
     (''device_id_prefix'', KString, \<lambda>c. VStr (identity_device_id_prefix (c_identity c)))]"

definition safety_fields :: "field list" where
  "safety_fields =
    [(''estop_pin'', KInt, \<lambda>c. VInt (estop_pin (c_safety c))),
     (''lid_tamper_pin'', KInt, \<lambda>c. VInt (lid_tamper_pin (c_safety c))),
     (''overcurrent_pin'', KInt, \<lambda>c. VInt (overcurrent_pin (c_safety c))),
     (''active_high'', KBool, \<lambda>c. VBool (active_high (c_safety c))),
     (''debounce_ms'', KInt, \<lambda>c. VInt (debounce_ms (c_safety c)))]"

definition service_fields :: "field list" where
  "service_fields =
    [(''enable'', KBool, \<lambda>c. VBool (service_enable (c_service c))),
     (''pin_code'', KString, \<lambda>c. VStr (service_pin_code (c_service c))),
     (''jam_clear_shutter_mm'', KInt, \<lambda>c. VInt (service_jam_clear_shutter_mm (c_service c))),
     (''jam_clear_cycles'', KInt, \<lambda>c. VInt (service_jam_clear_cycles (c_service c))),
     (''hopper_nudge_ms'', KInt, \<lambda>c. VInt (service_hopper_nudge_ms (c_service c))),
     (''hopper_max_retries'', KInt, \<lambda>c. VInt (service_hopper_max_retries (c_service c))),
     (''audit_path'', KString, \<lambda>c. VStr (service_audit_path (c_service c)))]"

definition pos_fields :: "field list" where
  "pos_fields =
    [(''enable_http'', KBool, \<lambda>c. VBool (pos_enable_http (c_pos c))),
     (''port'', KInt, \<lambda>c. VInt (pos_port (c_pos c))),
     (''key'', KString, \<lambda>c. VStr (pos_key (c_pos c))),
     (''tls_cert'', KString, \<lambda>c. VStr (pos_tls_cert (c_pos c))),
     (''tls_key'', KString, \<lambda>c. VStr (pos_tls_key (c_pos c)))]"

definition ota_fields :: "field list" where
  "ota_fields =
    [(''enable'', KBool, \<lambda>c. VBool (ota_enable (c_ota c))),
     (''backend'', KString, \<lambda>c. VStr (ota_backend (c_ota c))),
     (''feed_url'', KString, \<lambda>c. VStr (ota_feed_url (c_ota c))),
     (''channel'', KString, \<lambda>c. VStr (ota_channel (c_ota c))),
     (''ring'', KString, \<lambda>c. VStr (ota_ring (c_ota c))),
     (''poll_seconds'', KInt, \<lambda>c. VInt (ota_poll_seconds (c_ota c))),
     (''state_dir'', KString, \<lambda>c. VStr (ota_state_dir (c_ota c))),
     (''key_pub'', KString, \<lambda>c. VStr (ota_key_pub (c_ota c))),
     (''health_grace_seconds'', KInt, \<lambda>c. VInt (ota_health_grace_seconds (c_ota c))),
     (''require_signed'', KBool, \<lambda>c. VBool (ota_require_signed (c_ota c)))]"

definition mfg_fields :: "field list" where
  "mfg_fields =
    [(''enable_first_boot_eol'', KBool, \<lambda>c. VBool (mfg_enable_first_boot_eol (c_mfg c))),
     (''label_printer_uri'', KString, \<lambda>c. VStr (mfg_label_printer_uri (c_mfg c))),
     (''label_template'', KString, \<lambda>c. VStr (mfg_label_template (c_mfg c))),
     (''company_name'', KString, \<lambda>c. VStr (mfg_company_name (c_mfg c)))]"

definition eol_fields :: "field list" where
  "eol_fields =
    [(''weigh_tolerance_g'', KDouble, \<lambda>c. VReal (eol_weigh_tolerance_g (c_eol c))),
     (''coins_for_test'', KInt, \<lambda>c. VInt (eol_coins_for_test (c_eol c))),
     (''open_mm'', KInt, \<lambda>c. VInt (eol_open_mm (c_eol c))),
     (''present_ms'', KInt, \<lambda>c. VInt (eol_present_ms (c_eol c))),
     (''retries'', KInt, \<lambda>c. VInt (eol_retries (c_eol c))),
     (''min_success_txn_visible_seconds'', KInt, \<lambda>c. VInt (eol_min_success_txn_visible_seconds (c_eol c))),
     (''result_dir'', KString, \<lambda>c. VStr (eol_result_dir (c_eol c)))]"

definition burnin_fields :: "field list" where
  "burnin_fields =
    [(''cycles'', KInt, \<lambda>c. VInt (burnin_cycles (c_burnin c))),
     (''rest_ms'', KInt, \<lambda>c. VInt (burnin_rest_ms (c_burnin c))),
     (''abort_on_fault'', KBool, \<lambda>c. VBool (burnin_abort_on_fault (c_burnin c))),
     (''log_path'', KString, \<lambda>c. VStr (burnin_log_path (c_burnin c)))]"

definition quant_fields :: "field list" where
  "quant_fields =
    [(''enable'', KBool, \<lambda>c. VBool (quant_enable (c_quant c))),
     (''endpoint'', KString, \<lambda>c. VStr (quant_endpoint (c_quant c))),
     (''client_id'', KString, \<lambda>c. VStr (quant_client_id (c_quant c))),
     (''hmac_key_hex'', KString, \<lambda>c. VStr (quant_hmac_key_hex (c_quant c))),
     (''topic'', KString, \<lambda>c. VStr (quant_topic (c_quant c))),
     (''queue_dir'', KString, \<lambda>c. VStr (quant_queue_dir (c_quant c))),
     (''backoff_ms'', KString, \<lambda>c. VStr (quant_backoff_ms (c_quant c))),
     (''heartbeat_seconds'', KInt, \<lambda>c. VInt (quant_heartbeat_seconds (c_quant c))),
     (''reserve_floor_cents'', KInt, \<lambda>c. VInt (quant_reserve_floor_cents (c_quant c))),
     (''max_daily_outflow_cents'', KInt, \<lambda>c. VInt (quant_max_daily_outflow_cents (c_quant c))),
     (''min_step_change_cents'', KInt, \<lambda>c. VInt (quant_min_step_change_cents (c_quant c))),
     (''max_update_rate_hz'', KInt, \<lambda>c. VInt (quant_max_update_rate_hz (c_quant c))),
     (''tolerance_cents'', KInt, \<lambda>c. VInt (quant_tolerance_cents (c_quant c)))]"

definition schema :: "(string \<times> field list) list" where
  "schema =
    [(''io'', pins_fields),
     (''mechanics'', mech_fields),
     (''hopper'', hopper_fields),
     (''dispense'', disp_fields),
     (''audit'', audit_cfg_fields),
     (''presentation'', pres_fields),
     (''selftest'', selftest_fields),
     (''aws'', aws_fields),
     (''security'', security_fields),
     (''identity'', identity_fields),
     (''safety'', safety_fields),
     (''service'', service_fields),
     (''pos'', pos_fields),
     (''ota'', ota_fields),
     (''manufacturing'', mfg_fields),
     (''eol'', eol_fields),
     (''burnin'', burnin_fields),
     (''quant'', quant_fields)]"

text \<open>The object that holds a section's settings; those of \<open>io\<close> are one level deeper.\<close>

definition section_body :: "cfg_json \<Rightarrow> string \<Rightarrow> json \<Rightarrow> json option" where
  "section_body cj n v = (if n = ''io'' then if cj_contains cj v ''pins'' then Some (cj_at cj v ''pins'') else None else Some v)"

definition section_object :: "cfg_json \<Rightarrow> json \<Rightarrow> string \<Rightarrow> json option" where
  "section_object cj j n = (if cj_contains cj j n then section_body cj n (cj_at cj j n) else None)"

definition body_conforms :: "cfg_json \<Rightarrow> field list \<Rightarrow> json \<Rightarrow> bool" where
  "body_conforms cj fs obj \<longleftrightarrow> cj_is_object cj obj \<and>
     (\<forall>(k, v) \<in> set (cj_items cj obj). case map_of fs k of None \<Rightarrow> False | Some (kd, _) \<Rightarrow> typed cj kd v)"

definition conforms :: "cfg_json \<Rightarrow> json \<Rightarrow> bool" where
  "conforms cj j \<longleftrightarrow> (\<forall>(k, v) \<in> set (cj_items cj j). k \<in> fst ` set schema) \<and>
     (\<forall>(n, fs) \<in> set schema. case section_object cj j n of None \<Rightarrow> True | Some obj \<Rightarrow> body_conforms cj fs obj) \<and>
     (cj_contains cj j ''io'' \<longrightarrow> (\<forall>(k, v) \<in> set (cj_items cj (cj_at cj j ''io'')). k = ''pins''))"

text \<open>The value of a setting in the file, if it is there and has the setting's type.\<close>

definition file_value :: "cfg_json \<Rightarrow> json \<Rightarrow> string \<Rightarrow> string \<Rightarrow> kind \<Rightarrow> cval option" where
  "file_value cj j n k kd = (case section_object cj j n of None \<Rightarrow> None
     | Some obj \<Rightarrow> if \<not> cj_is_object cj obj then None else (case map_of (cj_items cj obj) k of None \<Rightarrow> None
       | Some v \<Rightarrow> if typed cj kd v then Some (converted cj kd v) else None))"

section \<open>Setters and tables\<close>

text \<open>A setter reports exactly the values of the wrong type, puts a value of the right type where it belongs, and leaves other
  places alone.\<close>

definition reports :: "cfg_json \<Rightarrow> kind \<Rightarrow> JSetter \<Rightarrow> bool" where
  "reports cj kd s \<longleftrightarrow> (\<forall>v fk st. \<exists>es. snd (s v fk st) = snd st @ es \<and> (es = [] \<longleftrightarrow> typed cj kd v))"

definition stores :: "cfg_json \<Rightarrow> kind \<Rightarrow> (Config \<Rightarrow> cval) \<Rightarrow> JSetter \<Rightarrow> bool" where
  "stores cj kd g s \<longleftrightarrow> (\<forall>v fk st. g (fst (s v fk st)) = (if typed cj kd v then converted cj kd v else g (fst st)))"

definition keeps :: "(Config \<Rightarrow> 'v) \<Rightarrow> JSetter \<Rightarrow> bool" where
  "keeps g s \<longleftrightarrow> (\<forall>v fk st. g (fst (s v fk st)) = g (fst st))"

lemmas FIELD_defs = INT_FIELD_def LONG_FIELD_def UINT64_FIELD_def DOUBLE_FIELD_def BOOL_FIELD_def STRING_FIELD_def

lemma FIELD_reports [simp]:
  "reports cj KInt (INT_FIELD cj ui)" "reports cj KLong (LONG_FIELD cj ui)" "reports cj KUint (UINT64_FIELD cj ui)"
  "reports cj KDouble (DOUBLE_FIELD cj ur)" "reports cj KBool (BOOL_FIELD cj ub)" "reports cj KString (STRING_FIELD cj us)"
  by (auto simp: reports_def typed_def FIELD_defs split: prod.splits)

lemma FIELD_stores [simp]:
  "(\<And>x c. g (ui x c) = VInt x) \<Longrightarrow> stores cj KInt g (INT_FIELD cj ui)"
  "(\<And>x c. g (ui x c) = VInt x) \<Longrightarrow> stores cj KLong g (LONG_FIELD cj ui)"
  "(\<And>x c. g (ui x c) = VInt x) \<Longrightarrow> stores cj KUint g (UINT64_FIELD cj ui)"
  "(\<And>x c. g (ur x c) = VReal x) \<Longrightarrow> stores cj KDouble g (DOUBLE_FIELD cj ur)"
  "(\<And>x c. g (ub x c) = VBool x) \<Longrightarrow> stores cj KBool g (BOOL_FIELD cj ub)"
  "(\<And>x c. g (us x c) = VStr x) \<Longrightarrow> stores cj KString g (STRING_FIELD cj us)"
  by (auto simp: stores_def typed_def converted_def FIELD_defs split: prod.splits)

lemma FIELD_keeps [simp]:
  "(\<And>x c. g (ui x c) = g c) \<Longrightarrow> keeps g (INT_FIELD cj ui)" "(\<And>x c. g (ui x c) = g c) \<Longrightarrow> keeps g (LONG_FIELD cj ui)"
  "(\<And>x c. g (ui x c) = g c) \<Longrightarrow> keeps g (UINT64_FIELD cj ui)" "(\<And>x c. g (ur x c) = g c) \<Longrightarrow> keeps g (DOUBLE_FIELD cj ur)"
  "(\<And>x c. g (ub x c) = g c) \<Longrightarrow> keeps g (BOOL_FIELD cj ub)" "(\<And>x c. g (us x c) = g c) \<Longrightarrow> keeps g (STRING_FIELD cj us)"
  by (auto simp: keeps_def FIELD_defs split: prod.splits)

text \<open>A table of setters implements the fields of a section.\<close>

definition implements :: "cfg_json \<Rightarrow> (string \<times> JSetter) list \<Rightarrow> field list \<Rightarrow> bool" where
  "implements cj m fs \<longleftrightarrow> list_all2 (\<lambda>(k, s) (k', kd, g). k = k' \<and> reports cj kd s \<and> stores cj kd g s) m fs \<and>
     list_all (\<lambda>(k, s). list_all (\<lambda>(k', kd, g). k = k' \<or> keeps g s) fs) m \<and> distinct (map fst fs)"

lemma tables_1:
  "implements cj (pins_map cj) pins_fields" "implements cj (mech_map cj) mech_fields" "implements cj (hopper_map cj) hopper_fields"
  "implements cj (disp_map cj) disp_fields" "implements cj (audit_map cj) audit_cfg_fields" "implements cj (pres_map cj) pres_fields"
  "implements cj (selftest_map cj) selftest_fields"
  by (simp_all add: implements_def pins_map_def pins_fields_def mech_map_def mech_fields_def hopper_map_def hopper_fields_def disp_map_def
    disp_fields_def audit_map_def audit_cfg_fields_def pres_map_def pres_fields_def selftest_map_def selftest_fields_def)

lemma tables_2:
  "implements cj (aws_map cj) aws_fields" "implements cj (security_map cj) security_fields" "implements cj (identity_map cj) identity_fields"
  "implements cj (safety_map cj) safety_fields" "implements cj (service_map cj) service_fields"
  by (simp_all add: implements_def aws_map_def aws_fields_def security_map_def security_fields_def identity_map_def identity_fields_def
    safety_map_def safety_fields_def service_map_def service_fields_def)

lemma tables_3:
  "implements cj (pos_map cj) pos_fields" "implements cj (ota_map cj) ota_fields" "implements cj (mfg_map cj) mfg_fields"
  "implements cj (eol_map cj) eol_fields" "implements cj (burnin_map cj) burnin_fields" "implements cj (quant_map cj) quant_fields"
  by (simp_all add: implements_def pos_map_def pos_fields_def ota_map_def ota_fields_def mfg_map_def mfg_fields_def eol_map_def
    eol_fields_def burnin_map_def burnin_fields_def quant_map_def quant_fields_def)

lemma keepsD: "keeps g s \<Longrightarrow> g (fst (s v fk st)) = g (fst st)"
  unfolding keeps_def by blast

lemma storesD: "stores cj kd g s \<Longrightarrow> g (fst (s v fk st)) = (if typed cj kd v then converted cj kd v else g (fst st))"
  unfolding stores_def by blast

lemma reportsD: "reports cj kd s \<Longrightarrow> \<exists>es. snd (s v fk st) = snd st @ es \<and> (es = [] \<longleftrightarrow> typed cj kd v)"
  unfolding reports_def by blast

lemma implements_lookup:
  assumes "implements cj m fs"
  shows "(map_of m k = None \<and> map_of fs k = None) \<or>
    (\<exists>s kd g. map_of m k = Some s \<and> map_of fs k = Some (kd, g) \<and> reports cj kd s \<and> stores cj kd g s)"
proof -
  have "list_all2 (\<lambda>(k, s) (k', kd, g). k = k' \<and> reports cj kd s \<and> stores cj kd g s) m fs" using assms by (simp add: implements_def)
  then show ?thesis by (induction rule: list_all2_induct) (auto split: if_splits)
qed

lemma implements_others:
  assumes "implements cj m fs" "map_of m k = Some s" "map_of fs k' = Some (kd, g)" "k \<noteq> k'"
  shows "keeps g s"
proof -
  have "(k, s) \<in> set m" "(k', kd, g) \<in> set fs" using assms(2,3) by (auto dest: map_of_SomeD)
  then show ?thesis using assms(1,4) by (fastforce simp: implements_def list_all_iff)
qed

definition items_conform :: "cfg_json \<Rightarrow> field list \<Rightarrow> (string \<times> json) list \<Rightarrow> bool" where
  "items_conform cj fs kvs \<longleftrightarrow> (\<forall>(k, v) \<in> set kvs. case map_of fs k of None \<Rightarrow> False | Some (kd, _) \<Rightarrow> typed cj kd v)"

lemma apply_items_errors:
  assumes "implements cj m fs"
  shows "\<exists>es. snd (apply_items pfx m kvs st) = snd st @ es \<and> (es = [] \<longleftrightarrow> items_conform cj fs kvs)"
proof (induction kvs arbitrary: st)
  case Nil
  then show ?case by (simp add: items_conform_def)
next
  case (Cons kv kvs)
  obtain k v where kv: "kv = (k, v)" by fastforce
  let ?st = "case map_of m k of None \<Rightarrow> (fst st, snd st @ [pfx @ k @ '' unknown'']) | Some s \<Rightarrow> s v (pfx @ k) st"
  have "\<exists>d. snd ?st = snd st @ d \<and> (d = [] \<longleftrightarrow> (case map_of fs k of None \<Rightarrow> False | Some (kd, _) \<Rightarrow> typed cj kd v))"
    using implements_lookup [OF assms, of k]
  proof (elim disjE exE conjE)
    fix s kd g
    assume "map_of m k = Some s" "map_of fs k = Some (kd, g)" "reports cj kd s"
    then show ?thesis using reportsD [of cj kd s v "pfx @ k" st] by simp
  qed auto
  then obtain d where d: "snd ?st = snd st @ d" "d = [] \<longleftrightarrow> (case map_of fs k of None \<Rightarrow> False | Some (kd, _) \<Rightarrow> typed cj kd v)" by blast
  obtain es where "snd (apply_items pfx m kvs ?st) = snd ?st @ es" "es = [] \<longleftrightarrow> items_conform cj fs kvs" using Cons.IH [of ?st] by blast
  then show ?case using d kv by (intro exI [of _ "d @ es"]) (auto simp: items_conform_def)
qed

lemma apply_items_value:
  assumes "implements cj m fs" "map_of fs k0 = Some (kd, g)" "distinct (map fst kvs)"
  shows "g (fst (apply_items pfx m kvs st)) =
    (case map_of kvs k0 of None \<Rightarrow> g (fst st) | Some v \<Rightarrow> if typed cj kd v then converted cj kd v else g (fst st))"
  using assms(3)
proof (induction kvs arbitrary: st)
  case (Cons kv kvs)
  obtain k v where kv: "kv = (k, v)" by fastforce
  define st1 where "st1 = (case map_of m k of None \<Rightarrow> (fst st, snd st @ [pfx @ k @ '' unknown'']) | Some s \<Rightarrow> s v (pfx @ k) st)"
  have ih: "g (fst (apply_items pfx m (kv # kvs) st)) = (case map_of kvs k0 of None \<Rightarrow> g (fst st1)
      | Some v \<Rightarrow> if typed cj kd v then converted cj kd v else g (fst st1))"
    using Cons.IH [of st1] Cons.prems by (simp add: kv st1_def)
  have ne: "k0 \<noteq> k \<Longrightarrow> g (fst st1) = g (fst st)"
    using implements_others [OF assms(1) _ assms(2), of k] by (auto simp: st1_def intro: keepsD split: option.split)
  have eq: "k0 = k \<Longrightarrow> g (fst st1) = (if typed cj kd v then converted cj kd v else g (fst st))"
    using implements_lookup [OF assms(1), of k] assms(2) by (auto simp: st1_def storesD [of cj kd g])
  have "k0 = k \<Longrightarrow> map_of kvs k0 = None" using Cons.prems kv by (auto simp: map_of_eq_None_iff)
  then show ?case unfolding ih using ne eq by (cases "k0 = k") (simp_all add: kv split: option.split)
qed simp

lemma apply_items_keeps:
  assumes "\<And>k s. (k, s) \<in> set m \<Longrightarrow> keeps g s"
  shows "g (fst (apply_items pfx m kvs st)) = g (fst st)"
proof (induction kvs arbitrary: st)
  case (Cons kv kvs)
  obtain k v where kv: "kv = (k, v)" by fastforce
  have "g (fst (case map_of m k of None \<Rightarrow> (fst st, snd st @ [pfx @ k @ '' unknown'']) | Some s \<Rightarrow> s v (pfx @ k) st)) = g (fst st)"
    using assms by (auto intro: keepsD split: option.split dest: map_of_SomeD)
  then show ?case using Cons.IH kv by simp
qed simp

lemma apply_object_keeps:
  "(\<And>k s. (k, s) \<in> set m \<Longrightarrow> keeps g s) \<Longrightarrow> g (fst (apply_object cj obj pfx m st)) = g (fst st)"
  using apply_items_keeps [of m g] by (auto simp: apply_object_def)

lemma apply_object_errors:
  assumes "implements cj m fs"
  shows "\<exists>es. snd (apply_object cj obj pfx m st) = snd st @ es \<and> (es = [] \<longleftrightarrow> body_conforms cj fs obj)"
  using apply_items_errors [OF assms, of pfx "cj_items cj obj" st] by (auto simp: apply_object_def body_conforms_def items_conform_def)

definition body_value :: "cfg_json \<Rightarrow> string \<Rightarrow> json \<Rightarrow> string \<Rightarrow> kind \<Rightarrow> cval option" where
  "body_value cj n v k kd = (case section_body cj n v of None \<Rightarrow> None
     | Some obj \<Rightarrow> if \<not> cj_is_object cj obj then None else (case map_of (cj_items cj obj) k of None \<Rightarrow> None
       | Some x \<Rightarrow> if typed cj kd x then Some (converted cj kd x) else None))"

lemma file_value_body: "file_value cj j n k kd = (if cj_contains cj j n then body_value cj n (cj_at cj j n) k kd else None)"
  by (simp add: file_value_def section_object_def body_value_def)

section \<open>Parsers of sections\<close>

text \<open>What the parser of a section promises of errors and of values; \<open>distinct_keys\<close>: an object has each key once.\<close>

definition distinct_keys :: "cfg_json \<Rightarrow> bool" where
  "distinct_keys cj \<longleftrightarrow> (\<forall>v. cj_is_object cj v \<longrightarrow> distinct (map fst (cj_items cj v)))"

definition section_conforms :: "cfg_json \<Rightarrow> string \<Rightarrow> field list \<Rightarrow> json \<Rightarrow> bool" where
  "section_conforms cj n fs v \<longleftrightarrow> (case section_body cj n v of None \<Rightarrow> True | Some obj \<Rightarrow> body_conforms cj fs obj) \<and>
     (n = ''io'' \<longrightarrow> (\<forall>(k, x) \<in> set (cj_items cj v). k = ''pins''))"

definition section_parser :: "cfg_json \<Rightarrow> string \<Rightarrow> field list \<Rightarrow> (json \<Rightarrow> cfg_state \<Rightarrow> cfg_state) \<Rightarrow> bool" where
  "section_parser cj n fs p \<longleftrightarrow> (\<forall>v st. \<exists>es. snd (p v st) = snd st @ es \<and> (es = [] \<longleftrightarrow> section_conforms cj n fs v)) \<and>
     (distinct_keys cj \<longrightarrow> (\<forall>v st k kd g. map_of fs k = Some (kd, g) \<longrightarrow>
       g (fst (p v st)) = (case body_value cj n v k kd of None \<Rightarrow> g (fst st) | Some x \<Rightarrow> x)))"

lemma apply_object_value:
  assumes "implements cj m fs" "distinct_keys cj" "map_of fs k = Some (kd, g)"
  shows "g (fst (apply_object cj obj pfx m st)) = (if \<not> cj_is_object cj obj then g (fst st) else case map_of (cj_items cj obj) k of None \<Rightarrow> g (fst st)
    | Some v \<Rightarrow> if typed cj kd v then converted cj kd v else g (fst st))"
  using apply_items_value [OF assms(1,3)] assms(2) by (simp add: apply_object_def distinct_keys_def)

lemma section_parser_object:
  assumes "implements cj m fs" "n \<noteq> ''io''"
  shows "section_parser cj n fs (\<lambda>v. apply_object cj v pfx m)"
proof -
  have "section_conforms cj n fs = body_conforms cj fs" using assms(2) by (auto simp: section_conforms_def section_body_def)
  moreover have "g (fst (apply_object cj v pfx m st)) = (case body_value cj n v k kd of None \<Rightarrow> g (fst st) | Some x \<Rightarrow> x)"
    if "distinct_keys cj" "map_of fs k = Some (kd, g)" for v st k kd g
    using apply_object_value [OF assms(1) that, of v pfx st] assms(2) by (auto simp: body_value_def section_body_def split: option.splits)
  ultimately show ?thesis using apply_object_errors [OF assms(1)] by (simp only: section_parser_def) blast
qed

lemma io_unknown_errors: "\<exists>es. io_unknown kvs e = e @ es \<and> (es = [] \<longleftrightarrow> (\<forall>(k, x) \<in> set kvs. k = ''pins''))"
proof (induction kvs arbitrary: e)
  case (Cons kv kvs)
  obtain k v where kv: "kv = (k, v)" by fastforce
  let ?d = "if k \<noteq> ''pins'' then [''io.'' @ k @ '' unknown''] else []"
  obtain es where "io_unknown kvs (e @ ?d) = (e @ ?d) @ es" "es = [] \<longleftrightarrow> (\<forall>(k, x) \<in> set kvs. k = ''pins'')" using Cons.IH by blast
  then show ?case using kv by (intro exI [of _ "?d @ es"]) auto
qed simp

lemma section_parser_io: "section_parser cj ''io'' pins_fields (parse_io cj)"
proof -
  have "\<exists>es. snd (parse_io cj v st) = snd st @ es \<and> (es = [] \<longleftrightarrow> section_conforms cj ''io'' pins_fields v)" for v st
  proof -
    let ?st = "if cj_contains cj v ''pins'' then apply_object cj (cj_at cj v ''pins'') ''io.pins.'' (pins_map cj) st else st"
    obtain d where d: "snd ?st = snd st @ d" "d = [] \<longleftrightarrow> (cj_contains cj v ''pins'' \<longrightarrow> body_conforms cj pins_fields (cj_at cj v ''pins''))"
      using apply_object_errors [OF tables_1(1), of cj "cj_at cj v ''pins''" "''io.pins.''" st] by (cases "cj_contains cj v ''pins''") auto
    obtain es where "io_unknown (cj_items cj v) (snd ?st) = snd ?st @ es" "es = [] \<longleftrightarrow> (\<forall>(k, x) \<in> set (cj_items cj v). k = ''pins'')"
      using io_unknown_errors by blast
    then show ?thesis using d
      by (intro exI [of _ "d @ es"]) (auto simp: parse_io_def section_conforms_def section_body_def Let_def split_beta)
  qed
  moreover have "g (fst (parse_io cj v st)) = (case body_value cj ''io'' v k kd of None \<Rightarrow> g (fst st) | Some x \<Rightarrow> x)"
    if "distinct_keys cj" "map_of pins_fields k = Some (kd, g)" for v st k kd g
    using apply_object_value [OF tables_1(1) that, of "cj_at cj v ''pins''" "''io.pins.''" st]
    by (auto simp: parse_io_def body_value_def section_body_def Let_def split_beta split: option.splits)
  ultimately show ?thesis by (simp add: section_parser_def)
qed

text \<open>Every section of the schema has its parser.\<close>

lemma sections_parse:
  "list_all2 (\<lambda>(n, p) (n', fs). n = n' \<and> section_parser cj n fs p) (cfg_sections cj) schema"
proof -
  note obj = section_parser_object [OF tables_1(2)] section_parser_object [OF tables_1(3)] section_parser_object [OF tables_1(4)]
    section_parser_object [OF tables_1(5)] section_parser_object [OF tables_1(6)] section_parser_object [OF tables_1(7)]
    section_parser_object [OF tables_2(1)] section_parser_object [OF tables_2(2)] section_parser_object [OF tables_2(3)]
    section_parser_object [OF tables_2(4)] section_parser_object [OF tables_2(5)] section_parser_object [OF tables_3(1)]
    section_parser_object [OF tables_3(2)] section_parser_object [OF tables_3(3)] section_parser_object [OF tables_3(4)]
    section_parser_object [OF tables_3(5)] section_parser_object [OF tables_3(6)]
  show ?thesis unfolding cfg_sections_def schema_def parse_mechanics_def [abs_def] parse_hopper_def [abs_def] parse_dispense_def [abs_def]
    parse_audit_def [abs_def] parse_presentation_def [abs_def] parse_selftest_def [abs_def] parse_aws_def [abs_def] parse_security_def [abs_def]
    parse_identity_def [abs_def] parse_safety_def [abs_def] parse_service_def [abs_def] parse_pos_def [abs_def] parse_ota_def [abs_def]
    parse_manufacturing_def [abs_def] parse_eol_def [abs_def] parse_burnin_def [abs_def] parse_quant_def [abs_def]
    by (simp add: section_parser_io obj)
qed

text \<open>A parser leaves the members of other sections alone.\<close>

definition leaves :: "(Config \<Rightarrow> 'v) \<Rightarrow> (json \<Rightarrow> cfg_state \<Rightarrow> cfg_state) \<Rightarrow> bool" where
  "leaves g p \<longleftrightarrow> (\<forall>v st. g (fst (p v st)) = g (fst st))"

lemma leaves_object: "(\<And>k s. (k, s) \<in> set m \<Longrightarrow> keeps g s) \<Longrightarrow> leaves g (\<lambda>v. apply_object cj v pfx m)"
  using apply_object_keeps unfolding leaves_def by blast

lemma leaves_io: "(\<And>k s. (k, s) \<in> set (pins_map cj) \<Longrightarrow> keeps g s) \<Longrightarrow> leaves g (parse_io cj)"
  using apply_object_keeps [of "pins_map cj" g] unfolding leaves_def by (simp add: parse_io_def Let_def split_beta)

lemma leaves_io_rule: "(\<And>f c. g (c_pins_update f c) = g c) \<Longrightarrow> leaves g (parse_io cj)"
  by (rule leaves_io) (auto simp: pins_map_def)

lemma leaves_mechanics_rule: "(\<And>f c. g (c_mech_update f c) = g c) \<Longrightarrow> leaves g (parse_mechanics cj)"
  unfolding parse_mechanics_def [abs_def] by (rule leaves_object) (auto simp: mech_map_def)

lemma leaves_hopper_rule: "(\<And>f c. g (c_hopper_update f c) = g c) \<Longrightarrow> leaves g (parse_hopper cj)"
  unfolding parse_hopper_def [abs_def] by (rule leaves_object) (auto simp: hopper_map_def)

lemma leaves_dispense_rule: "(\<And>f c. g (c_disp_update f c) = g c) \<Longrightarrow> leaves g (parse_dispense cj)"
  unfolding parse_dispense_def [abs_def] by (rule leaves_object) (auto simp: disp_map_def)

lemma leaves_audit_rule: "(\<And>f c. g (c_audit_update f c) = g c) \<Longrightarrow> leaves g (parse_audit cj)"
  unfolding parse_audit_def [abs_def] by (rule leaves_object) (auto simp: audit_map_def)

lemma leaves_presentation_rule: "(\<And>f c. g (c_pres_update f c) = g c) \<Longrightarrow> leaves g (parse_presentation cj)"
  unfolding parse_presentation_def [abs_def] by (rule leaves_object) (auto simp: pres_map_def)

lemma leaves_selftest_rule: "(\<And>f c. g (c_st_update f c) = g c) \<Longrightarrow> leaves g (parse_selftest cj)"
  unfolding parse_selftest_def [abs_def] by (rule leaves_object) (auto simp: selftest_map_def)

lemma leaves_aws_rule: "(\<And>f c. g (c_aws_update f c) = g c) \<Longrightarrow> leaves g (parse_aws cj)"
  unfolding parse_aws_def [abs_def] by (rule leaves_object) (auto simp: aws_map_def)

lemma leaves_security_rule: "(\<And>f c. g (c_security_update f c) = g c) \<Longrightarrow> leaves g (parse_security cj)"
  unfolding parse_security_def [abs_def] by (rule leaves_object) (auto simp: security_map_def)

lemma leaves_identity_rule: "(\<And>f c. g (c_identity_update f c) = g c) \<Longrightarrow> leaves g (parse_identity cj)"
  unfolding parse_identity_def [abs_def] by (rule leaves_object) (auto simp: identity_map_def)

lemma leaves_safety_rule: "(\<And>f c. g (c_safety_update f c) = g c) \<Longrightarrow> leaves g (parse_safety cj)"
  unfolding parse_safety_def [abs_def] by (rule leaves_object) (auto simp: safety_map_def)

lemma leaves_service_rule: "(\<And>f c. g (c_service_update f c) = g c) \<Longrightarrow> leaves g (parse_service cj)"
  unfolding parse_service_def [abs_def] by (rule leaves_object) (auto simp: service_map_def)

lemma leaves_pos_rule: "(\<And>f c. g (c_pos_update f c) = g c) \<Longrightarrow> leaves g (parse_pos cj)"
  unfolding parse_pos_def [abs_def] by (rule leaves_object) (auto simp: pos_map_def)

lemma leaves_ota_rule: "(\<And>f c. g (c_ota_update f c) = g c) \<Longrightarrow> leaves g (parse_ota cj)"
  unfolding parse_ota_def [abs_def] by (rule leaves_object) (auto simp: ota_map_def)

lemma leaves_manufacturing_rule: "(\<And>f c. g (c_mfg_update f c) = g c) \<Longrightarrow> leaves g (parse_manufacturing cj)"
  unfolding parse_manufacturing_def [abs_def] by (rule leaves_object) (auto simp: mfg_map_def)

lemma leaves_eol_rule: "(\<And>f c. g (c_eol_update f c) = g c) \<Longrightarrow> leaves g (parse_eol cj)"
  unfolding parse_eol_def [abs_def] by (rule leaves_object) (auto simp: eol_map_def)

lemma leaves_burnin_rule: "(\<And>f c. g (c_burnin_update f c) = g c) \<Longrightarrow> leaves g (parse_burnin cj)"
  unfolding parse_burnin_def [abs_def] by (rule leaves_object) (auto simp: burnin_map_def)

lemma leaves_quant_rule: "(\<And>f c. g (c_quant_update f c) = g c) \<Longrightarrow> leaves g (parse_quant cj)"
  unfolding parse_quant_def [abs_def] by (rule leaves_object) (auto simp: quant_map_def)

lemmas leaves_rules = leaves_io_rule leaves_mechanics_rule leaves_hopper_rule leaves_dispense_rule leaves_audit_rule leaves_presentation_rule
  leaves_selftest_rule leaves_aws_rule leaves_security_rule leaves_identity_rule leaves_safety_rule leaves_service_rule leaves_pos_rule
  leaves_ota_rule leaves_manufacturing_rule leaves_eol_rule leaves_burnin_rule leaves_quant_rule

lemmas fields_defs = pins_fields_def mech_fields_def hopper_fields_def disp_fields_def audit_cfg_fields_def pres_fields_def selftest_fields_def
  aws_fields_def security_fields_def identity_fields_def safety_fields_def service_fields_def pos_fields_def ota_fields_def mfg_fields_def
  eol_fields_def burnin_fields_def quant_fields_def

lemma leavesD: "leaves g p \<Longrightarrow> g (fst (p v st)) = g (fst st)"
  unfolding leaves_def by blast

text \<open>The fields of a section do not depend on the other sections.\<close>

definition apart :: "cfg_json \<Rightarrow> string \<Rightarrow> field list \<Rightarrow> bool" where
  "apart cj n fs \<longleftrightarrow> list_all (\<lambda>(n', p). n' = n \<or> list_all (\<lambda>(k, kd, g). leaves g p) fs) (cfg_sections cj) \<and>
     list_all (\<lambda>(k, kd, g). \<forall>f c. g (c_source_path_update f c) = g c) fs"

lemma apart_1:
  "apart cj ''io'' pins_fields" "apart cj ''mechanics'' mech_fields" "apart cj ''hopper'' hopper_fields" "apart cj ''dispense'' disp_fields"
  "apart cj ''audit'' audit_cfg_fields" "apart cj ''presentation'' pres_fields"
  by (simp_all add: apart_def cfg_sections_def fields_defs leaves_rules)

lemma apart_2:
  "apart cj ''selftest'' selftest_fields" "apart cj ''aws'' aws_fields" "apart cj ''security'' security_fields" "apart cj ''identity'' identity_fields"
  "apart cj ''safety'' safety_fields" "apart cj ''service'' service_fields"
  by (simp_all add: apart_def cfg_sections_def fields_defs leaves_rules)

lemma apart_3:
  "apart cj ''pos'' pos_fields" "apart cj ''ota'' ota_fields" "apart cj ''manufacturing'' mfg_fields" "apart cj ''eol'' eol_fields"
  "apart cj ''burnin'' burnin_fields" "apart cj ''quant'' quant_fields"
  by (simp_all add: apart_def cfg_sections_def fields_defs leaves_rules)

lemma schema_keys: "(n, fs) \<in> set schema \<Longrightarrow> distinct (map fst fs)"
  unfolding schema_def by (auto simp: fields_defs)

lemma schema_apart: "(n, fs) \<in> set schema \<Longrightarrow> apart cj n fs"
  unfolding schema_def by (auto simp: apart_1 apart_2 apart_3)

section \<open>What is loaded\<close>

abbreviation parsed_by :: "cfg_json \<Rightarrow> string \<times> (json \<Rightarrow> cfg_state \<Rightarrow> cfg_state) \<Rightarrow> string \<times> field list \<Rightarrow> bool" where
  "parsed_by cj \<equiv> (\<lambda>(n, p) (n', fs). n = n' \<and> section_parser cj n fs p)"

lemma load_sections_errors:
  assumes "list_all2 (parsed_by cj) ps sc"
  shows "\<exists>es. snd (load_sections cj j ps st) = snd st @ es \<and>
    (es = [] \<longleftrightarrow> (\<forall>(n, fs) \<in> set sc. cj_contains cj j n \<longrightarrow> section_conforms cj n fs (cj_at cj j n)))"
  using assms
proof (induction arbitrary: st rule: list_all2_induct)
  case (Cons x xs y ys)
  obtain n p fs where x: "x = (n, p)" "y = (n, fs)" "section_parser cj n fs p" using Cons.hyps(1) by (cases x; cases y) auto
  let ?st = "if cj_contains cj j n then p (cj_at cj j n) st else st"
  have "\<exists>d. snd (p (cj_at cj j n) st) = snd st @ d \<and> (d = [] \<longleftrightarrow> section_conforms cj n fs (cj_at cj j n))"
    using x(3) unfolding section_parser_def by blast
  then obtain d where d: "snd ?st = snd st @ d" "d = [] \<longleftrightarrow> (cj_contains cj j n \<longrightarrow> section_conforms cj n fs (cj_at cj j n))"
    by (cases "cj_contains cj j n") auto
  obtain es where "snd (load_sections cj j xs ?st) = snd ?st @ es"
    "es = [] \<longleftrightarrow> (\<forall>(n, fs) \<in> set ys. cj_contains cj j n \<longrightarrow> section_conforms cj n fs (cj_at cj j n))" using Cons.IH by blast
  then show ?case using d x by (intro exI [of _ "d @ es"]) auto
qed simp

lemma load_sections_leaves:
  "(\<And>n p. (n, p) \<in> set ps \<Longrightarrow> leaves g p) \<Longrightarrow> g (fst (load_sections cj j ps st)) = g (fst st)"
proof (induction ps arbitrary: st)
  case (Cons q ps)
  obtain n p where q: "q = (n, p)" by fastforce
  have "leaves g p" by (rule Cons.prems [of n]) (simp add: q)
  moreover have "g (fst (load_sections cj j ps st')) = g (fst st')" for st' by (rule Cons.IH) (meson Cons.prems list.set_intros(2))
  ultimately show ?case using q by (simp add: leavesD)
qed simp

lemma load_sections_value:
  assumes "list_all2 (parsed_by cj) ps sc" "distinct (map fst sc)" "distinct_keys cj" "(n, fs) \<in> set sc" "map_of fs k = Some (kd, g)"
    and "\<And>n' p. (n', p) \<in> set ps \<Longrightarrow> n' \<noteq> n \<Longrightarrow> leaves g p"
  shows "g (fst (load_sections cj j ps st)) = (case file_value cj j n k kd of None \<Rightarrow> g (fst st) | Some x \<Rightarrow> x)"
  using assms(1,2,4,6)
proof (induction arbitrary: st rule: list_all2_induct)
  case (Cons x xs y ys)
  obtain m p gs where x: "x = (m, p)" "y = (m, gs)" "section_parser cj m gs p" using Cons.hyps(1) by (cases x; cases y) auto
  let ?st = "if cj_contains cj j m then p (cj_at cj j m) st else st"
  show ?case
  proof (cases "m = n")
    case True
    then have fs: "gs = fs" using Cons.prems(1,2) x(2) by (force simp: rev_image_eqI)
    have "n \<notin> fst ` set ys" using Cons.prems(1) x(2) True by simp
    moreover have "map fst xs = map fst ys" using Cons.hyps(2) by (induction rule: list_all2_induct) auto
    ultimately have "leaves g q" if "(n', q) \<in> set xs" for n' q
      using that Cons.prems(3) by (metis (no_types, lifting) fst_conv image_eqI list.set_map set_subset_Cons subsetD)
    then have "g (fst (load_sections cj j xs ?st)) = g (fst ?st)" by (rule load_sections_leaves)
    moreover have "g (fst (p (cj_at cj j n) st)) = (case body_value cj n (cj_at cj j n) k kd of None \<Rightarrow> g (fst st) | Some x \<Rightarrow> x)"
      using x(3) assms(3,5) True fs unfolding section_parser_def by blast
    ultimately show ?thesis using x(1) True by (cases "cj_contains cj j n") (simp_all add: file_value_body)
  next
    case False
    then have "g (fst ?st) = g (fst st)" using Cons.prems(3) [of m p] x(1) by (simp add: leavesD)
    moreover have "(n, fs) \<in> set ys" using Cons.prems(2) x(2) False by auto
    then have "g (fst (load_sections cj j xs ?st)) = (case file_value cj j n k kd of None \<Rightarrow> g (fst ?st) | Some x \<Rightarrow> x)"
      using Cons.prems(1) x(2) by (intro Cons.IH) (auto intro: Cons.prems(3))
    ultimately show ?thesis using x(1) by (cases "cj_contains cj j m") (simp_all split: option.split)
  qed
qed simp

lemma schema_names: "map fst schema = known_sections" "distinct (map fst schema)"
  by (simp_all add: schema_def known_sections_def)

lemma unknown_sections_errors: "\<exists>es. unknown_sections kvs e = e @ es \<and> (es = [] \<longleftrightarrow> (\<forall>(k, v) \<in> set kvs. k \<in> set known_sections))"
proof (induction kvs arbitrary: e)
  case (Cons kv kvs)
  obtain k v where kv: "kv = (k, v)" by fastforce
  let ?d = "if k \<notin> set known_sections then [''unknown section '' @ k] else []"
  obtain es where "unknown_sections kvs (e @ ?d) = (e @ ?d) @ es" "es = [] \<longleftrightarrow> (\<forall>(k, v) \<in> set kvs. k \<in> set known_sections)"
    using Cons.IH by blast
  then show ?case using kv by (intro exI [of _ "?d @ es"]) auto
qed simp

lemma ball_guarded:
  assumes "(a, b) \<in> S" "\<And>n x. C n x \<longleftrightarrow> B n x \<and> (n = a \<longrightarrow> I)"
  shows "(\<forall>(n, x) \<in> S. C n x) \<longleftrightarrow> (\<forall>(n, x) \<in> S. B n x) \<and> I"
  using assms by auto

lemma conforms_sections:
  "conforms cj j \<longleftrightarrow> (\<forall>(k, v) \<in> set (cj_items cj j). k \<in> set known_sections) \<and>
     (\<forall>(n, fs) \<in> set schema. cj_contains cj j n \<longrightarrow> section_conforms cj n fs (cj_at cj j n))"
proof -
  let ?I = "cj_contains cj j ''io'' \<longrightarrow> (\<forall>(k, v) \<in> set (cj_items cj (cj_at cj j ''io'')). k = ''pins'')"
  have known: "fst ` set schema = set known_sections" using arg_cong [OF schema_names(1), of set] by simp
  have "(''io'', pins_fields) \<in> set schema" by (simp add: schema_def)
  moreover have "(cj_contains cj j n \<longrightarrow> section_conforms cj n fs (cj_at cj j n)) \<longleftrightarrow>
      (case section_object cj j n of None \<Rightarrow> True | Some obj \<Rightarrow> body_conforms cj fs obj) \<and> (n = ''io'' \<longrightarrow> ?I)" for n fs
    by (auto simp: section_conforms_def section_object_def split: option.splits)
  ultimately have "(\<forall>(n, fs) \<in> set schema. cj_contains cj j n \<longrightarrow> section_conforms cj n fs (cj_at cj j n)) \<longleftrightarrow>
      (\<forall>(n, fs) \<in> set schema. case section_object cj j n of None \<Rightarrow> True | Some obj \<Rightarrow> body_conforms cj fs obj) \<and> ?I"
    by (rule ball_guarded)
  then show ?thesis unfolding conforms_def known by simp
qed


text \<open>
  C23. Whether or not there are errors, a setting of a file that was read has the value the file gives it, if that has the right type, and
  its default otherwise; no section changes the settings of another.
\<close>

theorem config_values:
  assumes "distinct_keys cj" "env ''REGISTER_MVP_CONFIG'' = Some path" "path \<noteq> []" "files path = Some text" "cj_read cj text = Inr j"
    and "(n, fs) \<in> set schema" "(k, kd, g) \<in> set fs"
  shows "g (lr_config (cfg_load cj env files)) = (case file_value cj j n k kd of None \<Rightarrow> g make_defaults | Some x \<Rightarrow> x)"
proof -
  note ap = schema_apart [OF assms(6), of cj, unfolded apart_def]
  have k: "map_of fs k = Some (kd, g)" using schema_keys [OF assms(6)] assms(7) by (rule map_of_is_SomeI)
  have lv: "leaves g p" if "(n', p) \<in> set (cfg_sections cj)" "n' \<noteq> n" for n' p
    using conjunct1 [OF ap] that assms(7) by (fastforce simp: list_all_iff)
  have "g (fst (load_sections cj j (cfg_sections cj) (make_defaults\<lparr>c_source_path := path\<rparr>, []))) =
    (case file_value cj j n k kd of None \<Rightarrow> g (make_defaults\<lparr>c_source_path := path\<rparr>) | Some x \<Rightarrow> x)"
    by (subst load_sections_value [OF sections_parse schema_names(2) assms(1,6) k]) (auto intro: lv split: option.split)
  moreover have "g (make_defaults\<lparr>c_source_path := path\<rparr>) = g make_defaults" using conjunct2 [OF ap] assms(7) by (fastforce simp: list_all_iff)
  ultimately show ?thesis using assms(2-5) by (simp add: cfg_load_def split_beta split: option.split)
qed

section \<open>Examples\<close>

text \<open>The library on values themselves, with the conversions of C++ for integers out of range, and a file with one setting.\<close>

definition plain_json :: "json \<Rightarrow> cfg_json" where
  "plain_json j = \<lparr>cj_read = (\<lambda>_. Inr j), cj_is_object = (\<lambda>v. case v of JObj _ \<Rightarrow> True | _ \<Rightarrow> False),
     cj_is_number_integer = (\<lambda>v. case v of JInt _ \<Rightarrow> True | _ \<Rightarrow> False), cj_is_number_unsigned = (\<lambda>v. case v of JInt i \<Rightarrow> i \<ge> 0 | _ \<Rightarrow> False),
     cj_is_number = (\<lambda>v. case v of JInt _ \<Rightarrow> True | JReal _ \<Rightarrow> True | _ \<Rightarrow> False), cj_is_boolean = (\<lambda>v. case v of JBool _ \<Rightarrow> True | _ \<Rightarrow> False),
     cj_is_string = (\<lambda>v. case v of JStr _ \<Rightarrow> True | _ \<Rightarrow> False),
     cj_contains = (\<lambda>v k. case v of JObj kvs \<Rightarrow> map_of kvs k \<noteq> None | _ \<Rightarrow> False),
     cj_at = (\<lambda>v k. case v of JObj kvs \<Rightarrow> (case map_of kvs k of Some x \<Rightarrow> x | None \<Rightarrow> JNull) | _ \<Rightarrow> JNull),
     cj_items = (\<lambda>v. case v of JObj kvs \<Rightarrow> AList.clearjunk kvs | JNull \<Rightarrow> [] | _ \<Rightarrow> [([], v)]),
     cj_get_int = (\<lambda>v. case v of JInt i \<Rightarrow> (i + 2 ^ 31) mod 2 ^ 32 - 2 ^ 31 | _ \<Rightarrow> 0),
     cj_get_long = (\<lambda>v. case v of JInt i \<Rightarrow> (i + 2 ^ 63) mod 2 ^ 64 - 2 ^ 63 | _ \<Rightarrow> 0),
     cj_get_uint64 = (\<lambda>v. case v of JInt i \<Rightarrow> i mod 2 ^ 64 | _ \<Rightarrow> 0), cj_get_double = (\<lambda>v. case v of JInt i \<Rightarrow> real_of_int i | JReal x \<Rightarrow> x | _ \<Rightarrow> 0),
     cj_get_bool = (\<lambda>v. case v of JBool b \<Rightarrow> b | _ \<Rightarrow> False), cj_get_string = (\<lambda>v. case v of JStr s \<Rightarrow> s | _ \<Rightarrow> [])\<rparr>"

definition negative_queue :: json where
  "negative_queue = JObj [(''aws'', JObj [(''max_queue_bytes'', JInt (- 1))])]"

lemma plain_json_distinct: "distinct_keys (plain_json j)"
  by (auto simp: distinct_keys_def plain_json_def distinct_clearjunk split: json.splits)

text \<open>A negative bound of the cloud queue is accepted without an error and becomes the largest 64-bit number.\<close>

lemma negative_queue_accepted:
  "lr_errors (cfg_load (plain_json negative_queue) (\<lambda>_. Some ''c.json'') (\<lambda>_. Some [])) = []"
  by (simp add: cfg_load_def plain_json_def negative_queue_def cfg_sections_def parse_aws_def apply_object_def aws_map_def
    UINT64_FIELD_def BOOL_FIELD_def INT_FIELD_def STRING_FIELD_def known_sections_def)

theorem config_values_witness:
  "aws_max_queue_bytes (c_aws (lr_config (cfg_load (plain_json negative_queue) (\<lambda>_. Some ''c.json'') (\<lambda>_. Some [])))) = 2 ^ 64 - 1"
proof -
  have v: "file_value (plain_json negative_queue) negative_queue ''aws'' ''max_queue_bytes'' KUint = Some (VInt (2 ^ 64 - 1))"
    by (simp add: file_value_def section_object_def section_body_def plain_json_def negative_queue_def typed_def converted_def)
  have "cj_read (plain_json negative_queue) [] = Inr negative_queue" by (simp add: plain_json_def)
  then show ?thesis
    using config_values [of "plain_json negative_queue" "\<lambda>_. Some ''c.json''" "''c.json''" "\<lambda>_. Some []" "[]" negative_queue "''aws''" aws_fields
      "''max_queue_bytes''" KUint "\<lambda>c. VInt (aws_max_queue_bytes (c_aws c))"] plain_json_distinct v
    by (simp add: schema_def aws_fields_def)
qed

end
