(* ===== verification/Main_Program.thy ===== *)
theory Main_Program
  imports Config Http_Server Service_Mode Scale_Audit Iot_Client
begin

text \<open>
  The program itself (\<^verbatim>\<open>src/main.cpp\<close>, \<^verbatim>\<open>src/util/cli_options.cpp\<close>): the command line, what a start does, the devices assembled from the
  configuration, the API server on them, the purchase on the command line, the summary of the self-test. The option parser, the
  environment and the levels and times the chip will read are inputs. The results: a purchase at the API of the assembled
  machine, from the configuration to the coins, and what the command line pays out.
\<close>

section \<open>The command line\<close>

record CliOptions =
  cli_demo_shutter :: bool
  cli_use_scale :: bool
  cli_do_selftest :: bool
  cli_dispense_n :: int
  cli_purchase_cents :: int
  cli_deposit_cents :: int
  cli_run_api :: bool
  cli_run_tui :: bool
  cli_api_port :: int
  cli_pos_http :: bool
  cli_pos_port :: int
  cli_aws_flag :: bool
  cli_service_cli :: bool
  cli_service_pin :: string
  cli_comp_mode :: ComplianceMode
  cli_prescan_cycles :: int
  cli_log_json :: bool

definition CliOptions_default :: CliOptions where
  "CliOptions_default = \<lparr>cli_demo_shutter = False, cli_use_scale = False, cli_do_selftest = False, cli_dispense_n = - 1, cli_purchase_cents = - 1,
     cli_deposit_cents = - 1, cli_run_api = False, cli_run_tui = False, cli_api_port = 8080, cli_pos_http = False, cli_pos_port = - 1,
     cli_aws_flag = False, cli_service_cli = False, cli_service_pin = [], cli_comp_mode = MODE_NONE, cli_prescan_cycles = 0, cli_log_json = False\<rparr>"

text \<open>What \<^verbatim>\<open>cxxopts\<close> returns: the members it was bound to, the unmatched arguments, how often an option was given, and its value.\<close>

record cxx_result =
  cx_bound :: CliOptions
  cx_unmatched :: "string list"
  cx_count :: "string \<Rightarrow> nat"
  cx_int :: "string \<Rightarrow> int"
  cx_string :: "string \<Rightarrow> string"

type_synonym cxxopts = "string list \<Rightarrow> CliOptions \<Rightarrow> cxx_result result"

definition subcommand :: "string list \<Rightarrow> string \<times> string list" where
  "subcommand argv = (case argv of p # a # rest \<Rightarrow> if a = [] \<or> hd a \<noteq> CHR ''-'' then (a, a # rest) else ([], argv) | _ \<Rightarrow> ([], argv))"

definition apply_subcommand :: "string \<Rightarrow> string list \<Rightarrow> CliOptions \<Rightarrow> CliOptions result" where
  "apply_subcommand sub rest opts =
     (if sub = ''selftest'' then Inr (opts\<lparr>cli_do_selftest := True\<rparr>)
      else if sub = ''api'' then (case rest of [] \<Rightarrow> Inr (opts\<lparr>cli_run_api := True\<rparr>)
        | r # _ \<Rightarrow> bind_result (stoi r) (\<lambda>p. Inr (opts\<lparr>cli_run_api := True, cli_api_port := p\<rparr>)))
      else if sub = ''dispense'' then (case rest of [] \<Rightarrow> Inr opts | r # _ \<Rightarrow> bind_result (stoi r) (\<lambda>n. Inr (opts\<lparr>cli_dispense_n := n\<rparr>)))
      else Inr opts)"

definition mode_of :: "string \<Rightarrow> ComplianceMode \<Rightarrow> ComplianceMode" where
  "mode_of m d = (if m = ''emi_worst'' then EMI_WORST else if m = ''emi_idle'' then EMI_IDLE else if m = ''esd_safe'' then ESD_SAFE else d)"

definition apply_counts :: "cxx_result \<Rightarrow> CliOptions \<Rightarrow> CliOptions" where
  "apply_counts r opts =
     (let o1 = if cx_count r ''dispense'' > 0 then opts\<lparr>cli_dispense_n := cx_int r ''dispense''\<rparr> else opts;
          o2 = if cx_count r ''purchase'' > 0 then o1\<lparr>cli_purchase_cents := cx_int r ''purchase''\<rparr> else o1;
          o3 = if cx_count r ''deposit'' > 0 then o2\<lparr>cli_deposit_cents := cx_int r ''deposit''\<rparr> else o2;
          o4 = if cx_count r ''api'' > 0 then o3\<lparr>cli_run_api := True, cli_api_port := cx_int r ''api''\<rparr> else o3;
          o5 = if cx_count r ''tui'' > 0 then o4\<lparr>cli_run_api := True, cli_run_tui := True, cli_api_port := cx_int r ''tui''\<rparr> else o4;
          o6 = if cx_count r ''pos-http'' > 0 then o5\<lparr>cli_pos_http := True, cli_pos_port := cx_int r ''pos-http''\<rparr> else o5;
          o7 = if cx_count r ''aws'' > 0 then o6\<lparr>cli_aws_flag := cx_int r ''aws'' \<noteq> 0\<rparr> else o6
      in if cx_count r ''compliance-mode'' > 0 then o7\<lparr>cli_comp_mode := mode_of (cx_string r ''compliance-mode'') (cli_comp_mode o7)\<rparr> else o7)"

definition cli_parse :: "cxxopts \<Rightarrow> string list \<Rightarrow> CliOptions \<Rightarrow> CliOptions result" where
  "cli_parse cxx argv opts = (let (sub, args) = subcommand argv in
     bind_result (cxx args opts) (\<lambda>r. bind_result (apply_subcommand sub (cx_unmatched r) (cx_bound r)) (\<lambda>o1. Inr (apply_counts r o1))))"

section \<open>What a start does\<close>

datatype start_task = Refuse "string list" | Prescan int | Self_test | Demo_shutter | Api_server int | Pos_server int
  | Purchase int int | Dispense_only int | No_action

definition any_action :: "CliOptions \<Rightarrow> bool" where
  "any_action opts \<longleftrightarrow> cli_demo_shutter opts \<or> cli_use_scale opts \<or> cli_do_selftest opts \<or> cli_dispense_n opts \<ge> 0 \<or> cli_purchase_cents opts \<ge> 0 \<or>
     cli_run_api opts \<or> cli_run_tui opts \<or> cli_service_cli opts"

definition main_task :: "CliOptions \<Rightarrow> LoadResult \<Rightarrow> start_task" where
  "main_task opts lr =
     (if lr_errors lr \<noteq> [] then Refuse (lr_errors lr)
      else if cli_comp_mode opts \<noteq> MODE_NONE \<and> cli_prescan_cycles opts > 0 then Prescan (cli_prescan_cycles opts)
      else let pos = c_pos (lr_config lr); pos_http = (cli_pos_http opts \<or> \<not> any_action opts \<and> pos_enable_http pos);
               pport = (if cli_pos_port opts < 0 then pos_port pos else cli_pos_port opts)
        in if cli_do_selftest opts then Self_test
           else if cli_demo_shutter opts then Demo_shutter
           else if cli_run_api opts then Api_server (cli_api_port opts)
           else if pos_http then Pos_server pport
           else if cli_purchase_cents opts \<ge> 0 \<and> cli_deposit_cents opts \<ge> 0 then Purchase (cli_purchase_cents opts) (cli_deposit_cents opts)
           else if cli_dispense_n opts \<ge> 0 then Dispense_only (cli_dispense_n opts)
           else No_action)"

text \<open>Service mode from the command line; the user name is the default argument.\<close>

definition main_service :: "int \<Rightarrow> CliOptions \<Rightarrow> Config \<Rightarrow> 'w ServiceMode \<Rightarrow> 'w ServiceMode" where
  "main_service now opts cfg s = (if cli_service_cli opts \<and> \<not> sv_active s
     then snd (enter now (if cli_service_pin opts = [] then service_pin_code (c_service cfg) else cli_service_pin opts) ''tech'' s) else s)"

text \<open>The members the components read from the configuration.\<close>

definition service_config :: "Config \<Rightarrow> Service" where
  "service_config cfg = (let s = c_service cfg in \<lparr>sc_enable = service_enable s, sc_pin_code = service_pin_code s,
     sc_jam_clear_shutter_mm = service_jam_clear_shutter_mm s, sc_jam_clear_cycles = service_jam_clear_cycles s,
     sc_hopper_nudge_ms = service_hopper_nudge_ms s, sc_hopper_max_retries = service_hopper_max_retries s\<rparr>)"

definition iot_options :: "Config \<Rightarrow> IoTOptions" where
  "iot_options cfg = (let a = c_aws cfg in \<lparr>io_topic_prefix = aws_topic_prefix a, io_thing_name = aws_thing_name a, io_qos = aws_qos a,
     io_max_queue_bytes = word_of_int (aws_max_queue_bytes a)\<rparr>)"

text \<open>The callback for shadow updates; \<^verbatim>\<open>std::stoi\<close> may throw in it.\<close>

definition on_shadow :: "(string, string) amap \<Rightarrow> Config \<Rightarrow> Config result" where
  "on_shadow kv cfg =
     bind_result (case get kv ''hopper.pulses_per_coin'' of None \<Rightarrow> Inr cfg
       | Some v \<Rightarrow> bind_result (stoi v) (\<lambda>n. Inr (cfg\<lparr>c_hopper := (c_hopper cfg)\<lparr>hopper_pulses_per_coin := n\<rparr>\<rparr>))) (\<lambda>cfg1.
     case get kv ''presentation.present_ms'' of None \<Rightarrow> Inr cfg1
       | Some v \<Rightarrow> bind_result (stoi v) (\<lambda>n. Inr (cfg1\<lparr>c_pres := (c_pres cfg1)\<lparr>pres_present_ms := n\<rparr>\<rparr>)))"

definition dispense_config :: "Config \<Rightarrow> DispenseConfig" where
  "dispense_config cfg = DispenseConfig_default\<lparr>dc_jam_ms := disp_jam_ms (c_disp cfg), dc_settle_ms := disp_settle_ms (c_disp cfg),
     dc_max_ms_per_coin := disp_max_ms_per_coin (c_disp cfg), dc_hard_timeout_ms := disp_hard_timeout_ms (c_disp cfg)\<rparr>"

definition txn_config :: "Config \<Rightarrow> TxnConfig" where
  "txn_config cfg = TxnConfig_default\<lparr>tc_open_mm := mech_open_mm (c_mech cfg), tc_present_ms := pres_present_ms (c_pres cfg)\<rparr>"

definition audit_config_of :: "Config \<Rightarrow> audit_config" where
  "audit_config_of cfg = (let a = c_audit cfg in \<lparr>ac_coin = \<lparr>cs_mass_g = audit_coin_mass_g a, cs_tol_per_coin_g = audit_tolerance_per_coin_g a\<rparr>,
     ac_grams_per_raw = audit_grams_per_raw a, ac_samples_pre = audit_samples_pre a, ac_samples_post = audit_samples_post a,
     ac_stuck_epsilon_raw = audit_stuck_epsilon_raw a\<rparr>)"

section \<open>The machine\<close>

text \<open>What the chip's lines and the clock will read.\<close>

record chip =
  ch_open_switch :: "nat \<Rightarrow> bool"
  ch_closed_switch :: "nat \<Rightarrow> bool"
  ch_pulse :: "bool list"
  ch_clock :: "int list"

definition Stepper_new :: "chip \<Rightarrow> int \<Rightarrow> stepper" where
  "Stepper_new ch steps_per_mm = st_enable False \<lparr>sp_steps_per_mm = steps_per_mm, sp_enabled = False, sp_dir_open = False, sp_moved = 0,
     sp_open_switch = ch_open_switch ch, sp_closed_switch = ch_closed_switch ch, sp_open_reads = 0, sp_closed_reads = 0\<rparr>"

text \<open>\<open>None\<close>: the chip has no reading for the pulse line.\<close>

definition HopperParallel_new :: "chip \<Rightarrow> bool \<Rightarrow> int \<Rightarrow> int \<Rightarrow> hopper option" where
  "HopperParallel_new ch act_high ppc min_us =
     (case read_pulse (hopper_stop \<lparr>hp_motor = \<not> act_high, hp_motor_active_high = act_high, hp_pulses_per_coin = ppc, hp_min_interval_us = min_us,
        hp_pulses = 0, hp_last_edge_ns = 0, hp_last_level = False, hp_inputs = ch_pulse ch, hp_clock = ch_clock ch, hp_emitted = 0\<rparr>) of
      None \<Rightarrow> None | Some (level, h) \<Rightarrow> Some (h\<lparr>hp_last_level := level\<rparr>))"

text \<open>\<open>calib\<close>: the bytes of the calibration file. \<open>Inl\<close> is the exception of \<^verbatim>\<open>loadCalibration\<close>.\<close>

definition controller_for :: "chip \<Rightarrow> string option \<Rightarrow> Config \<Rightarrow> DispenseController result option" where
  "controller_for ch calib cfg =
     map_option (\<lambda>h. loadCalibration \<lparr>ctl_hopper = h, ctl_cfg = dispense_config cfg, ctl_file = calib\<rparr>)
       (HopperParallel_new ch True (hopper_pulses_per_coin (c_hopper cfg)) (hopper_min_edge_interval_us (c_hopper cfg)))"

definition machine_for :: "chip \<Rightarrow> string option \<Rightarrow> Config \<Rightarrow> safety_sys \<Rightarrow> safety_event list list \<Rightarrow> machine result option" where
  "machine_for ch calib cfg sys sched =
     map_option (map_sum id (\<lambda>c. \<lparr>mc_ctl = c, mc_fsm = fsm_init (Stepper_new ch (mech_steps_per_mm (c_mech cfg))) (mech_max_mm (c_mech cfg)),
       mc_safety = sys, mc_sched = sched, mc_trace = []\<rparr>)) (controller_for ch calib cfg)"

text \<open>\<^verbatim>\<open>runApiServer\<close> up to the start of the server. The result: the server and its engine, or the exit status. \<open>None\<close>: the recovery waits for
  the hopper.\<close>

definition api_start :: "getenv \<Rightarrow> int \<times> bool \<Rightarrow> real \<Rightarrow> FleetManager \<Rightarrow> CliOptions \<Rightarrow> Config \<Rightarrow> journal \<Rightarrow> machine \<Rightarrow>
    (int + machine HttpServer) result option" where
  "api_start env bound now fleet opts cfg j m =
     (let en = machine_engine (txn_config cfg);
          bind_addr = (case env ''BIND_ADDR'' of Some a \<Rightarrow> a | None \<Rightarrow> ''127.0.0.1'');
          go = (\<lambda>j m. case hs_start env bound bind_addr (cli_api_port opts) (pos_key (c_pos cfg)) (HttpServer_new now fleet j m) of
            (True, s) \<Rightarrow> Inr s | (False, _) \<Rightarrow> Inl 1)
      in if tc_resume_on_start (txn_config cfg) then (case resume_if_needed en j m of Inl e \<Rightarrow> Some (Inl e) | Inr None \<Rightarrow> None
           | Inr (Some (_, j1, m1)) \<Rightarrow> Some (Inr (go j1 m1)))
         else Some (Inr (go j m)))"

section \<open>The purchase on the command line\<close>

definition cli_stock :: Inventory where
  "cli_stock = foldl (\<lambda>iv sp. upsert \<lparr>hs_spec = sp, hs_logical_count = 100, hs_grams_per_raw = None, hs_tare_raw = None, hs_enabled = True\<rparr> iv) []
     (default_us_specs True)"

definition LocalDisp :: "unit IDispenser" where
  "LocalDisp coins w = Some (\<lparr>ds_ok = True, ds_requested = coins, ds_dispensed = coins, ds_pulses = coins, ds_retries = 0, ds_reason = [],
     ds_elapsed_ms = 0\<rparr>, w)"

definition cli_hoppers :: "unit hoppers" where
  "cli_hoppers = foldl (\<lambda>hs sp. attach \<lparr>hh_spec = sp, hh_driver = Some LocalDisp\<rparr> hs) [] (default_us_specs True)"

definition cli_change :: "int \<Rightarrow> int \<Rightarrow> int" where
  "cli_change purchase deposit = (let change = deposit - purchase in (if change < 0 then 0 else change) smod 100)"

definition plan_count :: "Denom \<Rightarrow> PlanItem list \<Rightarrow> int" where
  "plan_count d plan = foldl (\<lambda>k it. if pi_denom it = d then pi_count it else k) 0 plan"

text \<open>Exit status and printed line.\<close>

definition cli_purchase :: "int \<Rightarrow> int \<Rightarrow> (int \<times> string) result option" where
  "cli_purchase purchase deposit = (let (plan, leftover) = make_plan_cents cli_stock (cli_change purchase deposit) in
     if leftover > 0 then Some (Inr (1, ''VOID reason=NOCHANGE''))
     else map_option (map_sum id (\<lambda>(st, iv, w). if \<not> md_ok st then (1, ''VOID reason='' @ md_reason st)
       else (0, ''OK quarters='' @ to_string (plan_count QUARTER plan) @ '' dimes='' @ to_string (plan_count DIME plan) @ '' nickels='' @
         to_string (plan_count NICKEL plan) @ '' pennies='' @ to_string (plan_count PENNY plan))))
       (execute cli_hoppers plan cli_stock ()))"

section \<open>The self-test's summary\<close>

text \<open>\<^verbatim>\<open>add_reason\<close> searches the report: the component, then its \<^verbatim>\<open>ok\<close> and its reason, from the component on.\<close>

definition reason_of :: "string \<Rightarrow> string \<Rightarrow> string option" where
  "reason_of js name = (case after (quoted name) js of None \<Rightarrow> None
     | Some rest \<Rightarrow> (let tail = quoted name @ rest in
         case after (quoted ''ok'' @ '':'') tail of None \<Rightarrow> None
         | Some okpos \<Rightarrow> if take 5 okpos \<noteq> ''false'' then None
           else case after (quoted ''reason'' @ '':'' @ [CHR 0x22]) tail of None \<Rightarrow> None
           | Some rpos \<Rightarrow> (let start = tl rpos in
               if CHR 0x22 \<in> set start then Some (name @ '':'' @ takeWhile (\<lambda>c. c \<noteq> CHR 0x22) start) else None)))"

definition add_reason :: "string \<Rightarrow> string \<Rightarrow> string \<Rightarrow> string" where
  "add_reason js name reasons = (case reason_of js name of None \<Rightarrow> reasons | Some r \<Rightarrow> (if reasons \<noteq> [] then reasons @ ''; '' else reasons) @ r)"

definition runSelfTest :: "bool \<times> string \<Rightarrow> int \<times> string" where
  "runSelfTest res = (if fst res then (0, ''SELFTEST OK'')
     else (1, ''SELFTEST FAIL: '' @ add_reason (snd res) ''scale'' (add_reason (snd res) ''hopper'' (add_reason (snd res) ''shutter'' []))))"

section \<open>Dispensing from the command line\<close>

text \<open>\<^verbatim>\<open>audit::load_calib\<close>; \<open>stod\<close> is \<^verbatim>\<open>std::stod\<close>. The tare takes no part in the audit.\<close>

definition load_calib :: "(string \<Rightarrow> real result) \<Rightarrow> string option \<Rightarrow> audit_config \<Rightarrow> audit_config result" where
  "load_calib stod file a = (case load_kv file [] of (False, _) \<Rightarrow> Inr a
     | (True, m) \<Rightarrow>
         bind_result (case get m ''grams_per_raw'' of None \<Rightarrow> Inr a | Some v \<Rightarrow> bind_result (stod v) (\<lambda>g. Inr (a\<lparr>ac_grams_per_raw := g\<rparr>))) (\<lambda>a1.
         case get m ''tare_raw'' of None \<Rightarrow> Inr a1 | Some v \<Rightarrow> bind_result (stol v) (\<lambda>_. Inr a1)))"

text \<open>\<open>Inl\<close>: an exception, which \<^verbatim>\<open>main\<close> answers with status 1. \<open>None\<close>: the hopper waits.\<close>

definition runDispense :: "(string \<Rightarrow> real result) \<Rightarrow> string option \<Rightarrow> ('w \<Rightarrow> (int \<times> 'w) option) option \<Rightarrow> 'w \<Rightarrow> CliOptions \<Rightarrow> Config \<Rightarrow>
    DispenseController result \<Rightarrow> ((int \<times> string \<times> audit_result) \<times> DispenseController) result option" where
  "runDispense stod scale_file scale w opts cfg ctl = (case ctl of Inl e \<Rightarrow> Some (Inl e)
     | Inr c \<Rightarrow> (case load_calib stod scale_file (audit_config_of cfg) of Inl e \<Rightarrow> Some (Inl e)
       | Inr acfg \<Rightarrow> (case dispense_coins (cli_dispense_n opts) c of None \<Rightarrow> None
         | Some (res, c1) \<Rightarrow>
             let ares = audit_run (if cli_use_scale opts then scale else None) acfg (dr_dispensed res) w
             in Some (Inr (if dr_ok res then (0, to_string (dr_dispensed res) @ '' coins dispensed'', ares)
                           else (1, ''Dispense failed: '' @ dr_reason res, ares), c1)))))"

section \<open>A purchase at the API\<close>

lemma loadCalibration_cfg: "loadCalibration c = Inr c' \<Longrightarrow> ctl_cfg c' = ctl_cfg c"
  by (auto simp: loadCalibration_def map_sum_def split: prod.splits bool.splits option.splits sum.splits)

lemma machine_for_parts:
  assumes "machine_for ch calib cfg sys sched = Some (Inr m)"
  shows "retrying (mc_ctl m)" "mc_safety m = sys" "mc_fsm m = fsm_init (Stepper_new ch (mech_steps_per_mm (c_mech cfg))) (mech_max_mm (c_mech cfg))"
proof -
  obtain c where c: "controller_for ch calib cfg = Some (Inr c)" "m = \<lparr>mc_ctl = c, mc_fsm = fsm_init (Stepper_new ch (mech_steps_per_mm (c_mech cfg)))
      (mech_max_mm (c_mech cfg)), mc_safety = sys, mc_sched = sched, mc_trace = []\<rparr>"
    using assms by (cases "controller_for ch calib cfg") (auto simp: machine_for_def map_sum_def split: sum.splits)
  then have "ctl_cfg c = dispense_config cfg" by (auto simp: controller_for_def dest: loadCalibration_cfg)
  then show "retrying (mc_ctl m)" using c(2) by (simp add: retrying_def dispense_config_def DispenseConfig_default_def)
  show "mc_safety m = sys" "mc_fsm m = fsm_init (Stepper_new ch (mech_steps_per_mm (c_mech cfg))) (mech_max_mm (c_mech cfg))" using c(2) by simp_all
qed

lemma machine_for_travel:
  assumes "machine_for ch calib cfg sys sched = Some (Inr m)" "0 \<le> mech_steps_per_mm (c_mech cfg)"
    and "mech_open_mm (c_mech cfg) \<le> mech_max_mm (c_mech cfg)" "mech_open_mm (c_mech cfg) * mech_steps_per_mm (c_mech cfg) \<le> 10000"
  shows "travel_ok (tc_open_mm (txn_config cfg)) (mc_fsm m)"
proof -
  have "fsm_inv (mc_fsm m)" unfolding machine_for_parts(3) [OF assms(1)]
    by (rule fsm_init_inv) (simp_all add: Stepper_new_def st_enable_def assms(2))
  then show ?thesis using assms(3,4) unfolding machine_for_parts(3) [OF assms(1)]
    by (simp add: travel_ok_def txn_config_def fsm_init_def Stepper_new_def st_enable_def)
qed

text \<open>The first request to a server that has just started passes its limit.\<close>

lemma first_request_passes:
  assumes "hs_start env bound bind port token (HttpServer_new t0 fleet j w) = (True, s)" "t0 \<le> now" "hq_path q = ''/txn''"
    and "\<not> local_disabled s" "authorize s q"
  shows "\<exists>s1. pre_route now q s = (None, s1) \<and> \<not> hs_in_progress s1 \<and> hs_journal s1 = j \<and> hs_world s1 = w"
proof -
  have s: "hs_txn_limiter s = RateLimiter_new 4 0.1 t0" "\<not> hs_in_progress s" "hs_journal s = j" "hs_world s = w"
    using assms(1) by (auto simp: hs_start_def HttpServer_new_def Let_def split: if_splits)
  have "fst (rl_allow now (hs_txn_limiter s))" using assms(2) by (simp add: s rl_allow_def RateLimiter_new_def Let_def)
  then obtain l where l: "rl_allow now (hs_txn_limiter s) = (True, l)" by (metis prod.collapse)
  have "local_disabled (s\<lparr>hs_txn_limiter := l\<rparr>) = local_disabled s" "authorize (s\<lparr>hs_txn_limiter := l\<rparr>) q = authorize s q"
    by (simp_all add: local_disabled_def authorize_def)
  then show ?thesis using assms(3-5) l s by (simp add: pre_route_def limit_def)
qed


section \<open>What the command line pays\<close>

lemma cli_stock_facts: "usable cli_stock d = 100" "has cli_stock d"
  by (cases d; simp add: cli_stock_def default_us_specs_def us_quarter_def us_dime_def us_nickel_def us_penny_def upsert_def usable_def low_def has_def)+

lemma cli_hoppers_driver: "\<exists>h. get cli_hoppers d = Some h \<and> hh_driver h = Some LocalDisp"
  by (cases d) (simp_all add: cli_hoppers_def default_us_specs_def us_quarter_def us_dime_def us_nickel_def us_penny_def attach_def)

lemma local_execute:
  assumes "\<And>d. has iv d"
  shows "\<exists>st' iv'. execute_loop cli_hoppers plan st iv () = Some (Inr (st', iv', ())) \<and> md_ok st' = md_ok st"
  using assms
proof (induction plan arbitrary: st iv)
  case (Cons it plan)
  obtain h where h: "get cli_hoppers (pi_denom it) = Some h" "hh_driver h = Some LocalDisp" using cli_hoppers_driver by blast
  obtain dec iv1 where iv1: "take_coins (pi_denom it) (pi_count it) iv = Inr (dec, iv1)"
    using take_coins_defined [OF Cons.prems, of "pi_denom it" "pi_count it"] by auto
  have "has iv1 d" for d using take_coins_cases(5) [OF iv1] Cons.prems by simp
  then show ?case using h iv1 Cons.IH [of iv1 "book it (fst (the (LocalDisp (pi_count it) ()))) st"] by (simp add: LocalDisp_def book_def)
qed simp

definition change_item :: "Denom \<Rightarrow> int \<Rightarrow> PlanItem list" where
  "change_item d k = (if k > 0 then [\<lparr>pi_denom = d, pi_count = k\<rparr>] else [])"

lemma plan_loop_change:
  assumes "0 \<le> c" "c < 100 * cents d"
  shows "plan_loop cli_stock (d # ds) c = (case plan_loop cli_stock ds (c mod cents d) of (rest, l) \<Rightarrow> (change_item d (c div cents d) @ rest, l))"
proof -
  have pos: "0 < cents d" by (cases d) simp_all
  have "c div cents d < 100" using assms by (cases d) simp_all
  moreover have "c mod cents d = c" if "c div cents d \<le> 0"
    using that assms(1) pos by (metis mod_pos_pos_trivial not_less pos_imp_zdiv_pos_iff)
  ultimately have "plan_step cli_stock d c = (change_item d (c div cents d), c mod cents d)" if "0 < c"
    using assms(1) pos that by (auto simp: plan_step_def cli_stock_facts(1) change_item_def sdiv_pos Let_def minus_div_mult_eq_mod
      not_less)
  moreover have "plan_loop cli_stock ds 0 = ([], 0)" by (cases ds) simp_all
  ultimately show ?thesis using assms(1) by (cases "c = 0") (auto simp: change_item_def split: prod.split)
qed

lemma change_counts:
  assumes "0 \<le> q" "0 \<le> d" "0 \<le> n" "0 \<le> p"
  shows "plan_count QUARTER (change_item QUARTER q @ change_item DIME d @ change_item NICKEL n @ change_item PENNY p) = q"
    "plan_count DIME (change_item QUARTER q @ change_item DIME d @ change_item NICKEL n @ change_item PENNY p) = d"
    "plan_count NICKEL (change_item QUARTER q @ change_item DIME d @ change_item NICKEL n @ change_item PENNY p) = n"
    "plan_count PENNY (change_item QUARTER q @ change_item DIME d @ change_item NICKEL n @ change_item PENNY p) = p"
  using assms by (simp_all add: plan_count_def change_item_def)

lemma cli_plan:
  assumes "0 \<le> c" "c < 100"
  shows "make_plan_cents cli_stock c = (change_item QUARTER (c div 25) @ change_item DIME (c mod 25 div 10) @
    change_item NICKEL (c mod 25 mod 10 div 5) @ change_item PENNY (c mod 25 mod 10 mod 5), 0)"
proof -
  have "c mod 25 < 25" "c mod 25 mod 10 < 10" "c mod 25 mod 10 mod 5 < 5" by simp_all
  then show ?thesis using assms by (simp add: make_plan_cents_def denom_order_def plan_loop_change del: plan_loop.simps(2))
qed

text \<open>
  C24. A purchase on the command line never fails: whatever was paid, the register answers with the fewest coins for the change below one
  dollar; whole dollars of the change are dropped.
\<close>

theorem cli_purchase_pays:
  "\<exists>q d n p. cli_purchase purchase deposit = Some (Inr (0, ''OK quarters='' @ to_string q @ '' dimes='' @ to_string d @ '' nickels='' @ to_string n @
     '' pennies='' @ to_string p)) \<and> 25 * q + 10 * d + 5 * n + p = max 0 (deposit - purchase) mod 100 \<and>
     q \<in> {0..3} \<and> d \<in> {0..2} \<and> n \<in> {0..1} \<and> p \<in> {0..4}"
proof -
  define c where "c = max 0 (deposit - purchase) mod 100"
  have "x smod 100 = x mod 100" if "0 \<le> x" for x :: int using that by (cases "x = 0") (auto simp: signed_modulo_int_def)
  then have c: "cli_change purchase deposit = c" "0 \<le> c" "c < 100" by (simp_all add: c_def cli_change_def max_def Let_def)
  let ?plan = "change_item QUARTER (c div 25) @ change_item DIME (c mod 25 div 10) @ change_item NICKEL (c mod 25 mod 10 div 5) @
    change_item PENNY (c mod 25 mod 10 mod 5)"
  have counts: "plan_count QUARTER ?plan = c div 25" "plan_count DIME ?plan = c mod 25 div 10" "plan_count NICKEL ?plan = c mod 25 mod 10 div 5"
    "plan_count PENNY ?plan = c mod 25 mod 10 mod 5"
    using c(2) by (simp_all add: change_counts pos_imp_zdiv_nonneg_iff)
  obtain st iv where e: "execute cli_hoppers ?plan cli_stock () = Some (Inr (st, iv, ()))" "md_ok st"
    using local_execute [of cli_stock ?plan "execute_start ?plan"] cli_stock_facts(2)
    by (auto simp: execute_def execute_start_def execute_finish_def split: if_splits)
  have "25 * (c div 25) + 10 * (c mod 25 div 10) + 5 * (c mod 25 mod 10 div 5) + c mod 25 mod 10 mod 5 = c" by presburger
  moreover have "c div 25 \<in> {0..3}" "c mod 25 div 10 \<in> {0..2}" "c mod 25 mod 10 div 5 \<in> {0..1}" "c mod 25 mod 10 mod 5 \<in> {0..4}"
    using c(2,3) by auto
  moreover have "cli_purchase purchase deposit = Some (Inr (0, ''OK quarters='' @ to_string (c div 25) @ '' dimes='' @ to_string (c mod 25 div 10) @
      '' nickels='' @ to_string (c mod 25 mod 10 div 5) @ '' pennies='' @ to_string (c mod 25 mod 10 mod 5)))"
    unfolding cli_purchase_def c(1) cli_plan [OF c(2,3)] Let_def split_conv counts e(1) using e(2) by simp
  ultimately show ?thesis unfolding c_def [symmetric] by blast
qed

section \<open>Other behaviour\<close>

text \<open>\<^verbatim>\<open>--service\<close> without a PIN enters service mode, since the configured PIN is compared with itself.\<close>

lemma service_without_pin:
  assumes "cli_service_cli opts" "cli_service_pin opts = []" "sv_cfg s = service_config cfg" "service_enable (c_service cfg)"
  shows "sv_active (main_service now opts cfg s)"
  using assms by (simp add: main_service_def enter_def service_config_def sv_log_def Let_def)

text \<open>The summary of a failed self-test drops the first character of the reason.\<close>

lemma selftest_reason_cut:
  "runSelfTest (False, health_json [] [] no_coin_config False \<lparr>co_ok = False, co_reason = ''timeout''\<rparr> \<lparr>co_ok = True, co_reason = []\<rparr>
     \<lparr>co_ok = True, co_reason = []\<rparr> 0) = (1, ''SELFTEST FAIL: shutter:imeout'')"
  by code_simp

text \<open>The audit of \<^verbatim>\<open>--dispense\<close> takes its baseline after the coins have left: with a scale that reads the same from then on, every
  payout of coins heavier than the tolerance is flagged.\<close>

lemma take_samples_const: "rd w = Some (v, w) \<Longrightarrow> take_samples rd n w = Some (replicate n v, w)"
  by (induction n) simp_all

lemma audit_after_payout:
  assumes "rd w = Some (v, w)" "0 < ac_samples_pre a" "0 < ac_samples_post a" "0 < coins" "cs_tol_per_coin_g (ac_coin a) < cs_mass_g (ac_coin a)"
  shows "''UNDERPAY'' \<in> set (au_flags (audit_run (Some rd) a coins w))"
proof -
  have "of_int coins * cs_tol_per_coin_g (ac_coin a) < of_int coins * cs_mass_g (ac_coin a)" using assms(4,5) by simp
  moreover have "sum_list (replicate (nat k) v) sdiv k = v" if "0 < k" for k
    using that by (simp add: sum_list_replicate signed_divide_int_def abs_mult sgn_mult sgn_mult_abs)
  ultimately show ?thesis using assms(1-3) by (auto simp: audit_run_def take_samples_const audit_verdict_def audit_flags_def Let_def max_def)
qed

section \<open>Examples\<close>

definition sample_chip :: chip where
  "sample_chip = \<lparr>ch_open_switch = sp_open_switch sample_stepper, ch_closed_switch = sp_closed_switch sample_stepper,
     ch_pulse = False # hp_inputs (ctl_hopper jam_run), ch_clock = hp_clock (ctl_hopper jam_run)\<rparr>"

lemma sample_controller: "controller_for sample_chip None make_defaults = Some (Inr jam_run)"
proof -
  have "dispense_config make_defaults = ctl_cfg jam_run" "hopper_pulses_per_coin (c_hopper make_defaults) = 1"
    "hopper_min_edge_interval_us (c_hopper make_defaults) = 2000"
    by (simp_all add: dispense_config_def make_defaults_def DispenseConfig_default_def jam_run_def)
  moreover have "HopperParallel_new sample_chip True 1 2000 = Some (ctl_hopper jam_run)"
    by (simp add: HopperParallel_new_def hopper_stop_def read_pulse_def sample_chip_def jam_run_def)
  moreover have "ctl_file jam_run = None" by (simp add: jam_run_def)
  ultimately show ?thesis by (simp add: controller_for_def loadCalibration_def load_kv_def)
qed

lemma sample_machine: "machine_for sample_chip None make_defaults (safety_init estop_cfg None) [] = Some (Inr idle_machine)"
proof -
  have "Stepper_new sample_chip 40 = sample_stepper" by (simp add: Stepper_new_def st_enable_def sample_stepper_def sample_chip_def)
  moreover have "mech_steps_per_mm (c_mech make_defaults) = 40" "mech_max_mm (c_mech make_defaults) = 80" by (simp_all add: make_defaults_def)
  ultimately show ?thesis by (simp add: machine_for_def sample_controller idle_machine_def)
qed

definition sale_codec :: extern where
  "sale_codec = sample_extern\<lparr>parse := (\<lambda>_. Inr (JObj [(''price'', JInt 50), (''deposit'', JInt 100)]))\<rparr>"


end
