(* ===== verification/Veil_Routes.thy ===== *)
theory Veil_Routes
  imports Veil Fleet_Routes
begin

text \<open>
  The HTTP interface of the trust service (\<^verbatim>\<open>src/integrations/veil/routes.cpp\<close>) with the JSON of its answers. The server's access
  check is an argument; so is what the trust score reads of the fleet and of the cash ledger. The result: how the tenant of
  a request bounds what it can see and change, and where it does not.
\<close>

section \<open>JSON of the answers\<close>

definition verification_to_json :: "ChainVerificationResult \<Rightarrow> json" where
  "verification_to_json v = JObj [(''valid'', JBool (cv_valid v)), (''errors'', JArr (map JStr (cv_errors v))),
     (''records_checked'', JInt (cv_records_checked v)), (''tenant_id'', JStr (cv_tenant_id v)), (''device_id'', JStr (cv_device_id v)),
     (''hash_summary'', JStr (cv_hash_summary v))]"

definition bundle_to_json :: "EvidenceBundle \<Rightarrow> json" where
  "bundle_to_json v = JObj [(''bundle_id'', JStr (eb_bundle_id v)), (''scope_type'', JStr (eb_scope_type v)), (''scope_id'', JStr (eb_scope_id v)),
     (''start_time'', JInt (eb_start_time v)), (''end_time'', JInt (eb_end_time v)), (''records'', JArr (map evidence_to_json (eb_records v))),
     (''verification'', verification_to_json (eb_verification v)), (''hash_summary'', JStr (eb_hash_summary v)),
     (''policy_decisions'', JArr (map decision_to_json (eb_policy_decisions v))),
     (''related_audit_events'', JArr (map JStr (eb_related_audit_events v)))]"

definition trust_score_to_json :: "TrustScoreSummary \<Rightarrow> json" where
  "trust_score_to_json v = JObj [(''tenant_id'', JStr (ts_tenant_id v)), (''device_id'', JStr (ts_device_id v)),
     (''merchant_id'', JStr (ts_merchant_id v)), (''branch_id'', JStr (ts_branch_id v)), (''region'', JStr (ts_region v)),
     (''score'', JInt (ts_score v)), (''factors'', labels_json (ts_factors v)), (''explanations'', JArr (map JStr (ts_explanations v))),
     (''updated_at'', JInt (ts_updated_at v))]"

section \<open>Routes\<close>

definition veil_tenant_id :: "Request \<Rightarrow> string" where
  "veil_tenant_id req = (if rq_X_Org_Id req \<noteq> [] then rq_X_Org_Id req
     else if get_param_value req ''tenant_id'' \<noteq> [] then get_param_value req ''tenant_id'' else get_param_value req ''organization_id'')"

definition veil_tenant_allowed :: "Request \<Rightarrow> string \<Rightarrow> bool" where
  "veil_tenant_allowed req tenant \<longleftrightarrow> veil_tenant_id req = [] \<or> tenant = [] \<or> veil_tenant_id req = tenant"

definition stol_param :: "Request \<Rightarrow> string \<Rightarrow> int \<Rightarrow> int result" where
  "stol_param req k d = (case get (rq_params req) k of None \<Rightarrow> Inr d | Some v \<Rightarrow> stol v)"

definition veil_filter_from :: "Request \<Rightarrow> EvidenceFilter result" where
  "veil_filter_from req =
     bind_result (stol_param req ''start_time'' 0) (\<lambda>st. bind_result (stol_param req ''end_time'' 0) (\<lambda>en.
       Inr \<lparr>ef_tenant_id = veil_tenant_id req, ef_device_id = get_param_value req ''device_id'', ef_merchant_id = get_param_value req ''merchant_id'',
         ef_branch_id = get_param_value req ''branch_id'', ef_region = get_param_value req ''region'', ef_event_type = get_param_value req ''event_type'',
         ef_start_time = st, ef_end_time = en\<rparr>))"

datatype veil_route = Post_evidence | Get_evidence | Post_submit string | Get_verify | Get_export string string | Post_preview | Get_score string

definition post_evidence :: "extern \<Rightarrow> Request \<Rightarrow> VeilTrustService \<Rightarrow> (response \<times> VeilTrustService) result" where
  "post_evidence ext req s =
     bind_result (parse ext (rq_body req)) (\<lambda>j. bind_result (evidence_from_json ext j TrustEvidenceRecord_default) (\<lambda>e.
       if \<not> veil_tenant_allowed req (te_tenant_id e) then Inr ((403, error_json ''tenant_forbidden''), s)
       else let (created, s1) = create_evidence ext e s in Inr ((200, JObj [(''evidence'', evidence_to_json created)]), s1)))"

definition get_export :: "extern \<Rightarrow> string \<Rightarrow> string \<Rightarrow> Request \<Rightarrow> VeilTrustService \<Rightarrow> (response \<times> VeilTrustService) result" where
  "get_export ext scope_type scope_id req s =
     bind_result (stol_param req ''start_time'' 0) (\<lambda>st. bind_result (stol_param req ''end_time'' 0) (\<lambda>en.
       let (b, s1) = export_bundle ext scope_type scope_id st en s in Inr ((200, bundle_to_json b), s1)))"

definition post_preview :: "extern \<Rightarrow> Request \<Rightarrow> VeilTrustService \<Rightarrow> (response \<times> VeilTrustService) result" where
  "post_preview ext req s =
     bind_result (parse ext (rq_body req)) (\<lambda>j. bind_result (value_str ext j ''tenant_id'' (veil_tenant_id req)) (\<lambda>tenant.
       if \<not> veil_tenant_allowed req tenant then Inr ((403, error_json ''tenant_forbidden''), s)
       else bind_result (value_str ext j ''device_id'' []) (\<lambda>device. bind_result (value_str ext j ''action'' []) (\<lambda>action.
         bind_result (value_json ext j ''context'' (JObj [])) (\<lambda>ctx. bind_result (value_int ext j ''now_epoch'' 0) (\<lambda>now.
           let (d, s1) = verify_policy tenant device action ctx now s in Inr ((200, JObj [(''decision'', decision_to_json d)]), s1)))))))"

definition veil_guarded :: "(response \<times> VeilTrustService) result \<Rightarrow> VeilTrustService \<Rightarrow> response \<times> VeilTrustService" where
  "veil_guarded r s = (case r of Inr out \<Rightarrow> out | Inl _ \<Rightarrow> ((400, error_json ''bad_request''), s))"

text \<open>\<open>views\<close>: what the trust score reads of the fleet and of the cash ledger for a device.\<close>

fun veil_handle :: "extern \<Rightarrow> (string \<Rightarrow> fleet_view option \<times> int option) \<Rightarrow> veil_route \<Rightarrow> Request \<Rightarrow> VeilTrustService \<Rightarrow> response \<times> VeilTrustService" where
  "veil_handle ext views Post_evidence req s = veil_guarded (post_evidence ext req s) s"
| "veil_handle ext views Get_evidence req s =
     veil_guarded (bind_result (veil_filter_from req) (\<lambda>f. Inr (list_json ''evidence'' evidence_to_json (list_evidence f s), s))) s"
| "veil_handle ext views (Post_submit i) req s = (let (ok, s1) = submit_evidence i s in ((if ok then 200 else 404, JObj [(''ok'', JBool ok)]), s1))"
| "veil_handle ext views Get_verify req s =
     veil_guarded (bind_result (veil_filter_from req) (\<lambda>f. let (r, s1) = verify_chain ext f s in Inr ((200, verification_to_json r), s1))) s"
| "veil_handle ext views (Get_export t i) req s = veil_guarded (get_export ext t i req s) s"
| "veil_handle ext views Post_preview req s = veil_guarded (post_preview ext req s) s"
| "veil_handle ext views (Get_score i) req s =
     (let (r, s1) = trust_score (fst (views i)) (snd (views i)) (veil_tenant_id req) i 0 s in ((200, trust_score_to_json r), s1))"

definition veil_serve :: "extern \<Rightarrow> (string \<Rightarrow> fleet_view option \<times> int option) \<Rightarrow> (Request \<Rightarrow> response option) \<Rightarrow> veil_route \<Rightarrow> Request \<Rightarrow>
    VeilTrustService \<Rightarrow> response \<times> VeilTrustService" where
  "veil_serve ext views access_check r req s = (case access_check req of Some refused \<Rightarrow> (refused, s) | None \<Rightarrow> veil_handle ext views r req s)"

section \<open>Tenants\<close>

lemma listed_for_tenant:
  assumes "veil_tenant_id req = t" "t \<noteq> []" "veil_filter_from req = Inr f"
  shows "set (list_evidence f s) = {e \<in> set (vs_evidence s). te_tenant_id e = t \<and> filter_matches (f\<lparr>ef_tenant_id := []\<rparr>) e}"
proof -
  have "ef_tenant_id f = t" using assms(1,3) by (auto simp: veil_filter_from_def bind_result_def split: sum.splits)
  then show ?thesis using assms(2) by (auto simp: list_evidence_def sort_evidence_def filter_matches_def)
qed

lemma posted_for_tenant:
  assumes "veil_tenant_id req = t" "t \<noteq> []" "post_evidence ext req s = Inr (resp, s')"
  shows "vs_evidence s' = vs_evidence s \<or> (\<exists>e. vs_evidence s' = vs_evidence s @ [e] \<and> te_tenant_id e \<in> {t, []})"
proof -
  obtain j e where je: "parse ext (rq_body req) = Inr j" "evidence_from_json ext j TrustEvidenceRecord_default = Inr e"
    using assms(3) by (auto simp: post_evidence_def bind_result_def split: sum.splits)
  show ?thesis
  proof (cases "veil_tenant_allowed req (te_tenant_id e)")
    case True
    then have "s' = snd (create_evidence ext e s)" "te_tenant_id e \<in> {t, []}"
      using assms je by (auto simp: post_evidence_def veil_tenant_allowed_def split_beta)
    then show ?thesis by (auto simp: create_evidence_list complete_evidence_fields(1))
  qed (use assms(3) je in \<open>simp add: post_evidence_def\<close>)
qed

lemma other_routes_evidence:
  "r \<noteq> Post_evidence \<Longrightarrow> vs_evidence (snd (veil_handle ext views r req s)) = vs_evidence s"
proof (cases r)
  case (Post_submit i)
  then show ?thesis by (auto simp: submit_evidence_def split: option.splits prod.splits)
next
  case Post_preview
  then show ?thesis by (auto simp: veil_guarded_def post_preview_def bind_result_def verify_policy_def Let_def split: sum.splits)
qed (auto simp: veil_guarded_def bind_result_def verify_chain_def get_export_def export_bundle_def trust_score_def Let_def split: sum.splits)

text \<open>
  A request of a tenant sees in the evidence list exactly the tenant's records that match its filter, and creates evidence only for the
  tenant or for none; no other route touches the evidence.
\<close>

theorem trust_requests_scoped:
  assumes "veil_tenant_id req = t" "t \<noteq> []" "access_check req = None"
  shows "(case veil_filter_from req of Inl _ \<Rightarrow> veil_serve ext views access_check Get_evidence req s = ((400, error_json ''bad_request''), s)
      | Inr f \<Rightarrow> veil_serve ext views access_check Get_evidence req s = (list_json ''evidence'' evidence_to_json (list_evidence f s), s) \<and>
          set (list_evidence f s) = {e \<in> set (vs_evidence s). te_tenant_id e = t \<and> filter_matches (f\<lparr>ef_tenant_id := []\<rparr>) e}) \<and>
    (\<exists>es. vs_evidence (snd (veil_serve ext views access_check r req s)) = vs_evidence s @ es \<and> length es \<le> 1 \<and>
      (\<forall>e \<in> set es. r = Post_evidence \<and> te_tenant_id e \<in> {t, []}))"
proof
  show "case veil_filter_from req of Inl _ \<Rightarrow> veil_serve ext views access_check Get_evidence req s = ((400, error_json ''bad_request''), s)
      | Inr f \<Rightarrow> veil_serve ext views access_check Get_evidence req s = (list_json ''evidence'' evidence_to_json (list_evidence f s), s) \<and>
          set (list_evidence f s) = {e \<in> set (vs_evidence s). te_tenant_id e = t \<and> filter_matches (f\<lparr>ef_tenant_id := []\<rparr>) e}"
    using listed_for_tenant [OF assms(1,2)] assms(3) by (auto simp: veil_serve_def veil_guarded_def split: sum.split)
  show "\<exists>es. vs_evidence (snd (veil_serve ext views access_check r req s)) = vs_evidence s @ es \<and> length es \<le> 1 \<and>
      (\<forall>e \<in> set es. r = Post_evidence \<and> te_tenant_id e \<in> {t, []})"
  proof (cases "r = Post_evidence")
    case True
    show ?thesis
    proof (cases "post_evidence ext req s")
      case (Inl e)
      then show ?thesis using True assms(3) by (intro exI [of _ "[]"]) (simp add: veil_serve_def veil_guarded_def)
    next
      case (Inr out)
      obtain resp s' where out: "out = (resp, s')" by fastforce
      then show ?thesis using posted_for_tenant [OF assms(1,2), of ext s resp s'] Inr True assms(3)
        by (fastforce simp: veil_serve_def veil_guarded_def)
    qed
  qed (use other_routes_evidence [of r] assms(3) in \<open>auto simp: veil_serve_def\<close>)
qed

text \<open>The export of evidence takes no notice of the tenant.\<close>

lemma export_ignores_tenant:
  "veil_handle ext views (Get_export ty i) (req\<lparr>rq_X_Org_Id := u\<rparr>) s = veil_handle ext views (Get_export ty i) req s"
  by (simp add: get_export_def stol_param_def)

definition two_tenants :: VeilTrustService where
  "two_tenants = empty_veil\<lparr>vs_evidence := [(device_event ''d1'' 5)\<lparr>te_tenant_id := ''t1''\<rparr>, (device_event ''d2'' 6)\<lparr>te_tenant_id := ''t9''\<rparr>]\<rparr>"

theorem trust_requests_scoped_witness:
  "\<exists>f. fst (veil_serve sample_extern (\<lambda>_. (None, None)) (\<lambda>_. None) Get_evidence \<lparr>rq_X_Org_Id = ''t1'', rq_params = [], rq_body = []\<rparr> two_tenants) =
     list_json ''evidence'' evidence_to_json (list_evidence f two_tenants) \<and>
     set (list_evidence f two_tenants) = {(device_event ''d1'' 5)\<lparr>te_tenant_id := ''t1''\<rparr>}"
proof -
  let ?req = "\<lparr>rq_X_Org_Id = ''t1'', rq_params = [], rq_body = []\<rparr>"
  let ?f = "EvidenceFilter_default\<lparr>ef_tenant_id := ''t1''\<rparr>"
  have t: "veil_tenant_id ?req = ''t1''" by (simp add: veil_tenant_id_def)
  have f: "veil_filter_from ?req = Inr ?f"
    by (simp add: veil_filter_from_def stol_param_def get_param_value_def EvidenceFilter_default_def veil_tenant_id_def)
  have "{e \<in> set (vs_evidence two_tenants). te_tenant_id e = ''t1'' \<and> filter_matches (?f\<lparr>ef_tenant_id := []\<rparr>) e} =
      {(device_event ''d1'' 5)\<lparr>te_tenant_id := ''t1''\<rparr>}"
    by (auto simp: two_tenants_def filter_matches_def EvidenceFilter_default_def)
  then show ?thesis
    using trust_requests_scoped [OF t, of "\<lambda>_. None" sample_extern "\<lambda>_. (None, None)" two_tenants Get_verify] unfolding f
    by (intro exI [of _ ?f]) simp
qed

end
