(* ===== verification/Edge_Routes.thy ===== *)
theory Edge_Routes
  imports Edge_Platform Fleet_Routes
begin

text \<open>
  The HTTP interface of the edge platform (\<^verbatim>\<open>src/edge_platform/routes.cpp\<close>). The server's access check is an argument; whatever a
  \<^verbatim>\<open>POST\<close> route throws is answered 400, an exception of a \<^verbatim>\<open>GET\<close> route is left to the HTTP library, which answers 500. The result: a
  request that names a tenant reaches only the tenant's devices.
\<close>

definition edge_tenant_id :: "Request \<Rightarrow> string" where
  "edge_tenant_id req = (if rq_X_Org_Id req \<noteq> [] then rq_X_Org_Id req
     else if get_param_value req ''tenant_id'' \<noteq> [] then get_param_value req ''tenant_id'' else get_param_value req ''organization_id'')"

definition edge_tenant_allowed :: "Request \<Rightarrow> string \<Rightarrow> bool" where
  "edge_tenant_allowed req tenant \<longleftrightarrow> edge_tenant_id req = [] \<or> tenant = [] \<or> edge_tenant_id req = tenant"

definition device_allowed :: "Request \<Rightarrow> string \<Rightarrow> EdgePlatformService \<Rightarrow> bool" where
  "device_allowed req device_id s \<longleftrightarrow> edge_tenant_id req = [] \<or>
     find (\<lambda>d. ed_device_id d = device_id) (ep_device_list (edge_tenant_id req) s) \<noteq> None"

datatype ed_route = Get_edge_devices | Post_edge_device | Get_capabilities string | Post_capability string | Get_drivers
  | Post_edge_command string | Get_edge_inventory string | Post_edge_inventory string | Post_simulate string | Get_edge_health string | Get_edge_events

text \<open>A handler's outcome: the response or the exception, and the state, which an exception may leave changed.\<close>

type_synonym ed_outcome = "response result \<times> EdgePlatformService"

definition on_value :: "'a result \<Rightarrow> EdgePlatformService \<Rightarrow> ('a \<Rightarrow> ed_outcome) \<Rightarrow> ed_outcome" where
  "on_value r s f = (case r of Inl e \<Rightarrow> (Inl e, s) | Inr x \<Rightarrow> f x)"

definition ok_with :: "string \<Rightarrow> json \<Rightarrow> bool \<Rightarrow> response" where
  "ok_with k v ok = (if ok then 200 else 400, JObj [(''ok'', JBool ok), (k, v)])"

definition post_edge_device :: "extern \<Rightarrow> Request \<Rightarrow> EdgePlatformService \<Rightarrow> ed_outcome" where
  "post_edge_device ext req s = on_value (parse ext (rq_body req)) s (\<lambda>j. on_value (edge_device_from_json ext j EdgeDevice_default) s (\<lambda>d.
     if \<not> edge_tenant_allowed req (ed_tenant_id d) then (Inr (403, error_json ''tenant_forbidden''), s)
     else let (ok, s1) = ep_register_device ext d s in (Inr (ok_with ''device'' (edge_device_to_json d) ok), s1)))"

definition post_capability :: "extern \<Rightarrow> string \<Rightarrow> Request \<Rightarrow> EdgePlatformService \<Rightarrow> ed_outcome" where
  "post_capability ext i req s = on_value (parse ext (rq_body req)) s (\<lambda>j. on_value (capability_from_json ext j CapabilityMetadata_default) s (\<lambda>c.
     let (ok, s1) = register_capability i c s in (Inr (ok_with ''capability'' (capability_to_json c) ok), s1)))"

definition post_edge_command :: "extern \<Rightarrow> string \<Rightarrow> Request \<Rightarrow> EdgePlatformService \<Rightarrow> ed_outcome" where
  "post_edge_command ext i req s = on_value (parse ext (rq_body req)) s (\<lambda>j. on_value (edge_request_from_json ext j EdgeCommandRequest_default) s (\<lambda>c.
     case execute_command ext (c\<lparr>eq_device_id := i\<rparr>) s of (Inl e, s1) \<Rightarrow> (Inl e, s1)
     | (Inr r, s1) \<Rightarrow> (Inr (if er_executed r then 200 else 409, JObj [(''result'', edge_result_to_json r)]), s1)))"

definition post_edge_inventory :: "extern \<Rightarrow> string \<Rightarrow> Request \<Rightarrow> EdgePlatformService \<Rightarrow> ed_outcome" where
  "post_edge_inventory ext i req s = on_value (parse ext (rq_body req)) s (\<lambda>j. on_value (inventory_from_json ext j EdgeInventoryView_default) s (\<lambda>v0.
     let v = v0\<lparr>iv_device_id := i\<rparr>; (ok, s1) = update_inventory ext v s in (Inr (ok_with ''inventory'' (inventory_to_json v) ok), s1)))"

definition post_simulate :: "extern \<Rightarrow> string \<Rightarrow> Request \<Rightarrow> EdgePlatformService \<Rightarrow> ed_outcome" where
  "post_simulate ext i req s = on_value (parse ext (rq_body req)) s (\<lambda>j. on_value (value_str ext j ''action'' []) s (\<lambda>a.
     on_value (value_json ext j ''parameters'' (JObj [])) s (\<lambda>ps. on_value (value_int ext j ''now_epoch'' 0) s (\<lambda>now.
       case simulate ext i a ps now s of (Inl e, s1) \<Rightarrow> (Inl e, s1) | (Inr st, s1) \<Rightarrow> (Inr (200, simulator_to_json st), s1)))))"

definition ed_guarded :: "ed_outcome \<Rightarrow> response \<times> EdgePlatformService" where
  "ed_guarded r = (case r of (Inr out, s) \<Rightarrow> (out, s) | (Inl _, s) \<Rightarrow> ((400, error_json ''bad_request''), s))"

definition for_device :: "Request \<Rightarrow> string \<Rightarrow> EdgePlatformService \<Rightarrow> response \<times> EdgePlatformService \<Rightarrow> response \<times> EdgePlatformService" where
  "for_device req i s r = (if \<not> device_allowed req i s then ((403, error_json ''tenant_forbidden''), s) else r)"

fun ed_handle :: "extern \<Rightarrow> ed_route \<Rightarrow> Request \<Rightarrow> EdgePlatformService \<Rightarrow> response \<times> EdgePlatformService" where
  "ed_handle ext Get_edge_devices req s = (list_json ''devices'' edge_device_to_json (ep_device_list (edge_tenant_id req) s), s)"
| "ed_handle ext Post_edge_device req s = ed_guarded (post_edge_device ext req s)"
| "ed_handle ext (Get_capabilities i) req s = for_device req i s (list_json ''capabilities'' capability_to_json (capabilities i s), s)"
| "ed_handle ext (Post_capability i) req s = for_device req i s (ed_guarded (post_capability ext i req s))"
| "ed_handle ext Get_drivers req s = (list_json ''drivers'' driver_to_json (drivers s), s)"
| "ed_handle ext (Post_edge_command i) req s = for_device req i s (ed_guarded (post_edge_command ext i req s))"
| "ed_handle ext (Get_edge_inventory i) req s = for_device req i s ((200, inventory_to_json (ep_inventory i s)), s)"
| "ed_handle ext (Post_edge_inventory i) req s = for_device req i s (ed_guarded (post_edge_inventory ext i req s))"
| "ed_handle ext (Post_simulate i) req s = for_device req i s (ed_guarded (post_simulate ext i req s))"
| "ed_handle ext (Get_edge_health i) req s = for_device req i s (case ep_health ext i s of (Inr h, s1) \<Rightarrow> ((200, edge_health_to_json h), s1)
     | (Inl _, s1) \<Rightarrow> ((500, JNull), s1))"
| "ed_handle ext Get_edge_events req s = (list_json ''events'' edge_event_to_json (ep_event_list (edge_tenant_id req) s), s)"

definition ed_serve :: "extern \<Rightarrow> (Request \<Rightarrow> response option) \<Rightarrow> ed_route \<Rightarrow> Request \<Rightarrow> EdgePlatformService \<Rightarrow> response \<times> EdgePlatformService" where
  "ed_serve ext access_check r req s = (case access_check req of Some refused \<Rightarrow> (refused, s) | None \<Rightarrow> ed_handle ext r req s)"

section \<open>What a request leaves alone\<close>

text \<open>Everything the platform keeps for the device \<open>k\<close> is the same in both states.\<close>

definition same_at :: "string \<Rightarrow> EdgePlatformService \<Rightarrow> EdgePlatformService \<Rightarrow> bool" where
  "same_at k s s' \<longleftrightarrow> get (ep_devices s') k = get (ep_devices s) k \<and> get (ep_capabilities s') k = get (ep_capabilities s) k \<and>
     get (ep_inventories s') k = get (ep_inventories s) k \<and> get (ep_simulator s') k = get (ep_simulator s) k \<and>
     count_at (ep_command_count s') k = count_at (ep_command_count s) k \<and> count_at (ep_command_failures s') k = count_at (ep_command_failures s) k"

lemma same_at_refl [simp]: "same_at k s s"
  by (simp add: same_at_def)

lemma same_at_trans [trans]: "same_at k s s' \<Longrightarrow> same_at k s' s'' \<Longrightarrow> same_at k s s''"
  by (simp add: same_at_def)

lemma same_at_simps [simp]:
  "same_at k s (ep_save_locked s') = same_at k s s'" "same_at k s (emit_event t d ty now m s') = same_at k s s'"
  "same_at k s (emit_trust_evidence ext dev ty now pl s') = same_at k s s'" "same_at k s (s'\<lparr>ep_trust := v\<rparr>) = same_at k s s'"
  "same_at k s (s'\<lparr>ep_command_results := r\<rparr>) = same_at k s s'"
  by (simp_all add: same_at_def)

lemma same_at_puts:
  assumes "same_at k s s'" "i \<noteq> k"
  shows "same_at k s (s'\<lparr>ep_devices := put i d (ep_devices s')\<rparr>)" "same_at k s (s'\<lparr>ep_capabilities := put i c (ep_capabilities s')\<rparr>)"
    "same_at k s (s'\<lparr>ep_inventories := put i v (ep_inventories s')\<rparr>)" "same_at k s (s'\<lparr>ep_simulator := put i st (ep_simulator s')\<rparr>)"
    "same_at k s (s'\<lparr>ep_command_count := put i n (ep_command_count s')\<rparr>)" "same_at k s (s'\<lparr>ep_command_failures := put i n (ep_command_failures s')\<rparr>)"
  using assms by (simp_all add: same_at_def)

lemma capability_same: "i \<noteq> k \<Longrightarrow> same_at k s (snd (register_capability i c s))"
  by (auto simp: register_capability_def Let_def same_at_def split: option.split)

lemma inventory_same: "iv_device_id v \<noteq> k \<Longrightarrow> same_at k s (snd (update_inventory ext v s))"
  by (auto simp: update_inventory_def Let_def same_at_puts split: option.split)

lemma reject_same: "eq_device_id q \<noteq> k \<Longrightarrow> same_at k s s' \<Longrightarrow> same_at k s (snd (reject q reason ty s'))"
  by (auto simp: reject_def Let_def same_at_def split: option.split)

lemma maintenance_same: "maintenance_step ext d q s = Inr s' \<Longrightarrow> eq_device_id q \<noteq> k \<Longrightarrow> same_at k s s'"
  by (auto simp: maintenance_step_def set_maintenance_def Let_def bind_result_def same_at_puts split: sum.splits if_splits)

lemma run_driver_same:
  assumes "eq_device_id q \<noteq> k"
  shows "same_at k s (snd (run_driver ext m d cap q s))"
proof -
  define r where "r = driver_execute m d q"
  define s1 where "s1 = s\<lparr>ep_command_count := bump (eq_device_id q) (ep_command_count s),
            ep_command_failures := (if er_executed r then ep_command_failures s else bump (eq_device_id q) (ep_command_failures s)),
            ep_command_results := ep_command_results s @ [r]\<rparr>"
  define s2 where "s2 = emit_event (ed_tenant_id d) (ed_device_id d) (if er_executed r then ''driver_command_executed'' else ''driver_command_failed'')
            (eq_requested_at q) (JObj [(''command'', JStr (eq_command q)), (''status'', JStr (er_status r))]) s1"
  have s2: "same_at k s s2" using assms by (simp add: same_at_def s2_def s1_def)
  show ?thesis
  proof (cases "maintenance_step ext d q s2")
    case (Inl e)
    then show ?thesis using s2 by (simp add: run_driver_def Let_def r_def s1_def s2_def)
  next
    case (Inr s3)
    have "same_at k s s3" by (rule same_at_trans [OF s2 maintenance_same [OF Inr assms]])
    then show ?thesis using Inr by (simp add: run_driver_def Let_def r_def s1_def s2_def)
  qed
qed

lemma simulate_same: "i \<noteq> k \<Longrightarrow> same_at k s (snd (simulate ext i a p now s))"
proof (cases "get (ep_devices s) i")
  case None
  then show ?thesis by (simp add: simulate_def)
next
  case (Some d)
  assume i: "i \<noteq> k"
  define s0 where "s0 = s\<lparr>ep_simulator := put i (entry (ep_simulator s) SimulatorState_default i) (ep_simulator s)\<rparr>"
  have s0: "same_at k s s0" using i by (simp add: s0_def same_at_puts)
  have act: "same_at k s s1" if "simulate_action ext d i a p now s0 = Inr s1" for s1
    using that i s0
    by (auto simp: simulate_action_def simulate_fault_def simulate_cash_in_def Let_def bind_result_def same_at_puts
        split: if_splits sum.splits)
  show ?thesis
    using s0 act Some by (cases "simulate_action ext d i a p now s0") (simp_all add: simulate_def Let_def s0_def [symmetric])
qed

lemma rejected_same: "eq_device_id q \<noteq> k \<Longrightarrow> same_at k s s' \<Longrightarrow> same_at k s (snd (rejected (reject q reason ty s')))"
  by (simp add: rejected_def reject_same)

lemma execute_same:
  assumes "eq_device_id q0 \<noteq> k"
  shows "same_at k s (snd (execute_command ext q0 s))"
proof (cases "get (ep_devices s) (eq_device_id q0)")
  case None
  then show ?thesis using assms by (simp add: execute_command_def Let_def rejected_same)
next
  case (Some d)
  define q where "q = with_command_id q0 s"
  define cap where "cap = capability_for_command (eq_command q)"
  define s1 where "s1 = s\<lparr>ep_simulator := put (eq_device_id q) (entry (ep_simulator s) SimulatorState_default (eq_device_id q)) (ep_simulator s)\<rparr>"
  obtain ok s2 where a: "ask_policy d cap q s1 = (ok, s2)" by fastforce
  have q: "eq_device_id q \<noteq> k" using assms by (simp add: q_def)
  have d: "get (ep_devices s) (eq_device_id q) = Some d" using Some by (simp add: q_def)
  have s1: "same_at k s s1" using q by (simp add: s1_def same_at_puts)
  have s2: "same_at k s s2" using ask_policy_result [OF a] s1 by auto
  have run: "same_at k s (snd (run_driver ext m d cap q s2))" for m by (rule same_at_trans [OF s2 run_driver_same [OF q]])
  show ?thesis
    using s1 s2 run q unfolding execute_command_def Let_def q_def [symmetric] cap_def [symmetric] d option.case s1_def [symmetric] a prod.case
    by (simp add: rejected_same split: option.split)
qed

lemma health_same: "i \<noteq> k \<Longrightarrow> same_at k s (snd (ep_health ext i s))"
proof (cases "get (ep_devices s) i")
  case None
  then show ?thesis by (simp add: ep_health_def health_locked_def)
next
  case (Some d)
  assume i: "i \<noteq> k"
  define st where "st = entry (ep_simulator s) SimulatorState_default i"
  define v where "v = entry (ep_inventories s) EdgeInventoryView_default i"
  define s1 where "s1 = s\<lparr>ep_simulator := put i st (ep_simulator s), ep_inventories := put i v (ep_inventories s)\<rparr>"
  define s2 where "s2 = s1\<lparr>ep_command_count := put i (count_at (ep_command_count s) i) (ep_command_count s),
    ep_command_failures := put i (count_at (ep_command_failures s) i) (ep_command_failures s)\<rparr>"
  have s1: "same_at k s s1" and s2: "same_at k s s2" using i by (simp_all add: s2_def s1_def same_at_def)
  obtain chain cp s3 where ev: "evidence_health ext d i s2 = (chain, cp, s3)" by (metis prod_cases3)
  have "same_at k s s3" using s2 ev by (auto simp: evidence_health_def Let_def split: option.splits prod.splits if_splits)
  then show ?thesis
    using s1 Some ev
    by (cases "value_str ext (ss_sensor_telemetry st) ''lock'' ''unknown''";
        cases "value_bool ext (ss_sensor_telemetry st) ''maintenance_mode'' False")
      (simp_all add: ep_health_def health_locked_def Let_def st_def v_def s2_def s1_def)
qed

lemma keyed_vals: "keyed key m \<Longrightarrow> v \<in> set (vals m) \<Longrightarrow> get m (key v) = Some v"
  by (auto simp: keyed_def vals_def get_def)

lemma device_allowed_owner:
  assumes "ep_inv s" "edge_tenant_id req \<noteq> []" "device_allowed req i s"
  shows "\<exists>d. get (ep_devices s) i = Some d \<and> ed_tenant_id d = edge_tenant_id req"
proof -
  from assms(2,3) obtain d where d: "d \<in> set (ep_device_list (edge_tenant_id req) s)" "ed_device_id d = i"
    by (auto simp: device_allowed_def find_None_iff)
  then have "ed_tenant_id d = edge_tenant_id req" "d \<in> set (vals (ep_devices s))" using assms(2) by (auto simp: ep_device_list_def)
  moreover have "keyed ed_device_id (ep_devices s)" using assms(1) by (simp add: ep_inv_def)
  ultimately show ?thesis using d(2) keyed_vals by fastforce
qed

lemma on_value_state: "same_at k s s' \<Longrightarrow> (\<And>x. same_at k s (snd (f x))) \<Longrightarrow> same_at k s (snd (on_value r s' f))"
  by (cases r) (simp_all add: on_value_def)

lemma ed_guarded_state [simp]: "snd (ed_guarded r) = snd r"
  by (cases r; cases "fst r") (auto simp: ed_guarded_def split: sum.splits prod.splits)

lemma route_same:
  assumes "i \<noteq> k"
  shows "same_at k s (snd (post_capability ext i req s))" "same_at k s (snd (post_edge_command ext i req s))"
    "same_at k s (snd (post_edge_inventory ext i req s))" "same_at k s (snd (post_simulate ext i req s))"
proof -
  show "same_at k s (snd (post_capability ext i req s))" unfolding post_capability_def
    using capability_same [OF assms] by (auto intro!: on_value_state simp: split_beta Let_def)
  show "same_at k s (snd (post_edge_inventory ext i req s))" unfolding post_edge_inventory_def
    using assms by (auto intro!: on_value_state simp: split_beta Let_def inventory_same)
  show "same_at k s (snd (post_edge_command ext i req s))" unfolding post_edge_command_def
    using execute_same [of "_\<lparr>eq_device_id := i\<rparr>" k s ext] assms
    by (intro on_value_state same_at_refl) (auto split: prod.split sum.split, (metis EdgeCommandRequest.select_convs snd_conv)+)
  show "same_at k s (snd (post_simulate ext i req s))" unfolding post_simulate_def
    using simulate_same [OF assms, of s ext] by (intro on_value_state same_at_refl) (auto split: prod.split sum.split, (metis snd_conv)+)
qed

section \<open>Properties\<close>

text \<open>
  C27. A request that names a tenant and is not the registration of a device leaves everything the platform keeps for
  devices of other tenants as it is.
\<close>

theorem edge_requests_scoped:
  assumes "ep_inv s" "edge_tenant_id req \<noteq> []" "r \<noteq> Post_edge_device"
    and "get (ep_devices s) k = Some d" "ed_tenant_id d \<noteq> edge_tenant_id req"
  shows "same_at k s (snd (ed_serve ext access_check r req s))"
proof -
  have other: "i \<noteq> k" if "device_allowed req i s" for i
    using device_allowed_owner [OF assms(1,2) that] assms(4,5) by auto
  have scoped: "same_at k s (snd (for_device req i s x))" if "i \<noteq> k \<Longrightarrow> same_at k s (snd x)" for i x
    using other that by (simp add: for_device_def)
  have "same_at k s (snd (ed_handle ext r req s))"
  proof (cases r)
    case (Get_edge_health i)
    have "same_at k s (snd (ed_handle ext (Get_edge_health i) req s))"
      using health_same [of i k s ext] by (auto intro!: scoped split: prod.split sum.split)
    then show ?thesis using Get_edge_health by simp
  qed (use assms(3) in \<open>auto intro!: scoped simp: route_same\<close>)
  then show ?thesis by (simp add: ed_serve_def split: option.split)
qed

text \<open>
  The registration route only compares the tenant of the request with the tenant in the body: a tenant that registers the id of
  another tenant's device replaces that device, and owns it afterwards.
\<close>

lemma registration_takes_over:
  assumes "parse ext (rq_body req) = Inr j" "edge_device_from_json ext j EdgeDevice_default = Inr d"
    and "ed_device_id d \<noteq> []" "ed_tenant_id d = edge_tenant_id req" "edge_tenant_id req \<noteq> []" "known_device_type (ed_device_type d)"
  shows "get (ep_devices (snd (ed_handle ext Post_edge_device req s))) (ed_device_id d) = Some (completed_device d)"
  using assms
  by (auto simp: post_edge_device_def on_value_def edge_tenant_allowed_def ep_register_device_def Let_def completed_device_def)

theorem edge_requests_scoped_witness:
  "get (ep_simulator (snd (ed_serve sample_extern (\<lambda>_. None) (Post_simulate ''d1'') \<lparr>rq_X_Org_Id = ''t9'', rq_params = [], rq_body = []\<rparr> sample_edge))) ''d1'' =
     get (ep_simulator sample_edge) ''d1''"
proof -
  have i: "ep_inv sample_edge" by (rule ep_reach_inv [OF sample_edge_reach blank_inv])
  show ?thesis
    using edge_requests_scoped [OF i _ _ sample_edge_fields(1), of "\<lparr>rq_X_Org_Id = ''t9'', rq_params = [], rq_body = []\<rparr>" "Post_simulate ''d1''" sample_extern "\<lambda>_. None"]
    by (simp add: edge_tenant_id_def completed_device_def same_at_def)
qed

end
