(* ===== verification/Fleet_Ops_Routes.thy ===== *)
theory Fleet_Ops_Routes
  imports Fleet_Lifecycle Veil_Routes
begin

text \<open>
  The HTTP interface of the fleet operations service (\<^verbatim>\<open>src/cloud/fleet_operations/routes.cpp\<close>). The server's access check and the
  reading of the system clock are arguments. Whatever a route that changes something throws is answered 400; the others leave
  an exception to the HTTP library, which answers 500. The results: a request is at most one operation of the service, in
  the name of the tenant it carries, so that histories of requests refine the specification of the fleet too.
\<close>

section \<open>Requests\<close>

definition request_time :: "extern \<Rightarrow> int \<Rightarrow> json \<Rightarrow> int result" where
  "request_time ext now body = value_int ext body ''now_epoch'' now"

definition body_or_object :: "extern \<Rightarrow> Request \<Rightarrow> json result" where
  "body_or_object ext req = (if rq_body req = [] then Inr (JObj []) else parse ext (rq_body req))"

datatype fo_route = Post_enroll | Get_fleet_devices | Get_fleet_device string | Patch_device string | Post_retire string | Post_fleet_heartbeat
  | Get_device_health string | Get_freshness string | Post_fleet_command | Get_fleet_commands | Get_fleet_command string
  | Post_cancel string | Post_ack string | Post_complete string | Get_fleet_risk | Get_device_risk string | Get_location_risk string
  | Post_quarantine string | Post_recover string | Get_quarantine

text \<open>A handler's outcome: the response or the exception, and the state, which an exception may leave changed.\<close>

type_synonym fo_outcome = "response result \<times> FleetOperationsService"

definition fo_after :: "'a result \<Rightarrow> FleetOperationsService \<Rightarrow> ('a \<Rightarrow> fo_outcome) \<Rightarrow> fo_outcome" where
  "fo_after r s f = (case r of Inl e \<Rightarrow> (Inl e, s) | Inr x \<Rightarrow> f x)"

definition outcome_json :: "string option \<Rightarrow> (string \<times> json) list" where
  "outcome_json err = [(''ok'', JBool (err = None)), (''error'', JStr (case err of None \<Rightarrow> [] | Some e \<Rightarrow> e))]"

text \<open>The answer of an operation that reports an error or none.\<close>

definition answer :: "int \<Rightarrow> string option \<times> FleetOperationsService \<Rightarrow> fo_outcome" where
  "answer ok_status p = (Inr (if fst p = None then ok_status else 409, JObj (outcome_json (fst p))), snd p)"

definition answer_result :: "int \<Rightarrow> string option result \<times> FleetOperationsService \<Rightarrow> fo_outcome" where
  "answer_result ok_status p = (case p of (Inl e, s) \<Rightarrow> (Inl e, s) | (Inr err, s) \<Rightarrow> answer ok_status (err, s))"

definition post_fleet_enroll :: "extern \<Rightarrow> int \<Rightarrow> Request \<Rightarrow> FleetOperationsService \<Rightarrow> fo_outcome" where
  "post_fleet_enroll ext now req s = fo_after (parse ext (rq_body req)) s (\<lambda>body. fo_after (fleet_device_from_json ext body FleetDevice_default) s (\<lambda>d.
     if fd_tenant_id d \<noteq> rq_X_Org_Id req then (Inr (403, error_json ''tenant_forbidden''), s)
     else fo_after (value_str ext body ''actor_id'' []) s (\<lambda>actor. fo_after (request_time ext now body) s (\<lambda>t.
       let (err, s1) = enroll ext d actor t s
       in (Inr (if err = None then 201 else 409, JObj (outcome_json err @ [(''device'', fleet_device_to_json d)])), s1)))))"

definition patch_route :: "extern \<Rightarrow> int \<Rightarrow> string \<Rightarrow> Request \<Rightarrow> FleetOperationsService \<Rightarrow> fo_outcome" where
  "patch_route ext now i req s = fo_after (parse ext (rq_body req)) s (\<lambda>body. fo_after (request_time ext now body) s (\<lambda>t.
     answer_result 200 (update_device ext (rq_X_Org_Id req) i body t s)))"

definition post_retire :: "extern \<Rightarrow> int \<Rightarrow> string \<Rightarrow> Request \<Rightarrow> FleetOperationsService \<Rightarrow> fo_outcome" where
  "post_retire ext now i req s = fo_after (body_or_object ext req) s (\<lambda>body. fo_after (request_time ext now body) s (\<lambda>t.
     answer 200 (retire_device ext (rq_X_Org_Id req) i t s)))"

definition post_fleet_heartbeat :: "extern \<Rightarrow> int \<Rightarrow> Request \<Rightarrow> FleetOperationsService \<Rightarrow> fo_outcome" where
  "post_fleet_heartbeat ext now req s = fo_after (parse ext (rq_body req)) s (\<lambda>body. fo_after (heartbeat_from_json ext body FleetHeartbeat_default) s (\<lambda>h.
     if fhb_tenant_id h \<noteq> rq_X_Org_Id req then (Inr (403, error_json ''tenant_forbidden''), s)
     else fo_after (value_int ext body ''received_at'' now) s (\<lambda>t. answer_result 202 (receive_heartbeat ext h t s))))"

definition post_fleet_command :: "extern \<Rightarrow> int \<Rightarrow> Request \<Rightarrow> FleetOperationsService \<Rightarrow> fo_outcome" where
  "post_fleet_command ext now req s = fo_after (parse ext (rq_body req)) s (\<lambda>body. fo_after (fleet_command_from_json ext body FleetCommand_default) s (\<lambda>c.
     if fc_tenant_id c \<noteq> rq_X_Org_Id req then (Inr (403, error_json ''tenant_forbidden''), s)
     else fo_after (request_time ext now body) s (\<lambda>t.
       let (r, s1) = create_command ext c t s
       in (Inr (if fc_state r = ''dispatched'' then 201 else if fc_state r = ''policy_checking'' then 202 else 409,
            JObj [(''command'', fleet_command_to_json r)]), s1))))"

text \<open>The three actions on a command, \<^verbatim>\<open>command_action\<close>.\<close>

definition command_action :: "extern \<Rightarrow> Request \<Rightarrow> (json \<Rightarrow> (string option \<times> FleetOperationsService) result) \<Rightarrow> FleetOperationsService \<Rightarrow> fo_outcome" where
  "command_action ext req action s = fo_after (body_or_object ext req) s (\<lambda>body. fo_after (action body) s (answer 200))"

definition cancel_action :: "extern \<Rightarrow> int \<Rightarrow> string \<Rightarrow> string \<Rightarrow> FleetOperationsService \<Rightarrow> json \<Rightarrow> (string option \<times> FleetOperationsService) result" where
  "cancel_action ext now t i s body = bind_result (request_time ext now body) (\<lambda>tm. Inr (cancel_command ext t i tm s))"

definition ack_action :: "extern \<Rightarrow> int \<Rightarrow> string \<Rightarrow> string \<Rightarrow> FleetOperationsService \<Rightarrow> json \<Rightarrow> (string option \<times> FleetOperationsService) result" where
  "ack_action ext now t i s body = bind_result (request_time ext now body) (\<lambda>tm. Inr (fo_acknowledge_command ext t i tm s))"

definition complete_action :: "extern \<Rightarrow> int \<Rightarrow> string \<Rightarrow> string \<Rightarrow> FleetOperationsService \<Rightarrow> json \<Rightarrow> (string option \<times> FleetOperationsService) result" where
  "complete_action ext now t i s body =
     bind_result (value_bool ext body ''success'' False) (\<lambda>ok. bind_result (value_str ext body ''result'' []) (\<lambda>result.
     bind_result (request_time ext now body) (\<lambda>tm. Inr (complete_command ext t i ok result tm s))))"

definition post_quarantine :: "extern \<Rightarrow> int \<Rightarrow> string \<Rightarrow> Request \<Rightarrow> FleetOperationsService \<Rightarrow> fo_outcome" where
  "post_quarantine ext now i req s = fo_after (body_or_object ext req) s (\<lambda>body. fo_after (value_str ext body ''reason'' []) s (\<lambda>reason.
     fo_after (request_time ext now body) s (\<lambda>t. answer 200 (quarantine ext (rq_X_Org_Id req) i reason t s))))"

definition post_recover :: "extern \<Rightarrow> int \<Rightarrow> string \<Rightarrow> Request \<Rightarrow> FleetOperationsService \<Rightarrow> fo_outcome" where
  "post_recover ext now i req s = fo_after (body_or_object ext req) s (\<lambda>body. fo_after (request_time ext now body) s (\<lambda>t.
     answer_result 200 (recover ext (rq_X_Org_Id req) i t s)))"

text \<open>Health and freshness: not found is 404.\<close>

definition get_report :: "extern \<Rightarrow> int \<Rightarrow> (int \<Rightarrow> json) \<Rightarrow> Request \<Rightarrow> FleetOperationsService \<Rightarrow> fo_outcome" where
  "get_report ext now report req s = fo_after (stol_param req ''now_epoch'' now) s (\<lambda>t.
     fo_after (value_bool ext (report t) ''found'' False) s (\<lambda>found. (Inr (if found then 200 else 404, report t), s)))"

definition get_device_risk :: "extern \<Rightarrow> int \<Rightarrow> string \<Rightarrow> Request \<Rightarrow> FleetOperationsService \<Rightarrow> fo_outcome" where
  "get_device_risk ext now i req s = fo_after (stol_param req ''now_epoch'' now) s (\<lambda>t.
     if fo_device (rq_X_Org_Id req) i s = None then (Inr (404, error_json ''not_found''), s)
     else case device_risk ext (rq_X_Org_Id req) i t s of (Inl e, s1) \<Rightarrow> (Inl e, s1) | (Inr r, s1) \<Rightarrow> (Inr (200, risk_to_json r), s1))"

definition get_location_risk :: "extern \<Rightarrow> int \<Rightarrow> string \<Rightarrow> Request \<Rightarrow> FleetOperationsService \<Rightarrow> fo_outcome" where
  "get_location_risk ext now i req s = fo_after (stol_param req ''now_epoch'' now) s (\<lambda>t.
     case location_risk ext (rq_X_Org_Id req) i t s of (Inl e, s1) \<Rightarrow> (Inl e, s1) | (Inr r, s1) \<Rightarrow> (Inr (200, risk_to_json r), s1))"

definition get_fleet_risk :: "extern \<Rightarrow> int \<Rightarrow> Request \<Rightarrow> FleetOperationsService \<Rightarrow> fo_outcome" where
  "get_fleet_risk ext now req s = fo_after (stol_param req ''now_epoch'' now) s (\<lambda>t.
     case fleet_risk ext (rq_X_Org_Id req) t s of (Inl e, s1) \<Rightarrow> (Inl e, s1) | (Inr rs, s1) \<Rightarrow> (Inr (list_json ''risk'' risk_to_json rs), s1))"

section \<open>Routes\<close>

definition fo_guarded :: "fo_outcome \<Rightarrow> response \<times> FleetOperationsService" where
  "fo_guarded r = (case r of (Inr out, s) \<Rightarrow> (out, s) | (Inl _, s) \<Rightarrow> ((400, error_json ''bad_request''), s))"

definition fo_unguarded :: "fo_outcome \<Rightarrow> response \<times> FleetOperationsService" where
  "fo_unguarded r = (case r of (Inr out, s) \<Rightarrow> (out, s) | (Inl _, s) \<Rightarrow> ((500, JNull), s))"

definition found_or_404 :: "('a \<Rightarrow> json) \<Rightarrow> 'a option \<Rightarrow> response" where
  "found_or_404 to_j v = (case v of None \<Rightarrow> (404, error_json ''not_found'') | Some x \<Rightarrow> (200, to_j x))"

fun fo_handle :: "extern \<Rightarrow> int \<Rightarrow> fo_route \<Rightarrow> Request \<Rightarrow> FleetOperationsService \<Rightarrow> response \<times> FleetOperationsService" where
  "fo_handle ext now Post_enroll req s = fo_guarded (post_fleet_enroll ext now req s)"
| "fo_handle ext now Get_fleet_devices req s = (list_json ''devices'' fleet_device_to_json (fo_device_list (rq_X_Org_Id req) s), s)"
| "fo_handle ext now (Get_fleet_device i) req s = (found_or_404 fleet_device_to_json (fo_device (rq_X_Org_Id req) i s), s)"
| "fo_handle ext now (Patch_device i) req s = fo_guarded (patch_route ext now i req s)"
| "fo_handle ext now (Post_retire i) req s = fo_guarded (post_retire ext now i req s)"
| "fo_handle ext now Post_fleet_heartbeat req s = fo_guarded (post_fleet_heartbeat ext now req s)"
| "fo_handle ext now (Get_device_health i) req s = fo_unguarded (get_report ext now (\<lambda>t. fo_health (rq_X_Org_Id req) i t s) req s)"
| "fo_handle ext now (Get_freshness i) req s = fo_unguarded (get_report ext now (\<lambda>t. freshness (rq_X_Org_Id req) i t s) req s)"
| "fo_handle ext now Post_fleet_command req s = fo_guarded (post_fleet_command ext now req s)"
| "fo_handle ext now Get_fleet_commands req s = (let s1 = snd (fo_expire_commands ext now s)
     in (list_json ''commands'' fleet_command_to_json (fo_command_list (rq_X_Org_Id req) s1), s1))"
| "fo_handle ext now (Get_fleet_command i) req s = (let s1 = snd (fo_expire_commands ext now s)
     in (found_or_404 fleet_command_to_json (fo_command (rq_X_Org_Id req) i s1), s1))"
| "fo_handle ext now (Post_cancel i) req s = fo_guarded (command_action ext req (cancel_action ext now (rq_X_Org_Id req) i s) s)"
| "fo_handle ext now (Post_ack i) req s = fo_guarded (command_action ext req (ack_action ext now (rq_X_Org_Id req) i s) s)"
| "fo_handle ext now (Post_complete i) req s = fo_guarded (command_action ext req (complete_action ext now (rq_X_Org_Id req) i s) s)"
| "fo_handle ext now Get_fleet_risk req s = fo_unguarded (get_fleet_risk ext now req s)"
| "fo_handle ext now (Get_device_risk i) req s = fo_unguarded (get_device_risk ext now i req s)"
| "fo_handle ext now (Get_location_risk i) req s = fo_unguarded (get_location_risk ext now i req s)"
| "fo_handle ext now (Post_quarantine i) req s = fo_guarded (post_quarantine ext now i req s)"
| "fo_handle ext now (Post_recover i) req s = fo_guarded (post_recover ext now i req s)"
| "fo_handle ext now Get_quarantine req s = (list_json ''devices'' fleet_device_to_json (quarantined (rq_X_Org_Id req) s), s)"

text \<open>The access check, then the tenant, which must be given.\<close>

definition fo_serve :: "extern \<Rightarrow> (Request \<Rightarrow> response option) \<Rightarrow> int \<Rightarrow> fo_route \<Rightarrow> Request \<Rightarrow> FleetOperationsService \<Rightarrow> response \<times> FleetOperationsService" where
  "fo_serve ext access_check now r req s = (case access_check req of Some refused \<Rightarrow> (refused, s)
     | None \<Rightarrow> if rq_X_Org_Id req = [] then ((400, error_json ''tenant_required''), s) else fo_handle ext now r req s)"

section \<open>What a request does\<close>

text \<open>The tenant in whose name an operation acts; the expiry of commands is the service's own.\<close>

fun op_tenant :: "fo_op \<Rightarrow> string option" where
  "op_tenant (Enroll d actor now) = Some (fd_tenant_id d)"
| "op_tenant (Update t i patch now) = Some t"
| "op_tenant (Retire t i now) = Some t"
| "op_tenant (Beat h now) = Some (fhb_tenant_id h)"
| "op_tenant (New_command c now) = Some (fc_tenant_id c)"
| "op_tenant (Cancel t i now) = Some t"
| "op_tenant (Ack t i now) = Some t"
| "op_tenant (Complete t i ok result now) = Some t"
| "op_tenant (Expire_all now) = None"
| "op_tenant (Device_risk t i now) = Some t"
| "op_tenant (Fleet_risk t now) = Some t"
| "op_tenant (Location_risk t i now) = Some t"
| "op_tenant (Quarantine t i reason now) = Some t"
| "op_tenant (Recover t i now) = Some t"

text \<open>Nothing, one operation in the name of \<open>t\<close>, or the expiry of commands.\<close>

definition acts_for :: "extern \<Rightarrow> int \<Rightarrow> string \<Rightarrow> FleetOperationsService \<Rightarrow> FleetOperationsService \<Rightarrow> bool" where
  "acts_for ext now t s s' \<longleftrightarrow> s' = s \<or> (\<exists>x. (op_tenant x = Some t \<or> x = Expire_all now) \<and> s' = fo_step ext x s)"

named_theorems acts_intros

lemma acts_none [simp]: "acts_for ext now t s s"
  by (simp add: acts_for_def)

lemma acts_step: "op_tenant x = Some t \<or> x = Expire_all now \<Longrightarrow> s' = fo_step ext x s \<Longrightarrow> acts_for ext now t s s'"
  unfolding acts_for_def by blast

lemma acts_after [acts_intros]: "(\<And>x. r = Inr x \<Longrightarrow> acts_for ext now t s (snd (f x))) \<Longrightarrow> acts_for ext now t s (snd (fo_after r s f))"
  by (cases r) (simp_all add: fo_after_def)

lemma outcome_states [simp]:
  "snd (answer n p) = snd p" "snd (answer_result n q) = snd q" "snd (fo_guarded o1) = snd o1" "snd (fo_unguarded o1) = snd o1"
  by (auto simp: answer_def answer_result_def fo_guarded_def fo_unguarded_def split: prod.split sum.split)

text \<open>One lemma per kind of operation the handlers end in.\<close>

lemma acts_operations [acts_intros]:
  "acts_for ext now t s (snd (update_device ext t i patch tm s))" "acts_for ext now t s (snd (retire_device ext t i tm s))"
  "acts_for ext now t s (snd (device_risk ext t i tm s))" "acts_for ext now t s (snd (fleet_risk ext t tm s))"
  "acts_for ext now t s (snd (location_risk ext t i tm s))" "acts_for ext now t s (snd (quarantine ext t i reason tm s))"
  "acts_for ext now t s (snd (recover ext t i tm s))" "acts_for ext now t s (snd (cancel_command ext t i tm s))"
  "acts_for ext now t s (snd (fo_acknowledge_command ext t i tm s))" "acts_for ext now t s (snd (complete_command ext t i ok result tm s))"
  "acts_for ext now t s (snd (fo_expire_commands ext now s))"
  by (rule acts_step [where x = "Update t i patch tm"] acts_step [where x = "Retire t i tm"] acts_step [where x = "Device_risk t i tm"]
      acts_step [where x = "Fleet_risk t tm"] acts_step [where x = "Location_risk t i tm"] acts_step [where x = "Quarantine t i reason tm"]
      acts_step [where x = "Recover t i tm"] acts_step [where x = "Cancel t i tm"] acts_step [where x = "Ack t i tm"]
      acts_step [where x = "Complete t i ok result tm"] acts_step [where x = "Expire_all now"]; simp; fail)+

lemma acts_snd: "acts_for ext now t s (snd p) \<Longrightarrow> p = (r, s') \<Longrightarrow> acts_for ext now t s s'"
  by simp

lemmas acts_results = acts_operations [THEN acts_snd]

lemma acts_carried [acts_intros]:
  "fd_tenant_id d = t \<Longrightarrow> acts_for ext now t s (snd (enroll ext d actor tm s))"
  "fhb_tenant_id h = t \<Longrightarrow> acts_for ext now t s (snd (receive_heartbeat ext h tm s))"
  "fc_tenant_id c = t \<Longrightarrow> acts_for ext now t s (snd (create_command ext c tm s))"
  by (rule acts_step [where x = "Enroll d actor tm"] acts_step [where x = "Beat h tm"] acts_step [where x = "New_command c tm"]; simp; fail)+

lemma handlers_act [acts_intros]:
  fixes req :: Request
  defines "t \<equiv> rq_X_Org_Id req"
  shows "acts_for ext now t s (snd (post_fleet_enroll ext now req s))" "acts_for ext now t s (snd (patch_route ext now i req s))"
    "acts_for ext now t s (snd (post_retire ext now i req s))" "acts_for ext now t s (snd (post_fleet_heartbeat ext now req s))"
    "acts_for ext now t s (snd (post_fleet_command ext now req s))" "acts_for ext now t s (snd (post_quarantine ext now i req s))"
    "acts_for ext now t s (snd (post_recover ext now i req s))" "acts_for ext now t s (snd (get_report ext now rep req s))"
    "acts_for ext now t s (snd (command_action ext req (cancel_action ext now t i s) s))"
    "acts_for ext now t s (snd (command_action ext req (ack_action ext now t i s) s))"
    "acts_for ext now t s (snd (command_action ext req (complete_action ext now t i s) s))"
  unfolding post_fleet_enroll_def patch_route_def post_retire_def post_fleet_heartbeat_def post_fleet_command_def post_quarantine_def
    post_recover_def get_report_def command_action_def t_def [symmetric]
  by (auto intro!: acts_intros simp: split_beta Let_def cancel_action_def ack_action_def complete_action_def bind_result_def
      dest: acts_results split: sum.splits)

lemma risk_routes_act [acts_intros]:
  "acts_for ext now (rq_X_Org_Id req) s (snd (get_device_risk ext now i req s))"
  "acts_for ext now (rq_X_Org_Id req) s (snd (get_location_risk ext now i req s))"
  "acts_for ext now (rq_X_Org_Id req) s (snd (get_fleet_risk ext now req s))"
  unfolding get_device_risk_def get_location_risk_def get_fleet_risk_def
  by (auto intro!: acts_after dest: acts_results split: prod.split sum.split)

lemma handle_acts: "acts_for ext now (rq_X_Org_Id req) s (snd (fo_handle ext now r req s))"
  by (cases r) (auto intro: acts_intros simp: Let_def)

section \<open>Properties\<close>

text \<open>
  C28. A request that is refused or names no tenant changes nothing; any other request is at most one operation of the service,
  in the name of its tenant, or the expiry of commands at the time of the request.
\<close>

theorem fleet_requests_act_for_tenant:
  "snd (fo_serve ext access_check now r req s) = s \<or>
   access_check req = None \<and> rq_X_Org_Id req \<noteq> [] \<and>
   (\<exists>x. (op_tenant x = Some (rq_X_Org_Id req) \<or> x = Expire_all now) \<and> snd (fo_serve ext access_check now r req s) = fo_step ext x s)"
  using handle_acts [of ext now req s r] by (auto simp: fo_serve_def acts_for_def split: option.split)

text \<open>A sequence of requests, each with the time it arrives at.\<close>

definition fo_serve_all :: "extern \<Rightarrow> (Request \<Rightarrow> response option) \<Rightarrow> (int \<times> fo_route \<times> Request) list \<Rightarrow> FleetOperationsService \<Rightarrow> FleetOperationsService" where
  "fo_serve_all ext access_check = fold (\<lambda>(now, r, req) s. snd (fo_serve ext access_check now r req s))"

lemma serve_reaches: "fo_reach ext s0 s \<Longrightarrow> fo_reach ext s0 (snd (fo_serve ext access_check now r req s))"
  using handle_acts [of ext now req s r] by (auto simp: fo_serve_def acts_for_def intro: fo_next fo_next [of _ _ _ "Expire_all now", simplified]
      split: option.split)

lemma serve_all_reaches: "fo_reach ext s0 s \<Longrightarrow> fo_reach ext s0 (fo_serve_all ext access_check qs s)"
  by (induction qs arbitrary: s) (auto simp: fo_serve_all_def serve_reaches)

text \<open>
  Over any sequence of requests the devices, the commands and the event log follow the specification, from the store file on.
\<close>

lemma fleet_api_refines_spec:
  assumes "FleetOperationsService_new ext path file edge trust timeout = Inr s0"
  shows "(move ext)\<^sup>*\<^sup>* (core s0) (core (fo_serve_all ext access_check qs s0))"
  using fo_reach_moves [OF serve_all_reaches [OF fo_start] new_wf [OF assms]] .

text \<open>
  A heartbeat passes the tenant check of its route with the sender's own tenant; if it names a device of another tenant, that
  device is put into quarantine.
\<close>

lemma heartbeat_quarantines_other_tenant:
  assumes "access_check req = None" "rq_X_Org_Id req = t" "t \<noteq> []"
    and "parse ext (rq_body req) = Inr body" "heartbeat_from_json ext body FleetHeartbeat_default = Inr h" "value_int ext body ''received_at'' now = Inr tm"
    and "fhb_tenant_id h = t" "get (fo_devices s) (fhb_device_id h) = Some d" "fd_tenant_id d \<noteq> t" "\<not> fd_retired d"
  shows "get (fo_devices (snd (fo_serve ext access_check now Post_fleet_heartbeat req s))) (fhb_device_id h) =
    Some (d\<lparr>fd_lifecycle_state := ''quarantined'', fd_quarantine_reason := ''tenant_boundary_violation''\<rparr>)"
  using assms
  by (simp add: fo_serve_def post_fleet_heartbeat_def fo_after_def receive_heartbeat_def refuse_heartbeat_def quarantine_locked_def put_device_def Let_def)

text \<open>A time that is not a number is not answered 400 but left to the HTTP library.\<close>

lemma unreadable_time_fails:
  assumes "access_check req = None" "rq_X_Org_Id req \<noteq> []" "get (rq_params req) ''now_epoch'' = Some v" "stol v = Inl e"
  shows "fo_serve ext access_check now Get_fleet_risk req s = ((500, JNull), s)"
  using assms by (simp add: fo_serve_def get_fleet_risk_def stol_param_def fo_after_def fo_unguarded_def)

end
