(* ===== verification/Device_Identity.thy ===== *)
theory Device_Identity
  imports Config Fleet_Manager
begin

text \<open>
  Who a device is: the store of certificate identities (\<^verbatim>\<open>src/cloud/identity/cert_identity.cpp\<close>), the device id
  (\<^verbatim>\<open>src/cloud/identity.cpp\<close>) and the TLS credentials (\<^verbatim>\<open>src/cloud/tls_identity.cpp\<close>). Environment, files and file modes are inputs.
  The results: a rotation replaces exactly one certificate by another, a refused certificate stays refused, over restarts,
  until someone names it, and the store file keeps the store.
\<close>

section \<open>Certificate identities\<close>

record CertificateIdentity =
  ci_device_id :: string
  ci_fingerprint_sha256 :: string
  ci_state :: string
  ci_issued_at :: string
  ci_expires_at :: string
  ci_rotated_from_fingerprint :: string

definition CertificateIdentity_default :: CertificateIdentity where
  "CertificateIdentity_default = \<lparr>ci_device_id = [], ci_fingerprint_sha256 = [], ci_state = ''active'', ci_issued_at = [], ci_expires_at = [],
     ci_rotated_from_fingerprint = []\<rparr>"

definition cert_to_json :: "CertificateIdentity \<Rightarrow> json" where
  "cert_to_json c = JObj [(''device_id'', JStr (ci_device_id c)), (''fingerprint_sha256'', JStr (ci_fingerprint_sha256 c)), (''state'', JStr (ci_state c)),
     (''issued_at'', JStr (ci_issued_at c)), (''expires_at'', JStr (ci_expires_at c)), (''rotated_from_fingerprint'', JStr (ci_rotated_from_fingerprint c))]"

definition cert_from_json :: "extern \<Rightarrow> json \<Rightarrow> CertificateIdentity \<Rightarrow> CertificateIdentity result" where
  "cert_from_json ext j c =
     bind_result (value_str ext j ''device_id'' (ci_device_id c)) (\<lambda>a1.
     bind_result (value_str ext j ''fingerprint_sha256'' (ci_fingerprint_sha256 c)) (\<lambda>a2.
     bind_result (value_str ext j ''state'' (ci_state c)) (\<lambda>a3.
     bind_result (value_str ext j ''issued_at'' (ci_issued_at c)) (\<lambda>a4.
     bind_result (value_str ext j ''expires_at'' (ci_expires_at c)) (\<lambda>a5.
     bind_result (value_str ext j ''rotated_from_fingerprint'' (ci_rotated_from_fingerprint c)) (\<lambda>a6.
     Inr \<lparr>ci_device_id = a1, ci_fingerprint_sha256 = a2, ci_state = a3, ci_issued_at = a4, ci_expires_at = a5, ci_rotated_from_fingerprint = a6\<rparr>))))))"

definition cert_state_allows_device :: "CertificateIdentity \<Rightarrow> bool" where
  "cert_state_allows_device c \<longleftrightarrow> ci_state c = ''active'' \<or> ci_state c = ''pending''"

record CertificateIdentityStore =
  cis_store_path :: string
  cis_file :: "json option"
  cis_identities :: "(string, CertificateIdentity) amap"

definition cis_save :: "CertificateIdentityStore \<Rightarrow> CertificateIdentityStore" where
  "cis_save s = (if cis_store_path s = [] then s
     else s\<lparr>cis_file := Some (JObj [(''schema'', JInt 1), (''cert_identities'', values_json cert_to_json (cis_identities s))])\<rparr>)"

text \<open>Loading: an exception ends it, what was read before it stays.\<close>

definition cis_load :: "extern \<Rightarrow> CertificateIdentityStore \<Rightarrow> CertificateIdentityStore" where
  "cis_load ext s = (if cis_store_path s = [] then s else case cis_file s of None \<Rightarrow> s
     | Some j \<Rightarrow> (case value_arr ext j ''cert_identities'' [] of Inl _ \<Rightarrow> s
       | Inr js \<Rightarrow> s\<lparr>cis_identities := snd (load_until (\<lambda>j. cert_from_json ext j CertificateIdentity_default) ci_fingerprint_sha256 js (cis_identities s))\<rparr>))"

definition CertificateIdentityStore_new :: "extern \<Rightarrow> string \<Rightarrow> json option \<Rightarrow> CertificateIdentityStore" where
  "CertificateIdentityStore_new ext path file = cis_load ext \<lparr>cis_store_path = path, cis_file = file, cis_identities = []\<rparr>"

definition cis_upsert :: "CertificateIdentity \<Rightarrow> CertificateIdentityStore \<Rightarrow> CertificateIdentityStore" where
  "cis_upsert c s = cis_save (s\<lparr>cis_identities := put (ci_fingerprint_sha256 c) c (cis_identities s)\<rparr>)"

definition cis_find :: "string \<Rightarrow> CertificateIdentityStore \<Rightarrow> CertificateIdentity option" where
  "cis_find fingerprint s = get (cis_identities s) fingerprint"

text \<open>The decision, and what it writes into the operational status; the counter of rejects is not modelled.\<close>

definition cis_allow :: "string \<Rightarrow> CertificateIdentityStore \<Rightarrow> OperationalStatus \<Rightarrow> bool \<times> OperationalStatus" where
  "cis_allow fingerprint s ops = (case cis_find fingerprint s of
     None \<Rightarrow> (False, update_cert_identity ''unknown'' ops)
   | Some c \<Rightarrow> (cert_state_allows_device c, update_cert_identity (ci_state c) ops))"

definition cis_mark_state :: "string \<Rightarrow> string \<Rightarrow> CertificateIdentityStore \<Rightarrow> CertificateIdentityStore" where
  "cis_mark_state fingerprint st s = (case get (cis_identities s) fingerprint of None \<Rightarrow> s
     | Some c \<Rightarrow> cis_save (s\<lparr>cis_identities := put fingerprint (c\<lparr>ci_state := st\<rparr>) (cis_identities s)\<rparr>))"

definition cis_promote_pending :: "string \<Rightarrow> CertificateIdentityStore \<Rightarrow> CertificateIdentityStore" where
  "cis_promote_pending fingerprint s = (case get (cis_identities s) fingerprint of None \<Rightarrow> s
     | Some c \<Rightarrow>
       if ci_state c \<noteq> ''pending'' then s
       else let s1 = (if ci_rotated_from_fingerprint c \<noteq> [] then cis_mark_state (ci_rotated_from_fingerprint c) ''expired'' s else s)
         in cis_save (s1\<lparr>cis_identities := put fingerprint (c\<lparr>ci_state := ''active''\<rparr>) (cis_identities s1)\<rparr>))"

section \<open>Device id and credentials\<close>

text \<open>\<open>cache\<close> is the function's static string; \<open>machine_id\<close> what \<^verbatim>\<open>/etc/machine-id\<close> holds, if it can be read.\<close>

definition device_id :: "extern \<Rightarrow> (string \<Rightarrow> string option) \<Rightarrow> string option \<Rightarrow> Config \<Rightarrow> string \<Rightarrow> string \<times> string" where
  "device_id ext env machine_id c cache = (if cache \<noteq> [] then (cache, cache)
     else let opt = (\<lambda>v. case v of Some x \<Rightarrow> x | None \<Rightarrow> []);
         raw = (if identity_use_tpm (c_identity c) then ''tpm''
           else opt (env ''RMVP_CPU_SERIAL'') @ opt (env ''RMVP_MACS'') @
             (case env ''RMVP_MACHINE_ID'' of Some m \<Rightarrow> m | None \<Rightarrow> takeWhile (\<lambda>ch. ch \<noteq> CHR 0x0A) (opt machine_id)));
         i = identity_device_id_prefix (c_identity c) @ hex_nat (unat (std_hash ext raw))
       in (i, i))"

record TlsCreds =
  tc_cert_pem :: string
  tc_key_ref :: string
  tc_key_is_engine :: bool

text \<open>\<open>mode\<close> is what \<^verbatim>\<open>stat\<close> reports for a path, \<open>None\<close> if it fails.\<close>

definition validate_perms :: "(string \<Rightarrow> 32 word option) \<Rightarrow> string \<Rightarrow> bool" where
  "validate_perms mode key_path = (case mode key_path of None \<Rightarrow> False | Some m \<Rightarrow> and m 63 = 0)"

text \<open>The two exceptions by their messages.\<close>

definition load_from_config :: "(string \<Rightarrow> string option) \<Rightarrow> (string \<Rightarrow> string option) \<Rightarrow> (string \<Rightarrow> 32 word option) \<Rightarrow> Config \<Rightarrow> string + TlsCreds" where
  "load_from_config env files mode c = (case files (SecretRef_load env (aws_cert (c_aws c))) of None \<Rightarrow> Inl ''missing cert''
     | Some pem \<Rightarrow>
       let key = SecretRef_load env (aws_key (c_aws c))
       in if \<not> identity_use_tpm (c_identity c) \<and> \<not> validate_perms mode key then Inl ''weak key permissions''
          else Inr \<lparr>tc_cert_pem = pem, tc_key_ref = key, tc_key_is_engine = identity_use_tpm (c_identity c)\<rparr>)"

section \<open>Histories\<close>

datatype cert_op = Upsert CertificateIdentity | Mark string string | Promote string | Restart

fun cert_step :: "extern \<Rightarrow> cert_op \<Rightarrow> CertificateIdentityStore \<Rightarrow> CertificateIdentityStore" where
  "cert_step ext (Upsert c) s = cis_upsert c s"
| "cert_step ext (Mark f st) s = cis_mark_state f st s"
| "cert_step ext (Promote f) s = cis_promote_pending f s"
| "cert_step ext Restart s = CertificateIdentityStore_new ext (cis_store_path s) (cis_file s)"

text \<open>The entries stand under their fingerprints, and the file, if there is one, holds them.\<close>

definition cis_inv :: "CertificateIdentityStore \<Rightarrow> bool" where
  "cis_inv s \<longleftrightarrow> keyed ci_fingerprint_sha256 (cis_identities s) \<and> cis_store_path s \<noteq> [] \<and>
     (cis_file s = Some (JObj [(''schema'', JInt 1), (''cert_identities'', values_json cert_to_json (cis_identities s))]) \<or>
      cis_file s = None \<and> cis_identities s = [])"

lemma cert_json_roundtrip: "value_laws ext \<Longrightarrow> cert_from_json ext (cert_to_json c) v = Inr c"
  by (simp add: cert_from_json_def cert_to_json_def value_back)

lemma cis_save_fields [simp]: "cis_identities (cis_save s) = cis_identities s" "cis_store_path (cis_save s) = cis_store_path s"
  by (simp_all add: cis_save_def)

lemma cis_saved_inv: "cis_store_path s \<noteq> [] \<Longrightarrow> keyed ci_fingerprint_sha256 (cis_identities s) \<Longrightarrow> cis_inv (cis_save s)"
  by (simp add: cis_inv_def cis_save_def)

lemma mark_state_parts:
  "cis_store_path (cis_mark_state f st s) = cis_store_path s"
  "cis_identities (cis_mark_state f st s) = (case get (cis_identities s) f of None \<Rightarrow> cis_identities s | Some c \<Rightarrow> put f (c\<lparr>ci_state := st\<rparr>) (cis_identities s))"
  by (simp_all add: cis_mark_state_def split: option.split)

lemma mark_state_keyed: "keyed ci_fingerprint_sha256 (cis_identities s) \<Longrightarrow> keyed ci_fingerprint_sha256 (cis_identities (cis_mark_state f st s))"
  using keyed_get [of ci_fingerprint_sha256 "cis_identities s" f] by (auto simp: mark_state_parts split: option.split)

lemma promote_inv:
  assumes "cis_inv s"
  shows "cis_inv (cis_promote_pending f s)"
proof (cases "get (cis_identities s) f")
  case (Some c)
  define s1 where "s1 = (if ci_rotated_from_fingerprint c \<noteq> [] then cis_mark_state (ci_rotated_from_fingerprint c) ''expired'' s else s)"
  have k: "keyed ci_fingerprint_sha256 (cis_identities s)" and p: "cis_store_path s \<noteq> []" using assms by (simp_all add: cis_inv_def)
  have "cis_inv (cis_save (s1\<lparr>cis_identities := put f (c\<lparr>ci_state := ''active''\<rparr>) (cis_identities s1)\<rparr>))"
    using mark_state_keyed [OF k] k p keyed_get [OF k Some] by (intro cis_saved_inv) (auto simp: s1_def mark_state_parts)
  then show ?thesis using assms Some by (simp add: cis_promote_pending_def Let_def s1_def)
qed (use assms in \<open>simp add: cis_promote_pending_def\<close>)

lemma cis_restart:
  assumes "value_laws ext" "cis_inv s"
  shows "CertificateIdentityStore_new ext (cis_store_path s) (cis_file s) = s"
proof -
  have k: "keyed ci_fingerprint_sha256 (cis_identities s)" using assms(2) by (simp add: cis_inv_def)
  have "snd (load_until (\<lambda>j. cert_from_json ext j CertificateIdentity_default) ci_fingerprint_sha256 (map cert_to_json (vals (cis_identities s))) []) =
      cis_identities s"
    using load_until_back [of "cis_identities s" "\<lambda>j. cert_from_json ext j CertificateIdentity_default" cert_to_json "[]" ci_fingerprint_sha256]
      k cert_json_roundtrip [OF assms(1)] by (simp add: keyed_def)
  then show ?thesis
    using assms by (cases s) (auto simp: CertificateIdentityStore_new_def cis_load_def cis_inv_def values_json_def value_back)
qed

lemma mark_state_inv: "cis_inv s \<Longrightarrow> cis_inv (cis_mark_state f st s)"
  using mark_state_keyed [of s f st] by (auto simp: cis_mark_state_def mark_state_parts cis_inv_def cis_save_def split: option.split)

lemma upsert_inv: "cis_inv s \<Longrightarrow> cis_inv (cis_upsert c s)"
  unfolding cis_upsert_def by (intro cis_saved_inv) (auto simp: cis_inv_def)

lemma cert_step_inv: "value_laws ext \<Longrightarrow> cis_inv s \<Longrightarrow> cis_inv (cert_step ext x s)"
  by (cases x) (simp_all add: promote_inv cis_restart mark_state_inv upsert_inv)

lemma cert_run_inv: "value_laws ext \<Longrightarrow> cis_inv s \<Longrightarrow> cis_inv (fold (cert_step ext) xs s)"
  by (induction xs arbitrary: s) (auto simp: cert_step_inv)

section \<open>Properties\<close>

text \<open>
  Over any sequence of operations, restarts among them, of a store that started without a file: another restart changes nothing.
\<close>

theorem cert_store_survives:
  assumes "value_laws ext" "path \<noteq> []" "s = fold (cert_step ext) xs (CertificateIdentityStore_new ext path None)"
  shows "CertificateIdentityStore_new ext path (cis_file s) = s"
proof -
  have "cis_inv (CertificateIdentityStore_new ext path None)"
    using assms(2) by (simp add: cis_inv_def CertificateIdentityStore_new_def cis_load_def)
  from cert_run_inv [OF assms(1) this] have i: "cis_inv s" using assms(3) by simp
  have "cis_store_path (cert_step ext x u) = cis_store_path u" for x u
    by (cases x) (simp_all add: cis_upsert_def mark_state_parts cis_promote_pending_def CertificateIdentityStore_new_def cis_load_def Let_def
        split: option.split sum.split)
  then have "cis_store_path (fold (cert_step ext) ys u) = cis_store_path u" for ys u by (induction ys arbitrary: u) simp_all
  then have "cis_store_path s = path" using assms(3) by (simp add: CertificateIdentityStore_new_def cis_load_def)
  then show ?thesis using cis_restart [OF assms(1) i] by simp
qed

text \<open>
  A certificate that is waiting to replace another: promoting it makes it the active one and ends the other; nobody else's
  certificate is touched.
\<close>

theorem rotation_swaps:
  assumes "cis_find f s = Some c" "ci_state c = ''pending''" "ci_rotated_from_fingerprint c = g" "g \<noteq> []" "g \<noteq> f"
  shows "fst (cis_allow f (cis_promote_pending f s) o1) \<and> \<not> fst (cis_allow g (cis_promote_pending f s) o1) \<and>
    (\<forall>h. h \<notin> {f, g} \<longrightarrow> cis_find h (cis_promote_pending f s) = cis_find h s)"
  using assms
  by (auto simp: cis_allow_def cis_find_def cis_promote_pending_def Let_def mark_state_parts cert_state_allows_device_def split: option.split)

text \<open>Whether an operation names the certificate \<open>f\<close> as the one to enter or to mark.\<close>

fun names_cert :: "string \<Rightarrow> cert_op \<Rightarrow> bool" where
  "names_cert f (Upsert c) \<longleftrightarrow> ci_fingerprint_sha256 c = f"
| "names_cert f (Mark g st) \<longleftrightarrow> g = f"
| "names_cert f _ \<longleftrightarrow> False"

lemma refused_step:
  assumes "value_laws ext" "cis_inv s" "\<not> names_cert f x" "\<not> fst (cis_allow f s o1)"
  shows "\<not> fst (cis_allow f (cert_step ext x s) o1)"
proof (cases x)
  case (Promote g)
  then show ?thesis
    using assms(4)
    by (auto simp: cis_allow_def cis_find_def cis_promote_pending_def Let_def mark_state_parts cert_state_allows_device_def split: option.splits if_splits)
qed (use assms in \<open>auto simp: cis_restart cis_allow_def cis_find_def cis_upsert_def mark_state_parts split: option.splits\<close>)

text \<open>
  A certificate that is not let in stays out, whatever is promoted and however often the store is restarted, as long as nobody enters
  or marks that very certificate.
\<close>

theorem refused_stays_refused:
  assumes "value_laws ext" "cis_inv s" "\<not> fst (cis_allow f s o1)" "list_all (\<lambda>x. \<not> names_cert f x) xs"
  shows "\<not> fst (cis_allow f (fold (cert_step ext) xs s) o1)"
  using assms(2-4)
proof (induction xs arbitrary: s)
  case (Cons x xs)
  then show ?case using cert_step_inv [OF assms(1), of s x] refused_step [OF assms(1), of s f x o1] by simp
qed simp

text \<open>
  With a TPM the id is a hash of a constant: all devices with the same prefix have the same id.
\<close>

lemma tpm_devices_share_id:
  assumes "identity_use_tpm (c_identity c)" "identity_use_tpm (c_identity c')"
    and "identity_device_id_prefix (c_identity c) = identity_device_id_prefix (c_identity c')"
  shows "fst (device_id ext env m c []) = fst (device_id ext env' m' c' [])"
  using assms by (simp add: device_id_def Let_def)

text \<open>Without a TPM, credentials are only loaded if nobody but the owner has any permission on the key file.\<close>

lemma credentials_need_private_key:
  assumes "load_from_config env files mode c = Inr tc" "\<not> identity_use_tpm (c_identity c)"
  shows "\<exists>m. mode (tc_key_ref tc) = Some m \<and> (\<forall>i < 6. \<not> bit m i)"
proof -
  from assms obtain m where m: "mode (tc_key_ref tc) = Some m" "and m 63 = 0"
    by (auto simp: load_from_config_def validate_perms_def Let_def split: option.splits if_splits)
  have "bit (63 :: 32 word) i" if "i < 6" for i
    using that by (auto simp: less_Suc_eq eval_nat_numeral)
  then have "\<not> bit m i" if "i < 6" for i using m(2) that by (metis bit_0_eq bit_and_iff bot_apply bot_bool_def)
  with m(1) show ?thesis by blast
qed

end
