(* ===== verification/Eol_Runner.thy ===== *)
theory Eol_Runner
  imports Device_Identity Txn_Engine
begin

text \<open>
  The end-of-line test of a finished register (\<^verbatim>\<open>src/eol/eol_runner.cpp\<close>) over the interfaces of shutter, dispenser and scale. The file
  system is the texts that can be read and the files the run writes; the version and the printing of doubles are
  arguments. The results: when a register passes, and, on the real machine, that a register that passes has counted its
  coins and stands closed; and why a register with a scale cannot pass.
\<close>

section \<open>Results\<close>

record EolStepResult =
  el_name :: string
  el_ok :: bool
  el_reason :: string
  el_value :: real

record EolResult =
  eo_pass :: bool
  eo_device_id :: string
  eo_serial :: string
  eo_version :: string
  eo_steps :: "EolStepResult list"
  eo_dispensed :: int
  eo_expected_g :: real
  eo_measured_g :: real
  eo_delta_g :: real
  eo_report_path :: string

text \<open>A call may wait for ever, throw, or return.\<close>

datatype 'a eol_outcome = Hangs | Throws | Returns 'a

text \<open>\<^verbatim>\<open>IScale::read_average\<close>; \<open>None\<close> is the exception of the scale.\<close>

type_synonym 'w IScale = "int \<Rightarrow> 'w \<Rightarrow> (int \<times> 'w) option"

record 'w Runner =
  ru_shutter :: "'w IShutter"
  ru_dispenser :: "'w IDispenser"
  ru_scale :: "'w IScale option"
  ru_telemetry_path :: string

section \<open>The run\<close>

text \<open>\<^verbatim>\<open>operator/\<close> of paths.\<close>

definition path_join :: "string \<Rightarrow> string \<Rightarrow> string" where
  "path_join a b = (if b \<noteq> [] \<and> hd b = CHR ''/'' then b else if a = [] \<or> last a = CHR ''/'' then a @ b else a @ ''/'' @ b)"

definition eol_step :: "string \<Rightarrow> bool \<Rightarrow> string \<Rightarrow> real \<Rightarrow> EolStepResult" where
  "eol_step name ok reason val = \<lparr>el_name = name, el_ok = ok, el_reason = (if ok then [] else reason), el_value = val\<rparr>"

text \<open>The weights expected and measured, their difference, and the step they give.\<close>

definition weigh :: "Config \<Rightarrow> int \<Rightarrow> int \<Rightarrow> real \<times> real \<times> real \<times> EolStepResult" where
  "weigh cfg pre post =
     (let measured = real_of_int (post - pre) * audit_grams_per_raw (c_audit cfg);
          expected = real_of_int (eol_coins_for_test (c_eol cfg)) * audit_coin_mass_g (c_audit cfg);
          delta = measured - expected
      in (expected, measured, delta, eol_step ''Scale verify'' (\<bar>delta\<bar> \<le> eol_weigh_tolerance_g (c_eol cfg))
            (if delta < 0 then ''UNDERPAY'' else ''OVERPAY'') measured))"

definition scale_step :: "Config \<Rightarrow> 'w IScale option \<Rightarrow> 'w \<Rightarrow> ((real \<times> real \<times> real \<times> EolStepResult) \<times> 'w) option" where
  "scale_step cfg sc w = (case sc of
     None \<Rightarrow> Some ((0, 0, 0, \<lparr>el_name = ''Scale verify'', el_ok = True, el_reason = ''NOSCALE'', el_value = 0\<rparr>), w)
   | Some rd \<Rightarrow> (case rd (audit_samples_pre (c_audit cfg)) w of None \<Rightarrow> None
     | Some (pre, w1) \<Rightarrow> (case rd (audit_samples_post (c_audit cfg)) w1 of None \<Rightarrow> None
       | Some (post, w2) \<Rightarrow> Some (weigh cfg pre post, w2))))"

text \<open>Opening and, if that succeeded, closing.\<close>

definition eol_present :: "'w IShutter \<Rightarrow> int \<Rightarrow> 'w \<Rightarrow> bool \<times> 'w" where
  "eol_present sh mm w = (case sh_open_mm sh mm [] w of (ok, _, w1) \<Rightarrow>
     if \<not> ok then (False, w1) else case sh_close_mm sh mm [] w1 of (ok2, _, w2) \<Rightarrow> (ok2, w2))"

definition telemetry_seen :: "(string \<Rightarrow> string option) \<Rightarrow> string \<Rightarrow> bool" where
  "telemetry_seen files path = (case files path of None \<Rightarrow> False | Some txt \<Rightarrow> contains ''status=OK'' txt)"

definition report_json :: "bool \<Rightarrow> string \<Rightarrow> string" where
  "report_json pass serial = ''{'' @ [CHR 0x0A] @ ''  \"pass\":'' @ (if pass then ''true'' else ''false'') @ '','' @ [CHR 0x0A] @
     ''  \"serial\":\"'' @ serial @ ''\"'' @ [CHR 0x0A] @ ''}''"

definition report_csv :: "(real \<Rightarrow> string) \<Rightarrow> EolStepResult list \<Rightarrow> string" where
  "report_csv fmt steps = ''name,ok,reason,value'' @ [CHR 0x0A] @
     concat (map (\<lambda>s. el_name s @ '','' @ (if el_ok s then ''1'' else ''0'') @ '','' @ el_reason s @ '','' @ fmt (el_value s) @ [CHR 0x0A]) steps)"

definition run_once :: "(real \<Rightarrow> string) \<Rightarrow> string \<Rightarrow> string \<Rightarrow> (string \<Rightarrow> string option) \<Rightarrow> 'w Runner \<Rightarrow> Config \<Rightarrow> 'w \<Rightarrow>
    (EolResult \<times> (string \<times> string) list \<times> 'w) eol_outcome" where
  "run_once fmt dev version files ru cfg w =
     (let dir = path_join (eol_result_dir (c_eol cfg)) dev in
      case sh_home (ru_shutter ru) (mech_max_mm (c_mech cfg)) [] w of (homed, _, w1) \<Rightarrow>
      case ru_dispenser ru (eol_coins_for_test (c_eol cfg)) w1 of None \<Rightarrow> Hangs
      | Some (d, w2) \<Rightarrow>
      case scale_step cfg (ru_scale ru) w2 of None \<Rightarrow> Throws
      | Some ((expected, measured, delta, weighed), w3) \<Rightarrow>
      case eol_present (ru_shutter ru) (eol_open_mm (c_eol cfg)) w3 of (presented, w4) \<Rightarrow>
      let steps = [eol_step ''Self-check'' True [] 0, eol_step ''Home shutter'' homed ''HOME_FAIL'' 0,
            eol_step ''Dispense'' (ds_ok d) (ds_reason d) (real_of_int (ds_dispensed d)), weighed, eol_step ''Present'' presented ''PRESENT_FAIL'' 0,
            eol_step ''Telemetry seen'' (telemetry_seen files (ru_telemetry_path ru)) ''MISSING'' 0];
          pass = list_all el_ok steps
      in Returns (\<lparr>eo_pass = pass, eo_device_id = dev, eo_serial = dev, eo_version = version, eo_steps = steps, eo_dispensed = ds_dispensed d,
           eo_expected_g = expected, eo_measured_g = measured, eo_delta_g = delta, eo_report_path = path_join dir ''result.json''\<rparr>,
           [(path_join dir ''result.json'', report_json pass dev), (path_join dir ''result.csv'', report_csv fmt steps)], w4))"

definition parent_path :: "string \<Rightarrow> string" where
  "parent_path s = (let d = rev (dropWhile (\<lambda>c. c = CHR ''/'') (dropWhile (\<lambda>c. c \<noteq> CHR ''/'') (rev s)))
     in if d = [] \<and> s \<noteq> [] \<and> hd s = CHR ''/'' then ''/'' else d)"

text \<open>The name of the file that records the verdict, in the directory of the report; the file stays empty.\<close>

definition stamp_pass_fail :: "EolResult \<Rightarrow> string \<times> string" where
  "stamp_pass_fail r = (path_join (parent_path (eo_report_path r)) (if eo_pass r then ''PASS'' else ''FAIL''), [])"

section \<open>When a register passes\<close>

lemma eol_step_ok [simp]: "el_ok (eol_step n ok r v) = ok"
  by (simp add: eol_step_def)

lemma run_once_cases:
  assumes "run_once fmt dev version files ru cfg w = Returns (r, out, w')"
  obtains homed ra w1 d w2 x w3 presented where
    "sh_home (ru_shutter ru) (mech_max_mm (c_mech cfg)) [] w = (homed, ra, w1)"
    "ru_dispenser ru (eol_coins_for_test (c_eol cfg)) w1 = Some (d, w2)" "scale_step cfg (ru_scale ru) w2 = Some (x, w3)"
    "eol_present (ru_shutter ru) (eol_open_mm (c_eol cfg)) w3 = (presented, w')" "eo_dispensed r = ds_dispensed d"
    "eo_steps r ! 3 = snd (snd (snd x))"
    "eo_pass r \<longleftrightarrow> homed \<and> ds_ok d \<and> el_ok (snd (snd (snd x))) \<and> presented \<and> telemetry_seen files (ru_telemetry_path ru)"
  using assms unfolding run_once_def Let_def by (auto split: prod.splits option.splits)

text \<open>What the test station relies on: the contracts of dispenser and shutter, and that homing leaves the dispenser usable.\<close>

locale eol_station =
  dispenser disp winv + shutter sh is_open is_closed
  for disp :: "'w IDispenser" and winv :: "'w \<Rightarrow> bool" and sh :: "'w IShutter" and is_open :: "'w \<Rightarrow> bool" and is_closed :: "'w \<Rightarrow> bool" +
  assumes home_inv: "winv w \<Longrightarrow> sh_home sh mm r w = (b, r', w') \<Longrightarrow> winv w'"
begin

lemma present_closed: "eol_present sh mm w = (True, w') \<Longrightarrow> is_closed w'"
  using close_closed by (auto simp: eol_present_def split: prod.splits if_splits)

lemma pass_counts_and_closes:
  assumes "ru_shutter ru = sh" "ru_dispenser ru = disp" "winv w" "1 \<le> eol_coins_for_test (c_eol cfg)"
    and "run_once fmt dev version files ru cfg w = Returns (r, out, w')" "eo_pass r"
  shows "eo_dispensed r = eol_coins_for_test (c_eol cfg) \<and> is_closed w'"
  using assms(5)
proof (cases rule: run_once_cases)
  case (1 homed ra w1 d w2 x w3 presented)
  have i: "winv w1" using home_inv [OF assms(3)] 1(1) assms(1) by blast
  have "ds_ok d" "presented" using 1(7) assms(6) by simp_all
  then show ?thesis using disp_ok [OF i assms(4)] present_closed 1 assms(1,2) by fastforce
qed

end

interpretation eolm: eol_station machine_disp "\<lambda>m. retrying (mc_ctl m)" machine_shutter "\<lambda>m. rests OPEN (mc_fsm m)" "\<lambda>m. rests CLOSED (mc_fsm m)"
proof (intro eol_station.intro eol_station_axioms.intro)
  show "dispenser machine_disp (\<lambda>m. retrying (mc_ctl m))" "shutter machine_shutter (\<lambda>m. rests OPEN (mc_fsm m)) (\<lambda>m. rests CLOSED (mc_fsm m))"
    using mc.dispenser_axioms mc.shutter_axioms by (simp_all add: machine_engine_def)
  show "retrying (mc_ctl w) \<Longrightarrow> sh_home machine_shutter mm r w = (b, r', w') \<Longrightarrow> retrying (mc_ctl w')" for w mm r b r' w'
    by (auto simp: machine_shutter_def on_fsm_def split: prod.splits)
qed

section \<open>Properties\<close>

text \<open>
  On the machine the program assembles, a register that passes has counted exactly the coins of the test and rests closed with the
  motor off, whatever scale is attached.
\<close>

theorem eol_pass_means:
  assumes "ru_shutter ru = machine_shutter" "ru_dispenser ru = machine_disp" "retrying (mc_ctl w)" "1 \<le> eol_coins_for_test (c_eol cfg)"
    and "run_once fmt dev version files ru cfg w = Returns (r, out, w')" "eo_pass r"
  shows "eo_dispensed r = eol_coins_for_test (c_eol cfg) \<and> rests CLOSED (mc_fsm w')"
  by (rule eolm.pass_counts_and_closes [OF assms])

text \<open>
  The scale is read twice after the coins fell: a scale that shows the same weight both times, as it should then, makes every register
  fail whose coins weigh more than the tolerance.
\<close>

theorem steady_scale_fails:
  assumes "run_once fmt dev version files ru cfg w = Returns (r, out, w')" "ru_scale ru = Some (\<lambda>_ w. Some (v, w))"
    and "eol_weigh_tolerance_g (c_eol cfg) < real_of_int (eol_coins_for_test (c_eol cfg)) * audit_coin_mass_g (c_audit cfg)"
    and "0 \<le> eol_weigh_tolerance_g (c_eol cfg)"
  shows "\<not> eo_pass r \<and> el_reason (eo_steps r ! 3) = ''UNDERPAY''"
  using assms(1)
proof (cases rule: run_once_cases)
  case (1 homed ra w1 d w2 x w3 presented)
  have "snd (snd (snd x)) = eol_step ''Scale verify'' False ''UNDERPAY'' 0"
    using 1(3) assms(2-4) by (auto simp: scale_step_def weigh_def Let_def eol_step_def)
  then show ?thesis using 1(6,7) by (simp add: eol_step_def)
qed

text \<open>The verdict is stamped beside the report.\<close>

lemma stamp_beside_report:
  assumes "dir \<noteq> []" "last dir \<noteq> CHR ''/''" "eo_report_path r = path_join dir ''result.json''"
  shows "fst (stamp_pass_fail r) = dir @ ''/'' @ (if eo_pass r then ''PASS'' else ''FAIL'')"
proof -
  have "dropWhile (\<lambda>c. c = CHR ''/'') (rev dir) = rev dir" using assms(1,2) by (cases dir rule: rev_cases) auto
  then have "parent_path (eo_report_path r) = dir" using assms by (simp add: parent_path_def path_join_def Let_def)
  then show ?thesis using assms(1,2) by (simp add: stamp_pass_fail_def path_join_def)
qed

section \<open>The test over HTTP\<close>

text \<open>
  \<^verbatim>\<open>src/server/eol_endpoint.cpp\<close>: what the routes answer, and the flag of a running test, which a start reads and then sets in two
  steps. A start is where its handler is, and then where the thread it made is.
\<close>

definition eol_started :: "bool \<Rightarrow> int \<times> string" where
  "eol_started started = (if started then (200, ''{\"started\":true}'') else (409, ''{\"started\":false}''))"

definition eol_status :: "bool \<Rightarrow> EolStepResult list \<Rightarrow> int \<times> string" where
  "eol_status busy steps = (200, ''{\"busy\":'' @ (if busy then ''true'' else ''false'') @ '',\"step\":\"'' @
     (if busy \<and> steps \<noteq> [] then el_name (last steps) else ''idle'') @ ''\"}'')"

definition eol_result :: "(string \<Rightarrow> string option) \<Rightarrow> string \<Rightarrow> int \<times> string" where
  "eol_result files report_path = (if report_path = [] then (404, []) else (200, case files report_path of None \<Rightarrow> [] | Some txt \<Rightarrow> txt))"

datatype eol_start = Arrived | Passed | Running | Refused | Finished

inductive eol_ep_step :: "bool \<times> eol_start list \<Rightarrow> bool \<times> eol_start list \<Rightarrow> bool" where
  read_busy: "i < length ps \<Longrightarrow> ps ! i = Arrived \<Longrightarrow> eol_ep_step (busy, ps) (busy, ps[i := if busy then Refused else Passed])"
| set_busy: "i < length ps \<Longrightarrow> ps ! i = Passed \<Longrightarrow> eol_ep_step (busy, ps) (True, ps[i := Running])"
| run_ends: "i < length ps \<Longrightarrow> ps ! i = Running \<Longrightarrow> eol_ep_step (busy, ps) (False, ps[i := Finished])"

text \<open>Two starts that arrive together both run the test, and the first to end clears the flag of the other.\<close>

lemma two_tests_at_once:
  "eol_ep_step\<^sup>*\<^sup>* (False, [Arrived, Arrived]) (True, [Running, Running]) \<and> eol_ep_step (True, [Running, Running]) (False, [Finished, Running])"
proof
  have s: "eol_ep_step (False, [Arrived, Arrived]) (False, [Passed, Arrived])" "eol_ep_step (False, [Passed, Arrived]) (False, [Passed, Passed])"
    "eol_ep_step (False, [Passed, Passed]) (True, [Running, Passed])" "eol_ep_step (True, [Running, Passed]) (True, [Running, Running])"
    using read_busy [of 0 "[Arrived, Arrived]" False] read_busy [of 1 "[Passed, Arrived]" False] set_busy [of 0 "[Passed, Passed]" False]
      set_busy [of 1 "[Running, Passed]" True] by simp_all
  show "eol_ep_step\<^sup>*\<^sup>* (False, [Arrived, Arrived]) (True, [Running, Running])"
    by (rule converse_rtranclp_into_rtranclp s rtranclp.rtrancl_refl)+
  show "eol_ep_step (True, [Running, Running]) (False, [Finished, Running])" using run_ends [of 0 "[Running, Running]" True] by simp
qed

text \<open>Starts that come one after the other exclude each other: while one runs, the next is refused.\<close>

lemma later_start_refused:
  assumes "eol_ep_step (True, ps) (busy, ps')" "i < length ps" "ps ! i = Arrived" "ps' ! i \<noteq> Arrived"
  shows "ps' ! i = Refused"
  using assms by (cases rule: eol_ep_step.cases) (auto simp: nth_list_update split: if_splits)

end
