(* ===== verification/Metrics.thy ===== *)
theory Metrics
  imports Prelude "HOL-Library.Word" "HOL-Library.List_Lexorder" "HOL-Library.Product_Lexorder" "HOL-Library.Char_ord"
begin

text \<open>
  The metrics of the program (\<^verbatim>\<open>src/obs/metrics.cpp\<close>) with their two text formats, and the service-level indicators over a window
  (\<^verbatim>\<open>src/obs/sli_slo.cpp\<close>). A metric's atomic updates are single steps; the printing of doubles is an argument. The
  results: what a histogram counts, that a success rate is a rate as long as the counters it is fed only grow, and the
  inputs for which the registry reads the wrong object.
\<close>

section \<open>Histograms\<close>

record Histogram =
  hi_buckets :: "real list"
  hi_counts :: "int list"
  hi_sum :: real
  hi_count :: int

definition Histogram_new :: "real list \<Rightarrow> Histogram" where
  "Histogram_new buckets = \<lparr>hi_buckets = buckets, hi_counts = replicate (length buckets + 1) 0, hi_sum = 0, hi_count = 0\<rparr>"

text \<open>The index of the first bucket that holds the value, the number of buckets if none does.\<close>

fun first_bucket :: "real \<Rightarrow> real list \<Rightarrow> nat" where
  "first_bucket v [] = 0"
| "first_bucket v (b # bs) = (if v \<le> b then 0 else Suc (first_bucket v bs))"

definition hi_observe :: "real \<Rightarrow> Histogram \<Rightarrow> Histogram" where
  "hi_observe v h = h\<lparr>hi_sum := hi_sum h + v, hi_count := hi_count h + 1,
     hi_counts := map (\<lambda>(j, c). if first_bucket v (hi_buckets h) \<le> j then c + 1 else c) (enumerate 0 (hi_counts h))\<rparr>"

section \<open>The registry\<close>

datatype metric_type = Counter | Gauge | Hist

text \<open>What is behind a pointer of the registry. The type of a family is only a tag: reading an object of another type is undefined
  behaviour, \<open>None\<close>.\<close>

datatype metric = MCounter real | MGauge real | MHist Histogram

type_synonym Labels = "(string \<times> string) list"

record MetricFamily =
  mf_type :: metric_type
  mf_help :: string
  mf_buckets :: "real list"
  mf_metrics :: "(Labels, metric) amap"

definition MetricFamily_default :: MetricFamily where
  "MetricFamily_default = \<lparr>mf_type = Counter, mf_help = [], mf_buckets = [], mf_metrics = []\<rparr>"

type_synonym Metrics = "(string, MetricFamily) amap"

definition family :: "string \<Rightarrow> Metrics \<Rightarrow> MetricFamily" where
  "family name m = (case get m name of Some f \<Rightarrow> f | None \<Rightarrow> MetricFamily_default)"

definition with_metric :: "Labels \<Rightarrow> metric \<Rightarrow> MetricFamily \<Rightarrow> MetricFamily" where
  "with_metric ls x f = (if get (mf_metrics f) ls = None then f\<lparr>mf_metrics := put ls x (mf_metrics f)\<rparr> else f)"

definition m_counter :: "string \<Rightarrow> string \<Rightarrow> Labels \<Rightarrow> Metrics \<Rightarrow> Metrics" where
  "m_counter name hp ls m = put name (with_metric ls (MCounter 0) ((family name m)\<lparr>mf_type := Counter, mf_help := hp\<rparr>)) m"

definition m_gauge :: "string \<Rightarrow> string \<Rightarrow> Labels \<Rightarrow> Metrics \<Rightarrow> Metrics" where
  "m_gauge name hp ls m = put name (with_metric ls (MGauge 0) ((family name m)\<lparr>mf_type := Gauge, mf_help := hp\<rparr>)) m"

definition m_histogram :: "string \<Rightarrow> string \<Rightarrow> real list \<Rightarrow> Labels \<Rightarrow> Metrics \<Rightarrow> Metrics" where
  "m_histogram name hp buckets ls m =
     (let f = (family name m)\<lparr>mf_type := Hist, mf_help := hp\<rparr>;
          f1 = (if mf_buckets f = [] then f\<lparr>mf_buckets := buckets\<rparr> else f)
      in put name (with_metric ls (MHist (Histogram_new (mf_buckets f1))) f1) m)"

text \<open>An update through the reference the registry returned.\<close>

definition at_metric :: "string \<Rightarrow> Labels \<Rightarrow> (metric \<Rightarrow> metric option) \<Rightarrow> Metrics \<Rightarrow> Metrics option" where
  "at_metric name ls f m = (case get (mf_metrics (family name m)) ls of None \<Rightarrow> None
     | Some x \<Rightarrow> map_option (\<lambda>y. put name ((family name m)\<lparr>mf_metrics := put ls y (mf_metrics (family name m))\<rparr>) m) (f x))"

fun counter_inc :: "real \<Rightarrow> metric \<Rightarrow> metric option" where
  "counter_inc d (MCounter v) = Some (MCounter (v + d))"
| "counter_inc d _ = None"

fun gauge_set :: "real \<Rightarrow> metric \<Rightarrow> metric option" where
  "gauge_set d (MGauge v) = Some (MGauge d)"
| "gauge_set d _ = None"

fun gauge_inc :: "real \<Rightarrow> metric \<Rightarrow> metric option" where
  "gauge_inc d (MGauge v) = Some (MGauge (v + d))"
| "gauge_inc d _ = None"

fun hist_observe :: "real \<Rightarrow> metric \<Rightarrow> metric option" where
  "hist_observe d (MHist h) = Some (MHist (hi_observe d h))"
| "hist_observe d _ = None"

section \<open>Text formats\<close>

text \<open>The maps of the code are ordered; \<open>None\<close> is undefined behaviour. \<open>fmt\<close> prints a double on a stream, \<open>fmtf\<close> is \<^verbatim>\<open>std::to_string\<close>.\<close>

definition commas :: "string list \<Rightarrow> string" where
  "commas xs = (case xs of [] \<Rightarrow> [] | y # ys \<Rightarrow> y @ concat (map (\<lambda>z. '','' @ z) ys))"

definition fmt_labels :: "Labels \<Rightarrow> string" where
  "fmt_labels ls = (if ls = [] then [] else ''{'' @ commas (map (\<lambda>(k, v). k @ ''=\"'' @ v @ ''\"'') ls) @ ''}'')"

definition text_line :: "string \<Rightarrow> string \<Rightarrow> string" where
  "text_line head value = head @ '' '' @ value @ [CHR 0x0A]"

definition type_name :: "metric_type \<Rightarrow> string" where
  "type_name ty = (case ty of Counter \<Rightarrow> ''counter'' | Gauge \<Rightarrow> ''gauge'' | Hist \<Rightarrow> ''histogram'')"

definition hist_text :: "(real \<Rightarrow> string) \<Rightarrow> (real \<Rightarrow> string) \<Rightarrow> string \<Rightarrow> real list \<Rightarrow> Labels \<Rightarrow> Histogram \<Rightarrow> string option" where
  "hist_text fmt fmtf name buckets ls h = (if length (hi_counts h) < length buckets \<or> hi_counts h = [] then None
     else Some (concat (map (\<lambda>(b, c). text_line (name @ ''_bucket'' @ fmt_labels (sput ''le'' (fmtf b) ls)) (to_string c)) (zip buckets (hi_counts h))) @
       text_line (name @ ''_bucket'' @ fmt_labels (sput ''le'' ''+Inf'' ls)) (to_string (last (hi_counts h))) @
       text_line (name @ ''_sum'' @ fmt_labels ls) (fmt (hi_sum h)) @ text_line (name @ ''_count'' @ fmt_labels ls) (to_string (hi_count h))))"

definition metric_text :: "(real \<Rightarrow> string) \<Rightarrow> (real \<Rightarrow> string) \<Rightarrow> string \<Rightarrow> MetricFamily \<Rightarrow> Labels \<times> metric \<Rightarrow> string option" where
  "metric_text fmt fmtf name f = (\<lambda>(ls, x). case (mf_type f, x) of
     (Counter, MCounter v) \<Rightarrow> Some (text_line (name @ fmt_labels ls) (fmt v))
   | (Gauge, MGauge v) \<Rightarrow> Some (text_line (name @ fmt_labels ls) (fmt v))
   | (Hist, MHist h) \<Rightarrow> hist_text fmt fmtf name (mf_buckets f) ls h
   | _ \<Rightarrow> None)"

definition all_some :: "'a option list \<Rightarrow> 'a list option" where
  "all_some xs = (if None \<in> set xs then None else Some (map the xs))"

definition family_text :: "(real \<Rightarrow> string) \<Rightarrow> (real \<Rightarrow> string) \<Rightarrow> string \<times> MetricFamily \<Rightarrow> string option" where
  "family_text fmt fmtf = (\<lambda>(name, f). map_option (\<lambda>ts. ''# HELP '' @ text_line name (mf_help f) @ ''# TYPE '' @ text_line name (type_name (mf_type f)) @ concat ts)
     (all_some (map (metric_text fmt fmtf name f) (sort_key fst (mf_metrics f)))))"

definition to_prometheus :: "(real \<Rightarrow> string) \<Rightarrow> (real \<Rightarrow> string) \<Rightarrow> Metrics \<Rightarrow> string option" where
  "to_prometheus fmt fmtf m = map_option concat (all_some (map (family_text fmt fmtf) (sort_key fst m)))"

definition json_entry :: "string \<Rightarrow> Labels \<Rightarrow> string \<Rightarrow> string" where
  "json_entry name ls value = ''{\"name\":\"'' @ name @ ''\",\"labels\":{'' @ commas (map (\<lambda>(k, v). ''\"'' @ k @ ''\":\"'' @ v @ ''\"'') ls) @
     ''},\"value\":'' @ value @ ''}''"

definition hist_json :: "(real \<Rightarrow> string) \<Rightarrow> string \<Rightarrow> real list \<Rightarrow> Labels \<Rightarrow> Histogram \<Rightarrow> string list option" where
  "hist_json fmt name buckets ls h = (if length (hi_counts h) < length buckets \<or> hi_counts h = [] then None
     else Some (map (\<lambda>(b, c). json_entry (name @ ''_bucket'') (ls @ [(''le'', fmt b)]) (to_string c)) (zip buckets (hi_counts h)) @
       [json_entry (name @ ''_bucket'') (ls @ [(''le'', ''+Inf'')]) (to_string (last (hi_counts h))), json_entry (name @ ''_sum'') ls (fmt (hi_sum h)),
        json_entry (name @ ''_count'') ls (to_string (hi_count h))]))"

definition metric_json :: "(real \<Rightarrow> string) \<Rightarrow> string \<Rightarrow> MetricFamily \<Rightarrow> Labels \<times> metric \<Rightarrow> string list option" where
  "metric_json fmt name f = (\<lambda>(ls, x). case (mf_type f, x) of
     (Counter, MCounter v) \<Rightarrow> Some [json_entry name ls (fmt v)]
   | (Gauge, MGauge v) \<Rightarrow> Some [json_entry name ls (fmt v)]
   | (Hist, MHist h) \<Rightarrow> hist_json fmt name (mf_buckets f) ls h
   | _ \<Rightarrow> None)"

definition m_to_json :: "(real \<Rightarrow> string) \<Rightarrow> Metrics \<Rightarrow> string option" where
  "m_to_json fmt m = map_option (\<lambda>es. ''{\"metrics\":['' @ commas (concat es) @ '']}'')
     (all_some (concat (map (\<lambda>(name, f). map (metric_json fmt name f) (sort_key fst (mf_metrics f))) (sort_key fst m))))"

section \<open>Indicators over a window\<close>

record SLIResult =
  sl_name :: string
  sl_value :: real
  sl_met :: bool

record sli_sample =
  sm_ok :: "64 word"
  sm_total :: "64 word"
  sm_jams :: "64 word"
  sm_t :: int

record WindowSLI =
  wi_window :: int
  wi_samples :: "sli_sample list"

definition sli_record :: "64 word \<Rightarrow> 64 word \<Rightarrow> 64 word \<Rightarrow> int \<Rightarrow> WindowSLI \<Rightarrow> WindowSLI" where
  "sli_record oks tot jams now w = w\<lparr>wi_samples := dropWhile (\<lambda>x. now - sm_t x > wi_window w)
     (wi_samples w @ [\<lparr>sm_ok = oks, sm_total = tot, sm_jams = jams, sm_t = now\<rparr>])\<rparr>"

text \<open>The growth of a counter over the window: an unsigned difference.\<close>

definition growth :: "(sli_sample \<Rightarrow> 64 word) \<Rightarrow> WindowSLI \<Rightarrow> real" where
  "growth f w = real (unat (f (last (wi_samples w)) - f (hd (wi_samples w))))"

definition success_rate :: "real \<Rightarrow> WindowSLI \<Rightarrow> SLIResult" where
  "success_rate target w = (if length (wi_samples w) < 2 then \<lparr>sl_name = ''success_rate'', sl_value = 0, sl_met = False\<rparr>
     else let val = (if growth sm_total w > 0 then growth sm_ok w / growth sm_total w else 0)
       in \<lparr>sl_name = ''success_rate'', sl_value = val, sl_met = (val \<ge> target)\<rparr>)"

definition jam_rate_per_1k :: "real \<Rightarrow> WindowSLI \<Rightarrow> SLIResult" where
  "jam_rate_per_1k target w = (if length (wi_samples w) < 2 then \<lparr>sl_name = ''jam_rate_per_1k'', sl_value = 0, sl_met = True\<rparr>
     else let rate = (if growth sm_total w > 0 then growth sm_jams w / growth sm_total w * 1000 else 0)
       in \<lparr>sl_name = ''jam_rate_per_1k'', sl_value = rate, sl_met = (rate \<le> target)\<rparr>)"

section \<open>What a histogram counts\<close>

lemma first_bucket_le: "first_bucket v bs \<le> length bs"
  by (induction bs) auto

lemma first_bucket_iff: "sorted bs \<Longrightarrow> i < length bs \<Longrightarrow> first_bucket v bs \<le> i \<longleftrightarrow> v \<le> bs ! i"
proof (induction bs arbitrary: i)
  case (Cons b bs)
  show ?case
  proof (cases i)
    case (Suc j)
    have "v \<le> bs ! j" if "v \<le> b" using that Cons.prems Suc by (auto intro: order_trans)
    then show ?thesis using Cons Suc by auto
  qed simp
qed simp

lemma observe_fields [simp]:
  "hi_buckets (hi_observe v h) = hi_buckets h" "length (hi_counts (hi_observe v h)) = length (hi_counts h)"
  "hi_sum (hi_observe v h) = hi_sum h + v" "hi_count (hi_observe v h) = hi_count h + 1"
  "i < length (hi_counts h) \<Longrightarrow> hi_counts (hi_observe v h) ! i = hi_counts h ! i + (if first_bucket v (hi_buckets h) \<le> i then 1 else 0)"
  by (simp_all add: hi_observe_def nth_enumerate_eq)

lemma observe_all:
  "i < length (hi_counts h) \<Longrightarrow>
     hi_counts (fold hi_observe vs h) ! i = hi_counts h ! i + int (length (filter (\<lambda>v. first_bucket v (hi_buckets h) \<le> i) vs))"
  "hi_buckets (fold hi_observe vs h) = hi_buckets h" "length (hi_counts (fold hi_observe vs h)) = length (hi_counts h)"
  "hi_sum (fold hi_observe vs h) = hi_sum h + sum_list vs" "hi_count (fold hi_observe vs h) = hi_count h + int (length vs)"
  by (induction vs arbitrary: h) auto

text \<open>
  With increasing bounds, each bucket of a histogram counts the observations that are at most its bound, the last bucket and the
  count all of them, and the sum is theirs.
\<close>

theorem histogram_counts:
  assumes "sorted bs" "h = fold hi_observe vs (Histogram_new bs)"
  shows "length (hi_counts h) = length bs + 1 \<and> (\<forall>i < length bs. hi_counts h ! i = int (length (filter (\<lambda>v. v \<le> bs ! i) vs))) \<and>
    last (hi_counts h) = int (length vs) \<and> hi_count h = int (length vs) \<and> hi_sum h = sum_list vs"
proof -
  have len: "length (hi_counts h) = length bs + 1" using assms(2) by (simp add: observe_all Histogram_new_def)
  have c: "hi_counts h ! i = int (length (filter (\<lambda>v. first_bucket v bs \<le> i) vs))" if "i \<le> length bs" for i
    using that assms(2) observe_all(1) [of i "Histogram_new bs" vs] by (simp add: Histogram_new_def del: replicate.simps)
  have "last (hi_counts h) = hi_counts h ! length bs" using len by (metis add_diff_cancel_right' last_conv_nth length_0_conv add_is_0 one_neq_zero)
  then have "last (hi_counts h) = int (length vs)" using c [of "length bs"] first_bucket_le by (simp add: filter_True)
  then show ?thesis using len c assms by (auto simp: first_bucket_iff observe_all Histogram_new_def)
qed

section \<open>What the indicators say\<close>

text \<open>Later samples have larger counters, and no more successes than transactions were added.\<close>

definition grows :: "sli_sample \<Rightarrow> sli_sample \<Rightarrow> bool" where
  "grows a b \<longleftrightarrow> sm_ok a \<le> sm_ok b \<and> sm_total a \<le> sm_total b \<and> sm_ok b - sm_ok a \<le> sm_total b - sm_total a"

definition sli_run :: "sli_sample list \<Rightarrow> WindowSLI \<Rightarrow> WindowSLI" where
  "sli_run xs = fold (\<lambda>x. sli_record (sm_ok x) (sm_total x) (sm_jams x) (sm_t x)) xs"

lemma sli_run_suffix: "\<exists>ys. wi_samples w @ xs = ys @ wi_samples (sli_run xs w)"
proof (induction xs arbitrary: w)
  case (Cons x xs)
  let ?w = "sli_record (sm_ok x) (sm_total x) (sm_jams x) (sm_t x) w"
  have "wi_samples ?w = dropWhile (\<lambda>y. sm_t x - sm_t y > wi_window w) (wi_samples w @ [x])" by (cases x) (simp add: sli_record_def)
  then obtain zs where z: "wi_samples w @ [x] = zs @ wi_samples ?w" using takeWhile_dropWhile_id by metis
  from Cons [of ?w] obtain ys where "wi_samples ?w @ xs = ys @ wi_samples (sli_run xs ?w)" by blast
  then have "wi_samples w @ x # xs = (zs @ ys) @ wi_samples (sli_run xs ?w)" using arg_cong [OF z, of "\<lambda>l. l @ xs"] by simp
  then show ?case by (auto simp: sli_run_def)
qed (simp add: sli_run_def)

lemma word_growth: "a \<le> b \<Longrightarrow> unat (b - a) = unat b - unat a" for a b :: "'a::len word"
  by (simp add: unat_sub)

text \<open>
  If the counters only grow, and never by more successes than transactions, the success rate is the share of successes among the
  transactions between the oldest and the latest sample of the window: a number between 0 and 1.
\<close>

theorem success_rate_is_rate:
  assumes "sorted_wrt grows xs" "w = sli_run xs \<lparr>wi_window = win, wi_samples = []\<rparr>" "2 \<le> length (wi_samples w)"
    and "a = hd (wi_samples w)" "b = last (wi_samples w)" "sm_total a \<noteq> sm_total b"
  shows "sl_value (success_rate target w) = (real (unat (sm_ok b)) - real (unat (sm_ok a))) / (real (unat (sm_total b)) - real (unat (sm_total a))) \<and>
    0 \<le> sl_value (success_rate target w) \<and> sl_value (success_rate target w) \<le> 1 \<and>
    (sl_met (success_rate target w) \<longleftrightarrow> target \<le> sl_value (success_rate target w))"
proof -
  obtain ys where "xs = ys @ wi_samples w" using sli_run_suffix [of "\<lparr>wi_window = win, wi_samples = []\<rparr>" xs] assms(2) by auto
  then have s: "sorted_wrt grows (wi_samples w)" using assms(1) by (simp add: sorted_wrt_append)
  obtain zs where zs: "wi_samples w = a # zs" "zs \<noteq> []" using assms(3,4) by (cases "wi_samples w"; cases "tl (wi_samples w)") auto
  then have "grows a b" using s assms(5) by simp
  then have g: "sm_ok a \<le> sm_ok b" "sm_total a \<le> sm_total b" "sm_ok b - sm_ok a \<le> sm_total b - sm_total a" by (simp_all add: grows_def)
  have ok: "growth sm_ok w = real (unat (sm_ok b)) - real (unat (sm_ok a))" "growth sm_total w = real (unat (sm_total b)) - real (unat (sm_total a))"
    using g(1,2) assms(4,5) by (simp_all add: growth_def word_growth word_le_nat_alt of_nat_diff)
  have "unat (sm_ok b - sm_ok a) \<le> unat (sm_total b - sm_total a)" using g(3) by (simp add: word_le_nat_alt)
  then have le: "growth sm_ok w \<le> growth sm_total w" "0 \<le> growth sm_ok w" unfolding growth_def assms(4,5) by (simp_all only: of_nat_le_iff of_nat_0_le_iff)
  have "unat (sm_total a) < unat (sm_total b)" using g(2) assms(6) by (metis order.not_eq_order_implies_strict word_less_nat_alt)
  then have "real (unat (sm_total a)) < real (unat (sm_total b))" by (simp only: of_nat_less_iff)
  then have pos: "0 < growth sm_total w" using ok(2) by linarith
  then show ?thesis using le assms(3) ok by (simp add: success_rate_def Let_def)
qed

section \<open>When the texts are defined\<close>

datatype m_use = Inc string string Labels real | Set string string Labels real | Add string string Labels real
  | Observe string string "real list" Labels real

text \<open>A use of the registry: the lookup, and the update through the reference it returns.\<close>

fun m_apply :: "m_use \<Rightarrow> Metrics \<Rightarrow> Metrics option" where
  "m_apply (Inc name hp ls d) m = at_metric name ls (counter_inc d) (m_counter name hp ls m)"
| "m_apply (Set name hp ls d) m = at_metric name ls (gauge_set d) (m_gauge name hp ls m)"
| "m_apply (Add name hp ls d) m = at_metric name ls (gauge_inc d) (m_gauge name hp ls m)"
| "m_apply (Observe name hp bs ls d) m = at_metric name ls (hist_observe d) (m_histogram name hp bs ls m)"

fun m_run :: "m_use list \<Rightarrow> Metrics \<Rightarrow> Metrics option" where
  "m_run [] m = Some m"
| "m_run (u # us) m = (case m_apply u m of None \<Rightarrow> None | Some m1 \<Rightarrow> m_run us m1)"

text \<open>Each name is used with one type, each histogram with one list of bounds.\<close>

fun fits :: "(string \<Rightarrow> metric_type) \<Rightarrow> (string \<Rightarrow> real list) \<Rightarrow> m_use \<Rightarrow> bool" where
  "fits ty bk (Inc name hp ls d) \<longleftrightarrow> ty name = Counter"
| "fits ty bk (Set name hp ls d) \<longleftrightarrow> ty name = Gauge"
| "fits ty bk (Add name hp ls d) \<longleftrightarrow> ty name = Gauge"
| "fits ty bk (Observe name hp bs ls d) \<longleftrightarrow> ty name = Hist \<and> bk name = bs"

fun metric_fits :: "metric_type \<Rightarrow> real list \<Rightarrow> metric \<Rightarrow> bool" where
  "metric_fits Counter bs (MCounter v) \<longleftrightarrow> True"
| "metric_fits Gauge bs (MGauge v) \<longleftrightarrow> True"
| "metric_fits Hist bs (MHist h) \<longleftrightarrow> length (hi_counts h) = length bs + 1"
| "metric_fits _ bs _ \<longleftrightarrow> False"

definition family_fits :: "(string \<Rightarrow> metric_type) \<Rightarrow> (string \<Rightarrow> real list) \<Rightarrow> string \<Rightarrow> MetricFamily \<Rightarrow> bool" where
  "family_fits ty bk name f \<longleftrightarrow> mf_type f = ty name \<and> (ty name = Hist \<longrightarrow> mf_buckets f = bk name) \<and> (ty name \<noteq> Hist \<longrightarrow> mf_buckets f = []) \<and>
     distinct (map fst (mf_metrics f)) \<and> (\<forall>ls x. get (mf_metrics f) ls = Some x \<longrightarrow> metric_fits (ty name) (bk name) x)"

definition registry_fits :: "(string \<Rightarrow> metric_type) \<Rightarrow> (string \<Rightarrow> real list) \<Rightarrow> Metrics \<Rightarrow> bool" where
  "registry_fits ty bk m \<longleftrightarrow> distinct (map fst m) \<and> (\<forall>name f. get m name = Some f \<longrightarrow> family_fits ty bk name f)"

lemma family_parts:
  assumes "registry_fits ty bk m"
  shows "distinct (map fst (mf_metrics (family name m)))" "\<And>ls x. get (mf_metrics (family name m)) ls = Some x \<Longrightarrow> metric_fits (ty name) (bk name) x"
    "ty name = Hist \<Longrightarrow> mf_buckets (family name m) \<in> {[], bk name}" "ty name \<noteq> Hist \<Longrightarrow> mf_buckets (family name m) = []"
proof -
  have "get m name = None \<and> family name m = MetricFamily_default \<or> family_fits ty bk name (family name m)"
    using assms by (cases "get m name") (auto simp: family_def registry_fits_def)
  then show "distinct (map fst (mf_metrics (family name m)))" "\<And>ls x. get (mf_metrics (family name m)) ls = Some x \<Longrightarrow> metric_fits (ty name) (bk name) x"
    "ty name = Hist \<Longrightarrow> mf_buckets (family name m) \<in> {[], bk name}" "ty name \<noteq> Hist \<Longrightarrow> mf_buckets (family name m) = []"
    by (auto simp: family_fits_def MetricFamily_default_def get_def [of "[]"])
qed

text \<open>After a lookup the family fits, and the metric that is asked for is there.\<close>

lemma looked_up:
  assumes "registry_fits ty bk m" "metric_fits (ty name) (bk name) x0" "mf_type f = ty name" "mf_metrics f = mf_metrics (family name m)"
    and "ty name = Hist \<longrightarrow> mf_buckets f = bk name" "ty name \<noteq> Hist \<longrightarrow> mf_buckets f = []"
  shows "family_fits ty bk name (with_metric ls x0 f)" "\<exists>x. get (mf_metrics (with_metric ls x0 f)) ls = Some x"
  using assms family_parts [OF assms(1), of name] by (auto simp: family_fits_def with_metric_def)

lemma family_put [simp]: "family name (put name f m) = f"
  by (simp add: family_def)

text \<open>An update of the right type succeeds and keeps the registry in shape.\<close>

lemma at_metric_fits:
  assumes "registry_fits ty bk m" "family_fits ty bk name f" "\<exists>x. get (mf_metrics f) ls = Some x"
    and "\<And>x. metric_fits (ty name) (bk name) x \<Longrightarrow> \<exists>y. upd x = Some y \<and> metric_fits (ty name) (bk name) y"
  shows "\<exists>m'. at_metric name ls upd (put name f m) = Some m' \<and> registry_fits ty bk m'"
proof -
  from assms(3) obtain x where x: "get (mf_metrics f) ls = Some x" by blast
  moreover have "metric_fits (ty name) (bk name) x" using assms(2) x by (auto simp: family_fits_def)
  then obtain y where y: "upd x = Some y" "metric_fits (ty name) (bk name) y" using assms(4) by blast
  have "family_fits ty bk name (f\<lparr>mf_metrics := put ls y (mf_metrics f)\<rparr>)" using assms(2) y(2) by (auto simp: family_fits_def)
  then have "registry_fits ty bk (put name (f\<lparr>mf_metrics := put ls y (mf_metrics f)\<rparr>) (put name f m))"
    using assms(1) by (auto simp: registry_fits_def)
  then show ?thesis using x y(1) by (simp add: at_metric_def)
qed

text \<open>The updates of each type.\<close>

lemma updates_fit:
  "metric_fits Counter bs x \<Longrightarrow> \<exists>y. counter_inc d x = Some y \<and> metric_fits Counter bs y"
  "metric_fits Gauge bs x \<Longrightarrow> \<exists>y. gauge_set d x = Some y \<and> metric_fits Gauge bs y"
  "metric_fits Gauge bs x \<Longrightarrow> \<exists>y. gauge_inc d x = Some y \<and> metric_fits Gauge bs y"
  "metric_fits Hist bs x \<Longrightarrow> \<exists>y. hist_observe d x = Some y \<and> metric_fits Hist bs y"
  by (cases x; simp)+

lemma use_fits:
  assumes "registry_fits ty bk m" "metric_fits (ty name) (bk name) x0" "mf_type f = ty name" "mf_metrics f = mf_metrics (family name m)"
    and "ty name = Hist \<longrightarrow> mf_buckets f = bk name" "ty name \<noteq> Hist \<longrightarrow> mf_buckets f = []"
    and "\<And>x. metric_fits (ty name) (bk name) x \<Longrightarrow> \<exists>y. upd x = Some y \<and> metric_fits (ty name) (bk name) y"
  shows "\<exists>m'. at_metric name ls upd (put name (with_metric ls x0 f) m) = Some m' \<and> registry_fits ty bk m'"
  by (rule at_metric_fits [OF assms(1) looked_up [OF assms(1-6)] assms(7)])

lemma m_apply_fits:
  assumes "registry_fits ty bk m" "fits ty bk u"
  shows "\<exists>m'. m_apply u m = Some m' \<and> registry_fits ty bk m'"
proof (cases u)
  case (Inc name hp ls d)
  have ty: "ty name = Counter" using assms(2) Inc by simp
  show ?thesis unfolding Inc m_apply.simps m_counter_def
    by (rule use_fits [OF assms(1)]) (use ty family_parts(4) [OF assms(1), of name] updates_fit(1) in auto)
next
  case (Set name hp ls d)
  have ty: "ty name = Gauge" using assms(2) Set by simp
  show ?thesis unfolding Set m_apply.simps m_gauge_def
    by (rule use_fits [OF assms(1)]) (use ty family_parts(4) [OF assms(1), of name] updates_fit(2) in auto)
next
  case (Add name hp ls d)
  have ty: "ty name = Gauge" using assms(2) Add by simp
  show ?thesis unfolding Add m_apply.simps m_gauge_def
    by (rule use_fits [OF assms(1)]) (use ty family_parts(4) [OF assms(1), of name] updates_fit(3) in auto)
next
  case (Observe name hp bs ls d)
  have ty: "ty name = Hist" "bk name = bs" using assms(2) Observe by simp_all
  show ?thesis unfolding Observe m_apply.simps m_histogram_def Let_def
    by (rule use_fits [OF assms(1)])
      (use ty family_parts(3) [OF assms(1), of name] updates_fit(4) in \<open>auto simp: Histogram_new_def\<close>)
qed

lemma m_run_fits: "registry_fits ty bk m \<Longrightarrow> list_all (fits ty bk) us \<Longrightarrow> \<exists>m'. m_run us m = Some m' \<and> registry_fits ty bk m'"
proof (induction us arbitrary: m)
  case (Cons u us)
  then obtain m1 where "m_apply u m = Some m1" "registry_fits ty bk m1" using m_apply_fits by fastforce
  then show ?case using Cons by simp
qed simp

lemma all_some_defined: "(\<And>x. x \<in> set xs \<Longrightarrow> x \<noteq> None) \<Longrightarrow> all_some xs \<noteq> None"
  unfolding all_some_def by (metis option.distinct(1))

lemma metric_printed:
  assumes "registry_fits ty bk m" "(name, f) \<in> set m" "(ls, x) \<in> set (mf_metrics f)"
  shows "metric_text fmt fmtf name f (ls, x) \<noteq> None" "metric_json fmt name f (ls, x) \<noteq> None"
proof -
  have f: "family_fits ty bk name f" using assms(1,2) by (auto simp: registry_fits_def intro: in_set_get)
  then have "metric_fits (ty name) (bk name) x" using assms(3) by (auto simp: family_fits_def intro: in_set_get)
  then show "metric_text fmt fmtf name f (ls, x) \<noteq> None" "metric_json fmt name f (ls, x) \<noteq> None"
    using f by (cases "ty name"; cases x; auto simp: family_fits_def metric_text_def metric_json_def hist_text_def hist_json_def)+
qed

text \<open>
  A program that uses each name with one type, and each histogram with one list of bounds, never reads a metric as something it is not:
  every update succeeds, and both texts are defined at any time.
\<close>

theorem typed_metrics_defined:
  assumes "list_all (fits ty bk) us"
  shows "\<exists>m. m_run us [] = Some m \<and> to_prometheus fmt fmtf m \<noteq> None \<and> m_to_json fmt m \<noteq> None"
proof -
  have "registry_fits ty bk []" by (simp add: registry_fits_def get_def)
  then obtain m where m: "m_run us [] = Some m" "registry_fits ty bk m" using m_run_fits assms by blast
  have "all_some (map (metric_text fmt fmtf name f) (sort_key fst (mf_metrics f))) \<noteq> None" if "(name, f) \<in> set m" for name f
    using metric_printed(1) [OF m(2) that] by (intro all_some_defined) auto
  then have "family_text fmt fmtf nf \<noteq> None" if "nf \<in> set m" for nf using that by (cases nf) (simp add: family_text_def)
  then have "all_some (map (family_text fmt fmtf) (sort_key fst m)) \<noteq> None" by (intro all_some_defined) auto
  then have "to_prometheus fmt fmtf m \<noteq> None" by (simp add: to_prometheus_def)
  moreover have "all_some (concat (map (\<lambda>(name, f). map (metric_json fmt name f) (sort_key fst (mf_metrics f))) (sort_key fst m))) \<noteq> None"
    using metric_printed(2) [OF m(2)] by (intro all_some_defined) (fastforce simp del: not_None_eq)
  then have "m_to_json fmt m \<noteq> None" by (simp add: m_to_json_def)
  ultimately show ?thesis using m(1) by blast
qed

text \<open>Otherwise not: a histogram first asked for without bounds, and then with one, is read beyond its counts.\<close>

lemma late_bounds_read_too_far:
  "map_option (to_prometheus fmt fmtf) (m_run [Observe ''h'' [] [] [] 1, Observe ''h'' [] [1, 2] [] 1] []) = Some None"
  by (simp add: m_histogram_def with_metric_def at_metric_def Let_def Histogram_new_def MetricFamily_default_def to_prometheus_def family_text_def
      metric_text_def hist_text_def all_some_def hi_observe_def family_def get_def put_def)

end
